(* ===== verification/Go_Base.thy ===== *)
theory Go_Base
  imports Main "HOL-Library.AList" "HOL-Library.Multiset" "HOL-Library.Sublist"
begin

text \<open>
  The parts of the Go language and of its standard library that the modelled components use.

  Integers (\<open>int\<close>, \<open>int64\<close>) are values of type \<^typ>\<open>int\<close>; \<open>wrap64\<close> is the
  two's-complement wrap-around and is written where the source does arithmetic that can leave the
  64-bit range. A \<open>time.Time\<close> is the number of nanoseconds since the zero time, so that
  \<open>IsZero\<close> is equality with \<open>0\<close>, \<open>Before\<close>, \<open>After\<close> and \<open>Equal\<close> are the
  order of \<^typ>\<open>int\<close> and \<open>Sub\<close> saturates at the ends of the 64-bit range as the
  library does; monotonic clock readings are not modelled. A \<open>string\<close> is a byte sequence, which
  is what a HOL \<^typ>\<open>string\<close> is. Maps are association lists with distinct keys; where the
  source ranges over a map in a way that can depend on the iteration order, the order is an argument
  of the model.

  The case tables of the Unicode database are data that Go ships with: they are an argument
  (\<open>unicode_tables\<close>) of the functions that fold case, which use them, as Go does, only for
  strings that are not pure ASCII.
\<close>

named_theorems go_simps \<open>unfolding rules of the Go library functions\<close>

section \<open>Integers, time and durations\<close>

type_synonym int64 = int
type_synonym go_time = int
type_synonym duration = int

definition max_int64 :: int where
  "max_int64 = 9223372036854775807"

definition min_int64 :: int where
  "min_int64 = - 9223372036854775808"

definition wrap64 :: "int \<Rightarrow> int" where
  "wrap64 x = (x + 9223372036854775808) mod 18446744073709551616 - 9223372036854775808"

definition sat64 :: "int \<Rightarrow> int" where
  "sat64 x = (if x < min_int64 then min_int64 else if max_int64 < x then max_int64 else x)"

definition second :: duration where
  "second = 1000000000"

definition millisecond :: duration where
  "millisecond = 1000000"

definition minute :: duration where
  "minute = 60 * second"

definition hour :: duration where
  "hour = 60 * minute"

definition time_sub :: "go_time \<Rightarrow> go_time \<Rightarrow> duration" where
  "time_sub t u = sat64 (t - u)"

definition unix_epoch :: go_time where
  "unix_epoch = 62135596800 * second"

definition unix_nano :: "go_time \<Rightarrow> int" where
  "unix_nano t = wrap64 (t - unix_epoch)"

text \<open>Go's integer division and remainder truncate towards zero.\<close>

definition go_quot :: "int \<Rightarrow> int \<Rightarrow> int" where
  "go_quot a b = sgn a * sgn b * (\<bar>a\<bar> div \<bar>b\<bar>)"

definition go_rem :: "int \<Rightarrow> int \<Rightarrow> int" where
  "go_rem a b = a - b * go_quot a b"

lemmas duration_defs = second_def millisecond_def minute_def hour_def

lemma wrap64_id [simp]: "min_int64 \<le> x \<Longrightarrow> x \<le> max_int64 \<Longrightarrow> wrap64 x = x"
  by (simp add: wrap64_def min_int64_def max_int64_def)

lemma wrap64_range: "min_int64 \<le> wrap64 x \<and> wrap64 x \<le> max_int64"
proof -
  have "0 \<le> (x + 9223372036854775808) mod 18446744073709551616"
    "(x + 9223372036854775808) mod 18446744073709551616 < 18446744073709551616" by simp_all
  then show ?thesis by (simp add: wrap64_def min_int64_def max_int64_def)
qed

lemma sat64_less_iff: "min_int64 < k \<Longrightarrow> k \<le> max_int64 \<Longrightarrow> sat64 x < k \<longleftrightarrow> x < k"
  by (auto simp: sat64_def)

lemma sat64_ge_iff: "min_int64 < k \<Longrightarrow> k \<le> max_int64 \<Longrightarrow> k \<le> sat64 x \<longleftrightarrow> k \<le> x"
  by (auto simp: sat64_def)

lemma sat64_greater_iff: "min_int64 \<le> k \<Longrightarrow> k < max_int64 \<Longrightarrow> k < sat64 x \<longleftrightarrow> k < x"
  by (auto simp: sat64_def)

lemma sat64_pos_iff [simp]: "0 \<le> sat64 x \<longleftrightarrow> 0 \<le> x"
  by (auto simp: sat64_def min_int64_def max_int64_def)

lemma sat64_id [simp]: "min_int64 \<le> x \<Longrightarrow> x \<le> max_int64 \<Longrightarrow> sat64 x = x"
  by (auto simp: sat64_def)

lemma go_quot_nonneg: "0 \<le> a \<Longrightarrow> 0 < b \<Longrightarrow> go_quot a b = a div b"
  by (cases "a = 0") (auto simp: go_quot_def sgn_if)

lemma go_rem_nonneg: "0 \<le> a \<Longrightarrow> 0 < b \<Longrightarrow> go_rem a b = a mod b"
  by (simp add: go_rem_def go_quot_nonneg minus_mult_div_eq_mod)

section \<open>Strings\<close>

definition ascii_char :: "char \<Rightarrow> bool" where
  "ascii_char c \<longleftrightarrow> (of_char c :: nat) < 128"

definition lower_char :: "char \<Rightarrow> char" where
  "lower_char c = (if 65 \<le> (of_char c :: nat) \<and> (of_char c :: nat) \<le> 90
     then char_of ((of_char c :: nat) + 32) else c)"

definition upper_char :: "char \<Rightarrow> char" where
  "upper_char c = (if 97 \<le> (of_char c :: nat) \<and> (of_char c :: nat) \<le> 122
     then char_of ((of_char c :: nat) - 32) else c)"

definition ascii_string :: "string \<Rightarrow> bool" where
  "ascii_string s = list_all ascii_char s"

record unicode_tables =
  uni_to_lower :: "string \<Rightarrow> string"
  uni_to_upper :: "string \<Rightarrow> string"
  uni_equal_fold :: "string \<Rightarrow> string \<Rightarrow> bool"

definition ToLower :: "unicode_tables \<Rightarrow> string \<Rightarrow> string" where
  "ToLower U s = (if ascii_string s then map lower_char s else uni_to_lower U s)"

definition ToUpper :: "unicode_tables \<Rightarrow> string \<Rightarrow> string" where
  "ToUpper U s = (if ascii_string s then map upper_char s else uni_to_upper U s)"

definition EqualFold :: "unicode_tables \<Rightarrow> string \<Rightarrow> string \<Rightarrow> bool" where
  "EqualFold U s t = (if ascii_string s \<and> ascii_string t
     then map lower_char s = map lower_char t else uni_equal_fold U s t)"

definition ascii_tables :: unicode_tables where
  "ascii_tables = \<lparr>uni_to_lower = map lower_char, uni_to_upper = map upper_char,
     uni_equal_fold = (\<lambda>s t. map lower_char s = map lower_char t)\<rparr>"

definition HasPrefix :: "string \<Rightarrow> string \<Rightarrow> bool" where
  "HasPrefix s p \<longleftrightarrow> take (length p) s = p"

definition HasSuffix :: "string \<Rightarrow> string \<Rightarrow> bool" where
  "HasSuffix s p \<longleftrightarrow> length p \<le> length s \<and> drop (length s - length p) s = p"

definition TrimSuffix :: "string \<Rightarrow> string \<Rightarrow> string" where
  "TrimSuffix s p = (if HasSuffix s p then take (length s - length p) s else s)"

definition Contains :: "string \<Rightarrow> string \<Rightarrow> bool" where
  "Contains s t = list_ex (\<lambda>i. HasPrefix (drop i s) t) [0..<Suc (length s)]"

text \<open>
  \<open>strings.TrimSpace\<close> removes the runes of \<open>unicode.IsSpace\<close> at both ends; they are given
  by their UTF-8 encodings.
\<close>

definition space_runes :: "string list" where
  "space_runes = [
    [CHR 0x09], [CHR 0x0A], [CHR 0x0B], [CHR 0x0C], [CHR 0x0D], [CHR 0x20], [CHR 0xC2, CHR 0x85],
    [CHR 0xC2, CHR 0xA0], [CHR 0xE1, CHR 0x9A, CHR 0x80], [CHR 0xE2, CHR 0x80, CHR 0xA8],
    [CHR 0xE2, CHR 0x80, CHR 0xA9], [CHR 0xE2, CHR 0x80, CHR 0xAF],
    [CHR 0xE2, CHR 0x81, CHR 0x9F], [CHR 0xE3, CHR 0x80, CHR 0x80],
    [CHR 0xE2, CHR 0x80, CHR 0x80], [CHR 0xE2, CHR 0x80, CHR 0x81],
    [CHR 0xE2, CHR 0x80, CHR 0x82], [CHR 0xE2, CHR 0x80, CHR 0x83],
    [CHR 0xE2, CHR 0x80, CHR 0x84], [CHR 0xE2, CHR 0x80, CHR 0x85],
    [CHR 0xE2, CHR 0x80, CHR 0x86], [CHR 0xE2, CHR 0x80, CHR 0x87],
    [CHR 0xE2, CHR 0x80, CHR 0x88], [CHR 0xE2, CHR 0x80, CHR 0x89],
    [CHR 0xE2, CHR 0x80, CHR 0x8A]]"

fun strip_one :: "string list \<Rightarrow> string \<Rightarrow> string option" where
  "strip_one [] s = None"
| "strip_one (p # ps) s =
     (if p \<noteq> [] \<and> HasPrefix s p then Some (drop (length p) s) else strip_one ps s)"

lemma strip_one_shorter: "strip_one ps s = Some r \<Longrightarrow> length r < length s"
proof (induction ps)
  case (Cons p ps)
  show ?case
  proof (cases "p \<noteq> [] \<and> HasPrefix s p")
    case True
    then have "length p \<le> length s" "0 < length p"
      by (auto simp: HasPrefix_def) (metis length_take min.cobounded1)
    then have "length s - length p < length s" by linarith
    with True Cons.prems show ?thesis by auto
  qed (use Cons in auto)
qed simp

function strip_all :: "string list \<Rightarrow> string \<Rightarrow> string" where
  "strip_all ps s = (case strip_one ps s of None \<Rightarrow> s | Some r \<Rightarrow> strip_all ps r)"
  by pat_completeness auto
termination
  by (relation "measure (\<lambda>(ps, s). length s)") (auto dest: strip_one_shorter)

declare strip_all.simps [simp del]

definition TrimSpace :: "string \<Rightarrow> string" where
  "TrimSpace s = rev (strip_all (map rev space_runes) (rev (strip_all space_runes s)))"

text \<open>Trimming keeps nothing to trim, so it is idempotent.\<close>

lemma strip_all_fix: "strip_one ps (strip_all ps s) = None"
proof (induction ps s rule: strip_all.induct)
  case (1 ps s)
  then show ?case by (subst strip_all.simps) (auto split: option.splits)
qed

lemma strip_all_id: "strip_one ps s = None \<Longrightarrow> strip_all ps s = s"
  by (simp add: strip_all.simps)

lemma strip_one_None_iff:
  "strip_one ps s = None \<longleftrightarrow> (\<forall>p \<in> set ps. p \<noteq> [] \<longrightarrow> \<not> HasPrefix s p)"
  by (induction ps) auto

lemma strip_all_suffix: "\<exists>k. strip_all ps s = drop k s"
proof (induction ps s rule: strip_all.induct)
  case (1 ps s)
  show ?case
  proof (cases "strip_one ps s")
    case None
    then have "strip_all ps s = drop 0 s" by (simp add: strip_all_id)
    then show ?thesis by blast
  next
    case (Some r)
    have "\<exists>j. r = drop j s"
      using Some by (induction ps) (auto split: if_splits)
    moreover obtain k where "strip_all ps r = drop k r" using 1 Some by blast
    ultimately have "\<exists>k. strip_all ps r = drop k s" by (auto simp: add.commute)
    with Some show ?thesis by (simp add: strip_all.simps [of ps s])
  qed
qed

lemma HasPrefix_take: "HasPrefix (take k s) p \<Longrightarrow> HasPrefix s p"
proof -
  assume "HasPrefix (take k s) p"
  then have p: "take (length p) (take k s) = p" by (simp add: HasPrefix_def)
  then have "length p \<le> k" by (metis length_take min.bounded_iff order_refl take_take)
  with p show ?thesis by (simp add: HasPrefix_def min_absorb1)
qed

lemma TrimSpace_idem: "TrimSpace (TrimSpace s) = TrimSpace s"
proof -
  let ?l = "strip_all space_runes s" and ?ps = "map rev space_runes"
  obtain k where k: "strip_all ?ps (rev ?l) = drop k (rev ?l)" using strip_all_suffix by blast
  have t: "TrimSpace s = rev (strip_all ?ps (rev ?l))" by (simp add: TrimSpace_def)
  then have "TrimSpace s = take (length ?l - k) ?l" by (simp add: k rev_drop)
  then have "strip_one space_runes (TrimSpace s) = None"
    using strip_all_fix [of space_runes s] HasPrefix_take
    by (metis strip_one_None_iff)
  then have "strip_all space_runes (TrimSpace s) = TrimSpace s" by (rule strip_all_id)
  moreover have "strip_all ?ps (rev (TrimSpace s)) = rev (TrimSpace s)"
    unfolding t rev_rev_ident by (rule strip_all_id) (rule strip_all_fix)
  ultimately show ?thesis by (simp add: TrimSpace_def [of "TrimSpace s"])
qed

lemma TrimSpace_Nil [simp]: "TrimSpace [] = []"
  by (simp add: TrimSpace_def strip_all_id strip_one_None_iff HasPrefix_def)

lemma ToLower_Nil [simp]: "ToLower U [] = []"
  by (simp add: ToLower_def ascii_string_def)

lemma HasPrefix_append [simp]: "HasPrefix (p @ s) p"
  by (simp add: HasPrefix_def)

lemma HasPrefix_iff: "HasPrefix s p \<longleftrightarrow> (\<exists>r. s = p @ r)"
  by (metis HasPrefix_append HasPrefix_def append_take_drop_id)

lemma HasSuffix_iff: "HasSuffix s p \<longleftrightarrow> (\<exists>r. s = r @ p)"
proof
  assume "HasSuffix s p"
  then have "s = take (length s - length p) s @ p"
    by (simp add: HasSuffix_def) (metis append_take_drop_id)
  then show "\<exists>r. s = r @ p" by blast
qed (auto simp: HasSuffix_def)

lemma TrimSuffix_append [simp]: "TrimSuffix (s @ p) p = s"
  by (simp add: TrimSuffix_def HasSuffix_iff)

section \<open>Stable sorting with a comparison function\<close>

text \<open>
  \<open>sort.SliceStable\<close> sorts by a \<open>less\<close> function and keeps the order of elements that
  are not ordered by it. For a strict weak order the result is determined; it is computed here by
  insertion.
\<close>

fun stable_insert :: "('a \<Rightarrow> 'a \<Rightarrow> bool) \<Rightarrow> 'a \<Rightarrow> 'a list \<Rightarrow> 'a list" where
  "stable_insert lt x [] = [x]"
| "stable_insert lt x (y # ys) =
     (if lt y x then y # stable_insert lt x ys else x # y # ys)"

fun stable_sort :: "('a \<Rightarrow> 'a \<Rightarrow> bool) \<Rightarrow> 'a list \<Rightarrow> 'a list" where
  "stable_sort lt [] = []"
| "stable_sort lt (x # xs) = stable_insert lt x (stable_sort lt xs)"

lemma mset_stable_insert [simp]: "mset (stable_insert lt x ys) = add_mset x (mset ys)"
  by (induction ys) auto

lemma mset_stable_sort [simp]: "mset (stable_sort lt xs) = mset xs"
  by (induction xs) auto

lemma set_stable_sort [simp]: "set (stable_sort lt xs) = set xs"
  by (metis mset_stable_sort set_mset_mset)

lemma length_stable_sort [simp]: "length (stable_sort lt xs) = length xs"
  by (metis mset_stable_sort size_mset)

lemma stable_sort_Nil_iff [simp]: "stable_sort lt xs = [] \<longleftrightarrow> xs = []"
  by (metis length_0_conv length_stable_sort)

lemma distinct_stable_sort [simp]: "distinct (stable_sort lt xs) = distinct xs"
  by (metis mset_eq_imp_distinct_iff mset_stable_sort)

text \<open>
  What a comparison function owes to the sort: it is asymmetric, and incomparability is transitive
  (stated as: what is not below stays not below along the order).
\<close>

locale comparator =
  fixes lt :: "'a \<Rightarrow> 'a \<Rightarrow> bool"
  assumes asym: "lt x y \<Longrightarrow> \<not> lt y x"
    and neg_trans: "lt x z \<Longrightarrow> lt x y \<or> lt y z"
begin

lemma set_stable_insert: "set (stable_insert lt x ys) = insert x (set ys)"
  by (metis mset_stable_insert set_mset_add_mset_insert set_mset_mset)

lemma not_less_trans: "\<not> lt y x \<Longrightarrow> \<not> lt z y \<Longrightarrow> \<not> lt z x"
  using neg_trans by blast

lemma stable_insert_sorted:
  "sorted_wrt (\<lambda>a b. \<not> lt b a) ys \<Longrightarrow>
   sorted_wrt (\<lambda>a b. \<not> lt b a) (stable_insert lt x ys)"
proof (induction ys)
  case (Cons y ys)
  then show ?case
    by (auto simp: set_stable_insert dest: asym not_less_trans)
qed simp

lemma stable_sort_sorted: "sorted_wrt (\<lambda>a b. \<not> lt b a) (stable_sort lt xs)"
  by (induction xs) (auto intro: stable_insert_sorted)

lemma stable_sort_hd_least:
  assumes "stable_sort lt xs = y # ys" and "x \<in> set xs"
  shows "\<not> lt x y"
proof -
  have "x \<in> set (y # ys)" using assms by (metis set_stable_sort)
  moreover have "sorted_wrt (\<lambda>a b. \<not> lt b a) (y # ys)"
    using stable_sort_sorted [of xs] assms(1) by simp
  ultimately show ?thesis using asym [of y y] by auto
qed

text \<open>Stability: elements that are mutually unordered keep their relative order.\<close>

lemma stable_insert_filter:
  assumes "\<And>a b. P a \<Longrightarrow> P b \<Longrightarrow> \<not> lt a b"
  shows "filter P (stable_insert lt x ys) = (if P x then x # filter P ys else filter P ys)"
proof (induction ys)
  case (Cons y ys)
  then show ?case using assms by auto
qed simp

lemma stable_sort_stable:
  assumes "\<And>a b. P a \<Longrightarrow> P b \<Longrightarrow> \<not> lt a b"
  shows "filter P (stable_sort lt xs) = filter P xs"
  by (induction xs) (auto simp: stable_insert_filter [OF assms])

end

section \<open>Deduplication into a sorted slice of identifiers\<close>

text \<open>
  Several handlers collect identifiers in a map used as a set and return them sorted.
\<close>

definition sorted_ids :: "int list \<Rightarrow> int list" where
  "sorted_ids xs = sorted_list_of_set (set xs)"

lemma set_sorted_ids [simp]: "set (sorted_ids xs) = set xs"
  by (simp add: sorted_ids_def)

lemma sorted_wrt_sorted_ids [simp]: "sorted_wrt (<) (sorted_ids xs)"
  by (simp add: sorted_ids_def)

lemma sorted_ids_Nil_iff [simp]: "sorted_ids xs = [] \<longleftrightarrow> xs = []"
  by (simp add: sorted_ids_def)

lemma sorted_ids_unique:
  "sorted_wrt (<) ys \<Longrightarrow> set ys = set xs \<Longrightarrow> sorted_ids xs = ys"
  by (simp add: sorted_ids_def strict_sorted_equal)

end
