(* ===== verification/Go_Float.thy ===== *)
theory Go_Float
  imports Complex_Main "HOL-Library.Log_Nat" Go_Base
begin

text \<open>
  Go's \<open>float64\<close>: IEEE 754 binary64 with its infinities and NaN. A finite value is the rational
  number it denotes, so comparisons are exact; the two zeros, which no modelled component can tell
  apart, are one value. Addition and subtraction round to the nearest representable number, ties to
  even, and overflow to an infinity.
\<close>

datatype float64 = Fin rat | PosInf | NegInf | NaN

definition pow2 :: "int \<Rightarrow> rat" where
  "pow2 e = (if 0 \<le> e then 2 ^ nat e else 1 / 2 ^ nat (- e))"

definition ilog2 :: "rat \<Rightarrow> int" where
  "ilog2 x = (let (n, d) = quotient_of x;
                  k = int (floorlog 2 (nat n)) - int (floorlog 2 (nat d))
              in if pow2 k \<le> x then k else k - 1)"

definition round_half_even :: "rat \<Rightarrow> int" where
  "round_half_even x = (let f = \<lfloor>x\<rfloor>; r = x - of_int f in
     if r < 1 / 2 then f else if 1 / 2 < r then f + 1 else if even f then f else f + 1)"

definition round64 :: "rat \<Rightarrow> float64" where
  "round64 x = (if x = 0 then Fin 0
     else let e = max (- 1074) (ilog2 \<bar>x\<bar> - 52);
              y = of_int (round_half_even (x / pow2 e)) * pow2 e
          in if y \<ge> pow2 1024 then PosInf else if y \<le> - pow2 1024 then NegInf else Fin y)"

fun f_neg :: "float64 \<Rightarrow> float64" where
  "f_neg (Fin x) = Fin (- x)"
| "f_neg PosInf = NegInf"
| "f_neg NegInf = PosInf"
| "f_neg NaN = NaN"

fun f_add :: "float64 \<Rightarrow> float64 \<Rightarrow> float64" where
  "f_add (Fin x) (Fin y) = round64 (x + y)"
| "f_add NaN _ = NaN"
| "f_add _ NaN = NaN"
| "f_add PosInf NegInf = NaN"
| "f_add NegInf PosInf = NaN"
| "f_add PosInf _ = PosInf"
| "f_add _ PosInf = PosInf"
| "f_add NegInf _ = NegInf"
| "f_add _ NegInf = NegInf"

text \<open>
  A zero divisor or factor has lost its sign, so the quotient by zero takes the sign of the
  dividend; the components divide by positive limits only.
\<close>

fun f_mul :: "float64 \<Rightarrow> float64 \<Rightarrow> float64" where
  "f_mul (Fin x) (Fin y) = round64 (x * y)"
| "f_mul NaN _ = NaN"
| "f_mul _ NaN = NaN"
| "f_mul (Fin x) PosInf = (if x = 0 then NaN else if 0 < x then PosInf else NegInf)"
| "f_mul (Fin x) NegInf = (if x = 0 then NaN else if 0 < x then NegInf else PosInf)"
| "f_mul PosInf (Fin y) = (if y = 0 then NaN else if 0 < y then PosInf else NegInf)"
| "f_mul NegInf (Fin y) = (if y = 0 then NaN else if 0 < y then NegInf else PosInf)"
| "f_mul PosInf PosInf = PosInf"
| "f_mul PosInf NegInf = NegInf"
| "f_mul NegInf PosInf = NegInf"
| "f_mul NegInf NegInf = PosInf"

fun f_div :: "float64 \<Rightarrow> float64 \<Rightarrow> float64" where
  "f_div (Fin x) (Fin y) = (if y \<noteq> 0 then round64 (x / y)
     else if x = 0 then NaN else if 0 < x then PosInf else NegInf)"
| "f_div NaN _ = NaN"
| "f_div _ NaN = NaN"
| "f_div (Fin x) PosInf = Fin 0"
| "f_div (Fin x) NegInf = Fin 0"
| "f_div PosInf (Fin y) = (if 0 \<le> y then PosInf else NegInf)"
| "f_div NegInf (Fin y) = (if 0 \<le> y then NegInf else PosInf)"
| "f_div _ _ = NaN"

definition f_sub :: "float64 \<Rightarrow> float64 \<Rightarrow> float64" where
  "f_sub x y = f_add x (f_neg y)"

text \<open>The conversion \<open>int64(f)\<close> truncates towards zero; the components convert finite values
  in range only (what Go does otherwise depends on the machine).\<close>

fun f_trunc :: "float64 \<Rightarrow> int" where
  "f_trunc (Fin x) = (if 0 \<le> x then \<lfloor>x\<rfloor> else \<lceil>x\<rceil>)"
| "f_trunc _ = - 9223372036854775808"

fun f_less :: "float64 \<Rightarrow> float64 \<Rightarrow> bool" where
  "f_less NaN _ = False"
| "f_less _ NaN = False"
| "f_less (Fin x) (Fin y) = (x < y)"
| "f_less NegInf NegInf = False"
| "f_less NegInf _ = True"
| "f_less _ NegInf = False"
| "f_less PosInf _ = False"
| "f_less _ PosInf = True"

fun f_le :: "float64 \<Rightarrow> float64 \<Rightarrow> bool" where
  "f_le NaN _ = False"
| "f_le _ NaN = False"
| "f_le (Fin x) (Fin y) = (x \<le> y)"
| "f_le NegInf _ = True"
| "f_le _ NegInf = False"
| "f_le _ PosInf = True"
| "f_le PosInf _ = False"

definition f_is_nan :: "float64 \<Rightarrow> bool" where
  "f_is_nan x \<longleftrightarrow> x = NaN"

definition f_is_inf :: "float64 \<Rightarrow> bool" where
  "f_is_inf x \<longleftrightarrow> x = PosInf \<or> x = NegInf"

abbreviation f_zero :: float64 where
  "f_zero \<equiv> Fin 0"

lemma pow2_pos: "0 < pow2 e"
  by (simp add: pow2_def)

lemma round_half_even_nonneg: "0 \<le> x \<Longrightarrow> 0 \<le> round_half_even x"
  by (simp add: round_half_even_def Let_def)

lemma round64_nonneg: "0 \<le> x \<Longrightarrow> f_le f_zero (round64 x)"
proof -
  assume "0 \<le> x"
  define e where "e = max (- 1074) (ilog2 \<bar>x\<bar> - 52)"
  have "0 \<le> of_int (round_half_even (x / pow2 e)) * pow2 e"
    using \<open>0 \<le> x\<close> pow2_pos [of e] round_half_even_nonneg [of "x / pow2 e"] by simp
  moreover have "\<not> of_int (round_half_even (x / pow2 e)) * pow2 e \<le> - pow2 1024"
    using calculation pow2_pos [of 1024] by linarith
  ultimately show ?thesis by (auto simp: round64_def Let_def e_def [symmetric])
qed

lemma f_mul_nonneg: "f_le f_zero x \<Longrightarrow> f_less f_zero (Fin y) \<Longrightarrow> f_le f_zero (f_mul x (Fin y))"
  by (cases x) (auto intro: round64_nonneg)

lemma f_div_nonneg: "f_le f_zero x \<Longrightarrow> f_less f_zero y \<Longrightarrow> x \<noteq> PosInf \<Longrightarrow> f_le f_zero (f_div x y)"
  by (cases x; cases y) (auto intro: round64_nonneg)

lemma f_le_iff: "x \<noteq> NaN \<Longrightarrow> y \<noteq> NaN \<Longrightarrow> f_le x y \<longleftrightarrow> \<not> f_less y x"
  by (cases x; cases y) auto

lemma f_less_not_sym: "f_less x y \<Longrightarrow> \<not> f_less y x"
  by (cases x; cases y) auto

lemma f_less_NaN [simp]: "\<not> f_less x NaN" "\<not> f_le x NaN"
  by (cases x; simp)+

lemma f_le_trans: "f_le x y \<Longrightarrow> f_le y z \<Longrightarrow> f_le x z"
  by (cases x; cases y; cases z) auto


text \<open>The exponent of a number, and that rounding keeps it within half a unit in the last place.\<close>

lemma pow2_nat: "pow2 (int n) = 2 ^ n"
  by (simp add: pow2_def)

lemma pow2_diff: "pow2 (int m - int n) = 2 ^ m / 2 ^ n"
proof (cases "n \<le> m")
  case True
  then have e: "int m - int n = int (m - n)" by (simp add: of_nat_diff)
  show ?thesis unfolding e pow2_nat using True by (simp add: power_diff)
next
  case False
  then have e: "\<not> 0 \<le> int m - int n" "nat (- (int m - int n)) = n - m" by auto
  have "(2 :: rat) ^ n = 2 ^ m * 2 ^ (n - m)" using False by (simp flip: power_add)
  then show ?thesis unfolding pow2_def using e by simp
qed

lemma pow2_add1: "pow2 (e + 1) = 2 * pow2 e"
proof -
  obtain m n where e: "e = int m - int n" by (metis int_diff_cases)
  then have f: "e + 1 = int (Suc m) - int n" by simp
  show ?thesis unfolding f pow2_diff unfolding e pow2_diff by simp
qed

lemma pow2_mono: "d \<le> e \<Longrightarrow> pow2 d \<le> pow2 e"
proof (induction e rule: int_ge_induct)
  case (step i)
  then show ?case using pow2_add1 [of i] pow2_pos [of i] by linarith
qed simp

lemma ilog2_bounds: assumes "0 < x" shows "pow2 (ilog2 x) \<le> x" and "x < pow2 (ilog2 x + 1)"
proof -
  obtain n d where q: "quotient_of x = (n, d)" by fastforce
  have d: "0 < d" and x: "x = of_int n / of_int d" using q quotient_of_denom_pos quotient_of_div by auto
  have n: "0 < n" using assms d x by (simp add: zero_less_divide_iff)
  let ?a = "floorlog 2 (nat n)" and ?b = "floorlog 2 (nat d)"
  have a: "2 ^ (?a - 1) \<le> n" "n < 2 ^ ?a" and b: "2 ^ (?b - 1) \<le> d" "d < 2 ^ ?b"
    using floorlog_bounds [of "nat n" 2] floorlog_bounds [of "nat d" 2] n d
    by (auto simp: nat_le_iff nat_less_iff zless_nat_eq_int_zless le_nat_iff)
  have pos: "0 < ?a" "0 < ?b" using n d by (auto simp: floorlog_def)
  have up: "x < 2 ^ ?a / 2 ^ (?b - 1)"
  proof -
    have "of_int n < (2 ^ ?a :: rat)" "(2 ^ (?b - 1) :: rat) \<le> of_int d"
      using a(2) b(1) by (metis of_int_less_iff of_int_numeral of_int_power, metis of_int_le_iff of_int_numeral of_int_power)
    then show ?thesis unfolding x using n by (intro frac_less) simp_all
  qed
  have low: "2 ^ (?a - 1) / 2 ^ ?b < x"
  proof -
    have "(2 ^ (?a - 1) :: rat) \<le> of_int n" "of_int d < (2 ^ ?b :: rat)"
      using a(1) b(2) by (metis of_int_le_iff of_int_numeral of_int_power, metis of_int_less_iff of_int_numeral of_int_power)
    then show ?thesis unfolding x using d by (intro frac_less2) simp_all
  qed
  let ?k = "int ?a - int ?b"
  have e: "int ?a - int (?b - 1) = ?k + 1" "int (?a - 1) - int ?b = ?k - 1" using pos by (auto simp: of_nat_diff)
  have "x < pow2 (?k + 1)" "pow2 (?k - 1) < x"
    using up low unfolding e(1) [symmetric] e(2) [symmetric] pow2_diff by simp_all
  then show "pow2 (ilog2 x) \<le> x" "x < pow2 (ilog2 x + 1)" by (auto simp: ilog2_def q Let_def)
qed

lemma round_half_even_near: "\<bar>of_int (round_half_even x) - x\<bar> \<le> 1 / 2"
proof -
  have "x - 1 < of_int \<lfloor>x\<rfloor>" "of_int \<lfloor>x\<rfloor> \<le> x" by linarith+
  then show ?thesis by (auto simp: round_half_even_def Let_def abs_le_iff)
qed


text \<open>Within the range of normal numbers rounding errs by at most one part in \<open>2^53\<close>.\<close>

lemma round64_near:
  assumes "pow2 (- 1022) \<le> x" "x < pow2 1023"
  obtains y where "round64 x = Fin y" "\<bar>y - x\<bar> \<le> x / 2 ^ 53"
proof -
  have x: "0 < x" using assms(1) pow2_pos [of "- 1022"] by linarith
  have l: "- 1022 \<le> ilog2 x"
  proof (rule ccontr)
    assume "\<not> - 1022 \<le> ilog2 x"
    then have "pow2 (ilog2 x + 1) \<le> pow2 (- 1022)" by (intro pow2_mono) simp
    then show False using ilog2_bounds(2) [OF x] assms(1) by linarith
  qed
  define e where "e = ilog2 x - 52"
  define y where "y = of_int (round_half_even (x / pow2 e)) * pow2 e"
  have e: "max (- 1074) (ilog2 \<bar>x\<bar> - 52) = e" using l x by (simp add: e_def)
  have p: "pow2 e * 2 ^ 52 = pow2 (ilog2 x)"
  proof -
    obtain m n where mn: "ilog2 x = int m - int n" by (metis int_diff_cases)
    have e': "e = int m - int (n + 52)" by (simp add: e_def mn)
    show ?thesis unfolding e' mn pow2_diff by (simp add: power_add)
  qed
  let ?r = "of_int (round_half_even (x / pow2 e)) :: rat"
  have "y - x = (?r - x / pow2 e) * pow2 e" using pow2_pos [of e] by (simp add: y_def field_simps)
  then have "\<bar>y - x\<bar> = \<bar>?r - x / pow2 e\<bar> * pow2 e" using pow2_pos [of e] by (simp add: abs_mult)
  also have "\<dots> \<le> 1 / 2 * pow2 e"
    using round_half_even_near [of "x / pow2 e"] pow2_pos [of e] by (intro mult_right_mono) auto
  finally have "\<bar>y - x\<bar> \<le> pow2 e / 2" by simp
  moreover have "pow2 e / 2 \<le> x / 2 ^ 53" using p ilog2_bounds(1) [OF x] by simp
  ultimately have near: "\<bar>y - x\<bar> \<le> x / 2 ^ 53" by linarith
  have "\<bar>y - x\<bar> < x" using near x by (simp add: field_simps)
  then have "0 < y" "y < 2 * pow2 1023" using assms(2) by linarith+
  then have "y < pow2 1024" "\<not> y \<le> - pow2 1024" using pow2_add1 [of 1023] pow2_pos [of 1024] by simp_all
  then have "round64 x = Fin y" unfolding round64_def e Let_def y_def [symmetric] using x by simp
  then show thesis using that near by blast
qed

end
