(* ===== verification/App_Errors.thy ===== *)
theory App_Errors
  imports Go_Base
begin

text \<open>
  The application errors of \<open>internal/pkg/errors\<close>: errors that carry an HTTP status code, a
  reason and metadata, how they are copied with a cause or with metadata, how \<open>errors.Is\<close> and
  \<open>errors.As\<close> find them in a chain of wrapped errors, and how a chain becomes an HTTP status and
  body. A Go \<open>error\<close> value is an application error (with the optional cause it unwraps to), a
  sentinel made once with \<open>errors.New\<close> (identified by its name), or an error wrapped with
  \<open>fmt.Errorf("%w: ...")\<close>. A \<open>nil\<close> error is \<open>None\<close>.
\<close>

section \<open>Errors\<close>

record Status =
  st_Code :: int
  st_Reason :: string
  st_Message :: string
  st_Metadata :: "(string \<times> string) list option"

datatype go_error =
    Application Status "go_error option"
  | Sentinel string
  | Wrapped string go_error

type_synonym 'a result = "go_error + 'a"

definition UnknownCode :: int where
  "UnknownCode = 500"

definition UnknownReason :: string where
  "UnknownReason = ''''"

definition UnknownMessage :: string where
  "UnknownMessage = ''internal error''"

definition wrap32 :: "int \<Rightarrow> int" where
  "wrap32 x = (x + 2147483648) mod 4294967296 - 2147483648"

definition New :: "int \<Rightarrow> string \<Rightarrow> string \<Rightarrow> go_error" where
  "New code reason message = Application
     \<lparr>st_Code = wrap32 code, st_Reason = reason, st_Message = message, st_Metadata = None\<rparr> None"

fun Unwrap :: "go_error \<Rightarrow> go_error option" where
  "Unwrap (Application st c) = c"
| "Unwrap (Wrapped m e) = Some e"
| "Unwrap (Sentinel n) = None"

text \<open>\<open>errors.As\<close> with an application error as target: the first one of the chain.\<close>

fun as_application :: "go_error \<Rightarrow> go_error option" where
  "as_application (Application st c) = Some (Application st c)"
| "as_application (Sentinel n) = None"
| "as_application (Wrapped m e) = as_application e"

fun status_of :: "go_error \<Rightarrow> Status option" where
  "status_of (Application st c) = Some st"
| "status_of _ = None"

definition app_Is :: "Status \<Rightarrow> go_error \<Rightarrow> bool" where
  "app_Is st err = (case as_application err of
     Some (Application se _) \<Rightarrow> st_Code se = st_Code st \<and> st_Reason se = st_Reason st
   | _ \<Rightarrow> False)"

text \<open>\<open>errors.Is\<close>: identity with the target or the error's own \<open>Is\<close> method, along the chain.\<close>

fun errors_is :: "go_error \<Rightarrow> go_error \<Rightarrow> bool" where
  "errors_is (Application st c) target =
     (app_Is st target \<or> (case c of None \<Rightarrow> False | Some e \<Rightarrow> errors_is e target))"
| "errors_is (Sentinel n) target = (target = Sentinel n)"
| "errors_is (Wrapped m e) target = errors_is e target"

section \<open>Copying and classifying\<close>

fun Clone :: "go_error \<Rightarrow> go_error" where
  "Clone (Application st c) = Application
     \<lparr>st_Code = st_Code st, st_Reason = st_Reason st, st_Message = st_Message st,
      st_Metadata = st_Metadata st\<rparr> c"
| "Clone e = e"

fun WithCause :: "go_error \<Rightarrow> go_error option \<Rightarrow> go_error" where
  "WithCause (Application st c) cause =
     (case Clone (Application st c) of Application st' _ \<Rightarrow> Application st' cause | e \<Rightarrow> e)"
| "WithCause e cause = e"

fun WithMetadata :: "go_error \<Rightarrow> (string \<times> string) list option \<Rightarrow> go_error" where
  "WithMetadata (Application st c) md =
     (case Clone (Application st c) of
        Application st' c' \<Rightarrow> Application (st'\<lparr>st_Metadata := md\<rparr>) c'
      | e \<Rightarrow> e)"
| "WithMetadata e md = e"

fun FromError :: "go_error option \<Rightarrow> go_error option" where
  "FromError None = None"
| "FromError (Some err) = (case as_application err of
     Some se \<Rightarrow> Some se
   | None \<Rightarrow> Some (WithCause (New UnknownCode UnknownReason UnknownMessage) (Some err)))"

definition from_status :: "go_error option \<Rightarrow> Status" where
  "from_status err = (case FromError err of
     Some (Application st _) \<Rightarrow> st
   | _ \<Rightarrow> \<lparr>st_Code = 0, st_Reason = '''', st_Message = '''', st_Metadata = None\<rparr>)"

definition Code :: "go_error option \<Rightarrow> int" where
  "Code err = (case err of None \<Rightarrow> 200 | Some _ \<Rightarrow> st_Code (from_status err))"

definition Reason :: "go_error option \<Rightarrow> string" where
  "Reason err = (case err of None \<Rightarrow> UnknownReason | Some _ \<Rightarrow> st_Reason (from_status err))"

definition Message :: "go_error option \<Rightarrow> string" where
  "Message err = (case err of None \<Rightarrow> '''' | Some _ \<Rightarrow> st_Message (from_status err))"

section \<open>The HTTP classes of errors\<close>

definition BadRequest :: "string \<Rightarrow> string \<Rightarrow> go_error" where
  "BadRequest reason message = New 400 reason message"

definition IsBadRequest :: "go_error option \<Rightarrow> bool" where
  "IsBadRequest err \<longleftrightarrow> Code err = 400"

definition TooManyRequests :: "string \<Rightarrow> string \<Rightarrow> go_error" where
  "TooManyRequests reason message = New 429 reason message"

definition IsTooManyRequests :: "go_error option \<Rightarrow> bool" where
  "IsTooManyRequests err \<longleftrightarrow> Code err = 429"

definition Unauthorized :: "string \<Rightarrow> string \<Rightarrow> go_error" where
  "Unauthorized reason message = New 401 reason message"

definition IsUnauthorized :: "go_error option \<Rightarrow> bool" where
  "IsUnauthorized err \<longleftrightarrow> Code err = 401"

definition Forbidden :: "string \<Rightarrow> string \<Rightarrow> go_error" where
  "Forbidden reason message = New 403 reason message"

definition IsForbidden :: "go_error option \<Rightarrow> bool" where
  "IsForbidden err \<longleftrightarrow> Code err = 403"

definition NotFound :: "string \<Rightarrow> string \<Rightarrow> go_error" where
  "NotFound reason message = New 404 reason message"

definition IsNotFound :: "go_error option \<Rightarrow> bool" where
  "IsNotFound err \<longleftrightarrow> Code err = 404"

definition Conflict :: "string \<Rightarrow> string \<Rightarrow> go_error" where
  "Conflict reason message = New 409 reason message"

definition IsConflict :: "go_error option \<Rightarrow> bool" where
  "IsConflict err \<longleftrightarrow> Code err = 409"

definition InternalServer :: "string \<Rightarrow> string \<Rightarrow> go_error" where
  "InternalServer reason message = New 500 reason message"

definition IsInternalServer :: "go_error option \<Rightarrow> bool" where
  "IsInternalServer err \<longleftrightarrow> Code err = 500"

definition ServiceUnavailable :: "string \<Rightarrow> string \<Rightarrow> go_error" where
  "ServiceUnavailable reason message = New 503 reason message"

definition IsServiceUnavailable :: "go_error option \<Rightarrow> bool" where
  "IsServiceUnavailable err \<longleftrightarrow> Code err = 503"

definition GatewayTimeout :: "string \<Rightarrow> string \<Rightarrow> go_error" where
  "GatewayTimeout reason message = New 504 reason message"

definition IsGatewayTimeout :: "go_error option \<Rightarrow> bool" where
  "IsGatewayTimeout err \<longleftrightarrow> Code err = 504"

definition ClientClosed :: "string \<Rightarrow> string \<Rightarrow> go_error" where
  "ClientClosed reason message = New 499 reason message"

definition IsClientClosed :: "go_error option \<Rightarrow> bool" where
  "IsClientClosed err \<longleftrightarrow> Code err = 499"

definition ToHTTP :: "go_error option \<Rightarrow> int \<times> Status" where
  "ToHTTP err = (case FromError err of
     Some (Application st _) \<Rightarrow> (st_Code st,
       \<lparr>st_Code = st_Code st, st_Reason = st_Reason st, st_Message = st_Message st,
        st_Metadata = st_Metadata st\<rparr>)
   | _ \<Rightarrow> (200, \<lparr>st_Code = 200, st_Reason = '''', st_Message = '''', st_Metadata = None\<rparr>))"

lemmas http_class_defs [go_simps] =
  BadRequest_def TooManyRequests_def Unauthorized_def Forbidden_def NotFound_def Conflict_def
  InternalServer_def ServiceUnavailable_def GatewayTimeout_def ClientClosed_def

lemmas err_code_defs [go_simps] = Code_def Reason_def Message_def from_status_def

section \<open>Lemmas\<close>

lemma wrap32_small [simp]: "-2147483648 \<le> x \<Longrightarrow> x < 2147483648 \<Longrightarrow> wrap32 x = x"
  by (simp add: wrap32_def)

lemma Clone_id [simp]: "Clone e = e"
  by (cases e) simp_all

lemma WithCause_Application [simp]: "WithCause (Application st c) cause = Application st cause"
  by simp

lemma WithMetadata_Application [simp]:
  "WithMetadata (Application st c) md = Application (st\<lparr>st_Metadata := md\<rparr>) c"
  by simp

lemma as_application_cases: "as_application e = None \<or> (\<exists>st c. as_application e = Some (Application st c))"
  by (induction e) auto

lemma errors_is_New [simp]:
  "errors_is (New code reason message) (New code' reason' message') \<longleftrightarrow>
     wrap32 code = wrap32 code' \<and> reason = reason'"
  by (auto simp: New_def app_Is_def)

lemma errors_is_New_Sentinel [simp]:
  "\<not> errors_is (New code reason message) (Sentinel n)"
  "\<not> errors_is (Sentinel n) (New code reason message)"
  by (auto simp: New_def app_Is_def)

lemma errors_is_refl_app: "as_application e = Some a \<Longrightarrow> errors_is a a"
  by (induction e) (auto simp: app_Is_def)

lemma errors_is_wrapped_chain [simp]: "errors_is (foldr Wrapped ms e) t = errors_is e t"
  by (induction ms) simp_all

lemma as_application_wrapped_chain [simp]: "as_application (foldr Wrapped ms e) = as_application e"
  by (induction ms) simp_all

section \<open>What the copies and the wrappers keep\<close>

lemma FromError_application: "\<exists>st c. FromError (Some e) = Some (Application st c)"
  using as_application_cases [of e] by (auto simp: New_def)

lemma FromError_wrapped [simp]:
  "as_application e \<noteq> None \<Longrightarrow> FromError (Some (foldr Wrapped ms e)) = FromError (Some e)"
  by auto

text \<open>
  An application error keeps its class on the way up: attaching a cause or metadata and wrapping it
  any number of times leaves its code, its reason and its message, what \<open>errors.Is\<close> says about the
  original, and adds the cause to what it is; the metadata is replaced by the given one only.
\<close>

theorem application_error_keeps_class:
  "let e = Application st c; e' = foldr Wrapped ms (WithCause e cause);
       e'' = foldr Wrapped ms (WithMetadata e md) in
     Code (Some e') = Code (Some e) \<and> Reason (Some e') = Reason (Some e) \<and> Message (Some e') = Message (Some e) \<and>
     Code (Some e'') = Code (Some e) \<and> Reason (Some e'') = Reason (Some e) \<and> Message (Some e'') = Message (Some e) \<and>
     errors_is e' e \<and> errors_is e'' e \<and>
     (\<forall>t. errors_is e' t \<longleftrightarrow> app_Is st t \<or> (\<exists>x. cause = Some x \<and> errors_is x t)) \<and>
     (\<forall>t. errors_is e'' t \<longleftrightarrow> errors_is e t)"
  by (auto simp: Let_def err_code_defs app_Is_def split: option.splits go_error.splits)

text \<open>
  What an HTTP client sees of an error: the status code of the response is the code of the body, which
  carries the code, the reason and the message of the first application error of the chain; an error
  with no application error in its chain is a 500 with the fixed message and no reason, whatever its
  text says; and no error is 200.
\<close>

theorem ToHTTP_spec:
  "ToHTTP None = (200, \<lparr>st_Code = 200, st_Reason = '''', st_Message = '''', st_Metadata = None\<rparr>) \<and>
   ToHTTP (Some e) = (case as_application e of
      Some (Application st _) \<Rightarrow> (st_Code st, st)
    | _ \<Rightarrow> (500, \<lparr>st_Code = 500, st_Reason = '''', st_Message = ''internal error'', st_Metadata = None\<rparr>)) \<and>
   fst (ToHTTP (Some e)) = Code (Some e) \<and> st_Reason (snd (ToHTTP (Some e))) = Reason (Some e) \<and>
   st_Message (snd (ToHTTP (Some e))) = Message (Some e)"
  using as_application_cases [of e]
  by (auto simp: ToHTTP_def err_code_defs New_def UnknownCode_def UnknownReason_def UnknownMessage_def)

end
