(* ===== verification/Product_Core.thy ===== *)
theory Product_Core
  imports Go_Float App_Errors
begin

text \<open>
  \<open>internal/productcore\<close>: the authorizer that turns an API key's grant and a model request into
  a decision (a platform and the asset that pays). The platform catalog and the asset selector are
  the two ports of the component (\<open>ports.go\<close>). The catalog is a function of the model name; the
  selector may change the state of the service behind it, so it takes and returns a state, and a
  request that must not reach it leaves the state as it was. A \<open>nil\<close> pointer is \<open>None\<close>.
\<close>

section \<open>Types\<close>

record AccessGrant =
  ag_KeyID :: int64
  ag_UserID :: int64
  ag_Balance :: float64
  ag_PlatformIDs :: "int64 list"
  ag_SubscriptionPlanIDs :: "int64 list"
  ag_AllowBalance :: bool

record Request =
  rq_Model :: string
  rq_EndpointCapability :: string
  rq_SkipBilling :: bool

record Platform =
  pl_ID :: int64
  pl_Code :: string
  pl_AccountPlatform :: string
  pl_RequestedModel :: string
  pl_UpstreamModel :: string
  pl_EndpointCapabilities :: "string list"
  pl_MatchPriority :: int

record BillingAsset =
  ba_Source :: string
  ba_SubscriptionID :: "int64 option"
  ba_PlanID :: "int64 option"
  ba_RateMultiplier :: float64

record Decision =
  dc_Platform :: Platform
  dc_BillingAsset :: "BillingAsset option"

definition pcErrModelUnavailable :: go_error where
  "pcErrModelUnavailable = Sentinel ''product core model is unavailable''"
definition pcErrPlatformForbidden :: go_error where
  "pcErrPlatformForbidden = Sentinel ''api key is not authorized for platform''"
definition pcErrPlatformAmbiguous :: go_error where
  "pcErrPlatformAmbiguous = Sentinel ''model resolves to multiple equally preferred platforms''"
definition pcErrEndpointUnsupported :: go_error where
  "pcErrEndpointUnsupported = Sentinel ''platform does not support endpoint''"
definition pcErrNoBillingAsset :: go_error where
  "pcErrNoBillingAsset = Sentinel ''no usable billing asset''"
definition pcErrInsufficientBalance :: go_error where
  "pcErrInsufficientBalance = Sentinel ''insufficient balance''"
definition pcErrDailyLimitExceeded :: go_error where
  "pcErrDailyLimitExceeded = Sentinel ''daily limit exceeded''"
definition pcErrWeeklyLimitExceeded :: go_error where
  "pcErrWeeklyLimitExceeded = Sentinel ''weekly limit exceeded''"
definition pcErrMonthlyLimitExceeded :: go_error where
  "pcErrMonthlyLimitExceeded = Sentinel ''monthly limit exceeded''"

lemmas pc_error_defs =
  pcErrModelUnavailable_def pcErrPlatformForbidden_def pcErrPlatformAmbiguous_def
  pcErrEndpointUnsupported_def pcErrNoBillingAsset_def pcErrInsufficientBalance_def
  pcErrDailyLimitExceeded_def pcErrWeeklyLimitExceeded_def pcErrMonthlyLimitExceeded_def

type_synonym PlatformCatalog = "string \<Rightarrow> Platform option list result"
type_synonym 'st AssetSelector =
  "AccessGrant \<Rightarrow> bool \<Rightarrow> 'st \<Rightarrow> BillingAsset option result \<times> 'st"

record 'st Authorizer =
  au_platforms :: "PlatformCatalog option"
  au_assets :: "'st AssetSelector option"

definition NewAuthorizer :: "PlatformCatalog option \<Rightarrow> 'st AssetSelector option \<Rightarrow> 'st Authorizer" where
  "NewAuthorizer platforms assets = \<lparr>au_platforms = platforms, au_assets = assets\<rparr>"

section \<open>Selecting a platform\<close>

fun allowsPlatform :: "int64 list \<Rightarrow> int64 \<Rightarrow> bool" where
  "allowsPlatform [] platformID = False"
| "allowsPlatform (candidate # allowed) platformID =
     (if candidate = platformID then True else allowsPlatform allowed platformID)"

fun supports_loop :: "unicode_tables \<Rightarrow> string list \<Rightarrow> string \<Rightarrow> bool" where
  "supports_loop U [] requested = False"
| "supports_loop U (capability # configured) requested =
     (if EqualFold U (TrimSpace capability) requested then True
      else supports_loop U configured requested)"

definition supportsEndpoint :: "unicode_tables \<Rightarrow> string list \<Rightarrow> string \<Rightarrow> bool" where
  "supportsEndpoint U configured requested =
     (let requested = TrimSpace requested in
      if requested = '''' then True else supports_loop U configured requested)"

fun select_loop :: "Platform option \<Rightarrow> Platform option list \<Rightarrow> Platform option result" where
  "select_loop best [] = Inr best"
| "select_loop best (None # rest) = select_loop best rest"
| "select_loop best (Some candidate # rest) =
     (case best of
        None \<Rightarrow> select_loop (Some candidate) rest
      | Some b \<Rightarrow>
          if pl_MatchPriority b < pl_MatchPriority candidate then select_loop (Some candidate) rest
          else if pl_MatchPriority candidate = pl_MatchPriority b \<and> pl_ID candidate \<noteq> pl_ID b
          then Inl pcErrPlatformAmbiguous
          else select_loop best rest)"

definition selectPlatformCandidate :: "Platform option list \<Rightarrow> Platform result" where
  "selectPlatformCandidate candidates =
     (case candidates of
        [] \<Rightarrow> Inl pcErrModelUnavailable
      | c # rest \<Rightarrow> (case select_loop c rest of
          Inl e \<Rightarrow> Inl e
        | Inr None \<Rightarrow> Inl pcErrModelUnavailable
        | Inr (Some best) \<Rightarrow> Inr best))"

definition cloneInt64 :: "int64 option \<Rightarrow> int64 option" where
  "cloneInt64 value = (case value of None \<Rightarrow> None | Some v \<Rightarrow> Some v)"

definition clonePlatform :: "Platform \<Rightarrow> Platform" where
  "clonePlatform value =
     value\<lparr>pl_EndpointCapabilities := [] @ pl_EndpointCapabilities value\<rparr>"

definition cloneBillingAsset :: "BillingAsset option \<Rightarrow> BillingAsset option" where
  "cloneBillingAsset value = (case value of
     None \<Rightarrow> None
   | Some v \<Rightarrow> Some (v\<lparr>ba_SubscriptionID := cloneInt64 (ba_SubscriptionID v),
                       ba_PlanID := cloneInt64 (ba_PlanID v)\<rparr>))"

section \<open>Resolving a request\<close>

text \<open>The two filters of \<open>Resolve\<close>; the first also drops \<open>nil\<close> candidates.\<close>

definition authorized_candidates :: "AccessGrant \<Rightarrow> Platform option list \<Rightarrow> Platform list" where
  "authorized_candidates grant candidates =
     [c. Some c \<leftarrow> candidates, allowsPlatform (ag_PlatformIDs grant) (pl_ID c)]"

definition endpoint_candidates :: "unicode_tables \<Rightarrow> Request \<Rightarrow> Platform list \<Rightarrow> Platform list" where
  "endpoint_candidates U request authorized =
     filter (\<lambda>c. supportsEndpoint U (pl_EndpointCapabilities c) (rq_EndpointCapability request))
       authorized"

definition Authorizer_Resolve ::
  "unicode_tables \<Rightarrow> 'st Authorizer option \<Rightarrow> AccessGrant \<Rightarrow> Request \<Rightarrow> 'st
   \<Rightarrow> Decision result \<times> 'st" where
  "Authorizer_Resolve U a grant request s =
     (case a of
        None \<Rightarrow> (Inl pcErrModelUnavailable, s)
      | Some a \<Rightarrow>
     (case au_platforms a of
        None \<Rightarrow> (Inl pcErrModelUnavailable, s)
      | Some listModelCandidates \<Rightarrow>
     (case listModelCandidates (rq_Model request) of
        Inl err \<Rightarrow> (Inl err, s)
      | Inr candidates \<Rightarrow>
          if candidates = [] then (Inl pcErrModelUnavailable, s) else
     (let authorized = authorized_candidates grant candidates in
          if authorized = [] then (Inl pcErrPlatformForbidden, s) else
     (let endpointCandidates = endpoint_candidates U request authorized in
          if endpointCandidates = [] then (Inl pcErrEndpointUnsupported, s) else
     (case selectPlatformCandidate (map Some endpointCandidates) of
        Inl err \<Rightarrow> (Inl err, s)
      | Inr platform \<Rightarrow>
     (case au_assets a of
        None \<Rightarrow> (Inl pcErrNoBillingAsset, s)
      | Some select \<Rightarrow>
     (case select grant (rq_SkipBilling request) s of
        (Inl err, s') \<Rightarrow> (Inl err, s')
      | (Inr asset, s') \<Rightarrow>
          if asset = None \<and> \<not> rq_SkipBilling request then (Inl pcErrNoBillingAsset, s')
          else (Inr \<lparr>dc_Platform = clonePlatform platform,
                     dc_BillingAsset = cloneBillingAsset asset\<rparr>, s')))))))))"

section \<open>Lemmas on the selection\<close>

lemma allowsPlatform_iff [simp]: "allowsPlatform allowed p \<longleftrightarrow> p \<in> set allowed"
  by (induction allowed) auto

lemma supports_loop_iff:
  "supports_loop U configured r \<longleftrightarrow> (\<exists>c \<in> set configured. EqualFold U (TrimSpace c) r)"
  by (induction configured) auto

lemma cloneInt64_id [simp]: "cloneInt64 v = v"
  by (simp add: cloneInt64_def split: option.splits)

lemma clonePlatform_id [simp]: "clonePlatform p = p"
  by (simp add: clonePlatform_def)

lemma cloneBillingAsset_id [simp]: "cloneBillingAsset a = a"
  by (simp add: cloneBillingAsset_def split: option.splits)

lemma set_authorized_candidates:
  "c \<in> set (authorized_candidates grant cs) \<longleftrightarrow> Some c \<in> set cs \<and> pl_ID c \<in> set (ag_PlatformIDs grant)"
  by (fastforce simp: authorized_candidates_def split: option.splits)

lemma set_endpoint_candidates:
  "c \<in> set (endpoint_candidates U request cs) \<longleftrightarrow>
     c \<in> set cs \<and> supportsEndpoint U (pl_EndpointCapabilities c) (rq_EndpointCapability request)"
  by (simp add: endpoint_candidates_def)

text \<open>
  A platform is the preferred one of a list when none has a higher priority and no other platform
  has the same.
\<close>

definition preferred :: "Platform \<Rightarrow> Platform list \<Rightarrow> bool" where
  "preferred p cs \<longleftrightarrow> p \<in> set cs \<and>
     (\<forall>c \<in> set cs. pl_MatchPriority c \<le> pl_MatchPriority p \<and>
        (pl_MatchPriority c = pl_MatchPriority p \<longrightarrow> pl_ID c = pl_ID p))"

lemma preferredD:
  assumes "preferred p cs"
  shows "p \<in> set cs"
    and "c \<in> set cs \<Longrightarrow> pl_MatchPriority c \<le> pl_MatchPriority p"
    and "c \<in> set cs \<Longrightarrow> pl_MatchPriority c = pl_MatchPriority p \<Longrightarrow> pl_ID c = pl_ID p"
  using assms unfolding preferred_def by blast+

lemma select_loop_sound:
  "select_loop (Some b) (map Some cs) = Inr (Some p) \<Longrightarrow> preferred p (b # cs)"
proof (induction cs arbitrary: b)
  case Nil
  then show ?case by (simp add: preferred_def)
next
  case (Cons c cs)
  consider (better) "pl_MatchPriority b < pl_MatchPriority c"
    | (tie) "pl_MatchPriority c = pl_MatchPriority b" "pl_ID c \<noteq> pl_ID b"
    | (keep) "\<not> pl_MatchPriority b < pl_MatchPriority c"
        "\<not> (pl_MatchPriority c = pl_MatchPriority b \<and> pl_ID c \<noteq> pl_ID b)" by blast
  then show ?case
  proof cases
    case better
    with Cons.prems have "select_loop (Some c) (map Some cs) = Inr (Some p)" by simp
    then have "preferred p (c # cs)" by (rule Cons.IH)
    with better show ?thesis by (auto simp: preferred_def)
  next
    case tie
    with Cons.prems show ?thesis by simp
  next
    case keep
    then have "select_loop (Some b) (map Some cs) = Inr (Some p)"
      using Cons.prems by (auto split: if_splits)
    then have "preferred p (b # cs)" by (rule Cons.IH)
    with keep show ?thesis by (fastforce simp: preferred_def)
  qed
qed

lemma select_loop_result:
  "(\<exists>p. select_loop (Some b) (map Some cs) = Inr (Some p)) \<or>
   select_loop (Some b) (map Some cs) = Inl pcErrPlatformAmbiguous"
  by (induction cs arbitrary: b) auto

text \<open>
  On a list in order of decreasing priority, which is what the catalog returns, the loop finds the
  preferred platform whenever there is one.
\<close>

lemma select_loop_complete:
  "sorted_wrt (\<lambda>a c. pl_MatchPriority c \<le> pl_MatchPriority a) (b # cs) \<Longrightarrow>
   select_loop (Some b) (map Some cs) = Inl pcErrPlatformAmbiguous \<Longrightarrow>
   \<exists>c \<in> set cs. pl_MatchPriority c = pl_MatchPriority b \<and> pl_ID c \<noteq> pl_ID b"
proof (induction cs)
  case Nil
  then show ?case by simp
next
  case (Cons c cs)
  then have le: "pl_MatchPriority c \<le> pl_MatchPriority b" by simp
  show ?case
  proof (cases "pl_MatchPriority c = pl_MatchPriority b \<and> pl_ID c \<noteq> pl_ID b")
    case True
    then show ?thesis by simp
  next
    case False
    then have "select_loop (Some b) (map Some cs) = Inl pcErrPlatformAmbiguous"
      using Cons.prems le by (auto split: if_splits)
    then show ?thesis using Cons.IH Cons.prems(1) by auto
  qed
qed

lemma preferred_endpoint_iff:
  "preferred p (endpoint_candidates U request (authorized_candidates grant cs)) \<longleftrightarrow>
     Some p \<in> set cs \<and> pl_ID p \<in> set (ag_PlatformIDs grant) \<and>
     supportsEndpoint U (pl_EndpointCapabilities p) (rq_EndpointCapability request) \<and>
     (\<forall>c. Some c \<in> set cs \<and> pl_ID c \<in> set (ag_PlatformIDs grant) \<and>
        supportsEndpoint U (pl_EndpointCapabilities c) (rq_EndpointCapability request) \<longrightarrow>
        pl_MatchPriority c \<le> pl_MatchPriority p \<and>
        (pl_MatchPriority c = pl_MatchPriority p \<longrightarrow> pl_ID c = pl_ID p))"
  unfolding preferred_def Ball_def set_endpoint_candidates set_authorized_candidates by blast

lemma selectPlatformCandidate_sound:
  "selectPlatformCandidate (map Some cs) = Inr p \<Longrightarrow> preferred p cs"
  by (cases cs)
    (auto simp: selectPlatformCandidate_def split: sum.splits option.splits dest: select_loop_sound)

lemma selectPlatformCandidate_cases:
  "cs \<noteq> [] \<Longrightarrow> (\<exists>p. selectPlatformCandidate (map Some cs) = Inr p) \<or>
     selectPlatformCandidate (map Some cs) = Inl pcErrPlatformAmbiguous"
  using select_loop_result [of "hd cs" "tl cs"]
  by (cases cs) (auto simp: selectPlatformCandidate_def)

lemma selectPlatformCandidate_complete:
  assumes sorted: "sorted_wrt (\<lambda>a c. pl_MatchPriority c \<le> pl_MatchPriority a) cs"
    and pref: "preferred p cs"
  shows "\<exists>q. selectPlatformCandidate (map Some cs) = Inr q \<and> pl_ID q = pl_ID p"
proof -
  obtain b cs' where cs: "cs = b # cs'" using pref by (cases cs) (auto simp: preferred_def)
  have "pl_MatchPriority p \<le> pl_MatchPriority b"
    using sorted preferredD(1) [OF pref] cs by auto
  moreover have "pl_MatchPriority b \<le> pl_MatchPriority p"
    using preferredD(2) [OF pref] cs by simp
  ultimately have b: "pl_MatchPriority b = pl_MatchPriority p" by simp
  have same: "pl_ID c = pl_ID b" if "c \<in> set cs" "pl_MatchPriority c = pl_MatchPriority b" for c
  proof -
    have "pl_ID c = pl_ID p"
      by (rule preferredD(3) [OF pref]) (use that b in simp_all)
    moreover have "pl_ID b = pl_ID p"
      by (rule preferredD(3) [OF pref]) (use b cs in simp_all)
    ultimately show ?thesis by simp
  qed
  have "select_loop (Some b) (map Some cs') \<noteq> Inl pcErrPlatformAmbiguous"
  proof
    assume "select_loop (Some b) (map Some cs') = Inl pcErrPlatformAmbiguous"
    then obtain c where "c \<in> set cs'" "pl_MatchPriority c = pl_MatchPriority b" "pl_ID c \<noteq> pl_ID b"
      using select_loop_complete [of b cs'] sorted cs by blast
    then show False using same [of c] cs by simp
  qed
  then obtain q where q: "select_loop (Some b) (map Some cs') = Inr (Some q)"
    using select_loop_result [of b cs'] by auto
  then have prefq: "preferred q cs" using select_loop_sound cs by blast
  have "pl_MatchPriority q = pl_MatchPriority p"
    by (intro antisym preferredD(2) [OF pref] preferredD(2) [OF prefq]
        preferredD(1) [OF pref] preferredD(1) [OF prefq])
  then have "pl_ID q = pl_ID p"
    by (rule preferredD(3) [OF pref preferredD(1) [OF prefq]])
  then show ?thesis using q cs by (simp add: selectPlatformCandidate_def)
qed

section \<open>Properties of the authorizer\<close>

lemmas resolve_splits = option.splits sum.splits if_splits prod.splits

lemma Resolve_InrD:
  assumes "Authorizer_Resolve U (Some a) grant request s = (Inr d, s')"
  shows "\<exists>list cs select.
    au_platforms a = Some list \<and> list (rq_Model request) = Inr cs \<and>
    preferred (dc_Platform d)
       (endpoint_candidates U request (authorized_candidates grant cs)) \<and>
    au_assets a = Some select \<and>
    select grant (rq_SkipBilling request) s = (Inr (dc_BillingAsset d), s') \<and>
    (dc_BillingAsset d = None \<longrightarrow> rq_SkipBilling request)"
proof -
  obtain list where l: "au_platforms a = Some list"
    using assms by (cases "au_platforms a") (simp_all add: Authorizer_Resolve_def)
  obtain cs where cs: "list (rq_Model request) = Inr cs"
    using assms l by (cases "list (rq_Model request)") (simp_all add: Authorizer_Resolve_def)
  let ?ep = "endpoint_candidates U request (authorized_candidates grant cs)"
  have ne: "cs \<noteq> []" "authorized_candidates grant cs \<noteq> []" "?ep \<noteq> []"
    using assms l cs by (auto simp: Authorizer_Resolve_def Let_def split: if_splits)
  obtain p where p: "selectPlatformCandidate (map Some ?ep) = Inr p"
    using assms l cs ne by (cases "selectPlatformCandidate (map Some ?ep)")
      (simp_all add: Authorizer_Resolve_def Let_def)
  obtain select where sel: "au_assets a = Some select"
    using assms l cs ne p by (cases "au_assets a") (simp_all add: Authorizer_Resolve_def Let_def)
  have "\<exists>asset. select grant (rq_SkipBilling request) s = (Inr asset, s') \<and> dc_BillingAsset d = asset
      \<and> dc_Platform d = p \<and> (asset = None \<longrightarrow> rq_SkipBilling request)"
    using assms l cs ne p sel
    by (simp add: Authorizer_Resolve_def Let_def split: prod.splits sum.splits if_splits) auto
  then show ?thesis using l cs sel selectPlatformCandidate_sound [OF p] by auto
qed

text \<open>
  C2. A decision is only made for a platform the API key is authorized for: the decided platform is
  a candidate of the catalog for the requested model, its identifier is granted to the key, it
  supports the requested endpoint, no authorized candidate that supports the endpoint has a higher
  match priority, and none of another platform has the same priority. The paying asset is the one
  the selector returned for this grant, and it is missing only for a request that skips billing.
\<close>

theorem Authorizer_Resolve_sound:
  assumes "Authorizer_Resolve U (Some a) grant request s = (Inr d, s')"
  shows "\<exists>list cs select.
     au_platforms a = Some list \<and> list (rq_Model request) = Inr cs \<and>
     Some (dc_Platform d) \<in> set cs \<and>
     pl_ID (dc_Platform d) \<in> set (ag_PlatformIDs grant) \<and>
     supportsEndpoint U (pl_EndpointCapabilities (dc_Platform d)) (rq_EndpointCapability request) \<and>
     (\<forall>c. Some c \<in> set cs \<and> pl_ID c \<in> set (ag_PlatformIDs grant) \<and>
        supportsEndpoint U (pl_EndpointCapabilities c) (rq_EndpointCapability request) \<longrightarrow>
        pl_MatchPriority c \<le> pl_MatchPriority (dc_Platform d) \<and>
        (pl_MatchPriority c = pl_MatchPriority (dc_Platform d) \<longrightarrow> pl_ID c = pl_ID (dc_Platform d))) \<and>
     au_assets a = Some select \<and>
     select grant (rq_SkipBilling request) s = (Inr (dc_BillingAsset d), s') \<and>
     (dc_BillingAsset d = None \<longrightarrow> rq_SkipBilling request)"
  using Resolve_InrD [OF assms] unfolding preferred_endpoint_iff by (simp only: conj_assoc)

definition demo_platform :: "int \<Rightarrow> int \<Rightarrow> string list \<Rightarrow> Platform" where
  "demo_platform i prio caps = \<lparr>pl_ID = i, pl_Code = ''p'', pl_AccountPlatform = ''openai'',
     pl_RequestedModel = ''gpt-5'', pl_UpstreamModel = ''gpt-5'', pl_EndpointCapabilities = caps,
     pl_MatchPriority = prio\<rparr>"

definition demo_asset :: BillingAsset where
  "demo_asset = \<lparr>ba_Source = ''balance'', ba_SubscriptionID = None, ba_PlanID = None,
     ba_RateMultiplier = Fin 1\<rparr>"

definition demo_authorizer :: "nat Authorizer" where
  "demo_authorizer = NewAuthorizer
     (Some (\<lambda>m. if m = ''gpt-5'' then Inr [Some (demo_platform 3 100 [''responses'']), None,
        Some (demo_platform 4 100 [''chat_completions''])] else Inl pcErrModelUnavailable))
     (Some (\<lambda>g skip n. (Inr (Some demo_asset), Suc n)))"

definition demo_grant :: AccessGrant where
  "demo_grant = \<lparr>ag_KeyID = 10, ag_UserID = 7, ag_Balance = Fin 5, ag_PlatformIDs = [4, 3],
     ag_SubscriptionPlanIDs = [], ag_AllowBalance = True\<rparr>"

definition demo_request :: Request where
  "demo_request = \<lparr>rq_Model = ''gpt-5'', rq_EndpointCapability = ''Responses'', rq_SkipBilling = False\<rparr>"

lemmas demo_defs = demo_platform_def demo_asset_def demo_authorizer_def demo_grant_def
  demo_request_def NewAuthorizer_def

lemma demo_endpoints:
  "supportsEndpoint ascii_tables [''responses''] ''Responses''"
  "\<not> supportsEndpoint ascii_tables [''chat_completions''] ''Responses''"
  by code_simp+

lemma demo_resolve:
  "Authorizer_Resolve ascii_tables (Some demo_authorizer) demo_grant demo_request 0 =
     (Inr \<lparr>dc_Platform = demo_platform 3 100 [''responses''], dc_BillingAsset = Some demo_asset\<rparr>, 1)"
  using demo_endpoints
  by (simp add: Authorizer_Resolve_def Let_def demo_authorizer_def demo_grant_def demo_request_def
      NewAuthorizer_def demo_platform_def authorized_candidates_def endpoint_candidates_def
      selectPlatformCandidate_def)

theorem Authorizer_Resolve_sound_witness:
  "\<exists>d. Authorizer_Resolve ascii_tables (Some demo_authorizer) demo_grant demo_request 0 = (Inr d, 1) \<and>
     pl_ID (dc_Platform d) = 3 \<and> pl_ID (dc_Platform d) \<in> set (ag_PlatformIDs demo_grant)"
  using Authorizer_Resolve_sound [OF demo_resolve] demo_resolve by (auto simp: demo_platform_def)

text \<open>
  The billing assets are not touched unless a platform has been settled first: whenever the
  request is refused because the model is unknown, the key is not authorized for any candidate,
  no authorized candidate supports the endpoint, or the candidates are ambiguous, the state behind
  the asset selector is unchanged; and it is the state left by one call of the selector otherwise.
\<close>

theorem Authorizer_Resolve_no_asset_before_platform:
  "snd (Authorizer_Resolve U (Some a) grant request s) =
     (case au_platforms a of None \<Rightarrow> s | Some list \<Rightarrow>
      (case list (rq_Model request) of Inl e \<Rightarrow> s | Inr cs \<Rightarrow>
       (case selectPlatformCandidate
          (map Some (endpoint_candidates U request (authorized_candidates grant cs))) of
          Inl e \<Rightarrow> s
        | Inr p \<Rightarrow> (case au_assets a of None \<Rightarrow> s
            | Some select \<Rightarrow> snd (select grant (rq_SkipBilling request) s)))))"
proof -
  have "selectPlatformCandidate [] = Inl pcErrModelUnavailable"
    "authorized_candidates grant [] = []" "endpoint_candidates U request [] = []"
    by (simp_all add: selectPlatformCandidate_def authorized_candidates_def endpoint_candidates_def)
  then show ?thesis
    by (auto simp: Authorizer_Resolve_def Let_def split: option.splits sum.splits prod.splits)
qed

lemma Resolve_completeI:
  assumes "au_platforms a = Some list" "list (rq_Model request) = Inr (map Some cs)"
    and "sorted_wrt (\<lambda>x y. pl_MatchPriority y \<le> pl_MatchPriority x) cs"
    and "preferred p (filter (\<lambda>c. pl_ID c \<in> set (ag_PlatformIDs grant) \<and>
           supportsEndpoint U (pl_EndpointCapabilities c) (rq_EndpointCapability request)) cs)"
    and "au_assets a = Some select"
    and "select grant (rq_SkipBilling request) s = (Inr asset, s')"
    and "asset \<noteq> None \<or> rq_SkipBilling request"
  shows "\<exists>d. Authorizer_Resolve U (Some a) grant request s = (Inr d, s') \<and>
     pl_ID (dc_Platform d) = pl_ID p \<and> dc_BillingAsset d = asset"
proof -
  let ?auth = "authorized_candidates grant (map Some cs)"
  let ?ep = "endpoint_candidates U request ?auth"
  have auth: "?auth = filter (\<lambda>c. pl_ID c \<in> set (ag_PlatformIDs grant)) cs"
    by (simp add: authorized_candidates_def) (induction cs; simp)
  then have ep: "?ep = filter (\<lambda>c. pl_ID c \<in> set (ag_PlatformIDs grant) \<and>
      supportsEndpoint U (pl_EndpointCapabilities c) (rq_EndpointCapability request)) cs"
    by (simp add: endpoint_candidates_def conj_commute)
  have "sorted_wrt (\<lambda>x y. pl_MatchPriority y \<le> pl_MatchPriority x) ?ep"
    unfolding ep using assms(3) by (rule sorted_wrt_filter)
  moreover have pref: "preferred p ?ep" using assms(4) ep by simp
  ultimately obtain q where q: "selectPlatformCandidate (map Some ?ep) = Inr q" "pl_ID q = pl_ID p"
    using selectPlatformCandidate_complete by blast
  have ne: "?ep \<noteq> []" using preferredD(1) [OF pref] by auto
  then have "?auth \<noteq> []" by (metis endpoint_candidates_def filter.simps(1))
  moreover from this have "map Some cs \<noteq> []" unfolding auth by auto
  ultimately show ?thesis using assms(1,2,5,6,7) ne q
    by (cases asset) (simp_all add: Authorizer_Resolve_def Let_def)
qed

text \<open>
  C14. Resolution is complete: when the catalog lists its candidates by decreasing priority, a
  preferred authorized platform for the endpoint exists, and the selector grants an asset, the
  request is decided for that platform.
\<close>

theorem Authorizer_Resolve_complete:
  assumes "au_platforms a = Some list" "list (rq_Model request) = Inr (map Some cs)"
    and "sorted_wrt (\<lambda>x y. pl_MatchPriority y \<le> pl_MatchPriority x) cs"
    and "preferred p (filter (\<lambda>c. pl_ID c \<in> set (ag_PlatformIDs grant) \<and>
           supportsEndpoint U (pl_EndpointCapabilities c) (rq_EndpointCapability request)) cs)"
    and "au_assets a = Some select"
    and "select grant (rq_SkipBilling request) s = (Inr asset, s')"
    and "asset \<noteq> None \<or> rq_SkipBilling request"
  shows "\<exists>d. Authorizer_Resolve U (Some a) grant request s = (Inr d, s') \<and>
     pl_ID (dc_Platform d) = pl_ID p \<and> dc_BillingAsset d = asset"
  using assms by (rule Resolve_completeI)

theorem Authorizer_Resolve_complete_witness:
  "\<exists>d. Authorizer_Resolve ascii_tables (Some (demo_authorizer\<lparr>au_platforms :=
       Some (\<lambda>m. Inr (map Some [demo_platform 3 100 [''responses'']]))\<rparr>))
     demo_grant demo_request 0 = (Inr d, 1) \<and> pl_ID (dc_Platform d) = 3 \<and>
     dc_BillingAsset d = Some demo_asset"
proof -
  have "preferred (demo_platform 3 100 [''responses''])
     (filter (\<lambda>c. pl_ID c \<in> set (ag_PlatformIDs demo_grant) \<and>
        supportsEndpoint ascii_tables (pl_EndpointCapabilities c) (rq_EndpointCapability demo_request))
      [demo_platform 3 100 [''responses'']])"
    using demo_endpoints by (simp add: preferred_def demo_defs)
  from Authorizer_Resolve_complete [OF _ _ _ this, where a = "demo_authorizer\<lparr>au_platforms :=
       Some (\<lambda>m. Inr (map Some [demo_platform 3 100 [''responses'']]))\<rparr>" and s = 0]
  show ?thesis by (simp add: demo_authorizer_def NewAuthorizer_def demo_platform_def)
qed

end
