(* ===== verification/Sql_World.thy ===== *)
theory Sql_World
  imports App_Errors
begin

text \<open>
  What the repositories and services reach outside the process: a wall clock and a SQL database.
  The \<open>n\<close>-th reading of the clock is \<open>wd_clock n\<close>, an arbitrary function. A database is a
  value of type \<open>'db\<close>; one statement is executed atomically, and the \<open>n\<close>-th statement fails
  with the error \<open>wd_fault n\<close>, leaving the database as it was, when there is one. Which driver
  errors report a violated uniqueness constraint (\<open>isUniqueConstraintViolation\<close>, which looks at
  the driver's own error type and message) is the argument \<open>wd_unique\<close>. Columns hold the values
  written to them exactly: the microsecond precision of \<open>timestamptz\<close> and the scale of the
  \<open>decimal\<close> columns are not modelled.
\<close>

record 'db world =
  wd_db :: 'db
  wd_clock :: "nat \<Rightarrow> go_time"
  wd_tick :: nat
  wd_fault :: "nat \<Rightarrow> go_error option"
  wd_stmt :: nat
  wd_unique :: "go_error \<Rightarrow> bool"

definition now_of :: "'db world \<Rightarrow> go_time" where
  "now_of w = wd_clock w (wd_tick w)"

definition tick :: "'db world \<Rightarrow> 'db world" where
  "tick w = w\<lparr>wd_tick := Suc (wd_tick w)\<rparr>"

definition sql_exec :: "('db \<Rightarrow> 'a result \<times> 'db) \<Rightarrow> 'db world \<Rightarrow> 'a result \<times> 'db world" where
  "sql_exec f w =
     (let w' = w\<lparr>wd_stmt := Suc (wd_stmt w)\<rparr> in
      case wd_fault w (wd_stmt w) of
        Some e \<Rightarrow> (Inl e, w')
      | None \<Rightarrow> (let (r, db') = f (wd_db w) in (r, w'\<lparr>wd_db := db'\<rparr>)))"

definition entNotFound :: go_error where
  "entNotFound = Sentinel ''ent: not found''"

definition sqlErrNoRows :: go_error where
  "sqlErrNoRows = Sentinel ''sql: no rows in result set''"

definition translatePersistenceError ::
  "'db world \<Rightarrow> go_error \<Rightarrow> go_error option \<Rightarrow> go_error option \<Rightarrow> go_error" where
  "translatePersistenceError w err notFound conflict =
     (if notFound \<noteq> None \<and> (errors_is err sqlErrNoRows \<or> errors_is err entNotFound)
      then WithCause (the notFound) (Some err)
      else if conflict \<noteq> None \<and> wd_unique w err then WithCause (the conflict) (Some err)
      else err)"

text \<open>A database on which no statement fails.\<close>

definition healthy :: "'db world \<Rightarrow> bool" where
  "healthy w \<longleftrightarrow> (\<forall>n. wd_fault w n = None)"

lemma sql_exec_healthy:
  "healthy w \<Longrightarrow> sql_exec f w =
     (fst (f (wd_db w)), w\<lparr>wd_stmt := Suc (wd_stmt w), wd_db := snd (f (wd_db w))\<rparr>)"
  by (simp add: sql_exec_def healthy_def Let_def split: prod.splits)

lemma healthy_update [simp]:
  "healthy (tick w) = healthy w"
  "healthy (w\<lparr>wd_db := d\<rparr>) = healthy w"
  "healthy (w\<lparr>wd_stmt := n\<rparr>) = healthy w"
  by (simp_all add: healthy_def tick_def)

lemma tick_simps [simp]:
  "wd_db (tick w) = wd_db w" "wd_clock (tick w) = wd_clock w" "wd_tick (tick w) = Suc (wd_tick w)"
  "wd_fault (tick w) = wd_fault w" "wd_stmt (tick w) = wd_stmt w" "wd_unique (tick w) = wd_unique w"
  by (simp_all add: tick_def)

lemma now_of_simps [simp]:
  "now_of (w\<lparr>wd_db := d\<rparr>) = now_of w" "now_of (w\<lparr>wd_stmt := n\<rparr>) = now_of w"
  by (simp_all add: now_of_def)

text \<open>Only the database, the clock and the statement counter ever change.\<close>

definition same_env :: "'db world \<Rightarrow> 'db world \<Rightarrow> bool" where
  "same_env w w' \<longleftrightarrow> wd_clock w' = wd_clock w \<and> wd_fault w' = wd_fault w \<and> wd_unique w' = wd_unique w"

lemma same_env_refl [simp]: "same_env w w"
  and same_env_trans: "same_env w w' \<Longrightarrow> same_env w' w'' \<Longrightarrow> same_env w w''"
  and same_env_tick [simp]: "same_env w (tick w)"
  and same_env_exec: "sql_exec f w = (r, w') \<Longrightarrow> same_env w w'"
  by (auto simp: same_env_def sql_exec_def Let_def split: option.splits prod.splits)

lemma same_env_healthy: "same_env w w' \<Longrightarrow> healthy w \<Longrightarrow> healthy w'"
  by (simp add: same_env_def healthy_def)

lemma sql_exec_D:
  "sql_exec f w = (r, w') \<Longrightarrow> same_env w w' \<and> wd_tick w' = wd_tick w \<and>
     ((\<exists>e. r = Inl e \<and> wd_db w' = wd_db w) \<or> (r = fst (f (wd_db w)) \<and> wd_db w' = snd (f (wd_db w))))"
  by (auto simp: same_env_def sql_exec_def Let_def split: option.splits prod.splits)

lemma translate_found [simp]:
  "translatePersistenceError w entNotFound (Some nf) c = WithCause nf (Some entNotFound)"
  by (simp add: translatePersistenceError_def entNotFound_def)

end
