(* ===== verification/Subscription.thy ===== *)
theory Subscription
  imports Go_Float App_Errors
begin

text \<open>
  \<open>internal/service/user_subscription.go\<close>: one purchased subscription, its usage windows (daily
  windows start at midnight of the configured zone, weekly and monthly ones are periods of seven and
  thirty days counted from an anchor) and its spending limits. The time-zone database is not part of
  the program: midnight and calendar-day addition are the fields of \<open>zone\<close>, an argument of the
  definitions. The eager-loaded \<open>User\<close> relations of the struct play no part and are left out.
\<close>

section \<open>Data\<close>

record UserSubscription =
  us_ID :: int64
  us_UserID :: int64
  us_SubscriptionPlanID :: "int64 option"
  us_PlanNameSnapshot :: string
  us_DailyLimitUSDSnapshot :: "float64 option"
  us_WeeklyLimitUSDSnapshot :: "float64 option"
  us_MonthlyLimitUSDSnapshot :: "float64 option"
  us_RateMultiplierSnapshot :: float64
  us_StartsAt :: go_time
  us_ExpiresAt :: go_time
  us_Status :: string
  us_DailyWindowStart :: "go_time option"
  us_WeeklyWindowStart :: "go_time option"
  us_MonthlyWindowStart :: "go_time option"
  us_DailyUsageUSD :: float64
  us_WeeklyUsageUSD :: float64
  us_MonthlyUsageUSD :: float64
  us_AssignedBy :: "int64 option"
  us_AssignedAt :: go_time
  us_Notes :: string
  us_CreatedAt :: go_time
  us_UpdatedAt :: go_time
  us_DeletedAt :: "go_time option"

text \<open>
  \<open>zn_startOfDay\<close> is \<open>startOfDay\<close> (midnight in the zone the time value carries),
  \<open>zn_StartOfDay\<close> is \<open>timezone.StartOfDay\<close> (midnight in the configured zone) and
  \<open>zn_AddDate t n\<close> is \<open>t.AddDate(0, 0, n)\<close>.
\<close>

record zone =
  zn_startOfDay :: "go_time \<Rightarrow> go_time"
  zn_StartOfDay :: "go_time \<Rightarrow> go_time"
  zn_AddDate :: "go_time \<Rightarrow> int \<Rightarrow> go_time"

definition subscriptionDayDuration :: duration where
  "subscriptionDayDuration = 24 * hour"

definition SubscriptionStatusActive :: string where
  "SubscriptionStatusActive = ''active''"
definition SubscriptionStatusExpired :: string where
  "SubscriptionStatusExpired = ''expired''"
definition SubscriptionStatusSuspended :: string where
  "SubscriptionStatusSuspended = ''suspended''"

lemmas subscription_status_defs [go_simps] =
  SubscriptionStatusActive_def SubscriptionStatusExpired_def SubscriptionStatusSuspended_def

section \<open>Life time\<close>

definition IsActive :: "go_time \<Rightarrow> UserSubscription \<Rightarrow> bool" where
  "IsActive now s \<longleftrightarrow> us_Status s = SubscriptionStatusActive \<and> now < us_ExpiresAt s"

definition IsExpired :: "go_time \<Rightarrow> UserSubscription \<Rightarrow> bool" where
  "IsExpired now s \<longleftrightarrow> us_ExpiresAt s < now"

definition daysRemainingAt :: "UserSubscription \<Rightarrow> go_time \<Rightarrow> int" where
  "daysRemainingAt s now =
     (let remaining = time_sub (us_ExpiresAt s) now in
      if remaining \<le> 0 then 0
      else let days = go_quot remaining subscriptionDayDuration in
        if go_rem remaining subscriptionDayDuration \<noteq> 0 then days + 1 else days)"

section \<open>Usage windows\<close>

definition IsWindowActivated :: "UserSubscription \<Rightarrow> bool" where
  "IsWindowActivated s \<longleftrightarrow> us_DailyWindowStart s \<noteq> None \<or> us_WeeklyWindowStart s \<noteq> None
     \<or> us_MonthlyWindowStart s \<noteq> None"

definition HasOneTimeDailyQuota :: "zone \<Rightarrow> UserSubscription \<Rightarrow> bool" where
  "HasOneTimeDailyQuota z s =
     (if us_StartsAt s = 0 \<or> us_ExpiresAt s = 0 then False
      else \<not> zn_AddDate z (us_StartsAt s) 1 < us_ExpiresAt s)"

definition automaticDailyWindowStartAt :: "zone \<Rightarrow> UserSubscription \<Rightarrow> go_time \<Rightarrow> go_time option" where
  "automaticDailyWindowStartAt z s now =
     (case us_DailyWindowStart s of
        None \<Rightarrow> None
      | Some daily \<Rightarrow>
          if HasOneTimeDailyQuota z s then None
          else let today = zn_StartOfDay z now in
            if \<not> zn_StartOfDay z daily < today then None else Some today)"

definition legacy_anchor :: "zone \<Rightarrow> UserSubscription \<Rightarrow> go_time \<Rightarrow> go_time" where
  "legacy_anchor z s anchor =
     (let legacyAnchor = zn_startOfDay z (us_StartsAt s) in
      if legacyAnchor < us_StartsAt s \<and> anchor = legacyAnchor then us_StartsAt s else anchor)"

definition automaticWindowStartAt ::
  "zone \<Rightarrow> UserSubscription \<Rightarrow> go_time option \<Rightarrow> duration \<Rightarrow> go_time \<Rightarrow> go_time option" where
  "automaticWindowStartAt z s previous period now =
     (case previous of
        None \<Rightarrow> None
      | Some previous \<Rightarrow>
          let anchor = legacy_anchor z s previous;
              nxt = anchor + period
          in if now < nxt \<or> \<not> nxt < us_ExpiresAt s then None
             else let periods = go_quot (time_sub now anchor) period;
                      lastPeriodBeforeExpiry =
                        go_quot (wrap64 (time_sub (us_ExpiresAt s) anchor - 1)) period;
                      periods = (if lastPeriodBeforeExpiry < periods
                                 then lastPeriodBeforeExpiry else periods)
                  in Some (anchor + wrap64 (periods * period)))"

definition week :: duration where
  "week = 7 * 24 * hour"

definition month :: duration where
  "month = 30 * 24 * hour"

definition NeedsDailyResetAt :: "zone \<Rightarrow> UserSubscription \<Rightarrow> go_time \<Rightarrow> bool" where
  "NeedsDailyResetAt z s now \<longleftrightarrow> automaticDailyWindowStartAt z s now \<noteq> None"

definition NeedsWeeklyResetAt :: "UserSubscription \<Rightarrow> go_time \<Rightarrow> bool" where
  "NeedsWeeklyResetAt s now = (case us_WeeklyWindowStart s of
     None \<Rightarrow> False | Some w \<Rightarrow> \<not> now < w + week)"

definition NeedsMonthlyResetAt :: "UserSubscription \<Rightarrow> go_time \<Rightarrow> bool" where
  "NeedsMonthlyResetAt s now = (case us_MonthlyWindowStart s of
     None \<Rightarrow> False | Some w \<Rightarrow> \<not> now < w + month)"

definition canAutomaticallyResetDailyAt :: "zone \<Rightarrow> UserSubscription \<Rightarrow> go_time \<Rightarrow> bool" where
  "canAutomaticallyResetDailyAt z s now \<longleftrightarrow> automaticDailyWindowStartAt z s now \<noteq> None"

definition canAutomaticallyResetWeeklyAt :: "zone \<Rightarrow> UserSubscription \<Rightarrow> go_time \<Rightarrow> bool" where
  "canAutomaticallyResetWeeklyAt z s now \<longleftrightarrow>
     automaticWindowStartAt z s (us_WeeklyWindowStart s) week now \<noteq> None"

definition canAutomaticallyResetMonthlyAt :: "zone \<Rightarrow> UserSubscription \<Rightarrow> go_time \<Rightarrow> bool" where
  "canAutomaticallyResetMonthlyAt z s now \<longleftrightarrow>
     automaticWindowStartAt z s (us_MonthlyWindowStart s) month now \<noteq> None"

definition DailyResetTime :: "zone \<Rightarrow> UserSubscription \<Rightarrow> go_time option" where
  "DailyResetTime z s = (case us_DailyWindowStart s of
     None \<Rightarrow> None
   | Some daily \<Rightarrow> if HasOneTimeDailyQuota z s then Some (us_ExpiresAt s)
       else Some (zn_AddDate z (zn_StartOfDay z daily) 1))"

definition WeeklyResetTime :: "UserSubscription \<Rightarrow> go_time option" where
  "WeeklyResetTime s = (case us_WeeklyWindowStart s of None \<Rightarrow> None | Some w \<Rightarrow> Some (w + week))"

definition MonthlyResetTime :: "UserSubscription \<Rightarrow> go_time option" where
  "MonthlyResetTime s = (case us_MonthlyWindowStart s of None \<Rightarrow> None | Some w \<Rightarrow> Some (w + month))"

section \<open>Limits\<close>

definition hasUsageLimit :: "float64 option \<Rightarrow> bool" where
  "hasUsageLimit limit = (case limit of None \<Rightarrow> False | Some l \<Rightarrow> f_less f_zero l)"

definition dailyLimitUSD :: "UserSubscription \<Rightarrow> float64 option" where
  "dailyLimitUSD s = us_DailyLimitUSDSnapshot s"

definition weeklyLimitUSD :: "UserSubscription \<Rightarrow> float64 option" where
  "weeklyLimitUSD s = us_WeeklyLimitUSDSnapshot s"

definition monthlyLimitUSD :: "UserSubscription \<Rightarrow> float64 option" where
  "monthlyLimitUSD s = us_MonthlyLimitUSDSnapshot s"

definition within_limit :: "float64 option \<Rightarrow> float64 \<Rightarrow> float64 \<Rightarrow> bool" where
  "within_limit limit used cost = (\<not> hasUsageLimit limit \<or> f_le (f_add used cost) (the limit))"

definition CheckDailyLimit :: "UserSubscription \<Rightarrow> float64 \<Rightarrow> bool" where
  "CheckDailyLimit s cost = within_limit (dailyLimitUSD s) (us_DailyUsageUSD s) cost"

definition CheckWeeklyLimit :: "UserSubscription \<Rightarrow> float64 \<Rightarrow> bool" where
  "CheckWeeklyLimit s cost = within_limit (weeklyLimitUSD s) (us_WeeklyUsageUSD s) cost"

definition CheckMonthlyLimit :: "UserSubscription \<Rightarrow> float64 \<Rightarrow> bool" where
  "CheckMonthlyLimit s cost = within_limit (monthlyLimitUSD s) (us_MonthlyUsageUSD s) cost"

definition CheckAllLimits :: "UserSubscription \<Rightarrow> float64 \<Rightarrow> bool \<times> bool \<times> bool" where
  "CheckAllLimits s cost = (CheckDailyLimit s cost, CheckWeeklyLimit s cost, CheckMonthlyLimit s cost)"

definition cloneUserSubscription :: "UserSubscription option \<Rightarrow> UserSubscription option" where
  "cloneUserSubscription sub = (case sub of None \<Rightarrow> None | Some s \<Rightarrow> Some (s\<lparr>
     us_SubscriptionPlanID := map_option id (us_SubscriptionPlanID s),
     us_DailyLimitUSDSnapshot := map_option id (us_DailyLimitUSDSnapshot s),
     us_WeeklyLimitUSDSnapshot := map_option id (us_WeeklyLimitUSDSnapshot s),
     us_MonthlyLimitUSDSnapshot := map_option id (us_MonthlyLimitUSDSnapshot s),
     us_DailyWindowStart := map_option id (us_DailyWindowStart s),
     us_WeeklyWindowStart := map_option id (us_WeeklyWindowStart s),
     us_MonthlyWindowStart := map_option id (us_MonthlyWindowStart s),
     us_AssignedBy := map_option id (us_AssignedBy s),
     us_DeletedAt := map_option id (us_DeletedAt s)\<rparr>))"

section \<open>Lemmas\<close>

lemma day_pos: "0 < subscriptionDayDuration"
  by (simp add: subscriptionDayDuration_def duration_defs)

lemma week_pos [simp]: "0 < week" and month_pos [simp]: "0 < month"
  by (simp_all add: week_def month_def duration_defs)

lemma cloneUserSubscription_id [simp]: "cloneUserSubscription s = s"
  by (simp add: cloneUserSubscription_def option.map_id split: option.splits)

text \<open>
  The days a subscription has left are the remaining time rounded up to whole days: never
  negative, zero exactly from the expiry on, and otherwise the least number of days that covers the
  remaining time (for remaining times a \<open>time.Duration\<close> can hold).
\<close>

theorem daysRemainingAt_ceiling:
  assumes "us_ExpiresAt s - now \<le> max_int64"
  shows "0 \<le> daysRemainingAt s now \<and>
    (daysRemainingAt s now = 0 \<longleftrightarrow> us_ExpiresAt s \<le> now) \<and>
    (now < us_ExpiresAt s \<longrightarrow>
       us_ExpiresAt s - now \<le> daysRemainingAt s now * subscriptionDayDuration \<and>
       (daysRemainingAt s now - 1) * subscriptionDayDuration < us_ExpiresAt s - now)"
proof (cases "us_ExpiresAt s \<le> now")
  case True
  then have "time_sub (us_ExpiresAt s) now \<le> 0"
    by (auto simp: time_sub_def sat64_def min_int64_def max_int64_def)
  with True show ?thesis by (simp add: daysRemainingAt_def)
next
  case False
  define r where "r = us_ExpiresAt s - now"
  define d where "d = subscriptionDayDuration"
  have r: "0 < r" and d: "0 < d" using False day_pos by (simp_all add: r_def d_def)
  have "time_sub (us_ExpiresAt s) now = r"
    using assms r by (simp add: time_sub_def r_def min_int64_def)
  then have days: "daysRemainingAt s now = (if r mod d \<noteq> 0 then r div d + 1 else r div d)"
    using r d by (simp add: daysRemainingAt_def Let_def d_def go_quot_nonneg go_rem_nonneg)
  define q m where "q = r div d" and "m = r mod d"
  have qm: "r = q * d + m" "0 \<le> m" "m < d" using d by (simp_all add: q_def m_def)
  have q: "0 \<le> q" using r d by (simp add: q_def pos_imp_zdiv_nonneg_iff)
  have days: "daysRemainingAt s now = (if m \<noteq> 0 then q + 1 else q)"
    using days by (simp add: q_def m_def)
  have "m = 0 \<Longrightarrow> 0 < q" using qm r q by (cases "q = 0") auto
  then show ?thesis using days False qm q d
    by (auto simp: r_def [symmetric] d_def [symmetric] distrib_right left_diff_distrib)
qed

definition demo_sub :: UserSubscription where
  "demo_sub = \<lparr>us_ID = 21, us_UserID = 7, us_SubscriptionPlanID = Some 5, us_PlanNameSnapshot = ''pro'',
     us_DailyLimitUSDSnapshot = Some (Fin 10), us_WeeklyLimitUSDSnapshot = None,
     us_MonthlyLimitUSDSnapshot = None, us_RateMultiplierSnapshot = Fin (1 / 2),
     us_StartsAt = 100 * week, us_ExpiresAt = 104 * week, us_Status = ''active'',
     us_DailyWindowStart = Some (100 * week), us_WeeklyWindowStart = Some (100 * week),
     us_MonthlyWindowStart = Some (100 * week), us_DailyUsageUSD = Fin 3, us_WeeklyUsageUSD = Fin 3,
     us_MonthlyUsageUSD = Fin 3, us_AssignedBy = None, us_AssignedAt = 100 * week, us_Notes = [],
     us_CreatedAt = 100 * week, us_UpdatedAt = 100 * week, us_DeletedAt = None\<rparr>"

theorem daysRemainingAt_ceiling_witness:
  "daysRemainingAt demo_sub (103 * week + 1) = 7 \<and>
   104 * week - (103 * week + 1) \<le> 7 * subscriptionDayDuration"
proof -
  have "us_ExpiresAt demo_sub - (103 * week + 1) \<le> max_int64"
    by (simp add: demo_sub_def week_def duration_defs max_int64_def)
  from daysRemainingAt_ceiling [OF this]
  show ?thesis
    by (auto simp: demo_sub_def daysRemainingAt_def time_sub_def sat64_def week_def duration_defs
        max_int64_def min_int64_def subscriptionDayDuration_def go_quot_def go_rem_def Let_def)
qed

text \<open>The arithmetic of the periodic windows, on plain integers.\<close>

lemma floor_multiple:
  fixes p :: int
  assumes "0 < p"
  shows "x div p * p \<le> x" "x < (x div p + 1) * p"
proof -
  define q m where "q = x div p" and "m = x mod p"
  have "x = q * p + m" "0 \<le> m" "m < p" using assms by (simp_all add: q_def m_def)
  then show "x div p * p \<le> x" "x < (x div p + 1) * p"
    by (simp_all add: q_def [symmetric] distrib_right)
qed

lemma period_index:
  fixes p :: int
  assumes "0 < p" "a + p \<le> n" "a + p < e"
    and w: "w = a + min ((n - a) div p) ((e - a - 1) div p) * p"
  shows "a + p \<le> w" "w \<le> n" "w < e" "n < w + p \<or> e \<le> w + p"
proof -
  define k l where "k = (n - a) div p" and "l = (e - a - 1) div p"
  have k: "k * p \<le> n - a" "n - a < (k + 1) * p" and l: "l * p \<le> e - a - 1" "e - a - 1 < (l + 1) * p"
    unfolding k_def l_def by (fact floor_multiple [OF assms(1)])+
  have "p div p \<le> k" "p div p \<le> l"
    unfolding k_def l_def by (rule zdiv_mono1; use assms in simp)+
  then have one: "1 \<le> k" "1 \<le> l" using assms(1) by simp_all
  have w: "w = a + min k l * p" using w by (simp add: k_def l_def)
  have "1 * p \<le> min k l * p" using one assms(1) by (intro mult_right_mono) auto
  then show "a + p \<le> w" using w by simp
  have "min k l * p \<le> k * p" "min k l * p \<le> l * p"
    using assms(1) by (auto intro: mult_right_mono)
  then show "w \<le> n" "w < e" using w k l by simp_all
  show "n < w + p \<or> e \<le> w + p"
    using w k(2) l(2) by (cases "k \<le> l") (auto simp: min_def distrib_right)
qed

text \<open>
  A period and times that fit a \<open>time.Duration\<close>: the differences the code takes do not saturate
  and the product of period and count does not wrap.
\<close>

definition times_fit :: "UserSubscription \<Rightarrow> go_time \<Rightarrow> go_time \<Rightarrow> bool" where
  "times_fit s anchor now \<longleftrightarrow> now - anchor \<le> max_int64 \<and> us_ExpiresAt s - anchor \<le> max_int64"

lemma automaticWindowStartAt_eq:
  assumes "automaticWindowStartAt z s (Some prev) p now = Some w"
    and "a = legacy_anchor z s prev" "times_fit s a now" "0 < p" "p \<le> max_int64"
  shows "a + p \<le> now" "a + p < us_ExpiresAt s"
    "w = a + min ((now - a) div p) ((us_ExpiresAt s - a - 1) div p) * p"
proof -
  let ?e = "us_ExpiresAt s"
  show *: "a + p \<le> now" "a + p < ?e"
    using assms(1,2) by (auto simp: automaticWindowStartAt_def Let_def split: if_splits)
  have sub: "time_sub now a = now - a" "time_sub ?e a = ?e - a"
    using assms(3) * \<open>0 < p\<close> by (simp_all add: time_sub_def times_fit_def min_int64_def)
  have fit: "wrap64 (?e - a - 1) = ?e - a - 1"
    using assms(3) * \<open>0 < p\<close> by (intro wrap64_id) (auto simp: times_fit_def min_int64_def)
  define k l where "k = (now - a) div p" and "l = (?e - a - 1) div p"
  have q: "go_quot (now - a) p = k" "go_quot (?e - a - 1) p = l"
    using * \<open>0 < p\<close> by (simp_all add: k_def l_def go_quot_nonneg)
  have "0 \<le> k" "0 \<le> l" using * \<open>0 < p\<close> by (simp_all add: k_def l_def pos_imp_zdiv_nonneg_iff)
  then have "0 \<le> min k l * p" using \<open>0 < p\<close> by simp
  moreover have "min k l * p \<le> k * p" using \<open>0 < p\<close> by (intro mult_right_mono) auto
  moreover have "k * p \<le> now - a" unfolding k_def by (rule floor_multiple(1) [OF \<open>0 < p\<close>])
  ultimately have "wrap64 (min k l * p) = min k l * p"
    using assms(3) by (intro wrap64_id) (auto simp: times_fit_def min_int64_def)
  moreover have "(if l < k then l else k) = min k l" by simp
  ultimately show "w = a + min ((now - a) div p) ((?e - a - 1) div p) * p"
    using assms(1) unfolding k_def [symmetric] l_def [symmetric]
    by (simp add: automaticWindowStartAt_def Let_def assms(2) [symmetric] sub fit q split: if_splits)
qed

text \<open>
  Advancing a periodic usage window puts its start on the grid of the anchor: the new start is a
  whole number of periods (at least one) after the anchor, not in the future, before the
  subscription expires, and it is the latest such start, since one more period would lie in the
  future or not before the expiry.
\<close>

theorem automaticWindowStartAt_latest:
  assumes "automaticWindowStartAt z s (Some prev) p now = Some w"
    and "times_fit s (legacy_anchor z s prev) now" "0 < p" "p \<le> max_int64"
  shows "\<exists>n \<ge> 1. w = legacy_anchor z s prev + n * p \<and> w \<le> now \<and> w < us_ExpiresAt s \<and>
    (now < w + p \<or> us_ExpiresAt s \<le> w + p)"
proof -
  let ?a = "legacy_anchor z s prev"
  note eq = automaticWindowStartAt_eq [OF assms(1) refl assms(2-4)]
  note ix = period_index [OF assms(3) eq]
  let ?n = "min ((now - ?a) div p) ((us_ExpiresAt s - ?a - 1) div p)"
  have "p \<le> ?n * p" using ix(1) eq(3) by simp
  then have "1 * p \<le> ?n * p" by simp
  then have "1 \<le> ?n" using assms(3) by (simp only: mult_le_cancel_right_pos)
  then show ?thesis using eq(3) ix by blast
qed

definition utc_zone :: zone where
  "utc_zone = \<lparr>zn_startOfDay = (\<lambda>t. t - t mod (24 * hour)), zn_StartOfDay = (\<lambda>t. t - t mod (24 * hour)),
     zn_AddDate = (\<lambda>t n. t + n * (24 * hour))\<rparr>"

lemma demo_window:
  "automaticWindowStartAt utc_zone demo_sub (Some (100 * week)) week (102 * week + 5)
     = Some (102 * week)"
  by (simp add: automaticWindowStartAt_def legacy_anchor_def utc_zone_def demo_sub_def Let_def
      time_sub_def sat64_def wrap64_def week_def duration_defs min_int64_def max_int64_def go_quot_def)

theorem automaticWindowStartAt_latest_witness:
  "\<exists>n \<ge> 1. 102 * week = 100 * week + n * week \<and> 102 * week \<le> 102 * week + 5 \<and>
     102 * week < us_ExpiresAt demo_sub"
proof -
  have "legacy_anchor utc_zone demo_sub (100 * week) = 100 * week"
    by (simp add: legacy_anchor_def Let_def demo_sub_def)
  moreover have "times_fit demo_sub (100 * week) (102 * week + 5)" "week \<le> max_int64"
    by (simp_all add: times_fit_def demo_sub_def week_def duration_defs max_int64_def)
  ultimately show ?thesis
    using automaticWindowStartAt_latest [OF demo_window] by auto
qed

text \<open>Once a window has been advanced, it needs no further advance at the same time.\<close>

lemma automaticWindowStartAt_settled:
  assumes "automaticWindowStartAt z s (Some prev) p now = Some w"
    and "times_fit s (legacy_anchor z s prev) now" "0 < p" "p \<le> max_int64"
  shows "automaticWindowStartAt z s (Some w) p now = None"
proof -
  note ix = period_index [OF assms(3) automaticWindowStartAt_eq [OF assms(1) refl assms(2-4)]]
  have "w \<le> legacy_anchor z s w" by (simp add: legacy_anchor_def Let_def)
  with ix(4) show ?thesis by (auto simp: automaticWindowStartAt_def Let_def)
qed

end
