(* ===== verification/Subscription_Repo.thy ===== *)
theory Subscription_Repo
  imports Sql_World Subscription
begin

text \<open>
  \<open>internal/repository/user_subscription_repo.go\<close> and \<open>user_subscription_active_repo.go\<close>:
  the table of user subscriptions. A row is a \<open>UserSubscription\<close> with the stored status (the
  status \<open>revoked\<close> is only shown, for rows with a deletion time); the list of rows is in storage
  order, which is arbitrary. Deletion is soft: ordinary queries and conditional updates of the
  builder see live rows only where the interceptor of \<open>ent/schema/mixins/soft_delete.go\<close> adds
  the condition (queries and deletes), and every row otherwise (\<open>UpdateOneID\<close>, \<open>Update\<close>).
  Every builder update also sets \<open>updated_at\<close> from the clock (\<open>mixins/time.go\<close>). The
  relations to user rows that some queries load are left out of the result.
\<close>

section \<open>The table\<close>

record sub_store =
  ss_rows :: "UserSubscription list"
  ss_next_id :: int64
  ss_invalidated :: "(int64 \<times> int64) list"

type_synonym sub_world = "sub_store world"

definition SubscriptionStatusRevoked :: string where
  "SubscriptionStatusRevoked = ''revoked''"

definition ErrSubscriptionNotFound :: go_error where
  "ErrSubscriptionNotFound = NotFound ''SUBSCRIPTION_NOT_FOUND'' ''subscription not found''"
definition ErrSubscriptionAlreadyExists :: go_error where
  "ErrSubscriptionAlreadyExists = Conflict ''SUBSCRIPTION_ALREADY_EXISTS''
     ''subscription already exists for this user and plan''"
definition ErrSubscriptionRestoreConflict :: go_error where
  "ErrSubscriptionRestoreConflict = Conflict ''SUBSCRIPTION_RESTORE_CONFLICT''
     ''subscription already exists for this user and plan''"
definition ErrSubscriptionNilInput :: go_error where
  "ErrSubscriptionNilInput = BadRequest ''SUBSCRIPTION_NIL_INPUT'' ''subscription input cannot be nil''"

definition live :: "UserSubscription \<Rightarrow> bool" where
  "live r \<longleftrightarrow> us_DeletedAt r = None"

definition find_row :: "int64 \<Rightarrow> UserSubscription list \<Rightarrow> UserSubscription option" where
  "find_row sid rows = find (\<lambda>r. us_ID r = sid) rows"

definition update_where ::
  "(UserSubscription \<Rightarrow> bool) \<Rightarrow> (UserSubscription \<Rightarrow> UserSubscription) \<Rightarrow> UserSubscription list
    \<Rightarrow> UserSubscription list" where
  "update_where p f rows = map (\<lambda>r. if p r then f r else r) rows"

text \<open>The builder checks the lengths of the string columns before it sends the statement.\<close>

definition entValidation :: go_error where
  "entValidation = Sentinel ''ent: validator failed''"

definition sql_query :: "(UserSubscription list \<Rightarrow> 'a result) \<Rightarrow> sub_world \<Rightarrow> 'a result \<times> sub_world" where
  "sql_query q w = sql_exec (\<lambda>d. (q (ss_rows d), d)) w"

definition sql_update_one ::
  "int64 \<Rightarrow> (UserSubscription \<Rightarrow> UserSubscription) \<Rightarrow> sub_world \<Rightarrow> UserSubscription result \<times> sub_world" where
  "sql_update_one sid f w =
     (let now = now_of w; w = tick w; g = (\<lambda>r. (f r)\<lparr>us_UpdatedAt := now\<rparr>) in
      sql_exec (\<lambda>d. case find_row sid (ss_rows d) of
          None \<Rightarrow> (Inl entNotFound, d)
        | Some r \<Rightarrow> (Inr (g r), d\<lparr>ss_rows := update_where (\<lambda>x. us_ID x = sid) g (ss_rows d)\<rparr>)) w)"

definition sql_update_many ::
  "(UserSubscription \<Rightarrow> bool) \<Rightarrow> (UserSubscription \<Rightarrow> UserSubscription) \<Rightarrow> sub_world
    \<Rightarrow> int result \<times> sub_world" where
  "sql_update_many p f w =
     (let now = now_of w; w = tick w; g = (\<lambda>r. (f r)\<lparr>us_UpdatedAt := now\<rparr>) in
      sql_exec (\<lambda>d. (Inr (int (length (filter p (ss_rows d)))),
         d\<lparr>ss_rows := update_where p g (ss_rows d)\<rparr>)) w)"

section \<open>Rows and service values\<close>

definition userSubscriptionEntityToServiceWithStatusMapping ::
  "UserSubscription \<Rightarrow> bool \<Rightarrow> UserSubscription" where
  "userSubscriptionEntityToServiceWithStatusMapping m mapDeletedToRevoked =
     (if mapDeletedToRevoked \<and> us_DeletedAt m \<noteq> None
      then m\<lparr>us_Status := SubscriptionStatusRevoked\<rparr> else m)"

definition userSubscriptionEntityToService :: "UserSubscription \<Rightarrow> UserSubscription" where
  "userSubscriptionEntityToService m = userSubscriptionEntityToServiceWithStatusMapping m True"

definition userSubscriptionEntityToServicePreserveStatus :: "UserSubscription \<Rightarrow> UserSubscription" where
  "userSubscriptionEntityToServicePreserveStatus m =
     userSubscriptionEntityToServiceWithStatusMapping m False"

definition userSubscriptionEntitiesToService :: "UserSubscription list \<Rightarrow> UserSubscription list" where
  "userSubscriptionEntitiesToService models = map userSubscriptionEntityToService models"

definition applyUserSubscriptionEntityToService ::
  "UserSubscription \<Rightarrow> UserSubscription \<Rightarrow> UserSubscription" where
  "applyUserSubscriptionEntityToService dst src = dst\<lparr>us_ID := us_ID src,
     us_CreatedAt := us_CreatedAt src, us_UpdatedAt := us_UpdatedAt src\<rparr>"

section \<open>Reading\<close>

definition repo_GetByID :: "int64 \<Rightarrow> sub_world \<Rightarrow> UserSubscription result \<times> sub_world" where
  "repo_GetByID sid w =
     (case sql_query (\<lambda>rows. case find (\<lambda>r. us_ID r = sid \<and> live r) rows of
          None \<Rightarrow> Inl entNotFound | Some m \<Rightarrow> Inr m) w of
        (Inl err, w) \<Rightarrow> (Inl (translatePersistenceError w err (Some ErrSubscriptionNotFound) None), w)
      | (Inr m, w) \<Rightarrow> (Inr (userSubscriptionEntityToService m), w))"

definition repo_GetByIDIncludeDeleted :: "int64 \<Rightarrow> sub_world \<Rightarrow> UserSubscription result \<times> sub_world" where
  "repo_GetByIDIncludeDeleted sid w =
     (case sql_query (\<lambda>rows. case find_row sid rows of
          None \<Rightarrow> Inl entNotFound | Some m \<Rightarrow> Inr m) w of
        (Inl err, w) \<Rightarrow> (Inl (translatePersistenceError w err (Some ErrSubscriptionNotFound) None), w)
      | (Inr m, w) \<Rightarrow> (Inr (userSubscriptionEntityToServicePreserveStatus m), w))"

definition repo_ListByUserID :: "int64 \<Rightarrow> sub_world \<Rightarrow> UserSubscription list result \<times> sub_world" where
  "repo_ListByUserID userID w =
     (case sql_query (\<lambda>rows. Inr (stable_sort (\<lambda>a b. us_CreatedAt b < us_CreatedAt a)
          (filter (\<lambda>r. us_UserID r = userID \<and> live r) rows))) w of
        (Inl err, w) \<Rightarrow> (Inl err, w)
      | (Inr subs, w) \<Rightarrow> (Inr (userSubscriptionEntitiesToService subs), w))"

definition repo_ListActiveByUserID :: "int64 \<Rightarrow> sub_world \<Rightarrow> UserSubscription list result \<times> sub_world" where
  "repo_ListActiveByUserID userID w =
     (let now = now_of w; w = tick w in
      case sql_query (\<lambda>rows. Inr (stable_sort (\<lambda>a b. us_CreatedAt b < us_CreatedAt a)
          (filter (\<lambda>r. us_UserID r = userID \<and> us_Status r = SubscriptionStatusActive
             \<and> now < us_ExpiresAt r \<and> live r) rows))) w of
        (Inl err, w) \<Rightarrow> (Inl err, w)
      | (Inr subs, w) \<Rightarrow> (Inr (userSubscriptionEntitiesToService subs), w))"

definition candidate_less :: "UserSubscription \<Rightarrow> UserSubscription \<Rightarrow> bool" where
  "candidate_less left right =
     (if us_ExpiresAt left \<noteq> us_ExpiresAt right then us_ExpiresAt left < us_ExpiresAt right
      else if us_CreatedAt left \<noteq> us_CreatedAt right then us_CreatedAt left < us_CreatedAt right
      else us_ID left < us_ID right)"

definition repo_ListActiveByUserIDAndPlanIDs ::
  "int64 \<Rightarrow> int64 list \<Rightarrow> sub_world \<Rightarrow> UserSubscription list result \<times> sub_world" where
  "repo_ListActiveByUserIDAndPlanIDs userID planIDs w =
     (if planIDs = [] then (Inr [], w)
      else let now = now_of w; w = tick w in
      case sql_query (\<lambda>rows. Inr (stable_sort candidate_less
          (filter (\<lambda>r. us_UserID r = userID \<and> us_Status r = SubscriptionStatusActive
             \<and> now < us_ExpiresAt r
             \<and> (case us_SubscriptionPlanID r of None \<Rightarrow> False | Some p \<Rightarrow> p \<in> set planIDs)
             \<and> live r) rows))) w of
        (Inl err, w) \<Rightarrow> (Inl err, w)
      | (Inr entities, w) \<Rightarrow> (Inr (userSubscriptionEntitiesToService entities), w))"

definition repo_ListExpired :: "sub_world \<Rightarrow> UserSubscription list result \<times> sub_world" where
  "repo_ListExpired w =
     (let now = now_of w; w = tick w in
      case sql_query (\<lambda>rows. Inr (filter (\<lambda>r. us_Status r = SubscriptionStatusActive
             \<and> us_ExpiresAt r \<le> now \<and> live r) rows)) w of
        (Inl err, w) \<Rightarrow> (Inl err, w)
      | (Inr subs, w) \<Rightarrow> (Inr (userSubscriptionEntitiesToService subs), w))"

section \<open>Paginated listing\<close>

record PaginationParams =
  pp_Page :: int
  pp_PageSize :: int

record PaginationResult =
  pr_Total :: int64
  pr_Page :: int
  pr_PageSize :: int
  pr_Pages :: int

definition Limit :: "PaginationParams \<Rightarrow> int" where
  "Limit p = (if pp_PageSize p < 1 then 20 else if 1000 < pp_PageSize p then 1000 else pp_PageSize p)"

definition Offset :: "PaginationParams \<Rightarrow> int" where
  "Offset p = (let page = (if pp_Page p < 1 then 1 else pp_Page p) in wrap64 ((page - 1) * Limit p))"

definition paginationResultFromTotal :: "int64 \<Rightarrow> PaginationParams \<Rightarrow> PaginationResult" where
  "paginationResultFromTotal tot params =
     (let pages = go_quot tot (Limit params);
          pages = (if 0 < go_rem tot (Limit params) then pages + 1 else pages)
      in \<lparr>pr_Total = tot, pr_Page = pp_Page params, pr_PageSize = Limit params, pr_Pages = pages\<rparr>)"

definition status_filter :: "string \<Rightarrow> go_time \<Rightarrow> UserSubscription \<Rightarrow> bool" where
  "status_filter status now r =
     (if status = SubscriptionStatusActive
      then us_Status r = SubscriptionStatusActive \<and> now < us_ExpiresAt r
      else if status = SubscriptionStatusExpired
      then us_Status r = SubscriptionStatusExpired
        \<or> (us_Status r = SubscriptionStatusActive \<and> us_ExpiresAt r \<le> now)
      else if status = SubscriptionStatusRevoked then us_DeletedAt r \<noteq> None
      else if status = '''' then True
      else us_Status r = status)"

text \<open>The order of text columns is the collation of the database, \<open>text_less\<close>.\<close>

definition field_less ::
  "(string \<Rightarrow> string \<Rightarrow> bool) \<Rightarrow> string \<Rightarrow> UserSubscription \<Rightarrow> UserSubscription \<Rightarrow> bool" where
  "field_less text_less sortBy a b =
     (if sortBy = ''expires_at'' then us_ExpiresAt a < us_ExpiresAt b
      else if sortBy = ''status'' then text_less (us_Status a) (us_Status b)
      else us_CreatedAt a < us_CreatedAt b)"

fun uniqueInt64s_loop :: "int64 list \<Rightarrow> int64 list \<Rightarrow> int64 list" where
  "uniqueInt64s_loop seen [] = []"
| "uniqueInt64s_loop seen (v # vs) =
     (if v \<in> set seen then uniqueInt64s_loop seen vs else v # uniqueInt64s_loop (v # seen) vs)"

definition uniqueInt64s :: "int64 list \<Rightarrow> int64 list" where
  "uniqueInt64s values = uniqueInt64s_loop [] values"

definition attachUserSubscriptionRelations :: "UserSubscription list \<Rightarrow> sub_world \<Rightarrow> unit result \<times> sub_world" where
  "attachUserSubscriptionRelations subs w =
     (if subs = [] then (Inr (), w)
      else case sql_query (\<lambda>rows. Inr ()) w of
        (Inl err, w) \<Rightarrow> (Inl err, w)
      | (Inr _, w) \<Rightarrow>
          if list_ex (\<lambda>s. us_AssignedBy s \<noteq> None) subs then sql_query (\<lambda>rows. Inr ()) w
          else (Inr (), w))"

definition negative_offset :: go_error where
  "negative_offset = Sentinel ''pq: OFFSET must not be negative''"

definition repo_List ::
  "(string \<Rightarrow> string \<Rightarrow> bool) \<Rightarrow> PaginationParams \<Rightarrow> int64 option \<Rightarrow> string \<Rightarrow> string \<Rightarrow> string \<Rightarrow> sub_world
    \<Rightarrow> (UserSubscription list \<times> PaginationResult) result \<times> sub_world" where
  "repo_List text_less params userID status sortBy sortOrder w =
     (let includeSoftDeleted = (status = '''' \<or> status = SubscriptionStatusRevoked);
          now = now_of w; w = tick w;
          sel = (\<lambda>r. (case userID of None \<Rightarrow> True | Some u \<Rightarrow> us_UserID r = u)
                  \<and> status_filter status now r \<and> (includeSoftDeleted \<or> live r));
          lt = (if sortOrder = ''asc'' \<and> sortBy \<noteq> '''' then field_less text_less sortBy
                else (\<lambda>a b. field_less text_less sortBy b a))
      in case sql_query (\<lambda>rows. Inr (int (length (filter sel rows)))) w of
           (Inl err, w) \<Rightarrow> (Inl err, w)
         | (Inr tot, w) \<Rightarrow>
             (case sql_query (\<lambda>rows. if Offset params < 0 then Inl negative_offset
                  else Inr (take (nat (Limit params)) (drop (nat (Offset params))
                    (stable_sort lt (filter sel rows))))) w of
                (Inl err, w) \<Rightarrow> (Inl err, w)
              | (Inr subs, w) \<Rightarrow>
                  let result = userSubscriptionEntitiesToService subs in
                  if includeSoftDeleted then
                    (case attachUserSubscriptionRelations result w of
                       (Inl err, w) \<Rightarrow> (Inl err, w)
                     | (Inr _, w) \<Rightarrow> (Inr (result, paginationResultFromTotal tot params), w))
                  else (Inr (result, paginationResultFromTotal tot params), w)))"

section \<open>Writing\<close>

definition repo_Create ::
  "UserSubscription option \<Rightarrow> sub_world \<Rightarrow> UserSubscription result \<times> sub_world" where
  "repo_Create sub w =
     (case sub of
        None \<Rightarrow> (Inl ErrSubscriptionNilInput, w)
      | Some sub \<Rightarrow>
          let (starts, w) = (if us_StartsAt sub = 0 then (now_of w, tick w) else (us_StartsAt sub, w));
              (created, w) = (now_of w, tick w);
              (updated, w) = (now_of w, tick w);
              status = (if us_Status sub \<noteq> '''' then us_Status sub else SubscriptionStatusActive);
              (assigned, w) = (if us_AssignedAt sub = 0 then (now_of w, tick w)
                               else (us_AssignedAt sub, w))
          in if 100 < length (us_PlanNameSnapshot sub) \<or> 20 < length status
             then (Inl (translatePersistenceError w entValidation None (Some ErrSubscriptionAlreadyExists)), w)
             else
             (case sql_exec (\<lambda>d.
                let m = sub\<lparr>us_ID := ss_next_id d, us_StartsAt := starts, us_Status := status,
                      us_AssignedAt := assigned, us_CreatedAt := created, us_UpdatedAt := updated,
                      us_DeletedAt := None\<rparr>
                in (Inr m, d\<lparr>ss_rows := ss_rows d @ [m], ss_next_id := ss_next_id d + 1\<rparr>)) w of
                (Inl err, w) \<Rightarrow>
                  (Inl (translatePersistenceError w err None (Some ErrSubscriptionAlreadyExists)), w)
              | (Inr m, w) \<Rightarrow> (Inr (applyUserSubscriptionEntityToService sub m), w)))"

definition keep_unless_set :: "'a option \<Rightarrow> 'a option \<Rightarrow> 'a option" where
  "keep_unless_set new old = (case new of None \<Rightarrow> old | Some _ \<Rightarrow> new)"

definition repo_Update ::
  "UserSubscription option \<Rightarrow> sub_world \<Rightarrow> UserSubscription result \<times> sub_world" where
  "repo_Update sub w =
     (case sub of
        None \<Rightarrow> (Inl ErrSubscriptionNilInput, w)
      | Some sub \<Rightarrow>
          if 100 < length (us_PlanNameSnapshot sub) \<or> 20 < length (us_Status sub)
          then (Inl (translatePersistenceError (tick w) entValidation (Some ErrSubscriptionNotFound)
                  (Some ErrSubscriptionAlreadyExists)), tick w)
          else
          (case sql_update_one (us_ID sub) (\<lambda>r. r\<lparr>
               us_UserID := us_UserID sub,
               us_SubscriptionPlanID := keep_unless_set (us_SubscriptionPlanID sub) (us_SubscriptionPlanID r),
               us_PlanNameSnapshot := us_PlanNameSnapshot sub,
               us_DailyLimitUSDSnapshot := keep_unless_set (us_DailyLimitUSDSnapshot sub) (us_DailyLimitUSDSnapshot r),
               us_WeeklyLimitUSDSnapshot := keep_unless_set (us_WeeklyLimitUSDSnapshot sub) (us_WeeklyLimitUSDSnapshot r),
               us_MonthlyLimitUSDSnapshot := keep_unless_set (us_MonthlyLimitUSDSnapshot sub) (us_MonthlyLimitUSDSnapshot r),
               us_RateMultiplierSnapshot := us_RateMultiplierSnapshot sub,
               us_StartsAt := us_StartsAt sub,
               us_ExpiresAt := us_ExpiresAt sub,
               us_Status := us_Status sub,
               us_DailyWindowStart := keep_unless_set (us_DailyWindowStart sub) (us_DailyWindowStart r),
               us_WeeklyWindowStart := keep_unless_set (us_WeeklyWindowStart sub) (us_WeeklyWindowStart r),
               us_MonthlyWindowStart := keep_unless_set (us_MonthlyWindowStart sub) (us_MonthlyWindowStart r),
               us_DailyUsageUSD := us_DailyUsageUSD sub,
               us_WeeklyUsageUSD := us_WeeklyUsageUSD sub,
               us_MonthlyUsageUSD := us_MonthlyUsageUSD sub,
               us_AssignedBy := keep_unless_set (us_AssignedBy sub) (us_AssignedBy r),
               us_AssignedAt := us_AssignedAt sub,
               us_Notes := us_Notes sub\<rparr>) w of
             (Inl err, w) \<Rightarrow> (Inl (translatePersistenceError w err (Some ErrSubscriptionNotFound)
                 (Some ErrSubscriptionAlreadyExists)), w)
           | (Inr updated, w) \<Rightarrow> (Inr (applyUserSubscriptionEntityToService sub updated), w)))"

definition repo_Delete :: "int64 \<Rightarrow> sub_world \<Rightarrow> unit result \<times> sub_world" where
  "repo_Delete sid w =
     (let now = now_of w; w = tick w in
      case sql_update_many (\<lambda>r. us_ID r = sid \<and> live r) (\<lambda>r. r\<lparr>us_DeletedAt := Some now\<rparr>) w of
        (Inl err, w) \<Rightarrow> (Inl err, w)
      | (Inr _, w) \<Rightarrow> (Inr (), w))"

definition repo_Restore :: "int64 \<Rightarrow> string \<Rightarrow> sub_world \<Rightarrow> UserSubscription result \<times> sub_world" where
  "repo_Restore subscriptionID restoredStatus w =
     (let now = now_of w; w = tick w in
      if 20 < length restoredStatus
      then (Inl (translatePersistenceError w entValidation (Some ErrSubscriptionNotFound)
              (Some ErrSubscriptionRestoreConflict)), w)
      else
      case sql_exec (\<lambda>d. case find_row subscriptionID (ss_rows d) of
          None \<Rightarrow> (Inl entNotFound, d)
        | Some r \<Rightarrow> (Inr (), d\<lparr>ss_rows := update_where (\<lambda>x. us_ID x = subscriptionID)
            (\<lambda>r. r\<lparr>us_Status := restoredStatus, us_DeletedAt := None, us_UpdatedAt := now\<rparr>) (ss_rows d)\<rparr>)) w of
        (Inl err, w) \<Rightarrow> (Inl (translatePersistenceError w err (Some ErrSubscriptionNotFound)
            (Some ErrSubscriptionRestoreConflict)), w)
      | (Inr _, w) \<Rightarrow> repo_GetByID subscriptionID w)"

definition set_one ::
  "int64 \<Rightarrow> (UserSubscription \<Rightarrow> UserSubscription) \<Rightarrow> sub_world \<Rightarrow> unit result \<times> sub_world" where
  "set_one sid f w =
     (case sql_update_one sid f w of
        (Inl err, w) \<Rightarrow> (Inl (translatePersistenceError w err (Some ErrSubscriptionNotFound) None), w)
      | (Inr _, w) \<Rightarrow> (Inr (), w))"

definition repo_ExtendExpiry :: "int64 \<Rightarrow> go_time \<Rightarrow> sub_world \<Rightarrow> unit result \<times> sub_world" where
  "repo_ExtendExpiry subscriptionID newExpiresAt w =
     set_one subscriptionID (\<lambda>r. r\<lparr>us_ExpiresAt := newExpiresAt\<rparr>) w"

definition repo_UpdateStatus :: "int64 \<Rightarrow> string \<Rightarrow> sub_world \<Rightarrow> unit result \<times> sub_world" where
  "repo_UpdateStatus subscriptionID status w =
     (if 20 < length status
      then (Inl (translatePersistenceError (tick w) entValidation (Some ErrSubscriptionNotFound) None), tick w)
      else set_one subscriptionID (\<lambda>r. r\<lparr>us_Status := status\<rparr>) w)"

definition repo_UpdateNotes :: "int64 \<Rightarrow> string \<Rightarrow> sub_world \<Rightarrow> unit result \<times> sub_world" where
  "repo_UpdateNotes subscriptionID notes w =
     set_one subscriptionID (\<lambda>r. r\<lparr>us_Notes := notes\<rparr>) w"

definition repo_ResetUsageWindows ::
  "int64 \<Rightarrow> bool \<Rightarrow> bool \<Rightarrow> bool \<Rightarrow> go_time \<Rightarrow> go_time \<Rightarrow> sub_world \<Rightarrow> unit result \<times> sub_world" where
  "repo_ResetUsageWindows sid resetDaily resetWeekly resetMonthly dailyStart periodicStart w =
     set_one sid (\<lambda>r.
       let r = (if resetDaily then r\<lparr>us_DailyUsageUSD := f_zero, us_DailyWindowStart := Some dailyStart\<rparr>
                else r);
           r = (if resetWeekly
                then r\<lparr>us_WeeklyUsageUSD := f_zero, us_WeeklyWindowStart := Some periodicStart\<rparr> else r);
           r = (if resetMonthly
                then r\<lparr>us_MonthlyUsageUSD := f_zero, us_MonthlyWindowStart := Some periodicStart\<rparr> else r)
       in r) w"

definition translateConditionalWindowReset ::
  "int64 \<Rightarrow> int result \<times> sub_world \<Rightarrow> unit result \<times> sub_world" where
  "translateConditionalWindowReset sid outcome =
     (case outcome of
        (Inl err, w) \<Rightarrow> (Inl (translatePersistenceError w err (Some ErrSubscriptionNotFound) None), w)
      | (Inr affected, w) \<Rightarrow>
          if 0 < affected then (Inr (), w)
          else (case sql_query (\<lambda>rows. Inr (list_ex (\<lambda>r. us_ID r = sid \<and> live r) rows)) w of
                  (Inl err, w) \<Rightarrow>
                    (Inl (translatePersistenceError w err (Some ErrSubscriptionNotFound) None), w)
                | (Inr exists, w) \<Rightarrow> (if \<not> exists then Inl ErrSubscriptionNotFound else Inr (), w)))"

definition repo_ActivateWindows :: "int64 \<Rightarrow> go_time \<Rightarrow> go_time \<Rightarrow> sub_world \<Rightarrow> unit result \<times> sub_world" where
  "repo_ActivateWindows sid dailyStart periodicStart w =
     translateConditionalWindowReset sid (sql_update_many
       (\<lambda>r. us_ID r = sid \<and> us_DailyWindowStart r = None \<and> us_WeeklyWindowStart r = None
          \<and> us_MonthlyWindowStart r = None)
       (\<lambda>r. r\<lparr>us_DailyWindowStart := Some dailyStart, us_WeeklyWindowStart := Some periodicStart,
              us_MonthlyWindowStart := Some periodicStart\<rparr>) w)"

definition repo_ResetDailyUsage ::
  "int64 \<Rightarrow> go_time option \<Rightarrow> go_time \<Rightarrow> sub_world \<Rightarrow> unit result \<times> sub_world" where
  "repo_ResetDailyUsage sid expectedWindowStart newWindowStart w =
     translateConditionalWindowReset sid (sql_update_many
       (\<lambda>r. us_ID r = sid \<and> us_DailyWindowStart r = expectedWindowStart)
       (\<lambda>r. r\<lparr>us_DailyUsageUSD := f_zero, us_DailyWindowStart := Some newWindowStart\<rparr>) w)"

definition repo_ResetWeeklyUsage ::
  "int64 \<Rightarrow> go_time option \<Rightarrow> go_time \<Rightarrow> sub_world \<Rightarrow> unit result \<times> sub_world" where
  "repo_ResetWeeklyUsage sid expectedWindowStart newWindowStart w =
     translateConditionalWindowReset sid (sql_update_many
       (\<lambda>r. us_ID r = sid \<and> us_WeeklyWindowStart r = expectedWindowStart)
       (\<lambda>r. r\<lparr>us_WeeklyUsageUSD := f_zero, us_WeeklyWindowStart := Some newWindowStart\<rparr>) w)"

definition repo_ResetMonthlyUsage ::
  "int64 \<Rightarrow> go_time option \<Rightarrow> go_time \<Rightarrow> sub_world \<Rightarrow> unit result \<times> sub_world" where
  "repo_ResetMonthlyUsage sid expectedWindowStart newWindowStart w =
     translateConditionalWindowReset sid (sql_update_many
       (\<lambda>r. us_ID r = sid \<and> us_MonthlyWindowStart r = expectedWindowStart)
       (\<lambda>r. r\<lparr>us_MonthlyUsageUSD := f_zero, us_MonthlyWindowStart := Some newWindowStart\<rparr>) w)"

text \<open>
  The addition in the statement of \<open>IncrementUsage\<close> is the database's own numeric addition,
  the argument \<open>sql_add\<close>.
\<close>

definition repo_IncrementUsage ::
  "(float64 \<Rightarrow> float64 \<Rightarrow> float64) \<Rightarrow> int64 \<Rightarrow> float64 \<Rightarrow> sub_world \<Rightarrow> unit result \<times> sub_world" where
  "repo_IncrementUsage sql_add sid costUSD w =
     (let now = now_of w; w = tick w in
      case sql_exec (\<lambda>d. (Inr (length (filter (\<lambda>r. us_ID r = sid \<and> live r) (ss_rows d))),
          d\<lparr>ss_rows := update_where (\<lambda>r. us_ID r = sid \<and> live r)
            (\<lambda>r. r\<lparr>us_DailyUsageUSD := sql_add (us_DailyUsageUSD r) costUSD,
                   us_WeeklyUsageUSD := sql_add (us_WeeklyUsageUSD r) costUSD,
                   us_MonthlyUsageUSD := sql_add (us_MonthlyUsageUSD r) costUSD,
                   us_UpdatedAt := now\<rparr>) (ss_rows d)\<rparr>)) w of
        (Inl err, w) \<Rightarrow> (Inl err, w)
      | (Inr affected, w) \<Rightarrow>
          if 0 < affected then (Inr (), w) else (Inl ErrSubscriptionNotFound, w))"

definition repo_BatchUpdateExpiredStatus :: "sub_world \<Rightarrow> int result \<times> sub_world" where
  "repo_BatchUpdateExpiredStatus w =
     (let now = now_of w; w = tick w in
      sql_update_many (\<lambda>r. us_Status r = SubscriptionStatusActive \<and> us_ExpiresAt r \<le> now)
        (\<lambda>r. r\<lparr>us_Status := SubscriptionStatusExpired\<rparr>) w)"

section \<open>The table as a map\<close>

text \<open>
  Seen from outside, the table is a partial map from identifiers to rows; the lemmas below say what
  each statement does to it.
\<close>

definition rows_of :: "sub_world \<Rightarrow> UserSubscription list" where
  "rows_of w = ss_rows (wd_db w)"

definition table :: "sub_world \<Rightarrow> int64 \<Rightarrow> UserSubscription option" where
  "table w sid = find_row sid (rows_of w)"

definition wf_store :: "sub_store \<Rightarrow> bool" where
  "wf_store d \<longleftrightarrow> distinct (map us_ID (ss_rows d)) \<and> (\<forall>r \<in> set (ss_rows d). us_ID r < ss_next_id d)"

lemma find_row_ID: "find_row sid rows = Some r \<Longrightarrow> us_ID r = sid \<and> r \<in> set rows"
  by (auto simp: find_row_def find_Some_iff)

lemma find_row_update:
  assumes "\<And>r. us_ID (f r) = us_ID r"
  shows "find_row sid (update_where p f rows) = map_option (\<lambda>r. if p r then f r else r) (find_row sid rows)"
  using assms by (induction rows) (auto simp: find_row_def update_where_def)

lemma find_row_append:
  "find_row sid (rows @ [m]) = (case find_row sid rows of
     None \<Rightarrow> if us_ID m = sid then Some m else None | Some r \<Rightarrow> Some r)"
  by (induction rows) (auto simp: find_row_def)

lemma find_live:
  assumes "distinct (map us_ID rows)"
  shows "find (\<lambda>r. us_ID r = sid \<and> live r) rows =
     (case find_row sid rows of None \<Rightarrow> None | Some r \<Rightarrow> if live r then Some r else None)"
  using assms
proof (induction rows)
  case (Cons a rows)
  have "us_ID a = sid \<Longrightarrow> find (\<lambda>r. us_ID r = sid \<and> live r) rows = None"
    using Cons.prems by (auto simp: find_None_iff image_iff)
  with Cons show ?case by (auto simp: find_row_def)
qed (simp add: find_row_def)

lemma map_ID_update:
  "(\<And>r. us_ID (f r) = us_ID r) \<Longrightarrow> map us_ID (update_where p f rows) = map us_ID rows"
  by (simp add: update_where_def)

lemma filter_ID_length:
  "distinct (map us_ID rows) \<Longrightarrow> 0 < length (filter (\<lambda>r. us_ID r = sid \<and> q r) rows) \<longleftrightarrow>
     (\<exists>r. find_row sid rows = Some r \<and> q r)"
proof (induction rows)
  case (Cons a rows)
  have "us_ID a = sid \<Longrightarrow> filter (\<lambda>r. us_ID r = sid \<and> q r) rows = []"
    using Cons.prems by (auto simp: filter_empty_conv image_iff)
  with Cons show ?case by (auto simp: find_row_def)
qed (simp add: find_row_def)

lemma list_ex_live:
  "distinct (map us_ID rows) \<Longrightarrow> list_ex (\<lambda>r. us_ID r = sid \<and> q r) rows \<longleftrightarrow>
     (\<exists>r. find_row sid rows = Some r \<and> q r)"
  using filter_ID_length [of rows sid q] by (auto simp: list_ex_iff filter_empty_conv)

lemma wf_store_update:
  "wf_store d \<Longrightarrow> (\<And>r. us_ID (f r) = us_ID r) \<Longrightarrow>
   wf_store (d\<lparr>ss_rows := update_where p f (ss_rows d)\<rparr>)"
  by (auto simp: wf_store_def map_ID_update) (auto simp: update_where_def)

lemma wf_store_invalidated [simp]: "wf_store (d\<lparr>ss_invalidated := l\<rparr>) = wf_store d"
  by (simp add: wf_store_def)

lemma rows_of_simps [simp]:
  "rows_of (tick w) = rows_of w" "rows_of (w\<lparr>wd_stmt := n\<rparr>) = rows_of w"
  "rows_of (w\<lparr>wd_db := d\<rparr>) = ss_rows d"
  by (simp_all add: rows_of_def)

text \<open>One statement on a database without faults.\<close>

lemma query_healthy:
  "healthy w \<Longrightarrow> sql_query q w = (q (rows_of w), w\<lparr>wd_stmt := Suc (wd_stmt w)\<rparr>)"
  by (simp add: sql_query_def sql_exec_healthy rows_of_def)

lemma query_cases:
  "sql_query q w = (r, w') \<Longrightarrow> same_env w w' \<and> wd_db w' = wd_db w \<and> wd_tick w' = wd_tick w"
  unfolding sql_query_def by (drule sql_exec_D) auto

lemma update_one_db:
  "sql_update_one sid f w = (r, w') \<Longrightarrow> (\<And>r. us_ID (f r) = us_ID r) \<Longrightarrow>
     same_env w w' \<and> (wf_store (wd_db w) \<longrightarrow> wf_store (wd_db w')) \<and>
     (\<forall>k. k \<noteq> sid \<longrightarrow> table w' k = table w k) \<and>
     table w' sid = (case r of Inl e \<Rightarrow> table w sid | Inr _ \<Rightarrow>
        map_option (\<lambda>x. (f x)\<lparr>us_UpdatedAt := now_of w\<rparr>) (table w sid))"
  unfolding sql_update_one_def Let_def
  by (drule sql_exec_D)
    (auto simp: same_env_def table_def find_row_update wf_store_update rows_of_def map_option_case
      split: option.splits dest: find_row_ID)

lemma update_many_db:
  "sql_update_many p f w = (r, w') \<Longrightarrow> (\<And>r. us_ID (f r) = us_ID r) \<Longrightarrow>
     same_env w w' \<and> (wf_store (wd_db w) \<longrightarrow> wf_store (wd_db w')) \<and>
     (\<forall>k. table w' k = (case r of Inl e \<Rightarrow> table w k | Inr _ \<Rightarrow>
        map_option (\<lambda>x. if p x then (f x)\<lparr>us_UpdatedAt := now_of w\<rparr> else x) (table w k)))"
  unfolding sql_update_many_def Let_def
  by (drule sql_exec_D)
    (auto simp: same_env_def table_def find_row_update wf_store_update rows_of_def)

section \<open>What each operation does to the map\<close>

text \<open>
  The effect common to all updates of one row: the row changes as given or not at all, other rows
  stay, identifiers stay unique.
\<close>

definition row_step ::
  "int64 \<Rightarrow> (UserSubscription \<Rightarrow> UserSubscription) \<Rightarrow> sub_world \<Rightarrow> sub_world \<Rightarrow> bool" where
  "row_step sid f w w' \<longleftrightarrow> same_env w w' \<and> (wf_store (wd_db w) \<longrightarrow> wf_store (wd_db w')) \<and>
     (\<forall>k. k \<noteq> sid \<longrightarrow> table w' k = table w k) \<and> table w' sid = map_option f (table w sid)"

lemma row_step_id: "same_env w w' \<Longrightarrow> wd_db w' = wd_db w \<Longrightarrow> row_step sid (\<lambda>r. r) w w'"
  by (simp add: row_step_def table_def rows_of_def option.map_ident)

lemma row_step_trans:
  "row_step sid f w w1 \<Longrightarrow> row_step sid g w1 w2 \<Longrightarrow> row_step sid (\<lambda>r. g (f r)) w w2"
  by (auto simp: row_step_def option.map_comp comp_def intro: same_env_trans)

lemma row_stepD:
  assumes "row_step sid f w w'"
  shows "table w' sid = map_option f (table w sid)" "k \<noteq> sid \<Longrightarrow> table w' k = table w k"
    "same_env w w'" "wf_store (wd_db w) \<Longrightarrow> wf_store (wd_db w')"
  using assms by (auto simp: row_step_def)

lemma set_one_step:
  assumes "set_one sid f w = (res, w')" "\<And>r. us_ID (f r) = us_ID r"
  shows "case res of
      Inr _ \<Rightarrow> row_step sid (\<lambda>x. (f x)\<lparr>us_UpdatedAt := now_of w\<rparr>) w w'
    | Inl _ \<Rightarrow> row_step sid (\<lambda>r. r) w w'"
proof -
  obtain r where r: "sql_update_one sid f w = (r, w')"
    and res: "res = (case r of Inl err \<Rightarrow> Inl (translatePersistenceError w' err (Some ErrSubscriptionNotFound) None)
       | Inr _ \<Rightarrow> Inr ())"
    using assms(1) by (cases "sql_update_one sid f w") (auto simp: set_one_def split: sum.splits)
  from update_one_db [OF r assms(2)] show ?thesis
    by (cases r) (auto simp: res row_step_def option.map_ident)
qed

lemma set_one_healthy:
  assumes "healthy w"
  shows "fst (set_one sid f w) = (if table w sid = None
     then Inl (WithCause ErrSubscriptionNotFound (Some entNotFound)) else Inr ())"
  using assms by (auto simp: set_one_def sql_update_one_def Let_def sql_exec_healthy table_def rows_of_def
      split: option.splits)

lemma conditional_step:
  assumes "translateConditionalWindowReset sid (sql_update_many (\<lambda>r. us_ID r = sid \<and> q r) f w) = (res, w')"
    and "\<And>r. us_ID (f r) = us_ID r"
  shows "row_step sid (\<lambda>r. r) w w' \<and> (\<exists>e. res = Inl e) \<or>
     row_step sid (\<lambda>x. if q x then (f x)\<lparr>us_UpdatedAt := now_of w\<rparr> else x) w w'"
proof -
  obtain r w1 where r: "sql_update_many (\<lambda>r. us_ID r = sid \<and> q r) f w = (r, w1)"
    by (cases "sql_update_many (\<lambda>r. us_ID r = sid \<and> q r) f w")
  have id: "table w sid = Some x \<Longrightarrow> us_ID x = sid" for x
    by (auto simp: table_def dest: find_row_ID)
  have other: "table w k = Some x \<Longrightarrow> us_ID x = k" for k x
    by (auto simp: table_def dest: find_row_ID)
  have db: "case r of Inl _ \<Rightarrow> row_step sid (\<lambda>r. r) w w1
      | Inr _ \<Rightarrow> row_step sid (\<lambda>x. if q x then (f x)\<lparr>us_UpdatedAt := now_of w\<rparr> else x) w w1"
    using update_many_db [OF r assms(2)] id other
    by (cases r) (fastforce simp: row_step_def map_option_case split: option.splits)+
  show ?thesis
  proof (cases r)
    case (Inl e)
    then show ?thesis using db assms(1) r by (auto simp: translateConditionalWindowReset_def)
  next
    case (Inr n)
    have "same_env w1 w' \<and> wd_db w' = wd_db w1"
      using assms(1) r Inr
      by (auto simp: translateConditionalWindowReset_def split: if_splits sum.splits prod.splits
          dest!: query_cases)
    then show ?thesis using db Inr row_step_trans [OF _ row_step_id] by auto
  qed
qed

lemma conditional_healthy:
  assumes "healthy w" "wf_store (wd_db w)" "\<And>r. us_ID (f r) = us_ID r" "\<And>r. live (f r) = live r"
  shows "fst (translateConditionalWindowReset sid (sql_update_many (\<lambda>r. us_ID r = sid \<and> q r) f w)) =
     (case table w sid of None \<Rightarrow> Inl ErrSubscriptionNotFound
      | Some r \<Rightarrow> if q r \<or> live r then Inr () else Inl ErrSubscriptionNotFound)"
proof -
  let ?g = "\<lambda>r. (f r)\<lparr>us_UpdatedAt := now_of w\<rparr>" and ?p = "\<lambda>r. us_ID r = sid \<and> q r"
  have d: "distinct (map us_ID (ss_rows (wd_db w)))" using assms(2) by (simp add: wf_store_def)
  then have d': "distinct (map us_ID (update_where ?p ?g (ss_rows (wd_db w))))"
    using assms(3) by (simp add: map_ID_update)
  have pos: "0 < length (filter ?p (ss_rows (wd_db w))) \<longleftrightarrow> (\<exists>r. table w sid = Some r \<and> q r)"
    using filter_ID_length [OF d] by (simp add: table_def rows_of_def)
  have gl: "live (if ?p r then ?g r else r) = live r" for r using assms(4) by (simp add: live_def)
  have ex: "list_ex (\<lambda>r. us_ID r = sid \<and> live r) (update_where ?p ?g (ss_rows (wd_db w))) \<longleftrightarrow>
      (\<exists>r. table w sid = Some r \<and> live r)"
    using list_ex_live [OF d', of sid live] assms(3) gl
    by (cases "find_row sid (ss_rows (wd_db w))") (simp_all add: find_row_update table_def rows_of_def)
  show ?thesis
    using assms(1) pos ex
    by (auto simp: translateConditionalWindowReset_def sql_update_many_def Let_def sql_exec_healthy
        query_healthy split: option.splits)
qed

section \<open>Conditional window resets\<close>

text \<open>
  The contract between the repository and the services that advance windows: a reset that expects
  the start the row has advances it and clears the usage; one that expects another start is stale
  and leaves the row alone; recording usage adds to the usage and keeps the start.
\<close>

definition charge ::
  "(float64 \<Rightarrow> float64 \<Rightarrow> float64) \<Rightarrow> float64 \<Rightarrow> go_time \<Rightarrow> UserSubscription \<Rightarrow> UserSubscription" where
  "charge sql_add costUSD now r = r\<lparr>us_DailyUsageUSD := sql_add (us_DailyUsageUSD r) costUSD,
     us_WeeklyUsageUSD := sql_add (us_WeeklyUsageUSD r) costUSD,
     us_MonthlyUsageUSD := sql_add (us_MonthlyUsageUSD r) costUSD, us_UpdatedAt := now\<rparr>"

lemma IncrementUsage_step:
  assumes "repo_IncrementUsage sql_add sid c w = (res, w')"
  shows "case res of
      Inr _ \<Rightarrow> row_step sid (\<lambda>x. if live x then charge sql_add c (now_of w) x else x) w w'
    | Inl _ \<Rightarrow> wf_store (wd_db w) \<longrightarrow> row_step sid (\<lambda>x. x) w w'"
proof -
  let ?g = "\<lambda>x. charge sql_add c (now_of w) x" and ?p = "\<lambda>r. us_ID r = sid \<and> live r"
  let ?f = "\<lambda>d. (Inr (length (filter ?p (ss_rows d))), d\<lparr>ss_rows := update_where ?p ?g (ss_rows d)\<rparr>)"
  obtain r w1 where r: "sql_exec ?f (tick w) = (r, w1)" by (cases "sql_exec ?f (tick w)")
  have res: "w' = w1 \<and> res = (case r of Inl err \<Rightarrow> Inl err
      | Inr n \<Rightarrow> if 0 < n then Inr () else Inl ErrSubscriptionNotFound)"
    using assms r by (auto simp: repo_IncrementUsage_def Let_def charge_def [symmetric]
        split: sum.splits if_splits)
  have env: "same_env w w1" using sql_exec_D [OF r] same_env_trans [OF same_env_tick] by blast
  have gid: "us_ID (?g x) = us_ID x" for x by (simp add: charge_def)
  from sql_exec_D [OF r] consider (fault) e where "r = Inl e" "wd_db w1 = wd_db w"
    | (run) "r = Inr (length (filter ?p (ss_rows (wd_db w))))"
        "wd_db w1 = (wd_db w)\<lparr>ss_rows := update_where ?p ?g (ss_rows (wd_db w))\<rparr>" by auto
  then show ?thesis
  proof cases
    case fault
    then show ?thesis using res env by (simp add: row_step_id)
  next
    case run
    have id: "find_row k rows = Some x \<Longrightarrow> us_ID x = k" for k x rows by (auto dest: find_row_ID)
    have step: "row_step sid (\<lambda>x. if live x then ?g x else x) w w1"
      using run(2) env id
      by (fastforce simp: row_step_def table_def rows_of_def find_row_update gid wf_store_update
          map_option_case split: option.splits)
    have "wf_store (wd_db w) \<Longrightarrow> length (filter ?p (ss_rows (wd_db w))) = 0 \<Longrightarrow>
        row_step sid (\<lambda>x. x) w w1"
      using filter_ID_length [of "ss_rows (wd_db w)" sid live] step
      by (cases "table w sid") (auto simp: wf_store_def row_step_def table_def rows_of_def)
    then show ?thesis using step run(1) res by auto
  qed
qed

locale window_reset =
  fixes win :: "UserSubscription \<Rightarrow> go_time option"
    and used :: "UserSubscription \<Rightarrow> float64"
    and reset :: "int64 \<Rightarrow> go_time option \<Rightarrow> go_time \<Rightarrow> sub_world \<Rightarrow> unit result \<times> sub_world"
  assumes reset_hit: "reset sid e n w = (Inr (), w') \<Longrightarrow> table w sid = Some r \<Longrightarrow> win r = e \<Longrightarrow>
      \<exists>r'. table w' sid = Some r' \<and> win r' = Some n \<and> used r' = f_zero \<and> live r' = live r"
    and reset_stale: "reset sid e n w = (res, w') \<Longrightarrow> table w sid = Some r \<Longrightarrow> win r \<noteq> e \<Longrightarrow>
      table w' sid = Some r"
    and reset_wf: "reset sid e n w = (res, w') \<Longrightarrow> wf_store (wd_db w) \<Longrightarrow> wf_store (wd_db w')"
    and charge_win: "win (charge a c t r) = win r"
    and charge_used: "used (charge a c t r) = a (used r) c"

text \<open>
  A history of one subscription: usage that is recorded and maintenance runs that still hold the
  snapshot from before the window was advanced. What a statement reports back plays no part.
\<close>

datatype usage_event = Recorded float64 | StaleReset go_time

fun run_events ::
  "(int64 \<Rightarrow> go_time option \<Rightarrow> go_time \<Rightarrow> sub_world \<Rightarrow> unit result \<times> sub_world) \<Rightarrow>
   (float64 \<Rightarrow> float64 \<Rightarrow> float64) \<Rightarrow> int64 \<Rightarrow> go_time \<Rightarrow> usage_event list \<Rightarrow> sub_world \<Rightarrow>
   float64 list \<times> sub_world" where
  "run_events reset a sid e [] w = ([], w)"
| "run_events reset a sid e (Recorded c # evs) w =
     (case repo_IncrementUsage a sid c w of
        (Inl _, w1) \<Rightarrow> run_events reset a sid e evs w1
      | (Inr _, w1) \<Rightarrow> (let (cs, w2) = run_events reset a sid e evs w1 in (c # cs, w2)))"
| "run_events reset a sid e (StaleReset n # evs) w =
     (let (_, w1) = reset sid (Some e) n w in run_events reset a sid e evs w1)"

context window_reset
begin

lemma events_keep_usage:
  "run_events reset a sid e evs w = (cs, w') \<Longrightarrow> wf_store (wd_db w) \<Longrightarrow>
   table w sid = Some r \<Longrightarrow> live r \<Longrightarrow> win r \<noteq> Some e \<Longrightarrow>
   \<exists>r'. table w' sid = Some r' \<and> win r' = win r \<and> used r' = foldl a (used r) cs"
proof (induction evs arbitrary: w r cs)
  case (Cons ev evs)
  show ?case
  proof (cases ev)
    case (StaleReset n)
    obtain res w1 where w1: "reset sid (Some e) n w = (res, w1)" by (cases "reset sid (Some e) n w")
    then have "table w1 sid = Some r" "wf_store (wd_db w1)"
      using reset_stale reset_wf Cons.prems by auto
    then show ?thesis using Cons.IH [of w1] Cons.prems StaleReset w1 by simp
  next
    case (Recorded c)
    obtain res w1 where w1: "repo_IncrementUsage a sid c w = (res, w1)"
      by (cases "repo_IncrementUsage a sid c w")
    note step = IncrementUsage_step [OF w1]
    show ?thesis
    proof (cases res)
      case (Inl err)
      then have "row_step sid (\<lambda>x. x) w w1" using step Cons.prems by simp
      then have "table w1 sid = Some r" "wf_store (wd_db w1)" using Cons.prems by (simp_all add: row_stepD)
      then show ?thesis using Cons.IH [of w1] Cons.prems Recorded w1 Inl by simp
    next
      case (Inr u)
      then have "table w1 sid = Some (charge a c (now_of w) r)" "wf_store (wd_db w1)"
        using step Cons.prems by (simp_all add: row_stepD)
      moreover have "live (charge a c (now_of w) r)" using Cons.prems by (simp add: charge_def live_def)
      moreover obtain cs' where "run_events reset a sid e evs w1 = (cs', w')" "cs = c # cs'"
        using Cons.prems(1) Recorded w1 Inr by (auto split: prod.splits)
      ultimately show ?thesis
        using Cons.IH [of w1 cs'] Cons.prems charge_win charge_used by fastforce
    qed
  qed
qed simp

lemma advance_once:
  assumes "reset sid (Some e) n w = (Inr (), w1)" "wf_store (wd_db w)"
    and "table w sid = Some r" "live r" "win r = Some e" "n \<noteq> e"
    and "run_events reset a sid e evs w1 = (cs, w')"
  shows "\<exists>r'. table w' sid = Some r' \<and> win r' = Some n \<and> used r' = foldl a f_zero cs"
proof -
  obtain r1 where "table w1 sid = Some r1" "win r1 = Some n" "used r1 = f_zero" "live r1"
    using reset_hit [OF assms(1,3,5)] assms(4) by auto
  then show ?thesis
    using events_keep_usage [OF assms(7) reset_wf [OF assms(1,2)]] assms(6) by fastforce
qed

end

datatype window = DailyWindow | WeeklyWindow | MonthlyWindow

fun window_start :: "window \<Rightarrow> UserSubscription \<Rightarrow> go_time option" where
  "window_start DailyWindow = us_DailyWindowStart"
| "window_start WeeklyWindow = us_WeeklyWindowStart"
| "window_start MonthlyWindow = us_MonthlyWindowStart"

fun window_usage :: "window \<Rightarrow> UserSubscription \<Rightarrow> float64" where
  "window_usage DailyWindow = us_DailyUsageUSD"
| "window_usage WeeklyWindow = us_WeeklyUsageUSD"
| "window_usage MonthlyWindow = us_MonthlyUsageUSD"

fun repo_reset :: "window \<Rightarrow> int64 \<Rightarrow> go_time option \<Rightarrow> go_time \<Rightarrow> sub_world \<Rightarrow> unit result \<times> sub_world" where
  "repo_reset DailyWindow = repo_ResetDailyUsage"
| "repo_reset WeeklyWindow = repo_ResetWeeklyUsage"
| "repo_reset MonthlyWindow = repo_ResetMonthlyUsage"

fun restart_window :: "window \<Rightarrow> go_time \<Rightarrow> UserSubscription \<Rightarrow> UserSubscription" where
  "restart_window DailyWindow n r = r\<lparr>us_DailyUsageUSD := f_zero, us_DailyWindowStart := Some n\<rparr>"
| "restart_window WeeklyWindow n r = r\<lparr>us_WeeklyUsageUSD := f_zero, us_WeeklyWindowStart := Some n\<rparr>"
| "restart_window MonthlyWindow n r = r\<lparr>us_MonthlyUsageUSD := f_zero, us_MonthlyWindowStart := Some n\<rparr>"

lemma restart_window_simps [simp]:
  "us_ID (restart_window k n r) = us_ID r" "live (restart_window k n r) = live r"
  "window_start k (restart_window k n r) = Some n" "window_usage k (restart_window k n r) = f_zero"
  "live (r\<lparr>us_UpdatedAt := t\<rparr>) = live r"
  "window_start k (r\<lparr>us_UpdatedAt := t\<rparr>) = window_start k r"
  "window_usage k (r\<lparr>us_UpdatedAt := t\<rparr>) = window_usage k r"
  by (cases k; simp add: live_def)+

lemma repo_reset_eq:
  "repo_reset k sid e n w = translateConditionalWindowReset sid
     (sql_update_many (\<lambda>r. us_ID r = sid \<and> window_start k r = e) (restart_window k n) w)"
  by (cases k) (simp_all add: repo_ResetDailyUsage_def repo_ResetWeeklyUsage_def
      repo_ResetMonthlyUsage_def restart_window.simps [abs_def])

lemma repo_reset_step:
  assumes "repo_reset k sid e n w = (res, w')"
  shows "row_step sid (\<lambda>r. r) w w' \<and> (\<exists>e. res = Inl e) \<or>
     row_step sid (\<lambda>x. if window_start k x = e then (restart_window k n x)\<lparr>us_UpdatedAt := now_of w\<rparr> else x) w w'"
  using conditional_step [OF assms [unfolded repo_reset_eq]] by simp

lemma repo_reset_healthy:
  assumes "healthy w" "wf_store (wd_db w)"
  shows "fst (repo_reset k sid e n w) = (case table w sid of None \<Rightarrow> Inl ErrSubscriptionNotFound
      | Some r \<Rightarrow> if window_start k r = e \<or> live r then Inr () else Inl ErrSubscriptionNotFound)"
  unfolding repo_reset_eq by (rule conditional_healthy) (simp_all add: assms)

interpretation wr: window_reset "window_start k" "window_usage k" "repo_reset k" for k
proof unfold_locales
  fix sid e n w w' r
  assume "repo_reset k sid e n w = (Inr (), w')" "table w sid = Some r" "window_start k r = e"
  then show "\<exists>r'. table w' sid = Some r' \<and> window_start k r' = Some n \<and> window_usage k r' = f_zero
      \<and> live r' = live r"
    using repo_reset_step [of k sid e n w "Inr ()" w'] by (auto simp: row_step_def)
next
  fix sid e n w res w' r
  assume "repo_reset k sid e n w = (res, w')" "table w sid = Some r" "window_start k r \<noteq> e"
  then show "table w' sid = Some r"
    using repo_reset_step [of k sid e n w res w'] by (auto simp: row_step_def)
next
  fix sid e n w res w'
  assume "repo_reset k sid e n w = (res, w')" "wf_store (wd_db w)"
  then show "wf_store (wd_db w')"
    using repo_reset_step [of k sid e n w res w'] by (auto simp: row_step_def)
qed (cases k; simp add: charge_def)+

text \<open>
  C12. Maintenance runs that race for the same window lose no usage. Suppose one run advanced a live
  subscription's window from the start it had read to a new one. Whatever sequence of recorded usage
  and of further resets by runs that still hold the old start follows, with any database failures in
  between, the window keeps the new start and its usage is exactly the sum, in order, of the
  costs whose recording succeeded. This holds for the daily, the weekly and the monthly window.
\<close>

theorem competing_resets_keep_usage:
  assumes "repo_reset k sid (Some e) n w = (Inr (), w1)" "wf_store (wd_db w)"
    and "table w sid = Some r" "live r" "window_start k r = Some e" "n \<noteq> e"
    and "run_events (repo_reset k) sql_add sid e evs w1 = (cs, w')"
  shows "\<exists>r'. table w' sid = Some r' \<and> window_start k r' = Some n \<and>
    window_usage k r' = foldl sql_add f_zero cs"
  using assms by (rule wr.advance_once)

definition demo_world :: "go_time \<Rightarrow> UserSubscription list \<Rightarrow> sub_world" where
  "demo_world t rows = \<lparr>wd_db = \<lparr>ss_rows = rows, ss_next_id = 100, ss_invalidated = []\<rparr>,
     wd_clock = (\<lambda>_. t), wd_tick = 0, wd_fault = (\<lambda>_. None), wd_stmt = 0, wd_unique = (\<lambda>_. False)\<rparr>"

fun exact_add :: "float64 \<Rightarrow> float64 \<Rightarrow> float64" where
  "exact_add (Fin x) (Fin y) = Fin (x + y)"
| "exact_add _ _ = NaN"

lemma demo_world_facts:
  "healthy (demo_world t rows)" "now_of (demo_world t rows) = t" "rows_of (demo_world t rows) = rows"
  by (simp_all add: demo_world_def healthy_def now_of_def rows_of_def)

lemma demo_world_table: "table (demo_world t [demo_sub]) 21 = Some demo_sub"
  by (simp add: demo_world_def table_def rows_of_def find_row_def demo_sub_def)

lemma demo_world_wf: "wf_store (wd_db (demo_world t [demo_sub]))"
  by (simp add: demo_world_def wf_store_def demo_sub_def)

lemma demo_sub_facts [simp]:
  "us_ID demo_sub = 21" "live demo_sub" "us_DailyWindowStart demo_sub = Some (100 * week)"
  by (simp_all add: demo_sub_def live_def)

theorem competing_resets_keep_usage_witness:
  "\<exists>r'. table (snd (run_events (repo_reset DailyWindow) exact_add 21 (100 * week)
        [Recorded (Fin 2), StaleReset 7, Recorded (Fin 1)]
        (snd (repo_reset DailyWindow 21 (Some (100 * week)) (102 * week)
           (demo_world (102 * week + 5) [demo_sub]))))) 21 = Some r' \<and>
     us_DailyWindowStart r' = Some (102 * week) \<and> us_DailyUsageUSD r' = Fin 3"
proof -
  let ?w = "demo_world (102 * week + 5) [demo_sub]"
  let ?w1 = "snd (repo_reset DailyWindow 21 (Some (100 * week)) (102 * week) ?w)"
  have "fst (repo_reset DailyWindow 21 (Some (100 * week)) (102 * week) ?w) = Inr ()"
    using repo_reset_healthy [of ?w DailyWindow 21 "Some (100 * week)" "102 * week"]
    by (simp add: demo_world_facts demo_world_wf demo_world_table)
  then have r: "repo_reset DailyWindow 21 (Some (100 * week)) (102 * week) ?w = (Inr (), ?w1)"
    by (simp add: prod_eq_iff)
  have ne: "102 * week \<noteq> 100 * week" using week_pos by linarith
  let ?evs = "[Recorded (Fin 2), StaleReset 7, Recorded (Fin 1)]"
  have "fst (run_events (repo_reset DailyWindow) exact_add 21 (100 * week) ?evs ?w1) = [Fin 2, Fin 1]"
    by (simp add: demo_world_def repo_ResetDailyUsage_def translateConditionalWindowReset_def
        sql_update_many_def sql_query_def sql_exec_def update_where_def Let_def tick_def now_of_def
        repo_IncrementUsage_def live_def demo_sub_def ne)
  then have "run_events (repo_reset DailyWindow) exact_add 21 (100 * week) ?evs ?w1 = ([Fin 2, Fin 1],
      snd (run_events (repo_reset DailyWindow) exact_add 21 (100 * week) ?evs ?w1))"
    by (simp add: prod_eq_iff)
  from competing_resets_keep_usage [OF r demo_world_wf demo_world_table _ _ ne this]
  show ?thesis by simp
qed

end
