(* ===== verification/Subscription_Service.thy ===== *)
theory Subscription_Service
  imports Subscription_Repo
begin

text \<open>
  \<open>internal/service/subscription_service.go\<close> and \<open>subscription_candidates.go\<close>: revoking,
  restoring and extending subscriptions, activating and advancing their usage windows, and checking
  their limits. The service owns the repository of \<open>Subscription_Repo\<close>; the billing cache it
  invalidates is a pointer that may be nil, and its error an argument (\<open>sv_cache\<close>); each request
  to the cache is recorded in \<open>ss_invalidated\<close>. An invalidation the code starts in a goroutine of
  its own is recorded at that point and its error is dropped, as in the code. A handler that changes
  the subscription it was given returns the changed value.
\<close>

record service =
  sv_zone :: zone
  sv_cache :: "(int64 \<Rightarrow> int64 \<Rightarrow> go_error option) option"

definition MaxExpiresAt :: go_time where
  "MaxExpiresAt = 66238041599 * second"

definition MaxValidityDays :: int where
  "MaxValidityDays = 36500"

definition ErrSubscriptionExpired :: go_error where
  "ErrSubscriptionExpired = Forbidden ''SUBSCRIPTION_EXPIRED'' ''subscription has expired''"
definition ErrSubscriptionSuspended :: go_error where
  "ErrSubscriptionSuspended = Forbidden ''SUBSCRIPTION_SUSPENDED'' ''subscription is suspended''"
definition ErrSubscriptionNotRevoked :: go_error where
  "ErrSubscriptionNotRevoked = Conflict ''SUBSCRIPTION_NOT_REVOKED'' ''subscription is not revoked''"
definition ErrInvalidInput :: go_error where
  "ErrInvalidInput = BadRequest ''INVALID_INPUT''
     ''at least one of resetDaily, resetWeekly, or resetMonthly must be true''"
definition ErrDailyLimitExceeded :: go_error where
  "ErrDailyLimitExceeded = TooManyRequests ''DAILY_LIMIT_EXCEEDED'' ''daily usage limit exceeded''"
definition ErrWeeklyLimitExceeded :: go_error where
  "ErrWeeklyLimitExceeded = TooManyRequests ''WEEKLY_LIMIT_EXCEEDED'' ''weekly usage limit exceeded''"
definition ErrMonthlyLimitExceeded :: go_error where
  "ErrMonthlyLimitExceeded = TooManyRequests ''MONTHLY_LIMIT_EXCEEDED'' ''monthly usage limit exceeded''"
definition ErrAdjustWouldExpire :: go_error where
  "ErrAdjustWouldExpire = BadRequest ''ADJUST_WOULD_EXPIRE''
     ''adjustment would result in expired subscription (remaining days must be > 0)''"
definition ErrCannotShortenExpired :: go_error where
  "ErrCannotShortenExpired = BadRequest ''CANNOT_SHORTEN_EXPIRED'' ''cannot shorten an expired subscription''"

lemmas sub_error_defs =
  ErrSubscriptionExpired_def ErrSubscriptionSuspended_def ErrSubscriptionNotRevoked_def
  ErrInvalidInput_def ErrDailyLimitExceeded_def ErrWeeklyLimitExceeded_def ErrMonthlyLimitExceeded_def
  ErrAdjustWouldExpire_def ErrCannotShortenExpired_def ErrSubscriptionNotFound_def
  ErrSubscriptionAlreadyExists_def ErrSubscriptionRestoreConflict_def ErrSubscriptionNilInput_def

section \<open>Caches\<close>

definition invalidateSubscriptionCache ::
  "service \<Rightarrow> int64 \<Rightarrow> int64 \<Rightarrow> sub_world \<Rightarrow> unit result \<times> sub_world" where
  "invalidateSubscriptionCache s userID subscriptionID w =
     (case sv_cache s of
        None \<Rightarrow> (Inr (), w)
      | Some InvalidateSubscription \<Rightarrow>
          if 0 < subscriptionID then
            (let w = w\<lparr>wd_db := (wd_db w)\<lparr>ss_invalidated := ss_invalidated (wd_db w) @ [(userID, subscriptionID)]\<rparr>\<rparr> in
             case InvalidateSubscription userID subscriptionID of
               Some err \<Rightarrow> (Inl (Wrapped ''invalidate billing subscription cache: '' err), w)
             | None \<Rightarrow> (Inr (), w))
          else (Inr (), w))"

definition maybeInvalidateAssignmentCache :: "service \<Rightarrow> int64 \<Rightarrow> int64 \<Rightarrow> bool \<Rightarrow> sub_world \<Rightarrow> sub_world" where
  "maybeInvalidateAssignmentCache s userID subscriptionID deferred w =
     (if deferred then w
      else if sv_cache s = None then w
      else snd (invalidateSubscriptionCache s userID subscriptionID w))"

section \<open>Administration\<close>

definition normalizeAssignValidityDays :: "int \<Rightarrow> int" where
  "normalizeAssignValidityDays days =
     (let days = (if days \<le> 0 then 30 else days) in
      if MaxValidityDays < days then MaxValidityDays else days)"

definition RevokeSubscription :: "service \<Rightarrow> int64 \<Rightarrow> sub_world \<Rightarrow> unit result \<times> sub_world" where
  "RevokeSubscription s subscriptionID w =
     (case repo_GetByID subscriptionID w of
        (Inl err, w) \<Rightarrow> (Inl err, w)
      | (Inr sub, w) \<Rightarrow>
          (case repo_Delete subscriptionID w of
             (Inl err, w) \<Rightarrow> (Inl err, w)
           | (Inr _, w) \<Rightarrow> invalidateSubscriptionCache s (us_UserID sub) (us_ID sub) w))"

definition RestoreSubscription :: "service \<Rightarrow> int64 \<Rightarrow> sub_world \<Rightarrow> UserSubscription result \<times> sub_world" where
  "RestoreSubscription s subscriptionID w =
     (case repo_GetByIDIncludeDeleted subscriptionID w of
        (Inl err, w) \<Rightarrow> (Inl err, w)
      | (Inr sub, w) \<Rightarrow>
          if us_DeletedAt sub = None then (Inl ErrSubscriptionNotRevoked, w)
          else let now = now_of w; w = tick w;
                   restoredStatus =
                     (if us_Status sub = SubscriptionStatusActive \<and> \<not> now < us_ExpiresAt sub
                      then SubscriptionStatusExpired else us_Status sub)
          in case repo_Restore subscriptionID restoredStatus w of
               (Inl err, w) \<Rightarrow> (Inl err, w)
             | (Inr restored, w) \<Rightarrow>
                 (case invalidateSubscriptionCache s (us_UserID restored) (us_ID restored) w of
                    (Inl err, w) \<Rightarrow> (Inl err, w)
                  | (Inr _, w) \<Rightarrow> (Inr restored, w)))"

definition clamp_days :: "int \<Rightarrow> int" where
  "clamp_days days =
     (let days = (if MaxValidityDays < days then MaxValidityDays else days) in
      if days < - MaxValidityDays then - MaxValidityDays else days)"

definition extended_expiry :: "zone \<Rightarrow> UserSubscription \<Rightarrow> int \<Rightarrow> go_time \<Rightarrow> go_time" where
  "extended_expiry z sub days now =
     (let newExpiresAt = (if \<not> now < us_ExpiresAt sub then zn_AddDate z now days
                          else zn_AddDate z (us_ExpiresAt sub) days)
      in if MaxExpiresAt < newExpiresAt then MaxExpiresAt else newExpiresAt)"

definition ExtendSubscription ::
  "service \<Rightarrow> int64 \<Rightarrow> int \<Rightarrow> sub_world \<Rightarrow> UserSubscription result \<times> sub_world" where
  "ExtendSubscription s subscriptionID days w =
     (case repo_GetByID subscriptionID w of
        (Inl err, w) \<Rightarrow> (Inl ErrSubscriptionNotFound, w)
      | (Inr sub, w) \<Rightarrow>
          let days = clamp_days days;
              now = now_of w; w = tick w;
              isExpired = (\<not> now < us_ExpiresAt sub)
          in if isExpired \<and> days < 0 then (Inl ErrCannotShortenExpired, w)
             else let newExpiresAt = extended_expiry (sv_zone s) sub days now in
               if \<not> now < newExpiresAt then (Inl ErrAdjustWouldExpire, w)
               else (case repo_ExtendExpiry subscriptionID newExpiresAt w of
                  (Inl err, w) \<Rightarrow> (Inl err, w)
                | (Inr _, w) \<Rightarrow>
                    (case (if us_Status sub = SubscriptionStatusExpired
                           then repo_UpdateStatus subscriptionID SubscriptionStatusActive w
                           else (Inr (), w)) of
                       (Inl err, w) \<Rightarrow> (Inl err, w)
                     | (Inr _, w) \<Rightarrow>
                         let w = maybeInvalidateAssignmentCache s (us_UserID sub) (us_ID sub) False w
                         in repo_GetByID subscriptionID w)))"

section \<open>Listing\<close>

definition normalizeExpiredWindowAt :: "zone \<Rightarrow> go_time \<Rightarrow> UserSubscription \<Rightarrow> UserSubscription" where
  "normalizeExpiredWindowAt z now sub =
     (let sub = (if canAutomaticallyResetDailyAt z sub now
                 then sub\<lparr>us_DailyWindowStart := None, us_DailyUsageUSD := f_zero\<rparr> else sub);
          sub = (if canAutomaticallyResetWeeklyAt z sub now
                 then sub\<lparr>us_WeeklyWindowStart := None, us_WeeklyUsageUSD := f_zero\<rparr> else sub)
      in if canAutomaticallyResetMonthlyAt z sub now
         then sub\<lparr>us_MonthlyWindowStart := None, us_MonthlyUsageUSD := f_zero\<rparr> else sub)"

definition normalizeExpiredWindowsAt :: "zone \<Rightarrow> UserSubscription list \<Rightarrow> go_time \<Rightarrow> UserSubscription list" where
  "normalizeExpiredWindowsAt z subs now = map (normalizeExpiredWindowAt z now) subs"

definition normalizeSubscriptionStatus :: "UserSubscription list \<Rightarrow> go_time \<Rightarrow> UserSubscription list" where
  "normalizeSubscriptionStatus subs now =
     map (\<lambda>sub. if us_Status sub = SubscriptionStatusActive \<and> \<not> now < us_ExpiresAt sub
                then sub\<lparr>us_Status := SubscriptionStatusExpired\<rparr> else sub) subs"

definition ListUserSubscriptions ::
  "service \<Rightarrow> int64 \<Rightarrow> sub_world \<Rightarrow> UserSubscription list result \<times> sub_world" where
  "ListUserSubscriptions s userID w =
     (case repo_ListByUserID userID w of
        (Inl err, w) \<Rightarrow> (Inl err, w)
      | (Inr subs, w) \<Rightarrow>
          let subs = normalizeExpiredWindowsAt (sv_zone s) subs (now_of w); w = tick w;
              subs = normalizeSubscriptionStatus subs (now_of w); w = tick w
          in (Inr subs, w))"

definition ListActiveUserSubscriptions ::
  "service \<Rightarrow> int64 \<Rightarrow> sub_world \<Rightarrow> UserSubscription list result \<times> sub_world" where
  "ListActiveUserSubscriptions s userID w =
     (case repo_ListActiveByUserID userID w of
        (Inl err, w) \<Rightarrow> (Inl err, w)
      | (Inr subs, w) \<Rightarrow> (Inr (normalizeExpiredWindowsAt (sv_zone s) subs (now_of w)), tick w))"

definition ListActiveSubscriptions ::
  "int64 \<Rightarrow> sub_world \<Rightarrow> UserSubscription list result \<times> sub_world" where
  "ListActiveSubscriptions userID w =
     (case repo_ListActiveByUserID userID w of
        (Inl err, w) \<Rightarrow> (Inl err, w)
      | (Inr subscriptions, w) \<Rightarrow> (Inr (map (\<lambda>x. the (cloneUserSubscription (Some x))) subscriptions), w))"

definition normalizeSubscriptionPlanIDs :: "int64 list \<Rightarrow> int64 list" where
  "normalizeSubscriptionPlanIDs planIDs = sorted_ids (filter (\<lambda>p. 0 < p) planIDs)"

definition ListActiveSubscriptionsByPlanIDs ::
  "int64 \<Rightarrow> int64 list \<Rightarrow> sub_world \<Rightarrow> UserSubscription list result \<times> sub_world" where
  "ListActiveSubscriptionsByPlanIDs userID planIDs w =
     (let normalizedPlanIDs = normalizeSubscriptionPlanIDs planIDs in
      if normalizedPlanIDs = [] then (Inr [], w)
      else case repo_ListActiveByUserIDAndPlanIDs userID normalizedPlanIDs w of
        (Inl err, w) \<Rightarrow> (Inl err, w)
      | (Inr subscriptions, w) \<Rightarrow> (Inr (map (\<lambda>x. the (cloneUserSubscription (Some x))) subscriptions), w))"

section \<open>Window maintenance\<close>

definition checkAndActivateWindowAt ::
  "service \<Rightarrow> UserSubscription \<Rightarrow> go_time \<Rightarrow> sub_world \<Rightarrow> unit result \<times> sub_world" where
  "checkAndActivateWindowAt s sub now w =
     (if IsWindowActivated sub then (Inr (), w)
      else repo_ActivateWindows (us_ID sub) (zn_StartOfDay (sv_zone s) now) now w)"

definition CheckAndActivateWindow ::
  "service \<Rightarrow> UserSubscription \<Rightarrow> sub_world \<Rightarrow> unit result \<times> sub_world" where
  "CheckAndActivateWindow s sub w = checkAndActivateWindowAt s sub (now_of w) (tick w)"

definition AdminResetQuota ::
  "service \<Rightarrow> int64 \<Rightarrow> bool \<Rightarrow> bool \<Rightarrow> bool \<Rightarrow> sub_world \<Rightarrow> UserSubscription result \<times> sub_world" where
  "AdminResetQuota s subscriptionID resetDaily resetWeekly resetMonthly w =
     (if \<not> resetDaily \<and> \<not> resetWeekly \<and> \<not> resetMonthly then (Inl ErrInvalidInput, w)
      else case repo_GetByID subscriptionID w of
        (Inl err, w) \<Rightarrow> (Inl err, w)
      | (Inr sub, w) \<Rightarrow>
          let windowStart = now_of w; w = tick w in
          (case repo_ResetUsageWindows (us_ID sub) resetDaily resetWeekly resetMonthly
                  (zn_StartOfDay (sv_zone s) windowStart) windowStart w of
             (Inl err, w) \<Rightarrow> (Inl err, w)
           | (Inr _, w) \<Rightarrow>
               let w = snd (invalidateSubscriptionCache s (us_UserID sub) (us_ID sub) w)
               in repo_GetByID subscriptionID w))"

text \<open>One of the three window steps of \<open>CheckAndResetWindows\<close>: the reset and the change to the value.\<close>

definition reset_step ::
  "window \<Rightarrow> go_time option \<Rightarrow> UserSubscription \<Rightarrow> bool \<Rightarrow> sub_world
    \<Rightarrow> (UserSubscription \<times> bool) result \<times> sub_world" where
  "reset_step k windowStart sub needsInvalidateCache w =
     (case windowStart of
        None \<Rightarrow> (Inr (sub, needsInvalidateCache), w)
      | Some ws \<Rightarrow>
          (case repo_reset k (us_ID sub) (window_start k sub) ws w of
             (Inl err, w) \<Rightarrow> (Inl err, w)
           | (Inr _, w) \<Rightarrow> (Inr (restart_window k ws sub, True), w)))"

definition CheckAndResetWindows ::
  "service \<Rightarrow> UserSubscription \<Rightarrow> sub_world \<Rightarrow> UserSubscription result \<times> sub_world" where
  "CheckAndResetWindows s sub w =
     (let z = sv_zone s; now = now_of w; w = tick w in
      case reset_step DailyWindow (automaticDailyWindowStartAt z sub now) sub False w of
        (Inl err, w) \<Rightarrow> (Inl err, w)
      | (Inr (sub, dirty), w) \<Rightarrow>
          (case reset_step WeeklyWindow (automaticWindowStartAt z sub (us_WeeklyWindowStart sub) week now)
                  sub dirty w of
             (Inl err, w) \<Rightarrow> (Inl err, w)
           | (Inr (sub, dirty), w) \<Rightarrow>
               (case reset_step MonthlyWindow
                       (automaticWindowStartAt z sub (us_MonthlyWindowStart sub) month now) sub dirty w of
                  (Inl err, w) \<Rightarrow> (Inl err, w)
                | (Inr (sub, dirty), w) \<Rightarrow>
                    (Inr sub, if dirty then snd (invalidateSubscriptionCache s (us_UserID sub) (us_ID sub) w)
                              else w))))"

definition EnsureWindowMaintenance ::
  "service \<Rightarrow> UserSubscription option \<Rightarrow> sub_world \<Rightarrow> UserSubscription result \<times> sub_world" where
  "EnsureWindowMaintenance s sub w =
     (case sub of
        None \<Rightarrow> (Inl ErrSubscriptionNilInput, w)
      | Some sub \<Rightarrow>
          (case (if \<not> IsWindowActivated sub then CheckAndActivateWindow s sub w else (Inr (), w)) of
             (Inl err, w) \<Rightarrow> (Inl err, w)
           | (Inr _, w) \<Rightarrow>
               (case CheckAndResetWindows s sub w of
                  (Inl err, w) \<Rightarrow> (Inl err, w)
                | (Inr sub', w) \<Rightarrow> repo_GetByID (us_ID sub') w)))"

definition doWindowMaintenance :: "service \<Rightarrow> UserSubscription \<Rightarrow> sub_world \<Rightarrow> sub_world" where
  "doWindowMaintenance s sub w =
     (let w = (if \<not> IsWindowActivated sub then snd (CheckAndActivateWindow s sub w) else w)
      in snd (CheckAndResetWindows s sub w))"

definition RecordUsage ::
  "(float64 \<Rightarrow> float64 \<Rightarrow> float64) \<Rightarrow> int64 \<Rightarrow> float64 \<Rightarrow> sub_world \<Rightarrow> unit result \<times> sub_world" where
  "RecordUsage sql_add subscriptionID costUSD w = repo_IncrementUsage sql_add subscriptionID costUSD w"

section \<open>Limits\<close>

definition CheckUsageLimits :: "UserSubscription \<Rightarrow> float64 \<Rightarrow> go_error option" where
  "CheckUsageLimits sub additionalCost =
     (if \<not> CheckDailyLimit sub additionalCost then Some ErrDailyLimitExceeded
      else if \<not> CheckWeeklyLimit sub additionalCost then Some ErrWeeklyLimitExceeded
      else if \<not> CheckMonthlyLimit sub additionalCost then Some ErrMonthlyLimitExceeded
      else None)"

definition limit_reached :: "float64 option \<Rightarrow> float64 \<Rightarrow> bool" where
  "limit_reached limit used = (hasUsageLimit limit \<and> f_le (the limit) used)"

text \<open>The triple is the flag, the error and the subscription as the call leaves it.\<close>

definition ValidateAndCheckLimitsAt ::
  "zone \<Rightarrow> go_time \<Rightarrow> UserSubscription \<Rightarrow> bool \<times> go_error option \<times> UserSubscription" where
  "ValidateAndCheckLimitsAt z now sub =
     (if us_Status sub = SubscriptionStatusExpired then (False, Some ErrSubscriptionExpired, sub)
      else if us_Status sub = SubscriptionStatusSuspended then (False, Some ErrSubscriptionSuspended, sub)
      else if \<not> now < us_ExpiresAt sub then (False, Some ErrSubscriptionExpired, sub)
      else let
        (needs, sub) = (if canAutomaticallyResetDailyAt z sub now
                        then (True, sub\<lparr>us_DailyUsageUSD := f_zero\<rparr>) else (False, sub));
        (needs, sub) = (if canAutomaticallyResetWeeklyAt z sub now
                        then (True, sub\<lparr>us_WeeklyUsageUSD := f_zero\<rparr>) else (needs, sub));
        (needs, sub) = (if canAutomaticallyResetMonthlyAt z sub now
                        then (True, sub\<lparr>us_MonthlyUsageUSD := f_zero\<rparr>) else (needs, sub));
        needs = (if \<not> IsWindowActivated sub then True else needs)
      in (needs,
          if limit_reached (dailyLimitUSD sub) (us_DailyUsageUSD sub) then Some ErrDailyLimitExceeded
          else if limit_reached (weeklyLimitUSD sub) (us_WeeklyUsageUSD sub) then Some ErrWeeklyLimitExceeded
          else if limit_reached (monthlyLimitUSD sub) (us_MonthlyUsageUSD sub) then Some ErrMonthlyLimitExceeded
          else None,
          sub))"

definition ValidateAndCheckLimits ::
  "service \<Rightarrow> UserSubscription \<Rightarrow> sub_world \<Rightarrow> (bool \<times> go_error option \<times> UserSubscription) \<times> sub_world" where
  "ValidateAndCheckLimits s sub w = (ValidateAndCheckLimitsAt (sv_zone s) (now_of w) sub, tick w)"

definition ValidateSubscription ::
  "UserSubscription \<Rightarrow> sub_world \<Rightarrow> go_error option \<times> sub_world" where
  "ValidateSubscription sub w =
     (if us_Status sub = SubscriptionStatusExpired then (Some ErrSubscriptionExpired, w)
      else if us_Status sub = SubscriptionStatusSuspended then (Some ErrSubscriptionSuspended, w)
      else let now = now_of w; w = tick w in
        if IsExpired now sub
        then (Some ErrSubscriptionExpired, snd (repo_UpdateStatus (us_ID sub) SubscriptionStatusExpired w))
        else (None, w))"

section \<open>Progress\<close>

record UsageWindowProgress =
  up_LimitUSD :: float64
  up_UsedUSD :: float64
  up_RemainingUSD :: float64
  up_Percentage :: float64
  up_WindowStart :: go_time
  up_ResetsAt :: go_time
  up_ResetsInSeconds :: int64

record SubscriptionProgress =
  sp_ID :: int64
  sp_PlanName :: string
  sp_ExpiresAt :: go_time
  sp_ExpiresInDays :: int
  sp_Daily :: "UsageWindowProgress option"
  sp_Weekly :: "UsageWindowProgress option"
  sp_Monthly :: "UsageWindowProgress option"

text \<open>\<open>Duration.Seconds\<close> adds the whole and the fractional seconds as floating-point numbers.\<close>

definition duration_Seconds :: "duration \<Rightarrow> float64" where
  "duration_Seconds d = f_add (round64 (of_int (go_quot d second)))
     (f_div (round64 (of_int (go_rem d second))) (Fin 1000000000))"

definition window_progress ::
  "float64 \<Rightarrow> float64 \<Rightarrow> go_time \<Rightarrow> go_time \<Rightarrow> go_time \<Rightarrow> UsageWindowProgress" where
  "window_progress limit used windowStart resetsAt now =
     (let remaining = f_sub limit used;
          percentage = f_mul (f_div used limit) (Fin 100);
          secs = f_trunc (duration_Seconds (time_sub resetsAt now))
      in \<lparr>up_LimitUSD = limit, up_UsedUSD = used,
          up_RemainingUSD = (if f_less remaining f_zero then f_zero else remaining),
          up_Percentage = (if f_less (Fin 100) percentage then Fin 100 else percentage),
          up_WindowStart = windowStart, up_ResetsAt = resetsAt,
          up_ResetsInSeconds = (if secs < 0 then 0 else secs)\<rparr>)"

definition limited_progress ::
  "float64 option \<Rightarrow> float64 \<Rightarrow> go_time option \<Rightarrow> go_time option \<Rightarrow> sub_world
    \<Rightarrow> UsageWindowProgress option \<times> sub_world" where
  "limited_progress limit used windowStart resetsAt w =
     (case (hasUsageLimit limit, windowStart) of
        (True, Some ws) \<Rightarrow> (Some (window_progress (the limit) used ws (the resetsAt) (now_of w)), tick w)
      | _ \<Rightarrow> (None, w))"

definition calculateProgress :: "service \<Rightarrow> UserSubscription \<Rightarrow> sub_world \<Rightarrow> SubscriptionProgress \<times> sub_world" where
  "calculateProgress s sub w =
     (let expiresInDays = daysRemainingAt sub (now_of w); w = tick w;
          (daily, w) = limited_progress (dailyLimitUSD sub) (us_DailyUsageUSD sub)
             (us_DailyWindowStart sub) (DailyResetTime (sv_zone s) sub) w;
          (weekly, w) = limited_progress (weeklyLimitUSD sub) (us_WeeklyUsageUSD sub)
             (us_WeeklyWindowStart sub) (map_option (\<lambda>t. t + week) (us_WeeklyWindowStart sub)) w;
          (monthly, w) = limited_progress (monthlyLimitUSD sub) (us_MonthlyUsageUSD sub)
             (us_MonthlyWindowStart sub) (map_option (\<lambda>t. t + month) (us_MonthlyWindowStart sub)) w
      in (\<lparr>sp_ID = us_ID sub, sp_PlanName = us_PlanNameSnapshot sub, sp_ExpiresAt = us_ExpiresAt sub,
           sp_ExpiresInDays = expiresInDays, sp_Daily = daily, sp_Weekly = weekly,
           sp_Monthly = monthly\<rparr>, w))"

definition GetSubscriptionProgress ::
  "service \<Rightarrow> int64 \<Rightarrow> sub_world \<Rightarrow> SubscriptionProgress result \<times> sub_world" where
  "GetSubscriptionProgress s subscriptionID w =
     (case repo_GetByID subscriptionID w of
        (Inl err, w) \<Rightarrow> (Inl ErrSubscriptionNotFound, w)
      | (Inr sub, w) \<Rightarrow> (let (p, w) = calculateProgress s sub w in (Inr p, w)))"

fun progress_loop ::
  "service \<Rightarrow> UserSubscription list \<Rightarrow> sub_world \<Rightarrow> SubscriptionProgress list \<times> sub_world" where
  "progress_loop s [] w = ([], w)"
| "progress_loop s (sub # subs) w =
     (let (p, w) = calculateProgress s sub w; (ps, w) = progress_loop s subs w in (p # ps, w))"

definition GetUserSubscriptionsWithProgress ::
  "service \<Rightarrow> int64 \<Rightarrow> sub_world \<Rightarrow> SubscriptionProgress list result \<times> sub_world" where
  "GetUserSubscriptionsWithProgress s userID w =
     (case repo_ListActiveByUserID userID w of
        (Inl err, w) \<Rightarrow> (Inl err, w)
      | (Inr subs, w) \<Rightarrow> (let (ps, w) = progress_loop s subs w in (Inr ps, w)))"

section \<open>Reading and writing rows on a database without faults\<close>

lemma entity_live [simp]: "live m \<Longrightarrow> userSubscriptionEntityToService m = m"
  by (simp add: userSubscriptionEntityToService_def live_def
      userSubscriptionEntityToServiceWithStatusMapping_def)

lemma GetByID_healthy:
  assumes "healthy w" "wf_store (wd_db w)"
  shows "repo_GetByID sid w =
    (case table w sid of
       None \<Rightarrow> Inl (WithCause ErrSubscriptionNotFound (Some entNotFound))
     | Some r \<Rightarrow> if live r then Inr r else Inl (WithCause ErrSubscriptionNotFound (Some entNotFound)),
     w\<lparr>wd_stmt := Suc (wd_stmt w)\<rparr>)"
  using assms
  by (simp add: repo_GetByID_def query_healthy wf_store_def find_live table_def rows_of_def
      split: option.splits)

lemma GetByID_Inr:
  assumes "repo_GetByID sid w = (Inr r, w')" "wf_store (wd_db w)"
  shows "table w sid = Some r \<and> live r \<and> us_ID r = sid \<and> wd_db w' = wd_db w \<and> same_env w w'"
proof -
  have wf: "distinct (map us_ID (ss_rows (wd_db w)))" using assms(2) by (simp add: wf_store_def)
  obtain q where q: "sql_query (\<lambda>rows. case find (\<lambda>r. us_ID r = sid \<and> live r) rows of
          None \<Rightarrow> Inl entNotFound | Some m \<Rightarrow> Inr m) w = (Inr q, w')"
    and r: "r = userSubscriptionEntityToService q"
    using assms(1) by (auto simp: repo_GetByID_def split: prod.splits sum.splits)
  have "find (\<lambda>r. us_ID r = sid \<and> live r) (ss_rows (wd_db w)) = Some q"
    using q sql_exec_D [OF q [unfolded sql_query_def]] by (auto split: option.splits)
  then have "table w sid = Some q \<and> live q"
    unfolding find_live [OF wf] by (auto simp: table_def rows_of_def split: option.splits if_splits)
  moreover from this have "r = q" by (simp add: r)
  ultimately show ?thesis using query_cases [OF q] by (auto simp: table_def dest: find_row_ID)
qed

lemma table_simps [simp]:
  "table (tick w) = table w" "table (w\<lparr>wd_stmt := n\<rparr>) = table w"
  by (auto simp: table_def)

lemma row_step_simps [simp]:
  "row_step sid f (w\<lparr>wd_stmt := n\<rparr>) w' = row_step sid f w w'"
  "row_step sid f (tick w) w' = row_step sid f w w'"
  by (simp_all add: row_step_def same_env_def)

lemma cache_frame:
  assumes "invalidateSubscriptionCache s u sid w = (res, w')"
  shows "same_env w w' \<and> table w' = table w \<and> (wf_store (wd_db w') \<longleftrightarrow> wf_store (wd_db w))
     \<and> wd_tick w' = wd_tick w"
  using assms by (auto simp: invalidateSubscriptionCache_def table_def rows_of_def same_env_def Let_def
      split: option.splits if_splits)

lemma cache_log:
  assumes "sv_cache s = Some c" "0 < sid"
  shows "ss_invalidated (wd_db (snd (invalidateSubscriptionCache s u sid w))) =
     ss_invalidated (wd_db w) @ [(u, sid)]"
  using assms by (simp add: invalidateSubscriptionCache_def Let_def split: option.splits)

section \<open>Extending a subscription\<close>

lemma set_one_found:
  assumes "healthy w" "table w sid = Some r" "\<And>r. us_ID (f r) = us_ID r"
  obtains w' where "set_one sid f w = (Inr (), w')"
    "row_step sid (\<lambda>x. (f x)\<lparr>us_UpdatedAt := now_of w\<rparr>) w w'"
proof -
  obtain res w' where set: "set_one sid f w = (res, w')" by (cases "set_one sid f w")
  then have "res = Inr ()" using set_one_healthy [OF assms(1), of sid f] assms(2) by simp
  then show ?thesis using that [of w'] set set_one_step [OF set assms(3)] by simp
qed

lemma row_step_healthy: "row_step sid f w w' \<Longrightarrow> healthy w \<Longrightarrow> healthy w'"
  by (auto dest: row_stepD(3) same_env_healthy)

lemma maybe_cache_frame:
  "same_env w (maybeInvalidateAssignmentCache s u sid d w) \<and>
   table (maybeInvalidateAssignmentCache s u sid d w) = table w \<and>
   (wf_store (wd_db (maybeInvalidateAssignmentCache s u sid d w)) \<longleftrightarrow> wf_store (wd_db w))"
  using cache_frame [of s u sid w] unfolding maybeInvalidateAssignmentCache_def
  by (cases "invalidateSubscriptionCache s u sid w") auto

lemma GetByID_after:
  assumes "healthy w" "wf_store (wd_db w)" "table w sid = Some r" "live r"
  shows "repo_GetByID sid w = (Inr r, w\<lparr>wd_stmt := Suc (wd_stmt w)\<rparr>)"
  using assms by (simp add: GetByID_healthy)

definition extended :: "go_time \<Rightarrow> go_time \<Rightarrow> UserSubscription \<Rightarrow> UserSubscription" where
  "extended n u r = r\<lparr>us_ExpiresAt := n,
     us_Status := (if us_Status r = SubscriptionStatusExpired then SubscriptionStatusActive
                   else us_Status r), us_UpdatedAt := u\<rparr>"

lemma extend_writes:
  assumes h: "healthy w" and wf: "wf_store (wd_db w)" and r: "table w sid = Some r" "live r"
    and out: "(case repo_ExtendExpiry sid n w of
        (Inl err, w) \<Rightarrow> (Inl err, w)
      | (Inr _, w) \<Rightarrow>
          (case (if us_Status r = SubscriptionStatusExpired
                 then repo_UpdateStatus sid SubscriptionStatusActive w else (Inr (), w)) of
             (Inl err, w) \<Rightarrow> (Inl err, w)
           | (Inr _, w) \<Rightarrow>
               let w = maybeInvalidateAssignmentCache s (us_UserID r) (us_ID r) False w
               in repo_GetByID sid w)) = (res, w')"
  shows "\<exists>u. res = Inr (extended n u r) \<and> row_step sid (extended n u) w w'"
proof -
  obtain w1 where w1: "repo_ExtendExpiry sid n w = (Inr (), w1)"
    and s1: "row_step sid (\<lambda>x. x\<lparr>us_ExpiresAt := n, us_UpdatedAt := now_of w\<rparr>) w w1"
    using set_one_found [OF h r(1), of "\<lambda>r. r\<lparr>us_ExpiresAt := n\<rparr>"] by (auto simp: repo_ExtendExpiry_def)
  let ?upd = "if us_Status r = SubscriptionStatusExpired
       then repo_UpdateStatus sid SubscriptionStatusActive w1 else (Inr (), w1)"
  have "\<exists>w2 u. ?upd = (Inr (), w2) \<and> row_step sid (extended n u) w w2 \<and>
      table w2 sid = Some (extended n u r)"
  proof (cases "us_Status r = SubscriptionStatusExpired")
    case True
    have r1: "table w1 sid = Some (r\<lparr>us_ExpiresAt := n, us_UpdatedAt := now_of w\<rparr>)"
      using s1 r by (simp add: row_stepD)
    obtain w2 where w2: "repo_UpdateStatus sid SubscriptionStatusActive w1 = (Inr (), w2)"
      and s2: "row_step sid (\<lambda>x. x\<lparr>us_Status := SubscriptionStatusActive, us_UpdatedAt := now_of w1\<rparr>) w1 w2"
      using set_one_found [OF row_step_healthy [OF s1 h] r1, of "\<lambda>r. r\<lparr>us_Status := SubscriptionStatusActive\<rparr>"]
      by (auto simp: repo_UpdateStatus_def SubscriptionStatusActive_def)
    have "row_step sid (extended n (now_of w1)) w w2"
      using row_step_trans [OF s1 s2] r True by (simp add: row_step_def extended_def)
    then show ?thesis using w2 True r by (auto simp: row_stepD)
  next
    case False
    have "row_step sid (extended n (now_of w)) w w1"
      using s1 r False by (simp add: row_step_def extended_def)
    then show ?thesis using False r by (auto simp: row_stepD)
  qed
  then obtain w2 u where w2: "?upd = (Inr (), w2)" and s2: "row_step sid (extended n u) w w2"
    and t2: "table w2 sid = Some (extended n u r)" by blast
  let ?w3 = "maybeInvalidateAssignmentCache s (us_UserID r) (us_ID r) False w2"
  have w3: "same_env w2 ?w3" "table ?w3 = table w2" "wf_store (wd_db ?w3) \<longleftrightarrow> wf_store (wd_db w2)"
    using maybe_cache_frame by blast+
  have "live (extended n u r)" using r(2) by (simp add: extended_def live_def)
  then have get: "repo_GetByID sid ?w3 = (Inr (extended n u r), ?w3\<lparr>wd_stmt := Suc (wd_stmt ?w3)\<rparr>)"
    using GetByID_after [of ?w3] w3 t2 row_stepD(4) [OF s2 wf] same_env_healthy [OF w3(1)]
      row_step_healthy [OF s2 h] by simp
  have "row_step sid (extended n u) w ?w3" using s2 w3 by (auto simp: row_step_def intro: same_env_trans)
  then have "row_step sid (extended n u) w (?w3\<lparr>wd_stmt := Suc (wd_stmt ?w3)\<rparr>)"
    by (simp add: row_step_def same_env_def)
  then show ?thesis using out w1 w2 get by (auto simp: Let_def)
qed

text \<open>
  Extending a live subscription (on a database without faults) does what it says on every branch.
  Shortening an expired subscription and an adjustment that would leave no time are refused and
  change no row. Otherwise the new expiry is the requested number of days, clamped to a hundred years
  either way, after the old expiry (after now if that has passed), at most the last second of 2099
  and later than now; an expired subscription becomes active again; nothing else of the row but its
  update time changes, no other row changes, and the caller gets the row as stored.
\<close>

theorem ExtendSubscription_spec:
  assumes "healthy w" "wf_store (wd_db w)" "table w sid = Some r" "live r"
    and run: "ExtendSubscription s sid days w = (res, w')"
  defines "now \<equiv> now_of w"
  defines "n \<equiv> extended_expiry (sv_zone s) r (clamp_days days) now"
  shows "if us_ExpiresAt r \<le> now \<and> days < 0 then res = Inl ErrCannotShortenExpired \<and> table w' = table w
    else if n \<le> now then res = Inl ErrAdjustWouldExpire \<and> table w' = table w
    else \<exists>u. let r' = r\<lparr>us_ExpiresAt := n, us_Status := (if us_Status r = SubscriptionStatusExpired
             then SubscriptionStatusActive else us_Status r), us_UpdatedAt := u\<rparr>
      in res = Inr r' \<and> table w' = (table w)(sid \<mapsto> r') \<and> now < n \<and> n \<le> MaxExpiresAt"
proof -
  let ?w = "w\<lparr>wd_stmt := Suc (wd_stmt w)\<rparr>"
  have get: "repo_GetByID sid w = (Inr r, ?w)" using assms(1-4) by (rule GetByID_after)
  have neg: "clamp_days days < 0 \<longleftrightarrow> days < 0" by (auto simp: clamp_days_def MaxValidityDays_def Let_def)
  have max: "n \<le> MaxExpiresAt" by (simp add: n_def extended_expiry_def Let_def)
  show ?thesis
  proof (cases "us_ExpiresAt r \<le> now \<and> days < 0 \<or> n \<le> now")
    case True
    then show ?thesis using run get neg
      by (auto simp: ExtendSubscription_def Let_def now_def n_def not_less)
  next
    case False
    have "\<exists>u. res = Inr (extended n u r) \<and> row_step sid (extended n u) (tick ?w) w'"
    proof (rule extend_writes [where s = s])
      show "healthy (tick ?w)" "wf_store (wd_db (tick ?w))" "table (tick ?w) sid = Some r" "live r"
        using assms by simp_all
    qed (use run get False neg in \<open>auto simp: ExtendSubscription_def Let_def now_def n_def not_less\<close>)
    then obtain u where "res = Inr (extended n u r)" "row_step sid (extended n u) w w'" by auto
    moreover from this have "table w' = (table w)(sid \<mapsto> extended n u r)"
      using assms(3) by (auto simp: row_step_def)
    moreover have c: "(us_ExpiresAt r \<le> now \<and> days < 0) = False" "(n \<le> now) = False" using False by auto
    ultimately show ?thesis unfolding c if_False extended_def using max c(2)
      by (intro exI [of _ u]) (simp add: Let_def)
  qed
qed

definition demo_service :: service where
  "demo_service = \<lparr>sv_zone = utc_zone, sv_cache = None\<rparr>"

theorem ExtendSubscription_spec_witness:
  "\<exists>u. fst (ExtendSubscription demo_service 21 7 (demo_world (102 * week) [demo_sub])) =
     Inr (demo_sub\<lparr>us_ExpiresAt := 105 * week, us_UpdatedAt := u\<rparr>)"
proof -
  let ?w = "demo_world (102 * week) [demo_sub]"
  obtain res w' where run: "ExtendSubscription demo_service 21 7 ?w = (res, w')"
    by (cases "ExtendSubscription demo_service 21 7 ?w")
  have n: "extended_expiry utc_zone demo_sub (clamp_days 7) (102 * week) = 105 * week"
    by (simp add: extended_expiry_def clamp_days_def MaxValidityDays_def MaxExpiresAt_def utc_zone_def
        demo_sub_def week_def duration_defs Let_def)
  from ExtendSubscription_spec [OF demo_world_facts(1) demo_world_wf demo_world_table demo_sub_facts(2) run]
  obtain u where res: "res = Inr (demo_sub\<lparr>us_ExpiresAt := 105 * week, us_UpdatedAt := u\<rparr>)"
    using n by (auto simp: demo_service_def demo_world_facts Let_def demo_sub_def SubscriptionStatusExpired_def
        week_def duration_defs)
  then show ?thesis using run by auto
qed

section \<open>Revoking and restoring\<close>

lemma Delete_healthy:
  assumes "healthy w" "table w sid = Some r"
  obtains w' where "repo_Delete sid w = (Inr (), w')"
    "row_step sid (\<lambda>x. if live x then x\<lparr>us_DeletedAt := Some (now_of w), us_UpdatedAt := now_of (tick w)\<rparr> else x) w w'"
proof -
  obtain res w' where upd: "sql_update_many (\<lambda>r. us_ID r = sid \<and> live r)
      (\<lambda>r. r\<lparr>us_DeletedAt := Some (now_of w)\<rparr>) (tick w) = (res, w')"
    by (cases "sql_update_many (\<lambda>r. us_ID r = sid \<and> live r)
      (\<lambda>r. r\<lparr>us_DeletedAt := Some (now_of w)\<rparr>) (tick w)")
  have "\<exists>n. res = Inr n"
    using upd assms(1) by (auto simp: sql_update_many_def Let_def sql_exec_healthy)
  then obtain n where n: "res = Inr n" by blast
  have id: "table w k = Some x \<Longrightarrow> us_ID x = k" for k x by (auto simp: table_def dest: find_row_ID)
  have "row_step sid (\<lambda>x. if live x then x\<lparr>us_DeletedAt := Some (now_of w), us_UpdatedAt := now_of (tick w)\<rparr> else x) (tick w) w'"
    using update_many_db [OF upd] n id
    by (fastforce simp: row_step_def map_option_case split: option.splits)
  then show ?thesis using that [of w'] upd n by (simp add: repo_Delete_def Let_def)
qed

lemma Restore_healthy:
  assumes "healthy w" "wf_store (wd_db w)" "table w sid = Some r" "length st \<le> 20"
  obtains w' where
    "repo_Restore sid st w = (Inr (r\<lparr>us_Status := st, us_DeletedAt := None, us_UpdatedAt := now_of w\<rparr>), w')"
    "row_step sid (\<lambda>x. x\<lparr>us_Status := st, us_DeletedAt := None, us_UpdatedAt := now_of w\<rparr>) w w'"
proof -
  let ?f = "\<lambda>x. x\<lparr>us_Status := st, us_DeletedAt := None, us_UpdatedAt := now_of w\<rparr>"
  let ?d = "(wd_db w)\<lparr>ss_rows := update_where (\<lambda>x. us_ID x = sid) ?f (ss_rows (wd_db w))\<rparr>"
  let ?w1 = "(tick w)\<lparr>wd_stmt := Suc (wd_stmt w), wd_db := ?d\<rparr>"
  have id: "find_row k rows = Some x \<Longrightarrow> us_ID x = k" for k x rows by (auto dest: find_row_ID)
  have step: "row_step sid ?f w ?w1"
    using id assms(2) by (fastforce simp: row_step_def same_env_def table_def rows_of_def find_row_update
        wf_store_update map_option_case split: option.splits)
  have f: "find_row sid (ss_rows (wd_db w)) = Some r" using assms(3) by (simp add: table_def rows_of_def)
  have "repo_GetByID sid ?w1 = (Inr (?f r), ?w1\<lparr>wd_stmt := Suc (wd_stmt ?w1)\<rparr>)"
    by (rule GetByID_after)
      (use assms step in \<open>simp_all add: row_stepD row_step_healthy [OF step] wf_store_update live_def\<close>)
  moreover have "row_step sid ?f w (?w1\<lparr>wd_stmt := Suc (wd_stmt ?w1)\<rparr>)"
    using step by (simp add: row_step_def same_env_def table_def rows_of_def)
  ultimately show ?thesis using that assms(1,4) f
    by (simp add: repo_Restore_def Let_def sql_exec_healthy)
qed

text \<open>
  C27. Revoking is reversible. After a live subscription is revoked it can no longer be read, and
  restoring it brings back exactly the row that was revoked, except that a subscription that was
  active and has run out meanwhile comes back expired (and the update time).
\<close>

theorem revoke_restore_roundtrip:
  assumes "healthy w" "wf_store (wd_db w)" "table w sid = Some r" "live r" "length (us_Status r) \<le> 20"
    and "RevokeSubscription s sid w = (res1, w1)" "RestoreSubscription s sid w1 = (res2, w2)"
  shows "fst (repo_GetByID sid w1) = Inl (WithCause ErrSubscriptionNotFound (Some entNotFound)) \<and>
    (\<exists>u. table w2 = (table w)(sid \<mapsto> r\<lparr>us_Status :=
        (if us_Status r = SubscriptionStatusActive \<and> us_ExpiresAt r \<le> now_of w1
         then SubscriptionStatusExpired else us_Status r), us_UpdatedAt := u\<rparr>))"
proof -
  let ?w0 = "w\<lparr>wd_stmt := Suc (wd_stmt w)\<rparr>"
  have get: "repo_GetByID sid w = (Inr r, ?w0)" using assms(1-4) by (rule GetByID_after)
  obtain wd where del: "repo_Delete sid ?w0 = (Inr (), wd)" and sd: "row_step sid (\<lambda>x. if live x
      then x\<lparr>us_DeletedAt := Some (now_of ?w0), us_UpdatedAt := now_of (tick ?w0)\<rparr> else x) ?w0 wd"
    using Delete_healthy [of ?w0 sid r] assms(1,3) by auto
  define rd where "rd = r\<lparr>us_DeletedAt := Some (now_of ?w0), us_UpdatedAt := now_of (tick ?w0)\<rparr>"
  have "invalidateSubscriptionCache s (us_UserID r) (us_ID r) wd = (res1, w1)"
    using assms(6) get del by (simp add: RevokeSubscription_def)
  note c1 = cache_frame [OF this]
  have t1: "table w1 = (table w)(sid \<mapsto> rd)"
    using c1 sd assms(3,4) by (auto simp: row_step_def rd_def)
  have w1: "healthy w1" "wf_store (wd_db w1)"
    using c1 row_stepD(3,4) [OF sd] assms(1,2) same_env_healthy by (auto simp: same_env_def healthy_def)
  have "\<not> live rd" by (simp add: rd_def live_def)
  then have gone: "fst (repo_GetByID sid w1) = Inl (WithCause ErrSubscriptionNotFound (Some entNotFound))"
    using GetByID_healthy [OF w1, of sid] t1 by simp
  define st where "st = (if us_Status r = SubscriptionStatusActive \<and> us_ExpiresAt r \<le> now_of w1
      then SubscriptionStatusExpired else us_Status r)"
  let ?w2 = "tick (w1\<lparr>wd_stmt := Suc (wd_stmt w1)\<rparr>)"
  have st: "length st \<le> 20" using assms(5) by (simp add: st_def SubscriptionStatusExpired_def)
  obtain w3 where res: "repo_Restore sid st ?w2 =
      (Inr (rd\<lparr>us_Status := st, us_DeletedAt := None, us_UpdatedAt := now_of ?w2\<rparr>), w3)"
    and s3: "row_step sid (\<lambda>x. x\<lparr>us_Status := st, us_DeletedAt := None, us_UpdatedAt := now_of ?w2\<rparr>) ?w2 w3"
    using Restore_healthy [of ?w2 sid rd st] w1 t1 st by auto
  have inc: "repo_GetByIDIncludeDeleted sid w1 = (Inr rd, w1\<lparr>wd_stmt := Suc (wd_stmt w1)\<rparr>)"
    using w1(1) t1 by (simp add: repo_GetByIDIncludeDeleted_def query_healthy table_def fun_eq_iff
        userSubscriptionEntityToServicePreserveStatus_def
        userSubscriptionEntityToServiceWithStatusMapping_def)
  have rd: "us_DeletedAt rd = Some (now_of ?w0)" "us_Status rd = us_Status r" "us_ExpiresAt rd = us_ExpiresAt r"
    by (simp_all add: rd_def)
  have "(if us_Status rd = SubscriptionStatusActive \<and> \<not> now_of w1 < us_ExpiresAt rd
      then SubscriptionStatusExpired else us_Status rd) = st"
    by (simp add: rd(2,3) st_def not_less)
  then have "table w2 = table w3"
    using assms(7) inc res rd(1)
    by (auto simp: RestoreSubscription_def Let_def split: prod.splits sum.splits dest: cache_frame)
  moreover have "table w3 = (table w)(sid \<mapsto> r\<lparr>us_Status := st, us_UpdatedAt := now_of ?w2\<rparr>)"
    using s3 t1 assms(4) by (auto simp: row_step_def rd_def live_def)
  ultimately have "table w2 = (table w)(sid \<mapsto> r\<lparr>us_Status := st, us_UpdatedAt := now_of ?w2\<rparr>)" by simp
  then show ?thesis using gone unfolding st_def by (intro conjI exI)
qed

theorem revoke_restore_roundtrip_witness:
  "\<exists>u. table (snd (RestoreSubscription demo_service 21
       (snd (RevokeSubscription demo_service 21 (demo_world (105 * week) [demo_sub]))))) 21 =
     Some (demo_sub\<lparr>us_Status := SubscriptionStatusExpired, us_UpdatedAt := u\<rparr>)"
proof -
  let ?w = "demo_world (105 * week) [demo_sub]"
  obtain res1 w1 where r1: "RevokeSubscription demo_service 21 ?w = (res1, w1)"
    by (cases "RevokeSubscription demo_service 21 ?w")
  obtain res2 w2 where r2: "RestoreSubscription demo_service 21 w1 = (res2, w2)"
    by (cases "RestoreSubscription demo_service 21 w1")
  have "same_env ?w w1"
    using r1 by (auto simp: RevokeSubscription_def repo_GetByID_def repo_Delete_def sql_update_many_def
        sql_query_def Let_def demo_service_def invalidateSubscriptionCache_def
        split: prod.splits sum.splits if_splits dest!: sql_exec_D intro: same_env_trans)
      (auto simp: same_env_def)
  then have "now_of w1 = 105 * week" by (simp add: same_env_def now_of_def demo_world_def)
  moreover have "length (us_Status demo_sub) \<le> 20" "us_Status demo_sub = SubscriptionStatusActive"
    "us_ExpiresAt demo_sub \<le> 105 * week"
    by (simp_all add: demo_sub_def SubscriptionStatusActive_def week_def duration_defs)
  ultimately show ?thesis
    using revoke_restore_roundtrip [OF demo_world_facts(1) demo_world_wf demo_world_table
        demo_sub_facts(2) _ r1 r2] r1 r2 by auto
qed

section \<open>Limits and window maintenance\<close>

text \<open>The usage a window counts with: a window that is due for a reset counts as empty.\<close>

definition effective_usage :: "zone \<Rightarrow> go_time \<Rightarrow> window \<Rightarrow> UserSubscription \<Rightarrow> float64" where
  "effective_usage z now k sub = (if (case k of
       DailyWindow \<Rightarrow> canAutomaticallyResetDailyAt z sub now
     | WeeklyWindow \<Rightarrow> canAutomaticallyResetWeeklyAt z sub now
     | MonthlyWindow \<Rightarrow> canAutomaticallyResetMonthlyAt z sub now) then f_zero else window_usage k sub)"

lemma automatic_cong:
  assumes "us_StartsAt a = us_StartsAt b" "us_ExpiresAt a = us_ExpiresAt b"
  shows "us_DailyWindowStart a = us_DailyWindowStart b \<Longrightarrow>
      automaticDailyWindowStartAt z a now = automaticDailyWindowStartAt z b now"
    and "automaticWindowStartAt z a p d now = automaticWindowStartAt z b p d now"
  unfolding automaticDailyWindowStartAt_def HasOneTimeDailyQuota_def automaticWindowStartAt_def
    legacy_anchor_def assms by (simp_all only: simp_thms)

lemma due_ignore_usage [simp]:
  "canAutomaticallyResetWeeklyAt z (sub\<lparr>us_DailyUsageUSD := x\<rparr>) now = canAutomaticallyResetWeeklyAt z sub now"
  "canAutomaticallyResetMonthlyAt z (sub\<lparr>us_DailyUsageUSD := x\<rparr>) now = canAutomaticallyResetMonthlyAt z sub now"
  "canAutomaticallyResetMonthlyAt z (sub\<lparr>us_WeeklyUsageUSD := x\<rparr>) now = canAutomaticallyResetMonthlyAt z sub now"
  unfolding canAutomaticallyResetWeeklyAt_def canAutomaticallyResetMonthlyAt_def
  using automatic_cong(2) [of "sub\<lparr>us_DailyUsageUSD := x\<rparr>" sub]
    automatic_cong(2) [of "sub\<lparr>us_WeeklyUsageUSD := x\<rparr>" sub] by simp_all

lemma limits_ignore_usage [simp]:
  "dailyLimitUSD (sub\<lparr>us_DailyUsageUSD := x\<rparr>) = dailyLimitUSD sub"
  "dailyLimitUSD (sub\<lparr>us_WeeklyUsageUSD := x\<rparr>) = dailyLimitUSD sub"
  "dailyLimitUSD (sub\<lparr>us_MonthlyUsageUSD := x\<rparr>) = dailyLimitUSD sub"
  "weeklyLimitUSD (sub\<lparr>us_DailyUsageUSD := x\<rparr>) = weeklyLimitUSD sub"
  "weeklyLimitUSD (sub\<lparr>us_WeeklyUsageUSD := x\<rparr>) = weeklyLimitUSD sub"
  "weeklyLimitUSD (sub\<lparr>us_MonthlyUsageUSD := x\<rparr>) = weeklyLimitUSD sub"
  "monthlyLimitUSD (sub\<lparr>us_DailyUsageUSD := x\<rparr>) = monthlyLimitUSD sub"
  "monthlyLimitUSD (sub\<lparr>us_WeeklyUsageUSD := x\<rparr>) = monthlyLimitUSD sub"
  "monthlyLimitUSD (sub\<lparr>us_MonthlyUsageUSD := x\<rparr>) = monthlyLimitUSD sub"
  "IsWindowActivated (sub\<lparr>us_DailyUsageUSD := x\<rparr>) = IsWindowActivated sub"
  "IsWindowActivated (sub\<lparr>us_WeeklyUsageUSD := x\<rparr>) = IsWindowActivated sub"
  "IsWindowActivated (sub\<lparr>us_MonthlyUsageUSD := x\<rparr>) = IsWindowActivated sub"
  by (simp_all add: dailyLimitUSD_def weeklyLimitUSD_def monthlyLimitUSD_def IsWindowActivated_def)

definition usable_status :: "go_time \<Rightarrow> UserSubscription \<Rightarrow> bool" where
  "usable_status now sub \<longleftrightarrow> us_Status sub \<noteq> SubscriptionStatusExpired \<and>
     us_Status sub \<noteq> SubscriptionStatusSuspended \<and> now < us_ExpiresAt sub"

lemma Validate_usable:
  assumes "usable_status now sub"
  shows "ValidateAndCheckLimitsAt z now sub =
    (canAutomaticallyResetDailyAt z sub now \<or> canAutomaticallyResetWeeklyAt z sub now \<or>
       canAutomaticallyResetMonthlyAt z sub now \<or> \<not> IsWindowActivated sub,
     if limit_reached (dailyLimitUSD sub) (effective_usage z now DailyWindow sub)
       then Some ErrDailyLimitExceeded
     else if limit_reached (weeklyLimitUSD sub) (effective_usage z now WeeklyWindow sub)
       then Some ErrWeeklyLimitExceeded
     else if limit_reached (monthlyLimitUSD sub) (effective_usage z now MonthlyWindow sub)
       then Some ErrMonthlyLimitExceeded
     else None,
     sub\<lparr>us_DailyUsageUSD := effective_usage z now DailyWindow sub,
         us_WeeklyUsageUSD := effective_usage z now WeeklyWindow sub,
         us_MonthlyUsageUSD := effective_usage z now MonthlyWindow sub\<rparr>)"
  using assms unfolding ValidateAndCheckLimitsAt_def usable_status_def
  by (cases "canAutomaticallyResetDailyAt z sub now"; cases "canAutomaticallyResetWeeklyAt z sub now";
      cases "canAutomaticallyResetMonthlyAt z sub now"; cases "IsWindowActivated sub")
    (simp_all add: effective_usage_def Let_def)

lemma Validate_unusable:
  "\<not> usable_status now sub \<Longrightarrow> \<exists>e. ValidateAndCheckLimitsAt z now sub = (False, Some e, sub) \<and>
     (e = ErrSubscriptionExpired \<or> e = ErrSubscriptionSuspended)"
  by (auto simp: ValidateAndCheckLimitsAt_def usable_status_def)

text \<open>
  C15. The pre-check of a request accepts exactly the subscriptions that can pay: those that are
  neither expired nor suspended, have not run out, and whose every limit is above the usage of its
  window, where a window that is due for a reset counts as empty.
\<close>

theorem ValidateAndCheckLimits_accepts_iff:
  "fst (snd (fst (ValidateAndCheckLimits s sub w))) = None \<longleftrightarrow>
     us_Status sub \<noteq> SubscriptionStatusExpired \<and> us_Status sub \<noteq> SubscriptionStatusSuspended \<and>
     now_of w < us_ExpiresAt sub \<and>
     \<not> limit_reached (us_DailyLimitUSDSnapshot sub) (effective_usage (sv_zone s) (now_of w) DailyWindow sub) \<and>
     \<not> limit_reached (us_WeeklyLimitUSDSnapshot sub) (effective_usage (sv_zone s) (now_of w) WeeklyWindow sub) \<and>
     \<not> limit_reached (us_MonthlyLimitUSDSnapshot sub) (effective_usage (sv_zone s) (now_of w) MonthlyWindow sub)"
proof (cases "usable_status (now_of w) sub")
  case True
  then show ?thesis
    by (simp add: ValidateAndCheckLimits_def Validate_usable usable_status_def dailyLimitUSD_def
        weeklyLimitUSD_def monthlyLimitUSD_def)
next
  case False
  from Validate_unusable [OF this, of "sv_zone s"] False show ?thesis
    by (auto simp: ValidateAndCheckLimits_def usable_status_def)
qed

text \<open>What maintenance makes of a row: first use starts the windows, later a due window restarts.\<close>

definition activated :: "zone \<Rightarrow> go_time \<Rightarrow> UserSubscription \<Rightarrow> UserSubscription" where
  "activated z now r = r\<lparr>us_DailyWindowStart := Some (zn_StartOfDay z now),
     us_WeeklyWindowStart := Some now, us_MonthlyWindowStart := Some now\<rparr>"

definition advanced :: "zone \<Rightarrow> go_time \<Rightarrow> UserSubscription \<Rightarrow> UserSubscription" where
  "advanced z now r =
     (let adv = (\<lambda>k start r. case start of None \<Rightarrow> r | Some ws \<Rightarrow> restart_window k ws r);
          r = adv DailyWindow (automaticDailyWindowStartAt z r now) r;
          r = adv WeeklyWindow (automaticWindowStartAt z r (us_WeeklyWindowStart r) week now) r
      in adv MonthlyWindow (automaticWindowStartAt z r (us_MonthlyWindowStart r) month now) r)"

definition maintained :: "zone \<Rightarrow> go_time \<Rightarrow> UserSubscription \<Rightarrow> UserSubscription" where
  "maintained z now r = (if IsWindowActivated r then advanced z now r else activated z now r)"

definition same_but_updated :: "UserSubscription \<Rightarrow> UserSubscription \<Rightarrow> bool" where
  "same_but_updated a b \<longleftrightarrow> (\<exists>u. a = b\<lparr>us_UpdatedAt := u\<rparr>)"

lemma same_but_updated_refl [simp]: "same_but_updated r r"
  unfolding same_but_updated_def by (rule exI [of _ "us_UpdatedAt r"]) simp

lemma reset_step_healthy:
  assumes "healthy w" "wf_store (wd_db w)" "table w sid = Some r" "live r" "us_ID sub = sid"
    and "same_but_updated r sub"
  obtains w' r' where
    "reset_step k start sub dirty w =
       (Inr (case start of None \<Rightarrow> sub | Some ws \<Rightarrow> restart_window k ws sub, dirty \<or> start \<noteq> None), w')"
    "healthy w'" "wf_store (wd_db w')" "table w' sid = Some r'" "live r'"
    "same_but_updated r' (case start of None \<Rightarrow> sub | Some ws \<Rightarrow> restart_window k ws sub)"
    "same_env w w'" "start \<noteq> None \<or> w' = w" "\<And>k. k \<noteq> sid \<Longrightarrow> table w' k = table w k"
proof (cases start)
  case None
  then show ?thesis using that [of w r] assms by (simp add: reset_step_def)
next
  case (Some ws)
  have ws: "window_start k r = window_start k sub"
    using assms(6) by (cases k) (auto simp: same_but_updated_def)
  obtain res w' where run: "repo_reset k sid (window_start k sub) ws w = (res, w')"
    by (cases "repo_reset k sid (window_start k sub) ws w")
  have ok: "res = Inr ()"
    using repo_reset_healthy [OF assms(1,2), of k sid "window_start k sub" ws] run assms(3,4) by simp
  have step: "row_step sid (\<lambda>x. if window_start k x = window_start k sub
      then (restart_window k ws x)\<lparr>us_UpdatedAt := now_of w\<rparr> else x) w w'"
    using repo_reset_step [OF run] ok by simp
  have "same_but_updated ((restart_window k ws r)\<lparr>us_UpdatedAt := now_of w\<rparr>) (restart_window k ws sub)"
    using assms(6) by (cases k) (auto simp: same_but_updated_def)
  then show ?thesis
    using that [of w' "(restart_window k ws r)\<lparr>us_UpdatedAt := now_of w\<rparr>"] step Some run ok assms ws
      row_step_healthy [OF step assms(1)]
    by (simp add: reset_step_def row_stepD)
qed

lemma same_but_updatedD:
  assumes "same_but_updated a b"
  shows "us_ID a = us_ID b" "us_UserID a = us_UserID b" "live a = live b"
    "window_start k a = window_start k b" "window_usage k a = window_usage k b"
    "us_StartsAt a = us_StartsAt b" "us_ExpiresAt a = us_ExpiresAt b"
    "IsWindowActivated a = IsWindowActivated b" "us_Status a = us_Status b"
  using assms by (cases k; auto simp: same_but_updated_def live_def IsWindowActivated_def)+

lemma CheckAndResetWindows_healthy:
  assumes "healthy w" "wf_store (wd_db w)" "table w (us_ID sub) = Some r" "live r" "same_but_updated r sub"
  obtains w' r' where
    "CheckAndResetWindows s sub w = (Inr (advanced (sv_zone s) (now_of w) sub), w')"
    "healthy w'" "wf_store (wd_db w')" "table w' (us_ID sub) = Some r'" "live r'"
    "same_but_updated r' (advanced (sv_zone s) (now_of w) sub)"
    "\<And>k. k \<noteq> us_ID sub \<Longrightarrow> table w' k = table w k"
proof -
  let ?z = "sv_zone s" and ?now = "now_of w" and ?id = "us_ID sub"
  define adv where "adv = (\<lambda>k start r. case start of None \<Rightarrow> r | Some ws \<Rightarrow> restart_window k ws (r :: UserSubscription))"
  have adv_id: "us_ID (adv k st x) = us_ID x" for k st x by (simp add: adv_def split: option.splits)
  define a1 where "a1 = automaticDailyWindowStartAt ?z sub ?now"
  define s1 where "s1 = adv DailyWindow a1 sub"
  define a2 where "a2 = automaticWindowStartAt ?z s1 (us_WeeklyWindowStart s1) week ?now"
  define s2 where "s2 = adv WeeklyWindow a2 s1"
  define a3 where "a3 = automaticWindowStartAt ?z s2 (us_MonthlyWindowStart s2) month ?now"
  define s3 where "s3 = adv MonthlyWindow a3 s2"
  have s3: "advanced ?z ?now sub = s3"
    by (simp add: advanced_def Let_def s3_def s2_def s1_def a1_def a2_def a3_def adv_def)
  have ids: "us_ID s1 = ?id" "us_ID s2 = ?id" by (simp_all add: s1_def s2_def adv_id)
  obtain w1 r1 where 1: "reset_step DailyWindow a1 sub False (tick w) = (Inr (s1, False \<or> a1 \<noteq> None), w1)"
      "healthy w1" "wf_store (wd_db w1)" "table w1 ?id = Some r1" "live r1" "same_but_updated r1 s1"
      "\<And>k. k \<noteq> ?id \<Longrightarrow> table w1 k = table w k"
    by (rule reset_step_healthy [of "tick w" ?id r sub DailyWindow a1 False])
      (use assms in \<open>simp_all add: s1_def adv_def\<close>)
  obtain w2 r2 where 2: "reset_step WeeklyWindow a2 s1 (False \<or> a1 \<noteq> None) w1 =
       (Inr (s2, (False \<or> a1 \<noteq> None) \<or> a2 \<noteq> None), w2)"
      "healthy w2" "wf_store (wd_db w2)" "table w2 ?id = Some r2" "live r2" "same_but_updated r2 s2"
      "\<And>k. k \<noteq> ?id \<Longrightarrow> table w2 k = table w1 k"
    by (rule reset_step_healthy [of w1 ?id r1 s1 WeeklyWindow a2 "False \<or> a1 \<noteq> None"])
      (use 1 ids in \<open>simp_all add: s2_def adv_def\<close>)
  obtain w3 r3 where 3: "reset_step MonthlyWindow a3 s2 ((False \<or> a1 \<noteq> None) \<or> a2 \<noteq> None) w2 =
       (Inr (s3, ((False \<or> a1 \<noteq> None) \<or> a2 \<noteq> None) \<or> a3 \<noteq> None), w3)"
      "healthy w3" "wf_store (wd_db w3)" "table w3 ?id = Some r3" "live r3" "same_but_updated r3 s3"
      "\<And>k. k \<noteq> ?id \<Longrightarrow> table w3 k = table w2 k"
    by (rule reset_step_healthy [of w2 ?id r2 s2 MonthlyWindow a3 "(False \<or> a1 \<noteq> None) \<or> a2 \<noteq> None"])
      (use 2 ids in \<open>simp_all add: s3_def adv_def\<close>)
  define w4 where "w4 = (if ((False \<or> a1 \<noteq> None) \<or> a2 \<noteq> None) \<or> a3 \<noteq> None
     then snd (invalidateSubscriptionCache s (us_UserID s3) (us_ID s3) w3) else w3)"
  have w4: "same_env w3 w4" "table w4 = table w3" "wf_store (wd_db w4) \<longleftrightarrow> wf_store (wd_db w3)"
    using cache_frame [of s "us_UserID s3" "us_ID s3" w3] unfolding w4_def
    by (cases "invalidateSubscriptionCache s (us_UserID s3) (us_ID s3) w3"; simp)+
  have "CheckAndResetWindows s sub w = (Inr s3, w4)"
    using 1(1) 2(1) 3(1) by (simp add: CheckAndResetWindows_def Let_def w4_def a1_def a2_def a3_def
        del: not_None_eq)
  then show ?thesis using that [of w4 r3] 1 2 3 w4 s3 same_env_healthy [OF w4(1)] by simp
qed

lemma CheckAndResetWindows_inactive:
  "\<not> IsWindowActivated sub \<Longrightarrow> CheckAndResetWindows s sub w = (Inr sub, tick w)"
  by (simp add: CheckAndResetWindows_def IsWindowActivated_def automaticDailyWindowStartAt_def
      automaticWindowStartAt_def reset_step_def Let_def)

lemma ActivateWindows_healthy:
  assumes "healthy w" "wf_store (wd_db w)" "table w sid = Some r" "live r" "\<not> IsWindowActivated r"
  obtains w' u where "repo_ActivateWindows sid (zn_StartOfDay z now) now w = (Inr (), w')"
    "row_step sid (\<lambda>x. if IsWindowActivated x then x else (activated z now x)\<lparr>us_UpdatedAt := u\<rparr>) w w'"
proof -
  let ?q = "\<lambda>r. us_DailyWindowStart r = None \<and> us_WeeklyWindowStart r = None \<and> us_MonthlyWindowStart r = None"
  have eq: "repo_ActivateWindows sid (zn_StartOfDay z now) now w = translateConditionalWindowReset sid
     (sql_update_many (\<lambda>r. us_ID r = sid \<and> ?q r) (activated z now) w)"
    by (simp add: repo_ActivateWindows_def activated_def [abs_def])
  obtain res w' where run: "repo_ActivateWindows sid (zn_StartOfDay z now) now w = (res, w')"
    by (cases "repo_ActivateWindows sid (zn_StartOfDay z now) now w")
  have keep: "us_ID (activated z now x) = us_ID x" "live (activated z now x) = live x" for x
    by (simp_all add: activated_def live_def)
  have "res = Inr ()"
    using conditional_healthy [OF assms(1,2) keep, of sid ?q] run eq assms(3,4) by simp
  moreover from this have "row_step sid
     (\<lambda>x. if ?q x then (activated z now x)\<lparr>us_UpdatedAt := now_of w\<rparr> else x) w w'"
    using conditional_step [OF run [unfolded eq] keep(1)] by simp
  moreover have "(\<lambda>x. if ?q x then (activated z now x)\<lparr>us_UpdatedAt := now_of w\<rparr> else x) =
     (\<lambda>x. if IsWindowActivated x then x else (activated z now x)\<lparr>us_UpdatedAt := now_of w\<rparr>)"
    by (auto simp: fun_eq_iff IsWindowActivated_def)
  ultimately show ?thesis using that [of w' "now_of w"] run by simp
qed

text \<open>
  C13. Maintenance before a request gives the caller the current windows: for a live subscription,
  on a database without faults and with one reading of the clock, it returns the stored row, which is
  the given one with its windows started (on first use) or with every window that is due restarted at
  its current period and its usage cleared; no other row changes.
\<close>

theorem EnsureWindowMaintenance_spec:
  assumes "healthy w" "wf_store (wd_db w)" "table w sid = Some r" "live r"
    and clock: "\<forall>n. wd_clock w n = now"
    and run: "EnsureWindowMaintenance s (Some r) w = (res, w')"
  shows "\<exists>u. let r' = (maintained (sv_zone s) now r)\<lparr>us_UpdatedAt := u\<rparr> in
    res = Inr r' \<and> table w' = (table w)(sid \<mapsto> r')"
proof -
  have id: "us_ID r = sid" using assms(3) by (auto simp: table_def dest: find_row_ID)
  have nw: "now_of v = now" if "same_env w v" for v using clock that by (simp add: same_env_def now_of_def)
  have *: "\<exists>w3 r3. EnsureWindowMaintenance s (Some r) w = repo_GetByID sid w3 \<and> healthy w3 \<and>
      wf_store (wd_db w3) \<and> table w3 sid = Some r3 \<and> live r3 \<and>
      same_but_updated r3 (maintained (sv_zone s) now r) \<and> (\<forall>k. k \<noteq> sid \<longrightarrow> table w3 k = table w k)"
  proof (cases "IsWindowActivated r")
    case True
    obtain w3 r3 where c: "CheckAndResetWindows s r w = (Inr (advanced (sv_zone s) (now_of w) r), w3)"
        "healthy w3" "wf_store (wd_db w3)" "table w3 (us_ID r) = Some r3" "live r3"
        "same_but_updated r3 (advanced (sv_zone s) (now_of w) r)"
        "\<And>k. k \<noteq> us_ID r \<Longrightarrow> table w3 k = table w k"
      by (rule CheckAndResetWindows_healthy [of w r r s]) (use assms id in simp_all)
    have "us_ID (advanced (sv_zone s) (now_of w) r) = sid"
      using c(4,6) id same_but_updatedD(1) by (metis find_row_ID table_def)
    then show ?thesis using c True id nw [OF same_env_refl]
      by (auto simp: EnsureWindowMaintenance_def maintained_def)
  next
    case False
    obtain w1 u where a: "repo_ActivateWindows sid (zn_StartOfDay (sv_zone s) now) now (tick w) = (Inr (), w1)"
        "row_step sid (\<lambda>x. if IsWindowActivated x then x
           else (activated (sv_zone s) now x)\<lparr>us_UpdatedAt := u\<rparr>) (tick w) w1"
      by (rule ActivateWindows_healthy [of "tick w" sid r "sv_zone s" now]) (use assms False in simp_all)
    then have t1: "table w1 sid = Some ((activated (sv_zone s) now r)\<lparr>us_UpdatedAt := u\<rparr>)"
      using assms(3) False by (simp add: row_stepD)
    have "EnsureWindowMaintenance s (Some r) w = repo_GetByID sid (tick w1)"
      using False a(1) id nw [OF same_env_refl]
      by (simp add: EnsureWindowMaintenance_def CheckAndActivateWindow_def checkAndActivateWindowAt_def
          CheckAndResetWindows_inactive)
    moreover have "healthy (tick w1)" "wf_store (wd_db (tick w1))"
      using row_step_healthy [OF a(2)] row_stepD(4) [OF a(2)] assms(1,2) by simp_all
    moreover have "live ((activated (sv_zone s) now r)\<lparr>us_UpdatedAt := u\<rparr>)"
      using assms(4) by (simp add: activated_def live_def)
    moreover have "same_but_updated ((activated (sv_zone s) now r)\<lparr>us_UpdatedAt := u\<rparr>)
        (maintained (sv_zone s) now r)"
      using False by (auto simp: same_but_updated_def maintained_def)
    ultimately show ?thesis using t1 row_stepD(2) [OF a(2)]
      by (intro exI [of _ "tick w1"] exI [of _ "(activated (sv_zone s) now r)\<lparr>us_UpdatedAt := u\<rparr>"]) simp
  qed
  then obtain w3 r3 where 3: "EnsureWindowMaintenance s (Some r) w = repo_GetByID sid w3" "healthy w3"
      "wf_store (wd_db w3)" "table w3 sid = Some r3" "live r3"
      "same_but_updated r3 (maintained (sv_zone s) now r)" "\<forall>k. k \<noteq> sid \<longrightarrow> table w3 k = table w k"
    by blast
  then have "res = Inr r3 \<and> table w' = table w3" using run by (auto simp: GetByID_after)
  moreover have "table w3 = (table w)(sid \<mapsto> r3)" using 3(4,7) by auto
  ultimately show ?thesis using 3(6) by (auto simp: same_but_updated_def Let_def)
qed

lemma advanced_windows:
  "us_DailyWindowStart (advanced z now r) = (case automaticDailyWindowStartAt z r now of
     None \<Rightarrow> us_DailyWindowStart r | Some ws \<Rightarrow> Some ws)"
  "us_WeeklyWindowStart (advanced z now r) = (case automaticWindowStartAt z r (us_WeeklyWindowStart r) week now of
     None \<Rightarrow> us_WeeklyWindowStart r | Some ws \<Rightarrow> Some ws)"
  "us_MonthlyWindowStart (advanced z now r) = (case automaticWindowStartAt z r (us_MonthlyWindowStart r) month now of
     None \<Rightarrow> us_MonthlyWindowStart r | Some ws \<Rightarrow> Some ws)"
  "us_StartsAt (advanced z now r) = us_StartsAt r" "us_ExpiresAt (advanced z now r) = us_ExpiresAt r"
proof -
  define r1 where "r1 = (case automaticDailyWindowStartAt z r now of None \<Rightarrow> r | Some ws \<Rightarrow> restart_window DailyWindow ws r)"
  have a1: "automaticWindowStartAt z r1 p d now = automaticWindowStartAt z r p d now" for p d
    by (rule automatic_cong(2)) (simp_all add: r1_def split: option.splits)
  define r2 where "r2 = (case automaticWindowStartAt z r (us_WeeklyWindowStart r1) week now of
      None \<Rightarrow> r1 | Some ws \<Rightarrow> restart_window WeeklyWindow ws r1)"
  have a2: "automaticWindowStartAt z r2 p d now = automaticWindowStartAt z r p d now" for p d
    by (rule automatic_cong(2)) (simp_all add: r1_def r2_def split: option.splits)
  have adv: "advanced z now r = (case automaticWindowStartAt z r (us_MonthlyWindowStart r2) month now of
      None \<Rightarrow> r2 | Some ws \<Rightarrow> restart_window MonthlyWindow ws r2)"
    unfolding advanced_def Let_def r1_def [symmetric] a1 r2_def [symmetric] a2 ..
  have w: "us_WeeklyWindowStart r1 = us_WeeklyWindowStart r" "us_MonthlyWindowStart r1 = us_MonthlyWindowStart r"
    "us_MonthlyWindowStart r2 = us_MonthlyWindowStart r"
    by (simp_all add: r1_def r2_def split: option.splits)
  show "us_DailyWindowStart (advanced z now r) = (case automaticDailyWindowStartAt z r now of
     None \<Rightarrow> us_DailyWindowStart r | Some ws \<Rightarrow> Some ws)"
    "us_WeeklyWindowStart (advanced z now r) = (case automaticWindowStartAt z r (us_WeeklyWindowStart r) week now of
     None \<Rightarrow> us_WeeklyWindowStart r | Some ws \<Rightarrow> Some ws)"
    "us_MonthlyWindowStart (advanced z now r) = (case automaticWindowStartAt z r (us_MonthlyWindowStart r) month now of
     None \<Rightarrow> us_MonthlyWindowStart r | Some ws \<Rightarrow> Some ws)"
    "us_StartsAt (advanced z now r) = us_StartsAt r" "us_ExpiresAt (advanced z now r) = us_ExpiresAt r"
    unfolding adv w by (simp_all add: r1_def r2_def w split: option.splits)
qed

lemma periodic_settled:
  assumes "\<forall>p. prev = Some p \<longrightarrow> times_fit r (legacy_anchor z r p) now" "0 < d" "d \<le> max_int64"
  shows "automaticWindowStartAt z r (case automaticWindowStartAt z r prev d now of
     None \<Rightarrow> prev | Some ws \<Rightarrow> Some ws) d now = None"
proof (cases "automaticWindowStartAt z r prev d now")
  case (Some ws)
  then obtain p where p: "prev = Some p" by (cases prev) (auto simp: automaticWindowStartAt_def)
  show ?thesis using automaticWindowStartAt_settled [OF Some [unfolded p]] assms Some p by simp
qed simp

lemma fresh_window:
  "0 < d \<Longrightarrow> automaticWindowStartAt z r (Some now) d now = None"
  by (auto simp: automaticWindowStartAt_def legacy_anchor_def Let_def)

lemma week_month_fit: "week \<le> max_int64" "month \<le> max_int64"
  by (simp_all add: week_def month_def duration_defs max_int64_def)

definition timely :: "zone \<Rightarrow> go_time \<Rightarrow> UserSubscription \<Rightarrow> bool" where
  "timely z now r \<longleftrightarrow> zn_StartOfDay z (zn_StartOfDay z now) = zn_StartOfDay z now \<and>
     (\<forall>p. us_WeeklyWindowStart r = Some p \<or> us_MonthlyWindowStart r = Some p \<longrightarrow>
        times_fit r (legacy_anchor z r p) now)"

lemma maintained_not_due:
  assumes "timely z now r"
  shows "\<not> canAutomaticallyResetDailyAt z (maintained z now r) now"
    "\<not> canAutomaticallyResetWeeklyAt z (maintained z now r) now"
    "\<not> canAutomaticallyResetMonthlyAt z (maintained z now r) now"
    "IsWindowActivated (maintained z now r)"
proof -
  let ?m = "maintained z now r"
  have keep: "us_StartsAt ?m = us_StartsAt r" "us_ExpiresAt ?m = us_ExpiresAt r"
    by (simp_all add: maintained_def activated_def advanced_windows)
  show "\<not> canAutomaticallyResetDailyAt z ?m now"
    using assms
    by (auto simp: timely_def canAutomaticallyResetDailyAt_def maintained_def activated_def advanced_windows
        automaticDailyWindowStartAt_def HasOneTimeDailyQuota_def Let_def split: option.splits if_splits)
  show "\<not> canAutomaticallyResetWeeklyAt z ?m now"
    unfolding canAutomaticallyResetWeeklyAt_def automatic_cong(2) [OF keep]
    using periodic_settled assms week_month_fit
    by (simp add: timely_def maintained_def activated_def advanced_windows fresh_window)
  show "\<not> canAutomaticallyResetMonthlyAt z ?m now"
    unfolding canAutomaticallyResetMonthlyAt_def automatic_cong(2) [OF keep]
    using periodic_settled assms week_month_fit
    by (simp add: timely_def maintained_def activated_def advanced_windows fresh_window)
  show "IsWindowActivated ?m"
    by (auto simp: maintained_def activated_def IsWindowActivated_def advanced_windows
        split: option.splits)
qed

text \<open>
  One maintenance run is enough: after it, at the same time, no window of the subscription is due
  for a reset and all windows have been started, so the second check of the request asks for no
  further maintenance. (Midnight of midnight is midnight, and the times involved fit a duration.)
\<close>

theorem maintenance_settles:
  assumes "zn_StartOfDay z (zn_StartOfDay z now) = zn_StartOfDay z now"
    and "\<forall>p. us_WeeklyWindowStart r = Some p \<or> us_MonthlyWindowStart r = Some p \<longrightarrow>
           times_fit r (legacy_anchor z r p) now"
  shows "fst (ValidateAndCheckLimitsAt z now (maintained z now r)) = False"
proof (cases "usable_status now (maintained z now r)")
  case True
  have "timely z now r" using assms by (simp add: timely_def)
  from maintained_not_due [OF this] True show ?thesis by (simp add: Validate_usable)
next
  case False
  then show ?thesis using Validate_unusable [OF False, of z] by auto
qed

lemma utc_midnight: "zn_StartOfDay utc_zone (zn_StartOfDay utc_zone t) = zn_StartOfDay utc_zone t"
proof -
  have "(t - t mod (24 * hour)) mod (24 * hour) = 0" by (simp add: minus_mod_eq_mult_div)
  then show ?thesis by (simp add: utc_zone_def)
qed

lemma demo_times: "\<forall>p. us_WeeklyWindowStart demo_sub = Some p \<or> us_MonthlyWindowStart demo_sub = Some p \<longrightarrow>
    times_fit demo_sub (legacy_anchor utc_zone demo_sub p) (102 * week + 5)"
proof -
  have "us_WeeklyWindowStart demo_sub = Some (100 * week)" "us_MonthlyWindowStart demo_sub = Some (100 * week)"
    by (simp_all add: demo_sub_def)
  moreover have "legacy_anchor utc_zone demo_sub (100 * week) = 100 * week"
    by (simp add: legacy_anchor_def Let_def demo_sub_def)
  moreover have "times_fit demo_sub (100 * week) (102 * week + 5)"
    by (simp add: times_fit_def demo_sub_def week_def duration_defs max_int64_def)
  ultimately show ?thesis by simp
qed

theorem maintenance_settles_witness:
  "fst (ValidateAndCheckLimitsAt utc_zone (102 * week + 5) demo_sub) = True \<and>
   fst (ValidateAndCheckLimitsAt utc_zone (102 * week + 5) (maintained utc_zone (102 * week + 5) demo_sub)) = False"
proof
  have "usable_status (102 * week + 5) demo_sub"
    by (simp add: usable_status_def demo_sub_def subscription_status_defs week_def duration_defs)
  moreover have "us_WeeklyWindowStart demo_sub = Some (100 * week)" by (simp add: demo_sub_def)
  ultimately show "fst (ValidateAndCheckLimitsAt utc_zone (102 * week + 5) demo_sub) = True"
    using demo_window by (simp add: Validate_usable canAutomaticallyResetWeeklyAt_def)
qed (rule maintenance_settles [OF utc_midnight demo_times])

theorem EnsureWindowMaintenance_spec_witness:
  "\<exists>u. fst (EnsureWindowMaintenance demo_service (Some demo_sub) (demo_world (102 * week + 5) [demo_sub])) =
     Inr ((maintained utc_zone (102 * week + 5) demo_sub)\<lparr>us_UpdatedAt := u\<rparr>)"
proof -
  let ?w = "demo_world (102 * week + 5) [demo_sub]"
  obtain res w' where run: "EnsureWindowMaintenance demo_service (Some demo_sub) ?w = (res, w')"
    by (cases "EnsureWindowMaintenance demo_service (Some demo_sub) ?w")
  have "\<forall>n. wd_clock ?w n = 102 * week + 5" by (simp add: demo_world_def)
  from EnsureWindowMaintenance_spec [OF demo_world_facts(1) demo_world_wf demo_world_table
      demo_sub_facts(2) this run] run
  show ?thesis by (auto simp: demo_service_def Let_def)
qed

section \<open>Progress\<close>

text \<open>
  The progress shown for a window stays in its bounds: for a positive finite limit and a finite
  usage that is not negative, the remaining amount is not negative, the percentage is between
  0 and 100, and the time to the reset is not negative.
\<close>

theorem window_progress_bounds:
  assumes "0 < limit" "0 \<le> used"
  shows "f_le f_zero (up_RemainingUSD (window_progress (Fin limit) (Fin used) ws ra now)) \<and>
    f_le f_zero (up_Percentage (window_progress (Fin limit) (Fin used) ws ra now)) \<and>
    f_le (up_Percentage (window_progress (Fin limit) (Fin used) ws ra now)) (Fin 100) \<and>
    0 \<le> up_ResetsInSeconds (window_progress (Fin limit) (Fin used) ws ra now)"
proof -
  let ?p = "f_mul (f_div (Fin used) (Fin limit)) (Fin 100)"
  have "f_le f_zero ?p"
    by (rule f_mul_nonneg [OF f_div_nonneg]) (use assms in simp_all)
  moreover have "round64 x \<noteq> NaN" for x by (simp add: round64_def Let_def)
  then have "f_sub (Fin limit) (Fin used) \<noteq> NaN" by (simp add: f_sub_def)
  moreover have "?p \<noteq> NaN" using calculation(1) by auto
  ultimately show ?thesis by (auto simp: window_progress_def Let_def f_le_iff)
qed

theorem window_progress_bounds_witness:
  "f_le (up_Percentage (window_progress (Fin 10) (Fin 25) 0 5 3)) (Fin 100)"
  using window_progress_bounds [of 10 25 0 5 3] by simp

section \<open>What no operation may do\<close>

text \<open>
  How the table may evolve: identifiers stay unique and below the sequence, rows stay in the table
  (deletion is soft), and a row keeps its creation time.
\<close>

definition evolves :: "sub_world \<Rightarrow> sub_world \<Rightarrow> bool" where
  "evolves w w' \<longleftrightarrow> (wf_store (wd_db w) \<longrightarrow> wf_store (wd_db w') \<and>
     (\<forall>k r. table w k = Some r \<longrightarrow> (\<exists>r'. table w' k = Some r' \<and> us_CreatedAt r' = us_CreatedAt r)))"

lemma evolves_trans: "evolves w w1 \<Longrightarrow> evolves w1 w2 \<Longrightarrow> evolves w w2"
  unfolding evolves_def by metis

lemma evolves_refl [simp]: "evolves w w"
  by (simp add: evolves_def)

lemma evolves_tick [simp]: "evolves (tick w) w' = evolves w w'" "evolves w (tick w') = evolves w w'"
  by (simp_all add: evolves_def)

lemma evolves_same_db: "wd_db w' = wd_db w \<Longrightarrow> evolves w w'"
  by (simp add: evolves_def table_def rows_of_def)

lemma evolves_rows:
  assumes "row_step sid f w w'" "\<And>r. us_CreatedAt (f r) = us_CreatedAt r"
  shows "evolves w w'"
proof -
  have "\<exists>r'. table w' k = Some r' \<and> us_CreatedAt r' = us_CreatedAt r" if "table w k = Some r" for k r
    using row_stepD(1,2) [OF assms(1)] that assms(2) by (cases "k = sid") auto
  then show ?thesis using row_stepD(4) [OF assms(1)] by (simp add: evolves_def)
qed

lemma evolves_query: "sql_query q w = (r, w') \<Longrightarrow> evolves w w'"
  by (auto dest: query_cases intro: evolves_same_db)

lemma evolves_update_many:
  "sql_update_many p f w = (r, w') \<Longrightarrow> (\<And>r. us_ID (f r) = us_ID r) \<Longrightarrow>
   (\<And>r. us_CreatedAt (f r) = us_CreatedAt r) \<Longrightarrow> evolves w w'"
  by (drule update_many_db) (auto simp: evolves_def split: sum.splits)

lemma evolves_update_one:
  assumes "sql_update_one sid f w = (r, w')" "\<And>r. us_ID (f r) = us_ID r"
    "\<And>r. us_CreatedAt (f r) = us_CreatedAt r"
  shows "evolves w w'"
proof -
  note db = update_one_db [OF assms(1,2)]
  have "\<exists>x'. table w' k = Some x' \<and> us_CreatedAt x' = us_CreatedAt x" if "table w k = Some x" for k x
    using db assms(3) that by (cases "k = sid") (auto split: sum.splits)
  then show ?thesis using db by (simp add: evolves_def)
qed

lemma evolves_set_one:
  assumes "set_one sid f w = (res, w')" "\<And>r. us_ID (f r) = us_ID r" "\<And>r. us_CreatedAt (f r) = us_CreatedAt r"
  shows "evolves w w'"
  using set_one_step [OF assms(1,2)] assms(3)
  by (cases res) (auto intro: evolves_rows)

lemma evolves_conditional:
  assumes "translateConditionalWindowReset sid (sql_update_many (\<lambda>r. us_ID r = sid \<and> q r) f w) = (res, w')"
    and "\<And>r. us_ID (f r) = us_ID r" "\<And>r. us_CreatedAt (f r) = us_CreatedAt r"
  shows "evolves w w'"
  using conditional_step [OF assms(1,2)] assms(3) by (auto intro: evolves_rows)

lemma evolves_GetByID: "repo_GetByID sid w = (r, w') \<Longrightarrow> evolves w w'"
  by (auto simp: repo_GetByID_def split: prod.splits sum.splits dest: evolves_query)

lemma evolves_GetByIDIncludeDeleted: "repo_GetByIDIncludeDeleted sid w = (r, w') \<Longrightarrow> evolves w w'"
  by (auto simp: repo_GetByIDIncludeDeleted_def split: prod.splits sum.splits dest: evolves_query)

lemma evolves_Delete: "repo_Delete sid w = (r, w') \<Longrightarrow> evolves w w'"
  by (auto simp: repo_Delete_def Let_def split: prod.splits sum.splits dest!: evolves_update_many)

lemma evolves_cache: "invalidateSubscriptionCache s u sid w = (r, w') \<Longrightarrow> evolves w w'"
  by (auto simp: evolves_def dest: cache_frame)

lemma evolves_Restore: "repo_Restore sid st w = (r, w') \<Longrightarrow> evolves w w'"
proof -
  assume run: "repo_Restore sid st w = (r, w')"
  let ?f = "\<lambda>x. x\<lparr>us_Status := st, us_DeletedAt := None, us_UpdatedAt := now_of w\<rparr>"
  have upd: "wd_db w1 = (wd_db w)\<lparr>ss_rows := update_where (\<lambda>x. us_ID x = sid) ?f (ss_rows (wd_db w))\<rparr> \<Longrightarrow>
      evolves w w1" for w1 :: sub_world
    by (auto simp: evolves_def wf_store_update table_def rows_of_def find_row_update)
  show ?thesis
    using run unfolding repo_Restore_def Let_def
    by (auto split: if_splits prod.splits sum.splits option.splits dest!: sql_exec_D evolves_GetByID
        intro: evolves_same_db upd evolves_trans [OF upd])
qed

lemma evolves_IncrementUsage:
  assumes "repo_IncrementUsage a sid c w = (r, w')"
  shows "evolves w w'"
proof (cases r)
  case (Inl e)
  then have "wf_store (wd_db w) \<Longrightarrow> row_step sid (\<lambda>x. x) w w'" using IncrementUsage_step [OF assms] by simp
  then show ?thesis using evolves_rows [of sid "\<lambda>x. x" w w'] by (auto simp: evolves_def)
next
  case (Inr u)
  then have "row_step sid (\<lambda>x. if live x then charge a c (now_of w) x else x) w w'"
    using IncrementUsage_step [OF assms] by simp
  then show ?thesis by (rule evolves_rows) (simp add: charge_def)
qed

lemma evolves_Create: "repo_Create sub w = (r, w') \<Longrightarrow> evolves w w'"
proof -
  assume run: "repo_Create sub w = (r, w')"
  have add: "wd_db w1 = (wd_db w)\<lparr>ss_rows := ss_rows (wd_db w) @ [m], ss_next_id := ss_next_id (wd_db w) + 1\<rparr> \<Longrightarrow>
      us_ID m = ss_next_id (wd_db w) \<Longrightarrow> evolves w w1" for w1 :: sub_world and m
    by (auto simp: evolves_def wf_store_def table_def rows_of_def find_row_append split: option.splits)
  show ?thesis
    using run unfolding repo_Create_def Let_def
    by (auto split: option.splits if_splits prod.splits sum.splits dest!: sql_exec_D
        intro: evolves_same_db add)
qed

lemma evolves_Update: "repo_Update sub w = (r, w') \<Longrightarrow> evolves w w'"
  by (auto simp: repo_Update_def split: option.splits if_splits prod.splits sum.splits
      dest!: evolves_update_one)

lemma evolves_repo_reset: "repo_reset k sid e n w = (r, w') \<Longrightarrow> evolves w w'"
  unfolding repo_reset_eq by (erule evolves_conditional) (cases k; simp)+

lemmas evolves_writes = evolves_Delete evolves_Restore evolves_cache evolves_IncrementUsage
  evolves_Create evolves_Update evolves_repo_reset evolves_GetByID evolves_GetByIDIncludeDeleted

section \<open>The life of the table\<close>

text \<open>
  Every handler of the service and every other write of the repository, as one step of the table;
  each may meet any failures of the database and of the cache.
\<close>

inductive sub_step :: "service \<Rightarrow> sub_world \<Rightarrow> sub_world \<Rightarrow> bool" for s where
  create: "repo_Create sub w = (r, w') \<Longrightarrow> sub_step s w w'"
| update: "repo_Update sub w = (r, w') \<Longrightarrow> sub_step s w w'"
| annotate: "repo_UpdateNotes sid n w = (r, w') \<Longrightarrow> sub_step s w w'"
| expire: "repo_BatchUpdateExpiredStatus w = (r, w') \<Longrightarrow> sub_step s w w'"
| revoke: "RevokeSubscription s sid w = (r, w') \<Longrightarrow> sub_step s w w'"
| restore: "RestoreSubscription s sid w = (r, w') \<Longrightarrow> sub_step s w w'"
| extend: "ExtendSubscription s sid days w = (r, w') \<Longrightarrow> sub_step s w w'"
| admin_reset: "AdminResetQuota s sid d wk m w = (r, w') \<Longrightarrow> sub_step s w w'"
| maintain: "EnsureWindowMaintenance s sub w = (r, w') \<Longrightarrow> sub_step s w w'"
| background: "doWindowMaintenance s sub w = w' \<Longrightarrow> sub_step s w w'"
| record_usage: "RecordUsage sql_add sid c w = (r, w') \<Longrightarrow> sub_step s w w'"
| validate: "ValidateSubscription sub w = (e, w') \<Longrightarrow> sub_step s w w'"

inductive_cases sub_stepE: "sub_step s w w'"

lemma evolves_UpdateStatus: "repo_UpdateStatus sid st w = (r, w') \<Longrightarrow> evolves w w'"
  by (auto simp: repo_UpdateStatus_def split: if_splits dest: evolves_set_one)

lemma evolves_ActivateWindows: "repo_ActivateWindows sid d p w = (r, w') \<Longrightarrow> evolves w w'"
  unfolding repo_ActivateWindows_def by (erule evolves_conditional) simp_all

lemma evolves_ResetUsageWindows: "repo_ResetUsageWindows sid d wk m ds ps w = (r, w') \<Longrightarrow> evolves w w'"
  unfolding repo_ResetUsageWindows_def by (erule evolves_set_one) (simp_all add: Let_def)

lemma evolves_ExtendExpiry: "repo_ExtendExpiry sid n w = (r, w') \<Longrightarrow> evolves w w'"
  unfolding repo_ExtendExpiry_def by (erule evolves_set_one) simp_all

lemma evolves_maybe: "evolves w (maybeInvalidateAssignmentCache s u sid d w)"
  using maybe_cache_frame by (auto simp: evolves_def)

lemma evolves_reset_step: "reset_step k st sub d w = (r, w') \<Longrightarrow> evolves w w'"
  by (auto simp: reset_step_def split: option.splits prod.splits sum.splits dest: evolves_repo_reset)

lemma evolves_CheckAndResetWindows:
  assumes "CheckAndResetWindows s sub w = (r, w')"
  shows "evolves w w'"
proof -
  have c: "evolves v (snd (invalidateSubscriptionCache s u sid v))" for v u sid
    by (cases "invalidateSubscriptionCache s u sid v") (auto dest: evolves_cache)
  have 3: "evolves a b \<Longrightarrow> evolves b d \<Longrightarrow> evolves d e \<Longrightarrow> evolves a e" for a b d e
    using evolves_trans by blast
  show ?thesis
    using assms unfolding CheckAndResetWindows_def Let_def
    by (auto split: prod.splits sum.splits if_splits dest!: evolves_reset_step
        intro: evolves_trans 3 evolves_trans [OF 3 c])
qed

lemma evolves_CheckAndActivateWindow: "CheckAndActivateWindow s sub w = (r, w') \<Longrightarrow> evolves w w'"
  by (auto simp: CheckAndActivateWindow_def checkAndActivateWindowAt_def split: if_splits
      dest: evolves_ActivateWindows)

lemma sub_step_evolves: "sub_step s w w' \<Longrightarrow> evolves w w'"
proof (induction rule: sub_step.induct)
  case (annotate sid n w r w')
  then show ?case unfolding repo_UpdateNotes_def by (rule evolves_set_one) simp_all
next
  case (expire w r w')
  then show ?case by (auto simp: repo_BatchUpdateExpiredStatus_def Let_def dest!: evolves_update_many)
next
  case (revoke sid w r w')
  then show ?case
    by (auto simp: RevokeSubscription_def split: prod.splits sum.splits dest!: evolves_writes
        intro: evolves_trans)
next
  case (restore sid w r w')
  then show ?case
    by (auto simp: RestoreSubscription_def Let_def split: prod.splits sum.splits if_splits
        dest!: evolves_GetByIDIncludeDeleted evolves_Restore evolves_cache intro: evolves_trans)
      (metis evolves_trans evolves_tick)+
next
  case (extend sid days w r w')
  then show ?case
    by (auto simp: ExtendSubscription_def Let_def split: prod.splits sum.splits if_splits
        dest!: evolves_GetByID evolves_ExtendExpiry evolves_UpdateStatus)
      (metis evolves_trans evolves_tick evolves_maybe)+
next
  case (admin_reset sid d wk m w r w')
  have c: "evolves v (snd (invalidateSubscriptionCache s u k v))" for v u k
    by (cases "invalidateSubscriptionCache s u k v") (auto dest: evolves_cache)
  from admin_reset show ?case
    by (auto simp: AdminResetQuota_def Let_def split: prod.splits sum.splits if_splits
        dest!: evolves_GetByID evolves_ResetUsageWindows) (metis evolves_trans evolves_tick c)+
next
  case (maintain sub w r w')
  then show ?case
    by (auto simp: EnsureWindowMaintenance_def split: option.splits prod.splits sum.splits if_splits
        dest!: evolves_GetByID evolves_CheckAndResetWindows evolves_CheckAndActivateWindow)
      (metis evolves_trans)+
next
  case (background sub w w')
  have c: "evolves v (snd (CheckAndResetWindows s sub v))" for v
    by (cases "CheckAndResetWindows s sub v") (auto dest: evolves_CheckAndResetWindows)
  have a: "evolves v (snd (CheckAndActivateWindow s sub v))" for v
    by (cases "CheckAndActivateWindow s sub v") (auto dest: evolves_CheckAndActivateWindow)
  show ?case using c [of w] evolves_trans [OF a c] background
    by (auto simp: doWindowMaintenance_def Let_def)
next
  case (validate sub w e w')
  have "evolves w (snd (repo_UpdateStatus sid st (tick w)))" for sid st
    by (cases "repo_UpdateStatus sid st (tick w)") (auto dest: evolves_UpdateStatus)
  then show ?case using validate
    by (auto simp: ValidateSubscription_def Let_def split: if_splits)
qed (auto simp: RecordUsage_def dest: evolves_writes)

text \<open>
  C26. No sequence of operations, whatever fails in between, loses a subscription or gives an
  identifier twice: from a table with unique identifiers below the sequence, every reachable table
  has unique identifiers below the sequence, still has a row for every identifier it had (revoking
  keeps the row), and that row was created when the old one was.
\<close>

theorem subscriptions_never_lost:
  assumes "(sub_step s)\<^sup>*\<^sup>* w w'" "wf_store (wd_db w)"
  shows "wf_store (wd_db w') \<and>
    (\<forall>sid r. table w sid = Some r \<longrightarrow> (\<exists>r'. table w' sid = Some r' \<and> us_CreatedAt r' = us_CreatedAt r))"
proof -
  have "evolves w w'"
    using assms(1) by (induction rule: rtranclp_induct) (auto intro: evolves_trans dest: sub_step_evolves)
  then show ?thesis using assms(2) by (simp add: evolves_def)
qed

theorem subscriptions_never_lost_witness:
  "\<exists>r'. table (snd (RevokeSubscription demo_service 21 (demo_world 0 [demo_sub]))) 21 = Some r' \<and>
     us_CreatedAt r' = 100 * week"
proof -
  let ?w = "demo_world 0 [demo_sub]"
  obtain r w' where "RevokeSubscription demo_service 21 ?w = (r, w')"
    by (cases "RevokeSubscription demo_service 21 ?w")
  then have w': "sub_step demo_service ?w w'" "w' = snd (RevokeSubscription demo_service 21 ?w)"
    by (auto intro: sub_step.revoke)
  have "us_CreatedAt demo_sub = 100 * week" by (simp add: demo_sub_def)
  then show ?thesis
    using subscriptions_never_lost [OF r_into_rtranclp [of "sub_step demo_service", OF w'(1)] demo_world_wf]
      demo_world_table [of 0] w'(2) by metis
qed

lemma GetByID_env: "repo_GetByID sid w = (r, w') \<Longrightarrow> same_env w w'"
  by (auto simp: repo_GetByID_def split: prod.splits sum.splits dest: query_cases)

lemma reset_step_env: "reset_step k st sub d w = (r, w') \<Longrightarrow> same_env w w'"
  by (auto simp: reset_step_def split: option.splits prod.splits sum.splits
      dest!: repo_reset_step dest: row_stepD(3))

lemma CheckAndResetWindows_env:
  assumes "CheckAndResetWindows s sub w = (r, w')"
  shows "same_env w w'"
proof -
  have c: "same_env v (snd (invalidateSubscriptionCache s u sid v))" for v u sid
    by (cases "invalidateSubscriptionCache s u sid v") (auto dest: cache_frame)
  have 3: "same_env (tick a) b \<Longrightarrow> same_env b d \<Longrightarrow> same_env d e \<Longrightarrow> same_env a e" for a b d e :: sub_world
    by (auto simp: same_env_def)
  show ?thesis
    using assms unfolding CheckAndResetWindows_def Let_def
    by (auto split: prod.splits sum.splits if_splits dest!: reset_step_env
        intro: same_env_trans [OF same_env_tick] same_env_trans [OF same_env_trans [OF same_env_tick]] 3
          same_env_trans [OF 3 c])
qed

lemma EnsureWindowMaintenance_env:
  assumes "EnsureWindowMaintenance s sub w = (r, w')"
  shows "same_env w w'"
proof -
  have a: "CheckAndActivateWindow s x v = (q, v') \<Longrightarrow> same_env v v'" for x v q v'
    by (auto simp: CheckAndActivateWindow_def checkAndActivateWindowAt_def repo_ActivateWindows_def
        split: if_splits dest!: conditional_step dest: row_stepD(3) intro: same_env_trans [OF same_env_tick])
  have 3: "same_env a b \<Longrightarrow> same_env b d \<Longrightarrow> same_env d e \<Longrightarrow> same_env a e" for a b d e :: sub_world
    by (auto simp: same_env_def)
  show ?thesis
    using assms unfolding EnsureWindowMaintenance_def
    by (auto split: option.splits prod.splits sum.splits if_splits
        dest!: a GetByID_env CheckAndResetWindows_env intro: same_env_trans 3)
qed

end
