(* ===== verification/Asset_Resolver.thy ===== *)
theory Asset_Resolver
  imports Subscription_Service
begin

text \<open>
  \<open>internal/service/api_key.go\<close>, \<open>api_key_asset_permissions.go\<close>,
  \<open>api_key_asset_resolver.go\<close>, \<open>billing_multiplier_selection.go\<close> and
  \<open>global_balance_rate.go\<close>: what an API key may spend, and which subscription or balance pays for
  a request. The subscription resolver is the subscription service (a pointer that may be nil), so its
  optional interfaces are always there. A slice whose nil-ness the code looks at is an \<open>option\<close>.
  Of the user only the balance matters here; fields of the key that serve other parts of the program
  (compiled IP rules, last use, eager-loaded platforms, concurrency) are left out.
\<close>

section \<open>API keys\<close>

record User =
  ur_ID :: int64
  ur_Balance :: float64

record APIKey =
  ak_ID :: int64
  ak_UserID :: int64
  ak_Name :: string
  ak_Status :: string
  ak_IPWhitelist :: "string list"
  ak_IPBlacklist :: "string list"
  ak_User :: "User option"
  ak_AllowedPlatformIDs :: "int64 list"
  ak_AllowedSubscriptionPlanIDs :: "int64 list"
  ak_AllowAllSubscriptions :: bool
  ak_AllowBalance :: bool
  ak_Quota :: float64
  ak_QuotaUsed :: float64
  ak_ExpiresAt :: "go_time option"
  ak_RateLimit5h :: float64
  ak_RateLimit1d :: float64
  ak_RateLimit7d :: float64
  ak_Usage5h :: float64
  ak_Usage1d :: float64
  ak_Usage7d :: float64
  ak_Window5hStart :: "go_time option"
  ak_Window1dStart :: "go_time option"
  ak_Window7dStart :: "go_time option"

definition RateLimitWindow5h :: duration where "RateLimitWindow5h = 5 * hour"
definition RateLimitWindow1d :: duration where "RateLimitWindow1d = 24 * hour"
definition RateLimitWindow7d :: duration where "RateLimitWindow7d = 7 * 24 * hour"

definition IsWindowExpired :: "go_time \<Rightarrow> go_time option \<Rightarrow> duration \<Rightarrow> bool" where
  "IsWindowExpired now windowStart duration =
     (case windowStart of None \<Rightarrow> True | Some t \<Rightarrow> duration \<le> time_sub now t)"

definition HasRateLimits :: "APIKey \<Rightarrow> bool" where
  "HasRateLimits k \<longleftrightarrow> f_less f_zero (ak_RateLimit5h k) \<or> f_less f_zero (ak_RateLimit1d k)
     \<or> f_less f_zero (ak_RateLimit7d k)"

definition key_IsExpired :: "go_time \<Rightarrow> APIKey \<Rightarrow> bool" where
  "key_IsExpired now k = (case ak_ExpiresAt k of None \<Rightarrow> False | Some t \<Rightarrow> t < now)"

definition IsQuotaExhausted :: "APIKey \<Rightarrow> bool" where
  "IsQuotaExhausted k = (if f_le (ak_Quota k) f_zero then False else f_le (ak_Quota k) (ak_QuotaUsed k))"

definition GetQuotaRemaining :: "APIKey \<Rightarrow> float64" where
  "GetQuotaRemaining k =
     (if f_le (ak_Quota k) f_zero then Fin (- 1)
      else let remaining = f_sub (ak_Quota k) (ak_QuotaUsed k) in
        if f_less remaining f_zero then f_zero else remaining)"

definition EffectiveUsage5h :: "go_time \<Rightarrow> APIKey \<Rightarrow> float64" where
  "EffectiveUsage5h now k =
     (if IsWindowExpired now (ak_Window5hStart k) RateLimitWindow5h then f_zero else ak_Usage5h k)"

definition EffectiveUsage1d :: "go_time \<Rightarrow> APIKey \<Rightarrow> float64" where
  "EffectiveUsage1d now k =
     (if IsWindowExpired now (ak_Window1dStart k) RateLimitWindow1d then f_zero else ak_Usage1d k)"

definition EffectiveUsage7d :: "go_time \<Rightarrow> APIKey \<Rightarrow> float64" where
  "EffectiveUsage7d now k =
     (if IsWindowExpired now (ak_Window7dStart k) RateLimitWindow7d then f_zero else ak_Usage7d k)"

section \<open>Permissions\<close>

definition ErrAPIKeyPlatformRequired :: go_error where
  "ErrAPIKeyPlatformRequired = BadRequest ''API_KEY_PLATFORM_REQUIRED''
     ''api key must authorize at least one platform''"
definition ErrAPIKeyBillingSourceRequired :: go_error where
  "ErrAPIKeyBillingSourceRequired = BadRequest ''API_KEY_BILLING_SOURCE_REQUIRED''
     ''api key must authorize a subscription plan or balance''"

record APIKeyAssetPermissions =
  ap_PlatformIDs :: "int64 list"
  ap_SubscriptionPlanIDs :: "int64 list"
  ap_AllowAllSubscriptions :: bool
  ap_AllowBalance :: bool

record CreateAPIKeyRequest =
  cr_Name :: string
  cr_PlatformIDs :: "int64 list option"
  cr_SubscriptionPlanIDs :: "int64 list option"
  cr_AllowAllSubscriptions :: "bool option"
  cr_AllowBalance :: "bool option"
  cr_IPWhitelist :: "string list"
  cr_IPBlacklist :: "string list"
  cr_Quota :: float64
  cr_RateLimit5h :: float64
  cr_RateLimit1d :: float64
  cr_RateLimit7d :: float64

record UpdateAPIKeyRequest =
  ud_PlatformIDs :: "int64 list option"
  ud_SubscriptionPlanIDs :: "int64 list option"
  ud_AllowAllSubscriptions :: "bool option"
  ud_AllowBalance :: "bool option"

definition slice :: "'a list option \<Rightarrow> 'a list" where
  "slice xs = (case xs of None \<Rightarrow> [] | Some ys \<Rightarrow> ys)"

definition normalizePositiveIDs :: "int64 list \<Rightarrow> int64 list" where
  "normalizePositiveIDs ids = sorted_ids (filter (\<lambda>x. 0 < x) ids)"

definition NormalizeAPIKeyAssetPermissions :: "APIKeyAssetPermissions \<Rightarrow> APIKeyAssetPermissions" where
  "NormalizeAPIKeyAssetPermissions permissions = \<lparr>
     ap_PlatformIDs = normalizePositiveIDs (ap_PlatformIDs permissions),
     ap_SubscriptionPlanIDs = normalizePositiveIDs (ap_SubscriptionPlanIDs permissions),
     ap_AllowAllSubscriptions = ap_AllowAllSubscriptions permissions,
     ap_AllowBalance = ap_AllowBalance permissions\<rparr>"

definition ValidateAPIKeyAssetPermissions :: "APIKeyAssetPermissions \<Rightarrow> go_error option" where
  "ValidateAPIKeyAssetPermissions permissions =
     (let normalized = NormalizeAPIKeyAssetPermissions permissions in
      if ap_PlatformIDs normalized = [] then Some ErrAPIKeyPlatformRequired
      else if \<not> ap_AllowAllSubscriptions normalized \<and> ap_SubscriptionPlanIDs normalized = []
        \<and> \<not> ap_AllowBalance normalized then Some ErrAPIKeyBillingSourceRequired
      else None)"

definition newAPIKeyFromCreateRequest :: "CreateAPIKeyRequest \<Rightarrow> APIKey" where
  "newAPIKeyFromCreateRequest req =
     (let allowBalance = (case cr_AllowBalance req of Some b \<Rightarrow> b | None \<Rightarrow> True);
          allowAllSubscriptions = (case cr_AllowAllSubscriptions req of
             Some b \<Rightarrow> b
           | None \<Rightarrow> if 0 < length (slice (cr_SubscriptionPlanIDs req)) then False else True);
          permissions = NormalizeAPIKeyAssetPermissions \<lparr>
             ap_PlatformIDs = slice (cr_PlatformIDs req),
             ap_SubscriptionPlanIDs = slice (cr_SubscriptionPlanIDs req),
             ap_AllowAllSubscriptions = allowAllSubscriptions, ap_AllowBalance = allowBalance\<rparr>
      in \<lparr>ak_ID = 0, ak_UserID = 0, ak_Name = cr_Name req, ak_Status = '''',
          ak_IPWhitelist = cr_IPWhitelist req, ak_IPBlacklist = cr_IPBlacklist req, ak_User = None,
          ak_AllowedPlatformIDs = ap_PlatformIDs permissions,
          ak_AllowedSubscriptionPlanIDs = ap_SubscriptionPlanIDs permissions,
          ak_AllowAllSubscriptions = ap_AllowAllSubscriptions permissions,
          ak_AllowBalance = ap_AllowBalance permissions,
          ak_Quota = cr_Quota req, ak_QuotaUsed = f_zero, ak_ExpiresAt = None,
          ak_RateLimit5h = cr_RateLimit5h req, ak_RateLimit1d = cr_RateLimit1d req,
          ak_RateLimit7d = cr_RateLimit7d req, ak_Usage5h = f_zero, ak_Usage1d = f_zero,
          ak_Usage7d = f_zero, ak_Window5hStart = None, ak_Window1dStart = None,
          ak_Window7dStart = None\<rparr>)"

definition createAPIKeyAssetPermissionsProvided :: "CreateAPIKeyRequest \<Rightarrow> bool" where
  "createAPIKeyAssetPermissionsProvided req \<longleftrightarrow> cr_PlatformIDs req \<noteq> None
     \<or> cr_SubscriptionPlanIDs req \<noteq> None \<or> cr_AllowAllSubscriptions req \<noteq> None \<or> cr_AllowBalance req \<noteq> None"

definition updateAPIKeyAssetPermissionsProvided :: "UpdateAPIKeyRequest \<Rightarrow> bool" where
  "updateAPIKeyAssetPermissionsProvided req \<longleftrightarrow> ud_PlatformIDs req \<noteq> None
     \<or> ud_SubscriptionPlanIDs req \<noteq> None \<or> ud_AllowAllSubscriptions req \<noteq> None \<or> ud_AllowBalance req \<noteq> None"

definition updatedAPIKeyAssetPermissions ::
  "APIKey option \<Rightarrow> UpdateAPIKeyRequest \<Rightarrow> APIKeyAssetPermissions" where
  "updatedAPIKeyAssetPermissions key req =
     (let permissions = (case key of
          None \<Rightarrow> \<lparr>ap_PlatformIDs = [], ap_SubscriptionPlanIDs = [], ap_AllowAllSubscriptions = False,
                   ap_AllowBalance = False\<rparr>
        | Some k \<Rightarrow> \<lparr>ap_PlatformIDs = ak_AllowedPlatformIDs k,
                     ap_SubscriptionPlanIDs = ak_AllowedSubscriptionPlanIDs k,
                     ap_AllowAllSubscriptions = ak_AllowAllSubscriptions k,
                     ap_AllowBalance = ak_AllowBalance k\<rparr>);
          permissions = (case ud_PlatformIDs req of None \<Rightarrow> permissions
             | Some ids \<Rightarrow> permissions\<lparr>ap_PlatformIDs := ids\<rparr>);
          permissions = (case ud_SubscriptionPlanIDs req of None \<Rightarrow> permissions
             | Some ids \<Rightarrow>
                 let permissions = permissions\<lparr>ap_SubscriptionPlanIDs := ids\<rparr> in
                 if ud_AllowAllSubscriptions req = None
                 then permissions\<lparr>ap_AllowAllSubscriptions := False\<rparr> else permissions);
          permissions = (case ud_AllowAllSubscriptions req of None \<Rightarrow> permissions
             | Some b \<Rightarrow> permissions\<lparr>ap_AllowAllSubscriptions := b\<rparr>);
          permissions = (case ud_AllowBalance req of None \<Rightarrow> permissions
             | Some b \<Rightarrow> permissions\<lparr>ap_AllowBalance := b\<rparr>)
      in NormalizeAPIKeyAssetPermissions permissions)"

section \<open>Rates\<close>

definition nonNegativeMultiplier :: "float64 \<Rightarrow> float64" where
  "nonNegativeMultiplier multiplier = (if f_less multiplier f_zero then f_zero else multiplier)"

definition resolveBillingRateMultiplier :: "UserSubscription option \<Rightarrow> float64 \<Rightarrow> float64" where
  "resolveBillingRateMultiplier subscription fallback =
     (case subscription of
        Some s \<Rightarrow> nonNegativeMultiplier (us_RateMultiplierSnapshot s)
      | None \<Rightarrow> nonNegativeMultiplier fallback)"

definition resolveBillingMultipliers :: "UserSubscription option \<Rightarrow> float64 \<Rightarrow> float64 \<times> float64 \<times> float64" where
  "resolveBillingMultipliers subscription fallback =
     (let base = resolveBillingRateMultiplier subscription fallback in (base, base, base))"

definition defaultGlobalBalanceRateMultiplier :: float64 where
  "defaultGlobalBalanceRateMultiplier = Fin 1"

text \<open>The provider is nil or returns the configured rate.\<close>

definition globalBalanceRateMultiplier :: "float64 option \<Rightarrow> float64" where
  "globalBalanceRateMultiplier provider =
     (case provider of
        None \<Rightarrow> defaultGlobalBalanceRateMultiplier
      | Some rate \<Rightarrow>
          if f_less rate f_zero \<or> f_is_nan rate \<or> f_is_inf rate
          then defaultGlobalBalanceRateMultiplier else rate)"

section \<open>Choosing the asset\<close>

definition BillingSourceSubscription :: string where
  "BillingSourceSubscription = ''subscription''"
definition BillingSourceBalance :: string where
  "BillingSourceBalance = ''balance''"

definition ErrNoUsableBillingSource :: go_error where
  "ErrNoUsableBillingSource = Forbidden ''NO_USABLE_BILLING_SOURCE''
     ''no usable subscription or balance source is available''"
definition ErrInsufficientBalance :: go_error where
  "ErrInsufficientBalance = BadRequest ''INSUFFICIENT_BALANCE'' ''insufficient balance''"
definition ErrSubscriptionInvalid :: go_error where
  "ErrSubscriptionInvalid = Forbidden ''SUBSCRIPTION_INVALID'' ''subscription is invalid or expired''"

record ResolvedBillingAsset =
  ra_Source :: string
  ra_SubscriptionID :: "int64 option"
  ra_PlanID :: "int64 option"
  ra_RateMultiplier :: float64
  ra_Subscription :: "UserSubscription option"

definition isSubscriptionCandidateUnavailableError :: "go_error \<Rightarrow> bool" where
  "isSubscriptionCandidateUnavailableError err \<longleftrightarrow>
     errors_is err ErrDailyLimitExceeded \<or> errors_is err ErrWeeklyLimitExceeded \<or>
     errors_is err ErrMonthlyLimitExceeded \<or> errors_is err ErrSubscriptionNotFound \<or>
     errors_is err ErrSubscriptionInvalid \<or> errors_is err ErrSubscriptionExpired \<or>
     errors_is err ErrSubscriptionSuspended"

definition makeAllowedPlanIDSet :: "int64 list \<Rightarrow> int64 set" where
  "makeAllowedPlanIDSet planIDs = set (filter (\<lambda>p. 0 < p) planIDs)"

definition subscriptionUsesAllowedPlan :: "UserSubscription \<Rightarrow> int64 set option \<Rightarrow> bool" where
  "subscriptionUsesAllowedPlan subscription allowed =
     (case us_SubscriptionPlanID subscription of
        None \<Rightarrow> False
      | Some plan \<Rightarrow> (case allowed of None \<Rightarrow> True | Some s \<Rightarrow> plan \<in> s))"

definition sortSubscriptionCandidates :: "UserSubscription list \<Rightarrow> UserSubscription list" where
  "sortSubscriptionCandidates candidates = stable_sort candidate_less candidates"

definition resolvedSubscriptionBillingAsset :: "UserSubscription option \<Rightarrow> ResolvedBillingAsset option" where
  "resolvedSubscriptionBillingAsset subscription =
     (case subscription of
        None \<Rightarrow> None
      | Some s \<Rightarrow>
          (case us_SubscriptionPlanID s of
             None \<Rightarrow> None
           | Some planID \<Rightarrow> Some \<lparr>ra_Source = BillingSourceSubscription,
               ra_SubscriptionID = Some (us_ID s), ra_PlanID = Some planID,
               ra_RateMultiplier = nonNegativeMultiplier (us_RateMultiplierSnapshot s),
               ra_Subscription = cloneUserSubscription (Some s)\<rparr>))"

text \<open>
  The body of the loop: \<open>None\<close> for \<open>continue\<close> and the function's result otherwise. The failed
  maintenance leaves the candidate nil, which continues whatever the error was.
\<close>

definition try_candidate ::
  "service \<Rightarrow> int64 set option \<Rightarrow> UserSubscription \<Rightarrow> sub_world
    \<Rightarrow> ResolvedBillingAsset option result option \<times> sub_world" where
  "try_candidate subscriptions allowed subscription w =
     (if \<not> subscriptionUsesAllowedPlan subscription allowed then (None, w)
      else let ((needsMaintenance, err, subscription), w) = ValidateAndCheckLimits subscriptions subscription w;
               ((subscription, err), w) =
                 (if needsMaintenance then
                    (case EnsureWindowMaintenance subscriptions (Some subscription) w of
                       (Inl e, w) \<Rightarrow> ((None, Some e), w)
                     | (Inr refreshed, w) \<Rightarrow>
                         let ((_, err, refreshed), w) = ValidateAndCheckLimits subscriptions refreshed w
                         in ((Some refreshed, err), w))
                  else ((Some subscription, err), w))
      in (case (err, subscription) of
            (None, Some _) \<Rightarrow> (Some (Inr (resolvedSubscriptionBillingAsset subscription)), w)
          | (None, None) \<Rightarrow> (None, w)
          | (Some e, _) \<Rightarrow>
              if isSubscriptionCandidateUnavailableError e \<or> subscription = None then (None, w)
              else (Some (Inl e), w)))"

fun candidate_loop ::
  "service \<Rightarrow> int64 set option \<Rightarrow> UserSubscription list \<Rightarrow> sub_world
    \<Rightarrow> ResolvedBillingAsset option result \<times> sub_world" where
  "candidate_loop subscriptions allowed [] w = (Inr None, w)"
| "candidate_loop subscriptions allowed (c # cs) w =
     (case try_candidate subscriptions allowed c w of
        (None, w) \<Rightarrow> candidate_loop subscriptions allowed cs w
      | (Some r, w) \<Rightarrow> (r, w))"

definition firstUsableSubscriptionAsset ::
  "int64 list option \<Rightarrow> UserSubscription list \<Rightarrow> service \<Rightarrow> sub_world
    \<Rightarrow> ResolvedBillingAsset option result \<times> sub_world" where
  "firstUsableSubscriptionAsset allowedPlanIDs candidates subscriptions w =
     candidate_loop subscriptions (map_option makeAllowedPlanIDSet allowedPlanIDs)
       (sortSubscriptionCandidates candidates) w"

definition resolveSubscriptionBillingAsset ::
  "APIKey \<Rightarrow> service option \<Rightarrow> sub_world \<Rightarrow> ResolvedBillingAsset option result \<times> sub_world" where
  "resolveSubscriptionBillingAsset apiKey subscriptions w =
     (case subscriptions of
        None \<Rightarrow> (Inr None, w)
      | Some svc \<Rightarrow>
          if \<not> ak_AllowAllSubscriptions apiKey \<and> ak_AllowedSubscriptionPlanIDs apiKey = []
          then (Inr None, w)
          else if ak_AllowAllSubscriptions apiKey then
            (case ListActiveSubscriptions (ak_UserID apiKey) w of
               (Inl err, w) \<Rightarrow> if isSubscriptionCandidateUnavailableError err then (Inr None, w)
                             else (Inl err, w)
             | (Inr candidates, w) \<Rightarrow> firstUsableSubscriptionAsset None candidates svc w)
          else
            (case ListActiveSubscriptionsByPlanIDs (ak_UserID apiKey) (ak_AllowedSubscriptionPlanIDs apiKey) w of
               (Inl err, w) \<Rightarrow> if isSubscriptionCandidateUnavailableError err then (Inr None, w)
                             else (Inl err, w)
             | (Inr candidates, w) \<Rightarrow>
                 firstUsableSubscriptionAsset (Some (ak_AllowedSubscriptionPlanIDs apiKey)) candidates svc w))"

definition resolveBalanceBillingAsset :: "float64 option \<Rightarrow> APIKey \<Rightarrow> ResolvedBillingAsset result" where
  "resolveBalanceBillingAsset provider apiKey =
     (if \<not> ak_AllowBalance apiKey then Inl ErrNoUsableBillingSource
      else case ak_User apiKey of
        None \<Rightarrow> Inl ErrInsufficientBalance
      | Some u \<Rightarrow>
          if f_le (ur_Balance u) f_zero then Inl ErrInsufficientBalance
          else Inr \<lparr>ra_Source = BillingSourceBalance, ra_SubscriptionID = None, ra_PlanID = None,
                 ra_RateMultiplier = globalBalanceRateMultiplier provider, ra_Subscription = None\<rparr>)"

definition ResolveBillingAssetForRequest ::
  "float64 option \<Rightarrow> APIKey option \<Rightarrow> service option \<Rightarrow> bool \<Rightarrow> sub_world
    \<Rightarrow> ResolvedBillingAsset option result \<times> sub_world" where
  "ResolveBillingAssetForRequest provider apiKey subscriptions skipBilling w =
     (case apiKey of
        None \<Rightarrow> (Inl ErrNoUsableBillingSource, w)
      | Some apiKey \<Rightarrow>
          if skipBilling then (Inr None, w)
          else (case resolveSubscriptionBillingAsset apiKey subscriptions w of
                  (Inl err, w) \<Rightarrow> (Inl err, w)
                | (Inr (Some asset), w) \<Rightarrow> (Inr (Some asset), w)
                | (Inr None, w) \<Rightarrow> (map_sum (\<lambda>e. e) Some (resolveBalanceBillingAsset provider apiKey), w)))"

section \<open>Permissions\<close>

lemma set_normalizePositiveIDs [simp]: "set (normalizePositiveIDs xs) = {x \<in> set xs. 0 < x}"
  by (simp add: normalizePositiveIDs_def)

lemma normalizePositiveIDs_idem [simp]: "normalizePositiveIDs (normalizePositiveIDs xs) = normalizePositiveIDs xs"
  unfolding normalizePositiveIDs_def
  by (rule sorted_ids_unique) (auto simp: normalizePositiveIDs_def)

lemma normalizePositiveIDs_Nil [simp]: "normalizePositiveIDs xs = [] \<longleftrightarrow> (\<forall>x \<in> set xs. x \<le> 0)"
  by (simp add: normalizePositiveIDs_def filter_empty_conv not_less)

text \<open>
  The permissions of a key are stored in one form: normalizing keeps exactly the positive
  identifiers, each once and in increasing order, twice normalizing is normalizing once, and
  permissions are accepted exactly when they grant some platform and some way to pay.
\<close>

theorem permissions_normal_form:
  "set (ap_PlatformIDs (NormalizeAPIKeyAssetPermissions p)) = {x \<in> set (ap_PlatformIDs p). 0 < x} \<and>
   set (ap_SubscriptionPlanIDs (NormalizeAPIKeyAssetPermissions p)) = {x \<in> set (ap_SubscriptionPlanIDs p). 0 < x} \<and>
   sorted_wrt (<) (ap_PlatformIDs (NormalizeAPIKeyAssetPermissions p)) \<and>
   sorted_wrt (<) (ap_SubscriptionPlanIDs (NormalizeAPIKeyAssetPermissions p)) \<and>
   NormalizeAPIKeyAssetPermissions (NormalizeAPIKeyAssetPermissions p) = NormalizeAPIKeyAssetPermissions p \<and>
   (ValidateAPIKeyAssetPermissions p = None \<longleftrightarrow>
      (\<exists>x \<in> set (ap_PlatformIDs p). 0 < x) \<and>
      (ap_AllowAllSubscriptions p \<or> (\<exists>x \<in> set (ap_SubscriptionPlanIDs p). 0 < x) \<or> ap_AllowBalance p))"
  by (auto simp: NormalizeAPIKeyAssetPermissions_def ValidateAPIKeyAssetPermissions_def Let_def not_less not_le)
    (auto simp: normalizePositiveIDs_def)

section \<open>The order of the candidates\<close>

interpretation cand: comparator candidate_less
  by unfold_locales (auto simp: candidate_less_def split: if_splits)

section \<open>One candidate\<close>

lemma unavailable_errors:
  "isSubscriptionCandidateUnavailableError ErrDailyLimitExceeded"
  "isSubscriptionCandidateUnavailableError ErrWeeklyLimitExceeded"
  "isSubscriptionCandidateUnavailableError ErrMonthlyLimitExceeded"
  "isSubscriptionCandidateUnavailableError ErrSubscriptionExpired"
  "isSubscriptionCandidateUnavailableError ErrSubscriptionSuspended"
  by (simp_all add: isSubscriptionCandidateUnavailableError_def sub_error_defs go_simps)

lemma Validate_unavailable:
  "ValidateAndCheckLimitsAt z now sub = (n, Some e, sub') \<Longrightarrow> isSubscriptionCandidateUnavailableError e"
  using unavailable_errors
  by (cases "usable_status now sub")
    (auto simp: Validate_usable split: if_splits dest: Validate_unusable [where z = z])

text \<open>The pre-check only ever changes the usage fields.\<close>

definition same_terms :: "UserSubscription \<Rightarrow> UserSubscription \<Rightarrow> bool" where
  "same_terms a b \<longleftrightarrow> us_ID a = us_ID b \<and> us_UserID a = us_UserID b \<and>
     us_SubscriptionPlanID a = us_SubscriptionPlanID b \<and>
     us_RateMultiplierSnapshot a = us_RateMultiplierSnapshot b"

lemma same_terms_refl [simp]: "same_terms a a"
  and same_terms_trans: "same_terms a b \<Longrightarrow> same_terms b c \<Longrightarrow> same_terms a c"
  by (simp_all add: same_terms_def)

lemma Validate_terms:
  "ValidateAndCheckLimitsAt z now sub = (n, e, sub') \<Longrightarrow> same_terms sub' sub"
  by (cases "usable_status now sub")
    (auto simp: Validate_usable same_terms_def dest: Validate_unusable [where z = z])

text \<open>
  Trying the candidates never fails the request: whatever the database does while windows are
  maintained, the loop over the candidates ends with a subscription or with none, never with an
  error.
\<close>

theorem firstUsableSubscriptionAsset_never_fails:
  "\<exists>asset. fst (firstUsableSubscriptionAsset allowed cs s w) = Inr asset"
proof -
  have tc: "fst (try_candidate s al c w) = None \<or> (\<exists>a. fst (try_candidate s al c w) = Some (Inr a))" for al c w
    by (auto simp: try_candidate_def ValidateAndCheckLimits_def Let_def
        split: prod.splits sum.splits option.splits if_splits dest: Validate_unavailable)
  have "\<exists>a. fst (candidate_loop s al xs w) = Inr a" for al xs w
  proof (induction xs arbitrary: w)
    case (Cons c xs)
    then show ?case using tc [of al c w] by (auto split: prod.splits option.splits)
  qed simp
  then show ?thesis by (simp add: firstUsableSubscriptionAsset_def)
qed

section \<open>The earliest usable subscription pays\<close>

definition accepts :: "zone \<Rightarrow> go_time \<Rightarrow> UserSubscription \<Rightarrow> bool" where
  "accepts z now c \<longleftrightarrow> usable_status now c \<and>
     \<not> limit_reached (us_DailyLimitUSDSnapshot c) (effective_usage z now DailyWindow c) \<and>
     \<not> limit_reached (us_WeeklyLimitUSDSnapshot c) (effective_usage z now WeeklyWindow c) \<and>
     \<not> limit_reached (us_MonthlyLimitUSDSnapshot c) (effective_usage z now MonthlyWindow c)"

lemma accepts_Validate: "accepts z now c \<longleftrightarrow> fst (snd (ValidateAndCheckLimitsAt z now c)) = None"
proof (cases "usable_status now c")
  case False
  then show ?thesis using Validate_unusable [OF False, of z] by (auto simp: accepts_def)
qed (simp add: accepts_def Validate_usable dailyLimitUSD_def weeklyLimitUSD_def monthlyLimitUSD_def)

lemma advanced_terms:
  "us_ID (advanced z now r) = us_ID r" "us_UserID (advanced z now r) = us_UserID r"
  "us_SubscriptionPlanID (advanced z now r) = us_SubscriptionPlanID r"
  "us_RateMultiplierSnapshot (advanced z now r) = us_RateMultiplierSnapshot r"
  "us_Status (advanced z now r) = us_Status r"
  "us_DailyLimitUSDSnapshot (advanced z now r) = us_DailyLimitUSDSnapshot r"
  "us_WeeklyLimitUSDSnapshot (advanced z now r) = us_WeeklyLimitUSDSnapshot r"
  "us_MonthlyLimitUSDSnapshot (advanced z now r) = us_MonthlyLimitUSDSnapshot r"
  unfolding advanced_def Let_def by (simp_all split: option.splits)

lemma advanced_usage:
  "us_DailyUsageUSD (advanced z now r) = effective_usage z now DailyWindow r"
  "us_WeeklyUsageUSD (advanced z now r) = effective_usage z now WeeklyWindow r"
  "us_MonthlyUsageUSD (advanced z now r) = effective_usage z now MonthlyWindow r"
proof -
  define r1 where "r1 = (case automaticDailyWindowStartAt z r now of None \<Rightarrow> r | Some ws \<Rightarrow> restart_window DailyWindow ws r)"
  have a1: "automaticWindowStartAt z r1 p d now = automaticWindowStartAt z r p d now" for p d
    by (rule automatic_cong(2)) (simp_all add: r1_def split: option.splits)
  define r2 where "r2 = (case automaticWindowStartAt z r (us_WeeklyWindowStart r1) week now of
      None \<Rightarrow> r1 | Some ws \<Rightarrow> restart_window WeeklyWindow ws r1)"
  have a2: "automaticWindowStartAt z r2 p d now = automaticWindowStartAt z r p d now" for p d
    by (rule automatic_cong(2)) (simp_all add: r1_def r2_def split: option.splits)
  have adv: "advanced z now r = (case automaticWindowStartAt z r (us_MonthlyWindowStart r2) month now of
      None \<Rightarrow> r2 | Some ws \<Rightarrow> restart_window MonthlyWindow ws r2)"
    unfolding advanced_def Let_def r1_def [symmetric] a1 r2_def [symmetric] a2 ..
  have w: "us_WeeklyWindowStart r1 = us_WeeklyWindowStart r" "us_MonthlyWindowStart r2 = us_MonthlyWindowStart r"
    by (simp_all add: r1_def r2_def split: option.splits)
  have "us_DailyUsageUSD r1 = effective_usage z now DailyWindow r"
    by (simp add: r1_def effective_usage_def canAutomaticallyResetDailyAt_def split: option.splits)
  then show "us_DailyUsageUSD (advanced z now r) = effective_usage z now DailyWindow r"
    unfolding adv by (simp add: r2_def split: option.splits)
  have "us_WeeklyUsageUSD r2 = effective_usage z now WeeklyWindow r"
    unfolding r2_def w by (simp add: r1_def effective_usage_def canAutomaticallyResetWeeklyAt_def split: option.splits)
  then show "us_WeeklyUsageUSD (advanced z now r) = effective_usage z now WeeklyWindow r"
    unfolding adv by (simp split: option.splits)
  have "us_MonthlyUsageUSD r2 = us_MonthlyUsageUSD r" by (simp add: r2_def r1_def split: option.splits)
  then show "us_MonthlyUsageUSD (advanced z now r) = effective_usage z now MonthlyWindow r"
    unfolding adv w by (simp add: effective_usage_def canAutomaticallyResetMonthlyAt_def split: option.splits)
qed

lemma inactive_effective:
  "\<not> IsWindowActivated r \<Longrightarrow> effective_usage z now k r = window_usage k r"
  by (cases k) (simp_all add: effective_usage_def IsWindowActivated_def canAutomaticallyResetDailyAt_def
      canAutomaticallyResetWeeklyAt_def canAutomaticallyResetMonthlyAt_def automaticDailyWindowStartAt_def
      automaticWindowStartAt_def)

lemma maintained_usage: "window_usage k (maintained z now r) = effective_usage z now k r"
proof (cases "IsWindowActivated r")
  case True
  then show ?thesis by (cases k) (simp_all add: maintained_def advanced_usage)
next
  case False
  then show ?thesis by (cases k) (simp_all add: maintained_def activated_def inactive_effective)
qed

lemma maintained_terms:
  "same_terms (maintained z now r) r" "us_Status (maintained z now r) = us_Status r"
  "us_ExpiresAt (maintained z now r) = us_ExpiresAt r"
  "us_DailyLimitUSDSnapshot (maintained z now r) = us_DailyLimitUSDSnapshot r"
  "us_WeeklyLimitUSDSnapshot (maintained z now r) = us_WeeklyLimitUSDSnapshot r"
  "us_MonthlyLimitUSDSnapshot (maintained z now r) = us_MonthlyLimitUSDSnapshot r"
  by (simp_all add: maintained_def activated_def same_terms_def advanced_terms advanced_windows)

text \<open>Maintenance does not change what the pre-check says.\<close>

lemma accepts_maintained:
  assumes "timely z now r"
  shows "accepts z now ((maintained z now r)\<lparr>us_UpdatedAt := u\<rparr>) \<longleftrightarrow> accepts z now r"
proof -
  let ?m = "maintained z now r" and ?u = "(maintained z now r)\<lparr>us_UpdatedAt := u\<rparr>"
  have "us_StartsAt ?u = us_StartsAt ?m" "us_ExpiresAt ?u = us_ExpiresAt ?m"
    "us_DailyWindowStart ?u = us_DailyWindowStart ?m" "us_WeeklyWindowStart ?u = us_WeeklyWindowStart ?m"
    "us_MonthlyWindowStart ?u = us_MonthlyWindowStart ?m" by simp_all
  note c = automatic_cong(1) [OF this(1,2,3)] automatic_cong(2) [OF this(1,2)] this
  have "effective_usage z now k ?u = window_usage k ?m" for k
    using maintained_not_due(1-3) [OF assms] unfolding effective_usage_def
      canAutomaticallyResetDailyAt_def canAutomaticallyResetWeeklyAt_def canAutomaticallyResetMonthlyAt_def c
    by (cases k) simp_all
  moreover have "usable_status now ?u \<longleftrightarrow> usable_status now r"
    by (simp add: usable_status_def maintained_terms)
  ultimately show ?thesis by (simp add: accepts_def maintained_usage maintained_terms)
qed

definition pays_with :: "UserSubscription \<Rightarrow> ResolvedBillingAsset \<Rightarrow> bool" where
  "pays_with c a \<longleftrightarrow> ra_Source a = BillingSourceSubscription \<and> ra_SubscriptionID a = Some (us_ID c) \<and>
     ra_PlanID a = us_SubscriptionPlanID c \<and>
     ra_RateMultiplier a = nonNegativeMultiplier (us_RateMultiplierSnapshot c)"

lemma resolved_pays:
  "same_terms c' c \<Longrightarrow> us_SubscriptionPlanID c \<noteq> None \<Longrightarrow>
   \<exists>a. resolvedSubscriptionBillingAsset (Some c') = Some a \<and> pays_with c a"
  by (auto simp: resolvedSubscriptionBillingAsset_def same_terms_def pays_with_def)

lemma uses_plan: "subscriptionUsesAllowedPlan c al \<Longrightarrow> us_SubscriptionPlanID c \<noteq> None"
  by (auto simp: subscriptionUsesAllowedPlan_def split: option.splits)

text \<open>Maintenance reads only the identity, the life time and the windows of the value it is given.\<close>

definition agree :: "UserSubscription \<Rightarrow> UserSubscription \<Rightarrow> bool" where
  "agree a b \<longleftrightarrow> us_ID a = us_ID b \<and> us_UserID a = us_UserID b \<and> us_StartsAt a = us_StartsAt b \<and>
     us_ExpiresAt a = us_ExpiresAt b \<and> (\<forall>k. window_start k a = window_start k b)"

lemma agreeD:
  assumes "agree a b"
  shows "us_ID a = us_ID b" "us_UserID a = us_UserID b" "us_StartsAt a = us_StartsAt b"
    "us_ExpiresAt a = us_ExpiresAt b" "window_start k a = window_start k b"
    "us_DailyWindowStart a = us_DailyWindowStart b" "us_WeeklyWindowStart a = us_WeeklyWindowStart b"
    "us_MonthlyWindowStart a = us_MonthlyWindowStart b"
  using assms unfolding agree_def by (auto dest: spec [of _ DailyWindow] spec [of _ WeeklyWindow]
      spec [of _ MonthlyWindow])

lemma agree_restart: "agree a b \<Longrightarrow> agree (restart_window k n a) (restart_window k n b)"
proof -
  assume ab: "agree a b"
  have "window_start j (restart_window k n a) = window_start j (restart_window k n b)" for j
    using agreeD(6-8) [OF ab] by (cases j; cases k) simp_all
  then show ?thesis using agreeD(1-4) [OF ab] by (cases k) (simp_all add: agree_def)
qed

lemma reset_step_agree:
  assumes "agree x y"
  shows "(\<exists>e w'. reset_step k st x d v = (Inl e, w') \<and> reset_step k st y d v = (Inl e, w')) \<or>
     (\<exists>x' y' d' w'. reset_step k st x d v = (Inr (x', d'), w') \<and>
        reset_step k st y d v = (Inr (y', d'), w') \<and> agree x' y')"
proof (cases st)
  case None
  then show ?thesis using assms by (simp add: reset_step_def)
next
  case (Some ws)
  show ?thesis
    using Some agreeD(1) [OF assms] agreeD(5) [OF assms, of k] agree_restart [OF assms, of k ws]
    by (cases "repo_reset k (us_ID y) (window_start k y) ws v") (auto simp: reset_step_def split: sum.splits)
qed

lemma CheckAndResetWindows_agree:
  assumes "agree a b"
  shows "case CheckAndResetWindows s a w of
     (Inl e, w') \<Rightarrow> CheckAndResetWindows s b w = (Inl e, w')
   | (Inr a', w') \<Rightarrow> \<exists>b'. CheckAndResetWindows s b w = (Inr b', w') \<and> agree a' b'"
proof -
  let ?z = "sv_zone s" and ?now = "now_of w"
  have auto: "automaticDailyWindowStartAt ?z x ?now = automaticDailyWindowStartAt ?z y ?now"
    "automaticWindowStartAt ?z x (us_WeeklyWindowStart x) week ?now =
       automaticWindowStartAt ?z y (us_WeeklyWindowStart y) week ?now"
    "automaticWindowStartAt ?z x (us_MonthlyWindowStart x) month ?now =
       automaticWindowStartAt ?z y (us_MonthlyWindowStart y) month ?now" if "agree x y" for x y
    using automatic_cong [OF agreeD(3,4) [OF that]] agreeD(6-8) [OF that] by simp_all
  from reset_step_agree [OF assms, of DailyWindow "automaticDailyWindowStartAt ?z a ?now" False "tick w"]
  show ?thesis
  proof (elim disjE exE conjE)
    fix a1 b1 d1 w1
    assume 1: "reset_step DailyWindow (automaticDailyWindowStartAt ?z a ?now) a False (tick w) = (Inr (a1, d1), w1)"
      "reset_step DailyWindow (automaticDailyWindowStartAt ?z a ?now) b False (tick w) = (Inr (b1, d1), w1)" "agree a1 b1"
    from reset_step_agree [OF 1(3), of WeeklyWindow "automaticWindowStartAt ?z a1 (us_WeeklyWindowStart a1) week ?now" d1 w1]
    show ?thesis
    proof (elim disjE exE conjE)
      fix a2 b2 d2 w2
      assume 2: "reset_step WeeklyWindow (automaticWindowStartAt ?z a1 (us_WeeklyWindowStart a1) week ?now) a1 d1 w1 = (Inr (a2, d2), w2)"
        "reset_step WeeklyWindow (automaticWindowStartAt ?z a1 (us_WeeklyWindowStart a1) week ?now) b1 d1 w1 = (Inr (b2, d2), w2)" "agree a2 b2"
      from reset_step_agree [OF 2(3), of MonthlyWindow "automaticWindowStartAt ?z a2 (us_MonthlyWindowStart a2) month ?now" d2 w2]
      show ?thesis using 1 2 auto [OF assms] auto [OF 1(3)] auto [OF 2(3)]
        by (auto simp: CheckAndResetWindows_def Let_def agreeD(1,2))
    qed (use 1 auto [OF assms] auto [OF 1(3)] in \<open>simp add: CheckAndResetWindows_def Let_def\<close>)
  qed (use auto [OF assms] in \<open>simp add: CheckAndResetWindows_def Let_def\<close>)
qed

lemma EnsureWindowMaintenance_agree:
  assumes "agree a b"
  shows "EnsureWindowMaintenance s (Some a) w = EnsureWindowMaintenance s (Some b) w"
proof -
  have act: "IsWindowActivated a = IsWindowActivated b" "us_ID a = us_ID b"
    using agreeD [OF assms] by (simp_all add: IsWindowActivated_def)
  have c: "CheckAndActivateWindow s a v = CheckAndActivateWindow s b v" for v
    using act by (simp add: CheckAndActivateWindow_def checkAndActivateWindowAt_def)
  have r: "(case CheckAndResetWindows s a v of (Inl err, w) \<Rightarrow> (Inl err, w) | (Inr sub', w) \<Rightarrow> repo_GetByID (us_ID sub') w) =
     (case CheckAndResetWindows s b v of (Inl err, w) \<Rightarrow> (Inl err, w) | (Inr sub', w) \<Rightarrow> repo_GetByID (us_ID sub') w)" for v
    using CheckAndResetWindows_agree [OF assms, of s v] by (auto split: prod.splits sum.splits dest: agreeD(1))
  show ?thesis unfolding EnsureWindowMaintenance_def option.case act c r ..
qed

lemma Validate_agree: "ValidateAndCheckLimitsAt z now c = (n, e, c') \<Longrightarrow> agree c' c"
proof -
  assume v: "ValidateAndCheckLimitsAt z now c = (n, e, c')"
  have w: "window_start k c' = window_start k c" for k
    using v by (cases "usable_status now c"; cases k)
      (auto simp: Validate_usable dest: Validate_unusable [where z = z])
  then show ?thesis using v by (cases "usable_status now c")
      (auto simp: Validate_usable agree_def dest: Validate_unusable [where z = z])
qed

lemma try_candidate_healthy:
  assumes h: "healthy w" and wf: "wf_store (wd_db w)" and clock: "\<forall>n. wd_clock w n = now"
    and row: "table w (us_ID c) = Some c" "live c" and t: "timely (sv_zone s) now c"
  obtains w' where "healthy w'" "wf_store (wd_db w')" "\<forall>n. wd_clock w' n = now"
    "\<And>k. k \<noteq> us_ID c \<Longrightarrow> table w' k = table w k"
    "if subscriptionUsesAllowedPlan c al \<and> accepts (sv_zone s) now c
     then \<exists>a. try_candidate s al c w = (Some (Inr (Some a)), w') \<and> pays_with c a
     else try_candidate s al c w = (None, w')"
proof (cases "subscriptionUsesAllowedPlan c al")
  case False
  then show ?thesis using that [of w] assms by (simp add: try_candidate_def)
next
  case True
  let ?z = "sv_zone s"
  have now: "now_of v = now" if "wd_clock v = wd_clock w" for v :: sub_world
    using clock that by (simp add: now_of_def)
  obtain n e c1 where v: "ValidateAndCheckLimitsAt ?z now c = (n, e, c1)"
    by (cases "ValidateAndCheckLimitsAt ?z now c")
  have acc: "accepts ?z now c \<longleftrightarrow> e = None" using accepts_Validate [of ?z now c] v by simp
  show ?thesis
  proof (cases n)
    case False
    have "try_candidate s al c w = (if e = None then Some (Inr (resolvedSubscriptionBillingAsset (Some c1))) else None, tick w)"
      using True v False now Validate_unavailable [of ?z now c n]
      by (auto simp: try_candidate_def ValidateAndCheckLimits_def split: option.splits)
    moreover have "\<exists>a. resolvedSubscriptionBillingAsset (Some c1) = Some a \<and> pays_with c a"
      using resolved_pays [OF Validate_terms [OF v] uses_plan [OF True]] .
    ultimately show ?thesis using that [of "tick w"] assms True acc by auto
  next
    case n: True
    obtain res w1 where run: "EnsureWindowMaintenance s (Some c1) (tick w) = (res, w1)"
      by (cases "EnsureWindowMaintenance s (Some c1) (tick w)")
    have run': "EnsureWindowMaintenance s (Some c) (tick w) = (res, w1)"
      using run EnsureWindowMaintenance_agree [OF Validate_agree [OF v]] by simp
    obtain u where u: "res = Inr ((maintained ?z now c)\<lparr>us_UpdatedAt := u\<rparr>)"
        "table w1 = (table w)(us_ID c \<mapsto> (maintained ?z now c)\<lparr>us_UpdatedAt := u\<rparr>)"
      using EnsureWindowMaintenance_spec [of "tick w" "us_ID c" c now s res w1] h wf row clock run'
      by (auto simp: Let_def)
    let ?m = "(maintained ?z now c)\<lparr>us_UpdatedAt := u\<rparr>"
    have e1: "same_env w w1 \<and> wf_store (wd_db w1)" using run' h wf row clock
      sub_step_evolves [OF sub_step.maintain [OF run']] EnsureWindowMaintenance_env [OF run']
      by (simp add: evolves_def same_env_def)
    then have w1: "wd_clock w1 = wd_clock w" "healthy w1" using h by (auto simp: same_env_def healthy_def)
    obtain n2 e2 c2 where v2: "ValidateAndCheckLimitsAt ?z now ?m = (n2, e2, c2)"
      by (cases "ValidateAndCheckLimitsAt ?z now ?m")
    have acc2: "accepts ?z now c \<longleftrightarrow> e2 = None"
      using accepts_maintained [OF t, of u] accepts_Validate [of ?z now ?m] v2 by simp
    have terms: "same_terms c2 c"
      using Validate_terms [OF v2] maintained_terms(1) [of ?z now c] by (auto simp: same_terms_def)
    have "try_candidate s al c w = (if e2 = None then Some (Inr (resolvedSubscriptionBillingAsset (Some c2))) else None, tick w1)"
      using True v n now [of w] now [of w1] w1(1) run u(1) v2 Validate_unavailable [of ?z now ?m n2]
      by (auto simp: try_candidate_def ValidateAndCheckLimits_def split: option.splits)
    then show ?thesis
      using that [of "tick w1"] acc2 True e1 w1 clock u(2) resolved_pays [OF terms uses_plan [OF True]] by auto
  qed
qed

lemma candidate_loop_find:
  assumes "healthy w" "wf_store (wd_db w)" "\<forall>n. wd_clock w n = now" "distinct (map us_ID cs)"
    and "\<And>c. c \<in> set cs \<Longrightarrow> table w (us_ID c) = Some c \<and> live c \<and> timely (sv_zone s) now c"
  shows "case find (\<lambda>c. subscriptionUsesAllowedPlan c al \<and> accepts (sv_zone s) now c) cs of
      None \<Rightarrow> fst (candidate_loop s al cs w) = Inr None
    | Some c \<Rightarrow> \<exists>a. fst (candidate_loop s al cs w) = Inr (Some a) \<and> pays_with c a"
  using assms
proof (induction cs arbitrary: w)
  case (Cons c cs)
  obtain w' where w': "healthy w'" "wf_store (wd_db w')" "\<forall>n. wd_clock w' n = now"
    "\<And>k. k \<noteq> us_ID c \<Longrightarrow> table w' k = table w k"
    "if subscriptionUsesAllowedPlan c al \<and> accepts (sv_zone s) now c
     then \<exists>a. try_candidate s al c w = (Some (Inr (Some a)), w') \<and> pays_with c a
     else try_candidate s al c w = (None, w')"
    by (rule try_candidate_healthy [of w now c s al]) (use Cons.prems in auto)
  show ?case
  proof (cases "subscriptionUsesAllowedPlan c al \<and> accepts (sv_zone s) now c")
    case True
    then show ?thesis using w'(5) by auto
  next
    case False
    have "us_ID d \<noteq> us_ID c" if "d \<in> set cs" for d using Cons.prems(4) that by (auto simp: image_iff)
    then have "table w' (us_ID d) = Some d \<and> live d \<and> timely (sv_zone s) now d" if "d \<in> set cs" for d
      using w'(4) [of "us_ID d"] Cons.prems(5) that by auto
    from Cons.IH [OF w'(1-3) _ this] Cons.prems(4) w'(5) False show ?thesis by (auto split: option.splits)
  qed
qed simp

lemma find_sorted_least:
  assumes "find P (stable_sort candidate_less xs) = Some c"
  shows "c \<in> set xs \<and> P c \<and> (\<forall>d \<in> set xs. P d \<longrightarrow> \<not> candidate_less d c)"
proof -
  let ?ys = "stable_sort candidate_less xs"
  obtain i where i: "i < length ?ys" "P (?ys ! i)" "c = ?ys ! i" "\<forall>j<i. \<not> P (?ys ! j)"
    using assms by (auto simp: find_Some_iff)
  have "\<not> candidate_less d c" if "d \<in> set xs" "P d" for d
  proof -
    have "d \<in> set ?ys" using that by simp
    then obtain j where j: "j < length ?ys" "?ys ! j = d" by (metis in_set_conv_nth)
    have "i \<le> j" using i(4) j that(2) not_less by blast
    then show ?thesis
      using cand.stable_sort_sorted [of xs] j i(3) cand.asym [of c c]
      by (cases "i = j") (auto simp: sorted_wrt_iff_nth_less)
  qed
  moreover have "c \<in> set ?ys" using i(1,3) nth_mem by metis
  ultimately show ?thesis using i(2,3) by auto
qed

lemma find_sorted_None: "find P (stable_sort candidate_less xs) = None \<longleftrightarrow> (\<forall>x \<in> set xs. \<not> P x)"
  by (auto simp: find_None_iff)

lemma distinct_map_mset: "mset xs = mset ys \<Longrightarrow> distinct (map f xs) = distinct (map f ys)"
  by (metis mset_eq_imp_distinct_iff mset_map)

definition plan_permitted :: "APIKey \<Rightarrow> UserSubscription \<Rightarrow> bool" where
  "plan_permitted key r = (case us_SubscriptionPlanID r of None \<Rightarrow> False
     | Some p \<Rightarrow> ak_AllowAllSubscriptions key \<or> (0 < p \<and> p \<in> set (ak_AllowedSubscriptionPlanIDs key)))"

definition eligible :: "zone \<Rightarrow> go_time \<Rightarrow> APIKey \<Rightarrow> UserSubscription list \<Rightarrow> UserSubscription set" where
  "eligible z now key rows = {r \<in> set rows. live r \<and> us_UserID r = ak_UserID key \<and>
     us_Status r = SubscriptionStatusActive \<and> now < us_ExpiresAt r \<and> plan_permitted key r \<and> accepts z now r}"

text \<open>
  What the resolver makes of the loop over the candidates: when the loop pays with the first candidate
  of its list that has a permitted plan and satisfies a condition, the request is paid by the
  least such row of the table in the order of the candidates, and by the balance if there is none.
\<close>

definition loop_pays_first ::
  "service \<Rightarrow> (UserSubscription \<Rightarrow> bool) \<Rightarrow> sub_world \<Rightarrow> int64 set option \<Rightarrow> UserSubscription list \<Rightarrow> bool" where
  "loop_pays_first s A w al cs \<longleftrightarrow>
     (case find (\<lambda>c. subscriptionUsesAllowedPlan c al \<and> A c) cs of
        None \<Rightarrow> fst (candidate_loop s al cs w) = Inr None
      | Some c \<Rightarrow> \<exists>a. fst (candidate_loop s al cs w) = Inr (Some a) \<and> pays_with c a)"

definition payable :: "go_time \<Rightarrow> APIKey \<Rightarrow> (UserSubscription \<Rightarrow> bool) \<Rightarrow> UserSubscription list \<Rightarrow> UserSubscription set" where
  "payable now key A rows = {r \<in> set rows. live r \<and> us_UserID r = ak_UserID key \<and>
     us_Status r = SubscriptionStatusActive \<and> now < us_ExpiresAt r \<and> plan_permitted key r \<and> A r}"

lemma firstUsable_payable:
  assumes wf: "wf_store (wd_db w)"
    and sel: "mset cs = mset (filter Q (rows_of w))" "\<And>r. Q r \<Longrightarrow> live r"
    and loop: "\<And>al ys. distinct (map us_ID ys) \<Longrightarrow>
      (\<And>c. c \<in> set ys \<Longrightarrow> table w (us_ID c) = Some c \<and> live c \<and> c \<in> set (rows_of w)) \<Longrightarrow> loop_pays_first s A w al ys"
    and P: "\<And>c. c \<in> set cs \<Longrightarrow> subscriptionUsesAllowedPlan c (map_option makeAllowedPlanIDSet al) \<longleftrightarrow> plan_permitted key c"
    and E: "{c \<in> set cs. plan_permitted key c \<and> A c} = E"
  shows "if E = {} then fst (firstUsableSubscriptionAsset al cs s w) = Inr None
    else \<exists>c \<in> E. (\<forall>d \<in> E. \<not> candidate_less d c) \<and>
      (\<exists>a. fst (firstUsableSubscriptionAsset al cs s w) = Inr (Some a) \<and> pays_with c a)"
proof -
  let ?al = "map_option makeAllowedPlanIDSet al" and ?ys = "stable_sort candidate_less cs"
  let ?P = "\<lambda>c. subscriptionUsesAllowedPlan c ?al \<and> A c"
  have sub: "set cs \<subseteq> {r \<in> set (rows_of w). live r}"
    using mset_eq_setD [OF sel(1)] sel(2) by auto
  have d: "distinct (map us_ID (rows_of w))" using wf by (simp add: wf_store_def rows_of_def)
  have "distinct (map us_ID cs)"
    by (subst distinct_map_mset [OF sel(1)]) (rule distinct_map_filter [OF d])
  then have ids: "distinct (map us_ID ?ys)" using distinct_map_mset [of ?ys cs us_ID] by simp
  have tab: "table w (us_ID c) = Some c \<and> live c \<and> c \<in> set (rows_of w)" if "c \<in> set ?ys" for c
  proof -
    have c: "c \<in> set (rows_of w)" "live c" using sub that by auto
    obtain r where r: "find_row (us_ID c) (rows_of w) = Some r"
      using c by (cases "find_row (us_ID c) (rows_of w)") (auto simp: find_row_def find_None_iff)
    have "r = c" using find_row_ID [OF r] c(1) d by (simp add: distinct_map inj_on_def)
    then show ?thesis using r c by (simp add: table_def)
  qed
  note loop' = loop [OF ids tab, unfolded loop_pays_first_def, of ?al]
  have eq: "{c \<in> set cs. ?P c} = E" using P E by blast
  show ?thesis
  proof (cases "find ?P ?ys")
    case None
    then have "E = {}" using eq find_sorted_None [of ?P cs] by auto
    then show ?thesis using loop' None by (simp add: firstUsableSubscriptionAsset_def sortSubscriptionCandidates_def)
  next
    case (Some c)
    have c: "c \<in> E" "\<forall>d \<in> E. \<not> candidate_less d c" using find_sorted_least [OF Some] eq by auto
    then show ?thesis using loop' Some
      by (auto simp: firstUsableSubscriptionAsset_def sortSubscriptionCandidates_def)
  qed
qed

lemma resolved_payable:
  assumes wf: "wf_store (wd_db w)" and now: "now_of w = now" and listed: "wd_fault w (wd_stmt w) = None"
    and loop: "\<And>al ys. distinct (map us_ID ys) \<Longrightarrow>
      (\<And>c. c \<in> set ys \<Longrightarrow> table w (us_ID c) = Some c \<and> live c \<and> c \<in> set (rows_of w)) \<Longrightarrow>
      loop_pays_first s A ((tick w)\<lparr>wd_stmt := Suc (wd_stmt w)\<rparr>) al ys"
    and run: "ResolveBillingAssetForRequest provider (Some key) (Some s) False w = (res, w')"
    and E: "payable now key A (rows_of w) = E"
  shows "if E = {} then res = map_sum (\<lambda>e. e) Some (resolveBalanceBillingAsset provider key)
    else \<exists>c \<in> E. (\<forall>d \<in> E. \<not> candidate_less d c) \<and> (\<exists>a. res = Inr (Some a) \<and> pays_with c a)"
proof -
  let ?r = "resolveSubscriptionBillingAsset key (Some s) w"
  let ?w = "(tick w)\<lparr>wd_stmt := Suc (wd_stmt w)\<rparr>"
  have w: "wf_store (wd_db ?w)" "rows_of ?w = rows_of w" "table ?w = table w"
    using wf by (simp_all add: rows_of_def table_def fun_eq_iff)
  have query: "sql_query q (tick w) = (q (rows_of w), ?w)" for q :: "UserSubscription list \<Rightarrow> UserSubscription list result"
    using listed by (simp add: sql_query_def sql_exec_def tick_def rows_of_def Let_def)
  have live_map: "map (\<lambda>x. the (cloneUserSubscription (Some x))) (userSubscriptionEntitiesToService xs) = xs"
    if "\<And>x. x \<in> set xs \<Longrightarrow> live x" for xs
    using that by (induction xs) (auto simp: userSubscriptionEntitiesToService_def)
  note first = firstUsable_payable [of ?w _ _ s A, OF w(1), unfolded w(2,3), OF _ _ loop]
  have main: "if E = {} then fst ?r = Inr None
    else \<exists>c \<in> E. (\<forall>d \<in> E. \<not> candidate_less d c) \<and> (\<exists>a. fst ?r = Inr (Some a) \<and> pays_with c a)"
  proof (cases "ak_AllowAllSubscriptions key")
    case True
    let ?Q = "\<lambda>r. us_UserID r = ak_UserID key \<and> us_Status r = SubscriptionStatusActive \<and> now < us_ExpiresAt r \<and> live r"
    let ?cs = "stable_sort (\<lambda>a b. us_CreatedAt b < us_CreatedAt a) (filter ?Q (rows_of w))"
    have "ListActiveSubscriptions (ak_UserID key) w = (Inr ?cs, ?w)"
      using live_map [of ?cs]
      by (simp add: ListActiveSubscriptions_def repo_ListActiveByUserID_def Let_def query now)
    then have r: "?r = firstUsableSubscriptionAsset None ?cs s ?w"
      using True by (simp add: resolveSubscriptionBillingAsset_def)
    show ?thesis unfolding r
      by (rule first [where Q = ?Q and key = key])
        (use True in \<open>auto simp: E [symmetric] payable_def plan_permitted_def subscriptionUsesAllowedPlan_def
            split: option.splits\<close>)
  next
    case False
    let ?ids = "normalizeSubscriptionPlanIDs (ak_AllowedSubscriptionPlanIDs key)"
    have ids: "set ?ids = {p \<in> set (ak_AllowedSubscriptionPlanIDs key). 0 < p}"
      by (auto simp: normalizeSubscriptionPlanIDs_def)
    show ?thesis
    proof (cases "?ids = []")
      case True
      have "E = {}" using True False ids
        by (auto simp: E [symmetric] payable_def plan_permitted_def split: option.splits)
      then show ?thesis using True False
        by (simp add: resolveSubscriptionBillingAsset_def ListActiveSubscriptionsByPlanIDs_def
            firstUsableSubscriptionAsset_def sortSubscriptionCandidates_def)
    next
      case ne: False
      let ?Q = "\<lambda>r. us_UserID r = ak_UserID key \<and> us_Status r = SubscriptionStatusActive \<and> now < us_ExpiresAt r
          \<and> (case us_SubscriptionPlanID r of None \<Rightarrow> False | Some p \<Rightarrow> p \<in> set ?ids) \<and> live r"
      let ?cs = "stable_sort candidate_less (filter ?Q (rows_of w))"
      have "ListActiveSubscriptionsByPlanIDs (ak_UserID key) (ak_AllowedSubscriptionPlanIDs key) w = (Inr ?cs, ?w)"
        using ne live_map [of ?cs]
        by (simp add: ListActiveSubscriptionsByPlanIDs_def repo_ListActiveByUserIDAndPlanIDs_def Let_def query now)
      moreover have "ak_AllowedSubscriptionPlanIDs key \<noteq> []" using ne by (auto simp: normalizeSubscriptionPlanIDs_def)
      ultimately have r: "?r = firstUsableSubscriptionAsset (Some (ak_AllowedSubscriptionPlanIDs key)) ?cs s ?w"
        using False by (simp add: resolveSubscriptionBillingAsset_def)
      show ?thesis unfolding r
        by (rule first [where Q = ?Q and key = key])
          (use False ids in \<open>auto simp: E [symmetric] payable_def plan_permitted_def subscriptionUsesAllowedPlan_def
              makeAllowedPlanIDSet_def split: option.splits\<close>)
    qed
  qed
  then show ?thesis using run by (auto simp: ResolveBillingAssetForRequest_def split: prod.splits sum.splits option.splits if_splits)
qed

text \<open>
  C29. The asset that pays for a request is the best one the key may spend. On a database without
  faults and at one time, consider the subscriptions that the key may use: live rows of the key's user
  that are active, not expired, of a plan the key permits, and accepted by the pre-check. If there is
  one, the request is paid by the one that comes first in the order of expiry, then creation, then
  identifier, with that subscription's plan and rate. Only if there is none does the balance pay, or
  the request fail for lack of permission or of balance.
\<close>

theorem earliest_usable_subscription_pays:
  assumes "healthy w" "wf_store (wd_db w)" "\<forall>n. wd_clock w n = now"
    and "\<forall>r \<in> set (rows_of w). timely (sv_zone s) now r"
    and run: "ResolveBillingAssetForRequest provider (Some key) (Some s) False w = (res, w')"
  defines "E \<equiv> eligible (sv_zone s) now key (rows_of w)"
  shows "if E = {} then res = map_sum (\<lambda>e. e) Some (resolveBalanceBillingAsset provider key)
    else \<exists>c \<in> E. (\<forall>d \<in> E. \<not> candidate_less d c) \<and> (\<exists>a. res = Inr (Some a) \<and> pays_with c a)"
proof (rule resolved_payable [OF assms(2) _ _ _ run])
  show "now_of w = now" "wd_fault w (wd_stmt w) = None"
    using assms(1,3) by (simp_all add: now_of_def healthy_def)
  show "payable now key (accepts (sv_zone s) now) (rows_of w) = E"
    by (simp add: E_def eligible_def payable_def)
  let ?w = "(tick w)\<lparr>wd_stmt := Suc (wd_stmt w)\<rparr>"
  have w: "healthy ?w" "wf_store (wd_db ?w)" "\<forall>n. wd_clock ?w n = now" "table ?w = table w"
    using assms(1-3) by (simp_all add: table_def rows_of_def fun_eq_iff)
  show "loop_pays_first s (accepts (sv_zone s) now) ?w al ys"
    if "distinct (map us_ID ys)"
      "\<And>c. c \<in> set ys \<Longrightarrow> table w (us_ID c) = Some c \<and> live c \<and> c \<in> set (rows_of w)" for al ys
    unfolding loop_pays_first_def
    by (rule candidate_loop_find [OF w(1-3) that(1)]) (use that(2) w(4) assms(4) in auto)
qed

definition demo_key :: APIKey where
  "demo_key = \<lparr>ak_ID = 10, ak_UserID = 7, ak_Name = ''k'', ak_Status = ''active'', ak_IPWhitelist = [],
     ak_IPBlacklist = [], ak_User = Some \<lparr>ur_ID = 7, ur_Balance = Fin 5\<rparr>, ak_AllowedPlatformIDs = [3],
     ak_AllowedSubscriptionPlanIDs = [5], ak_AllowAllSubscriptions = False, ak_AllowBalance = True,
     ak_Quota = f_zero, ak_QuotaUsed = f_zero, ak_ExpiresAt = None, ak_RateLimit5h = f_zero,
     ak_RateLimit1d = f_zero, ak_RateLimit7d = f_zero, ak_Usage5h = f_zero, ak_Usage1d = f_zero,
     ak_Usage7d = f_zero, ak_Window5hStart = None, ak_Window1dStart = None, ak_Window7dStart = None\<rparr>"

lemma demo_limits:
  "us_DailyLimitUSDSnapshot demo_sub = Some (Fin 10)" "us_WeeklyLimitUSDSnapshot demo_sub = None"
  "us_MonthlyLimitUSDSnapshot demo_sub = None" "us_DailyUsageUSD demo_sub = Fin 3"
  "us_UserID demo_sub = 7" "us_SubscriptionPlanID demo_sub = Some 5" "us_Status demo_sub = ''active''"
  "us_ExpiresAt demo_sub = 104 * week"
  by (simp_all add: demo_sub_def)

lemma demo_usable: "usable_status (102 * week + 5) demo_sub"
  by (simp add: usable_status_def demo_limits subscription_status_defs week_def duration_defs)

lemma demo_accepts: "accepts utc_zone (102 * week + 5) demo_sub"
proof -
  have "effective_usage utc_zone (102 * week + 5) DailyWindow demo_sub \<in> {Fin 0, Fin 3}"
    by (simp add: effective_usage_def demo_limits)
  then show ?thesis using demo_usable
    by (auto simp: accepts_def demo_limits limit_reached_def hasUsageLimit_def)
qed

lemma demo_timely: "timely utc_zone (102 * week + 5) demo_sub"
  using utc_midnight demo_times by (simp add: timely_def)

lemma demo_eligible: "eligible utc_zone (102 * week + 5) demo_key [demo_sub] = {demo_sub}"
proof -
  have "102 * week + 5 < 104 * week" by (simp add: week_def duration_defs)
  then show ?thesis
    by (auto simp: eligible_def demo_accepts demo_limits plan_permitted_def demo_key_def
        SubscriptionStatusActive_def)
qed

theorem earliest_usable_subscription_pays_witness:
  "\<exists>a. fst (ResolveBillingAssetForRequest None (Some demo_key) (Some demo_service) False
       (demo_world (102 * week + 5) [demo_sub])) = Inr (Some a) \<and> ra_SubscriptionID a = Some 21"
proof -
  let ?w = "demo_world (102 * week + 5) [demo_sub]"
  obtain res w' where run: "ResolveBillingAssetForRequest None (Some demo_key) (Some demo_service) False ?w = (res, w')"
    by (cases "ResolveBillingAssetForRequest None (Some demo_key) (Some demo_service) False ?w")
  have "\<forall>n. wd_clock ?w n = 102 * week + 5" "\<forall>r \<in> set (rows_of ?w). timely (sv_zone demo_service) (102 * week + 5) r"
    by (simp_all add: demo_world_def rows_of_def demo_service_def demo_timely)
  from earliest_usable_subscription_pays [OF demo_world_facts(1) demo_world_wf this run] run
  show ?thesis by (auto simp: demo_service_def demo_world_facts demo_eligible pays_with_def)
qed

section \<open>Whose subscription pays\<close>

text \<open>Maintenance keeps the owner, the plan and the rate of every row.\<close>

definition keeps_terms :: "sub_world \<Rightarrow> sub_world \<Rightarrow> bool" where
  "keeps_terms w w' \<longleftrightarrow> (wf_store (wd_db w) \<longrightarrow> wf_store (wd_db w')) \<and>
     (\<forall>k r. table w k = Some r \<longrightarrow> (\<exists>r'. table w' k = Some r' \<and> same_terms r' r))"

lemma keeps_terms_trans: "keeps_terms w w1 \<Longrightarrow> keeps_terms w1 w2 \<Longrightarrow> keeps_terms w w2"
  unfolding keeps_terms_def by (meson same_terms_trans)

lemma keeps_terms_refl [simp]: "keeps_terms w w" "keeps_terms w (tick w)" "keeps_terms (tick w) v = keeps_terms w v"
  by (simp_all add: keeps_terms_def)

lemma keeps_terms_row:
  assumes "row_step sid f w w'" "\<And>r. same_terms (f r) r"
  shows "keeps_terms w w'"
proof -
  have "\<exists>r'. table w' k = Some r' \<and> same_terms r' r" if "table w k = Some r" for k r
    using row_stepD(1,2) [OF assms(1)] that assms(2) by (cases "k = sid") auto
  then show ?thesis using row_stepD(4) [OF assms(1)] by (simp add: keeps_terms_def)
qed

lemma keeps_terms_reset: "reset_step k st sub d w = (r, w') \<Longrightarrow> keeps_terms w w'"
proof -
  assume run: "reset_step k st sub d w = (r, w')"
  have "keeps_terms v v'" if "repo_reset k sid e n v = (q, v')" for sid e n v q v'
    using repo_reset_step [OF that] by (cases k) (auto intro: keeps_terms_row simp: same_terms_def)
  then show ?thesis using run
    by (auto simp: reset_step_def split: option.splits prod.splits sum.splits)
qed

lemma keeps_terms_cache: "keeps_terms w (snd (invalidateSubscriptionCache s u sid w))"
  by (cases "invalidateSubscriptionCache s u sid w") (auto simp: keeps_terms_def dest: cache_frame)

lemma keeps_terms_CheckAndResetWindows:
  assumes "CheckAndResetWindows s sub w = (r, w')"
  shows "keeps_terms w w'"
proof -
  have 3: "keeps_terms a b \<Longrightarrow> keeps_terms b d \<Longrightarrow> keeps_terms d e \<Longrightarrow> keeps_terms a e" for a b d e
    using keeps_terms_trans by blast
  show ?thesis
    using assms unfolding CheckAndResetWindows_def Let_def
    by (auto split: prod.splits sum.splits if_splits dest!: keeps_terms_reset
        intro: keeps_terms_trans 3 keeps_terms_trans [OF 3 keeps_terms_cache])
qed

lemma reset_step_ID: "reset_step k st sub d w = (Inr (sub', d'), w') \<Longrightarrow> us_ID sub' = us_ID sub"
  by (auto simp: reset_step_def split: option.splits prod.splits sum.splits)

lemma CheckAndResetWindows_ID: "CheckAndResetWindows s sub w = (Inr sub', w') \<Longrightarrow> us_ID sub' = us_ID sub"
  by (auto simp: CheckAndResetWindows_def Let_def split: prod.splits sum.splits dest!: reset_step_ID)

lemma EnsureWindowMaintenance_terms:
  assumes "EnsureWindowMaintenance s (Some sub) w = (r, w')" "wf_store (wd_db w)"
  shows "keeps_terms w w' \<and> (case r of Inl _ \<Rightarrow> True | Inr r' \<Rightarrow> table w' (us_ID sub) = Some r')"
proof -
  have a: "keeps_terms v v'" if "CheckAndActivateWindow s x v = (q, v')" for x v q v'
    using that
    by (auto simp: CheckAndActivateWindow_def checkAndActivateWindowAt_def repo_ActivateWindows_def
        split: if_splits dest!: conditional_step intro: keeps_terms_row [where f = "\<lambda>r. r"])
      (erule keeps_terms_row [of _ _ "tick v", simplified], simp add: same_terms_def)
  have same: "keeps_terms v v' \<and> table v' = table v" if "wd_db v' = wd_db v" for v v' :: sub_world
    using that by (simp add: keeps_terms_def table_def [abs_def] rows_of_def)
  have get: "keeps_terms v v' \<and> (\<forall>r'. q = Inr r' \<longrightarrow> table v' k = Some r')"
    if "repo_GetByID k v = (q, v')" "wf_store (wd_db v)" for k v q v'
  proof -
    have "wd_db v' = wd_db v"
      using that(1) by (auto simp: repo_GetByID_def split: prod.splits sum.splits dest: query_cases)
    then show ?thesis using same [of v' v] that GetByID_Inr [of k v _ v'] by (cases q) auto
  qed
  obtain q1 w1 where 1: "(if \<not> IsWindowActivated sub then CheckAndActivateWindow s sub w else (Inr (), w)) = (q1, w1)"
    by (cases "if \<not> IsWindowActivated sub then CheckAndActivateWindow s sub w else (Inr (), w)")
  then have k1: "keeps_terms w w1" using a by (auto split: if_splits)
  obtain q2 w2 where 2: "CheckAndResetWindows s sub w1 = (q2, w2)" by (cases "CheckAndResetWindows s sub w1")
  note k2 = keeps_terms_CheckAndResetWindows [OF 2]
  have wf2: "wf_store (wd_db w2)" using k1 k2 assms(2) by (simp add: keeps_terms_def)
  have k: "keeps_terms w w2" using keeps_terms_trans [OF k1 k2] .
  show ?thesis
  proof (cases q1)
    case (Inl e)
    then show ?thesis using assms(1) 1 k1 by (auto simp: EnsureWindowMaintenance_def)
  next
    case (Inr u)
    show ?thesis
    proof (cases q2)
      case (Inl e)
      then have "r = Inl e" "w' = w2"
        using assms(1) 1 2 \<open>q1 = Inr u\<close> by (simp_all add: EnsureWindowMaintenance_def)
      then show ?thesis using k by simp
    next
      case (Inr sub')
      have "repo_GetByID (us_ID sub) w2 = (r, w')"
        using assms(1) 1 2 \<open>q1 = Inr u\<close> Inr CheckAndResetWindows_ID [of s sub w1 sub' w2]
        by (simp add: EnsureWindowMaintenance_def)
      from get [OF this wf2] keeps_terms_trans [OF k] show ?thesis by (auto split: sum.splits)
    qed
  qed
qed

lemma try_candidate_terms:
  assumes "try_candidate s al c w = (r, w')" "wf_store (wd_db w)" "table w (us_ID c) = Some c0" "same_terms c0 c"
  shows "keeps_terms w w' \<and> (\<forall>a. r = Some (Inr (Some a)) \<longrightarrow> subscriptionUsesAllowedPlan c al \<and> pays_with c a)"
proof (cases "subscriptionUsesAllowedPlan c al")
  case False
  then show ?thesis using assms(1) by (simp add: try_candidate_def)
next
  case True
  let ?z = "sv_zone s"
  obtain n e c1 where v: "ValidateAndCheckLimitsAt ?z (now_of w) c = (n, e, c1)"
    by (cases "ValidateAndCheckLimitsAt ?z (now_of w) c")
  have t1: "same_terms c1 c" by (rule Validate_terms [OF v])
  have pays: "pays_with c a" if "resolvedSubscriptionBillingAsset (Some c') = Some a" "same_terms c' c" for c' a
    using resolved_pays [OF that(2) uses_plan [OF True]] that(1) by simp
  show ?thesis
  proof (cases n)
    case False
    then show ?thesis using assms(1) True v pays t1
      by (auto simp: try_candidate_def ValidateAndCheckLimits_def split: option.splits if_splits)
  next
    case n: True
    obtain q w1 where run: "EnsureWindowMaintenance s (Some c1) (tick w) = (q, w1)"
      by (cases "EnsureWindowMaintenance s (Some c1) (tick w)")
    note m = EnsureWindowMaintenance_terms [OF run]
    have k: "keeps_terms w w1" using m assms(2) by simp
    show ?thesis
    proof (cases q)
      case (Inl err)
      then show ?thesis using assms(1) True v n run k
        by (auto simp: try_candidate_def ValidateAndCheckLimits_def)
    next
      case (Inr r1)
      have "us_ID c1 = us_ID c" using t1 by (simp add: same_terms_def)
      moreover obtain r' where "table w1 (us_ID c) = Some r'" "same_terms r' c0"
        using k assms(3) by (auto simp: keeps_terms_def)
      ultimately have "same_terms r1 c0" using m assms(2) Inr by simp
      then have r1: "same_terms r1 c" using assms(4) same_terms_trans by blast
      obtain n2 e2 c2 where v2: "ValidateAndCheckLimitsAt ?z (now_of w1) r1 = (n2, e2, c2)"
        by (cases "ValidateAndCheckLimitsAt ?z (now_of w1) r1")
      have "same_terms c2 c" using same_terms_trans [OF Validate_terms [OF v2] r1] .
      then show ?thesis using assms(1) True v n run k Inr v2 pays keeps_terms_trans [OF k, of "tick w1"]
        by (auto simp: try_candidate_def ValidateAndCheckLimits_def split: option.splits if_splits)
    qed
  qed
qed

lemma candidate_loop_terms:
  assumes "candidate_loop s al cs w = (Inr (Some a), w')" "wf_store (wd_db w)"
    and "\<And>c. c \<in> set cs \<Longrightarrow> \<exists>c0. table w (us_ID c) = Some c0 \<and> same_terms c0 c"
  shows "\<exists>c \<in> set cs. subscriptionUsesAllowedPlan c al \<and> pays_with c a"
  using assms
proof (induction cs arbitrary: w)
  case (Cons c cs)
  obtain r w1 where t: "try_candidate s al c w = (r, w1)" by (cases "try_candidate s al c w")
  obtain c0 where c0: "table w (us_ID c) = Some c0" "same_terms c0 c" using Cons.prems(3) [of c] by auto
  note k = try_candidate_terms [OF t Cons.prems(2) c0]
  show ?case
  proof (cases r)
    case None
    have "\<exists>c0. table w1 (us_ID d) = Some c0 \<and> same_terms c0 d" if "d \<in> set cs" for d
      using Cons.prems(3) [of d] that k unfolding keeps_terms_def by (metis list.set_intros(2) same_terms_trans)
    then show ?thesis using Cons.IH [of w1] Cons.prems(1,2) t None k by (auto simp: keeps_terms_def)
  next
    case (Some x)
    then show ?thesis using Cons.prems(1) t k by auto
  qed
qed simp

lemma resolved_asset_permitted:
  assumes "wf_store (wd_db w)"
    and run: "ResolveBillingAssetForRequest provider (Some key) svc skip w = (Inr (Some a), w')"
  shows "(\<exists>r \<in> set (rows_of w). live r \<and> us_UserID r = ak_UserID key \<and>
       us_Status r = SubscriptionStatusActive \<and> plan_permitted key r \<and> pays_with r a) \<or>
    (ra_Source a = BillingSourceBalance \<and> ak_AllowBalance key \<and>
       (\<exists>u. ak_User key = Some u \<and> \<not> f_le (ur_Balance u) f_zero))"
proof (cases "\<exists>v. resolveSubscriptionBillingAsset key svc w = (Inr (Some a), v)")
  case False
  then have "resolveBalanceBillingAsset provider key = Inr a"
    using run by (cases "resolveBalanceBillingAsset provider key")
      (auto simp: ResolveBillingAssetForRequest_def split: if_splits prod.splits sum.splits option.splits)
  then show ?thesis
    by (auto simp: resolveBalanceBillingAsset_def split: if_splits option.splits)
next
  case True
  then obtain v where sub: "resolveSubscriptionBillingAsset key svc w = (Inr (Some a), v)" by blast
  then obtain s where s: "svc = Some s" by (cases svc) (auto simp: resolveSubscriptionBillingAsset_def)
  have d: "distinct (map us_ID (rows_of w))" using assms(1) by (simp add: wf_store_def rows_of_def)
  have tab: "table w' (us_ID c) = Some c" if c: "c \<in> set (rows_of w)" and db: "wd_db w' = wd_db w" for c w'
  proof -
    obtain r where r: "find_row (us_ID c) (rows_of w) = Some r"
      using c by (cases "find_row (us_ID c) (rows_of w)") (auto simp: find_row_def find_None_iff)
    have "r = c" using find_row_ID [OF r] c d by (simp add: distinct_map inj_on_def)
    then show ?thesis using r db by (simp add: table_def rows_of_def)
  qed
  have fin: ?thesis if list: "firstUsableSubscriptionAsset al cs s w1 = (Inr (Some a), v)" "wd_db w1 = wd_db w"
    and cs: "\<And>c. c \<in> set cs \<Longrightarrow> c \<in> set (rows_of w) \<and> live c \<and> us_UserID c = ak_UserID key \<and>
      us_Status c = SubscriptionStatusActive"
    and plan: "\<And>c. c \<in> set cs \<Longrightarrow> subscriptionUsesAllowedPlan c (map_option makeAllowedPlanIDSet al) \<Longrightarrow> plan_permitted key c"
    for al cs w1
  proof -
    obtain c where "c \<in> set cs" "subscriptionUsesAllowedPlan c (map_option makeAllowedPlanIDSet al)" "pays_with c a"
      using candidate_loop_terms [of s "map_option makeAllowedPlanIDSet al" "stable_sort candidate_less cs" w1 a v]
        list assms(1) tab cs
      by (auto simp: firstUsableSubscriptionAsset_def sortSubscriptionCandidates_def)
    then show ?thesis using cs plan by blast
  qed
  have qry: "wd_db w1 = wd_db w \<and> r = q (rows_of w)" if "sql_query q (tick w) = (Inr r', w1)" "r = Inr r'"
    for q :: "UserSubscription list \<Rightarrow> UserSubscription list result" and r r' w1
    using sql_exec_D [OF that(1) [unfolded sql_query_def]] that(2) by (auto simp: rows_of_def)
  have clone: "map (\<lambda>x. the (cloneUserSubscription (Some x))) xs = xs" for xs by (induction xs) simp_all
  have ent: "x \<in> set xs" if "x \<in> set (userSubscriptionEntitiesToService xs)" "\<And>y. y \<in> set xs \<Longrightarrow> live y" for x xs
    using that by (auto simp: userSubscriptionEntitiesToService_def)
  show ?thesis
  proof (cases "ak_AllowAllSubscriptions key")
    case True
    let ?q = "\<lambda>rows. Inr (stable_sort (\<lambda>a b. us_CreatedAt b < us_CreatedAt a)
          (filter (\<lambda>r. us_UserID r = ak_UserID key \<and> us_Status r = SubscriptionStatusActive
             \<and> now_of w < us_ExpiresAt r \<and> live r) rows)) :: UserSubscription list result"
    obtain xs w1 where q: "sql_query ?q (tick w) = (Inr xs, w1)"
      and f: "firstUsableSubscriptionAsset None (userSubscriptionEntitiesToService xs) s w1 = (Inr (Some a), v)"
      using sub s True
      by (auto simp: resolveSubscriptionBillingAsset_def ListActiveSubscriptions_def clone
          repo_ListActiveByUserID_def Let_def split: prod.splits sum.splits if_splits)
    have xs: "set xs \<subseteq> {r \<in> set (rows_of w). us_UserID r = ak_UserID key \<and> us_Status r = SubscriptionStatusActive \<and> live r}"
      and db: "wd_db w1 = wd_db w" using qry [OF q refl] by auto
    show ?thesis
      by (rule fin [OF f db]) (use xs ent True in \<open>auto simp: plan_permitted_def
          subscriptionUsesAllowedPlan_def split: option.splits\<close>)
  next
    case False
    let ?ids = "normalizeSubscriptionPlanIDs (ak_AllowedSubscriptionPlanIDs key)"
    let ?q = "\<lambda>rows. Inr (stable_sort candidate_less
          (filter (\<lambda>r. us_UserID r = ak_UserID key \<and> us_Status r = SubscriptionStatusActive
             \<and> now_of w < us_ExpiresAt r
             \<and> (case us_SubscriptionPlanID r of None \<Rightarrow> False | Some p \<Rightarrow> p \<in> set ?ids)
             \<and> live r) rows)) :: UserSubscription list result"
    have "?ids \<noteq> []"
      using sub s False by (auto simp: resolveSubscriptionBillingAsset_def ListActiveSubscriptionsByPlanIDs_def
          firstUsableSubscriptionAsset_def sortSubscriptionCandidates_def split: if_splits)
    then obtain xs w1 where q: "sql_query ?q (tick w) = (Inr xs, w1)"
      and f: "firstUsableSubscriptionAsset (Some (ak_AllowedSubscriptionPlanIDs key))
        (userSubscriptionEntitiesToService xs) s w1 = (Inr (Some a), v)"
      using sub s False
      by (auto simp: resolveSubscriptionBillingAsset_def ListActiveSubscriptionsByPlanIDs_def clone
          repo_ListActiveByUserIDAndPlanIDs_def Let_def split: prod.splits sum.splits if_splits)
    have xs: "set xs \<subseteq> {r \<in> set (rows_of w). us_UserID r = ak_UserID key \<and> us_Status r = SubscriptionStatusActive \<and> live r}"
      and db: "wd_db w1 = wd_db w" using qry [OF q refl] by auto
    show ?thesis
      by (rule fin [OF f db]) (use xs ent False in \<open>auto simp: plan_permitted_def makeAllowedPlanIDSet_def
          subscriptionUsesAllowedPlan_def split: option.splits\<close>)
  qed
qed

definition demo_balance :: ResolvedBillingAsset where
  "demo_balance = \<lparr>ra_Source = BillingSourceBalance, ra_SubscriptionID = None, ra_PlanID = None,
     ra_RateMultiplier = Fin 1, ra_Subscription = None\<rparr>"

lemma demo_balance_pays:
  "ResolveBillingAssetForRequest None (Some (demo_key\<lparr>ak_AllowedSubscriptionPlanIDs := []\<rparr>)) svc False w =
     (Inr (Some demo_balance), w)"
  by (cases svc) (simp_all add: ResolveBillingAssetForRequest_def resolveSubscriptionBillingAsset_def demo_key_def
      resolveBalanceBillingAsset_def globalBalanceRateMultiplier_def defaultGlobalBalanceRateMultiplier_def
      demo_balance_def)

text \<open>
  C30. No request is ever paid by a subscription the key may not spend. Whatever the database fails to
  do meanwhile, when a subscription is the resolved asset, it is a row of the table that is live, belongs
  to the key's user, is active and has a plan the key permits, and the asset carries exactly that row's
  identifier, plan and (not negative) rate. When the balance is the asset, the key allows the balance
  and the user's balance is not zero or less.
\<close>

theorem only_permitted_assets_pay:
  assumes "wf_store (wd_db w)"
    and run: "ResolveBillingAssetForRequest provider (Some key) svc skip w = (Inr (Some a), w')"
  shows "(\<exists>r \<in> set (rows_of w). live r \<and> us_UserID r = ak_UserID key \<and>
       us_Status r = SubscriptionStatusActive \<and> plan_permitted key r \<and> pays_with r a) \<or>
    (ra_Source a = BillingSourceBalance \<and> ak_AllowBalance key \<and>
       (\<exists>u. ak_User key = Some u \<and> \<not> f_le (ur_Balance u) f_zero))"
  using assms by (rule resolved_asset_permitted)

theorem only_permitted_assets_pay_witness:
  "\<exists>a. fst (ResolveBillingAssetForRequest None (Some (demo_key\<lparr>ak_AllowedSubscriptionPlanIDs := []\<rparr>))
       (Some demo_service) False (demo_world 0 [demo_sub])) = Inr (Some a) \<and>
     ra_Source a = BillingSourceBalance \<and> ak_AllowBalance demo_key"
proof -
  have run: "ResolveBillingAssetForRequest None (Some (demo_key\<lparr>ak_AllowedSubscriptionPlanIDs := []\<rparr>))
      (Some demo_service) False (demo_world 0 [demo_sub]) = (Inr (Some demo_balance), demo_world 0 [demo_sub])"
    by (rule demo_balance_pays)
  have "ak_AllowBalance demo_key" by (simp add: demo_key_def)
  then show ?thesis using only_permitted_assets_pay [OF demo_world_wf run] run by (simp add: demo_balance_def)
qed

section \<open>A database outage\<close>

text \<open>
  Between the listing of the candidates and the end of the request every statement fails. A statement
  of the maintenance is then an error whatever it is.
\<close>

definition down :: "sub_world \<Rightarrow> bool" where
  "down w \<longleftrightarrow> (\<forall>n \<ge> wd_stmt w. wd_fault w n \<noteq> None)"

definition maintenance_due :: "zone \<Rightarrow> go_time \<Rightarrow> UserSubscription \<Rightarrow> bool" where
  "maintenance_due z now r \<longleftrightarrow> \<not> IsWindowActivated r \<or> canAutomaticallyResetDailyAt z r now \<or>
     canAutomaticallyResetWeeklyAt z r now \<or> canAutomaticallyResetMonthlyAt z r now"

definition fails_in :: "sub_world \<Rightarrow> 'a result \<times> sub_world \<Rightarrow> bool" where
  "fails_in w x \<longleftrightarrow> (\<exists>e w'. x = (Inl e, w') \<and> down w' \<and> wd_clock w' = wd_clock w)"

lemma fails_in_tick [simp]: "fails_in (tick w) x = fails_in w x" "down (tick w) = down w"
  by (simp_all add: fails_in_def down_def)

lemma down_conditional:
  assumes "down w"
  shows "fails_in w (translateConditionalWindowReset sid (sql_update_many p f w))"
proof -
  obtain e where "wd_fault w (wd_stmt w) = Some e" using assms by (auto simp: down_def)
  then show ?thesis using assms
    by (simp add: fails_in_def translateConditionalWindowReset_def sql_update_many_def sql_exec_def Let_def down_def)
qed

lemma down_reset_step:
  assumes "down w"
  shows "fails_in w (reset_step k (Some ws) x d w)"
proof -
  have "fails_in w (repo_reset k (us_ID x) (window_start k x) ws w)"
    unfolding repo_reset_eq by (rule down_conditional [OF assms])
  then show ?thesis by (auto simp: fails_in_def reset_step_def)
qed

lemma down_CheckAndResetWindows:
  assumes "down w" and now: "now_of w = now"
    and due: "canAutomaticallyResetDailyAt (sv_zone s) r now \<or> canAutomaticallyResetWeeklyAt (sv_zone s) r now \<or>
      canAutomaticallyResetMonthlyAt (sv_zone s) r now"
  shows "fails_in w (CheckAndResetWindows s r w)"
proof -
  have fails: "\<exists>e w'. reset_step k (Some ws) x d (tick w) = (Inl e, w') \<and> down w' \<and> wd_clock w' = wd_clock w" for k ws x d
    using down_reset_step [of "tick w" k ws x d] assms(1) by (simp add: fails_in_def)
  have none: "reset_step k None x d v = (Inr (x, d), v)" for k x d v by (simp add: reset_step_def)
  have cases: "(\<exists>ws. automaticDailyWindowStartAt (sv_zone s) r now = Some ws) \<or>
      automaticDailyWindowStartAt (sv_zone s) r now = None \<and>
        (\<exists>ws. automaticWindowStartAt (sv_zone s) r (us_WeeklyWindowStart r) week now = Some ws) \<or>
      automaticDailyWindowStartAt (sv_zone s) r now = None \<and>
        automaticWindowStartAt (sv_zone s) r (us_WeeklyWindowStart r) week now = None \<and>
        (\<exists>ws. automaticWindowStartAt (sv_zone s) r (us_MonthlyWindowStart r) month now = Some ws)"
    using due by (auto simp: canAutomaticallyResetDailyAt_def canAutomaticallyResetWeeklyAt_def
        canAutomaticallyResetMonthlyAt_def)
  then show ?thesis
  proof (elim disjE exE conjE)
    fix ws assume "automaticDailyWindowStartAt (sv_zone s) r now = Some ws"
    then show ?thesis using fails [of DailyWindow ws r False] now by (auto simp: CheckAndResetWindows_def fails_in_def)
  next
    fix ws assume "automaticDailyWindowStartAt (sv_zone s) r now = None"
      "automaticWindowStartAt (sv_zone s) r (us_WeeklyWindowStart r) week now = Some ws"
    then show ?thesis using fails [of WeeklyWindow ws r False] now
      by (auto simp: CheckAndResetWindows_def fails_in_def none)
  next
    fix ws assume "automaticDailyWindowStartAt (sv_zone s) r now = None"
      "automaticWindowStartAt (sv_zone s) r (us_WeeklyWindowStart r) week now = None"
      "automaticWindowStartAt (sv_zone s) r (us_MonthlyWindowStart r) month now = Some ws"
    then show ?thesis using fails [of MonthlyWindow ws r False] now
      by (auto simp: CheckAndResetWindows_def fails_in_def none)
  qed
qed

lemma down_EnsureWindowMaintenance:
  assumes "down w" and clock: "\<forall>n. wd_clock w n = now" and due: "maintenance_due (sv_zone s) now r"
  shows "fails_in w (EnsureWindowMaintenance s (Some r) w)"
proof (cases "IsWindowActivated r")
  case True
  have "fails_in w (CheckAndResetWindows s r w)"
    by (rule down_CheckAndResetWindows [OF assms(1)])
      (use due True clock in \<open>auto simp: maintenance_due_def now_of_def\<close>)
  then show ?thesis using True by (auto simp: EnsureWindowMaintenance_def fails_in_def)
next
  case False
  have "fails_in w (CheckAndActivateWindow s r w)"
    using False down_conditional [of "tick w"] assms(1)
    by (simp add: CheckAndActivateWindow_def checkAndActivateWindowAt_def repo_ActivateWindows_def)
  then show ?thesis using False by (auto simp: EnsureWindowMaintenance_def fails_in_def)
qed

lemma down_try_candidate:
  assumes "down w" and clock: "\<forall>n. wd_clock w n = now"
  obtains w' where "down w'" "\<forall>n. wd_clock w' n = now"
    "if subscriptionUsesAllowedPlan c al \<and> accepts (sv_zone s) now c \<and> \<not> maintenance_due (sv_zone s) now c
     then \<exists>a. try_candidate s al c w = (Some (Inr (Some a)), w') \<and> pays_with c a
     else try_candidate s al c w = (None, w')"
proof (cases "subscriptionUsesAllowedPlan c al")
  case False
  then show ?thesis using that [of w] assms by (simp add: try_candidate_def)
next
  case True
  let ?z = "sv_zone s"
  have now: "now_of w = now" using clock by (simp add: now_of_def)
  obtain n e c1 where v: "ValidateAndCheckLimitsAt ?z now c = (n, e, c1)"
    by (cases "ValidateAndCheckLimitsAt ?z now c")
  have acc: "accepts ?z now c \<longleftrightarrow> e = None" using accepts_Validate [of ?z now c] v by simp
  have due: "n \<longleftrightarrow> usable_status now c \<and> maintenance_due ?z now c"
    using v Validate_unusable [of now c ?z]
    by (cases "usable_status now c") (auto simp: Validate_usable maintenance_due_def)
  show ?thesis
  proof (cases n)
    case False
    have "accepts ?z now c \<Longrightarrow> \<not> maintenance_due ?z now c" using False due by (simp add: accepts_def)
    moreover have "try_candidate s al c w =
        (if e = None then Some (Inr (resolvedSubscriptionBillingAsset (Some c1))) else None, tick w)"
      using True v False now Validate_unavailable [of ?z now c n]
      by (auto simp: try_candidate_def ValidateAndCheckLimits_def split: option.splits)
    ultimately show ?thesis
      using that [of "tick w"] assms True acc resolved_pays [OF Validate_terms [OF v] uses_plan [OF True]] by auto
  next
    case n: True
    have "fails_in w (EnsureWindowMaintenance s (Some c) (tick w))"
      using down_EnsureWindowMaintenance [of "tick w" now s c] assms due n by simp
    then obtain err w' where m: "EnsureWindowMaintenance s (Some c1) (tick w) = (Inl err, w')" "down w'"
      "wd_clock w' = wd_clock w"
      using EnsureWindowMaintenance_agree [OF Validate_agree [OF v]] by (auto simp: fails_in_def)
    then have "try_candidate s al c w = (None, w')"
      using True v n now by (simp add: try_candidate_def ValidateAndCheckLimits_def)
    then show ?thesis using that [of w'] m clock due n by auto
  qed
qed

lemma down_candidate_loop:
  assumes "down w" "\<forall>n. wd_clock w n = now"
  shows "loop_pays_first s (\<lambda>c. accepts (sv_zone s) now c \<and> \<not> maintenance_due (sv_zone s) now c) w al cs"
  using assms
proof (induction cs arbitrary: w)
  case (Cons c cs)
  let ?P = "\<lambda>c. subscriptionUsesAllowedPlan c al \<and> accepts (sv_zone s) now c \<and> \<not> maintenance_due (sv_zone s) now c"
  obtain w' where w': "down w'" "\<forall>n. wd_clock w' n = now"
    "if ?P c then \<exists>a. try_candidate s al c w = (Some (Inr (Some a)), w') \<and> pays_with c a
     else try_candidate s al c w = (None, w')"
    by (rule down_try_candidate [OF Cons.prems])
  show ?case
  proof (cases "?P c")
    case True
    then show ?thesis using w'(3) by (auto simp: loop_pays_first_def)
  next
    case False
    then have "try_candidate s al c w = (None, w')" using w'(3) by (simp only: if_False)
    then have "candidate_loop s al (c # cs) w = candidate_loop s al cs w'" by simp
    then show ?thesis using Cons.IH [OF w'(1,2)] False
      by (simp only: loop_pays_first_def find.simps if_False)
  qed
qed (simp add: loop_pays_first_def)

text \<open>
  C31. A database outage after the subscriptions have been listed is never reported, it changes who
  pays. For every key, every table and every service: a subscription with a window that is due or not
  yet started is passed over, though the pre-check accepts it, because its maintenance fails; the request
  is paid by the first, in the order of expiry, of the usable subscriptions that need no maintenance,
  and when there is none it is charged to the balance just as if the user had no subscription.
\<close>

theorem outage_passes_over_due_subscriptions:
  assumes "wf_store (wd_db w)" "\<forall>n. wd_clock w n = now"
    and "wd_fault w (wd_stmt w) = None" "\<forall>n > wd_stmt w. wd_fault w n \<noteq> None"
    and run: "ResolveBillingAssetForRequest provider (Some key) (Some s) False w = (res, w')"
  defines "E \<equiv> {r \<in> eligible (sv_zone s) now key (rows_of w). \<not> maintenance_due (sv_zone s) now r}"
  shows "if E = {} then res = map_sum (\<lambda>e. e) Some (resolveBalanceBillingAsset provider key)
    else \<exists>c \<in> E. (\<forall>d \<in> E. \<not> candidate_less d c) \<and> (\<exists>a. res = Inr (Some a) \<and> pays_with c a)"
proof (rule resolved_payable [OF assms(1) _ assms(3) _ run])
  show "now_of w = now" using assms(2) by (simp add: now_of_def)
  show "payable now key (\<lambda>c. accepts (sv_zone s) now c \<and> \<not> maintenance_due (sv_zone s) now c) (rows_of w) = E"
    by (auto simp: E_def eligible_def payable_def)
  show "loop_pays_first s (\<lambda>c. accepts (sv_zone s) now c \<and> \<not> maintenance_due (sv_zone s) now c)
      ((tick w)\<lparr>wd_stmt := Suc (wd_stmt w)\<rparr>) al ys" for al ys
    by (rule down_candidate_loop) (use assms(2,4) in \<open>simp_all add: down_def\<close>)
qed

definition failing_world :: sub_world where
  "failing_world = (demo_world (102 * week + 5) [demo_sub])\<lparr>wd_fault :=
     (\<lambda>n. if n = 0 then None else Some (Sentinel ''pq: connection reset by peer''))\<rparr>"

theorem outage_passes_over_due_subscriptions_witness:
  "eligible utc_zone (102 * week + 5) demo_key (rows_of failing_world) = {demo_sub} \<and>
   fst (ResolveBillingAssetForRequest None (Some demo_key) (Some demo_service) False failing_world) =
     Inr (Some demo_balance)"
proof -
  let ?now = "102 * week + 5"
  obtain res w' where run:
    "ResolveBillingAssetForRequest None (Some demo_key) (Some demo_service) False failing_world = (res, w')"
    by (cases "ResolveBillingAssetForRequest None (Some demo_key) (Some demo_service) False failing_world")
  have w: "wf_store (wd_db failing_world)" "\<forall>n. wd_clock failing_world n = ?now" "rows_of failing_world = [demo_sub]"
    "wd_fault failing_world (wd_stmt failing_world) = None"
    "\<forall>n > wd_stmt failing_world. wd_fault failing_world n \<noteq> None"
    using demo_world_wf by (simp_all add: failing_world_def demo_world_def rows_of_def)
  have "maintenance_due utc_zone ?now demo_sub"
    using demo_window by (simp add: maintenance_due_def canAutomaticallyResetWeeklyAt_def demo_sub_def)
  moreover have "resolveBalanceBillingAsset None demo_key = Inr demo_balance"
    by (simp add: resolveBalanceBillingAsset_def demo_key_def globalBalanceRateMultiplier_def
        defaultGlobalBalanceRateMultiplier_def demo_balance_def)
  ultimately show ?thesis
    using outage_passes_over_due_subscriptions [OF w(1,2,4,5) run] run w(3)
    by (auto simp: demo_service_def demo_eligible)
qed

end
