(* ===== verification/Platform_Rules.thy ===== *)
theory Platform_Rules
  imports Go_Float App_Errors
begin

text \<open>
  \<open>internal/service/platform.go\<close>, \<open>platform_model_rules.go\<close>, \<open>platform_service.go\<close> and
  the scheduling scope of \<open>platform_account_pool.go\<close>: platforms, the rules that send a model name to
  a platform, how rules are checked before they become durable and how a model is resolved. The
  repository behind the service is an argument (\<open>platform_repo\<close>): what it answers and how it
  changes its state. The service, the repository and the platforms it returns are never nil here; a
  repository without the management interface is \<open>None\<close> in the field for it. The scheduling
  configuration of a platform is not looked at by this code and is left out, as are its time stamps.
\<close>

section \<open>Data\<close>

record PlatformModelRule =
  ru_ID :: int64
  ru_PlatformID :: int64
  ru_PlatformCode :: string
  ru_AccountPlatform :: string
  ru_ModelPattern :: string
  ru_UpstreamModel :: string
  ru_EndpointCapabilities :: "string list"
  ru_Enabled :: bool

record svcPlatform =
  pf_ID :: int64
  pf_Code :: string
  pf_Name :: string
  pf_AccountPlatform :: string
  pf_Status :: string
  pf_EndpointCapabilities :: "string list"
  pf_ModelRules :: "PlatformModelRule list"

record ResolvedPlatformModel =
  rm_PlatformID :: int64
  rm_PlatformCode :: string
  rm_AccountPlatform :: string
  rm_RequestedModel :: string
  rm_UpstreamModel :: string
  rm_EndpointCapabilities :: "string list"
  rm_MatchPriority :: int
  rm_RuleID :: int64

definition PlatformStatusActive :: string where
  "PlatformStatusActive = ''active''"
definition StatusDisabled :: string where
  "StatusDisabled = ''disabled''"

definition platform_IsActive :: "svcPlatform \<Rightarrow> bool" where
  "platform_IsActive p \<longleftrightarrow> pf_Status p = '''' \<or> pf_Status p = PlatformStatusActive"

definition ErrPlatformModelNotFound :: go_error where
  "ErrPlatformModelNotFound = NotFound ''PLATFORM_MODEL_NOT_FOUND'' ''model is not assigned to an active platform''"
definition ErrPlatformModelAmbiguous :: go_error where
  "ErrPlatformModelAmbiguous = Conflict ''PLATFORM_MODEL_AMBIGUOUS'' ''model matches multiple platform rules''"
definition ErrPlatformModelRule :: go_error where
  "ErrPlatformModelRule = BadRequest ''INVALID_PLATFORM_MODEL_RULE'' ''invalid platform model rule''"
definition ErrPlatformNotFound :: go_error where
  "ErrPlatformNotFound = NotFound ''PLATFORM_NOT_FOUND'' ''platform not found''"
definition ErrPlatformInvalid :: go_error where
  "ErrPlatformInvalid = BadRequest ''INVALID_PLATFORM'' ''invalid platform configuration''"

text \<open>The text added by \<open>fmt.Errorf("%w: ...", ...)\<close> is kept without its formatted arguments.\<close>

definition platform_invalid :: "string \<Rightarrow> go_error" where
  "platform_invalid m = Wrapped m ErrPlatformInvalid"

section \<open>Model patterns\<close>

definition str_count_star :: "string \<Rightarrow> nat" where
  "str_count_star s = length (filter (\<lambda>c. c = CHR ''*'') s)"

definition normalizePlatformModelPattern :: "unicode_tables \<Rightarrow> string \<Rightarrow> (string \<times> bool) result" where
  "normalizePlatformModelPattern U raw =
     (let pattern = ToLower U (TrimSpace raw) in
      if pattern = '''' \<or> 1 < str_count_star pattern \<or> (Contains pattern ''*'' \<and> \<not> HasSuffix pattern ''*'')
      then Inl (Wrapped ''model pattern must be exact or use one suffix wildcard'' ErrPlatformModelRule)
      else Inr (pattern, HasSuffix pattern ''*''))"

definition platformModelRuleMatches :: "string \<Rightarrow> string \<Rightarrow> bool \<Rightarrow> bool" where
  "platformModelRuleMatches requested pattern wildcard =
     (if wildcard then HasPrefix requested (TrimSuffix pattern ''*'') else requested = pattern)"

text \<open>The key \<open>"%d:%s"\<close> of the map is the pair it prints.\<close>

fun validate_rules_loop ::
  "unicode_tables \<Rightarrow> (int64 \<times> string) list \<Rightarrow> PlatformModelRule list \<Rightarrow> go_error option" where
  "validate_rules_loop U seen [] = None"
| "validate_rules_loop U seen (rule # rules) =
     (if \<not> ru_Enabled rule then validate_rules_loop U seen rules
      else case normalizePlatformModelPattern U (ru_ModelPattern rule) of
        Inl err \<Rightarrow> Some err
      | Inr (pattern, _) \<Rightarrow>
          if ru_PlatformID rule \<le> 0
          then Some (Wrapped ''platform id is required'' ErrPlatformModelRule)
          else if (ru_PlatformID rule, pattern) \<in> set seen
          then Some (Wrapped ''duplicate pattern on platform'' ErrPlatformModelRule)
          else validate_rules_loop U ((ru_PlatformID rule, pattern) # seen) rules)"

definition validatePlatformModelRules :: "unicode_tables \<Rightarrow> PlatformModelRule list \<Rightarrow> go_error option" where
  "validatePlatformModelRules U rules = validate_rules_loop U [] rules"

definition rule_candidate :: "unicode_tables \<Rightarrow> string \<Rightarrow> PlatformModelRule \<Rightarrow> ResolvedPlatformModel option" where
  "rule_candidate U requested rule =
     (if \<not> ru_Enabled rule then None
      else case normalizePlatformModelPattern U (ru_ModelPattern rule) of
        Inl err \<Rightarrow> None
      | Inr (pattern, wildcard) \<Rightarrow>
          if \<not> platformModelRuleMatches (ToLower U requested) pattern wildcard then None
          else let upstream = (if ru_UpstreamModel rule = '''' then requested else ru_UpstreamModel rule);
                   priority = int (length (TrimSuffix pattern ''*''));
                   priority = (if \<not> wildcard then priority + 1000000 else priority)
            in Some \<lparr>rm_PlatformID = ru_PlatformID rule, rm_PlatformCode = ru_PlatformCode rule,
                 rm_AccountPlatform = ru_AccountPlatform rule, rm_RequestedModel = requested,
                 rm_UpstreamModel = upstream, rm_EndpointCapabilities = ru_EndpointCapabilities rule,
                 rm_MatchPriority = priority, rm_RuleID = ru_ID rule\<rparr>)"

definition resolved_less :: "ResolvedPlatformModel \<Rightarrow> ResolvedPlatformModel \<Rightarrow> bool" where
  "resolved_less left right =
     (if rm_MatchPriority left \<noteq> rm_MatchPriority right
      then rm_MatchPriority right < rm_MatchPriority left
      else rm_RuleID left < rm_RuleID right)"

definition ListCandidates ::
  "unicode_tables \<Rightarrow> PlatformModelRule list \<Rightarrow> string \<Rightarrow> ResolvedPlatformModel list result" where
  "ListCandidates U rules requestedModel =
     (let requested = TrimSpace requestedModel in
      if requested = '''' then Inl ErrPlatformModelNotFound
      else let candidates = List.map_filter (rule_candidate U requested) rules in
        if candidates = [] then Inl ErrPlatformModelNotFound
        else Inr (stable_sort resolved_less candidates))"

fun ambiguous_head :: "int \<Rightarrow> int64 \<Rightarrow> ResolvedPlatformModel list \<Rightarrow> bool" where
  "ambiguous_head bestPriority bestPlatformID [] = False"
| "ambiguous_head bestPriority bestPlatformID (candidate # rest) =
     (if rm_MatchPriority candidate \<noteq> bestPriority then False
      else if rm_PlatformID candidate \<noteq> bestPlatformID then True
      else ambiguous_head bestPriority bestPlatformID rest)"

definition select_candidate :: "ResolvedPlatformModel list \<Rightarrow> ResolvedPlatformModel result" where
  "select_candidate candidates =
     (case candidates of
        [] \<Rightarrow> Inl ErrPlatformModelNotFound
      | c # rest \<Rightarrow>
          if ambiguous_head (rm_MatchPriority c) (rm_PlatformID c) rest
          then Inl ErrPlatformModelAmbiguous else Inr c)"

definition rules_Resolve ::
  "unicode_tables \<Rightarrow> PlatformModelRule list \<Rightarrow> string \<Rightarrow> ResolvedPlatformModel result" where
  "rules_Resolve U rules requestedModel =
     (case ListCandidates U rules requestedModel of
        Inl err \<Rightarrow> Inl err
      | Inr candidates \<Rightarrow> select_candidate candidates)"

fun capability_loop :: "unicode_tables \<Rightarrow> string list \<Rightarrow> string list \<Rightarrow> string list" where
  "capability_loop U seen [] = []"
| "capability_loop U seen (capability # rest) =
     (let capability = ToLower U (TrimSpace capability) in
      if capability = '''' then capability_loop U seen rest
      else if capability \<in> set seen then capability_loop U seen rest
      else capability # capability_loop U (capability # seen) rest)"

text \<open>\<open>sort.Strings\<close>: the order of strings is that of their bytes.\<close>

fun bytes_less :: "string \<Rightarrow> string \<Rightarrow> bool" where
  "bytes_less [] [] = False"
| "bytes_less [] (b # bs) = True"
| "bytes_less (a # as) [] = False"
| "bytes_less (a # as) (b # bs) =
     (if (of_char a :: nat) = of_char b then bytes_less as bs else (of_char a :: nat) < of_char b)"

definition normalizeEndpointCapabilities :: "unicode_tables \<Rightarrow> string list \<Rightarrow> string list" where
  "normalizeEndpointCapabilities U capabilities = stable_sort bytes_less (capability_loop U [] capabilities)"

section \<open>Creating and updating platforms\<close>

record CreatePlatformInput =
  ci_Code :: string
  ci_Name :: string
  ci_AccountPlatform :: string
  ci_Status :: string
  ci_EndpointCapabilities :: "string list"
  ci_ModelRules :: "PlatformModelRule list"

record UpdatePlatformInput =
  up_Code :: "string option"
  up_Name :: "string option"
  up_AccountPlatform :: "string option"
  up_Status :: "string option"
  up_EndpointCapabilities :: "string list option"
  up_ModelRules :: "PlatformModelRule list option"

definition clonePlatformModelRules :: "PlatformModelRule list \<Rightarrow> PlatformModelRule list" where
  "clonePlatformModelRules rules = map (\<lambda>r. r\<lparr>ru_EndpointCapabilities := ru_EndpointCapabilities r\<rparr>) rules"

definition svc_clonePlatform :: "svcPlatform \<Rightarrow> svcPlatform" where
  "svc_clonePlatform p = p\<lparr>pf_ModelRules := clonePlatformModelRules (pf_ModelRules p),
     pf_EndpointCapabilities := pf_EndpointCapabilities p\<rparr>"

definition bindPlatformToRules ::
  "PlatformModelRule list \<Rightarrow> int64 \<Rightarrow> string \<Rightarrow> string list \<Rightarrow> PlatformModelRule list" where
  "bindPlatformToRules rules platformID platformCode endpoints =
     map (\<lambda>r. r\<lparr>ru_PlatformID := platformID, ru_PlatformCode := platformCode,
                ru_EndpointCapabilities := endpoints\<rparr>) (clonePlatformModelRules rules)"

definition platformRulesForValidation ::
  "PlatformModelRule list \<Rightarrow> int64 \<Rightarrow> string \<Rightarrow> string list \<Rightarrow> bool \<Rightarrow> PlatformModelRule list" where
  "platformRulesForValidation rules platformID platformCode endpoints enabled =
     map (\<lambda>r. r\<lparr>ru_Enabled := ru_Enabled r \<and> enabled\<rparr>)
       (bindPlatformToRules rules platformID platformCode endpoints)"

definition excludePlatformRules :: "PlatformModelRule list \<Rightarrow> int64 \<Rightarrow> PlatformModelRule list" where
  "excludePlatformRules rules platformID =
     (if platformID \<le> 0 then rules else filter (\<lambda>r. ru_PlatformID r \<noteq> platformID) rules)"

fun hasEnabledPlatformModelRule :: "PlatformModelRule list \<Rightarrow> bool" where
  "hasEnabledPlatformModelRule [] = False"
| "hasEnabledPlatformModelRule (rule # rules) =
     (if ru_Enabled rule \<and> TrimSpace (ru_ModelPattern rule) \<noteq> '''' then True
      else hasEnabledPlatformModelRule rules)"

definition normalizePlatformStatus :: "unicode_tables \<Rightarrow> string \<Rightarrow> string result" where
  "normalizePlatformStatus U raw =
     (let status = ToLower U (TrimSpace raw) in
      if status = '''' then Inr PlatformStatusActive
      else if status \<noteq> PlatformStatusActive \<and> status \<noteq> StatusDisabled
      then Inl (platform_invalid ''unsupported platform status'')
      else Inr status)"

text \<open>
  The loop over the runes of the code refuses every rune that is not one of the ASCII characters it
  names; a rune outside ASCII is made of bytes outside ASCII, so the loop is over the bytes here.
\<close>

definition code_char :: "char \<Rightarrow> bool" where
  "code_char c \<longleftrightarrow> (let n = (of_char c :: nat) in
     (97 \<le> n \<and> n \<le> 122) \<or> (48 \<le> n \<and> n \<le> 57) \<or> n = 45 \<or> n = 95)"

definition normalizePlatformCode :: "unicode_tables \<Rightarrow> string \<Rightarrow> string result" where
  "normalizePlatformCode U raw =
     (let code = ToLower U (TrimSpace raw) in
      if code = '''' \<or> 50 < length code
      then Inl (platform_invalid ''platform code is required and must be at most 50 characters'')
      else if list_all code_char code then Inr code
      else Inl (platform_invalid ''platform code contains an invalid character''))"

definition normalizePlatformAccountPlatform :: "unicode_tables \<Rightarrow> string \<Rightarrow> string result" where
  "normalizePlatformAccountPlatform U raw =
     (let platform = ToLower U (TrimSpace raw) in
      if platform = '''' \<or> 50 < length platform
      then Inl (platform_invalid ''account platform is required and must be at most 50 characters'')
      else if platform \<in> {''anthropic'', ''openai'', ''gemini'', ''antigravity'', ''grok''} then Inr platform
      else Inl (platform_invalid ''unsupported account platform''))"

definition platformFromCreateInput :: "unicode_tables \<Rightarrow> CreatePlatformInput \<Rightarrow> svcPlatform result" where
  "platformFromCreateInput U input =
     (case normalizePlatformCode U (ci_Code input) of Inl err \<Rightarrow> Inl err | Inr code \<Rightarrow>
      let name = TrimSpace (ci_Name input) in
      if name = '''' then Inl (platform_invalid ''platform name is required'')
      else case normalizePlatformAccountPlatform U (ci_AccountPlatform input) of
        Inl err \<Rightarrow> Inl err
      | Inr accountPlatform \<Rightarrow>
          (case normalizePlatformStatus U (ci_Status input) of
             Inl err \<Rightarrow> Inl err
           | Inr status \<Rightarrow>
               let endpointCapabilities = normalizeEndpointCapabilities U (ci_EndpointCapabilities input) in
               if status = PlatformStatusActive \<and> endpointCapabilities = []
               then Inl (platform_invalid ''active platform requires at least one endpoint capability'')
               else Inr \<lparr>pf_ID = 0, pf_Code = code, pf_Name = name, pf_AccountPlatform = accountPlatform,
                      pf_Status = status, pf_EndpointCapabilities = endpointCapabilities,
                      pf_ModelRules = clonePlatformModelRules (ci_ModelRules input)\<rparr>))"

definition update_field :: "'a option \<Rightarrow> ('a \<Rightarrow> 'b result) \<Rightarrow> ('b \<Rightarrow> 'p \<Rightarrow> 'p) \<Rightarrow> 'p \<Rightarrow> 'p result" where
  "update_field inp canon set_field p = (case inp of None \<Rightarrow> Inr p
     | Some v \<Rightarrow> (case canon v of Inl err \<Rightarrow> Inl err | Inr x \<Rightarrow> Inr (set_field x p)))"

definition applyPlatformUpdate :: "unicode_tables \<Rightarrow> svcPlatform \<Rightarrow> UpdatePlatformInput \<Rightarrow> svcPlatform result" where
  "applyPlatformUpdate U platform input =
     (case update_field (up_Code input) (normalizePlatformCode U) (\<lambda>x p. p\<lparr>pf_Code := x\<rparr>) platform of
        Inl err \<Rightarrow> Inl err | Inr platform \<Rightarrow>
      case update_field (up_Name input)
          (\<lambda>v. if TrimSpace v = '''' then Inl (platform_invalid ''platform name is required'') else Inr (TrimSpace v))
          (\<lambda>x p. p\<lparr>pf_Name := x\<rparr>) platform of
        Inl err \<Rightarrow> Inl err | Inr platform \<Rightarrow>
      case update_field (up_AccountPlatform input) (normalizePlatformAccountPlatform U)
          (\<lambda>x p. p\<lparr>pf_AccountPlatform := x\<rparr>) platform of
        Inl err \<Rightarrow> Inl err | Inr platform \<Rightarrow>
      case update_field (up_Status input) (normalizePlatformStatus U) (\<lambda>x p. p\<lparr>pf_Status := x\<rparr>) platform of
        Inl err \<Rightarrow> Inl err | Inr platform \<Rightarrow>
      let platform = (case up_EndpointCapabilities input of None \<Rightarrow> platform
            | Some cs \<Rightarrow> platform\<lparr>pf_EndpointCapabilities := normalizeEndpointCapabilities U cs\<rparr>);
          platform = (case up_ModelRules input of None \<Rightarrow> platform
            | Some rs \<Rightarrow> platform\<lparr>pf_ModelRules := clonePlatformModelRules rs\<rparr>)
      in Inr platform)"

section \<open>The service\<close>

record PlatformDeleteImpact =
  di_Accounts :: int64
  di_APIKeys :: int64
  di_UsageLogs :: int64
  di_Audits :: int64
  di_Ops :: int64
  di_Configs :: int64
  di_CanDelete :: bool

text \<open>
  The repository: reads answer from its state, writes change it. \<open>pr_management\<close> says whether it
  implements the management interface, \<open>pr_HasAccounts\<close> whether it implements the ownership reader.
  \<open>Create\<close> and \<open>Update\<close> may set fields of the platform they are given.
\<close>

record 'st platform_repo =
  pr_List :: "'st \<Rightarrow> svcPlatform list result"
  pr_ListModelRules :: "'st \<Rightarrow> PlatformModelRule list result"
  pr_Create :: "svcPlatform \<Rightarrow> 'st \<Rightarrow> svcPlatform result \<times> 'st"
  pr_management :: bool
  pr_GetByID :: "int64 \<Rightarrow> 'st \<Rightarrow> svcPlatform result"
  pr_Update :: "svcPlatform \<Rightarrow> 'st \<Rightarrow> svcPlatform result \<times> 'st"
  pr_PreviewDelete :: "int64 \<Rightarrow> 'st \<Rightarrow> PlatformDeleteImpact option result"
  pr_DeleteControlled :: "int64 \<Rightarrow> 'st \<Rightarrow> PlatformDeleteImpact result \<times> 'st"
  pr_HasAccounts :: "(int64 \<Rightarrow> 'st \<Rightarrow> bool result) option"

definition err_no_management :: go_error where
  "err_no_management = platform_invalid ''platform repository does not support management''"

definition validateCandidate ::
  "unicode_tables \<Rightarrow> 'st platform_repo \<Rightarrow> svcPlatform \<Rightarrow> int64 \<Rightarrow> 'st \<Rightarrow> go_error option" where
  "validateCandidate U repo platform candidateID st =
     (if platform_IsActive platform \<and> pf_EndpointCapabilities platform = []
      then Some (platform_invalid ''active platform requires at least one endpoint capability'')
      else if platform_IsActive platform \<and> \<not> hasEnabledPlatformModelRule (pf_ModelRules platform)
      then Some (platform_invalid ''active platform requires at least one enabled model rule'')
      else case pr_ListModelRules repo st of
        Inl err \<Rightarrow> Some (Wrapped ''list platform model rules'' err)
      | Inr existing \<Rightarrow>
          validatePlatformModelRules U (excludePlatformRules existing candidateID @
            platformRulesForValidation (pf_ModelRules platform) candidateID (pf_Code platform)
              (pf_EndpointCapabilities platform) (platform_IsActive platform)))"

definition platform_List :: "'st platform_repo \<Rightarrow> 'st \<Rightarrow> svcPlatform list result" where
  "platform_List repo st = (case pr_List repo st of
     Inl err \<Rightarrow> Inl (Wrapped ''list platforms'' err) | Inr ps \<Rightarrow> Inr (map svc_clonePlatform ps))"

definition platform_GetByID :: "'st platform_repo \<Rightarrow> int64 \<Rightarrow> 'st \<Rightarrow> svcPlatform result" where
  "platform_GetByID repo pid st =
     (if pid \<le> 0 then Inl ErrPlatformNotFound
      else if \<not> pr_management repo then Inl err_no_management
      else case pr_GetByID repo pid st of
        Inl err \<Rightarrow> Inl (Wrapped ''get platform'' err)
      | Inr p \<Rightarrow> Inr (svc_clonePlatform p))"

definition platform_Create ::
  "unicode_tables \<Rightarrow> 'st platform_repo \<Rightarrow> CreatePlatformInput \<Rightarrow> 'st \<Rightarrow> svcPlatform result \<times> 'st" where
  "platform_Create U repo input st =
     (case platformFromCreateInput U input of
        Inl err \<Rightarrow> (Inl err, st)
      | Inr platform \<Rightarrow>
          let platform = platform\<lparr>pf_ModelRules := bindPlatformToRules (pf_ModelRules platform)
                (pf_ID platform) (pf_Code platform) (pf_EndpointCapabilities platform)\<rparr> in
          case validateCandidate U repo platform max_int64 st of
            Some err \<Rightarrow> (Inl err, st)
          | None \<Rightarrow>
              (case pr_Create repo platform st of
                 (Inl err, st) \<Rightarrow> (Inl (Wrapped ''create platform'' err), st)
               | (Inr platform, st) \<Rightarrow> (Inr platform, st)))"

definition ResolveModelCandidates ::
  "unicode_tables \<Rightarrow> 'st platform_repo \<Rightarrow> string \<Rightarrow> 'st \<Rightarrow> ResolvedPlatformModel list result" where
  "ResolveModelCandidates U repo requestedModel st =
     (case pr_ListModelRules repo st of
        Inl err \<Rightarrow> Inl (Wrapped ''list platform model rules'' err)
      | Inr rules \<Rightarrow> ListCandidates U rules requestedModel)"

definition ResolveModel ::
  "unicode_tables \<Rightarrow> 'st platform_repo \<Rightarrow> string \<Rightarrow> 'st \<Rightarrow> ResolvedPlatformModel result" where
  "ResolveModel U repo requestedModel st =
     (case ResolveModelCandidates U repo requestedModel st of
        Inl err \<Rightarrow> Inl err
      | Inr candidates \<Rightarrow> select_candidate candidates)"

definition platform_Update ::
  "unicode_tables \<Rightarrow> 'st platform_repo \<Rightarrow> int64 \<Rightarrow> UpdatePlatformInput \<Rightarrow> 'st \<Rightarrow> svcPlatform result \<times> 'st" where
  "platform_Update U repo pid input st =
     (if \<not> pr_management repo then (Inl err_no_management, st)
      else case pr_GetByID repo pid st of
        Inl err \<Rightarrow> (Inl (Wrapped ''get platform'' err), st)
      | Inr current \<Rightarrow>
        (case applyPlatformUpdate U (svc_clonePlatform current) input of
           Inl err \<Rightarrow> (Inl err, st)
         | Inr candidate \<Rightarrow>
           (case (if \<not> EqualFold U (pf_AccountPlatform current) (pf_AccountPlatform candidate)
                  then (case pr_HasAccounts repo of
                     None \<Rightarrow> None
                   | Some has \<Rightarrow> (case has pid st of
                        Inl err \<Rightarrow> Some (Wrapped ''check platform account ownership'' err)
                      | Inr hasAccounts \<Rightarrow>
                          if hasAccounts then Some (platform_invalid
                            ''platform adapter cannot change while accounts are attached; create a new platform'')
                          else None))
                  else None) of
              Some err \<Rightarrow> (Inl err, st)
            | None \<Rightarrow>
                let candidate = candidate\<lparr>pf_ModelRules := bindPlatformToRules (pf_ModelRules candidate)
                      (pf_ID candidate) (pf_Code candidate) (pf_EndpointCapabilities candidate)\<rparr> in
                (case validateCandidate U repo candidate (pf_ID candidate) st of
                   Some err \<Rightarrow> (Inl err, st)
                 | None \<Rightarrow>
                     (case pr_Update repo candidate st of
                        (Inl err, st) \<Rightarrow> (Inl (Wrapped ''update platform'' err), st)
                      | (Inr candidate, st) \<Rightarrow> (Inr candidate, st))))))"

definition platform_PreviewDelete :: "'st platform_repo \<Rightarrow> int64 \<Rightarrow> 'st \<Rightarrow> PlatformDeleteImpact result" where
  "platform_PreviewDelete repo pid st =
     (if pid \<le> 0 then Inl ErrPlatformNotFound
      else if \<not> pr_management repo then Inl err_no_management
      else case pr_PreviewDelete repo pid st of
        Inl err \<Rightarrow> Inl (Wrapped ''preview platform delete'' err)
      | Inr None \<Rightarrow> Inl (Sentinel ''preview platform delete: empty impact'')
      | Inr (Some impact) \<Rightarrow>
          Inr (impact\<lparr>di_CanDelete := (di_Accounts impact = 0 \<and> di_APIKeys impact = 0)\<rparr>))"

definition platform_Delete ::
  "'st platform_repo \<Rightarrow> int64 \<Rightarrow> 'st \<Rightarrow> PlatformDeleteImpact result \<times> 'st" where
  "platform_Delete repo pid st =
     (if pid \<le> 0 then (Inl ErrPlatformNotFound, st)
      else if \<not> pr_management repo then (Inl err_no_management, st)
      else case pr_DeleteControlled repo pid st of
        (Inl err, st) \<Rightarrow> (Inl (Wrapped ''delete platform'' err), st)
      | (Inr r, st) \<Rightarrow> (Inr r, st))"

section \<open>Scheduling scope\<close>

record PlatformSchedulingScope =
  sc_PlatformID :: int64
  sc_PlatformCode :: string
  sc_AccountPlatform :: string

definition normalizePlatformSchedulingScope ::
  "unicode_tables \<Rightarrow> PlatformSchedulingScope \<Rightarrow> PlatformSchedulingScope \<times> bool" where
  "normalizePlatformSchedulingScope U scope =
     (let scope = scope\<lparr>sc_PlatformCode := ToLower U (TrimSpace (sc_PlatformCode scope)),
                        sc_AccountPlatform := ToLower U (TrimSpace (sc_AccountPlatform scope))\<rparr>
      in (scope, 0 < sc_PlatformID scope \<and> sc_AccountPlatform scope \<noteq> ''''))"

definition platformSchedulingCacheID :: "unicode_tables \<Rightarrow> PlatformSchedulingScope \<Rightarrow> int64 option" where
  "platformSchedulingCacheID U scope =
     (case normalizePlatformSchedulingScope U scope of
        (normalized, ok) \<Rightarrow> if \<not> ok then None else Some (wrap64 (- sc_PlatformID normalized - 1)))"

text \<open>The account is given by its platform identifier and its adapter name; \<open>None\<close> is nil.\<close>

definition platformSchedulingScopeMatchesAccount ::
  "unicode_tables \<Rightarrow> PlatformSchedulingScope \<Rightarrow> (int64 option \<times> string) option \<Rightarrow> bool" where
  "platformSchedulingScopeMatchesAccount U scope account =
     (case normalizePlatformSchedulingScope U scope of
        (normalized, ok) \<Rightarrow>
          (case account of
             Some (Some pid, adapter) \<Rightarrow> ok \<and> pid = sc_PlatformID normalized \<and>
               EqualFold U (TrimSpace adapter) (sc_AccountPlatform normalized)
           | _ \<Rightarrow> False))"

section \<open>Resolving a model\<close>

interpretation resolved: comparator resolved_less
  by unfold_locales (auto simp: resolved_less_def split: if_splits)

lemma bytes_less_asym: "bytes_less a b \<Longrightarrow> \<not> bytes_less b a"
  by (induction a b rule: bytes_less.induct) (auto split: if_splits)

lemma bytes_less_neg_trans: "bytes_less a c \<Longrightarrow> bytes_less a b \<or> bytes_less b c"
proof (induction a c arbitrary: b rule: bytes_less.induct)
  case (2 c cs)
  then show ?case by (cases b) auto
next
  case (4 a as c cs)
  then show ?case by (cases b) (auto split: if_splits, metis linorder_neqE_nat of_char_eq_iff)
qed auto

interpretation bytes: comparator bytes_less
  by unfold_locales (auto dest: bytes_less_asym bytes_less_neg_trans)

lemma ListCandidates_sorted:
  assumes "ListCandidates U rules m = Inr cs"
  shows "sorted_wrt (\<lambda>a b. rm_MatchPriority b \<le> rm_MatchPriority a) cs"
proof -
  have "sorted_wrt (\<lambda>a b. \<not> resolved_less b a) cs"
    using assms resolved.stable_sort_sorted by (auto simp: ListCandidates_def Let_def split: if_splits)
  then show ?thesis
    by (rule sorted_wrt_mono_rel [rotated]) (auto simp: resolved_less_def split: if_splits)
qed

lemma ListCandidates_set:
  assumes "ListCandidates U rules m = Inr cs"
  shows "set cs = {c. \<exists>r \<in> set rules. rule_candidate U (TrimSpace m) r = Some c}" "cs \<noteq> []"
  using assms by (auto simp: ListCandidates_def Let_def map_filter_def image_iff split: if_splits)
    (metis option.sel option.distinct(1))+

lemma rule_candidate_SomeD:
  assumes "rule_candidate U m r = Some c"
  shows "ru_Enabled r" "rm_PlatformID c = ru_PlatformID r" "rm_RequestedModel c = m"
    "rm_EndpointCapabilities c = ru_EndpointCapabilities r" "rm_RuleID c = ru_ID r"
    "\<exists>p wc. normalizePlatformModelPattern U (ru_ModelPattern r) = Inr (p, wc) \<and>
       platformModelRuleMatches (ToLower U m) p wc \<and>
       rm_MatchPriority c = int (length (TrimSuffix p ''*'')) + (if wc then 0 else 1000000)"
proof -
  have en: "ru_Enabled r" by (rule ccontr) (use assms in \<open>simp add: rule_candidate_def\<close>)
  obtain p wc where p: "normalizePlatformModelPattern U (ru_ModelPattern r) = Inr (p, wc)"
    using assms en by (cases "normalizePlatformModelPattern U (ru_ModelPattern r)") (auto simp: rule_candidate_def)
  have m: "platformModelRuleMatches (ToLower U m) p wc"
    by (rule ccontr) (use assms en p in \<open>simp add: rule_candidate_def\<close>)
  have c: "c = \<lparr>rm_PlatformID = ru_PlatformID r, rm_PlatformCode = ru_PlatformCode r,
       rm_AccountPlatform = ru_AccountPlatform r, rm_RequestedModel = m,
       rm_UpstreamModel = (if ru_UpstreamModel r = '''' then m else ru_UpstreamModel r),
       rm_EndpointCapabilities = ru_EndpointCapabilities r,
       rm_MatchPriority = int (length (TrimSuffix p ''*'')) + (if wc then 0 else 1000000),
       rm_RuleID = ru_ID r\<rparr>"
    using assms en p m by (cases wc) (simp_all add: rule_candidate_def Let_def)
  show "ru_Enabled r" "rm_PlatformID c = ru_PlatformID r" "rm_RequestedModel c = m"
    "rm_EndpointCapabilities c = ru_EndpointCapabilities r" "rm_RuleID c = ru_ID r"
    using en c by simp_all
  show "\<exists>p wc. normalizePlatformModelPattern U (ru_ModelPattern r) = Inr (p, wc) \<and>
       platformModelRuleMatches (ToLower U m) p wc \<and>
       rm_MatchPriority c = int (length (TrimSuffix p ''*'')) + (if wc then 0 else 1000000)"
    using p m c by (intro exI [of _ p] exI [of _ wc]) simp
qed

lemma normal_pattern_wildcard:
  "normalizePlatformModelPattern U raw = Inr (p, wc) \<Longrightarrow> wc = HasSuffix p ''*''"
  by (auto simp: normalizePlatformModelPattern_def Let_def split: if_splits)

text \<open>The part of the pattern in front of a wildcard, and where a match pins it down.\<close>

lemma TrimSuffix_recover: "HasSuffix p ''*'' \<Longrightarrow> p = TrimSuffix p ''*'' @ ''*''"
  by (auto simp: HasSuffix_iff)

lemma match_length:
  "platformModelRuleMatches q p wc \<Longrightarrow> wc = HasSuffix p ''*'' \<Longrightarrow> length (TrimSuffix p ''*'') \<le> length q"
  by (auto simp: platformModelRuleMatches_def HasPrefix_iff TrimSuffix_def split: if_splits)

lemma match_unique:
  assumes "platformModelRuleMatches q p wc" "platformModelRuleMatches q p' wc'"
    and "wc = HasSuffix p ''*''" "wc' = HasSuffix p' ''*''" "length q < 1000000"
    and "int (length (TrimSuffix p ''*'')) + (if wc then 0 else 1000000) =
         int (length (TrimSuffix p' ''*'')) + (if wc' then 0 else 1000000)"
  shows "p = p'"
proof -
  have "wc = wc'"
    using assms(5,6) match_length [OF assms(1,3)] match_length [OF assms(2,4)] by (auto split: if_splits)
  then have len: "length (TrimSuffix p ''*'') = length (TrimSuffix p' ''*'')" using assms(6) by simp
  show ?thesis
  proof (cases wc)
    case True
    then have "HasPrefix q (TrimSuffix p ''*'')" "HasPrefix q (TrimSuffix p' ''*'')"
      using assms(1,2) \<open>wc = wc'\<close> by (simp_all add: platformModelRuleMatches_def)
    then have "TrimSuffix p ''*'' = TrimSuffix p' ''*''" using len by (simp add: HasPrefix_def)
    then show ?thesis using TrimSuffix_recover assms(3,4) True \<open>wc = wc'\<close> by metis
  qed (use assms(1,2) \<open>wc = wc'\<close> in \<open>simp_all add: platformModelRuleMatches_def\<close>)
qed

section \<open>Valid rule sets\<close>

definition rule_key :: "unicode_tables \<Rightarrow> PlatformModelRule \<Rightarrow> int64 \<times> string" where
  "rule_key U r = (ru_PlatformID r, ToLower U (TrimSpace (ru_ModelPattern r)))"

definition well_formed_rule :: "unicode_tables \<Rightarrow> PlatformModelRule \<Rightarrow> bool" where
  "well_formed_rule U r \<longleftrightarrow> 0 < ru_PlatformID r \<and>
     (\<exists>p wc. normalizePlatformModelPattern U (ru_ModelPattern r) = Inr (p, wc))"

lemma normal_pattern_eq:
  "normalizePlatformModelPattern U raw = Inr (p, wc) \<Longrightarrow> p = ToLower U (TrimSpace raw)"
  by (auto simp: normalizePlatformModelPattern_def Let_def split: if_splits)

lemma validate_rules_loop_None:
  "validate_rules_loop U seen rules = None \<longleftrightarrow>
     (\<forall>r \<in> set rules. ru_Enabled r \<longrightarrow> well_formed_rule U r) \<and>
     distinct (map (rule_key U) (filter ru_Enabled rules)) \<and>
     set (map (rule_key U) (filter ru_Enabled rules)) \<inter> set seen = {}"
proof (induction rules arbitrary: seen)
  case (Cons r rules)
  show ?case
  proof (cases "ru_Enabled r")
    case True
    show ?thesis
    proof (cases "normalizePlatformModelPattern U (ru_ModelPattern r)")
      case (Inl e)
      then show ?thesis using True by (simp add: well_formed_rule_def)
    next
      case (Inr x)
      obtain p wc where x: "x = (p, wc)" by (cases x)
      have p: "p = ToLower U (TrimSpace (ru_ModelPattern r))" using Inr x normal_pattern_eq by blast
      show ?thesis
        using True Inr x Cons.IH [of "(ru_PlatformID r, p) # seen"]
        by (auto simp: well_formed_rule_def rule_key_def p)
    qed
  qed (simp add: Cons.IH)
qed simp

text \<open>A pattern is well formed when it is not empty and only its last character may be a wildcard.\<close>

definition rule_pattern :: "unicode_tables \<Rightarrow> PlatformModelRule \<Rightarrow> string" where
  "rule_pattern U r = ToLower U (TrimSpace (ru_ModelPattern r))"

definition exact_or_prefix :: "string \<Rightarrow> bool" where
  "exact_or_prefix p \<longleftrightarrow> p \<noteq> '''' \<and> CHR ''*'' \<notin> set (butlast p)"

lemma Contains_star: "Contains s ''*'' \<longleftrightarrow> CHR ''*'' \<in> set s"
proof
  assume "Contains s ''*''"
  then obtain i where "HasPrefix (drop i s) ''*''" unfolding Contains_def list_ex_iff by blast
  then show "CHR ''*'' \<in> set s" by (auto simp: HasPrefix_iff) (metis in_set_dropD list.set_intros(1))
next
  assume "CHR ''*'' \<in> set s"
  then obtain i where "i < length s" "s ! i = CHR ''*''" by (auto simp: in_set_conv_nth)
  then have "i \<in> set [0..<Suc (length s)]" "HasPrefix (drop i s) ''*''"
    by (auto simp: HasPrefix_iff Cons_nth_drop_Suc [symmetric])
  then show "Contains s ''*''" unfolding Contains_def list_ex_iff by blast
qed

lemma one_star:
  "p \<noteq> '''' \<Longrightarrow> 1 < str_count_star p \<or> (Contains p ''*'' \<and> \<not> HasSuffix p ''*'') \<longleftrightarrow> CHR ''*'' \<in> set (butlast p)"
proof (induction p rule: rev_induct)
  case (snoc c q)
  have "str_count_star q = 0 \<longleftrightarrow> CHR ''*'' \<notin> set q"
    by (auto simp: str_count_star_def filter_empty_conv)
  moreover have "str_count_star (q @ [c]) = str_count_star q + (if c = CHR ''*'' then 1 else 0)"
    by (simp add: str_count_star_def)
  moreover have "HasSuffix (q @ [c]) ''*'' \<longleftrightarrow> c = CHR ''*''" by (auto simp: HasSuffix_iff)
  ultimately show ?case by (auto simp: Contains_star)
qed simp

lemma normalize_pattern_result:
  "normalizePlatformModelPattern U (ru_ModelPattern r) =
     (if exact_or_prefix (rule_pattern U r) then Inr (rule_pattern U r, HasSuffix (rule_pattern U r) ''*'')
      else Inl (Wrapped ''model pattern must be exact or use one suffix wildcard'' ErrPlatformModelRule))"
  using one_star [of "rule_pattern U r"]
  by (auto simp: normalizePlatformModelPattern_def Let_def exact_or_prefix_def rule_pattern_def)

lemma distinct_keys_nth:
  "distinct (map (rule_key U) (filter ru_Enabled rules)) \<longleftrightarrow>
     (\<forall>i j. i < j \<and> j < length rules \<and> ru_Enabled (rules ! i) \<and> ru_Enabled (rules ! j) \<and>
        ru_PlatformID (rules ! i) = ru_PlatformID (rules ! j) \<longrightarrow>
        rule_pattern U (rules ! i) \<noteq> rule_pattern U (rules ! j))"
proof -
  have "distinct (map (rule_key U) (filter ru_Enabled rules)) \<longleftrightarrow>
     sorted_wrt (\<lambda>r r'. ru_Enabled r \<and> ru_Enabled r' \<longrightarrow> rule_key U r \<noteq> rule_key U r') rules"
    by (induction rules) auto
  then show ?thesis by (auto simp: sorted_wrt_iff_nth_less rule_key_def rule_pattern_def)
qed

text \<open>The first rule that is refused decides the error.\<close>

lemma validate_rules_loop_append:
  "validate_rules_loop U seen (xs @ ys) = (case validate_rules_loop U seen xs of
     Some e \<Rightarrow> Some e
   | None \<Rightarrow> validate_rules_loop U (rev (map (rule_key U) (filter ru_Enabled xs)) @ seen) ys)"
  by (induction xs arbitrary: seen)
    (auto simp: normalize_pattern_result rule_key_def rule_pattern_def split: option.splits)

lemma validate_rules_loop_Some:
  "validate_rules_loop U seen rules = Some e \<Longrightarrow> \<exists>ok bad rest. rules = ok @ bad # rest \<and>
     validate_rules_loop U seen ok = None \<and> ru_Enabled bad \<and>
     validate_rules_loop U (rev (map (rule_key U) (filter ru_Enabled ok)) @ seen) [bad] = Some e"
proof (induction rules rule: rev_induct)
  case (snoc r rules)
  show ?case
  proof (cases "validate_rules_loop U seen rules")
    case None
    then have "validate_rules_loop U (rev (map (rule_key U) (filter ru_Enabled rules)) @ seen) [r] = Some e"
      using snoc.prems by (simp add: validate_rules_loop_append)
    then show ?thesis using None by (intro exI [of _ rules]) (auto split: if_splits)
  next
    case (Some e')
    then show ?thesis using snoc by (fastforce simp: validate_rules_loop_append)
  qed
qed simp

text \<open>
  C33. The check of the rules accepts exactly the rule sets in which every enabled rule has a positive
  platform and a pattern, compared without case and surrounding space, that is not empty and has no
  wildcard before its last character, and no two enabled rules of one platform have the same pattern.
  A refused set is refused because of its first offending rule: the rules before it pass the check, and
  the error, always an invalid platform model rule, names the pattern, the missing platform or the
  repetition of an earlier enabled rule, in this order.
\<close>

theorem validatePlatformModelRules_iff:
  "(validatePlatformModelRules U rules = None \<longleftrightarrow>
     (\<forall>r \<in> set rules. ru_Enabled r \<longrightarrow> 0 < ru_PlatformID r \<and>
        rule_pattern U r \<noteq> '''' \<and> CHR ''*'' \<notin> set (butlast (rule_pattern U r))) \<and>
     (\<forall>i j. i < j \<and> j < length rules \<and> ru_Enabled (rules ! i) \<and> ru_Enabled (rules ! j) \<and>
        ru_PlatformID (rules ! i) = ru_PlatformID (rules ! j) \<longrightarrow>
        rule_pattern U (rules ! i) \<noteq> rule_pattern U (rules ! j))) \<and>
   (\<forall>e. validatePlatformModelRules U rules = Some e \<longrightarrow>
     (\<exists>ok bad rest. rules = ok @ bad # rest \<and> validatePlatformModelRules U ok = None \<and> ru_Enabled bad \<and>
        (if rule_pattern U bad = '''' \<or> CHR ''*'' \<in> set (butlast (rule_pattern U bad))
         then e = Wrapped ''model pattern must be exact or use one suffix wildcard'' ErrPlatformModelRule
         else if ru_PlatformID bad \<le> 0 then e = Wrapped ''platform id is required'' ErrPlatformModelRule
         else e = Wrapped ''duplicate pattern on platform'' ErrPlatformModelRule \<and>
           (\<exists>r \<in> set ok. ru_Enabled r \<and> ru_PlatformID r = ru_PlatformID bad \<and>
              rule_pattern U r = rule_pattern U bad))))"
proof (intro conjI allI impI)
  show "validatePlatformModelRules U rules = None \<longleftrightarrow>
     (\<forall>r \<in> set rules. ru_Enabled r \<longrightarrow> 0 < ru_PlatformID r \<and>
        rule_pattern U r \<noteq> '''' \<and> CHR ''*'' \<notin> set (butlast (rule_pattern U r))) \<and>
     (\<forall>i j. i < j \<and> j < length rules \<and> ru_Enabled (rules ! i) \<and> ru_Enabled (rules ! j) \<and>
        ru_PlatformID (rules ! i) = ru_PlatformID (rules ! j) \<longrightarrow>
        rule_pattern U (rules ! i) \<noteq> rule_pattern U (rules ! j))"
    unfolding validatePlatformModelRules_def validate_rules_loop_None distinct_keys_nth [symmetric]
    by (auto simp: well_formed_rule_def normalize_pattern_result exact_or_prefix_def)
next
  fix e
  assume "validatePlatformModelRules U rules = Some e"
  then obtain ok bad rest where *: "rules = ok @ bad # rest" "validate_rules_loop U [] ok = None" "ru_Enabled bad"
    "validate_rules_loop U (rev (map (rule_key U) (filter ru_Enabled ok)) @ []) [bad] = Some e"
    unfolding validatePlatformModelRules_def using validate_rules_loop_Some by blast
  show "\<exists>ok bad rest. rules = ok @ bad # rest \<and> validatePlatformModelRules U ok = None \<and> ru_Enabled bad \<and>
        (if rule_pattern U bad = '''' \<or> CHR ''*'' \<in> set (butlast (rule_pattern U bad))
         then e = Wrapped ''model pattern must be exact or use one suffix wildcard'' ErrPlatformModelRule
         else if ru_PlatformID bad \<le> 0 then e = Wrapped ''platform id is required'' ErrPlatformModelRule
         else e = Wrapped ''duplicate pattern on platform'' ErrPlatformModelRule \<and>
           (\<exists>r \<in> set ok. ru_Enabled r \<and> ru_PlatformID r = ru_PlatformID bad \<and>
              rule_pattern U r = rule_pattern U bad))"
    using *(4,3) by (intro exI [of _ ok] exI [of _ bad] exI [of _ rest])
      (auto simp: * validatePlatformModelRules_def normalize_pattern_result exact_or_prefix_def rule_key_def
        rule_pattern_def split: if_splits)
qed

text \<open>
  C32. In a rule set that passes the check a model never matches two rules of one platform with the
  same priority (for model names of less than a million bytes): candidates of one platform with equal
  priority come from the same pattern, so the ambiguity the resolver reports is always between
  different platforms. Candidates are listed by decreasing priority and are exactly the matches of the
  enabled rules.
\<close>

theorem valid_rules_one_candidate_per_priority:
  assumes valid: "validatePlatformModelRules U rules = None"
    and list: "ListCandidates U rules m = Inr cs" and len: "length (ToLower U (TrimSpace m)) < 1000000"
  shows "sorted_wrt (\<lambda>a b. rm_MatchPriority b \<le> rm_MatchPriority a) cs \<and>
    set cs = {c. \<exists>r \<in> set rules. rule_candidate U (TrimSpace m) r = Some c} \<and>
    (\<forall>r \<in> set rules. \<forall>r' \<in> set rules. \<forall>c c'.
       rule_candidate U (TrimSpace m) r = Some c \<and> rule_candidate U (TrimSpace m) r' = Some c' \<and>
       rm_PlatformID c = rm_PlatformID c' \<and> rm_MatchPriority c = rm_MatchPriority c' \<longrightarrow> r = r')"
proof -
  have uniq: "r = r'"
    if r: "r \<in> set rules" "r' \<in> set rules" "rule_candidate U (TrimSpace m) r = Some c"
      "rule_candidate U (TrimSpace m) r' = Some c'" and eq: "rm_PlatformID c = rm_PlatformID c'"
      "rm_MatchPriority c = rm_MatchPriority c'" for r r' c c'
  proof -
    obtain p wc where p: "normalizePlatformModelPattern U (ru_ModelPattern r) = Inr (p, wc)"
      "platformModelRuleMatches (ToLower U (TrimSpace m)) p wc"
      "rm_MatchPriority c = int (length (TrimSuffix p ''*'')) + (if wc then 0 else 1000000)"
      using rule_candidate_SomeD(6) [OF r(3)] by blast
    obtain p' wc' where p': "normalizePlatformModelPattern U (ru_ModelPattern r') = Inr (p', wc')"
      "platformModelRuleMatches (ToLower U (TrimSpace m)) p' wc'"
      "rm_MatchPriority c' = int (length (TrimSuffix p' ''*'')) + (if wc' then 0 else 1000000)"
      using rule_candidate_SomeD(6) [OF r(4)] by blast
    have "p = p'"
      using match_unique [OF p(2) p'(2) normal_pattern_wildcard [OF p(1)] normal_pattern_wildcard [OF p'(1)] len]
        p(3) p'(3) eq(2) by simp
    then have "rule_key U r = rule_key U r'"
      using normal_pattern_eq [OF p(1)] normal_pattern_eq [OF p'(1)] eq(1) rule_candidate_SomeD(2) [OF r(3)]
        rule_candidate_SomeD(2) [OF r(4)] by (simp add: rule_key_def)
    moreover have "distinct (map (rule_key U) (filter ru_Enabled rules))"
      using valid by (simp add: validatePlatformModelRules_def validate_rules_loop_None)
    ultimately show ?thesis
      using r(1,2) rule_candidate_SomeD(1) [OF r(3)] rule_candidate_SomeD(1) [OF r(4)]
      by (simp add: distinct_map inj_on_def)
  qed
  show ?thesis using ListCandidates_sorted [OF list] ListCandidates_set(1) [OF list] uniq by blast
qed

definition demo_rules :: "PlatformModelRule list" where
  "demo_rules = [
     \<lparr>ru_ID = 1, ru_PlatformID = 3, ru_PlatformCode = ''main'', ru_AccountPlatform = ''openai'',
      ru_ModelPattern = ''gpt-*'', ru_UpstreamModel = '''', ru_EndpointCapabilities = [''responses''],
      ru_Enabled = True\<rparr>,
     \<lparr>ru_ID = 2, ru_PlatformID = 3, ru_PlatformCode = ''main'', ru_AccountPlatform = ''openai'',
      ru_ModelPattern = '' GPT-5'', ru_UpstreamModel = ''gpt-5-2025'', ru_EndpointCapabilities = [''responses''],
      ru_Enabled = True\<rparr>]"

lemma demo_rules_valid: "validatePlatformModelRules ascii_tables demo_rules = None"
  by code_simp

theorem validatePlatformModelRules_iff_witness:
  "validatePlatformModelRules ascii_tables demo_rules = None \<and>
   CHR ''*'' \<notin> set (butlast (rule_pattern ascii_tables (demo_rules ! 0))) \<and>
   validatePlatformModelRules ascii_tables (demo_rules @ demo_rules) \<noteq> None"
proof (intro conjI)
  show "CHR ''*'' \<notin> set (butlast (rule_pattern ascii_tables (demo_rules ! 0)))"
    using validatePlatformModelRules_iff [of ascii_tables demo_rules] demo_rules_valid by (simp add: demo_rules_def)
  show "validatePlatformModelRules ascii_tables (demo_rules @ demo_rules) \<noteq> None"
  proof
    assume "validatePlatformModelRules ascii_tables (demo_rules @ demo_rules) = None"
    then have "\<not> (0 < (2::nat) \<and> 2 < length (demo_rules @ demo_rules) \<and> ru_Enabled ((demo_rules @ demo_rules) ! 0) \<and>
        ru_Enabled ((demo_rules @ demo_rules) ! 2) \<and>
        ru_PlatformID ((demo_rules @ demo_rules) ! 0) = ru_PlatformID ((demo_rules @ demo_rules) ! 2) \<and>
        rule_pattern ascii_tables ((demo_rules @ demo_rules) ! 0) =
          rule_pattern ascii_tables ((demo_rules @ demo_rules) ! 2))"
      using validatePlatformModelRules_iff [of ascii_tables "demo_rules @ demo_rules"] by blast
    then show False by (simp add: demo_rules_def)
  qed
qed (rule demo_rules_valid)

definition demo_candidates :: "ResolvedPlatformModel list" where
  "demo_candidates = [
     \<lparr>rm_PlatformID = 3, rm_PlatformCode = ''main'', rm_AccountPlatform = ''openai'',
      rm_RequestedModel = ''gpt-5'', rm_UpstreamModel = ''gpt-5-2025'',
      rm_EndpointCapabilities = [''responses''], rm_MatchPriority = 1000005, rm_RuleID = 2\<rparr>,
     \<lparr>rm_PlatformID = 3, rm_PlatformCode = ''main'', rm_AccountPlatform = ''openai'',
      rm_RequestedModel = ''gpt-5'', rm_UpstreamModel = ''gpt-5'',
      rm_EndpointCapabilities = [''responses''], rm_MatchPriority = 4, rm_RuleID = 1\<rparr>]"

lemma demo_rules_list: "ListCandidates ascii_tables demo_rules '' gpt-5'' = Inr demo_candidates"
  by code_simp

theorem valid_rules_one_candidate_per_priority_witness:
  "ListCandidates ascii_tables demo_rules '' gpt-5'' = Inr demo_candidates \<and>
   sorted_wrt (\<lambda>a b. rm_MatchPriority b \<le> rm_MatchPriority a) demo_candidates"
proof -
  have "ToLower ascii_tables (TrimSpace '' gpt-5'') = ''gpt-5''" by code_simp
  then have "length (ToLower ascii_tables (TrimSpace '' gpt-5'')) < 1000000" by simp
  from valid_rules_one_candidate_per_priority [OF demo_rules_valid demo_rules_list this] demo_rules_list
  show ?thesis by simp
qed

section \<open>What becomes durable\<close>

definition normal_platform :: "unicode_tables \<Rightarrow> svcPlatform \<Rightarrow> bool" where
  "normal_platform U p \<longleftrightarrow> pf_Code p \<noteq> '''' \<and> length (pf_Code p) \<le> 50 \<and> list_all code_char (pf_Code p) \<and>
     pf_Name p \<noteq> '''' \<and>
     pf_AccountPlatform p \<in> {''anthropic'', ''openai'', ''gemini'', ''antigravity'', ''grok''} \<and>
     (pf_Status p = PlatformStatusActive \<or> pf_Status p = StatusDisabled)"

lemma normalize_results:
  "normalizePlatformCode U raw = Inr code \<Longrightarrow> code \<noteq> '''' \<and> length code \<le> 50 \<and> list_all code_char code"
  "normalizePlatformAccountPlatform U raw = Inr a \<Longrightarrow> a \<in> {''anthropic'', ''openai'', ''gemini'', ''antigravity'', ''grok''}"
  "normalizePlatformStatus U raw = Inr st \<Longrightarrow> st = PlatformStatusActive \<or> st = StatusDisabled"
  by (auto simp: normalizePlatformCode_def normalizePlatformAccountPlatform_def normalizePlatformStatus_def
      Let_def split: if_splits)

lemma platformFromCreateInput_normal:
  assumes "platformFromCreateInput U input = Inr p"
  shows "normal_platform U p" "pf_ID p = 0"
proof -
  have *: "\<exists>code a st. normalizePlatformCode U (ci_Code input) = Inr code \<and> TrimSpace (ci_Name input) \<noteq> '''' \<and>
      normalizePlatformAccountPlatform U (ci_AccountPlatform input) = Inr a \<and>
      normalizePlatformStatus U (ci_Status input) = Inr st \<and>
      p = \<lparr>pf_ID = 0, pf_Code = code, pf_Name = TrimSpace (ci_Name input), pf_AccountPlatform = a,
           pf_Status = st, pf_EndpointCapabilities = normalizeEndpointCapabilities U (ci_EndpointCapabilities input),
           pf_ModelRules = clonePlatformModelRules (ci_ModelRules input)\<rparr>"
    using assms unfolding platformFromCreateInput_def Let_def
    by (simp split: sum.splits if_split_asm)
  then show "normal_platform U p" "pf_ID p = 0"
    by (auto simp: normal_platform_def dest!: normalize_results)
qed

text \<open>
  Creating a platform writes only what has been checked: unless every check passes, the repository is
  not called and keeps its state. When it is called, the platform has a code of at most fifty
  lower-case letters, digits, dashes and underscores, a name, a known adapter and a known status; an
  active one has an endpoint and an enabled rule; and the stored rules together with the new ones, as
  rules of one new platform, pass the rule check.
\<close>

theorem platform_Create_checked:
  "(\<exists>err. platform_Create U repo input st = (Inl err, st)) \<or>
   (\<exists>p existing. platform_Create U repo input st =
        apfst (map_sum (Wrapped ''create platform'') (\<lambda>p. p)) (pr_Create repo p st) \<and>
      normal_platform U p \<and> pr_ListModelRules repo st = Inr existing \<and>
      (platform_IsActive p \<longrightarrow> pf_EndpointCapabilities p \<noteq> [] \<and> hasEnabledPlatformModelRule (pf_ModelRules p)) \<and>
      validatePlatformModelRules U (excludePlatformRules existing max_int64 @
        platformRulesForValidation (pf_ModelRules p) max_int64 (pf_Code p) (pf_EndpointCapabilities p)
          (platform_IsActive p)) = None)"
proof (cases "platformFromCreateInput U input")
  case (Inl e)
  then show ?thesis by (simp add: platform_Create_def)
next
  case (Inr p0)
  define p where "p = p0\<lparr>pf_ModelRules := bindPlatformToRules (pf_ModelRules p0)
                (pf_ID p0) (pf_Code p0) (pf_EndpointCapabilities p0)\<rparr>"
  have norm: "normal_platform U p"
    using platformFromCreateInput_normal [OF Inr] by (simp add: normal_platform_def p_def)
  show ?thesis
  proof (cases "validateCandidate U repo p max_int64 st")
    case None
    have run: "platform_Create U repo input st =
        apfst (map_sum (Wrapped ''create platform'') (\<lambda>p. p)) (pr_Create repo p st)"
      using Inr None unfolding platform_Create_def
      by (cases "pr_Create repo p st") (auto simp: Let_def p_def [symmetric] split: sum.splits)
    have "\<exists>existing. pr_ListModelRules repo st = Inr existing \<and>
      (platform_IsActive p \<longrightarrow> pf_EndpointCapabilities p \<noteq> [] \<and> hasEnabledPlatformModelRule (pf_ModelRules p)) \<and>
      validatePlatformModelRules U (excludePlatformRules existing max_int64 @
        platformRulesForValidation (pf_ModelRules p) max_int64 (pf_Code p) (pf_EndpointCapabilities p)
          (platform_IsActive p)) = None"
      using None by (auto simp: validateCandidate_def split: if_splits sum.splits)
    then show ?thesis using run norm by blast
  next
    case (Some e)
    then show ?thesis using Inr by (simp add: platform_Create_def Let_def p_def)
  qed
qed

theorem platform_Create_checked_witness:
  "\<exists>err. platform_Create ascii_tables
     \<lparr>pr_List = (\<lambda>st. Inr []), pr_ListModelRules = (\<lambda>st. Inr []), pr_Create = (\<lambda>p st. (Inr p, Suc st)),
      pr_management = True, pr_GetByID = (\<lambda>i st. Inl ErrPlatformNotFound), pr_Update = (\<lambda>p st. (Inr p, Suc st)),
      pr_PreviewDelete = (\<lambda>i st. Inr None), pr_DeleteControlled = (\<lambda>i st. (Inl ErrPlatformNotFound, st)),
      pr_HasAccounts = None\<rparr>
     \<lparr>ci_Code = ''main'', ci_Name = '' '', ci_AccountPlatform = ''openai'', ci_Status = '''',
      ci_EndpointCapabilities = [], ci_ModelRules = []\<rparr> 0 = (Inl err, 0)"
proof -
  let ?i = "\<lparr>ci_Code = ''main'', ci_Name = '' '', ci_AccountPlatform = ''openai'', ci_Status = '''',
      ci_EndpointCapabilities = [], ci_ModelRules = []\<rparr>"
  have "platformFromCreateInput ascii_tables ?i = Inl (platform_invalid ''platform name is required'')"
    by code_simp
  then have "platform_Create ascii_tables repo ?i st = (Inl (platform_invalid ''platform name is required''), st)"
    for repo and st :: nat by (simp add: platform_Create_def)
  with platform_Create_checked [of ascii_tables _ ?i 0] show ?thesis by auto
qed

section \<open>Cache namespaces\<close>

text \<open>
  The cache namespace of a platform is negative, so it never is the identifier of an account or of
  a platform, different platforms have different namespaces, and the computation does not overflow for
  any 64-bit platform identifier.
\<close>

theorem platformSchedulingCacheID_disjoint:
  assumes "platformSchedulingCacheID U s = Some a" "platformSchedulingCacheID U s' = Some b"
    and "sc_PlatformID s \<le> max_int64" "sc_PlatformID s' \<le> max_int64"
  shows "a < 0 \<and> a = - sc_PlatformID s - 1 \<and> (a = b \<longleftrightarrow> sc_PlatformID s = sc_PlatformID s')"
proof -
  have eq: "x = - sc_PlatformID t - 1 \<and> 0 < sc_PlatformID t"
    if "platformSchedulingCacheID U t = Some x" "sc_PlatformID t \<le> max_int64" for t x
  proof -
    have "0 < sc_PlatformID t" "x = wrap64 (- sc_PlatformID t - 1)"
      using that(1) by (auto simp: platformSchedulingCacheID_def normalizePlatformSchedulingScope_def Let_def
          split: if_splits)
    moreover from this(1) that(2) have "wrap64 (- sc_PlatformID t - 1) = - sc_PlatformID t - 1"
      by (intro wrap64_id) (simp_all add: min_int64_def max_int64_def)
    ultimately show ?thesis by simp
  qed
  show ?thesis using eq [OF assms(1,3)] eq [OF assms(2,4)] by auto
qed

theorem platformSchedulingCacheID_disjoint_witness:
  "platformSchedulingCacheID ascii_tables \<lparr>sc_PlatformID = 3, sc_PlatformCode = ''x'', sc_AccountPlatform = '' OpenAI ''\<rparr>
     = Some (- 4) \<and> (- 4 :: int) < 0"
proof -
  let ?s = "\<lparr>sc_PlatformID = 3, sc_PlatformCode = ''x'', sc_AccountPlatform = '' OpenAI ''\<rparr>"
  have "platformSchedulingCacheID ascii_tables ?s = Some (- 4)" by code_simp
  from platformSchedulingCacheID_disjoint [OF this this] this show ?thesis by (simp add: max_int64_def)
qed

end
