(* ===== verification/Product_Adapter.thy ===== *)
theory Product_Adapter
  imports Product_Core Asset_Resolver Platform_Rules
begin

text \<open>
  \<open>internal/service/product_core_adapter.go\<close>, \<open>platform_asset_request.go\<close>,
  \<open>gateway_runtime_bridge.go\<close> and the platform keys of \<open>model_platform_detection.go\<close>: the
  adapter that runs the product core on the platform rules and the billing assets, the translation of
  errors on the way in and out, and the route that is attached to a request's context. A context is the
  record of the values under the five keys this code reads and writes; nil is \<open>None\<close>. The resolver of
  model candidates is an interface in the code: an argument here, instantiated below with the platform
  service.
\<close>

definition ErrAPIKeyPlatformForbidden :: go_error where
  "ErrAPIKeyPlatformForbidden = Forbidden ''API_KEY_PLATFORM_FORBIDDEN''
     ''api key is not authorized for the resolved platform''"
definition ErrPlatformEndpointUnsupported :: go_error where
  "ErrPlatformEndpointUnsupported = Forbidden ''PLATFORM_ENDPOINT_UNSUPPORTED''
     ''the resolved platform does not support this endpoint''"

section \<open>Errors\<close>

definition mapServiceAssetError :: "go_error \<Rightarrow> go_error" where
  "mapServiceAssetError err =
     (if errors_is err ErrNoUsableBillingSource then pcErrNoBillingAsset
      else if errors_is err ErrInsufficientBalance then pcErrInsufficientBalance
      else if errors_is err ErrDailyLimitExceeded then pcErrDailyLimitExceeded
      else if errors_is err ErrWeeklyLimitExceeded then pcErrWeeklyLimitExceeded
      else if errors_is err ErrMonthlyLimitExceeded then pcErrMonthlyLimitExceeded
      else err)"

definition mapProductCoreError :: "go_error \<Rightarrow> go_error" where
  "mapProductCoreError err =
     (if errors_is err pcErrModelUnavailable then ErrPlatformModelNotFound
      else if errors_is err pcErrPlatformForbidden then ErrAPIKeyPlatformForbidden
      else if errors_is err pcErrPlatformAmbiguous then ErrPlatformModelAmbiguous
      else if errors_is err pcErrEndpointUnsupported then ErrPlatformEndpointUnsupported
      else if errors_is err pcErrNoBillingAsset then ErrNoUsableBillingSource
      else if errors_is err pcErrInsufficientBalance then ErrInsufficientBalance
      else if errors_is err pcErrDailyLimitExceeded then ErrDailyLimitExceeded
      else if errors_is err pcErrWeeklyLimitExceeded then ErrWeeklyLimitExceeded
      else if errors_is err pcErrMonthlyLimitExceeded then ErrMonthlyLimitExceeded
      else err)"

section \<open>The two ports of the product core\<close>

type_synonym PlatformModelResolver = "string \<Rightarrow> ResolvedPlatformModel option list result"

fun productPlatformFromResolved :: "ResolvedPlatformModel option \<Rightarrow> Platform option" where
  "productPlatformFromResolved None = None"
| "productPlatformFromResolved (Some resolved) = Some \<lparr>pl_ID = rm_PlatformID resolved,
     pl_Code = rm_PlatformCode resolved, pl_AccountPlatform = rm_AccountPlatform resolved,
     pl_RequestedModel = rm_RequestedModel resolved, pl_UpstreamModel = rm_UpstreamModel resolved,
     pl_EndpointCapabilities = rm_EndpointCapabilities resolved,
     pl_MatchPriority = rm_MatchPriority resolved\<rparr>"

definition ListModelCandidates :: "PlatformModelResolver \<Rightarrow> PlatformCatalog" where
  "ListModelCandidates resolver model =
     (case resolver model of
        Inl err \<Rightarrow> if errors_is err ErrPlatformModelNotFound then Inl pcErrModelUnavailable else Inl err
      | Inr resolved \<Rightarrow>
          if resolved = [] then Inl pcErrModelUnavailable
          else let platforms = map productPlatformFromResolved (filter (\<lambda>c. c \<noteq> None) resolved) in
            if platforms = [] then Inl pcErrModelUnavailable else Inr platforms)"

text \<open>
  The selector of one request: its state is the world of the subscription service and the
  subscription it remembers for the caller.
\<close>

record requestAssetSelector =
  sl_provider :: "float64 option"
  sl_apiKey :: "APIKey option"
  sl_subscriptions :: "service option"

definition clonePlatformInt64Pointer :: "int64 option \<Rightarrow> int64 option" where
  "clonePlatformInt64Pointer value = map_option (\<lambda>x. x) value"

definition Select ::
  "requestAssetSelector \<Rightarrow> (sub_world \<times> UserSubscription option) AssetSelector" where
  "Select s grant skipBilling st =
     (let (w, remembered) = st in
      case ResolveBillingAssetForRequest (sl_provider s) (sl_apiKey s) (sl_subscriptions s) skipBilling w of
        (Inl err, w) \<Rightarrow> (Inl (mapServiceAssetError err), (w, remembered))
      | (Inr None, w) \<Rightarrow> (Inr None, (w, remembered))
      | (Inr (Some asset), w) \<Rightarrow>
          (Inr (Some \<lparr>ba_Source = ra_Source asset,
             ba_SubscriptionID = clonePlatformInt64Pointer (ra_SubscriptionID asset),
             ba_PlanID = clonePlatformInt64Pointer (ra_PlanID asset),
             ba_RateMultiplier = ra_RateMultiplier asset\<rparr>),
           (w, cloneUserSubscription (ra_Subscription asset))))"

section \<open>The adapter\<close>

definition UsesPlatformAssetPermissions :: "APIKey option \<Rightarrow> bool" where
  "UsesPlatformAssetPermissions apiKey =
     (case apiKey of None \<Rightarrow> False | Some k \<Rightarrow> 0 < length (ak_AllowedPlatformIDs k))"

definition productCoreAccessGrant :: "APIKey \<Rightarrow> AccessGrant" where
  "productCoreAccessGrant apiKey = \<lparr>ag_KeyID = ak_ID apiKey, ag_UserID = ak_UserID apiKey,
     ag_Balance = (case ak_User apiKey of None \<Rightarrow> f_zero | Some u \<Rightarrow> ur_Balance u),
     ag_PlatformIDs = ak_AllowedPlatformIDs apiKey,
     ag_SubscriptionPlanIDs = ak_AllowedSubscriptionPlanIDs apiKey,
     ag_AllowBalance = ak_AllowBalance apiKey\<rparr>"

definition billingEndpointCapability :: "unicode_tables \<Rightarrow> string \<Rightarrow> string" where
  "billingEndpointCapability U endpoint =
     (let normalized = ToLower U endpoint in
      if Contains normalized ''/chat/completions'' then ''chat_completions''
      else if Contains normalized ''/responses'' then ''responses''
      else '''')"

definition productCoreRequest :: "unicode_tables \<Rightarrow> string \<Rightarrow> string \<Rightarrow> bool \<Rightarrow> Request" where
  "productCoreRequest U model endpoint skipBilling = \<lparr>rq_Model = model,
     rq_EndpointCapability = billingEndpointCapability U endpoint, rq_SkipBilling = skipBilling\<rparr>"

definition validateProductCorePlatform :: "unicode_tables \<Rightarrow> Decision option \<Rightarrow> go_error option" where
  "validateProductCorePlatform U decision =
     (case decision of
        None \<Rightarrow> Some (platform_invalid ''product core returned no decision'')
      | Some d \<Rightarrow>
          (case normalizePlatformSchedulingScope U \<lparr>sc_PlatformID = pl_ID (dc_Platform d),
               sc_PlatformCode = pl_Code (dc_Platform d),
               sc_AccountPlatform = pl_AccountPlatform (dc_Platform d)\<rparr> of
             (_, ok) \<Rightarrow> if \<not> ok then Some (platform_invalid ''resolved platform has no account adapter'')
                        else None))"

record PlatformAssetResolution =
  rs_Decision :: Decision
  rs_Subscription :: "UserSubscription option"

text \<open>\<open>ad_apiKeyService\<close> is nil or the service with its rate provider.\<close>

record PlatformAssetProductCoreAdapter =
  ad_apiKeyService :: "float64 option option"
  ad_subscriptionService :: "service option"
  ad_platformResolver :: "PlatformModelResolver option"

definition NewPlatformAssetProductCoreAdapter ::
  "float64 option option \<Rightarrow> service option \<Rightarrow> PlatformModelResolver option \<Rightarrow> PlatformAssetProductCoreAdapter" where
  "NewPlatformAssetProductCoreAdapter apiKeyService subscriptionService platformResolver =
     \<lparr>ad_apiKeyService = apiKeyService, ad_subscriptionService = subscriptionService,
      ad_platformResolver = platformResolver\<rparr>"

definition adapter_Resolve ::
  "unicode_tables \<Rightarrow> PlatformAssetProductCoreAdapter option \<Rightarrow> APIKey option \<Rightarrow> string \<Rightarrow> string \<Rightarrow> bool
    \<Rightarrow> sub_world \<Rightarrow> PlatformAssetResolution result \<times> sub_world" where
  "adapter_Resolve U a apiKey model endpoint skipBilling w =
     (case a of
        None \<Rightarrow> (Inl (platform_invalid ''product core adapter dependencies are required''), w)
      | Some a \<Rightarrow>
        (case (ad_apiKeyService a, ad_platformResolver a) of
           (Some provider, Some resolver) \<Rightarrow>
             (case apiKey of
                None \<Rightarrow> (Inl ErrAPIKeyPlatformForbidden, w)
              | Some key \<Rightarrow>
                  if \<not> UsesPlatformAssetPermissions apiKey then (Inl ErrAPIKeyPlatformForbidden, w)
                  else let selector = \<lparr>sl_provider = provider, sl_apiKey = apiKey,
                              sl_subscriptions = ad_subscriptionService a\<rparr> in
                    (case Authorizer_Resolve U
                        (Some (NewAuthorizer (Some (ListModelCandidates resolver)) (Some (Select selector))))
                        (productCoreAccessGrant key) (productCoreRequest U model endpoint skipBilling) (w, None) of
                       (Inl err, (w, _)) \<Rightarrow> (Inl (mapProductCoreError err), w)
                     | (Inr decision, (w, subscription)) \<Rightarrow>
                         (case validateProductCorePlatform U (Some decision) of
                            Some err \<Rightarrow> (Inl err, w)
                          | None \<Rightarrow> (Inr \<lparr>rs_Decision = decision, rs_Subscription = subscription\<rparr>, w))))
         | _ \<Rightarrow> (Inl (platform_invalid ''product core adapter dependencies are required''), w)))"

section \<open>The route of a request\<close>

record GatewayPlatformAssetContext =
  gc_Platform :: "ResolvedPlatformModel option"
  gc_BillingAsset :: "ResolvedBillingAsset option"
  gc_SchedulingScope :: PlatformSchedulingScope

definition resolvedBillingAssetFromProduct ::
  "BillingAsset option \<Rightarrow> UserSubscription option \<Rightarrow> ResolvedBillingAsset option" where
  "resolvedBillingAssetFromProduct asset subscription =
     (case asset of None \<Rightarrow> None | Some a \<Rightarrow> Some \<lparr>ra_Source = ba_Source a,
        ra_SubscriptionID = clonePlatformInt64Pointer (ba_SubscriptionID a),
        ra_PlanID = clonePlatformInt64Pointer (ba_PlanID a), ra_RateMultiplier = ba_RateMultiplier a,
        ra_Subscription = cloneUserSubscription subscription\<rparr>)"

definition gatewayPlatformAssetContextFromDecision ::
  "Decision option \<Rightarrow> UserSubscription option \<Rightarrow> GatewayPlatformAssetContext option" where
  "gatewayPlatformAssetContextFromDecision decision subscription =
     (case decision of None \<Rightarrow> None | Some d \<Rightarrow> let platform = dc_Platform d in Some \<lparr>
        gc_Platform = Some \<lparr>rm_PlatformID = pl_ID platform, rm_PlatformCode = pl_Code platform,
          rm_AccountPlatform = pl_AccountPlatform platform, rm_RequestedModel = pl_RequestedModel platform,
          rm_UpstreamModel = pl_UpstreamModel platform,
          rm_EndpointCapabilities = pl_EndpointCapabilities platform, rm_MatchPriority = 0, rm_RuleID = 0\<rparr>,
        gc_BillingAsset = resolvedBillingAssetFromProduct (dc_BillingAsset d) subscription,
        gc_SchedulingScope = \<lparr>sc_PlatformID = pl_ID platform, sc_PlatformCode = pl_Code platform,
          sc_AccountPlatform = pl_AccountPlatform platform\<rparr>\<rparr>)"

definition ResolvePlatformAssetRequest ::
  "unicode_tables \<Rightarrow> float64 option \<Rightarrow> APIKey option \<Rightarrow> PlatformModelResolver option \<Rightarrow> service option
    \<Rightarrow> string \<Rightarrow> string \<Rightarrow> bool \<Rightarrow> sub_world \<Rightarrow> GatewayPlatformAssetContext option result \<times> sub_world" where
  "ResolvePlatformAssetRequest U provider apiKey resolver subscriptions requestedModel endpoint skipBilling w =
     (if apiKey = None \<or> \<not> UsesPlatformAssetPermissions apiKey then (Inl ErrAPIKeyPlatformForbidden, w)
      else case adapter_Resolve U (Some (NewPlatformAssetProductCoreAdapter (Some provider) subscriptions resolver))
              apiKey requestedModel endpoint skipBilling w of
        (Inl err, w) \<Rightarrow> (Inl err, w)
      | (Inr resolution, w) \<Rightarrow>
          (Inr (gatewayPlatformAssetContextFromDecision (Some (rs_Decision resolution))
             (rs_Subscription resolution)), w))"

definition cloneResolvedPlatformModel :: "ResolvedPlatformModel option \<Rightarrow> ResolvedPlatformModel option" where
  "cloneResolvedPlatformModel value =
     map_option (\<lambda>v. v\<lparr>rm_EndpointCapabilities := rm_EndpointCapabilities v\<rparr>) value"

definition cloneResolvedBillingAsset :: "ResolvedBillingAsset option \<Rightarrow> ResolvedBillingAsset option" where
  "cloneResolvedBillingAsset value =
     map_option (\<lambda>v. v\<lparr>ra_SubscriptionID := map_option (\<lambda>x. x) (ra_SubscriptionID v),
       ra_PlanID := map_option (\<lambda>x. x) (ra_PlanID v),
       ra_Subscription := cloneUserSubscription (ra_Subscription v)\<rparr>) value"

definition cloneGatewayPlatformAssetContext ::
  "GatewayPlatformAssetContext option \<Rightarrow> GatewayPlatformAssetContext option" where
  "cloneGatewayPlatformAssetContext route =
     map_option (\<lambda>r. \<lparr>gc_Platform = cloneResolvedPlatformModel (gc_Platform r),
       gc_BillingAsset = cloneResolvedBillingAsset (gc_BillingAsset r),
       gc_SchedulingScope = gc_SchedulingScope r\<rparr>) route"

record go_context =
  cx_GatewayPlatformAsset :: "GatewayPlatformAssetContext option"
  cx_PlatformSchedulingScope :: "PlatformSchedulingScope option"
  cx_ResolvedTargetPlatform :: "string option"
  cx_ResolvedUpstreamModel :: "string option"
  cx_RequestedPublicModel :: "string option"

definition WithPlatformSchedulingScope ::
  "unicode_tables \<Rightarrow> go_context option \<Rightarrow> PlatformSchedulingScope \<Rightarrow> go_context option" where
  "WithPlatformSchedulingScope U ctx scope =
     (case normalizePlatformSchedulingScope U scope of (normalized, ok) \<Rightarrow>
        if \<not> ok then ctx else map_option (\<lambda>c. c\<lparr>cx_PlatformSchedulingScope := Some normalized\<rparr>) ctx)"

definition PlatformSchedulingScopeFromContext ::
  "unicode_tables \<Rightarrow> go_context option \<Rightarrow> PlatformSchedulingScope option" where
  "PlatformSchedulingScopeFromContext U ctx =
     (case ctx of None \<Rightarrow> None | Some c \<Rightarrow>
        (case cx_PlatformSchedulingScope c of None \<Rightarrow> None | Some scope \<Rightarrow>
           (case normalizePlatformSchedulingScope U scope of (n, ok) \<Rightarrow> if ok then Some n else None)))"

definition PlatformSchedulingID :: "unicode_tables \<Rightarrow> go_context option \<Rightarrow> int64 option" where
  "PlatformSchedulingID U ctx =
     (case PlatformSchedulingScopeFromContext U ctx of None \<Rightarrow> None
      | Some scope \<Rightarrow> platformSchedulingCacheID U scope)"

definition PlatformAssetID :: "unicode_tables \<Rightarrow> go_context option \<Rightarrow> int64 option" where
  "PlatformAssetID U ctx = map_option sc_PlatformID (PlatformSchedulingScopeFromContext U ctx)"

definition accountMatchesPlatformSchedulingScope ::
  "unicode_tables \<Rightarrow> go_context option \<Rightarrow> (int64 option \<times> string) option \<Rightarrow> bool" where
  "accountMatchesPlatformSchedulingScope U ctx account =
     (case PlatformSchedulingScopeFromContext U ctx of None \<Rightarrow> True
      | Some scope \<Rightarrow> platformSchedulingScopeMatchesAccount U scope account)"

definition WithResolvedTargetPlatform :: "go_context option \<Rightarrow> string \<Rightarrow> go_context option" where
  "WithResolvedTargetPlatform ctx platform =
     (let platform = TrimSpace platform in
      if platform = '''' then ctx else map_option (\<lambda>c. c\<lparr>cx_ResolvedTargetPlatform := Some platform\<rparr>) ctx)"

definition ResolvedTargetPlatformFromContext :: "go_context option \<Rightarrow> string option" where
  "ResolvedTargetPlatformFromContext ctx =
     (case ctx of None \<Rightarrow> None | Some c \<Rightarrow>
        (case cx_ResolvedTargetPlatform c of None \<Rightarrow> None
         | Some p \<Rightarrow> if TrimSpace p \<noteq> '''' then Some (TrimSpace p) else None))"

definition attachGatewayPlatformAssetRoute ::
  "unicode_tables \<Rightarrow> go_context option \<Rightarrow> GatewayPlatformAssetContext option \<Rightarrow> go_context option" where
  "attachGatewayPlatformAssetRoute U ctx route =
     (case (ctx, route) of
        (Some c, Some r) \<Rightarrow>
          (case gc_Platform r of
             None \<Rightarrow> ctx
           | Some platform \<Rightarrow>
              (case normalizePlatformSchedulingScope U (gc_SchedulingScope r) of (scope, ok) \<Rightarrow>
               if \<not> ok then ctx
               else let cloned = cloneGatewayPlatformAssetContext route;
                        ctx = Some (c\<lparr>cx_GatewayPlatformAsset := cloned\<rparr>);
                        ctx = WithPlatformSchedulingScope U ctx scope;
                        ctx = WithResolvedTargetPlatform ctx (sc_AccountPlatform scope);
                        upstream = TrimSpace (rm_UpstreamModel platform);
                        ctx = (if upstream \<noteq> ''''
                               then map_option (\<lambda>c. c\<lparr>cx_ResolvedUpstreamModel := Some upstream\<rparr>) ctx else ctx);
                        requested = TrimSpace (rm_RequestedModel platform)
                    in if requested \<noteq> ''''
                       then map_option (\<lambda>c. c\<lparr>cx_RequestedPublicModel := Some requested\<rparr>) ctx else ctx))
      | _ \<Rightarrow> ctx)"

definition AttachPlatformAssetResolution ::
  "unicode_tables \<Rightarrow> go_context option \<Rightarrow> PlatformAssetResolution option \<Rightarrow> go_context option" where
  "AttachPlatformAssetResolution U ctx resolution =
     (case resolution of None \<Rightarrow> ctx
      | Some r \<Rightarrow> attachGatewayPlatformAssetRoute U ctx
          (gatewayPlatformAssetContextFromDecision (Some (rs_Decision r)) (rs_Subscription r)))"

definition GatewayPlatformAssetContextFromContext :: "go_context option \<Rightarrow> GatewayPlatformAssetContext option" where
  "GatewayPlatformAssetContextFromContext ctx =
     (case ctx of None \<Rightarrow> None | Some c \<Rightarrow>
        (case cx_GatewayPlatformAsset c of None \<Rightarrow> None
         | Some route \<Rightarrow> if gc_Platform route \<noteq> None then cloneGatewayPlatformAssetContext (Some route) else None))"

definition effectivePricingAdapter :: "go_context option \<Rightarrow> string" where
  "effectivePricingAdapter ctx =
     (case GatewayPlatformAssetContextFromContext ctx of
        Some route \<Rightarrow>
          (case gc_Platform route of
             Some p \<Rightarrow> if TrimSpace (rm_AccountPlatform p) \<noteq> '''' then TrimSpace (rm_AccountPlatform p)
                       else (case ResolvedTargetPlatformFromContext ctx of Some t \<Rightarrow> TrimSpace t | None \<Rightarrow> '''')
           | None \<Rightarrow> (case ResolvedTargetPlatformFromContext ctx of Some t \<Rightarrow> TrimSpace t | None \<Rightarrow> ''''))
      | None \<Rightarrow> (case ResolvedTargetPlatformFromContext ctx of Some t \<Rightarrow> TrimSpace t | None \<Rightarrow> ''''))"

definition overridePlatformAssetBillingMultipliers ::
  "go_context option \<Rightarrow> float64 \<Rightarrow> float64 \<Rightarrow> float64 \<Rightarrow> float64 \<times> float64 \<times> float64" where
  "overridePlatformAssetBillingMultipliers ctx token img video =
     (case GatewayPlatformAssetContextFromContext ctx of
        None \<Rightarrow> (token, img, video)
      | Some route \<Rightarrow>
          (case gc_BillingAsset route of
             None \<Rightarrow> (token, img, video)
           | Some a \<Rightarrow> let multiplier = nonNegativeMultiplier (ra_RateMultiplier a)
                       in (multiplier, multiplier, multiplier)))"

section \<open>Errors on the way in and out\<close>

text \<open>
  An asset error of the service comes out of the adapter as it went into the product core: each of the
  five errors, however often it was wrapped on the way, is mapped to the core's error and back to
  itself, so that the HTTP status and the reason the caller sees are those of the service.
\<close>

lemmas service_error_defs = ErrNoUsableBillingSource_def ErrInsufficientBalance_def
  ErrDailyLimitExceeded_def ErrWeeklyLimitExceeded_def ErrMonthlyLimitExceeded_def

theorem asset_error_roundtrip:
  "mapProductCoreError (mapServiceAssetError (foldr Wrapped ms ErrNoUsableBillingSource)) = ErrNoUsableBillingSource \<and>
   mapProductCoreError (mapServiceAssetError (foldr Wrapped ms ErrInsufficientBalance)) = ErrInsufficientBalance \<and>
   mapProductCoreError (mapServiceAssetError (foldr Wrapped ms ErrDailyLimitExceeded)) = ErrDailyLimitExceeded \<and>
   mapProductCoreError (mapServiceAssetError (foldr Wrapped ms ErrWeeklyLimitExceeded)) = ErrWeeklyLimitExceeded \<and>
   mapProductCoreError (mapServiceAssetError (foldr Wrapped ms ErrMonthlyLimitExceeded)) = ErrMonthlyLimitExceeded"
  by (simp add: mapServiceAssetError_def mapProductCoreError_def service_error_defs pc_error_defs http_class_defs)

section \<open>The whole resolution\<close>

lemma ListModelCandidates_InrD:
  assumes "ListModelCandidates resolver model = Inr cs"
  shows "\<exists>rms. resolver model = Inr rms \<and> cs = map productPlatformFromResolved (filter (\<lambda>c. c \<noteq> None) rms)"
  using assms by (auto simp: ListModelCandidates_def Let_def split: sum.splits if_splits)

lemma ListModelCandidates_Inr:
  assumes "resolver model = Inr (map Some rms)" "rms \<noteq> []"
  shows "ListModelCandidates resolver model = Inr (map Some (map (the \<circ> productPlatformFromResolved \<circ> Some) rms))"
  using assms by (simp add: ListModelCandidates_def comp_def filter_map)

lemma Select_InrD:
  assumes "Select s grant skip (w, m) = (Inr asset, (w', sub))"
  shows "\<exists>ra. ResolveBillingAssetForRequest (sl_provider s) (sl_apiKey s) (sl_subscriptions s) skip w = (Inr ra, w') \<and>
     (case ra of None \<Rightarrow> asset = None \<and> sub = m
      | Some a \<Rightarrow> asset \<noteq> None \<and> resolvedBillingAssetFromProduct asset sub = Some a)"
  using assms
  by (auto simp: Select_def resolvedBillingAssetFromProduct_def clonePlatformInt64Pointer_def option.map_ident
      split: prod.splits sum.splits option.splits)

lemma adapter_Resolve_InrD:
  assumes "adapter_Resolve U (Some a) apiKey model endpoint skip w = (Inr r, w')"
  shows "\<exists>provider resolver key. ad_apiKeyService a = Some provider \<and> ad_platformResolver a = Some resolver \<and>
     apiKey = Some key \<and> UsesPlatformAssetPermissions apiKey \<and>
     Authorizer_Resolve U (Some (NewAuthorizer (Some (ListModelCandidates resolver))
         (Some (Select \<lparr>sl_provider = provider, sl_apiKey = apiKey, sl_subscriptions = ad_subscriptionService a\<rparr>))))
       (productCoreAccessGrant key) (productCoreRequest U model endpoint skip) (w, None)
       = (Inr (rs_Decision r), (w', rs_Subscription r)) \<and>
     validateProductCorePlatform U (Some (rs_Decision r)) = None"
  using assms
  by (auto simp: adapter_Resolve_def Let_def split: option.splits if_splits prod.splits sum.splits)

lemma product_fields:
  assumes "productPlatformFromResolved (Some c) = Some p"
  shows "pl_ID p = rm_PlatformID c" "pl_EndpointCapabilities p = rm_EndpointCapabilities c"
    "pl_MatchPriority p = rm_MatchPriority c" "pl_Code p = rm_PlatformCode c"
    "pl_AccountPlatform p = rm_AccountPlatform c" "pl_RequestedModel p = rm_RequestedModel c"
    "pl_UpstreamModel p = rm_UpstreamModel c"
  using assms by auto

text \<open>A candidate the key may use for an endpoint.\<close>

definition usable_candidate :: "unicode_tables \<Rightarrow> APIKey \<Rightarrow> string \<Rightarrow> ResolvedPlatformModel \<Rightarrow> bool" where
  "usable_candidate U key endpoint c \<longleftrightarrow> rm_PlatformID c \<in> set (ak_AllowedPlatformIDs key) \<and>
     supportsEndpoint U (rm_EndpointCapabilities c) (billingEndpointCapability U endpoint)"

definition best_candidate ::
  "unicode_tables \<Rightarrow> APIKey \<Rightarrow> string \<Rightarrow> ResolvedPlatformModel set \<Rightarrow> ResolvedPlatformModel \<Rightarrow> bool" where
  "best_candidate U key endpoint C c \<longleftrightarrow> c \<in> C \<and> usable_candidate U key endpoint c \<and>
     (\<forall>d \<in> C. usable_candidate U key endpoint d \<longrightarrow> rm_MatchPriority d \<le> rm_MatchPriority c \<and>
        (rm_MatchPriority d = rm_MatchPriority c \<longrightarrow> rm_PlatformID d = rm_PlatformID c))"

lemma preferred_best:
  assumes "preferred p (endpoint_candidates U (productCoreRequest U model endpoint skip)
      (authorized_candidates (productCoreAccessGrant key) (map productPlatformFromResolved (filter (\<lambda>c. c \<noteq> None) rms))))"
  shows "\<exists>c. best_candidate U key endpoint {c. Some c \<in> set rms} c \<and> productPlatformFromResolved (Some c) = Some p"
proof -
  let ?cs = "map productPlatformFromResolved (filter (\<lambda>c. c \<noteq> None) rms)"
  have P: "Some p \<in> set ?cs" "pl_ID p \<in> set (ak_AllowedPlatformIDs key)"
    "supportsEndpoint U (pl_EndpointCapabilities p) (billingEndpointCapability U endpoint)"
    and best: "\<And>q. Some q \<in> set ?cs \<Longrightarrow> pl_ID q \<in> set (ak_AllowedPlatformIDs key) \<Longrightarrow>
       supportsEndpoint U (pl_EndpointCapabilities q) (billingEndpointCapability U endpoint) \<Longrightarrow>
       pl_MatchPriority q \<le> pl_MatchPriority p \<and> (pl_MatchPriority q = pl_MatchPriority p \<longrightarrow> pl_ID q = pl_ID p)"
    using assms unfolding preferred_endpoint_iff
    by (simp_all add: productCoreRequest_def productCoreAccessGrant_def)
  from P(1) obtain x where x: "x \<in> set rms" "x \<noteq> None" "Some p = productPlatformFromResolved x"
    unfolding set_map set_filter by blast
  then obtain c where "x = Some c" by blast
  with x have c: "Some c \<in> set rms" "productPlatformFromResolved (Some c) = Some p" by metis+
  have "usable_candidate U key endpoint c"
    using P(2,3) product_fields [OF c(2)] by (simp add: usable_candidate_def)
  moreover have "rm_MatchPriority d \<le> rm_MatchPriority c \<and>
        (rm_MatchPriority d = rm_MatchPriority c \<longrightarrow> rm_PlatformID d = rm_PlatformID c)"
    if d: "Some d \<in> set rms" "usable_candidate U key endpoint d" for d
  proof -
    obtain q where q: "productPlatformFromResolved (Some d) = Some q" by simp
    have "Some d \<in> set (filter (\<lambda>c. c \<noteq> None) rms)" using d(1) by simp
    from imageI [OF this, of productPlatformFromResolved] have "Some q \<in> set ?cs"
      unfolding q set_map .
    then show ?thesis
      using best [of q] d(2) product_fields [OF c(2)] product_fields [OF q]
      by (simp add: usable_candidate_def)
  qed
  ultimately show ?thesis using c unfolding best_candidate_def by blast
qed

definition permitted_payment :: "APIKey \<Rightarrow> UserSubscription list \<Rightarrow> ResolvedBillingAsset \<Rightarrow> bool" where
  "permitted_payment key rows a \<longleftrightarrow>
     (\<exists>r \<in> set rows. live r \<and> us_UserID r = ak_UserID key \<and>
        us_Status r = SubscriptionStatusActive \<and> plan_permitted key r \<and> pays_with r a) \<or>
     (ra_Source a = BillingSourceBalance \<and> ak_AllowBalance key \<and>
        (\<exists>u. ak_User key = Some u \<and> \<not> f_le (ur_Balance u) f_zero))"

text \<open>
  C1. A request is only routed where its key may go, and only charged to what its key may spend. When
  the resolution of a request succeeds, the key is not empty of platforms; the route names a candidate
  of the resolver for this model, granted to the key and supporting the endpoint, that is the best one
  (no usable candidate has a higher priority, none of another platform the same); its pool has a
  positive identifier and an adapter; and the asset is a live, active subscription of the key's user
  on a permitted plan, at its rate, or a positive balance the key may use. Only a request that skips
  billing has no asset.
\<close>

theorem request_route_authorized:
  assumes "wf_store (wd_db w)"
    and "ResolvePlatformAssetRequest U provider (Some key) (Some resolver) svc model endpoint skip w = (Inr route, w')"
  shows "\<exists>r rms c. route = Some r \<and> resolver model = Inr rms \<and>
     best_candidate U key endpoint {c. Some c \<in> set rms} c \<and>
     gc_Platform r = Some (c\<lparr>rm_MatchPriority := 0, rm_RuleID := 0\<rparr>) \<and>
     gc_SchedulingScope r = \<lparr>sc_PlatformID = rm_PlatformID c, sc_PlatformCode = rm_PlatformCode c,
       sc_AccountPlatform = rm_AccountPlatform c\<rparr> \<and>
     snd (normalizePlatformSchedulingScope U (gc_SchedulingScope r)) \<and>
     (case gc_BillingAsset r of None \<Rightarrow> skip | Some a \<Rightarrow> permitted_payment key (rows_of w) a)"
proof -
  obtain res where run: "adapter_Resolve U (Some (NewPlatformAssetProductCoreAdapter (Some provider) svc (Some resolver)))
      (Some key) model endpoint skip w = (Inr res, w')"
    and route: "route = gatewayPlatformAssetContextFromDecision (Some (rs_Decision res)) (rs_Subscription res)"
    using assms(2) by (auto simp: ResolvePlatformAssetRequest_def split: if_splits prod.splits sum.splits)
  let ?d = "rs_Decision res" and ?sel = "\<lparr>sl_provider = provider, sl_apiKey = Some key, sl_subscriptions = svc\<rparr>"
  have auth: "Authorizer_Resolve U (Some (NewAuthorizer (Some (ListModelCandidates resolver)) (Some (Select ?sel))))
      (productCoreAccessGrant key) (productCoreRequest U model endpoint skip) (w, None) = (Inr ?d, (w', rs_Subscription res))"
    and ok: "validateProductCorePlatform U (Some ?d) = None"
    using adapter_Resolve_InrD [OF run] by (auto simp: NewPlatformAssetProductCoreAdapter_def)
  obtain cs where cs: "ListModelCandidates resolver model = Inr cs"
    and pref: "preferred (dc_Platform ?d) (endpoint_candidates U (productCoreRequest U model endpoint skip)
        (authorized_candidates (productCoreAccessGrant key) cs))"
    and sel: "Select ?sel (productCoreAccessGrant key) skip (w, None) = (Inr (dc_BillingAsset ?d), (w', rs_Subscription res))"
    and none: "dc_BillingAsset ?d = None \<longrightarrow> skip"
    using Resolve_InrD [OF auth] by (auto simp: NewAuthorizer_def productCoreRequest_def)
  obtain rms where rms: "resolver model = Inr rms" "cs = map productPlatformFromResolved (filter (\<lambda>c. c \<noteq> None) rms)"
    using ListModelCandidates_InrD [OF cs] by blast
  obtain c where c: "best_candidate U key endpoint {c. Some c \<in> set rms} c"
    "productPlatformFromResolved (Some c) = Some (dc_Platform ?d)"
    using preferred_best pref [unfolded rms(2)] by blast
  obtain r where r: "route = Some r" using route by (simp add: gatewayPlatformAssetContextFromDecision_def Let_def)
  have fields: "gc_Platform r = Some (c\<lparr>rm_MatchPriority := 0, rm_RuleID := 0\<rparr>)"
    "gc_SchedulingScope r = \<lparr>sc_PlatformID = rm_PlatformID c, sc_PlatformCode = rm_PlatformCode c,
       sc_AccountPlatform = rm_AccountPlatform c\<rparr>"
    "gc_BillingAsset r = resolvedBillingAssetFromProduct (dc_BillingAsset ?d) (rs_Subscription res)"
    using route r product_fields [OF c(2)]
    by (simp_all add: gatewayPlatformAssetContextFromDecision_def Let_def)
  have scope: "snd (normalizePlatformSchedulingScope U (gc_SchedulingScope r))"
    using ok product_fields [OF c(2)] fields(2)
    by (auto simp: validateProductCorePlatform_def split: prod.splits if_splits)
  have "case gc_BillingAsset r of None \<Rightarrow> skip | Some a \<Rightarrow> permitted_payment key (rows_of w) a"
  proof (cases "gc_BillingAsset r")
    case None
    then show ?thesis using none fields(3) by (simp add: resolvedBillingAssetFromProduct_def split: option.splits)
  next
    case (Some a)
    then have "ResolveBillingAssetForRequest provider (Some key) svc skip w = (Inr (Some a), w')"
      using Select_InrD [OF sel] fields(3)
      by (auto simp: resolvedBillingAssetFromProduct_def split: option.splits)
    from resolved_asset_permitted [OF assms(1) this] Some show ?thesis by (simp add: permitted_payment_def)
  qed
  then show ?thesis using r rms(1) c(1) fields(1,2) scope by blast
qed

text \<open>The platform service as the resolver of the adapter.\<close>

definition service_resolver :: "unicode_tables \<Rightarrow> 'st platform_repo \<Rightarrow> 'st \<Rightarrow> PlatformModelResolver" where
  "service_resolver U repo st model = map_sum (\<lambda>e. e) (map Some) (ResolveModelCandidates U repo model st)"

definition to_product :: "ResolvedPlatformModel \<Rightarrow> Platform" where
  "to_product c = the (productPlatformFromResolved (Some c))"

lemma to_product_fields [simp]:
  "pl_ID (to_product c) = rm_PlatformID c" "pl_EndpointCapabilities (to_product c) = rm_EndpointCapabilities c"
  "pl_MatchPriority (to_product c) = rm_MatchPriority c" "pl_Code (to_product c) = rm_PlatformCode c"
  "pl_AccountPlatform (to_product c) = rm_AccountPlatform c"
  by (simp_all add: to_product_def)

lemma best_preferred:
  assumes "best_candidate U key endpoint (set rms) c"
  shows "preferred (to_product c) (filter (\<lambda>p. pl_ID p \<in> set (ag_PlatformIDs (productCoreAccessGrant key)) \<and>
     supportsEndpoint U (pl_EndpointCapabilities p) (rq_EndpointCapability (productCoreRequest U model endpoint skip)))
     (map to_product rms))"
  using assms unfolding best_candidate_def preferred_def usable_candidate_def
  by (auto simp: productCoreAccessGrant_def productCoreRequest_def)

lemma Resolve_platform_listed:
  assumes "Authorizer_Resolve U (Some a) grant request s = (Inr d, s')" "au_platforms a = Some list"
    "list (rq_Model request) = Inr (map Some cs)"
  shows "dc_Platform d \<in> set cs"
  using Resolve_InrD [OF assms(1)] assms(2,3) by (auto simp: preferred_endpoint_iff)

text \<open>
  C28. A request that can be served is served: when the stored rules give candidates for the model, one of
  them is the best for the key and the endpoint, its platform has an adapter, and the key's assets can
  pay, the request is routed to that platform with that asset. The order of the candidates that the
  core relies on is the one the platform service produces.
\<close>

theorem request_route_complete:
  assumes cands: "ResolveModelCandidates U repo model st = Inr rms"
    and best: "best_candidate U key endpoint (set rms) c"
    and adapter: "\<forall>d \<in> set rms. rm_PlatformID d = rm_PlatformID c \<longrightarrow>
       0 < rm_PlatformID d \<and> ToLower U (TrimSpace (rm_AccountPlatform d)) \<noteq> ''''"
    and pay: "ResolveBillingAssetForRequest provider (Some key) svc False w = (Inr (Some a), w')"
  shows "\<exists>r p. ResolvePlatformAssetRequest U provider (Some key) (Some (service_resolver U repo st)) svc
       model endpoint False w = (Inr (Some r), w') \<and>
     gc_Platform r = Some p \<and> rm_PlatformID p = rm_PlatformID c \<and> gc_BillingAsset r = Some a"
proof -
  let ?res = "service_resolver U repo st" and ?g = "productCoreAccessGrant key"
  let ?rq = "productCoreRequest U model endpoint False"
  let ?sel = "\<lparr>sl_provider = provider, sl_apiKey = Some key, sl_subscriptions = svc\<rparr>"
  let ?A = "NewAuthorizer (Some (ListModelCandidates ?res)) (Some (Select ?sel))"
  have ne: "rms \<noteq> []" using best by (auto simp: best_candidate_def)
  have list: "ListModelCandidates ?res (rq_Model ?rq) = Inr (map Some (map to_product rms))"
    using ListModelCandidates_Inr [of ?res model rms] cands ne
    by (simp add: service_resolver_def productCoreRequest_def comp_def to_product_def)
  have sorted: "sorted_wrt (\<lambda>x y. pl_MatchPriority y \<le> pl_MatchPriority x) (map to_product rms)"
  proof -
    obtain rules where "ListCandidates U rules model = Inr rms"
      using cands by (cases "pr_ListModelRules repo st") (simp_all add: ResolveModelCandidates_def)
    then show ?thesis using ListCandidates_sorted by (simp add: sorted_wrt_map)
  qed
  obtain b where b: "Select ?sel ?g False (w, None) = (Inr (Some b), (w', ra_Subscription a))"
    "resolvedBillingAssetFromProduct (Some b) (ra_Subscription a) = Some a"
    using pay by (simp add: Select_def resolvedBillingAssetFromProduct_def clonePlatformInt64Pointer_def option.map_ident)
  obtain d where d: "Authorizer_Resolve U (Some ?A) ?g ?rq (w, None) = (Inr d, (w', ra_Subscription a))"
    "pl_ID (dc_Platform d) = rm_PlatformID c" "dc_BillingAsset d = Some b"
    using Resolve_completeI [of ?A "ListModelCandidates ?res" ?rq "map to_product rms" "to_product c" ?g U
        "Select ?sel" "(w, None)" "Some b" "(w', ra_Subscription a)"]
      list sorted best_preferred [OF best] b(1)
    by (auto simp: NewAuthorizer_def productCoreRequest_def)
  have "dc_Platform d \<in> set (map to_product rms)"
    using Resolve_platform_listed [OF d(1), of "ListModelCandidates ?res" "map to_product rms"] list
    by (simp add: NewAuthorizer_def)
  then obtain e where e: "e \<in> set rms" "dc_Platform d = to_product e" by auto
  then have valid: "validateProductCorePlatform U (Some d) = None"
    using adapter d(2) by (simp add: validateProductCorePlatform_def normalizePlatformSchedulingScope_def Let_def)
  have "rm_PlatformID c \<in> set (ak_AllowedPlatformIDs key)"
    using best by (simp add: best_candidate_def usable_candidate_def)
  then have uses: "UsesPlatformAssetPermissions (Some key)"
    by (auto simp: UsesPlatformAssetPermissions_def)
  show ?thesis
    using d valid uses b(2)
    by (simp add: ResolvePlatformAssetRequest_def adapter_Resolve_def NewPlatformAssetProductCoreAdapter_def
        gatewayPlatformAssetContextFromDecision_def Let_def)
qed

section \<open>The route in the request's context\<close>

lemma clone_route_id [simp]: "cloneGatewayPlatformAssetContext route = route"
  by (cases route)
    (auto simp: cloneGatewayPlatformAssetContext_def cloneResolvedPlatformModel_def
      cloneResolvedBillingAsset_def option.map_ident map_option_idI)

text \<open>
  The route attached to a request's context is the route read back from it: with a platform and a
  normalized pool that has an adapter, reading gives the same route, the same pool and its identifier,
  the adapter as target platform and as the adapter that prices the request, and the three
  multipliers are all the asset's rate (zero for a negative one). Attaching a route without a platform
  leaves the context as it was.
\<close>

theorem attach_route_roundtrip:
  assumes "gc_Platform r = Some p" "rm_AccountPlatform p = sc_AccountPlatform (gc_SchedulingScope r)"
    and "normalizePlatformSchedulingScope U (gc_SchedulingScope r) = (gc_SchedulingScope r, True)"
    and "ctx = attachGatewayPlatformAssetRoute U (Some c) (Some r)" and "gc_BillingAsset r = Some a"
  shows "GatewayPlatformAssetContextFromContext ctx = Some r \<and>
    PlatformSchedulingScopeFromContext U ctx = Some (gc_SchedulingScope r) \<and>
    PlatformAssetID U ctx = Some (sc_PlatformID (gc_SchedulingScope r)) \<and>
    ResolvedTargetPlatformFromContext ctx = Some (TrimSpace (rm_AccountPlatform p)) \<and>
    effectivePricingAdapter ctx = TrimSpace (rm_AccountPlatform p) \<and>
    overridePlatformAssetBillingMultipliers ctx token img video =
      (let m = nonNegativeMultiplier (ra_RateMultiplier a) in (m, m, m)) \<and>
    attachGatewayPlatformAssetRoute U (Some c) (Some (r\<lparr>gc_Platform := None\<rparr>)) = Some c"
proof -
  let ?sc = "gc_SchedulingScope r"
  have pos: "ToLower U (TrimSpace (sc_AccountPlatform ?sc)) \<noteq> ''''"
    using assms(3) by (simp add: normalizePlatformSchedulingScope_def)
  from pos have ne: "TrimSpace (sc_AccountPlatform ?sc) \<noteq> ''''" by auto
  have "\<exists>x. ctx = Some x \<and> cx_GatewayPlatformAsset x = Some r \<and> cx_PlatformSchedulingScope x = Some ?sc \<and>
      cx_ResolvedTargetPlatform x = Some (TrimSpace (sc_AccountPlatform ?sc))"
    using assms(1,3,4) ne
    by (simp add: attachGatewayPlatformAssetRoute_def WithPlatformSchedulingScope_def
        WithResolvedTargetPlatform_def Let_def)
  then obtain x where x: "ctx = Some x" "cx_GatewayPlatformAsset x = Some r" "cx_PlatformSchedulingScope x = Some ?sc"
    "cx_ResolvedTargetPlatform x = Some (TrimSpace (sc_AccountPlatform ?sc))" by blast
  have route: "GatewayPlatformAssetContextFromContext ctx = Some r"
    using x assms(1) by (simp add: GatewayPlatformAssetContextFromContext_def)
  have scope: "PlatformSchedulingScopeFromContext U ctx = Some ?sc"
    using x assms(3) by (simp add: PlatformSchedulingScopeFromContext_def)
  show ?thesis
    using route scope x assms(1,2,5) ne
    by (simp add: PlatformAssetID_def ResolvedTargetPlatformFromContext_def effectivePricingAdapter_def
        overridePlatformAssetBillingMultipliers_def attachGatewayPlatformAssetRoute_def TrimSpace_idem)
qed
section \<open>A concrete request\<close>

definition demo_repo :: "nat platform_repo" where
  "demo_repo = \<lparr>pr_List = (\<lambda>st. Inr []), pr_ListModelRules = (\<lambda>st. Inr demo_rules),
     pr_Create = (\<lambda>p st. (Inr p, Suc st)), pr_management = True,
     pr_GetByID = (\<lambda>i st. Inl ErrPlatformNotFound), pr_Update = (\<lambda>p st. (Inr p, Suc st)),
     pr_PreviewDelete = (\<lambda>i st. Inr None), pr_DeleteControlled = (\<lambda>i st. (Inl ErrPlatformNotFound, st)),
     pr_HasAccounts = None\<rparr>"

definition balance_key :: APIKey where
  "balance_key = demo_key\<lparr>ak_AllowedSubscriptionPlanIDs := []\<rparr>"

lemma demo_service_candidates: "ResolveModelCandidates ascii_tables demo_repo '' gpt-5'' 0 = Inr demo_candidates"
  by (simp add: ResolveModelCandidates_def demo_repo_def demo_rules_list)

lemma demo_best:
  "best_candidate ascii_tables balance_key ''/v1/Responses'' (set demo_candidates) (hd demo_candidates)"
proof -
  have "supportsEndpoint ascii_tables [''responses''] (billingEndpointCapability ascii_tables ''/v1/Responses'')"
    by code_simp
  then show ?thesis
    by (auto simp: best_candidate_def usable_candidate_def demo_candidates_def balance_key_def demo_key_def)
qed

lemma demo_balance_key_pays:
  "ResolveBillingAssetForRequest None (Some balance_key) (Some demo_service) False w = (Inr (Some demo_balance), w)"
  unfolding balance_key_def by (rule demo_balance_pays)

theorem request_route_complete_witness:
  "\<exists>r p. ResolvePlatformAssetRequest ascii_tables None (Some balance_key)
       (Some (service_resolver ascii_tables demo_repo 0)) (Some demo_service) '' gpt-5'' ''/v1/Responses'' False
       (demo_world 0 [demo_sub]) = (Inr (Some r), demo_world 0 [demo_sub]) \<and>
     gc_Platform r = Some p \<and> rm_PlatformID p = 3 \<and> gc_BillingAsset r = Some demo_balance"
proof -
  have "ToLower ascii_tables (TrimSpace ''openai'') = ''openai''" by code_simp
  then have "\<forall>d \<in> set demo_candidates. rm_PlatformID d = rm_PlatformID (hd demo_candidates) \<longrightarrow>
      0 < rm_PlatformID d \<and> ToLower ascii_tables (TrimSpace (rm_AccountPlatform d)) \<noteq> ''''"
    by (simp add: demo_candidates_def)
  from request_route_complete [OF demo_service_candidates demo_best this demo_balance_key_pays]
  show ?thesis by (simp add: demo_candidates_def)
qed

definition balance_resolution :: "GatewayPlatformAssetContext" where
  "balance_resolution = \<lparr>gc_Platform = Some (hd demo_candidates\<lparr>rm_MatchPriority := 0, rm_RuleID := 0\<rparr>),
     gc_BillingAsset = Some demo_balance, gc_SchedulingScope = \<lparr>sc_PlatformID = 3, sc_PlatformCode = ''main'',
       sc_AccountPlatform = ''openai''\<rparr>\<rparr>"

theorem attach_route_roundtrip_witness:
  "\<exists>ctx. attachGatewayPlatformAssetRoute ascii_tables (Some \<lparr>cx_GatewayPlatformAsset = None,
       cx_PlatformSchedulingScope = None, cx_ResolvedTargetPlatform = None, cx_ResolvedUpstreamModel = None,
       cx_RequestedPublicModel = None\<rparr>) (Some balance_resolution) = ctx \<and>
     GatewayPlatformAssetContextFromContext ctx = Some balance_resolution \<and>
     effectivePricingAdapter ctx = ''openai''"
proof -
  have t: "TrimSpace ''openai'' = ''openai''" by code_simp
  have n: "normalizePlatformSchedulingScope ascii_tables (gc_SchedulingScope balance_resolution) =
      (gc_SchedulingScope balance_resolution, True)" by code_simp
  show ?thesis
    using attach_route_roundtrip [OF _ _ n refl, where a = demo_balance
        and p = "hd demo_candidates\<lparr>rm_MatchPriority := 0, rm_RuleID := 0\<rparr>"] t
    by (simp add: balance_resolution_def demo_candidates_def)
qed

lemma demo_request_run:
  "ResolvePlatformAssetRequest ascii_tables None (Some balance_key) (Some (\<lambda>m. Inr (map Some demo_candidates)))
     (Some demo_service) '' gpt-5'' ''/v1/Responses'' True w = (Inr (Some (balance_resolution\<lparr>gc_BillingAsset := None\<rparr>)), w)"
proof -
  let ?A = "NewAuthorizer (Some (ListModelCandidates (\<lambda>m. Inr (map Some demo_candidates))))
    (Some (Select \<lparr>sl_provider = None, sl_apiKey = Some balance_key, sl_subscriptions = Some demo_service\<rparr>))"
  have "supportsEndpoint ascii_tables [''responses''] (billingEndpointCapability ascii_tables ''/v1/Responses'')"
    by code_simp
  then have "Authorizer_Resolve ascii_tables (Some ?A) (productCoreAccessGrant balance_key)
      (productCoreRequest ascii_tables '' gpt-5'' ''/v1/Responses'' True) (w, None) =
    (Inr \<lparr>dc_Platform = to_product (hd demo_candidates), dc_BillingAsset = None\<rparr>, (w, None))"
    by (simp add: Authorizer_Resolve_def Let_def NewAuthorizer_def ListModelCandidates_def Select_def
        ResolveBillingAssetForRequest_def productCoreAccessGrant_def productCoreRequest_def balance_key_def
        demo_key_def demo_candidates_def authorized_candidates_def endpoint_candidates_def
        selectPlatformCandidate_def to_product_def)
  moreover have "ToLower ascii_tables (TrimSpace ''openai'') = ''openai''" by code_simp
  ultimately show ?thesis
    by (simp add: ResolvePlatformAssetRequest_def adapter_Resolve_def NewPlatformAssetProductCoreAdapter_def Let_def
        UsesPlatformAssetPermissions_def validateProductCorePlatform_def normalizePlatformSchedulingScope_def
        gatewayPlatformAssetContextFromDecision_def resolvedBillingAssetFromProduct_def balance_resolution_def
        to_product_def demo_candidates_def) (simp add: balance_key_def demo_key_def)
qed

theorem request_route_authorized_witness:
  "\<exists>r. ResolvePlatformAssetRequest ascii_tables None (Some balance_key) (Some (\<lambda>m. Inr (map Some demo_candidates)))
     (Some demo_service) '' gpt-5'' ''/v1/Responses'' True (demo_world 0 [demo_sub]) = (Inr (Some r), demo_world 0 [demo_sub]) \<and>
     (\<exists>c. best_candidate ascii_tables balance_key ''/v1/Responses'' (set demo_candidates) c \<and>
        gc_Platform r = Some (c\<lparr>rm_MatchPriority := 0, rm_RuleID := 0\<rparr>))"
proof -
  let ?w = "demo_world 0 [demo_sub]"
  note run = demo_request_run [of ?w]
  have "wf_store (wd_db ?w)" by (rule demo_world_wf)
  moreover have "{c. Some c \<in> set (map Some demo_candidates)} = set demo_candidates" by auto
  ultimately show ?thesis using request_route_authorized [OF _ run] run by auto
qed

end
