(* ===== verification/Log_Redact.thy ===== *)
theory Log_Redact
  imports App_Errors
begin

text \<open>
  \<open>internal/util/logredact/redact.go\<close>: the redaction of JSON values and of JSON texts. A decoded JSON
  value is a value of \<open>json\<close>; an object is the list of its members with distinct keys, in the order of
  the text (Go keeps them in a map). \<open>encoding/json\<close> is the argument \<open>C\<close> of the functions that read
  or write JSON text: \<open>js_unmarshal\<close> is \<open>json.Unmarshal\<close> into an \<open>any\<close> (it succeeds exactly on the texts
  \<open>json.Valid\<close> accepts) and \<open>js_marshal\<close> is \<open>json.Marshal\<close>. The regular expressions of the branch for
  texts that are not JSON are the argument \<open>rx\<close>.
\<close>

section \<open>Values\<close>

datatype json =
    JNull
  | JBool bool
  | JNumber string
  | JString string
  | JArray "json list"
  | JObject "(string \<times> json) list"

record json_codec =
  js_marshal :: "json \<Rightarrow> string result"
  js_unmarshal :: "string \<Rightarrow> json result"

definition maxRedactDepth :: nat where
  "maxRedactDepth = 32"

definition defaultSensitiveKeys :: "string list" where
  "defaultSensitiveKeys = [''authorization_code'', ''code'', ''code_verifier'', ''access_token'',
     ''refresh_token'', ''id_token'', ''client_secret'', ''password'']"

definition normalizeKey :: "unicode_tables \<Rightarrow> string \<Rightarrow> string" where
  "normalizeKey U key = ToLower U (TrimSpace key)"

definition buildKeySet :: "unicode_tables \<Rightarrow> string list \<Rightarrow> string set" where
  "buildKeySet U extraKeys = set defaultSensitiveKeys \<union>
     set (filter (\<lambda>k. k \<noteq> '''') (map (normalizeKey U) extraKeys))"

definition isSensitiveKey :: "unicode_tables \<Rightarrow> string \<Rightarrow> string set \<Rightarrow> bool" where
  "isSensitiveKey U key keys \<longleftrightarrow> normalizeKey U key \<in> keys"

fun redactValueWithDepth :: "unicode_tables \<Rightarrow> string set \<Rightarrow> nat \<Rightarrow> json \<Rightarrow> json" where
  "redactValueWithDepth U keys depth v =
     (if maxRedactDepth < depth then JString ''<depth limit exceeded>''
      else case v of
        JObject ps \<Rightarrow> JObject (map (\<lambda>(k, val).
          (k, if isSensitiveKey U k keys then JString ''***''
              else redactValueWithDepth U keys (Suc depth) val)) ps)
      | JArray xs \<Rightarrow> JArray (map (redactValueWithDepth U keys (Suc depth)) xs)
      | _ \<Rightarrow> v)"

declare redactValueWithDepth.simps [simp del]

text \<open>\<open>RedactMap\<close> takes the members of a map; \<open>None\<close> is the nil map.\<close>

definition RedactMap :: "unicode_tables \<Rightarrow> (string \<times> json) list option \<Rightarrow> string list \<Rightarrow> (string \<times> json) list" where
  "RedactMap U input extraKeys =
     (case input of None \<Rightarrow> []
      | Some ps \<Rightarrow> (case redactValueWithDepth U (buildKeySet U extraKeys) 0 (JObject ps) of
          JObject qs \<Rightarrow> qs | _ \<Rightarrow> []))"

definition RedactJSON :: "unicode_tables \<Rightarrow> json_codec \<Rightarrow> string \<Rightarrow> string list \<Rightarrow> string" where
  "RedactJSON U C raw extraKeys =
     (if raw = '''' then ''''
      else case js_unmarshal C raw of
        Inl err \<Rightarrow> ''<non-json payload redacted>''
      | Inr value \<Rightarrow>
          (case js_marshal C (redactValueWithDepth U (buildKeySet U extraKeys) 0 value) of
             Inl err \<Rightarrow> ''<redacted>''
           | Inr encoded \<Rightarrow> encoded))"

definition RedactText ::
  "unicode_tables \<Rightarrow> json_codec \<Rightarrow> (string list \<Rightarrow> string \<Rightarrow> string) \<Rightarrow> string \<Rightarrow> string list \<Rightarrow> string" where
  "RedactText U C rx input extraKeys =
     (let input = TrimSpace input in
      if input = '''' then ''''
      else case js_unmarshal C input of
        Inr _ \<Rightarrow> RedactJSON U C input extraKeys
      | Inl _ \<Rightarrow> rx extraKeys input)"

section \<open>What is left of a value\<close>

text \<open>Every member of every object inside a value.\<close>

fun members :: "json \<Rightarrow> (string \<times> json) list" where
  "members (JObject ps) = ps @ concat (map (\<lambda>(k, v). members v) ps)"
| "members (JArray xs) = concat (map members xs)"
| "members _ = []"

lemma redact_simps [simp]:
  "depth \<le> maxRedactDepth \<Longrightarrow> redactValueWithDepth U keys depth (JObject ps) =
     JObject (map (\<lambda>(k, val). (k, if isSensitiveKey U k keys then JString ''***''
       else redactValueWithDepth U keys (Suc depth) val)) ps)"
  "depth \<le> maxRedactDepth \<Longrightarrow> redactValueWithDepth U keys depth (JArray xs) =
     JArray (map (redactValueWithDepth U keys (Suc depth)) xs)"
  "depth \<le> maxRedactDepth \<Longrightarrow> redactValueWithDepth U keys depth (JString s) = JString s"
  "depth \<le> maxRedactDepth \<Longrightarrow> redactValueWithDepth U keys depth (JNumber s) = JNumber s"
  "depth \<le> maxRedactDepth \<Longrightarrow> redactValueWithDepth U keys depth (JBool b) = JBool b"
  "depth \<le> maxRedactDepth \<Longrightarrow> redactValueWithDepth U keys depth JNull = JNull"
  "maxRedactDepth < depth \<Longrightarrow> redactValueWithDepth U keys depth v = JString ''<depth limit exceeded>''"
  by (subst redactValueWithDepth.simps; simp)+

lemma redact_members:
  "(k, v) \<in> set (members (redactValueWithDepth U keys depth j)) \<Longrightarrow> isSensitiveKey U k keys \<Longrightarrow>
   v = JString ''***''"
proof (induction U keys depth j arbitrary: k v rule: redactValueWithDepth.induct)
  case (1 U keys depth j)
  show ?case
  proof (cases "maxRedactDepth < depth")
    case False
    then have le: "depth \<le> maxRedactDepth" by simp
    show ?thesis
    proof (cases j)
      case (JObject ps)
      then show ?thesis
        using 1 le False by (fastforce split: if_splits)
    next
      case (JArray xs)
      then show ?thesis using 1 le False by fastforce
    qed (use 1 le in auto)
  qed (use 1 in simp)
qed

lemma redact_idem:
  "redactValueWithDepth U keys depth (redactValueWithDepth U keys depth j) = redactValueWithDepth U keys depth j"
proof (induction U keys depth j rule: redactValueWithDepth.induct)
  case (1 U keys depth j)
  show ?case
  proof (cases "maxRedactDepth < depth")
    case False
    then have le: "depth \<le> maxRedactDepth" by simp
    show ?thesis
    proof (cases j)
      case (JObject ps)
      then show ?thesis using 1(2) [OF False JObject] le by (auto simp: comp_def split: prod.splits)
    next
      case (JArray xs)
      then show ?thesis using 1(1) [OF False JArray] le by (auto simp: comp_def)
    qed (use le in auto)
  qed simp
qed

text \<open>
  C39. Redacting a JSON text leaves no sensitive member readable: at every depth of the value that the
  result encodes, a member whose key is (up to case and surrounding space) one of the default
  sensitive keys or of the extra ones is the string of three stars, and redacting the value again
  changes nothing.
\<close>

theorem RedactText_hides_secrets:
  assumes "js_unmarshal C (TrimSpace text) = Inr value" "TrimSpace text \<noteq> ''''"
    and "js_marshal C (redactValueWithDepth U (buildKeySet U extra) 0 value) = Inr out"
    and "js_unmarshal C out = Inr (redactValueWithDepth U (buildKeySet U extra) 0 value)"
  shows "RedactText U C rx text extra = out \<and>
    (\<exists>red. js_unmarshal C out = Inr red \<and>
       redactValueWithDepth U (buildKeySet U extra) 0 red = red \<and>
       (\<forall>(k, v) \<in> set (members red).
          normalizeKey U k \<in> set defaultSensitiveKeys \<union> (normalizeKey U ` set extra - {''''}) \<longrightarrow>
          v = JString ''***''))"
proof -
  let ?red = "redactValueWithDepth U (buildKeySet U extra) 0 value"
  have out: "RedactText U C rx text extra = out"
    using assms(1,2,3) by (simp add: RedactText_def RedactJSON_def Let_def)
  have keys: "buildKeySet U extra = set defaultSensitiveKeys \<union> (normalizeKey U ` set extra - {''''})"
    by (auto simp: buildKeySet_def)
  have "v = JString ''***''" if "(k, v) \<in> set (members ?red)" "normalizeKey U k \<in> buildKeySet U extra" for k v
    using redact_members [OF that(1)] that(2) by (simp add: isSensitiveKey_def)
  then show ?thesis using out assms(4) redact_idem by (fastforce simp: keys)
qed

definition demo_secret :: json where
  "demo_secret = JObject [(''user'', JString ''ann''), ('' Password'', JString ''hunter2'')]"

definition demo_redacted :: json where
  "demo_redacted = JObject [(''user'', JString ''ann''), ('' Password'', JString ''***'')]"

text \<open>A codec that knows the two texts of the example.\<close>

definition demo_codec :: json_codec where
  "demo_codec = \<lparr>js_marshal = (\<lambda>v. if v = demo_secret then Inr ''s'' else if v = demo_redacted then Inr ''r''
       else Inl (Sentinel ''json: unsupported value'')),
     js_unmarshal = (\<lambda>t. if t = ''s'' then Inr demo_secret else if t = ''r'' then Inr demo_redacted
       else Inl (Sentinel ''json: invalid character''))\<rparr>"

theorem RedactText_hides_secrets_witness:
  "RedactText ascii_tables demo_codec (\<lambda>ks t. t) ''s'' [] = ''r'' \<and>
   js_unmarshal demo_codec ''r'' = Inr demo_redacted \<and>
   redactValueWithDepth ascii_tables (buildKeySet ascii_tables []) 0 demo_redacted = demo_redacted"
proof -
  have red: "redactValueWithDepth ascii_tables (buildKeySet ascii_tables []) 0 demo_secret = demo_redacted"
    by code_simp
  have t: "TrimSpace ''s'' = ''s''" by code_simp
  have u: "js_unmarshal demo_codec (TrimSpace ''s'') = Inr demo_secret"
    "js_unmarshal demo_codec ''r'' = Inr demo_redacted"
    by (simp_all add: t demo_codec_def)
  have m: "js_marshal demo_codec demo_redacted = Inr ''r''"
    by (simp add: demo_codec_def demo_redacted_def demo_secret_def)
  from RedactText_hides_secrets [of demo_codec "''s''" demo_secret ascii_tables "[]" "''r''" "\<lambda>ks t. t"]
  show ?thesis using t u m red by auto
qed

end
