(* ===== verification/Go_Text.thy ===== *)
theory Go_Text
  imports Go_Base
begin

text \<open>
  Decimal numerals (\<open>strconv.Itoa\<close>, \<open>strconv.Atoi\<close>) and UTF-8 (\<open>utf8.ValidString\<close>). A string is
  the list of its bytes.
\<close>

section \<open>Decimal numerals\<close>

definition digit_char :: "nat \<Rightarrow> char" where
  "digit_char d = char_of (48 + d)"

definition char_digit :: "char \<Rightarrow> nat option" where
  "char_digit c = (let n = (of_char c :: nat) in if 48 \<le> n \<and> n \<le> 57 then Some (n - 48) else None)"

fun nat_digits :: "nat \<Rightarrow> string" where
  "nat_digits n = (if n < 10 then [digit_char n] else nat_digits (n div 10) @ [digit_char (n mod 10)])"

declare nat_digits.simps [simp del]

definition Itoa :: "int \<Rightarrow> string" where
  "Itoa i = (if i < 0 then CHR ''-'' # nat_digits (nat (- i)) else nat_digits (nat i))"

fun digits_value :: "nat \<Rightarrow> string \<Rightarrow> nat option" where
  "digits_value acc [] = Some acc"
| "digits_value acc (c # cs) = (case char_digit c of None \<Rightarrow> None | Some d \<Rightarrow> digits_value (10 * acc + d) cs)"

definition atoi_unsigned :: "string \<Rightarrow> int option" where
  "atoi_unsigned s = (if s = [] then None else map_option int (digits_value 0 s))"

text \<open>A sign is optional; a value outside 64 bits is an error.\<close>

definition Atoi :: "string \<Rightarrow> int option" where
  "Atoi s = Option.bind
     (case s of [] \<Rightarrow> None
      | c # cs \<Rightarrow> if c = CHR ''-'' then map_option uminus (atoi_unsigned cs)
                  else if c = CHR ''+'' then atoi_unsigned cs else atoi_unsigned s)
     (\<lambda>v. if min_int64 \<le> v \<and> v \<le> max_int64 then Some v else None)"

lemma char_digit_char: "d < 10 \<Longrightarrow> char_digit (digit_char d) = Some d"
  by (simp add: char_digit_def digit_char_def Let_def)

lemma digits_value_append:
  "digits_value acc (xs @ ys) = Option.bind (digits_value acc xs) (\<lambda>a. digits_value a ys)"
  by (induction xs arbitrary: acc) (auto split: option.splits)

lemma digits_value_nat_digits: "digits_value 0 (nat_digits n) = Some n"
proof (induction n rule: nat_digits.induct)
  case (1 n)
  then show ?case
    by (subst nat_digits.simps) (auto simp: digits_value_append char_digit_char)
qed

lemma nat_digits_chars: "c \<in> set (nat_digits n) \<Longrightarrow> \<exists>d < 10. c = digit_char d"
proof (induction n rule: nat_digits.induct)
  case (1 n)
  have *: "nat_digits n = (if n < 10 then [digit_char n] else nat_digits (n div 10) @ [digit_char (n mod 10)])"
    by (rule nat_digits.simps)
  show ?case
  proof (cases "n < 10")
    case False
    then have "c \<in> set (nat_digits (n div 10)) \<or> c = digit_char (n mod 10)" using "1.prems" * by auto
    then show ?thesis using "1.IH" [OF False] by (auto intro: exI [of _ "n mod 10"])
  qed (use "1.prems" * in auto)
qed

lemma nat_digits_not_Nil [simp]: "nat_digits n \<noteq> []"
  by (subst nat_digits.simps) simp

lemma digit_char_sign: "d < 10 \<Longrightarrow> digit_char d \<noteq> CHR ''-'' \<and> digit_char d \<noteq> CHR ''+''"
  using char_digit_char [of d] by (auto simp: char_digit_def Let_def)

lemma Atoi_Itoa: "min_int64 \<le> i \<Longrightarrow> i \<le> max_int64 \<Longrightarrow> Atoi (Itoa i) = Some i"
proof -
  assume range: "min_int64 \<le> i" "i \<le> max_int64"
  obtain c cs where cs: "nat_digits (nat i) = c # cs" by (cases "nat_digits (nat i)") auto
  then have "c \<noteq> CHR ''-''" "c \<noteq> CHR ''+''"
    using nat_digits_chars [of c "nat i"] digit_char_sign by auto
  then show ?thesis
    using range cs digits_value_nat_digits [of "nat i"] digits_value_nat_digits [of "nat (- i)"]
    by (auto simp: Atoi_def Itoa_def atoi_unsigned_def simp del: digits_value.simps)
qed

text \<open>A string of printable ASCII characters has nothing to trim.\<close>

definition graphic_char :: "char \<Rightarrow> bool" where
  "graphic_char c \<longleftrightarrow> 33 \<le> (of_char c :: nat) \<and> (of_char c :: nat) \<le> 126"

lemma space_runes_not_graphic:
  "list_all (\<lambda>p. p \<noteq> [] \<and> \<not> graphic_char (hd p) \<and> \<not> graphic_char (last p)) space_runes"
  by code_simp

lemma HasPrefix_hd: "HasPrefix s p \<Longrightarrow> p \<noteq> [] \<Longrightarrow> s \<noteq> [] \<and> hd s = hd p"
  by (auto simp: HasPrefix_iff)

lemma strip_one_graphic:
  assumes "list_all graphic_char s"
  shows "strip_one space_runes s = None" "strip_one (map rev space_runes) s = None"
proof -
  have hd: "graphic_char (hd s)" if "s \<noteq> []" using that assms by (cases s) auto
  have no: "\<not> HasPrefix s p" if "p \<noteq> []" "\<not> graphic_char (hd p)" for p
    using HasPrefix_hd [of s p] hd that by auto
  have runes: "p \<noteq> []" "\<not> graphic_char (hd p)" "\<not> graphic_char (hd (rev p))" if "p \<in> set space_runes" for p
    using space_runes_not_graphic that by (simp_all add: list_all_iff hd_rev)
  show "strip_one space_runes s = None"
    unfolding strip_one_None_iff using no runes by blast
  show "strip_one (map rev space_runes) s = None"
    unfolding strip_one_None_iff set_map using no runes(3) by blast
qed

lemma TrimSpace_graphic: "list_all graphic_char s \<Longrightarrow> TrimSpace s = s"
  by (simp add: TrimSpace_def strip_all_id strip_one_graphic)

lemma nat_digits_graphic: "list_all graphic_char (nat_digits n)"
  using nat_digits_chars [of _ n] by (fastforce simp: list_all_iff graphic_char_def digit_char_def)

text \<open>Trimming keeps every printable ASCII character.\<close>

lemma strip_one_filter:
  "list_all (\<lambda>p. filter graphic_char p = []) ps \<Longrightarrow> strip_one ps s = Some r \<Longrightarrow>
   filter graphic_char r = filter graphic_char s"
proof (induction ps)
  case (Cons p ps)
  then show ?case
    by (cases "p \<noteq> [] \<and> HasPrefix s p") (auto simp: HasPrefix_iff)
qed simp

lemma strip_all_filter:
  "list_all (\<lambda>p. filter graphic_char p = []) ps \<Longrightarrow> filter graphic_char (strip_all ps s) = filter graphic_char s"
proof (induction ps s rule: strip_all.induct)
  case (1 ps s)
  show ?case
  proof (cases "strip_one ps s")
    case None
    then show ?thesis by (simp add: strip_all_id)
  next
    case (Some r)
    have "strip_all ps s = strip_all ps r" by (subst strip_all.simps) (simp add: Some)
    then show ?thesis using 1(1) [OF Some 1(2)] strip_one_filter [OF 1(2) Some] by simp
  qed
qed

lemma TrimSpace_filter: "filter graphic_char (TrimSpace s) = filter graphic_char s"
proof -
  have "list_all (\<lambda>p. filter graphic_char p = []) space_runes"
    "list_all (\<lambda>p. filter graphic_char p = []) (map rev space_runes)" by code_simp+
  then show ?thesis by (simp add: TrimSpace_def strip_all_filter rev_filter [symmetric])
qed

lemma TrimSpace_not_Nil: "graphic_char c \<Longrightarrow> c \<in> set s \<Longrightarrow> TrimSpace s \<noteq> []"
  using TrimSpace_filter [of s] by (auto simp: filter_empty_conv dest!: arg_cong [of _ _ set])

text \<open>A printable prefix keeps what was trimmed trimmed.\<close>

lemma TrimSpace_prefix:
  assumes p: "p \<noteq> []" "list_all graphic_char p"
  shows "TrimSpace (p @ TrimSpace b) = p @ TrimSpace b"
proof -
  let ?t = "TrimSpace b" and ?ps = "map rev space_runes"
  have none: "strip_one ?ps (rev ?t) = None" unfolding TrimSpace_def rev_rev_ident by (rule strip_all_fix)
  have runes: "\<not> graphic_char (hd q)" "q \<noteq> []" if "q \<in> set space_runes" for q
    using space_runes_not_graphic that by (simp_all add: list_all_iff)
  have plain: "\<not> graphic_char c" if "q \<in> set ?ps" "c \<in> set q" for q c
  proof -
    have "list_all (\<lambda>q. list_all (\<lambda>c. \<not> graphic_char c) q) ?ps" by code_simp
    then show ?thesis using that by (auto simp: list_all_iff)
  qed
  have "strip_one space_runes (p @ ?t) = None"
    unfolding strip_one_None_iff using HasPrefix_hd [of "p @ ?t"] runes p by (metis append_is_Nil_conv hd_append2 list.pred_inject(2) list.exhaust_sel)
  moreover have "strip_one ?ps (rev (p @ ?t)) = None"
    unfolding strip_one_None_iff
  proof (intro ballI impI notI)
    fix q assume q: "q \<in> set ?ps" "q \<noteq> []" "HasPrefix (rev (p @ ?t)) q"
    then obtain r where r: "rev ?t @ rev p = q @ r" by (auto simp: HasPrefix_iff)
    show False
    proof (cases "length q \<le> length (rev ?t)")
      case True
      then have "HasPrefix (rev ?t) q" using r by (auto simp: HasPrefix_def) (metis append_eq_conv_conj length_rev take_append diff_is_0_eq take0 append_Nil2)
      then show False using none q unfolding strip_one_None_iff by blast
    next
      case False
      then obtain z where z: "q = rev ?t @ z" "rev p = z @ r" "z \<noteq> []"
        using r by (auto simp: append_eq_append_conv2 dest: arg_cong [where f = length])
      then have "hd z \<in> set p" "hd z \<in> set q"
        by (metis hd_in_set Un_iff set_append set_rev, simp)
      then show False using plain q(1) p(2) by (auto simp: list_all_iff)
    qed
  qed
  ultimately show ?thesis by (simp add: TrimSpace_def [of "p @ ?t"] strip_all_id)
qed

section \<open>UTF-8\<close>

definition byte_in :: "char \<Rightarrow> nat \<Rightarrow> nat \<Rightarrow> bool" where
  "byte_in c lo hi \<longleftrightarrow> lo \<le> of_char c \<and> of_char c \<le> hi"

text \<open>The length of the rune at the front of a string, zero when there is no valid one.\<close>

definition rune_size :: "string \<Rightarrow> nat" where
  "rune_size s = (case s of
     [] \<Rightarrow> 0
   | a # r \<Rightarrow> (let b = (of_char a :: nat) in
       if b < 0x80 then 1
       else if 0xC2 \<le> b \<and> b \<le> 0xDF then
         (case r of c1 # _ \<Rightarrow> if byte_in c1 0x80 0xBF then 2 else 0 | _ \<Rightarrow> 0)
       else if 0xE0 \<le> b \<and> b \<le> 0xEF then
         (case r of c1 # c2 # _ \<Rightarrow>
            if byte_in c1 (if b = 0xE0 then 0xA0 else 0x80) (if b = 0xED then 0x9F else 0xBF) \<and>
               byte_in c2 0x80 0xBF then 3 else 0 | _ \<Rightarrow> 0)
       else if 0xF0 \<le> b \<and> b \<le> 0xF4 then
         (case r of c1 # c2 # c3 # _ \<Rightarrow>
            if byte_in c1 (if b = 0xF0 then 0x90 else 0x80) (if b = 0xF4 then 0x8F else 0xBF) \<and>
               byte_in c2 0x80 0xBF \<and> byte_in c3 0x80 0xBF then 4 else 0 | _ \<Rightarrow> 0)
       else 0))"

lemma rune_size_bounds: "rune_size s \<le> 4" "rune_size s \<le> length s"
  by (auto simp: rune_size_def Let_def split: list.splits)

function ValidString :: "string \<Rightarrow> bool" where
  "ValidString s = (if s = [] then True else if rune_size s = 0 then False
     else ValidString (drop (rune_size s) s))"
  by pat_completeness auto
termination
proof (relation "measure length")
  fix s :: string
  assume "s \<noteq> []" "rune_size s \<noteq> 0"
  then show "(drop (rune_size s) s, s) \<in> measure length" by (cases s) auto
qed simp

declare ValidString.simps [simp del]

lemma ValidString_Nil [simp]: "ValidString []"
  by (simp add: ValidString.simps)

lemma rune_size_take: "rune_size s \<le> k \<Longrightarrow> rune_size s \<noteq> 0 \<Longrightarrow> rune_size (take k s) = rune_size s"
proof -
  assume a: "rune_size s \<le> k" "rune_size s \<noteq> 0"
  show ?thesis
  proof (cases s)
    case s: (Cons x r)
    obtain k' where k: "k = Suc k'" using a by (cases k) auto
    show ?thesis using a unfolding s k
      by (cases r; cases "tl r"; cases "tl (tl r)"; cases k'; cases "k' - 1"; cases "k' - 2")
        (auto simp: rune_size_def Let_def split: if_splits)
  qed (use a in \<open>simp add: rune_size_def\<close>)
qed

text \<open>Cutting valid text anywhere, a valid prefix is at most three bytes shorter.\<close>

lemma valid_prefix_near:
  "ValidString s \<Longrightarrow> k \<le> length s \<Longrightarrow> \<exists>j \<le> k. k - j \<le> 3 \<and> ValidString (take j s)"
proof (induction s arbitrary: k rule: ValidString.induct)
  case (1 s)
  show ?case
  proof (cases "s = []")
    case False
    then have n: "rune_size s \<noteq> 0" "ValidString (drop (rune_size s) s)"
      using "1.prems"(1) by (simp_all add: ValidString.simps [of s] split: if_splits)
    show ?thesis
    proof (cases "rune_size s \<le> k")
      case True
      then have "k - rune_size s \<le> length (drop (rune_size s) s)" using "1.prems"(2) by simp
      from "1.IH" [OF False n(1) n(2) this] obtain j where
        j: "j \<le> k - rune_size s" "k - rune_size s - j \<le> 3" "ValidString (take j (drop (rune_size s) s))" by blast
      let ?t = "take (rune_size s + j) s"
      have "rune_size ?t = rune_size s" using n(1) by (intro rune_size_take) simp_all
      moreover have "?t \<noteq> []" using False n(1) by simp
      ultimately have "ValidString ?t"
        using j(3) n(1) by (subst ValidString.simps) (simp add: take_drop add.commute)
      then show ?thesis using j(1,2) True by (intro exI [of _ "rune_size s + j"]) simp
    next
      case small: False
      then have "k \<le> 3" using rune_size_bounds(1) [of s] by simp
      then show ?thesis by (intro exI [of _ 0]) simp
    qed
  qed (use "1.prems" in simp)
qed

end
