(* ===== verification/Idempotency.thy ===== *)
theory Idempotency
  imports Sql_World Log_Redact Go_Text Go_Float "HOL-Library.Word"
begin

text \<open>
  \<open>internal/service/idempotency.go\<close>, the counters of \<open>idempotency_observability.go\<close>,
  \<open>internal/repository/idempotency_repo.go\<close> and the sweep of \<open>idempotency_cleanup_service.go\<close>: a request
  with an idempotency key claims a row of the table, runs its handler only if it got the row, and
  stores the outcome, which later requests with the same key and payload get back. The state is the
  table with its sequence and the process's counters; the handler's own state is a separate value
  that only the handler changes. Log lines are left out. SHA-256 in hexadecimal and \<open>json.Marshal\<close> of the
  handler's values are arguments (\<open>en_sha\<close>, \<open>en_marshal\<close>). A value that is too long for its column is one of
  the failures a statement may have.
\<close>

section \<open>Types\<close>

definition IdempotencyStatusProcessing :: string where
  "IdempotencyStatusProcessing = ''processing''"
definition IdempotencyStatusSucceeded :: string where
  "IdempotencyStatusSucceeded = ''succeeded''"
definition IdempotencyStatusFailedRetryable :: string where
  "IdempotencyStatusFailedRetryable = ''failed_retryable''"

lemmas status_defs = IdempotencyStatusProcessing_def IdempotencyStatusSucceeded_def
  IdempotencyStatusFailedRetryable_def

definition ErrIdempotencyKeyRequired :: go_error where
  "ErrIdempotencyKeyRequired = BadRequest ''IDEMPOTENCY_KEY_REQUIRED'' ''idempotency key is required''"
definition ErrIdempotencyKeyInvalid :: go_error where
  "ErrIdempotencyKeyInvalid = BadRequest ''IDEMPOTENCY_KEY_INVALID'' ''idempotency key is invalid''"
definition ErrIdempotencyKeyConflict :: go_error where
  "ErrIdempotencyKeyConflict = Conflict ''IDEMPOTENCY_KEY_CONFLICT'' ''idempotency key reused with different payload''"
definition ErrIdempotencyInProgress :: go_error where
  "ErrIdempotencyInProgress = Conflict ''IDEMPOTENCY_IN_PROGRESS'' ''idempotent request is still processing''"
definition ErrIdempotencyRetryBackoff :: go_error where
  "ErrIdempotencyRetryBackoff = Conflict ''IDEMPOTENCY_RETRY_BACKOFF'' ''idempotent request is in retry backoff window''"
definition ErrIdempotencyStoreUnavail :: go_error where
  "ErrIdempotencyStoreUnavail = ServiceUnavailable ''IDEMPOTENCY_STORE_UNAVAILABLE'' ''idempotency store unavailable''"
definition ErrIdempotencyInvalidPayload :: go_error where
  "ErrIdempotencyInvalidPayload = BadRequest ''IDEMPOTENCY_PAYLOAD_INVALID'' ''failed to normalize request payload''"

record IdempotencyRecord =
  ir_ID :: int64
  ir_Scope :: string
  ir_IdempotencyKeyHash :: string
  ir_RequestFingerprint :: string
  ir_Status :: string
  ir_ResponseStatus :: "int option"
  ir_ResponseBody :: "string option"
  ir_ErrorReason :: "string option"
  ir_LockedUntil :: "go_time option"
  ir_ExpiresAt :: go_time
  ir_CreatedAt :: go_time
  ir_UpdatedAt :: go_time

record IdempotencyConfig =
  ic_DefaultTTL :: duration
  ic_SystemOperationTTL :: duration
  ic_ProcessingTimeout :: duration
  ic_FailedRetryBackoff :: duration
  ic_MaxStoredResponseLen :: int
  ic_ObserveOnly :: bool

definition DefaultIdempotencyConfig :: IdempotencyConfig where
  "DefaultIdempotencyConfig = \<lparr>ic_DefaultTTL = 24 * hour, ic_SystemOperationTTL = 1 * hour,
     ic_ProcessingTimeout = 30 * second, ic_FailedRetryBackoff = 5 * second,
     ic_MaxStoredResponseLen = 64 * 1024, ic_ObserveOnly = True\<rparr>"

record 'v IdempotencyExecuteOptions =
  io_Scope :: string
  io_ActorScope :: string
  io_Method :: string
  io_Route :: string
  io_IdempotencyKey :: string
  io_Payload :: 'v
  io_TTL :: duration
  io_RequireKey :: bool

text \<open>\<open>Data\<close> is a value of the handler (\<open>Inl\<close>) or a decoded stored response (\<open>Inr\<close>).\<close>

record 'v IdempotencyExecuteResult =
  er_Data :: "'v + json"
  er_Replayed :: bool

text \<open>\<open>co_repo\<close> is false for a coordinator without a repository.\<close>

record IdempotencyCoordinator =
  co_repo :: bool
  co_cfg :: IdempotencyConfig

record idempotencyMetrics =
  im_claimTotal :: "64 word"
  im_replayTotal :: "64 word"
  im_conflictTotal :: "64 word"
  im_retryBackoffTotal :: "64 word"
  im_processingDurationCount :: "64 word"
  im_processingDurationMicros :: "64 word"
  im_storeUnavailableTotal :: "64 word"

record idem_store =
  is_rows :: "IdempotencyRecord list"
  is_next_id :: int64
  is_metrics :: idempotencyMetrics

type_synonym idem_world = "idem_store world"

record 'v idem_env =
  en_tables :: unicode_tables
  en_codec :: json_codec
  en_rx :: "string list \<Rightarrow> string \<Rightarrow> string"
  en_marshal :: "'v \<Rightarrow> string result"
  en_sha :: "string \<Rightarrow> string"

section \<open>Counters\<close>

definition bump :: "(idempotencyMetrics \<Rightarrow> idempotencyMetrics) \<Rightarrow> idem_world \<Rightarrow> idem_world" where
  "bump f w = w\<lparr>wd_db := (wd_db w)\<lparr>is_metrics := f (is_metrics (wd_db w))\<rparr>\<rparr>"

definition recordIdempotencyClaim :: "idem_world \<Rightarrow> idem_world" where
  "recordIdempotencyClaim = bump (\<lambda>m. m\<lparr>im_claimTotal := im_claimTotal m + 1\<rparr>)"
definition recordIdempotencyReplay :: "idem_world \<Rightarrow> idem_world" where
  "recordIdempotencyReplay = bump (\<lambda>m. m\<lparr>im_replayTotal := im_replayTotal m + 1\<rparr>)"
definition recordIdempotencyConflict :: "idem_world \<Rightarrow> idem_world" where
  "recordIdempotencyConflict = bump (\<lambda>m. m\<lparr>im_conflictTotal := im_conflictTotal m + 1\<rparr>)"
definition recordIdempotencyRetryBackoff :: "idem_world \<Rightarrow> idem_world" where
  "recordIdempotencyRetryBackoff = bump (\<lambda>m. m\<lparr>im_retryBackoffTotal := im_retryBackoffTotal m + 1\<rparr>)"
definition recordIdempotencyProcessingDuration :: "duration \<Rightarrow> idem_world \<Rightarrow> idem_world" where
  "recordIdempotencyProcessingDuration d =
     (let d = (if d < 0 then 0 else d) in
      bump (\<lambda>m. m\<lparr>im_processingDurationCount := im_processingDurationCount m + 1,
        im_processingDurationMicros := im_processingDurationMicros m + word_of_int (d div 1000)\<rparr>))"
definition RecordIdempotencyStoreUnavailable :: "idem_world \<Rightarrow> idem_world" where
  "RecordIdempotencyStoreUnavailable = bump (\<lambda>m. m\<lparr>im_storeUnavailableTotal := im_storeUnavailableTotal m + 1\<rparr>)"

section \<open>The repository\<close>

definition same_key :: "string \<Rightarrow> string \<Rightarrow> IdempotencyRecord \<Rightarrow> bool" where
  "same_key scope keyHash r \<longleftrightarrow> ir_Scope r = scope \<and> ir_IdempotencyKeyHash r = keyHash"

text \<open>The insert takes a number of the sequence even when the key is taken.\<close>

definition CreateProcessing ::
  "IdempotencyRecord option \<Rightarrow> idem_world \<Rightarrow> (bool \<times> IdempotencyRecord option) result \<times> idem_world" where
  "CreateProcessing rec w =
     (case rec of None \<Rightarrow> (Inr (False, None), w)
      | Some r \<Rightarrow>
        let now = now_of w; w = tick w in
        (case sql_exec (\<lambda>d. let d' = d\<lparr>is_next_id := is_next_id d + 1\<rparr> in
             if list_ex (same_key (ir_Scope r) (ir_IdempotencyKeyHash r)) (is_rows d) then (Inl sqlErrNoRows, d')
             else (Inr (is_next_id d), d'\<lparr>is_rows := is_rows d @ [r\<lparr>ir_ID := is_next_id d,
               ir_ResponseStatus := None, ir_ResponseBody := None, ir_ErrorReason := None,
               ir_CreatedAt := now, ir_UpdatedAt := now\<rparr>]\<rparr>)) w of
           (Inl err, w) \<Rightarrow> if errors_is err sqlErrNoRows then (Inr (False, Some r), w) else (Inl err, w)
         | (Inr i, w) \<Rightarrow> (Inr (True, Some (r\<lparr>ir_ID := i, ir_CreatedAt := now, ir_UpdatedAt := now\<rparr>)), w)))"

definition GetByScopeAndKeyHash ::
  "string \<Rightarrow> string \<Rightarrow> idem_world \<Rightarrow> IdempotencyRecord option result \<times> idem_world" where
  "GetByScopeAndKeyHash scope keyHash w =
     (case sql_exec (\<lambda>d. case find (same_key scope keyHash) (is_rows d) of
             None \<Rightarrow> (Inl sqlErrNoRows, d) | Some r \<Rightarrow> (Inr r, d)) w of
        (Inl err, w) \<Rightarrow> if errors_is err sqlErrNoRows then (Inr None, w) else (Inl err, w)
      | (Inr r, w) \<Rightarrow> (Inr (Some r), w))"

definition update_rows ::
  "(IdempotencyRecord \<Rightarrow> bool) \<Rightarrow> (IdempotencyRecord \<Rightarrow> IdempotencyRecord) \<Rightarrow> idem_world \<Rightarrow> int result \<times> idem_world" where
  "update_rows p f w =
     (let now = now_of w; w = tick w; g = (\<lambda>r. (f r)\<lparr>ir_UpdatedAt := now\<rparr>) in
      sql_exec (\<lambda>d. (Inr (int (length (filter p (is_rows d)))),
        d\<lparr>is_rows := map (\<lambda>r. if p r then g r else r) (is_rows d)\<rparr>)) w)"

definition affected_some :: "int result \<times> idem_world \<Rightarrow> bool result \<times> idem_world" where
  "affected_some x = apfst (map_sum (\<lambda>e. e) (\<lambda>n. 0 < n)) x"

definition reclaimable :: "int64 \<Rightarrow> string \<Rightarrow> go_time \<Rightarrow> IdempotencyRecord \<Rightarrow> bool" where
  "reclaimable rid fromStatus now r \<longleftrightarrow> ir_ID r = rid \<and> ir_Status r = fromStatus \<and>
     (case ir_LockedUntil r of None \<Rightarrow> True | Some l \<Rightarrow> l \<le> now)"

definition TryReclaim ::
  "int64 \<Rightarrow> string \<Rightarrow> go_time \<Rightarrow> go_time \<Rightarrow> go_time \<Rightarrow> idem_world \<Rightarrow> bool result \<times> idem_world" where
  "TryReclaim rid fromStatus now newLockedUntil newExpiresAt w =
     affected_some (update_rows (reclaimable rid fromStatus now)
       (\<lambda>r. r\<lparr>ir_Status := IdempotencyStatusProcessing, ir_LockedUntil := Some newLockedUntil,
          ir_ErrorReason := None, ir_ExpiresAt := newExpiresAt\<rparr>) w)"

definition ExtendProcessingLock ::
  "int64 \<Rightarrow> string \<Rightarrow> go_time \<Rightarrow> go_time \<Rightarrow> idem_world \<Rightarrow> bool result \<times> idem_world" where
  "ExtendProcessingLock rid requestFingerprint newLockedUntil newExpiresAt w =
     affected_some (update_rows (\<lambda>r. ir_ID r = rid \<and> ir_Status r = IdempotencyStatusProcessing \<and>
         ir_RequestFingerprint r = requestFingerprint)
       (\<lambda>r. r\<lparr>ir_LockedUntil := Some newLockedUntil, ir_ExpiresAt := newExpiresAt\<rparr>) w)"

definition MarkSucceeded ::
  "int64 \<Rightarrow> int \<Rightarrow> string \<Rightarrow> go_time \<Rightarrow> idem_world \<Rightarrow> go_error option \<times> idem_world" where
  "MarkSucceeded rid responseStatus responseBody expiresAt w =
     apfst (case_sum Some (\<lambda>_. None)) (update_rows (\<lambda>r. ir_ID r = rid)
       (\<lambda>r. r\<lparr>ir_Status := IdempotencyStatusSucceeded, ir_ResponseStatus := Some responseStatus,
          ir_ResponseBody := Some responseBody, ir_ErrorReason := None, ir_LockedUntil := None,
          ir_ExpiresAt := expiresAt\<rparr>) w)"

definition MarkFailedRetryable ::
  "int64 \<Rightarrow> string \<Rightarrow> go_time \<Rightarrow> go_time \<Rightarrow> idem_world \<Rightarrow> go_error option \<times> idem_world" where
  "MarkFailedRetryable rid errorReason lockedUntil expiresAt w =
     apfst (case_sum Some (\<lambda>_. None)) (update_rows (\<lambda>r. ir_ID r = rid)
       (\<lambda>r. r\<lparr>ir_Status := IdempotencyStatusFailedRetryable, ir_ErrorReason := Some errorReason,
          ir_LockedUntil := Some lockedUntil, ir_ExpiresAt := expiresAt\<rparr>) w)"

definition expires_before :: "IdempotencyRecord \<Rightarrow> IdempotencyRecord \<Rightarrow> bool" where
  "expires_before a b \<longleftrightarrow> ir_ExpiresAt a < ir_ExpiresAt b"

definition DeleteExpired :: "go_time \<Rightarrow> int \<Rightarrow> idem_world \<Rightarrow> int result \<times> idem_world" where
  "DeleteExpired now limit w =
     (let limit = (if limit \<le> 0 then 500 else limit) in
      sql_exec (\<lambda>d. let victims = map ir_ID (take (nat limit)
             (stable_sort expires_before (filter (\<lambda>r. ir_ExpiresAt r \<le> now) (is_rows d)))) in
         (Inr (int (length (filter (\<lambda>r. ir_ID r \<in> set victims) (is_rows d)))),
          d\<lparr>is_rows := filter (\<lambda>r. ir_ID r \<notin> set victims) (is_rows d)\<rparr>)) w)"

definition cleanupOnce :: "int \<Rightarrow> idem_world \<Rightarrow> idem_world" where
  "cleanupOnce batch w = snd (DeleteExpired (now_of w) batch (tick w))"

section \<open>Keys, fingerprints and stored responses\<close>

text \<open>The range over runes sees a byte outside ASCII as a rune above 126.\<close>

definition NormalizeIdempotencyKey :: "string \<Rightarrow> string result" where
  "NormalizeIdempotencyKey raw =
     (let key = TrimSpace raw in
      if key = '''' then Inr ''''
      else if 128 < length key then Inl ErrIdempotencyKeyInvalid
      else if list_ex (\<lambda>c. (of_char c :: nat) < 33 \<or> 126 < (of_char c :: nat)) key then Inl ErrIdempotencyKeyInvalid
      else Inr key)"

definition HashIdempotencyKey :: "'v idem_env \<Rightarrow> string \<Rightarrow> string" where
  "HashIdempotencyKey E key = en_sha E key"

definition newline :: string where
  "newline = [CHR 0x0A]"

definition BuildIdempotencyFingerprint :: "'v idem_env \<Rightarrow> string \<Rightarrow> string \<Rightarrow> string \<Rightarrow> 'v \<Rightarrow> string result" where
  "BuildIdempotencyFingerprint E method route actorScope payload =
     (let method = (if method = '''' then ''POST'' else method);
          route = (if route = '''' then ''/'' else route);
          actorScope = (if actorScope = '''' then ''anonymous'' else actorScope) in
      case en_marshal E payload of
        Inl err \<Rightarrow> Inl (WithCause ErrIdempotencyInvalidPayload (Some err))
      | Inr raw \<Rightarrow> Inr (en_sha E (ToUpper (en_tables E) method @ newline @ route @ newline @ actorScope @ newline @ raw)))"

definition RetryAfterSecondsFromError :: "go_error \<Rightarrow> int" where
  "RetryAfterSecondsFromError err =
     (case as_application err of
        Some (Application st _) \<Rightarrow>
          (case st_Metadata st of None \<Rightarrow> 0
           | Some md \<Rightarrow>
             (case map_of md ''retry_after'' of None \<Rightarrow> 0
              | Some v \<Rightarrow> let v = TrimSpace v in
                  if v = '''' then 0
                  else (case Atoi v of None \<Rightarrow> 0 | Some seconds \<Rightarrow> if seconds \<le> 0 then 0 else seconds)))
      | _ \<Rightarrow> 0)"

text \<open>
  \<open>Duration.Seconds\<close>, and the conversion of a \<open>float64\<close> to \<open>int\<close>, which on amd64 gives the least
  integer when the value does not fit.
\<close>

definition Seconds :: "duration \<Rightarrow> float64" where
  "Seconds d = f_add (Fin (of_int (go_quot d second))) (f_div (Fin (of_int (go_rem d second))) (Fin 1000000000))"

definition float_to_int :: "float64 \<Rightarrow> int" where
  "float_to_int x = (let v = f_trunc x in if min_int64 \<le> v \<and> v \<le> max_int64 then v else min_int64)"

definition conflictWithRetryAfter :: "go_error \<Rightarrow> go_time option \<Rightarrow> go_time \<Rightarrow> go_error" where
  "conflictWithRetryAfter base lockedUntil now =
     (case lockedUntil of None \<Rightarrow> base
      | Some l \<Rightarrow> let sec = float_to_int (Seconds (time_sub l now)); sec = (if sec \<le> 0 then 1 else sec) in
          WithMetadata base (Some [(''retry_after'', Itoa sec)]))"

fun truncate_loop :: "string \<Rightarrow> nat \<Rightarrow> nat" where
  "truncate_loop s 0 = 0"
| "truncate_loop s (Suc n) = (if \<not> ValidString (take (Suc n) s) then truncate_loop s n else Suc n)"

definition truncateUTF8 :: "string \<Rightarrow> int \<Rightarrow> string" where
  "truncateUTF8 s maxBytes =
     (if maxBytes \<le> 0 \<or> int (length s) \<le> maxBytes then s
      else take (truncate_loop s (nat maxBytes)) s)"

definition marshalStoredResponse :: "'v idem_env \<Rightarrow> IdempotencyConfig \<Rightarrow> 'v \<Rightarrow> string result" where
  "marshalStoredResponse E cfg data =
     (case en_marshal E data of
        Inl err \<Rightarrow> Inl err
      | Inr raw \<Rightarrow>
          let redacted = RedactText (en_tables E) (en_codec E) (en_rx E) raw [] in
          if 0 < ic_MaxStoredResponseLen cfg \<and> ic_MaxStoredResponseLen cfg < int (length redacted)
          then Inr (truncateUTF8 redacted (ic_MaxStoredResponseLen cfg) @ ''...(truncated)'')
          else Inr redacted)"

definition decodeStoredResponse :: "'v idem_env \<Rightarrow> string option \<Rightarrow> json result" where
  "decodeStoredResponse E stored =
     (case stored of None \<Rightarrow> Inr (JObject [])
      | Some s \<Rightarrow>
          if TrimSpace s = '''' then Inr (JObject [])
          else (case js_unmarshal (en_codec E) s of
                  Inl err \<Rightarrow> Inl (Wrapped ''decode stored response'' err)
                | Inr out \<Rightarrow> Inr out))"

section \<open>Executing a request\<close>

text \<open>
  What a request finds for a key that is already in the table: the response to replay, or the row it
  has taken over.
\<close>

datatype claim = Claimed int64 | Replay json

definition unavailable :: "go_error option \<Rightarrow> idem_world \<Rightarrow> 'a result \<times> idem_world" where
  "unavailable cause w =
     (Inl (case cause of None \<Rightarrow> ErrIdempotencyStoreUnavail | Some err \<Rightarrow> WithCause ErrIdempotencyStoreUnavail (Some err)),
      RecordIdempotencyStoreUnavailable w)"

definition claim_by_status ::
  "'v idem_env \<Rightarrow> IdempotencyRecord \<Rightarrow> go_time \<Rightarrow> go_time \<Rightarrow> go_time \<Rightarrow> idem_world \<Rightarrow> claim result \<times> idem_world" where
  "claim_by_status E existing now lockedUntil expiresAt w =
     (if ir_Status existing = IdempotencyStatusSucceeded then
        (case decodeStoredResponse E (ir_ResponseBody existing) of
           Inl parseErr \<Rightarrow> unavailable (Some parseErr) w
         | Inr data \<Rightarrow> (Inr (Replay data), recordIdempotencyReplay w))
      else if ir_Status existing = IdempotencyStatusProcessing then
        (Inl (conflictWithRetryAfter ErrIdempotencyInProgress (ir_LockedUntil existing) now), recordIdempotencyConflict w)
      else if ir_Status existing = IdempotencyStatusFailedRetryable then
        (if (case ir_LockedUntil existing of None \<Rightarrow> False | Some l \<Rightarrow> now < l) then
           (Inl (conflictWithRetryAfter ErrIdempotencyRetryBackoff (ir_LockedUntil existing) now),
            recordIdempotencyRetryBackoff (recordIdempotencyConflict w))
         else (case TryReclaim (ir_ID existing) IdempotencyStatusFailedRetryable now lockedUntil expiresAt w of
             (Inl reclaimErr, w) \<Rightarrow> unavailable (Some reclaimErr) w
           | (Inr taken, w) \<Rightarrow>
               if \<not> taken then
                 (Inl (conflictWithRetryAfter ErrIdempotencyInProgress (ir_LockedUntil existing) now),
                  recordIdempotencyConflict w)
               else (Inr (Claimed (ir_ID existing)), recordIdempotencyClaim w)))
      else (Inl ErrIdempotencyKeyConflict, recordIdempotencyConflict w))"

definition claim_existing ::
  "'v idem_env \<Rightarrow> string \<Rightarrow> string \<Rightarrow> string \<Rightarrow> go_time \<Rightarrow> go_time \<Rightarrow> go_time \<Rightarrow> idem_world
    \<Rightarrow> claim result \<times> idem_world" where
  "claim_existing E scope keyHash fingerprint now lockedUntil expiresAt w =
     (case GetByScopeAndKeyHash scope keyHash w of
        (Inl getErr, w) \<Rightarrow> unavailable (Some getErr) w
      | (Inr None, w) \<Rightarrow> unavailable None w
      | (Inr (Some existing), w) \<Rightarrow>
          if ir_RequestFingerprint existing \<noteq> fingerprint
          then (Inl ErrIdempotencyKeyConflict, recordIdempotencyConflict w)
          else if \<not> now < ir_ExpiresAt existing then
            (case TryReclaim (ir_ID existing) (ir_Status existing) now lockedUntil expiresAt w of
               (Inl reclaimErr, w) \<Rightarrow> unavailable (Some reclaimErr) w
             | (Inr taken, w) \<Rightarrow>
                 if taken then (Inr (Claimed (ir_ID existing)), recordIdempotencyClaim w)
                 else (case GetByScopeAndKeyHash scope keyHash w of
                     (Inl latestErr, w) \<Rightarrow> unavailable (Some latestErr) w
                   | (Inr None, w) \<Rightarrow> unavailable None w
                   | (Inr (Some latest), w) \<Rightarrow>
                       if ir_RequestFingerprint latest \<noteq> fingerprint
                       then (Inl ErrIdempotencyKeyConflict, recordIdempotencyConflict w)
                       else claim_by_status E latest now lockedUntil expiresAt w))
          else claim_by_status E existing now lockedUntil expiresAt w)"

definition finish_failed ::
  "IdempotencyConfig \<Rightarrow> int64 \<Rightarrow> go_time \<Rightarrow> go_error \<Rightarrow> idem_world \<Rightarrow> 'a result \<times> idem_world" where
  "finish_failed cfg rid expiresAt execErr w =
     (let backoffUntil = now_of w + ic_FailedRetryBackoff cfg; w = tick w;
          reason = Reason (Some execErr);
          reason = (if reason = '''' then ''EXECUTION_FAILED'' else reason);
          w = recordIdempotencyRetryBackoff w in
      case MarkFailedRetryable rid reason backoffUntil expiresAt w of
        (Some markErr, w) \<Rightarrow> (Inl execErr, RecordIdempotencyStoreUnavailable w)
      | (None, w) \<Rightarrow> (Inl execErr, w))"

definition finish_succeeded ::
  "'v idem_env \<Rightarrow> IdempotencyConfig \<Rightarrow> int64 \<Rightarrow> go_time \<Rightarrow> 'v \<Rightarrow> idem_world
    \<Rightarrow> 'v IdempotencyExecuteResult result \<times> idem_world" where
  "finish_succeeded E cfg rid expiresAt data w =
     (case marshalStoredResponse E cfg data of
        Inl marshalErr \<Rightarrow> unavailable (Some marshalErr) w
      | Inr storedBody \<Rightarrow>
          (case MarkSucceeded rid 200 storedBody expiresAt w of
             (Some markErr, w) \<Rightarrow> unavailable (Some markErr) w
           | (None, w) \<Rightarrow> (Inr \<lparr>er_Data = Inl data, er_Replayed = False\<rparr>, w)))"

text \<open>The deferred measurement of the duration comes last.\<close>

definition run_claimed ::
  "'v idem_env \<Rightarrow> IdempotencyConfig \<Rightarrow> int64 \<Rightarrow> go_time \<Rightarrow> ('e \<Rightarrow> 'v result \<times> 'e) \<Rightarrow> 'e \<Rightarrow> idem_world
    \<Rightarrow> 'v IdempotencyExecuteResult result \<times> 'e \<times> idem_world" where
  "run_claimed E cfg rid expiresAt execute e w =
     (if rid = 0 then (case unavailable None w of (res, w) \<Rightarrow> (res, e, w))
      else let execStart = now_of w; w = tick w in
        (case execute e of (out, e) \<Rightarrow>
          (case (case out of Inl execErr \<Rightarrow> finish_failed cfg rid expiresAt execErr w
                 | Inr data \<Rightarrow> finish_succeeded E cfg rid expiresAt data w) of
             (res, w) \<Rightarrow> (res, e, recordIdempotencyProcessingDuration (time_sub (now_of w) execStart) (tick w)))))"

definition run_unkeyed ::
  "('e \<Rightarrow> 'v result \<times> 'e) \<Rightarrow> 'e \<Rightarrow> 'v IdempotencyExecuteResult result \<times> 'e" where
  "run_unkeyed execute e =
     (case execute e of
        (Inl execErr, e) \<Rightarrow> (Inl execErr, e)
      | (Inr data, e) \<Rightarrow> (Inr \<lparr>er_Data = Inl data, er_Replayed = False\<rparr>, e))"

definition new_record :: "string \<Rightarrow> string \<Rightarrow> string \<Rightarrow> go_time \<Rightarrow> go_time \<Rightarrow> IdempotencyRecord" where
  "new_record scope keyHash fingerprint lockedUntil expiresAt =
     \<lparr>ir_ID = 0, ir_Scope = scope, ir_IdempotencyKeyHash = keyHash, ir_RequestFingerprint = fingerprint,
      ir_Status = IdempotencyStatusProcessing, ir_ResponseStatus = None, ir_ResponseBody = None,
      ir_ErrorReason = None, ir_LockedUntil = Some lockedUntil, ir_ExpiresAt = expiresAt,
      ir_CreatedAt = 0, ir_UpdatedAt = 0\<rparr>"

definition execute_keyed ::
  "'v idem_env \<Rightarrow> IdempotencyConfig \<Rightarrow> 'v IdempotencyExecuteOptions \<Rightarrow> string \<Rightarrow> string \<Rightarrow> ('e \<Rightarrow> 'v result \<times> 'e)
    \<Rightarrow> 'e \<Rightarrow> idem_world \<Rightarrow> 'v IdempotencyExecuteResult result \<times> 'e \<times> idem_world" where
  "execute_keyed E cfg opts keyHash fingerprint execute e w =
     (let ttl = (if io_TTL opts \<le> 0 then ic_DefaultTTL cfg else io_TTL opts);
          now = now_of w; w = tick w;
          expiresAt = now + ttl; lockedUntil = now + ic_ProcessingTimeout cfg in
      case CreateProcessing (Some (new_record (io_Scope opts) keyHash fingerprint lockedUntil expiresAt)) w of
        (Inl err, w) \<Rightarrow> (case unavailable (Some err) w of (res, w) \<Rightarrow> (res, e, w))
      | (Inr (True, rec), w) \<Rightarrow>
          run_claimed E cfg (case rec of None \<Rightarrow> 0 | Some r \<Rightarrow> ir_ID r) expiresAt execute e (recordIdempotencyClaim w)
      | (Inr (False, rec), w) \<Rightarrow>
          (case claim_existing E (io_Scope opts) keyHash fingerprint now lockedUntil expiresAt w of
             (Inl err, w) \<Rightarrow> (Inl err, e, w)
           | (Inr (Replay data), w) \<Rightarrow> (Inr \<lparr>er_Data = Inr data, er_Replayed = True\<rparr>, e, w)
           | (Inr (Claimed rid), w) \<Rightarrow> run_claimed E cfg rid expiresAt execute e w))"

definition Execute ::
  "'v idem_env \<Rightarrow> IdempotencyCoordinator \<Rightarrow> 'v IdempotencyExecuteOptions \<Rightarrow> ('e \<Rightarrow> 'v result \<times> 'e) option
    \<Rightarrow> 'e \<Rightarrow> idem_world \<Rightarrow> 'v IdempotencyExecuteResult result \<times> 'e \<times> idem_world" where
  "Execute E c opts exec e w =
     (case exec of
        None \<Rightarrow> (Inl (InternalServer ''IDEMPOTENCY_EXECUTOR_NIL'' ''idempotency executor is nil''), e, w)
      | Some execute \<Rightarrow>
        (case NormalizeIdempotencyKey (io_IdempotencyKey opts) of
           Inl err \<Rightarrow> (Inl err, e, w)
         | Inr key \<Rightarrow>
           if key = '''' then
             (if io_RequireKey opts \<and> \<not> ic_ObserveOnly (co_cfg c) then (Inl ErrIdempotencyKeyRequired, e, w)
              else (case run_unkeyed execute e of (res, e) \<Rightarrow> (res, e, w)))
           else if \<not> co_repo c then (Inl ErrIdempotencyStoreUnavail, e, RecordIdempotencyStoreUnavailable w)
           else if io_Scope opts = '''' then
             (Inl (BadRequest ''IDEMPOTENCY_SCOPE_REQUIRED'' ''idempotency scope is required''), e, w)
           else (case BuildIdempotencyFingerprint E (io_Method opts) (io_Route opts) (io_ActorScope opts) (io_Payload opts) of
               Inl err \<Rightarrow> (Inl err, e, w)
             | Inr fingerprint \<Rightarrow>
                 execute_keyed E (co_cfg c) opts (HashIdempotencyKey E key) fingerprint execute e w)))"

section \<open>Truncation and retry hints\<close>

lemma truncate_loop_bound: "truncate_loop s n \<le> n"
  by (induction n) (auto intro: le_SucI)

lemma truncate_loop_valid: "ValidString (take (truncate_loop s n) s)"
  by (induction n) auto

lemma truncate_loop_max: "truncate_loop s n < j \<Longrightarrow> j \<le> n \<Longrightarrow> \<not> ValidString (take j s)"
  by (induction n) (auto simp: le_Suc_eq split: if_splits)

text \<open>
  A stored response that is too long is cut to valid UTF-8: the cut text is the longest valid prefix of at
  most the given number of bytes, and when the text is valid UTF-8 the cut loses at most three bytes
  more than asked for. A text that fits is kept.
\<close>

theorem truncateUTF8_spec:
  assumes "0 < maxBytes" "maxBytes < int (length s)"
  shows "\<exists>k. truncateUTF8 s maxBytes = take k s \<and> int k \<le> maxBytes \<and> ValidString (take k s) \<and>
    (\<forall>j. k < j \<and> int j \<le> maxBytes \<longrightarrow> \<not> ValidString (take j s)) \<and>
    (ValidString s \<longrightarrow> maxBytes - int k \<le> 3) \<and> truncateUTF8 s (int (length s)) = s"
proof -
  let ?n = "nat maxBytes"
  let ?k = "truncate_loop s ?n"
  have near: "maxBytes - int ?k \<le> 3" if valid: "ValidString s"
  proof -
    have le: "?n \<le> length s" using assms by simp
    obtain j where j: "j \<le> ?n" "?n - j \<le> 3" "ValidString (take j s)"
      using valid_prefix_near [OF valid, of ?n] le by blast
    then have "\<not> ?k < j" using truncate_loop_max [of s ?n j] by blast
    then show ?thesis using j assms by linarith
  qed
  have max: "\<not> ValidString (take j s)" if "?k < j" "int j \<le> maxBytes" for j
    by (rule truncate_loop_max [OF that(1)]) (use that(2) in simp)
  show ?thesis
    using assms truncate_loop_bound [of s ?n] truncate_loop_valid [of s ?n] near max
    by (intro exI [of _ ?k]) (simp add: truncateUTF8_def le_nat_iff)
qed

theorem truncateUTF8_spec_witness:
  "truncateUTF8 (''a'' @ [CHR 0xC3, CHR 0xA9]) 2 = ''a'' \<and> ValidString ''a''"
proof -
  let ?s = "''a'' @ [CHR 0xC3, CHR 0xA9]"
  have "truncateUTF8 ?s 2 = ''a''" by code_simp
  with truncateUTF8_spec [of 2 ?s] show ?thesis by auto
qed

lemma Itoa_graphic: "0 \<le> i \<Longrightarrow> list_all graphic_char (Itoa i)"
  by (simp add: Itoa_def nat_digits_graphic)

lemma float_to_int_range: "min_int64 \<le> float_to_int x" "float_to_int x \<le> max_int64"
  by (simp_all add: float_to_int_def Let_def min_int64_def max_int64_def)

text \<open>
  A conflict tells the client when to come back: the error made for a locked row keeps the code and the
  reason of the conflict, and the seconds that the handler reads from it for the \<open>Retry-After\<close> header
  are the whole seconds left of the lock, and at least one. Without a lock there is no hint.
\<close>

theorem conflictWithRetryAfter_hint:
  "(let err = conflictWithRetryAfter (New code reason message) (Some lockedUntil) now in
      RetryAfterSecondsFromError err = max 1 (float_to_int (Seconds (time_sub lockedUntil now))) \<and>
      Code (Some err) = Code (Some (New code reason message)) \<and> Reason (Some err) = reason \<and>
      errors_is err (New code reason message)) \<and>
   RetryAfterSecondsFromError (conflictWithRetryAfter (New code reason message) None now) = 0"
proof -
  define sec where "sec = (let s = float_to_int (Seconds (time_sub lockedUntil now)) in if s \<le> 0 then 1 else s)"
  have sec: "sec = max 1 (float_to_int (Seconds (time_sub lockedUntil now)))" "1 \<le> sec"
    by (auto simp: sec_def Let_def)
  have "Atoi (Itoa sec) = Some sec"
    by (rule Atoi_Itoa)
      (use sec float_to_int_range [of "Seconds (time_sub lockedUntil now)"] in \<open>auto simp: min_int64_def max_int64_def\<close>)
  moreover have "TrimSpace (Itoa sec) = Itoa sec" using sec(2) by (intro TrimSpace_graphic Itoa_graphic) simp
  moreover have "Itoa sec \<noteq> ''''" by (simp add: Itoa_def)
  ultimately show ?thesis
    using sec
    by (simp add: conflictWithRetryAfter_def RetryAfterSecondsFromError_def New_def Let_def
        sec_def [unfolded Let_def, symmetric] err_code_defs app_Is_def)
qed

section \<open>The table\<close>

definition row_key :: "IdempotencyRecord \<Rightarrow> string \<times> string" where
  "row_key r = (ir_Scope r, ir_IdempotencyKeyHash r)"

definition wf_idem :: "idem_store \<Rightarrow> bool" where
  "wf_idem d \<longleftrightarrow> distinct (map ir_ID (is_rows d)) \<and> distinct (map row_key (is_rows d)) \<and>
     0 < is_next_id d \<and> (\<forall>r \<in> set (is_rows d). 0 < ir_ID r \<and> ir_ID r < is_next_id d)"

definition row_for :: "string \<Rightarrow> string \<Rightarrow> idem_world \<Rightarrow> IdempotencyRecord option" where
  "row_for scope keyHash w = find (same_key scope keyHash) (is_rows (wd_db w))"

definition rows :: "idem_world \<Rightarrow> IdempotencyRecord list" where
  "rows w = is_rows (wd_db w)"

lemma bump_simps [simp]:
  "is_rows (wd_db (bump f w)) = is_rows (wd_db w)" "is_next_id (wd_db (bump f w)) = is_next_id (wd_db w)"
  "wd_clock (bump f w) = wd_clock w" "wd_tick (bump f w) = wd_tick w" "wd_fault (bump f w) = wd_fault w"
  "wd_stmt (bump f w) = wd_stmt w" "now_of (bump f w) = now_of w" "healthy (bump f w) = healthy w"
  "wf_idem (wd_db (bump f w)) = wf_idem (wd_db w)" "row_for s k (bump f w) = row_for s k w"
  "rows (bump f w) = rows w"
  by (simp_all add: bump_def now_of_def healthy_def wf_idem_def row_for_def rows_def)

lemmas record_defs = recordIdempotencyClaim_def recordIdempotencyReplay_def recordIdempotencyConflict_def
  recordIdempotencyRetryBackoff_def recordIdempotencyProcessingDuration_def RecordIdempotencyStoreUnavailable_def Let_def

lemma row_for_tick [simp]: "row_for s k (tick w) = row_for s k w" "rows (tick w) = rows w"
  by (simp_all add: row_for_def rows_def)

text \<open>A row is found by its key or by its identifier.\<close>

lemma row_for_iff:
  assumes "wf_idem (wd_db w)"
  shows "row_for s k w = Some r \<longleftrightarrow> r \<in> set (rows w) \<and> same_key s k r"
proof
  assume "row_for s k w = Some r"
  then show "r \<in> set (rows w) \<and> same_key s k r" by (auto simp: row_for_def rows_def find_Some_iff)
next
  assume r: "r \<in> set (rows w) \<and> same_key s k r"
  then obtain x where x: "row_for s k w = Some x"
    by (cases "row_for s k w") (auto simp: row_for_def rows_def find_None_iff)
  then have "x \<in> set (rows w)" "row_key x = row_key r"
    using r by (auto simp: row_for_def rows_def find_Some_iff same_key_def row_key_def)
  then have "x = r" using assms r by (auto simp: wf_idem_def rows_def distinct_map inj_on_def)
  with x show "row_for s k w = Some r" by simp
qed

lemma row_ID_unique:
  assumes "wf_idem (wd_db w)" "r \<in> set (rows w)" "r' \<in> set (rows w)" "ir_ID r = ir_ID r'"
  shows "r = r'"
  using assms by (auto simp: wf_idem_def rows_def distinct_map inj_on_def)

text \<open>One update statement: it fails and changes nothing, or it rewrites the rows that match.\<close>

lemma update_rows_cases:
  assumes "update_rows p f w = (r, w')"
  shows "wd_clock w' = wd_clock w" "wd_fault w' = wd_fault w" "wd_tick w' = Suc (wd_tick w)"
    and "(\<exists>e. r = Inl e \<and> wd_db w' = wd_db w) \<or>
      (r = Inr (int (length (filter p (rows w)))) \<and> is_next_id (wd_db w') = is_next_id (wd_db w) \<and>
       rows w' = map (\<lambda>x. if p x then (f x)\<lparr>ir_UpdatedAt := now_of w\<rparr> else x) (rows w))"
    and "healthy w \<Longrightarrow> \<exists>n. r = Inr n"
proof -
  note D = sql_exec_D [OF assms [unfolded update_rows_def Let_def]]
  then show "wd_clock w' = wd_clock w" "wd_fault w' = wd_fault w" "wd_tick w' = Suc (wd_tick w)"
    by (simp_all add: same_env_def)
  show "(\<exists>e. r = Inl e \<and> wd_db w' = wd_db w) \<or>
      (r = Inr (int (length (filter p (rows w)))) \<and> is_next_id (wd_db w') = is_next_id (wd_db w) \<and>
       rows w' = map (\<lambda>x. if p x then (f x)\<lparr>ir_UpdatedAt := now_of w\<rparr> else x) (rows w))"
    using D by (auto simp: rows_def)
  show "\<exists>n. r = Inr n" if "healthy w"
    using assms that by (auto simp: update_rows_def Let_def sql_exec_healthy)
qed

lemma wf_idem_map:
  assumes "wf_idem (wd_db w)" "rows w' = map g (rows w)" "is_next_id (wd_db w') = is_next_id (wd_db w)"
    and "\<And>r. ir_ID (g r) = ir_ID r \<and> row_key (g r) = row_key r"
  shows "wf_idem (wd_db w')"
proof -
  have "map ir_ID (rows w') = map ir_ID (rows w)" "map row_key (rows w') = map row_key (rows w)"
    using assms(2,4) by simp_all
  moreover have "0 < ir_ID r \<and> ir_ID r < is_next_id (wd_db w')" if "r \<in> set (rows w')" for r
    using that assms by (auto simp: wf_idem_def rows_def)
  ultimately show ?thesis using assms(1,3) by (auto simp: wf_idem_def rows_def)
qed

text \<open>Marking the row a request holds.\<close>

lemma mark_row:
  assumes "update_rows (\<lambda>r. ir_ID r = rid) f w = (Inr n, w')" "wf_idem (wd_db w)"
    and "row_for s k w = Some r" "ir_ID r = rid"
    and "\<And>r. ir_ID (f r) = ir_ID r \<and> row_key (f r) = row_key r"
  shows "row_for s k w' = Some ((f r)\<lparr>ir_UpdatedAt := now_of w\<rparr>)" "wf_idem (wd_db w')"
proof -
  have r: "r \<in> set (rows w)" "same_key s k r" using assms(2,3) by (simp_all add: row_for_iff)
  have upd: "rows w' = map (\<lambda>x. if ir_ID x = rid then (f x)\<lparr>ir_UpdatedAt := now_of w\<rparr> else x) (rows w)"
    "is_next_id (wd_db w') = is_next_id (wd_db w)"
    using update_rows_cases(4) [OF assms(1)] by auto
  have keep: "ir_ID (if ir_ID x = rid then (f x)\<lparr>ir_UpdatedAt := now_of w\<rparr> else x) = ir_ID x \<and>
      row_key (if ir_ID x = rid then (f x)\<lparr>ir_UpdatedAt := now_of w\<rparr> else x) = row_key x" for x
    using assms(5) by (simp add: row_key_def)
  show wf: "wf_idem (wd_db w')" by (rule wf_idem_map [OF assms(2) upd keep])
  have "(f r)\<lparr>ir_UpdatedAt := now_of w\<rparr> \<in> set (rows w')" using r(1) assms(4) upd(1) by auto
  moreover have "same_key s k ((f r)\<lparr>ir_UpdatedAt := now_of w\<rparr>)"
    using r(2) assms(5) [of r] by (simp add: same_key_def row_key_def)
  ultimately show "row_for s k w' = Some ((f r)\<lparr>ir_UpdatedAt := now_of w\<rparr>)" by (simp add: row_for_iff [OF wf])
qed

section \<open>Claiming a row\<close>

text \<open>The row of a key is held by the request that owns this identifier, lock and expiry.\<close>

definition held ::
  "string \<Rightarrow> string \<Rightarrow> string \<Rightarrow> int64 \<Rightarrow> go_time \<Rightarrow> go_time \<Rightarrow> idem_world \<Rightarrow> bool" where
  "held s k fp rid lockedUntil expiresAt w \<longleftrightarrow> (\<exists>r. row_for s k w = Some r \<and> ir_ID r = rid \<and>
     ir_RequestFingerprint r = fp \<and> ir_Status r = IdempotencyStatusProcessing \<and>
     ir_LockedUntil r = Some lockedUntil \<and> ir_ExpiresAt r = expiresAt)"

lemma wf_same_rows:
  "wf_idem (wd_db w) \<Longrightarrow> rows w' = rows w \<Longrightarrow> is_next_id (wd_db w) \<le> is_next_id (wd_db w') \<Longrightarrow> wf_idem (wd_db w')"
  by (auto simp: wf_idem_def rows_def)

lemma row_for_same_rows: "rows w' = rows w \<Longrightarrow> row_for s k w' = row_for s k w"
  by (simp add: row_for_def rows_def)

lemma CreateProcessing_spec:
  assumes "CreateProcessing (Some (new_record s k fp l x)) w = (res, w')" "wf_idem (wd_db w)"
  shows "wd_clock w' = wd_clock w" "wd_fault w' = wd_fault w" "wd_tick w' = Suc (wd_tick w)" "wf_idem (wd_db w')"
    and "(\<exists>e. res = Inl e \<and> rows w' = rows w) \<or> (\<exists>r. res = Inr (False, r) \<and> rows w' = rows w) \<or>
      (\<exists>r. res = Inr (True, Some r) \<and> row_for s k w = None \<and> 0 < ir_ID r \<and> held s k fp (ir_ID r) l x w')"
    and "healthy w \<Longrightarrow> (\<exists>r. res = Inr (row_for s k w = None, r))"
proof -
  let ?i = "is_next_id (wd_db w)"
  let ?new = "(new_record s k fp l x)\<lparr>ir_ID := ?i, ir_CreatedAt := now_of w, ir_UpdatedAt := now_of w\<rparr>"
  let ?f = "\<lambda>d. let d' = d\<lparr>is_next_id := is_next_id d + 1\<rparr> in
     if list_ex (same_key s k) (is_rows d) then (Inl sqlErrNoRows, d')
     else (Inr (is_next_id d), d'\<lparr>is_rows := is_rows d @ [(new_record s k fp l x)\<lparr>ir_ID := is_next_id d,
       ir_ResponseStatus := None, ir_ResponseBody := None, ir_ErrorReason := None,
       ir_CreatedAt := now_of w, ir_UpdatedAt := now_of w\<rparr>]\<rparr>)"
  have fields: "ir_Scope (new_record s k fp l x) = s" "ir_IdempotencyKeyHash (new_record s k fp l x) = k"
    by (simp_all add: new_record_def)
  obtain q v where q: "sql_exec ?f (tick w) = (q, v)" by fastforce
  have res: "(res, w') = (case q of
       Inl err \<Rightarrow> if errors_is err sqlErrNoRows then (Inr (False, Some (new_record s k fp l x)), v) else (Inl err, v)
     | Inr i \<Rightarrow> (Inr (True, Some ((new_record s k fp l x)\<lparr>ir_ID := i, ir_CreatedAt := now_of w, ir_UpdatedAt := now_of w\<rparr>)), v))"
    using assms(1) q by (simp add: CreateProcessing_def Let_def fields split: sum.splits)
  have v: "v = w'" using res by (auto split: sum.splits if_splits)
  note D = sql_exec_D [OF q]
  show env: "wd_clock w' = wd_clock w" "wd_fault w' = wd_fault w" "wd_tick w' = Suc (wd_tick w)"
    using D v by (simp_all add: same_env_def)
  have none: "row_for s k w = None \<longleftrightarrow> \<not> list_ex (same_key s k) (is_rows (wd_db w))"
    by (auto simp: row_for_def find_None_iff list_ex_iff)
  consider (fail) e where "q = Inl e" "wd_db w' = wd_db w"
    | (taken) "q = Inl sqlErrNoRows" "wd_db w' = (wd_db w)\<lparr>is_next_id := ?i + 1\<rparr>" "row_for s k w \<noteq> None"
    | (new) "q = Inr ?i" "wd_db w' = (wd_db w)\<lparr>is_next_id := ?i + 1, is_rows := is_rows (wd_db w) @ [?new]\<rparr>"
        "row_for s k w = None"
    using D v none by (auto simp: Let_def new_record_def split: if_splits)
  then have "wf_idem (wd_db w') \<and> ((\<exists>e. res = Inl e \<and> rows w' = rows w) \<or> (\<exists>r. res = Inr (False, r) \<and> rows w' = rows w) \<or>
      (\<exists>r. res = Inr (True, Some r) \<and> row_for s k w = None \<and> 0 < ir_ID r \<and> held s k fp (ir_ID r) l x w'))"
  proof cases
    case fail
    then show ?thesis using res assms(2) by (auto simp: rows_def split: if_splits)
  next
    case taken
    then show ?thesis using res assms(2) by (auto simp: rows_def wf_idem_def split: if_splits)
  next
    case new
    have "row_key ?new \<notin> set (map row_key (is_rows (wd_db w)))"
      using new(3) none by (auto simp: list_ex_iff row_key_def same_key_def new_record_def)
    then have wf: "wf_idem (wd_db w')" using assms(2) new(2) by (auto simp: wf_idem_def)
    have "row_for s k w' = Some ?new"
      unfolding row_for_iff [OF wf] using new(2) by (simp add: rows_def same_key_def new_record_def)
    then have "held s k fp ?i l x w'" by (simp add: held_def new_record_def)
    then show ?thesis using wf new res assms(2) by (simp add: wf_idem_def)
  qed
  then show "wf_idem (wd_db w')" "(\<exists>e. res = Inl e \<and> rows w' = rows w) \<or> (\<exists>r. res = Inr (False, r) \<and> rows w' = rows w) \<or>
      (\<exists>r. res = Inr (True, Some r) \<and> row_for s k w = None \<and> 0 < ir_ID r \<and> held s k fp (ir_ID r) l x w')"
    by blast+
  show "\<exists>r. res = Inr (row_for s k w = None, r)" if "healthy w"
    using q res that none
    by (auto simp: sql_exec_healthy Let_def sqlErrNoRows_def split: if_splits)
qed

lemma GetByScopeAndKeyHash_spec:
  assumes "GetByScopeAndKeyHash s k w = (res, w')"
  shows "wd_clock w' = wd_clock w" "wd_fault w' = wd_fault w" "wd_tick w' = wd_tick w" "wd_db w' = wd_db w"
    and "res = Inr (Some r) \<Longrightarrow> row_for s k w = Some r" and "healthy w \<Longrightarrow> res = Inr (row_for s k w)"
proof -
  obtain q v where q: "sql_exec (\<lambda>d. case find (same_key s k) (is_rows d) of
             None \<Rightarrow> (Inl sqlErrNoRows, d) | Some r \<Rightarrow> (Inr r, d)) w = (q, v)" by fastforce
  have res: "(res, w') = (case q of Inl err \<Rightarrow> if errors_is err sqlErrNoRows then (Inr None, v) else (Inl err, v)
      | Inr r \<Rightarrow> (Inr (Some r), v))"
    using assms q by (simp add: GetByScopeAndKeyHash_def split: sum.splits)
  have v: "v = w'" using res by (auto split: sum.splits if_splits)
  note D = sql_exec_D [OF q]
  show "wd_clock w' = wd_clock w" "wd_fault w' = wd_fault w" "wd_tick w' = wd_tick w" "wd_db w' = wd_db w"
    using D v by (auto simp: same_env_def split: option.splits)
  show "row_for s k w = Some r" if "res = Inr (Some r)"
    using D res that by (auto simp: row_for_def split: option.splits sum.splits if_splits)
  show "res = Inr (row_for s k w)" if "healthy w"
    using q res that by (auto simp: sql_exec_healthy row_for_def sqlErrNoRows_def split: option.splits sum.splits)
qed

lemma TryReclaim_spec:
  assumes "TryReclaim rid st now l x w = (res, w')" "wf_idem (wd_db w)" "row_for s k w = Some r" "ir_ID r = rid"
  shows "wd_clock w' = wd_clock w" "wd_fault w' = wd_fault w" "wd_tick w' = Suc (wd_tick w)" "wf_idem (wd_db w')"
    and "res = Inr True \<Longrightarrow> held s k (ir_RequestFingerprint r) rid l x w'"
    and "res \<noteq> Inr True \<Longrightarrow> rows w' = rows w"
    and "healthy w \<Longrightarrow> res = Inr (reclaimable rid st now r)"
proof -
  let ?p = "reclaimable rid st now"
  let ?f = "\<lambda>r. r\<lparr>ir_Status := IdempotencyStatusProcessing, ir_LockedUntil := Some l, ir_ErrorReason := None,
      ir_ExpiresAt := x\<rparr>"
  let ?g = "\<lambda>y. if ?p y then (?f y)\<lparr>ir_UpdatedAt := now_of w\<rparr> else y"
  obtain q where q: "update_rows ?p ?f w = (q, w')" and res: "res = map_sum (\<lambda>e. e) (\<lambda>n. 0 < n) q"
    using assms(1) by (cases "update_rows ?p ?f w") (auto simp: TryReclaim_def affected_some_def)
  note U = update_rows_cases [OF q]
  show "wd_clock w' = wd_clock w" "wd_fault w' = wd_fault w" "wd_tick w' = Suc (wd_tick w)" by (rule U)+
  have keep: "ir_ID (?g y) = ir_ID y \<and> row_key (?g y) = row_key y" for y by (simp add: row_key_def)
  have in_r: "r \<in> set (rows w)" "same_key s k r" using assms(2,3) by (simp_all add: row_for_iff)
  have only: "?p y \<longleftrightarrow> y = r \<and> ?p r" if "y \<in> set (rows w)" for y
    using row_ID_unique [OF assms(2) that in_r(1)] assms(4) by (auto simp: reclaimable_def)
  have len: "0 < length (filter ?p (rows w)) \<longleftrightarrow> ?p r"
    unfolding length_greater_0_conv filter_empty_conv using only in_r(1) by blast
  show wf: "wf_idem (wd_db w')"
    using U(4)
  proof (elim disjE exE conjE)
    assume "wd_db w' = wd_db w"
    then show ?thesis using assms(2) by simp
  next
    assume upd: "is_next_id (wd_db w') = is_next_id (wd_db w)" "rows w' = map ?g (rows w)"
    show ?thesis by (rule wf_idem_map [OF assms(2) upd(2,1) keep])
  qed
  show "res = Inr (?p r)" if "healthy w" using U(4,5) that res len by auto
  show "held s k (ir_RequestFingerprint r) rid l x w'" if "res = Inr True"
  proof -
    have p: "?p r" and upd: "rows w' = map ?g (rows w)" using that res U(4) len by auto
    have "?g r \<in> set (rows w')" using in_r(1) upd by auto
    moreover have "same_key s k (?g r)" using in_r(2) by (simp add: same_key_def)
    ultimately have "row_for s k w' = Some (?g r)" by (simp add: row_for_iff [OF wf])
    then show ?thesis using p assms(4) by (simp add: held_def)
  qed
  show "rows w' = rows w" if "res \<noteq> Inr True"
  proof (cases "\<exists>e. q = Inl e \<and> wd_db w' = wd_db w")
    case False
    then have "\<not> ?p r" and upd: "rows w' = map ?g (rows w)" using that res U(4) len by auto
    then have "?g y = y" if "y \<in> set (rows w)" for y using only [OF that] by (simp only: if_False simp_thms)
    then show ?thesis unfolding upd by (rule map_idI)
  qed (auto simp: rows_def)
qed


text \<open>Only the table, the counters, the clock's position and the statement number move.\<close>

definition same_site :: "idem_world \<Rightarrow> idem_world \<Rightarrow> bool" where
  "same_site w w' \<longleftrightarrow> wd_clock w' = wd_clock w \<and> wd_fault w' = wd_fault w"

lemma same_site_refl [simp]: "same_site w w" "same_site w (tick w)" "same_site w (bump f w)"
  and same_site_bump [simp]: "same_site w (bump f w') = same_site w w'"
  and same_site_tick [simp]: "same_site w (tick w') = same_site w w'"
  and same_site_trans: "same_site w w' \<Longrightarrow> same_site w' w'' \<Longrightarrow> same_site w w''"
  and same_site_healthy: "same_site w w' \<Longrightarrow> healthy w' = healthy w"
  by (auto simp: same_site_def healthy_def)

text \<open>A request that looks at a taken key either takes the row over or changes no row.\<close>

definition claim_outcome ::
  "string \<Rightarrow> string \<Rightarrow> string \<Rightarrow> go_time \<Rightarrow> go_time \<Rightarrow> idem_world \<Rightarrow> claim result \<Rightarrow> idem_world \<Rightarrow> bool" where
  "claim_outcome s k fp l x w res w' \<longleftrightarrow> same_site w w' \<and> wf_idem (wd_db w') \<and>
     (case res of Inr (Claimed rid) \<Rightarrow> held s k fp rid l x w' \<and> (\<exists>r. row_for s k w = Some r \<and> ir_ID r = rid)
      | _ \<Rightarrow> rows w' = rows w)"

lemma unavailable_eq:
  "unavailable c w = (Inl (case c of None \<Rightarrow> ErrIdempotencyStoreUnavail
     | Some err \<Rightarrow> WithCause ErrIdempotencyStoreUnavail (Some err)),
     bump (\<lambda>m. m\<lparr>im_storeUnavailableTotal := im_storeUnavailableTotal m + 1\<rparr>) w)"
  by (simp add: unavailable_def record_defs)

lemma claim_outcome_same:
  "wf_idem (wd_db w) \<Longrightarrow> same_site w v \<Longrightarrow> wf_idem (wd_db v) \<Longrightarrow> rows v = rows w \<Longrightarrow>
   (\<forall>rid. res \<noteq> Inr (Claimed rid)) \<Longrightarrow> claim_outcome s k fp l x w res (bump f v)"
  by (auto simp: claim_outcome_def split: sum.splits claim.splits)

lemma reclaim_outcome:
  assumes run: "TryReclaim (ir_ID r) st now l x w = (res, v)" and wf: "wf_idem (wd_db w)"
    and r: "row_for s k w = Some r" "ir_RequestFingerprint r = fp"
  shows "same_site w v" "wf_idem (wd_db v)" "res \<noteq> Inr True \<Longrightarrow> rows v = rows w"
    and "res = Inr True \<Longrightarrow> claim_outcome s k fp l x w (Inr (Claimed (ir_ID r))) (bump f v)"
proof -
  note T = TryReclaim_spec [OF run wf r(1) refl]
  show site: "same_site w v" using T(1,2) by (simp add: same_site_def)
  show "wf_idem (wd_db v)" by (rule T)
  show "res \<noteq> Inr True \<Longrightarrow> rows v = rows w" by (rule T(6))
  show "claim_outcome s k fp l x w (Inr (Claimed (ir_ID r))) (bump f v)" if "res = Inr True"
    using T(4,5) that site r by (simp add: claim_outcome_def held_def)
qed

lemma claim_by_status_outcome:
  assumes run: "claim_by_status E r now l x w = (res, w')" and wf: "wf_idem (wd_db w)"
    and r: "row_for s k w = Some r" "ir_RequestFingerprint r = fp"
  shows "claim_outcome s k fp l x w res w'"
proof -
  obtain tk v where tk: "TryReclaim (ir_ID r) IdempotencyStatusFailedRetryable now l x w = (tk, v)" by fastforce
  note R = reclaim_outcome [OF tk wf r]
  show ?thesis
    using run wf R claim_outcome_same [OF wf same_site_refl(1) wf] claim_outcome_same [OF wf R(1,2)]
    unfolding claim_by_status_def tk unavailable_eq record_defs
    by (auto split: if_splits sum.splits option.splits
        simp: claim_outcome_def [of _ _ _ _ _ _ "Inl _"] claim_outcome_def [of _ _ _ _ _ _ "Inr (Replay _)"])
qed

lemma claim_existing_outcome:
  assumes run: "claim_existing E s k fp now l x w = (res, w')" and wf: "wf_idem (wd_db w)"
  shows "claim_outcome s k fp l x w res w'"
proof -
  obtain g v where g: "GetByScopeAndKeyHash s k w = (g, v)" by fastforce
  note G = GetByScopeAndKeyHash_spec [OF g]
  have site: "same_site w v" "wf_idem (wd_db v)" "rows v = rows w" "row_for s k v = row_for s k w"
    using G(1,2,4) wf by (simp_all add: same_site_def rows_def row_for_def)
  have same: "claim_outcome s k fp l x w (Inl e) (bump f u)"
    if "same_site w u" "wf_idem (wd_db u)" "rows u = rows w" for e f u
    by (rule claim_outcome_same [OF wf that]) simp
  have lift: "claim_outcome s k fp l x w q u" if "claim_outcome s k fp l x v' q u" "same_site w v'" "rows v' = rows w"
    for q u v'
    using that row_for_same_rows [OF that(3), of s k] same_site_trans [OF that(2)]
    by (auto simp: claim_outcome_def split: sum.splits claim.splits)
  show ?thesis
  proof (cases "\<exists>r. g = Inr (Some r)")
    case False
    then show ?thesis using run same [OF site(1-3)] unfolding claim_existing_def g
      by (auto simp: unavailable_eq split: sum.splits option.splits)
  next
    case True
    then obtain r where r: "g = Inr (Some r)" by blast
    have row: "row_for s k v = Some r" using G(5) [OF r] site(4) by simp
    show ?thesis
    proof (cases "ir_RequestFingerprint r = fp")
      case False
      then show ?thesis using run r same [OF site(1-3)] unfolding claim_existing_def g
        by (auto simp: record_defs)
    next
      case fp: True
      note status = lift [OF claim_by_status_outcome [OF _ site(2) row fp] site(1,3)]
      show ?thesis
      proof (cases "now < ir_ExpiresAt r")
        case True
        then show ?thesis using run r fp status unfolding claim_existing_def g by simp
      next
        case False
        obtain tk u where tk: "TryReclaim (ir_ID r) (ir_Status r) now l x v = (tk, u)" by fastforce
        note R = reclaim_outcome [OF tk site(2) row fp]
        obtain g2 u2 where g2: "GetByScopeAndKeyHash s k u = (g2, u2)" by fastforce
        note G2 = GetByScopeAndKeyHash_spec [OF g2]
        show ?thesis
        proof (cases "tk = Inr True")
          case True
          then show ?thesis using run r fp False tk lift [OF R(4) site(1,3)] unfolding claim_existing_def g
            by (auto simp: record_defs)
        next
          case nt: False
          have site2: "same_site w u" "wf_idem (wd_db u)" "rows u = rows w"
            using R(1-3) nt site(1,3) same_site_trans by auto
          have site3: "same_site w u2" "wf_idem (wd_db u2)" "rows u2 = rows w"
            using site2 G2(1,2,4) by (simp_all add: same_site_def rows_def)
          have latest: "claim_outcome s k fp l x w res w'"
            if "g2 = Inr (Some r2)" "ir_RequestFingerprint r2 = fp" "claim_by_status E r2 now l x u2 = (res, w')" for r2
          proof -
            have "row_for s k u2 = Some r2"
              using G2(5) [OF that(1)] G2(4) by (simp add: row_for_def)
            from lift [OF claim_by_status_outcome [OF that(3) site3(2) this that(2)] site3(1,3)] show ?thesis .
          qed
          then show ?thesis
            using run r fp False tk g2 nt same [OF site2] same [OF site3] unfolding claim_existing_def g
            by (auto simp: record_defs unavailable_eq split: sum.splits option.splits if_splits)
        qed
      qed
    qed
  qed
qed

section \<open>Running the handler\<close>

lemma held_same_rows:
  "held s k fp rid l x w \<Longrightarrow> rows w' = rows w \<Longrightarrow> held s k fp rid l x w'"
  by (simp add: held_def row_for_def rows_def)

lemma held_record [simp]: "held s k fp rid l x (bump f w) = held s k fp rid l x w" "held s k fp rid l x (tick w) = held s k fp rid l x w"
  by (simp_all add: held_def)

text \<open>The row of a key after the handler has succeeded, and after it has failed.\<close>

definition stored :: "string \<Rightarrow> string \<Rightarrow> string \<Rightarrow> string \<Rightarrow> go_time \<Rightarrow> idem_world \<Rightarrow> bool" where
  "stored s k fp body expiresAt w \<longleftrightarrow> (\<exists>r. row_for s k w = Some r \<and> ir_RequestFingerprint r = fp \<and>
     ir_Status r = IdempotencyStatusSucceeded \<and> ir_ResponseBody r = Some body \<and> ir_ExpiresAt r = expiresAt)"

definition backing_off :: "string \<Rightarrow> string \<Rightarrow> string \<Rightarrow> string \<Rightarrow> go_time \<Rightarrow> go_time \<Rightarrow> idem_world \<Rightarrow> bool" where
  "backing_off s k fp reason backoffUntil expiresAt w \<longleftrightarrow> (\<exists>r. row_for s k w = Some r \<and> ir_RequestFingerprint r = fp \<and>
     ir_Status r = IdempotencyStatusFailedRetryable \<and> ir_ErrorReason r = Some reason \<and>
     ir_LockedUntil r = Some backoffUntil \<and> ir_ExpiresAt r = expiresAt)"

lemma stored_record [simp]:
  "stored s k fp b x (bump f w) = stored s k fp b x w" "stored s k fp b x (tick w) = stored s k fp b x w"
  "backing_off s k fp b l x (bump f w) = backing_off s k fp b l x w"
  "backing_off s k fp b l x (tick w) = backing_off s k fp b l x w"
  by (simp_all add: stored_def backing_off_def)

lemma MarkSucceeded_held:
  assumes "MarkSucceeded rid 200 body x' w = (None, w')" "wf_idem (wd_db w)" "held s k fp rid l x w"
  shows "stored s k fp body x' w'" "wf_idem (wd_db w')" "same_site w w'"
proof -
  let ?f = "\<lambda>r. r\<lparr>ir_Status := IdempotencyStatusSucceeded, ir_ResponseStatus := Some 200,
     ir_ResponseBody := Some body, ir_ErrorReason := None, ir_LockedUntil := None, ir_ExpiresAt := x'\<rparr>"
  obtain n where u: "update_rows (\<lambda>r. ir_ID r = rid) ?f w = (Inr n, w')"
    using assms(1) by (cases "update_rows (\<lambda>r. ir_ID r = rid) ?f w") (auto simp: MarkSucceeded_def split: sum.splits)
  obtain r where r: "row_for s k w = Some r" "ir_ID r = rid" "ir_RequestFingerprint r = fp"
    using assms(3) by (auto simp: held_def)
  note M = mark_row [OF u assms(2) r(1,2)]
  show "stored s k fp body x' w'" "wf_idem (wd_db w')" using M r(3) by (simp_all add: stored_def row_key_def)
  show "same_site w w'" using update_rows_cases(1,2) [OF u] by (simp add: same_site_def)
qed

lemma MarkFailed_held:
  assumes "MarkFailedRetryable rid reason b x' w = (None, w')" "wf_idem (wd_db w)" "held s k fp rid l x w"
  shows "backing_off s k fp reason b x' w'" "wf_idem (wd_db w')" "same_site w w'"
proof -
  let ?f = "\<lambda>r. r\<lparr>ir_Status := IdempotencyStatusFailedRetryable, ir_ErrorReason := Some reason,
     ir_LockedUntil := Some b, ir_ExpiresAt := x'\<rparr>"
  obtain n where u: "update_rows (\<lambda>r. ir_ID r = rid) ?f w = (Inr n, w')"
    using assms(1) by (cases "update_rows (\<lambda>r. ir_ID r = rid) ?f w")
      (auto simp: MarkFailedRetryable_def split: sum.splits)
  obtain r where r: "row_for s k w = Some r" "ir_ID r = rid" "ir_RequestFingerprint r = fp"
    using assms(3) by (auto simp: held_def)
  note M = mark_row [OF u assms(2) r(1,2)]
  show "backing_off s k fp reason b x' w'" "wf_idem (wd_db w')" using M r(3) by (simp_all add: backing_off_def row_key_def)
  show "same_site w w'" using update_rows_cases(1,2) [OF u] by (simp add: same_site_def)
qed

lemma mark_healthy:
  assumes "healthy w"
  shows "\<exists>w'. MarkSucceeded rid st body x w = (None, w')" "\<exists>w'. MarkFailedRetryable rid reason b x w = (None, w')"
  using update_rows_cases(5) [OF prod.collapse [symmetric] assms]
  by (simp_all add: MarkSucceeded_def MarkFailedRetryable_def apfst_def map_prod_def split_beta)
    (metis sum.case(2))+

text \<open>
  A claimed row and the handler: the handler runs exactly once; a result is returned only when it has
  been stored, and the handler's own error is returned as it is.
\<close>

lemma run_claimed_run:
  assumes "run_claimed E cfg rid x execute e w = (res, e', w')" "rid \<noteq> 0"
  shows "e' = snd (execute e)"
  using assms by (auto simp: run_claimed_def Let_def split: prod.splits)

lemma run_claimed_success:
  assumes run: "run_claimed E cfg rid x execute e w = (Inr res, e', w')"
    and wf: "wf_idem (wd_db w)" and h: "held s k fp rid l y w"
  shows "\<exists>data body. execute e = (Inr data, e') \<and> res = \<lparr>er_Data = Inl data, er_Replayed = False\<rparr> \<and>
    marshalStoredResponse E cfg data = Inr body \<and> stored s k fp body x w' \<and> wf_idem (wd_db w')"
proof -
  have rid: "rid \<noteq> 0" using run by (auto simp: run_claimed_def unavailable_eq)
  obtain out e2 where ex: "execute e = (out, e2)" by fastforce
  obtain q v where q: "(case out of Inl execErr \<Rightarrow> finish_failed cfg rid x execErr (tick w)
       | Inr data \<Rightarrow> finish_succeeded E cfg rid x data (tick w)) = (q, v)" by fastforce
  have res: "q = Inr res" "e' = e2" "w' = recordIdempotencyProcessingDuration (time_sub (now_of v) (now_of w)) (tick v)"
    using run rid ex q by (auto simp: run_claimed_def Let_def)
  obtain data where out: "out = Inr data"
    using q res(1) by (cases out) (auto simp: finish_failed_def Let_def split: prod.splits option.splits)
  obtain body where body: "marshalStoredResponse E cfg data = Inr body"
    using q out res(1) by (cases "marshalStoredResponse E cfg data") (auto simp: finish_succeeded_def unavailable_eq)
  have mark: "MarkSucceeded rid 200 body x (tick w) = (None, v)" "res = \<lparr>er_Data = Inl data, er_Replayed = False\<rparr>"
    using q out body res(1)
    by (auto simp: finish_succeeded_def unavailable_eq split: prod.splits option.splits)
  have "stored s k fp body x v" "wf_idem (wd_db v)"
    using MarkSucceeded_held [OF mark(1)] wf h by auto
  then show ?thesis using ex out body mark(2) res(2,3) by (simp add: record_defs)
qed

section \<open>Requests with the same key\<close>

text \<open>The request passes the checks in front of the table, with this key hash and fingerprint.\<close>

definition keyed ::
  "'v idem_env \<Rightarrow> IdempotencyCoordinator \<Rightarrow> 'v IdempotencyExecuteOptions \<Rightarrow> string \<Rightarrow> string \<Rightarrow> bool" where
  "keyed E c opts keyHash fp \<longleftrightarrow> (\<exists>key. NormalizeIdempotencyKey (io_IdempotencyKey opts) = Inr key \<and> key \<noteq> '''' \<and>
     keyHash = HashIdempotencyKey E key) \<and> co_repo c \<and> io_Scope opts \<noteq> '''' \<and>
     BuildIdempotencyFingerprint E (io_Method opts) (io_Route opts) (io_ActorScope opts) (io_Payload opts) = Inr fp"

definition ttl_of :: "IdempotencyConfig \<Rightarrow> 'v IdempotencyExecuteOptions \<Rightarrow> duration" where
  "ttl_of cfg opts = (if io_TTL opts \<le> 0 then ic_DefaultTTL cfg else io_TTL opts)"

lemma Execute_keyed:
  "keyed E c opts k fp \<Longrightarrow>
   Execute E c opts (Some ex) e w = execute_keyed E (co_cfg c) opts k fp ex e w"
  by (auto simp: keyed_def Execute_def)

lemma execute_keyed_unfold:
  assumes "CreateProcessing (Some (new_record (io_Scope opts) k fp (now_of w + ic_ProcessingTimeout cfg)
      (now_of w + ttl_of cfg opts))) (tick w) = (cr, v)"
  shows "execute_keyed E cfg opts k fp ex e w =
     (case cr of
        Inl err \<Rightarrow> (case unavailable (Some err) v of (res, w) \<Rightarrow> (res, e, w))
      | Inr (True, rec) \<Rightarrow> run_claimed E cfg (case rec of None \<Rightarrow> 0 | Some r \<Rightarrow> ir_ID r) (now_of w + ttl_of cfg opts) ex e
          (recordIdempotencyClaim v)
      | Inr (False, rec) \<Rightarrow>
          (case claim_existing E (io_Scope opts) k fp (now_of w) (now_of w + ic_ProcessingTimeout cfg)
              (now_of w + ttl_of cfg opts) v of
             (Inl err, w) \<Rightarrow> (Inl err, e, w)
           | (Inr (Replay data), w) \<Rightarrow> (Inr \<lparr>er_Data = Inr data, er_Replayed = True\<rparr>, e, w)
           | (Inr (Claimed rid), u) \<Rightarrow> run_claimed E cfg rid (now_of w + ttl_of cfg opts) ex e u))"
  unfolding execute_keyed_def Let_def ttl_of_def [symmetric] assms
  by (cases cr) (auto split: prod.split bool.split)

text \<open>
  Every request with a key ends in one of two ways, whatever statement fails: it claimed the row of its
  key and went on with the handler, or the handler did not run and no row changed.
\<close>

lemma execute_keyed_cases:
  assumes run: "execute_keyed E cfg opts k fp ex e w = (res, e', w')" and wf: "wf_idem (wd_db w)"
  obtains
    (ran) rid v where "run_claimed E cfg rid (now_of w + ttl_of cfg opts) ex e v = (res, e', w')" "rid \<noteq> 0"
      "wf_idem (wd_db v)" "same_site w v"
      "held (io_Scope opts) k fp rid (now_of w + ic_ProcessingTimeout cfg) (now_of w + ttl_of cfg opts) v"
  | (refused) "e' = e" "rows w' = rows w" "wf_idem (wd_db w')" "\<And>r. res = Inr r \<Longrightarrow> er_Replayed r"
proof -
  let ?l = "now_of w + ic_ProcessingTimeout cfg" and ?x = "now_of w + ttl_of cfg opts" and ?s = "io_Scope opts"
  obtain cr v where cr: "CreateProcessing (Some (new_record ?s k fp ?l ?x)) (tick w) = (cr, v)" by fastforce
  have wf1: "wf_idem (wd_db (tick w))" using wf by simp
  note C = CreateProcessing_spec [OF cr wf1]
  have site: "same_site w v" using C(1,2) by (simp add: same_site_def)
  have R: "rows (tick w) = rows w" by simp
  note U = execute_keyed_unfold [OF cr, of E ex e]
  consider (err) err where "cr = Inl err" "rows v = rows w"
    | (new) r where "cr = Inr (True, Some r)" "0 < ir_ID r" "held ?s k fp (ir_ID r) ?l ?x v"
    | (old) r where "cr = Inr (False, r)" "rows v = rows w"
    using C(5) by auto
  then show thesis
  proof cases
    case err
    then show thesis using run U C(4) refused by (auto simp: unavailable_eq)
  next
    case new
    show thesis
    proof (rule ran)
      show "run_claimed E cfg (ir_ID r) ?x ex e (recordIdempotencyClaim v) = (res, e', w')" using run U new(1) by simp
      show "wf_idem (wd_db (recordIdempotencyClaim v))" "same_site w (recordIdempotencyClaim v)"
        "held ?s k fp (ir_ID r) ?l ?x (recordIdempotencyClaim v)"
        using C(4) site new(3) by (simp_all add: record_defs)
    qed (use new(2) in simp)
  next
    case old
    obtain q u where q: "claim_existing E ?s k fp (now_of w) ?l ?x v = (q, u)" by fastforce
    have out: "claim_outcome ?s k fp ?l ?x v q u" by (rule claim_existing_outcome [OF q C(4)])
    show thesis
    proof (cases "\<exists>rid. q = Inr (Claimed rid)")
      case True
      then obtain rid where rid: "q = Inr (Claimed rid)" by blast
      then obtain r where r: "row_for ?s k v = Some r" "ir_ID r = rid" using out by (auto simp: claim_outcome_def)
      then have "rid \<noteq> 0" using C(4) by (auto simp: row_for_iff wf_idem_def rows_def)
      moreover have "run_claimed E cfg rid ?x ex e u = (res, e', w')" using run U old(1) q rid by simp
      ultimately show thesis using out rid ran [of rid u] same_site_trans [OF site] by (simp add: claim_outcome_def)
    next
      case False
      then have "rows u = rows w" "wf_idem (wd_db u)"
        using out old(2) by (auto simp: claim_outcome_def split: sum.splits claim.splits)
      then show thesis using run U old(1) q False refused
        by (auto split: sum.splits claim.splits)
    qed
  qed
qed

text \<open>What a request finds for a key whose row is in the table, when no statement fails.\<close>

definition after_claim ::
  "'v idem_env \<Rightarrow> IdempotencyConfig \<Rightarrow> go_time \<Rightarrow> ('e \<Rightarrow> 'v result \<times> 'e) \<Rightarrow> 'e \<Rightarrow> claim result \<times> idem_world
    \<Rightarrow> 'v IdempotencyExecuteResult result \<times> 'e \<times> idem_world" where
  "after_claim E cfg x ex e cl =
     (case cl of
        (Inl err, w) \<Rightarrow> (Inl err, e, w)
      | (Inr (Replay data), w) \<Rightarrow> (Inr \<lparr>er_Data = Inr data, er_Replayed = True\<rparr>, e, w)
      | (Inr (Claimed rid), w) \<Rightarrow> run_claimed E cfg rid x ex e w)"

lemma execute_keyed_existing:
  assumes "healthy w" "wf_idem (wd_db w)" "row_for (io_Scope opts) k w = Some r"
  shows "\<exists>v. healthy v \<and> wf_idem (wd_db v) \<and> rows v = rows w \<and>
    execute_keyed E cfg opts k fp ex e w = after_claim E cfg (now_of w + ttl_of cfg opts) ex e
      (claim_existing E (io_Scope opts) k fp (now_of w) (now_of w + ic_ProcessingTimeout cfg)
         (now_of w + ttl_of cfg opts) v)"
proof -
  let ?l = "now_of w + ic_ProcessingTimeout cfg" and ?x = "now_of w + ttl_of cfg opts" and ?s = "io_Scope opts"
  obtain cr v where cr: "CreateProcessing (Some (new_record ?s k fp ?l ?x)) (tick w) = (cr, v)" by fastforce
  have "wf_idem (wd_db (tick w))" using assms(2) by simp
  note C = CreateProcessing_spec [OF cr this]
  have "row_for ?s k (tick w) \<noteq> None" using assms(3) by simp
  then obtain rec where "cr = Inr (False, rec)" using C(6) assms(1) by auto
  moreover have "healthy v" "wf_idem (wd_db v)" "rows v = rows w"
    using C calculation assms(1) by (auto simp: healthy_def)
  ultimately show ?thesis using execute_keyed_unfold [OF cr, of E ex e] by (intro exI [of _ v]) (simp add: after_claim_def)
qed

lemma claim_existing_found:
  assumes "healthy v" "row_for s k v = Some r" "ir_RequestFingerprint r = fp" "now < ir_ExpiresAt r"
  shows "\<exists>u. claim_existing E s k fp now l x v = claim_by_status E r now l x u \<and> wd_db u = wd_db v \<and> healthy u"
proof -
  obtain g u where g: "GetByScopeAndKeyHash s k v = (g, u)" by fastforce
  note G = GetByScopeAndKeyHash_spec [OF g]
  have "g = Inr (Some r)" using G(6) assms(1,2) by simp
  then show ?thesis using G(2,4) assms(1,3,4) by (intro exI [of _ u]) (simp add: claim_existing_def g healthy_def)
qed

text \<open>
  C35. The coordinator fails closed, whatever statement of the store fails: a request with a key either
  does not run its handler, changes no row and returns an error or a replayed response, or it runs the
  handler exactly once; and it returns a fresh response only when the row of its key holds that
  response, encoded and redacted, until the time to live has passed.
\<close>

theorem Execute_fail_closed:
  assumes "keyed E c opts k fp" "wf_idem (wd_db w)"
    and run: "Execute E c opts (Some ex) e w = (res, e', w')"
  shows "(e' = e \<and> rows w' = rows w \<and> (case res of Inl _ \<Rightarrow> True | Inr r \<Rightarrow> er_Replayed r)) \<or>
    (e' = snd (ex e) \<and>
     (case res of Inl _ \<Rightarrow> True
      | Inr r \<Rightarrow> \<exists>data body. fst (ex e) = Inr data \<and> r = \<lparr>er_Data = Inl data, er_Replayed = False\<rparr> \<and>
          marshalStoredResponse E (co_cfg c) data = Inr body \<and>
          stored (io_Scope opts) k fp body (now_of w + ttl_of (co_cfg c) opts) w'))"
  using run [unfolded Execute_keyed [OF assms(1)]] assms(2)
proof (cases rule: execute_keyed_cases)
  case (ran rid v)
  have "e' = snd (ex e)" by (rule run_claimed_run [OF ran(1,2)])
  moreover have "\<exists>data body. fst (ex e) = Inr data \<and> r = \<lparr>er_Data = Inl data, er_Replayed = False\<rparr> \<and>
          marshalStoredResponse E (co_cfg c) data = Inr body \<and>
          stored (io_Scope opts) k fp body (now_of w + ttl_of (co_cfg c) opts) w'" if "res = Inr r" for r
    using run_claimed_success [OF ran(1) [unfolded that] ran(3,5)] by auto
  ultimately show ?thesis by (auto split: sum.splits)
next
  case refused
  then show ?thesis by (auto split: sum.splits)
qed

lemma Execute_found:
  assumes "keyed E c opts k fp" "healthy w" "wf_idem (wd_db w)"
    and r: "row_for (io_Scope opts) k w = Some r" "ir_RequestFingerprint r = fp" "now_of w < ir_ExpiresAt r"
  shows "\<exists>u. Execute E c opts (Some ex) e w = after_claim E (co_cfg c) (now_of w + ttl_of (co_cfg c) opts) ex e
      (claim_by_status E r (now_of w) (now_of w + ic_ProcessingTimeout (co_cfg c)) (now_of w + ttl_of (co_cfg c) opts) u) \<and>
    rows u = rows w \<and> wf_idem (wd_db u) \<and> healthy u \<and> row_for (io_Scope opts) k u = Some r"
proof -
  let ?s = "io_Scope opts" and ?l = "now_of w + ic_ProcessingTimeout (co_cfg c)"
    and ?x = "now_of w + ttl_of (co_cfg c) opts"
  obtain v where v: "healthy v" "wf_idem (wd_db v)" "rows v = rows w" "execute_keyed E (co_cfg c) opts k fp ex e w =
      after_claim E (co_cfg c) ?x ex e (claim_existing E ?s k fp (now_of w) ?l ?x v)"
    using execute_keyed_existing [OF assms(2,3) r(1), of E "co_cfg c" fp ex e] by auto
  have rv: "row_for ?s k v = Some r" using row_for_same_rows [OF v(3)] r(1) by simp
  then obtain u where u: "claim_existing E ?s k fp (now_of w) ?l ?x v = claim_by_status E r (now_of w) ?l ?x u"
    "wd_db u = wd_db v" "healthy u"
    using claim_existing_found [OF v(1) _ r(2,3)] by blast
  then show ?thesis using v rv Execute_keyed [OF assms(1), of ex e w]
    by (intro exI [of _ u]) (simp add: rows_def row_for_def)
qed

lemma stored_next:
  assumes "keyed E c opts k fp" "stored (io_Scope opts) k fp body x w" "healthy w" "wf_idem (wd_db w)"
    and "now_of w < x"
  shows "\<exists>w'. Execute E c opts (Some ex) e w =
      ((case decodeStoredResponse E (Some body) of
          Inl err \<Rightarrow> Inl (WithCause ErrIdempotencyStoreUnavail (Some err))
        | Inr d \<Rightarrow> Inr \<lparr>er_Data = Inr d, er_Replayed = True\<rparr>), e, w') \<and> rows w' = rows w"
proof -
  obtain r where r: "row_for (io_Scope opts) k w = Some r" "ir_RequestFingerprint r = fp"
    "ir_Status r = IdempotencyStatusSucceeded" "ir_ResponseBody r = Some body" "ir_ExpiresAt r = x"
    using assms(2) by (auto simp: stored_def)
  from Execute_found [OF assms(1,3,4) r(1,2), of ex e] obtain u where
    u: "Execute E c opts (Some ex) e w = after_claim E (co_cfg c) (now_of w + ttl_of (co_cfg c) opts) ex e
      (claim_by_status E r (now_of w) (now_of w + ic_ProcessingTimeout (co_cfg c)) (now_of w + ttl_of (co_cfg c) opts) u)"
    "rows u = rows w" using assms(5) r(5) by blast
  show ?thesis unfolding u(1) using r(3,4) u(2)
    by (cases "decodeStoredResponse E (Some body)")
      (simp_all add: claim_by_status_def record_defs after_claim_def unavailable_eq)
qed

lemma fresh_stored:
  assumes key: "keyed E c opts k fp" and wf: "wf_idem (wd_db w)"
    and first: "Execute E c opts (Some ex) e w = (Inr \<lparr>er_Data = Inl data, er_Replayed = False\<rparr>, e', w')"
    and "rows w2 = rows w'"
  shows "\<exists>body. marshalStoredResponse E (co_cfg c) data = Inr body \<and>
    stored (io_Scope opts) k fp body (now_of w + ttl_of (co_cfg c) opts) w2"
  using first [unfolded Execute_keyed [OF key]] wf
proof (cases rule: execute_keyed_cases)
  case (ran rid v)
  then show ?thesis using run_claimed_success [OF ran(1,3,5)]
    by (auto simp: stored_def row_for_same_rows [OF assms(4)])
qed simp

text \<open>
  C36. A repeated request gets the first answer: when a request with a key has succeeded, every later
  request with the same key and payload before the time to live has passed (whatever its handler is)
  gets the stored response marked as replayed, its handler does not run and no row changes. The
  response it gets is what decoding the stored text gives.
\<close>

theorem Execute_replay:
  assumes key: "keyed E c opts k fp" and wf: "wf_idem (wd_db w)"
    and first: "Execute E c opts (Some ex) e w = (Inr \<lparr>er_Data = Inl data, er_Replayed = False\<rparr>, e', w')"
    and body: "marshalStoredResponse E (co_cfg c) data = Inr body" "decodeStoredResponse E (Some body) = Inr d"
    and later: "rows w2 = rows w'" "wf_idem (wd_db w2)" "healthy w2" "now_of w2 < now_of w + ttl_of (co_cfg c) opts"
  shows "\<exists>w3. Execute E c opts (Some ex2) e2 w2 = (Inr \<lparr>er_Data = Inr d, er_Replayed = True\<rparr>, e2, w3) \<and>
    rows w3 = rows w'"
proof -
  have "stored (io_Scope opts) k fp body (now_of w + ttl_of (co_cfg c) opts) w2"
    using fresh_stored [OF key wf first later(1)] body(1) by simp
  from stored_next [OF key this later(3,2,4), of ex2 e2] body(2) later(1) show ?thesis by simp
qed

text \<open>
  A key cannot be reused for another request: when the row of the key carries another fingerprint
  (another method, route, caller or payload, up to collisions of the hash), the request is refused
  with a conflict, its handler does not run and no row changes.
\<close>

theorem Execute_fingerprint_conflict:
  assumes "keyed E c opts k fp" "healthy w" "wf_idem (wd_db w)"
    and r: "row_for (io_Scope opts) k w = Some r" "ir_RequestFingerprint r \<noteq> fp"
  shows "\<exists>w'. Execute E c opts (Some ex) e w = (Inl ErrIdempotencyKeyConflict, e, w') \<and> rows w' = rows w"
proof -
  let ?s = "io_Scope opts" and ?l = "now_of w + ic_ProcessingTimeout (co_cfg c)"
    and ?x = "now_of w + ttl_of (co_cfg c) opts"
  obtain v where v: "healthy v" "rows v = rows w" "execute_keyed E (co_cfg c) opts k fp ex e w =
      after_claim E (co_cfg c) ?x ex e (claim_existing E ?s k fp (now_of w) ?l ?x v)"
    using execute_keyed_existing [OF assms(2,3) r(1), of E "co_cfg c" fp ex e] by auto
  obtain g u where g: "GetByScopeAndKeyHash (io_Scope opts) k v = (g, u)" by fastforce
  have "g = Inr (Some r)" "rows u = rows w"
    using GetByScopeAndKeyHash_spec(4,6) [OF g] v(1,2) r(1) row_for_same_rows [OF v(2)] by (simp_all add: rows_def)
  then show ?thesis
    unfolding Execute_keyed [OF assms(1)] v(3) using g r(2) by (simp add: claim_existing_def record_defs after_claim_def)
qed

section \<open>Failed handlers\<close>

lemma run_claimed_failure:
  assumes run: "run_claimed E cfg rid x ex e w = (res, e', w')" and ex: "ex e = (Inl err, e2)"
    and "rid \<noteq> 0" and wf: "wf_idem (wd_db w)" and h: "held s k fp rid l y w" and "healthy w"
  shows "res = Inl err" "wf_idem (wd_db w')"
    "\<exists>reason. backing_off s k fp reason (wd_clock w (Suc (wd_tick w)) + ic_FailedRetryBackoff cfg) x w'"
proof -
  let ?reason = "if Reason (Some err) = '''' then ''EXECUTION_FAILED'' else Reason (Some err)"
  let ?b = "now_of (tick w) + ic_FailedRetryBackoff cfg" and ?v = "recordIdempotencyRetryBackoff (tick (tick w))"
  have "healthy ?v" using assms(6) by (simp add: record_defs)
  then obtain v where v: "MarkFailedRetryable rid ?reason ?b x ?v = (None, v)" using mark_healthy(2) by blast
  have "wf_idem (wd_db ?v)" "held s k fp rid l y ?v" using wf h by (simp_all add: record_defs)
  note M = MarkFailed_held [OF v this]
  have eq: "res = Inl err \<and> w' = recordIdempotencyProcessingDuration (time_sub (now_of v) (now_of w)) (tick v)"
    using run assms(3) ex v by (simp add: run_claimed_def finish_failed_def Let_def)
  show "res = Inl err" "wf_idem (wd_db w')" using eq M(2) by (simp_all add: record_defs)
  show "\<exists>reason. backing_off s k fp reason (wd_clock w (Suc (wd_tick w)) + ic_FailedRetryBackoff cfg) x w'"
    using eq M(1) by (auto simp: record_defs now_of_def)
qed

lemma backing_off_next:
  assumes key: "keyed E c opts k fp" and b: "backing_off (io_Scope opts) k fp reason b x w"
    and w: "healthy w" "wf_idem (wd_db w)" and "now_of w < x"
  shows "now_of w < b \<Longrightarrow> \<exists>w'. Execute E c opts (Some ex) e w =
      (Inl (conflictWithRetryAfter ErrIdempotencyRetryBackoff (Some b) (now_of w)), e, w') \<and> rows w' = rows w"
    and "b \<le> now_of w \<Longrightarrow> fst (snd (Execute E c opts (Some ex) e w)) = snd (ex e)"
proof -
  let ?s = "io_Scope opts" and ?l = "now_of w + ic_ProcessingTimeout (co_cfg c)"
    and ?x = "now_of w + ttl_of (co_cfg c) opts"
  obtain r where r: "row_for ?s k w = Some r" "ir_RequestFingerprint r = fp"
    "ir_Status r = IdempotencyStatusFailedRetryable" "ir_LockedUntil r = Some b" "ir_ExpiresAt r = x"
    using b by (auto simp: backing_off_def)
  obtain u where u: "Execute E c opts (Some ex) e w =
      after_claim E (co_cfg c) ?x ex e (claim_by_status E r (now_of w) ?l ?x u)"
    "rows u = rows w" "wf_idem (wd_db u)" "healthy u" "row_for ?s k u = Some r"
    using Execute_found [OF key w r(1,2), of ex e] assms(5) r(5) by blast
  have st: "ir_Status r \<noteq> IdempotencyStatusSucceeded" "ir_Status r \<noteq> IdempotencyStatusProcessing"
    using r(3) by (simp_all add: status_defs)
  show "\<exists>w'. Execute E c opts (Some ex) e w =
      (Inl (conflictWithRetryAfter ErrIdempotencyRetryBackoff (Some b) (now_of w)), e, w') \<and> rows w' = rows w"
    if "now_of w < b"
    unfolding u(1) using u(2) st r(3,4) that by (simp add: claim_by_status_def record_defs after_claim_def)
  show "fst (snd (Execute E c opts (Some ex) e w)) = snd (ex e)" if le: "b \<le> now_of w"
  proof -
    have rid: "ir_ID r \<noteq> 0" using u(3,5) by (auto simp: row_for_iff wf_idem_def rows_def)
    obtain tk t where tk: "TryReclaim (ir_ID r) IdempotencyStatusFailedRetryable (now_of w) ?l ?x u = (tk, t)" by fastforce
    have "tk = Inr True"
      using TryReclaim_spec(7) [OF tk u(3,5) refl u(4)] r(3,4) le by (simp add: reclaimable_def)
    then have claim: "claim_by_status E r (now_of w) ?l ?x u = (Inr (Claimed (ir_ID r)), recordIdempotencyClaim t)"
      using tk st r(3,4) le by (simp add: claim_by_status_def)
    obtain res e' w' where run: "run_claimed E (co_cfg c) (ir_ID r) ?x ex e (recordIdempotencyClaim t) = (res, e', w')"
      by (cases "run_claimed E (co_cfg c) (ir_ID r) ?x ex e (recordIdempotencyClaim t)")
    show ?thesis unfolding u(1) claim
      using run run_claimed_run [OF run rid] by (simp add: after_claim_def)
  qed
qed

text \<open>
  A failed handler can be retried, after a pause: the handler's own error is returned, and until the
  backoff has passed requests with the same key are refused with the time left and do not run; from
  then on, and before the key expires, the next request runs its handler again.
\<close>

theorem Execute_failure_retry:
  assumes key: "keyed E c opts k fp" and w: "wf_idem (wd_db w)" "healthy w" "row_for (io_Scope opts) k w = None"
    and run: "Execute E c opts (Some ex) e w = (res, e', w')" and err: "ex e = (Inl err, e')"
    and later: "rows w2 = rows w'" "wf_idem (wd_db w2)" "healthy w2" "now_of w2 < now_of w + ttl_of (co_cfg c) opts"
  shows "res = Inl err \<and> (\<exists>n b. b = wd_clock w n + ic_FailedRetryBackoff (co_cfg c) \<and>
     (if now_of w2 < b
      then \<exists>w3. Execute E c opts (Some ex2) e2 w2 =
        (Inl (conflictWithRetryAfter ErrIdempotencyRetryBackoff (Some b) (now_of w2)), e2, w3) \<and> rows w3 = rows w'
      else fst (snd (Execute E c opts (Some ex2) e2 w2)) = snd (ex2 e2)))"
proof -
  let ?s = "io_Scope opts" and ?x = "now_of w + ttl_of (co_cfg c) opts" and ?l = "now_of w + ic_ProcessingTimeout (co_cfg c)"
  obtain cr v where cr: "CreateProcessing (Some (new_record ?s k fp ?l ?x)) (tick w) = (cr, v)" by fastforce
  have "wf_idem (wd_db (tick w))" using w(1) by simp
  note C = CreateProcessing_spec [OF cr this]
  obtain r where r: "cr = Inr (True, Some r)" "0 < ir_ID r" "held ?s k fp (ir_ID r) ?l ?x v"
    using C(5,6) w(2,3) by auto
  let ?v = "recordIdempotencyClaim v"
  have claimed: "run_claimed E (co_cfg c) (ir_ID r) ?x ex e ?v = (res, e', w')"
    using run unfolding Execute_keyed [OF key] execute_keyed_unfold [OF cr] r(1) by simp
  have hv: "wf_idem (wd_db ?v)" "held ?s k fp (ir_ID r) ?l ?x ?v" "healthy ?v" "wd_clock ?v = wd_clock w" "ir_ID r \<noteq> 0"
    using C(1,2,4) r(2,3) w(2) by (simp_all add: record_defs healthy_def)
  note F = run_claimed_failure [OF claimed err hv(5,1,2,3)]
  define b where "b = wd_clock w (Suc (wd_tick ?v)) + ic_FailedRetryBackoff (co_cfg c)"
  obtain reason where "backing_off ?s k fp reason b ?x w'" using F(3) hv(4) by (auto simp: b_def)
  then have "backing_off ?s k fp reason b ?x w2"
    by (simp add: backing_off_def row_for_same_rows [OF later(1)])
  note N = backing_off_next [OF key this later(3,2,4)]
  show ?thesis
    using F(1) N(1) [of ex2 e2] N(2) [of ex2 e2] later(1)
    by (intro conjI exI [of _ "Suc (wd_tick ?v)"] exI [of _ b]) (auto simp: b_def)
qed

section \<open>Long responses\<close>

text \<open>
  C37. A success with a long response is not replayed: when the encoded response is longer than the
  store keeps, the stored text is cut and ends with a marker, which no JSON text does, so that a
  repeated request gets a store error (503) instead of the response, and its handler does not run.
\<close>

theorem long_response_not_replayed:
  assumes key: "keyed E c opts k fp" and wf: "wf_idem (wd_db w)"
    and first: "Execute E c opts (Some ex) e w = (Inr \<lparr>er_Data = Inl data, er_Replayed = False\<rparr>, e', w')"
    and raw: "en_marshal E data = Inr raw"
    and long: "0 < ic_MaxStoredResponseLen (co_cfg c)"
      "ic_MaxStoredResponseLen (co_cfg c) < int (length (RedactText (en_tables E) (en_codec E) (en_rx E) raw []))"
    and json: "\<And>t. \<exists>err. js_unmarshal (en_codec E) (t @ ''...(truncated)'') = Inl err"
    and later: "rows w2 = rows w'" "wf_idem (wd_db w2)" "healthy w2" "now_of w2 < now_of w + ttl_of (co_cfg c) opts"
  shows "\<exists>err w3. Execute E c opts (Some ex2) e2 w2 = (Inl err, e2, w3) \<and> rows w3 = rows w2 \<and>
    errors_is err ErrIdempotencyStoreUnavail \<and> Code (Some err) = 503"
proof -
  obtain body where body: "marshalStoredResponse E (co_cfg c) data = Inr body"
    "stored (io_Scope opts) k fp body (now_of w + ttl_of (co_cfg c) opts) w2"
    using fresh_stored [OF key wf first later(1)] by blast
  obtain t where t: "body = t @ ''...(truncated)''" using body(1) raw long by (auto simp: marshalStoredResponse_def Let_def)
  have "graphic_char (CHR '')'')" by (simp add: graphic_char_def)
  then have "TrimSpace body \<noteq> ''''" using t by (intro TrimSpace_not_Nil [of "CHR '')''"]) simp_all
  then obtain err where "decodeStoredResponse E (Some body) = Inl err"
    using json [of t] t by (auto simp: decodeStoredResponse_def)
  then show ?thesis using stored_next [OF key body(2) later(3,2,4), of ex2 e2]
    by (auto simp: ErrIdempotencyStoreUnavail_def ServiceUnavailable_def New_def app_Is_def err_code_defs)
qed

section \<open>Requests that interleave\<close>

text \<open>
  Requests of several processes meet at the table, one statement at a time. An event is one statement;
  its outcome says whether it gave the row of a key to the request that sent it.
\<close>

datatype idem_op =
    OpCreate string string string go_time go_time
  | OpGet string string
  | OpReclaim int64 string go_time go_time go_time
  | OpExtend int64 string go_time go_time
  | OpSucceed int64 string go_time
  | OpFail int64 string go_time go_time
  | OpDelete go_time int

fun idem_run :: "idem_op \<Rightarrow> idem_world \<Rightarrow> bool \<times> idem_world" where
  "idem_run (OpCreate s k fp l x) w = (case CreateProcessing (Some (new_record s k fp l x)) w of
     (res, w) \<Rightarrow> (case res of Inr (owner, _) \<Rightarrow> owner | _ \<Rightarrow> False, w))"
| "idem_run (OpGet s k) w = (False, snd (GetByScopeAndKeyHash s k w))"
| "idem_run (OpReclaim rid st now l x) w = (case TryReclaim rid st now l x w of (res, w) \<Rightarrow> (res = Inr True, w))"
| "idem_run (OpExtend rid fp l x) w = (False, snd (ExtendProcessingLock rid fp l x w))"
| "idem_run (OpSucceed rid body x) w = (False, snd (MarkSucceeded rid 200 body x w))"
| "idem_run (OpFail rid reason b x) w = (False, snd (MarkFailedRetryable rid reason b x w))"
| "idem_run (OpDelete now limit) w = (False, snd (DeleteExpired now limit w))"

fun run_ops :: "('op \<Rightarrow> 's \<Rightarrow> bool \<times> 's) \<Rightarrow> 'op list \<Rightarrow> 's \<Rightarrow> bool list \<times> 's" where
  "run_ops step [] s = ([], s)"
| "run_ops step (act # ops) s =
     (case step act s of (b, s) \<Rightarrow> (case run_ops step ops s of (bs, s) \<Rightarrow> (b # bs, s)))"

text \<open>
  A lease: as long as it is held, the quiet events keep it and are not given what it covers.
\<close>

locale lease =
  fixes holds :: "'s \<Rightarrow> bool" and step :: "'op \<Rightarrow> 's \<Rightarrow> bool \<times> 's"
    and quiet :: "'op \<Rightarrow> bool" and claims :: "'op \<Rightarrow> bool"
  assumes keeps: "holds s \<Longrightarrow> quiet act \<Longrightarrow> holds (snd (step act s))"
    and denies: "holds s \<Longrightarrow> quiet act \<Longrightarrow> claims act \<Longrightarrow> \<not> fst (step act s)"
begin

lemma exclusive:
  "holds s \<Longrightarrow> list_all quiet ops \<Longrightarrow> run_ops step ops s = (bs, s') \<Longrightarrow>
   holds s' \<and> length bs = length ops \<and> (\<forall>i < length ops. claims (ops ! i) \<longrightarrow> \<not> bs ! i)"
proof (induction ops arbitrary: s bs)
  case (Cons act ops)
  obtain b s1 where b: "step act s = (b, s1)" by fastforce
  obtain cs where cs: "run_ops step ops s1 = (cs, s')" "bs = b # cs"
    using Cons.prems(3) b by (auto split: prod.splits)
  have "holds s1" using keeps [of s act] Cons.prems b by simp
  then have IH: "holds s' \<and> length cs = length ops \<and> (\<forall>i < length ops. claims (ops ! i) \<longrightarrow> \<not> cs ! i)"
    using Cons.IH [OF _ _ cs(1)] Cons.prems(2) by simp
  have "claims act \<longrightarrow> \<not> b" using denies [of s act] Cons.prems b by auto
  then show ?case using IH cs(2) by (auto simp: nth_Cons split: nat.splits)
qed simp

end

text \<open>
  What other requests send while a request holds the row \<open>rid\<close>: takeovers decided on a clock before the
  lock ends, sweeps on a clock before the row expires, and marks of rows of their own.
\<close>

fun respects_lease :: "int64 \<Rightarrow> go_time \<Rightarrow> go_time \<Rightarrow> idem_op \<Rightarrow> bool" where
  "respects_lease rid lockedUntil expiresAt (OpReclaim i st now l x) \<longleftrightarrow> i = rid \<longrightarrow> now < lockedUntil"
| "respects_lease rid lockedUntil expiresAt (OpExtend i fp l x) \<longleftrightarrow> i \<noteq> rid"
| "respects_lease rid lockedUntil expiresAt (OpSucceed i body x) \<longleftrightarrow> i \<noteq> rid"
| "respects_lease rid lockedUntil expiresAt (OpFail i reason b x) \<longleftrightarrow> i \<noteq> rid"
| "respects_lease rid lockedUntil expiresAt (OpDelete now limit) \<longleftrightarrow> now < expiresAt"
| "respects_lease rid lockedUntil expiresAt _ \<longleftrightarrow> True"

fun claims_key :: "string \<Rightarrow> string \<Rightarrow> int64 \<Rightarrow> idem_op \<Rightarrow> bool" where
  "claims_key s k rid (OpCreate s' k' fp l x) \<longleftrightarrow> s' = s \<and> k' = k"
| "claims_key s k rid (OpReclaim i st now l x) \<longleftrightarrow> i = rid"
| "claims_key s k rid _ \<longleftrightarrow> False"

lemma held_row:
  assumes "wf_idem (wd_db w)"
  shows "held s k fp rid l x w \<longleftrightarrow> (\<exists>r \<in> set (rows w). same_key s k r \<and> ir_ID r = rid \<and>
     ir_RequestFingerprint r = fp \<and> ir_Status r = IdempotencyStatusProcessing \<and>
     ir_LockedUntil r = Some l \<and> ir_ExpiresAt r = x)"
  unfolding held_def row_for_iff [OF assms] by blast

text \<open>An update that does not match the held row leaves it as it is.\<close>

lemma update_other:
  assumes "update_rows p f w = (q, w')" "wf_idem (wd_db w)" "held s k fp rid l x w"
    and miss: "\<And>r. r \<in> set (rows w) \<Longrightarrow> ir_ID r = rid \<Longrightarrow> ir_LockedUntil r = Some l \<Longrightarrow> \<not> p r"
    and keep: "\<And>r. ir_ID (f r) = ir_ID r \<and> row_key (f r) = row_key r"
  shows "wf_idem (wd_db w') \<and> held s k fp rid l x w'"
proof -
  let ?g = "\<lambda>y. if p y then (f y)\<lparr>ir_UpdatedAt := now_of w\<rparr> else y"
  have g: "ir_ID (?g y) = ir_ID y \<and> row_key (?g y) = row_key y" for y using keep by (simp add: row_key_def)
  obtain r where r: "r \<in> set (rows w)" "same_key s k r" "ir_ID r = rid" "ir_RequestFingerprint r = fp"
    "ir_Status r = IdempotencyStatusProcessing" "ir_LockedUntil r = Some l" "ir_ExpiresAt r = x"
    using assms(3) unfolding held_row [OF assms(2)] by blast
  from update_rows_cases(4) [OF assms(1)] show ?thesis
  proof (elim disjE exE conjE)
    assume "wd_db w' = wd_db w"
    then show ?thesis using assms(2,3) by (simp add: held_def row_for_def)
  next
    assume upd: "is_next_id (wd_db w') = is_next_id (wd_db w)" "rows w' = map ?g (rows w)"
    have wf: "wf_idem (wd_db w')" by (rule wf_idem_map [OF assms(2) upd(2,1) g])
    have "?g r = r" using miss [OF r(1,3,6)] by simp
    then have "r \<in> set (rows w')" unfolding upd(2) using r(1) by force
    then have "held s k fp rid l x w'" unfolding held_row [OF wf] using r by blast
    with wf show ?thesis by blast
  qed
qed

lemma create_other:
  assumes run: "CreateProcessing (Some (new_record s' k' fp' l' x')) w = (res, w')"
    and wf: "wf_idem (wd_db w)" and h: "held s k fp rid l x w"
  shows "held s k fp rid l x w'" "s' = s \<Longrightarrow> k' = k \<Longrightarrow> (\<And>y. res \<noteq> Inr (True, y))"
proof -
  note C = CreateProcessing_spec [OF run wf]
  have "set (rows w) \<subseteq> set (rows w')"
    using run by (auto simp: CreateProcessing_def Let_def sql_exec_def rows_def new_record_def
        split: option.splits if_splits)
  then show "held s k fp rid l x w'" using h unfolding held_row [OF wf] held_row [OF C(4)] by blast
  show "res \<noteq> Inr (True, y)" if "s' = s" "k' = k" for y
    using C(5) h that by (auto simp: held_def)
qed

lemma delete_other:
  assumes run: "DeleteExpired now limit w = (res, w')" and wf: "wf_idem (wd_db w)" and h: "held s k fp rid l x w"
    and "now < x"
  shows "wf_idem (wd_db w') \<and> held s k fp rid l x w'"
proof -
  have db: "wd_db w' = wd_db w \<or> (\<exists>V. V \<subseteq> ir_ID ` {r \<in> set (rows w). ir_ExpiresAt r \<le> now} \<and>
      wd_db w' = (wd_db w)\<lparr>is_rows := filter (\<lambda>r. ir_ID r \<notin> V) (rows w)\<rparr>)"
  proof -
    let ?V = "ir_ID ` set (take (nat (if limit \<le> 0 then 500 else limit))
      (stable_sort expires_before (filter (\<lambda>r. ir_ExpiresAt r \<le> now) (rows w))))"
    have "?V \<subseteq> ir_ID ` {r \<in> set (rows w). ir_ExpiresAt r \<le> now}"
      using set_take_subset by (fastforce dest: in_set_takeD)
    moreover have "wd_db w' = wd_db w \<or> wd_db w' = (wd_db w)\<lparr>is_rows := filter (\<lambda>r. ir_ID r \<notin> ?V) (rows w)\<rparr>"
      using sql_exec_D [OF run [unfolded DeleteExpired_def Let_def]] by (auto simp: rows_def)
    ultimately show ?thesis by blast
  qed
  then show ?thesis
  proof
    assume "wd_db w' = wd_db w"
    then show ?thesis using wf h by (simp add: held_def row_for_def)
  next
    assume "\<exists>V. V \<subseteq> ir_ID ` {r \<in> set (rows w). ir_ExpiresAt r \<le> now} \<and>
      wd_db w' = (wd_db w)\<lparr>is_rows := filter (\<lambda>r. ir_ID r \<notin> V) (rows w)\<rparr>"
    then obtain V where V: "V \<subseteq> ir_ID ` {r \<in> set (rows w). ir_ExpiresAt r \<le> now}"
      "rows w' = filter (\<lambda>r. ir_ID r \<notin> V) (rows w)" "is_next_id (wd_db w') = is_next_id (wd_db w)"
      by (auto simp: rows_def)
    have wf': "wf_idem (wd_db w')" using wf V(2,3) by (auto simp: wf_idem_def rows_def distinct_map_filter)
    obtain r where r: "r \<in> set (rows w)" "same_key s k r" "ir_ID r = rid" "ir_RequestFingerprint r = fp"
      "ir_Status r = IdempotencyStatusProcessing" "ir_LockedUntil r = Some l" "ir_ExpiresAt r = x"
      using h unfolding held_row [OF wf] by blast
    have "ir_ID r \<notin> V"
    proof
      assume "ir_ID r \<in> V"
      then obtain y where "y \<in> set (rows w)" "ir_ExpiresAt y \<le> now" "ir_ID y = ir_ID r" using V(1) by auto
      then have "y = r" using row_ID_unique [OF wf] r(1) by blast
      then show False using \<open>ir_ExpiresAt y \<le> now\<close> r(7) assms(4) by simp
    qed
    then have "r \<in> set (rows w')" using r(1) V(2) by simp
    then have "held s k fp rid l x w'" unfolding held_row [OF wf'] using r by blast
    with wf' show ?thesis by blast
  qed
qed

lemma idem_run_keeps:
  assumes wf: "wf_idem (wd_db w)" and h: "held s k fp rid l x w" and q: "respects_lease rid l x act"
  shows "wf_idem (wd_db (snd (idem_run act w))) \<and> held s k fp rid l x (snd (idem_run act w))"
proof (cases act)
  case (OpCreate s' k' fp' l' x')
  obtain res w' where run: "CreateProcessing (Some (new_record s' k' fp' l' x')) w = (res, w')" by fastforce
  then show ?thesis
    using CreateProcessing_spec(4) [OF run wf] create_other(1) [OF run wf h] by (simp add: OpCreate)
next
  case (OpGet s' k')
  obtain res w' where run: "GetByScopeAndKeyHash s' k' w = (res, w')" by fastforce
  then show ?thesis
    using GetByScopeAndKeyHash_spec(4) [OF run] wf h by (simp add: OpGet held_def row_for_def)
next
  case (OpReclaim i st now l' x')
  let ?f = "\<lambda>r. r\<lparr>ir_Status := IdempotencyStatusProcessing, ir_LockedUntil := Some l', ir_ErrorReason := None,
      ir_ExpiresAt := x'\<rparr>"
  obtain n w' where run: "update_rows (reclaimable i st now) ?f w = (n, w')" by fastforce
  then have "snd (idem_run act w) = w'" by (simp add: OpReclaim TryReclaim_def affected_some_def)
  moreover have "wf_idem (wd_db w') \<and> held s k fp rid l x w'"
    by (rule update_other [OF run wf h]) (use q OpReclaim in \<open>auto simp: reclaimable_def row_key_def\<close>)
  ultimately show ?thesis by simp
next
  case (OpExtend i fp' l' x')
  let ?p = "\<lambda>r. ir_ID r = i \<and> ir_Status r = IdempotencyStatusProcessing \<and> ir_RequestFingerprint r = fp'"
  let ?f = "\<lambda>r. r\<lparr>ir_LockedUntil := Some l', ir_ExpiresAt := x'\<rparr>"
  obtain n w' where run: "update_rows ?p ?f w = (n, w')" by fastforce
  then have "snd (idem_run act w) = w'" by (simp add: OpExtend ExtendProcessingLock_def affected_some_def)
  moreover have "wf_idem (wd_db w') \<and> held s k fp rid l x w'"
    by (rule update_other [OF run wf h]) (use q OpExtend in \<open>auto simp: row_key_def\<close>)
  ultimately show ?thesis by simp
next
  case (OpSucceed i body x')
  let ?f = "\<lambda>r. r\<lparr>ir_Status := IdempotencyStatusSucceeded, ir_ResponseStatus := Some 200,
     ir_ResponseBody := Some body, ir_ErrorReason := None, ir_LockedUntil := None, ir_ExpiresAt := x'\<rparr>"
  obtain n w' where run: "update_rows (\<lambda>r. ir_ID r = i) ?f w = (n, w')" by fastforce
  then have "snd (idem_run act w) = w'" by (simp add: OpSucceed MarkSucceeded_def)
  moreover have "wf_idem (wd_db w') \<and> held s k fp rid l x w'"
    by (rule update_other [OF run wf h]) (use q OpSucceed in \<open>auto simp: row_key_def\<close>)
  ultimately show ?thesis by simp
next
  case (OpFail i reason b x')
  let ?f = "\<lambda>r. r\<lparr>ir_Status := IdempotencyStatusFailedRetryable, ir_ErrorReason := Some reason,
     ir_LockedUntil := Some b, ir_ExpiresAt := x'\<rparr>"
  obtain n w' where run: "update_rows (\<lambda>r. ir_ID r = i) ?f w = (n, w')" by fastforce
  then have "snd (idem_run act w) = w'" by (simp add: OpFail MarkFailedRetryable_def)
  moreover have "wf_idem (wd_db w') \<and> held s k fp rid l x w'"
    by (rule update_other [OF run wf h]) (use q OpFail in \<open>auto simp: row_key_def\<close>)
  ultimately show ?thesis by simp
next
  case (OpDelete now limit)
  obtain res w' where run: "DeleteExpired now limit w = (res, w')" by fastforce
  then show ?thesis using delete_other [OF run wf h] q by (simp add: OpDelete)
qed

lemma idem_run_denies:
  assumes wf: "wf_idem (wd_db w)" and h: "held s k fp rid l x w" and q: "respects_lease rid l x act"
    and c: "claims_key s k rid act"
  shows "\<not> fst (idem_run act w)"
proof (cases act)
  case (OpCreate s' k' fp' l' x')
  obtain res w' where run: "CreateProcessing (Some (new_record s' k' fp' l' x')) w = (res, w')" by fastforce
  then show ?thesis using create_other(2) [OF run wf h] c
    by (auto simp: OpCreate split: sum.splits)
next
  case (OpReclaim i st now l' x')
  obtain res w' where run: "TryReclaim i st now l' x' w = (res, w')" by fastforce
  obtain r where r: "row_for s k w = Some r" "ir_ID r = rid" "ir_LockedUntil r = Some l" using h by (auto simp: held_def)
  obtain n v where n: "update_rows (reclaimable i st now)
      (\<lambda>r. r\<lparr>ir_Status := IdempotencyStatusProcessing, ir_LockedUntil := Some l', ir_ErrorReason := None,
      ir_ExpiresAt := x'\<rparr>) w = (n, v)" by fastforce
  have res: "res = map_sum (\<lambda>e. e) (\<lambda>n. 0 < n) n" using run n by (simp add: TryReclaim_def affected_some_def)
  have "filter (reclaimable i st now) (rows w) = []"
    unfolding filter_empty_conv
  proof (intro ballI notI)
    fix y assume y: "y \<in> set (rows w)" "reclaimable i st now y"
    have "r \<in> set (rows w)" using r(1) wf by (simp add: row_for_iff)
    moreover have "ir_ID y = ir_ID r" using y(2) r(2) c by (simp add: OpReclaim reclaimable_def)
    ultimately have "y = r" using row_ID_unique [OF wf y(1)] by blast
    then show False using y(2) r(3) q c by (simp add: OpReclaim reclaimable_def)
  qed
  then have "n = Inr 0 \<or> (\<exists>e. n = Inl e)" using update_rows_cases(4) [OF n] by auto
  then show ?thesis using run res by (auto simp: OpReclaim)
qed (use c in simp_all)

interpretation idem_lease:
  lease "\<lambda>w. wf_idem (wd_db w) \<and> held s k fp rid l x w" idem_run "respects_lease rid l x" "claims_key s k rid"
  for s k fp rid l x
  by unfold_locales (use idem_run_keeps idem_run_denies in blast)+

text \<open>
  C34. Two requests never work on one key at the same time, however their statements interleave and
  whichever of them fail: from the moment a request holds the row of a key, as long as the others act
  on clocks before its lock (takeovers) and its expiry (sweeps) end and nobody else marks its row,
  no other insert or takeover for that key succeeds, and the request still holds the row afterwards.
\<close>

theorem claim_is_exclusive:
  assumes "wf_idem (wd_db w)" "held s k fp rid lockedUntil expiresAt w"
    and "list_all (respects_lease rid lockedUntil expiresAt) acts" "run_ops idem_run acts w = (outcomes, w')"
  shows "held s k fp rid lockedUntil expiresAt w' \<and> length outcomes = length acts \<and>
    (\<forall>i < length acts. claims_key s k rid (acts ! i) \<longrightarrow> \<not> outcomes ! i)"
  using idem_lease.exclusive [OF _ assms(3,4)] assms(1,2) by blast

section \<open>A concrete store\<close>

definition demo_env :: "json idem_env" where
  "demo_env = \<lparr>en_tables = ascii_tables, en_codec = demo_codec, en_rx = (\<lambda>ks t. t),
     en_marshal = js_marshal demo_codec, en_sha = (\<lambda>s. s)\<rparr>"

definition demo_coordinator :: IdempotencyCoordinator where
  "demo_coordinator = \<lparr>co_repo = True, co_cfg = DefaultIdempotencyConfig\<rparr>"

definition demo_opts :: "json IdempotencyExecuteOptions" where
  "demo_opts = \<lparr>io_Scope = ''orders'', io_ActorScope = ''user:7'', io_Method = ''post'', io_Route = ''/orders'',
     io_IdempotencyKey = '' k-1 '', io_Payload = demo_redacted, io_TTL = 0, io_RequireKey = True\<rparr>"

definition demo_fp :: string where
  "demo_fp = ''POST'' @ newline @ ''/orders'' @ newline @ ''user:7'' @ newline @ ''r''"

definition zero_metrics :: idempotencyMetrics where
  "zero_metrics = \<lparr>im_claimTotal = 0, im_replayTotal = 0, im_conflictTotal = 0, im_retryBackoffTotal = 0,
     im_processingDurationCount = 0, im_processingDurationMicros = 0, im_storeUnavailableTotal = 0\<rparr>"

text \<open>A store with these rows; every reading of the clock is \<open>t\<close> and no statement fails.\<close>

definition idem_site :: "go_time \<Rightarrow> int64 \<Rightarrow> IdempotencyRecord list \<Rightarrow> idem_world" where
  "idem_site t nid rs = \<lparr>wd_db = \<lparr>is_rows = rs, is_next_id = nid, is_metrics = zero_metrics\<rparr>, wd_clock = (\<lambda>n. t),
     wd_tick = 0, wd_fault = (\<lambda>n. None), wd_stmt = 0, wd_unique = (\<lambda>e. False)\<rparr>"

definition demo_handler :: "nat \<Rightarrow> json result \<times> nat" where
  "demo_handler n = (Inr demo_secret, Suc n)"

definition failing_handler :: "nat \<Rightarrow> json result \<times> nat" where
  "failing_handler n = (Inl (Sentinel ''boom''), Suc n)"

lemma demo_keyed: "keyed demo_env demo_coordinator demo_opts ''k-1'' demo_fp"
proof -
  have "NormalizeIdempotencyKey (io_IdempotencyKey demo_opts) = Inr ''k-1''" by code_simp
  moreover have "BuildIdempotencyFingerprint demo_env ''post'' ''/orders'' ''user:7'' demo_redacted = Inr demo_fp" by code_simp
  ultimately show ?thesis
    by (auto simp: keyed_def HashIdempotencyKey_def demo_env_def demo_coordinator_def demo_opts_def)
qed

lemma idem_site_facts [simp]:
  "healthy (idem_site t nid rs)" "rows (idem_site t nid rs) = rs" "now_of (idem_site t nid rs) = t"
  "wd_clock (idem_site t nid rs) = (\<lambda>n. t)"
  "wf_idem (wd_db (idem_site t nid rs)) \<longleftrightarrow> distinct (map ir_ID rs) \<and> distinct (map row_key rs) \<and>
     0 < nid \<and> (\<forall>r \<in> set rs. 0 < ir_ID r \<and> ir_ID r < nid)"
  by (simp_all add: idem_site_def healthy_def rows_def now_of_def wf_idem_def)

lemma demo_ttl: "ttl_of (co_cfg demo_coordinator) demo_opts = 86400000000000"
  by (simp add: ttl_of_def demo_coordinator_def DefaultIdempotencyConfig_def demo_opts_def duration_defs)

definition demo_row :: IdempotencyRecord where
  "demo_row = \<lparr>ir_ID = 9, ir_Scope = ''orders'', ir_IdempotencyKeyHash = ''k-1'', ir_RequestFingerprint = demo_fp,
     ir_Status = IdempotencyStatusSucceeded, ir_ResponseStatus = Some 200, ir_ResponseBody = Some ''r'',
     ir_ErrorReason = None, ir_LockedUntil = None, ir_ExpiresAt = 86400000000005, ir_CreatedAt = 5, ir_UpdatedAt = 5\<rparr>"

lemma demo_row_for [simp]: "row_for (io_Scope demo_opts) ''k-1'' (idem_site t nid (demo_row # rs)) = Some demo_row"
  by (simp add: row_for_def idem_site_def demo_row_def same_key_def demo_opts_def)

lemma demo_first_run:
  obtains w where "Execute demo_env demo_coordinator demo_opts (Some demo_handler) 0 (idem_site 5 9 []) =
     (Inr \<lparr>er_Data = Inl demo_secret, er_Replayed = False\<rparr>, 1, w)" "rows w = [demo_row]"
proof -
  have "case Execute demo_env demo_coordinator demo_opts (Some demo_handler) 0 (idem_site 5 9 []) of
     (res, e, w) \<Rightarrow> res = Inr \<lparr>er_Data = Inl demo_secret, er_Replayed = False\<rparr> \<and> e = 1 \<and> rows w = [demo_row]"
    by code_simp
  then show thesis using that by (auto split: prod.splits)
qed

lemma demo_later: "wf_idem (wd_db (idem_site t 10 [demo_row]))"
  by (simp add: demo_row_def)

theorem Execute_replay_witness:
  "\<exists>w. Execute demo_env demo_coordinator demo_opts (Some demo_handler) 1 (idem_site 7 10 [demo_row]) =
     (Inr \<lparr>er_Data = Inr demo_redacted, er_Replayed = True\<rparr>, 1, w) \<and> rows w = [demo_row]"
proof -
  obtain w where first: "Execute demo_env demo_coordinator demo_opts (Some demo_handler) 0 (idem_site 5 9 []) =
     (Inr \<lparr>er_Data = Inl demo_secret, er_Replayed = False\<rparr>, 1, w)" "rows w = [demo_row]"
    by (rule demo_first_run)
  have wf: "wf_idem (wd_db (idem_site 5 9 []))" by simp
  have body: "marshalStoredResponse demo_env (co_cfg demo_coordinator) demo_secret = Inr ''r''"
    "decodeStoredResponse demo_env (Some ''r'') = Inr demo_redacted" by code_simp+
  from Execute_replay [OF demo_keyed wf first(1) body, of "idem_site 7 10 [demo_row]" demo_handler 1] first(2)
  show ?thesis by (simp add: demo_later demo_ttl del: idem_site_facts(5))
qed

theorem Execute_fail_closed_witness:
  "\<exists>res e w. Execute demo_env demo_coordinator demo_opts (Some demo_handler) 0 (idem_site 5 9 []) = (res, e, w) \<and>
     e = snd (demo_handler 0) \<and> stored ''orders'' ''k-1'' demo_fp ''r'' 86400000000005 w"
proof -
  obtain w where first: "Execute demo_env demo_coordinator demo_opts (Some demo_handler) 0 (idem_site 5 9 []) =
     (Inr \<lparr>er_Data = Inl demo_secret, er_Replayed = False\<rparr>, 1, w)" "rows w = [demo_row]"
    by (rule demo_first_run)
  have wf: "wf_idem (wd_db (idem_site 5 9 []))" by simp
  have "marshalStoredResponse demo_env (co_cfg demo_coordinator) demo_secret = Inr ''r''" by code_simp
  moreover have scope: "io_Scope demo_opts = ''orders''" by (simp add: demo_opts_def)
  ultimately show ?thesis using Execute_fail_closed [OF demo_keyed wf first(1)] first(1)
    by (auto simp: demo_ttl demo_handler_def scope)
qed

theorem Execute_fingerprint_conflict_witness:
  "\<exists>w. Execute demo_env demo_coordinator demo_opts (Some demo_handler) 0
       (idem_site 7 10 [demo_row\<lparr>ir_RequestFingerprint := ''other''\<rparr>]) = (Inl ErrIdempotencyKeyConflict, 0, w)"
proof -
  let ?r = "demo_row\<lparr>ir_RequestFingerprint := ''other''\<rparr>"
  have "wf_idem (wd_db (idem_site 7 10 [?r]))" by (simp add: demo_row_def)
  moreover have "row_for (io_Scope demo_opts) ''k-1'' (idem_site 7 10 [?r]) = Some ?r"
    by (simp add: row_for_def idem_site_def demo_row_def same_key_def demo_opts_def)
  moreover have "ir_RequestFingerprint ?r \<noteq> demo_fp" by (simp add: demo_fp_def newline_def)
  ultimately show ?thesis
    using Execute_fingerprint_conflict [OF demo_keyed idem_site_facts(1), of 7 10 "[?r]" ?r demo_handler 0] by auto
qed

theorem Execute_failure_retry_witness:
  "\<exists>w'. Execute demo_env demo_coordinator demo_opts (Some failing_handler) 0 (idem_site 5 9 []) =
       (Inl (Sentinel ''boom''), 1, w') \<and>
     fst (snd (Execute demo_env demo_coordinator demo_opts (Some demo_handler) 1
       (idem_site 6000000000 10 (rows w')))) = 2"
proof -
  obtain res e w' where run: "Execute demo_env demo_coordinator demo_opts (Some failing_handler) 0 (idem_site 5 9 []) = (res, e, w')"
    by (cases "Execute demo_env demo_coordinator demo_opts (Some failing_handler) 0 (idem_site 5 9 [])")
  have "(case Execute demo_env demo_coordinator demo_opts (Some failing_handler) 0 (idem_site 5 9 []) of
     (res, e, w) \<Rightarrow> e = 1 \<and> wf_idem (wd_db (idem_site 6000000000 10 (rows w))))" by code_simp
  then have e: "e = 1" "wf_idem (wd_db (idem_site 6000000000 10 (rows w')))" unfolding run by simp_all
  have none: "row_for (io_Scope demo_opts) ''k-1'' (idem_site 5 9 []) = None" by (simp add: row_for_def idem_site_def)
  have wf: "wf_idem (wd_db (idem_site 5 9 []))" by simp
  have err: "failing_handler 0 = (Inl (Sentinel ''boom''), e)" by (simp add: failing_handler_def e(1))
  have cfg: "ic_FailedRetryBackoff (co_cfg demo_coordinator) = 5000000000"
    by (simp add: demo_coordinator_def DefaultIdempotencyConfig_def duration_defs)
  from Execute_failure_retry [OF demo_keyed wf idem_site_facts(1) none run err _ e(2) idem_site_facts(1), of demo_handler 1]
  show ?thesis using run e(1) by (auto simp: demo_ttl cfg demo_handler_def)
qed

theorem claim_is_exclusive_witness:
  "\<exists>outcomes w'. run_ops idem_run [OpReclaim 9 IdempotencyStatusProcessing 20 60 90, OpCreate ''orders'' ''k-1'' ''f'' 60 90]
       (idem_site 7 10 [demo_row\<lparr>ir_Status := IdempotencyStatusProcessing, ir_LockedUntil := Some 30\<rparr>]) = (outcomes, w') \<and>
     outcomes = [False, False]"
proof -
  let ?r = "demo_row\<lparr>ir_Status := IdempotencyStatusProcessing, ir_LockedUntil := Some 30\<rparr>"
  let ?acts = "[OpReclaim 9 IdempotencyStatusProcessing 20 60 90, OpCreate ''orders'' ''k-1'' ''f'' 60 90]"
  have wf: "wf_idem (wd_db (idem_site 7 10 [?r]))" by (simp add: demo_row_def)
  have held: "held ''orders'' ''k-1'' demo_fp 9 30 86400000000005 (idem_site 7 10 [?r])"
    by (simp add: held_def row_for_def idem_site_def demo_row_def same_key_def)
  obtain bs w' where run: "run_ops idem_run ?acts (idem_site 7 10 [?r]) = (bs, w')" by fastforce
  have "length bs = 2" "\<not> bs ! 0" "\<not> bs ! 1"
    using claim_is_exclusive [OF wf held _ run] by (auto simp: All_less_Suc2 numeral_2_eq_2)
  then show ?thesis using run by (cases bs; cases "tl bs") auto
qed

definition long_codec :: json_codec where
  "long_codec = \<lparr>js_marshal = (\<lambda>v. Inr (if v = demo_secret then ''ss'' else ''rr'')),
     js_unmarshal = (\<lambda>t. if t = ''ss'' then Inr demo_secret else if t = ''rr'' then Inr demo_redacted
       else Inl (Sentinel ''json: invalid character''))\<rparr>"

definition long_env :: "json idem_env" where
  "long_env = demo_env\<lparr>en_codec := long_codec, en_marshal := js_marshal long_codec\<rparr>"

definition short_coordinator :: IdempotencyCoordinator where
  "short_coordinator = \<lparr>co_repo = True, co_cfg = DefaultIdempotencyConfig\<lparr>ic_MaxStoredResponseLen := 1\<rparr>\<rparr>"

theorem long_response_not_replayed_witness:
  "\<exists>w err w3. rows w \<noteq> [] \<and> Execute long_env short_coordinator demo_opts (Some demo_handler) 1
       (idem_site 7 10 (rows w)) = (Inl err, 1, w3) \<and> Code (Some err) = 503"
proof -
  let ?fp = "''POST'' @ newline @ ''/orders'' @ newline @ ''user:7'' @ newline @ ''rr''"
  let ?run = "Execute long_env short_coordinator demo_opts (Some demo_handler) 0 (idem_site 5 9 [])"
  have "NormalizeIdempotencyKey (io_IdempotencyKey demo_opts) = Inr ''k-1''" by code_simp
  moreover have "BuildIdempotencyFingerprint long_env ''post'' ''/orders'' ''user:7'' demo_redacted = Inr ?fp" by code_simp
  ultimately have key: "keyed long_env short_coordinator demo_opts ''k-1'' ?fp"
    by (auto simp: keyed_def HashIdempotencyKey_def long_env_def demo_env_def short_coordinator_def demo_opts_def)
  have "case ?run of (res, e, w) \<Rightarrow> res = Inr \<lparr>er_Data = Inl demo_secret, er_Replayed = False\<rparr> \<and> rows w \<noteq> [] \<and>
      wf_idem (wd_db (idem_site 7 10 (rows w)))" by code_simp
  then obtain e w where first: "?run = (Inr \<lparr>er_Data = Inl demo_secret, er_Replayed = False\<rparr>, e, w)" "rows w \<noteq> []"
    "wf_idem (wd_db (idem_site 7 10 (rows w)))" by (auto split: prod.splits)
  have wf: "wf_idem (wd_db (idem_site 5 9 []))" by simp
  have raw: "en_marshal long_env demo_secret = Inr ''ss''" by (simp add: long_env_def long_codec_def)
  have red: "RedactText (en_tables long_env) (en_codec long_env) (en_rx long_env) ''ss'' [] = ''rr''" by code_simp
  have max: "ic_MaxStoredResponseLen (co_cfg short_coordinator) = 1" by (simp add: short_coordinator_def)
  have ttl: "ttl_of (co_cfg short_coordinator) demo_opts = 86400000000000"
    by (simp add: ttl_of_def short_coordinator_def DefaultIdempotencyConfig_def demo_opts_def duration_defs)
  have json: "\<exists>err. js_unmarshal (en_codec long_env) (t @ ''...(truncated)'') = Inl err" for t
    by (cases t; cases "tl t") (simp_all add: long_env_def long_codec_def)
  from long_response_not_replayed [OF key wf first(1) raw _ _ json _ first(3) idem_site_facts(1), of demo_handler 1]
  show ?thesis using first(2) by (auto simp: red max ttl)
qed

end
