(* ===== verification/Usage_Billing.thy ===== *)
theory Usage_Billing
  imports Subscription_Repo Go_Text
begin

text \<open>
  \<open>internal/service/usage_billing.go\<close>, \<open>internal/repository/usage_billing_repo.go\<close>, the queue of
  scheduler events it writes (\<open>scheduler_outbox_repo.go\<close>), the quota expressions it shares with
  \<open>account_repo.go\<close> and the sweep of its deduplication table
  (\<open>dashboard_aggregation_repo.go\<close>): every billable request is charged in one database transaction
  that first claims the pair of request identifier and API key.

  The state is the tables this code reads and writes, each a list of rows under their primary keys;
  time stamps of updates are left out. Amounts in the database are exact decimals: a \<open>decimal(p,s)\<close>
  column rounds what is assigned to it to \<open>s\<close> places, half away from zero, and refuses values that
  do not fit. How the driver writes a float parameter and the server reads it as a \<open>numeric\<close>
  (\<open>be_numeric\<close>), the decimal library that quantizes amounts (\<open>be_decimal\<close>), SHA-256 in
  hexadecimal (\<open>be_sha\<close>) and the time-zone database (\<open>be_local\<close>, \<open>be_instant\<close>) are arguments.
  \<open>NOW()\<close> is the time the transaction began. Any statement may fail, and a commit that reports a
  failure may nevertheless have become durable (\<open>be_lost\<close>).
\<close>

section \<open>Commands\<close>

definition ErrUsageBillingRequestIDRequired :: go_error where
  "ErrUsageBillingRequestIDRequired = Sentinel ''usage billing request_id is required''"

definition ErrUsageBillingRequestConflict :: go_error where
  "ErrUsageBillingRequestConflict = Sentinel ''usage billing request fingerprint conflict''"

definition ErrUserNotFound :: go_error where
  "ErrUserNotFound = NotFound ''USER_NOT_FOUND'' ''user not found''"

definition ErrAPIKeyNotFound :: go_error where
  "ErrAPIKeyNotFound = NotFound ''API_KEY_NOT_FOUND'' ''api key not found''"

definition ErrAccountNotFound :: go_error where
  "ErrAccountNotFound = NotFound ''ACCOUNT_NOT_FOUND'' ''account not found''"

definition ErrBatchImageInsufficientBalance :: go_error where
  "ErrBatchImageInsufficientBalance =
     New 402 ''BATCH_IMAGE_INSUFFICIENT_BALANCE'' ''insufficient balance for batch image hold''"

definition ErrBatchImageSettlementCostExceedsHold :: go_error where
  "ErrBatchImageSettlementCostExceedsHold =
     New 409 ''BATCH_IMAGE_SETTLEMENT_COST_EXCEEDS_HOLD'' ''batch image settlement cost exceeds held balance''"

record bill_env =
  be_sha :: "string \<Rightarrow> string"
  be_decimal :: "float64 \<Rightarrow> float64"
  be_numeric :: "float64 \<Rightarrow> rat result"
  be_unicode :: unicode_tables
  be_local :: "string \<Rightarrow> go_time \<Rightarrow> int"
  be_instant :: "string \<Rightarrow> int \<Rightarrow> go_time"
  be_session_zone :: string
  be_lost :: "nat \<Rightarrow> bool"
  be_connected :: bool

record UsageBillingCommand =
  uc_RequestID :: string
  uc_APIKeyID :: int64
  uc_RequestFingerprint :: string
  uc_RequestPayloadHash :: string
  uc_UserID :: int64
  uc_AccountID :: int64
  uc_SubscriptionID :: "int64 option"
  uc_AccountType :: string
  uc_Model :: string
  uc_ServiceTier :: string
  uc_ReasoningEffort :: string
  uc_BillingType :: int
  uc_InputTokens :: int
  uc_OutputTokens :: int
  uc_CacheCreationTokens :: int
  uc_CacheReadTokens :: int
  uc_ImageCount :: int
  uc_MediaType :: string
  uc_BalanceCost :: float64
  uc_SubscriptionCost :: float64
  uc_APIKeyQuotaCost :: float64
  uc_APIKeyRateLimitCost :: float64
  uc_AccountQuotaCost :: float64

definition QuantizeUsageBillingAmount :: "bill_env \<Rightarrow> float64 \<Rightarrow> float64" where
  "QuantizeUsageBillingAmount E v =
     (if v = f_zero \<or> f_is_nan v \<or> f_is_inf v then v else be_decimal E v)"

definition quantizeMonetaryFields :: "bill_env \<Rightarrow> UsageBillingCommand \<Rightarrow> UsageBillingCommand" where
  "quantizeMonetaryFields E c = c\<lparr>
     uc_BalanceCost := QuantizeUsageBillingAmount E (uc_BalanceCost c),
     uc_SubscriptionCost := QuantizeUsageBillingAmount E (uc_SubscriptionCost c),
     uc_APIKeyQuotaCost := QuantizeUsageBillingAmount E (uc_APIKeyQuotaCost c),
     uc_APIKeyRateLimitCost := QuantizeUsageBillingAmount E (uc_APIKeyRateLimitCost c),
     uc_AccountQuotaCost := QuantizeUsageBillingAmount E (uc_AccountQuotaCost c)\<rparr>"

definition valueOrZero :: "int64 option \<Rightarrow> int64" where
  "valueOrZero v = (case v of None \<Rightarrow> 0 | Some i \<Rightarrow> i)"

text \<open>
  The verb \<open>%0.10f\<close>: the exact value rounded to ten decimals. A negative zero, which the model does
  not tell from zero, would print with its sign.
\<close>

definition fixed10 :: "rat \<Rightarrow> string" where
  "fixed10 x = (let n = nat (round_half_even (x * 10 ^ 10));
                    frac = nat_digits (n mod 10 ^ 10)
                in nat_digits (n div 10 ^ 10) @ ''.'' @ replicate (10 - length frac) (CHR ''0'') @ frac)"

fun fmt_f10 :: "float64 \<Rightarrow> string" where
  "fmt_f10 (Fin x) = (if x < 0 then ''-'' @ fixed10 (- x) else fixed10 x)"
| "fmt_f10 PosInf = ''+Inf''"
| "fmt_f10 NegInf = ''-Inf''"
| "fmt_f10 NaN = ''NaN''"

fun join_bar :: "string list \<Rightarrow> string" where
  "join_bar [] = ''''"
| "join_bar [s] = s"
| "join_bar (s # t # ss) = s @ ''|'' @ join_bar (t # ss)"

definition with_payload_hash :: "string \<Rightarrow> string \<Rightarrow> string" where
  "with_payload_hash hash raw = (if TrimSpace hash \<noteq> '''' then raw @ ''|'' @ TrimSpace hash else raw)"

definition buildUsageBillingFingerprint :: "bill_env \<Rightarrow> UsageBillingCommand \<Rightarrow> string" where
  "buildUsageBillingFingerprint E c = be_sha E (with_payload_hash (uc_RequestPayloadHash c) (join_bar [
     Itoa (uc_UserID c), Itoa (uc_AccountID c), Itoa (uc_APIKeyID c), TrimSpace (uc_AccountType c),
     TrimSpace (uc_Model c), TrimSpace (uc_ServiceTier c), TrimSpace (uc_ReasoningEffort c),
     Itoa (uc_BillingType c), Itoa (uc_InputTokens c), Itoa (uc_OutputTokens c),
     Itoa (uc_CacheCreationTokens c), Itoa (uc_CacheReadTokens c), Itoa (uc_ImageCount c),
     TrimSpace (uc_MediaType c), Itoa (valueOrZero (uc_SubscriptionID c)),
     fmt_f10 (uc_BalanceCost c), fmt_f10 (uc_SubscriptionCost c), fmt_f10 (uc_APIKeyQuotaCost c),
     fmt_f10 (uc_APIKeyRateLimitCost c), fmt_f10 (uc_AccountQuotaCost c)]))"

definition HashUsageRequestPayload :: "bill_env \<Rightarrow> string \<Rightarrow> string" where
  "HashUsageRequestPayload E payload = (if payload = '''' then '''' else be_sha E payload)"

definition usage_Normalize :: "bill_env \<Rightarrow> UsageBillingCommand \<Rightarrow> UsageBillingCommand" where
  "usage_Normalize E c =
     (let c = c\<lparr>uc_RequestID := TrimSpace (uc_RequestID c)\<rparr>;
          c = (if TrimSpace (uc_RequestFingerprint c) = ''''
               then c\<lparr>uc_RequestFingerprint := buildUsageBillingFingerprint E c\<rparr> else c)
      in quantizeMonetaryFields E c)"

record AccountQuotaState =
  qs_TotalUsed :: float64
  qs_TotalLimit :: float64
  qs_DailyUsed :: float64
  qs_DailyLimit :: float64
  qs_WeeklyUsed :: float64
  qs_WeeklyLimit :: float64

record UsageBillingApplyResult =
  ua_Applied :: bool
  ua_APIKeyQuotaExhausted :: bool
  ua_NewBalance :: "float64 option"
  ua_BalanceOverdrafted :: bool
  ua_QuotaState :: "AccountQuotaState option"

definition no_apply_result :: UsageBillingApplyResult where
  "no_apply_result = \<lparr>ua_Applied = False, ua_APIKeyQuotaExhausted = False, ua_NewBalance = None,
     ua_BalanceOverdrafted = False, ua_QuotaState = None\<rparr>"

record BatchImageBalanceHoldCommand =
  hc_RequestID :: string
  hc_APIKeyID :: int64
  hc_RequestFingerprint :: string
  hc_RequestPayloadHash :: string
  hc_UserID :: int64
  hc_BatchID :: string
  hc_HoldAmount :: float64
  hc_ActualAmount :: float64

definition buildBatchImageBalanceHoldFingerprint ::
  "bill_env \<Rightarrow> BatchImageBalanceHoldCommand \<Rightarrow> string" where
  "buildBatchImageBalanceHoldFingerprint E c =
     be_sha E (with_payload_hash (hc_RequestPayloadHash c) (join_bar [
       Itoa (hc_UserID c), Itoa (hc_APIKeyID c), TrimSpace (hc_BatchID c),
       fmt_f10 (hc_HoldAmount c), fmt_f10 (hc_ActualAmount c)]))"

definition hold_Normalize ::
  "bill_env \<Rightarrow> BatchImageBalanceHoldCommand \<Rightarrow> BatchImageBalanceHoldCommand" where
  "hold_Normalize E c =
     (let c = c\<lparr>hc_RequestID := TrimSpace (hc_RequestID c), hc_BatchID := TrimSpace (hc_BatchID c)\<rparr>
      in if TrimSpace (hc_RequestFingerprint c) = ''''
         then c\<lparr>hc_RequestFingerprint := buildBatchImageBalanceHoldFingerprint E c\<rparr> else c)"

record BatchImageBalanceHoldResult =
  hr_Applied :: bool
  hr_NewBalance :: "float64 option"
  hr_FrozenBalance :: "float64 option"

definition no_hold_result :: BatchImageBalanceHoldResult where
  "no_hold_result = \<lparr>hr_Applied = False, hr_NewBalance = None, hr_FrozenBalance = None\<rparr>"


section \<open>Tables\<close>

record user_row =
  ur_balance :: rat
  ur_frozen :: rat
  ur_deleted :: bool

record key_row =
  kr_quota :: rat
  kr_quota_used :: rat
  kr_status :: string
  kr_usage_5h :: rat
  kr_usage_1d :: rat
  kr_usage_7d :: rat
  kr_window_5h :: "go_time option"
  kr_window_1d :: "go_time option"
  kr_window_7d :: "go_time option"
  kr_deleted :: bool

record usage_row =
  sr_daily :: rat
  sr_weekly :: rat
  sr_monthly :: rat
  sr_deleted :: bool

text \<open>
  The members of an account's \<open>extra\<close> document that the quota statements read or write. Time stamps
  are written with microseconds, which is the precision of \<open>NOW()\<close>, or with seconds; they are kept
  as times. A member that does not parse makes the statement fail.
\<close>

record period_quota =
  pq_limit :: "rat option"
  pq_used :: "rat option"
  pq_start :: "go_time option"
  pq_reset_mode :: "string option"
  pq_reset_at :: "go_time option"
  pq_reset_hour :: "int option"

record account_row =
  ar_quota_used :: "rat option"
  ar_quota_limit :: "rat option"
  ar_daily :: period_quota
  ar_weekly :: period_quota
  ar_weekly_reset_day :: "int option"
  ar_reset_timezone :: "string option"
  ar_deleted :: bool

record outbox_row =
  or_event :: string
  or_account :: "int64 option"
  or_platform :: "int64 option"
  or_payload :: "string option"
  or_dedup_key :: "string option"

type_synonym claim_key = "string \<times> int64"
type_synonym claim_row = "claim_key \<times> (string \<times> go_time)"

record billing_db =
  bd_dedup :: "claim_row list"
  bd_archive :: "claim_row list"
  bd_users :: "(int64 \<times> user_row) list"
  bd_keys :: "(int64 \<times> key_row) list"
  bd_subs :: "(int64 \<times> usage_row) list"
  bd_accounts :: "(int64 \<times> account_row) list"
  bd_outbox :: "outbox_row list"

type_synonym bill_world = "billing_db world"

text \<open>Assignment to a \<open>decimal(p,s)\<close> column.\<close>

definition ErrNumericOverflow :: go_error where
  "ErrNumericOverflow = Sentinel ''pq: numeric field overflow''"

definition round_half_away :: "rat \<Rightarrow> int" where
  "round_half_away x = (if 0 \<le> x then \<lfloor>x + 1 / 2\<rfloor> else - \<lfloor>1 / 2 - x\<rfloor>)"

definition to_decimal :: "nat \<Rightarrow> nat \<Rightarrow> rat \<Rightarrow> rat result" where
  "to_decimal p s x = (let y = of_int (round_half_away (x * 10 ^ s)) / 10 ^ s in
     if 10 ^ (p - s) \<le> \<bar>y\<bar> then Inl ErrNumericOverflow else Inr y)"

text \<open>
  \<open>UPDATE t SET ... WHERE id = k AND P RETURNING ...\<close> on a table with primary key \<open>id\<close>: the updated
  row, or none when no row satisfies the condition.
\<close>

definition update_row ::
  "int64 \<Rightarrow> ('r \<Rightarrow> bool) \<Rightarrow> ('r \<Rightarrow> 'r result) \<Rightarrow> (int64 \<times> 'r) list \<Rightarrow> 'r option result \<times> (int64 \<times> 'r) list" where
  "update_row k P f t = (case map_of t k of
       None \<Rightarrow> (Inr None, t)
     | Some r \<Rightarrow> (if \<not> P r then (Inr None, t)
         else case f r of Inl e \<Rightarrow> (Inl e, t) | Inr r' \<Rightarrow> (Inr (Some r'), AList.update k r' t)))"

definition update_users ::
  "int64 \<Rightarrow> (user_row \<Rightarrow> bool) \<Rightarrow> (user_row \<Rightarrow> user_row result) \<Rightarrow> billing_db \<Rightarrow> user_row option result \<times> billing_db" where
  "update_users k P f d = (let (r, t) = update_row k P f (bd_users d) in (r, d\<lparr>bd_users := t\<rparr>))"

definition update_keys ::
  "int64 \<Rightarrow> (key_row \<Rightarrow> bool) \<Rightarrow> (key_row \<Rightarrow> key_row result) \<Rightarrow> billing_db \<Rightarrow> key_row option result \<times> billing_db" where
  "update_keys k P f d = (let (r, t) = update_row k P f (bd_keys d) in (r, d\<lparr>bd_keys := t\<rparr>))"

definition update_subs ::
  "int64 \<Rightarrow> (usage_row \<Rightarrow> bool) \<Rightarrow> (usage_row \<Rightarrow> usage_row result) \<Rightarrow> billing_db \<Rightarrow> usage_row option result \<times> billing_db" where
  "update_subs k P f d = (let (r, t) = update_row k P f (bd_subs d) in (r, d\<lparr>bd_subs := t\<rparr>))"

definition update_accounts ::
  "int64 \<Rightarrow> (account_row \<Rightarrow> bool) \<Rightarrow> (account_row \<Rightarrow> account_row result) \<Rightarrow> billing_db \<Rightarrow> account_row option result \<times> billing_db" where
  "update_accounts k P f d = (let (r, t) = update_row k P f (bd_accounts d) in (r, d\<lparr>bd_accounts := t\<rparr>))"

text \<open>A statement with a float parameter.\<close>

definition with_numeric ::
  "bill_env \<Rightarrow> float64 \<Rightarrow> (rat \<Rightarrow> 'd \<Rightarrow> 'a result \<times> 'd) \<Rightarrow> 'd \<Rightarrow> 'a result \<times> 'd" where
  "with_numeric E x f d = (case be_numeric E x of Inl e \<Rightarrow> (Inl e, d) | Inr a \<Rightarrow> f a d)"

section \<open>Claiming a request\<close>

definition claimUsageBillingRequest ::
  "go_time \<Rightarrow> string \<Rightarrow> int64 \<Rightarrow> string \<Rightarrow> bill_world \<Rightarrow> bool result \<times> bill_world" where
  "claimUsageBillingRequest now requestID apiKeyID fingerprint w =
     (case sql_exec (\<lambda>d. if map_of (bd_dedup d) (requestID, apiKeyID) = None
            then (Inr True, d\<lparr>bd_dedup := ((requestID, apiKeyID), (fingerprint, now)) # bd_dedup d\<rparr>)
            else (Inr False, d)) w of
        (Inl e, w) \<Rightarrow> (Inl e, w)
      | (Inr False, w) \<Rightarrow>
          (case sql_exec (\<lambda>d. (case map_of (bd_dedup d) (requestID, apiKeyID) of
                  None \<Rightarrow> Inl sqlErrNoRows | Some (f, t) \<Rightarrow> Inr f, d)) w of
             (Inl e, w) \<Rightarrow> (Inl e, w)
           | (Inr existing, w) \<Rightarrow>
               if TrimSpace existing \<noteq> TrimSpace fingerprint
               then (Inl ErrUsageBillingRequestConflict, w) else (Inr False, w))
      | (Inr True, w) \<Rightarrow>
          (case sql_exec (\<lambda>d. (Inr (map_option fst (map_of (bd_archive d) (requestID, apiKeyID))), d)) w of
             (Inl e, w) \<Rightarrow> (Inl e, w)
           | (Inr (Some archived), w) \<Rightarrow>
               if TrimSpace archived \<noteq> TrimSpace fingerprint
               then (Inl ErrUsageBillingRequestConflict, w) else (Inr False, w)
           | (Inr None, w) \<Rightarrow> (Inr True, w)))"

definition claimUsageBillingKey ::
  "go_time \<Rightarrow> UsageBillingCommand \<Rightarrow> bill_world \<Rightarrow> bool result \<times> bill_world" where
  "claimUsageBillingKey now cmd =
     claimUsageBillingRequest now (uc_RequestID cmd) (uc_APIKeyID cmd) (uc_RequestFingerprint cmd)"

section \<open>The effects of a charge\<close>

definition add_usage :: "rat \<Rightarrow> usage_row \<Rightarrow> usage_row result" where
  "add_usage a r = (case (to_decimal 20 10 (sr_daily r + a), to_decimal 20 10 (sr_weekly r + a),
       to_decimal 20 10 (sr_monthly r + a)) of
     (Inr d, Inr k, Inr m) \<Rightarrow> Inr (r\<lparr>sr_daily := d, sr_weekly := k, sr_monthly := m\<rparr>)
   | _ \<Rightarrow> Inl ErrNumericOverflow)"

definition incrementUsageBillingSubscription ::
  "bill_env \<Rightarrow> int64 \<Rightarrow> float64 \<Rightarrow> bill_world \<Rightarrow> go_error option \<times> bill_world" where
  "incrementUsageBillingSubscription E subscriptionID costUSD w =
     (case sql_exec (with_numeric E costUSD (\<lambda>a. update_subs subscriptionID (\<lambda>r. \<not> sr_deleted r) (add_usage a))) w of
        (Inl e, w) \<Rightarrow> (Some e, w)
      | (Inr (Some _), w) \<Rightarrow> (None, w)
      | (Inr None, w) \<Rightarrow> (Some ErrSubscriptionNotFound, w))"

definition deduct_balance :: "rat \<Rightarrow> user_row \<Rightarrow> user_row result" where
  "deduct_balance a r = (case to_decimal 20 8 (ur_balance r - a) of
     Inl e \<Rightarrow> Inl e | Inr b \<Rightarrow> Inr (r\<lparr>ur_balance := b\<rparr>))"

definition deductUsageBillingBalance ::
  "bill_env \<Rightarrow> int64 \<Rightarrow> float64 \<Rightarrow> bill_world \<Rightarrow> (float64 \<times> bool) result \<times> bill_world" where
  "deductUsageBillingBalance E userID amount w =
     (case sql_exec (with_numeric E amount (\<lambda>a. update_users userID
            (\<lambda>r. \<not> ur_deleted r \<and> a \<le> ur_balance r) (deduct_balance a))) w of
        (Inl e, w) \<Rightarrow> (Inl e, w)
      | (Inr (Some r), w) \<Rightarrow> (Inr (round64 (ur_balance r), True), w)
      | (Inr None, w) \<Rightarrow>
          (case sql_exec (with_numeric E amount (\<lambda>a. update_users userID
                 (\<lambda>r. \<not> ur_deleted r) (deduct_balance a))) w of
             (Inl e, w) \<Rightarrow> (Inl e, w)
           | (Inr (Some r), w) \<Rightarrow> (Inr (round64 (ur_balance r), False), w)
           | (Inr None, w) \<Rightarrow> (Inl ErrUserNotFound, w)))"

definition StatusAPIKeyActive :: string where
  "StatusAPIKeyActive = ''active''"

definition StatusAPIKeyQuotaExhausted :: string where
  "StatusAPIKeyQuotaExhausted = ''quota_exhausted''"

definition add_quota :: "rat \<Rightarrow> key_row \<Rightarrow> key_row result" where
  "add_quota a r = (case to_decimal 20 8 (kr_quota_used r + a) of
     Inl e \<Rightarrow> Inl e
   | Inr u \<Rightarrow> Inr (r\<lparr>kr_quota_used := u,
       kr_status := (if 0 < kr_quota r \<and> kr_status r = StatusAPIKeyActive \<and>
           kr_quota_used r < kr_quota r \<and> kr_quota r \<le> kr_quota_used r + a
         then StatusAPIKeyQuotaExhausted else kr_status r)\<rparr>))"

definition quota_crossed :: "rat \<Rightarrow> key_row \<Rightarrow> bool" where
  "quota_crossed a r \<longleftrightarrow> 0 < kr_quota r \<and> kr_quota r \<le> kr_quota_used r \<and> kr_quota_used r - a < kr_quota r"

definition incrementUsageBillingAPIKeyQuota ::
  "bill_env \<Rightarrow> int64 \<Rightarrow> float64 \<Rightarrow> bill_world \<Rightarrow> bool result \<times> bill_world" where
  "incrementUsageBillingAPIKeyQuota E apiKeyID amount w =
     (case sql_exec (with_numeric E amount (\<lambda>a d.
            case update_keys apiKeyID (\<lambda>r. \<not> kr_deleted r) (add_quota a) d of
              (Inl e, d) \<Rightarrow> (Inl e, d)
            | (Inr row, d) \<Rightarrow> (Inr (map_option (quota_crossed a) row), d))) w of
        (Inl e, w) \<Rightarrow> (Inl e, w)
      | (Inr None, w) \<Rightarrow> (Inl ErrAPIKeyNotFound, w)
      | (Inr (Some exhausted), w) \<Rightarrow> (Inr exhausted, w))"

definition start_of_day :: "bill_env \<Rightarrow> string \<Rightarrow> go_time \<Rightarrow> int" where
  "start_of_day E zone t = be_local E zone t - be_local E zone t mod (24 * hour)"

text \<open>An interval of hours is exact; one of days is counted on the calendar of the session's zone.\<close>

definition plus_7_days :: "bill_env \<Rightarrow> go_time \<Rightarrow> go_time" where
  "plus_7_days E t = be_instant E (be_session_zone E) (be_local E (be_session_zone E) t + 7 * 24 * hour)"

definition rate_window_usage ::
  "go_time \<Rightarrow> (go_time \<Rightarrow> go_time) \<Rightarrow> go_time option \<Rightarrow> rat \<Rightarrow> rat \<Rightarrow> rat" where
  "rate_window_usage now stop start used a = (case start of
     Some s \<Rightarrow> if stop s \<le> now then a else used + a | None \<Rightarrow> used + a)"

definition rate_window_restart ::
  "go_time \<Rightarrow> (go_time \<Rightarrow> go_time) \<Rightarrow> go_time \<Rightarrow> go_time option \<Rightarrow> go_time option" where
  "rate_window_restart now stop fresh start = (case start of
     None \<Rightarrow> Some fresh | Some s \<Rightarrow> if stop s \<le> now then Some fresh else Some s)"

definition add_rate_limit :: "bill_env \<Rightarrow> go_time \<Rightarrow> rat \<Rightarrow> key_row \<Rightarrow> key_row result" where
  "add_rate_limit E now a r =
     (let today = be_instant E (be_session_zone E) (start_of_day E (be_session_zone E) now);
          end5 = (\<lambda>s. s + 5 * hour); end1 = (\<lambda>s. s + 24 * hour); end7 = plus_7_days E in
      case (to_decimal 20 8 (rate_window_usage now end5 (kr_window_5h r) (kr_usage_5h r) a),
            to_decimal 20 8 (rate_window_usage now end1 (kr_window_1d r) (kr_usage_1d r) a),
            to_decimal 20 8 (rate_window_usage now end7 (kr_window_7d r) (kr_usage_7d r) a)) of
        (Inr u5, Inr u1, Inr u7) \<Rightarrow> Inr (r\<lparr>kr_usage_5h := u5, kr_usage_1d := u1, kr_usage_7d := u7,
          kr_window_5h := rate_window_restart now end5 now (kr_window_5h r),
          kr_window_1d := rate_window_restart now end1 today (kr_window_1d r),
          kr_window_7d := rate_window_restart now end7 today (kr_window_7d r)\<rparr>)
      | _ \<Rightarrow> Inl ErrNumericOverflow)"

definition incrementUsageBillingAPIKeyRateLimit ::
  "bill_env \<Rightarrow> go_time \<Rightarrow> int64 \<Rightarrow> float64 \<Rightarrow> bill_world \<Rightarrow> go_error option \<times> bill_world" where
  "incrementUsageBillingAPIKeyRateLimit E now apiKeyID cost w =
     (case sql_exec (with_numeric E cost (\<lambda>a. update_keys apiKeyID (\<lambda>r. \<not> kr_deleted r)
            (add_rate_limit E now a))) w of
        (Inl e, w) \<Rightarrow> (Some e, w)
      | (Inr None, w) \<Rightarrow> (Some ErrAPIKeyNotFound, w)
      | (Inr (Some _), w) \<Rightarrow> (None, w))"


section \<open>Account quotas\<close>

definition jsonb_numeric :: "rat option \<Rightarrow> rat" where
  "jsonb_numeric v = (case v of None \<Rightarrow> 0 | Some x \<Rightarrow> x)"

definition fixed_mode :: "period_quota \<Rightarrow> bool" where
  "fixed_mode q \<longleftrightarrow> (case pq_reset_mode q of None \<Rightarrow> ''rolling'' | Some m \<Rightarrow> m) = ''fixed''"

definition periodExpiredExpr :: "duration \<Rightarrow> go_time \<Rightarrow> period_quota \<Rightarrow> bool" where
  "periodExpiredExpr len now q =
     (if fixed_mode q
      then (case pq_reset_at q of None \<Rightarrow> unix_epoch | Some t \<Rightarrow> t) \<le> now
      else (case pq_start q of None \<Rightarrow> unix_epoch | Some t \<Rightarrow> t) + len \<le> now)"

definition dailyExpiredExpr :: "go_time \<Rightarrow> account_row \<Rightarrow> bool" where
  "dailyExpiredExpr now r = periodExpiredExpr (24 * hour) now (ar_daily r)"

definition weeklyExpiredExpr :: "go_time \<Rightarrow> account_row \<Rightarrow> bool" where
  "weeklyExpiredExpr now r = periodExpiredExpr (168 * hour) now (ar_weekly r)"

definition reset_zone :: "account_row \<Rightarrow> string" where
  "reset_zone r = (case ar_reset_timezone r of None \<Rightarrow> ''UTC'' | Some z \<Rightarrow> z)"

text \<open>The reset point of the current day, on the wall clock of the account's zone.\<close>

definition reset_point :: "bill_env \<Rightarrow> go_time \<Rightarrow> account_row \<Rightarrow> period_quota \<Rightarrow> int" where
  "reset_point E now r q = start_of_day E (reset_zone r) now +
     (case pq_reset_hour q of None \<Rightarrow> 0 | Some h \<Rightarrow> h) * hour"

definition trunc_second :: "go_time \<Rightarrow> go_time" where
  "trunc_second t = t - t mod second"

definition nextDailyResetAtExpr :: "bill_env \<Rightarrow> go_time \<Rightarrow> account_row \<Rightarrow> go_time option" where
  "nextDailyResetAtExpr E now r =
     (if fixed_mode (ar_daily r)
      then Some (trunc_second (let p = reset_point E now r (ar_daily r) in
        if be_instant E (reset_zone r) p \<le> now
        then be_instant E (reset_zone r) (p + 24 * hour) else be_instant E (reset_zone r) p))
      else None)"

text \<open>
  \<open>EXTRACT(DOW ...)\<close> counts from Sunday; the first day of the calendar was a Monday. The operator
  \<open>%\<close> of SQL truncates towards zero.
\<close>

definition day_of_week :: "int \<Rightarrow> int" where
  "day_of_week l = (l div (24 * hour) + 1) mod 7"

definition days_forward :: "bill_env \<Rightarrow> go_time \<Rightarrow> account_row \<Rightarrow> int" where
  "days_forward E now r = go_rem ((case ar_weekly_reset_day r of None \<Rightarrow> 1 | Some d \<Rightarrow> d) -
     day_of_week (be_local E (reset_zone r) now) + 7) 7"

definition nextWeeklyResetAtExpr :: "bill_env \<Rightarrow> go_time \<Rightarrow> account_row \<Rightarrow> go_time option" where
  "nextWeeklyResetAtExpr E now r =
     (if fixed_mode (ar_weekly r)
      then Some (trunc_second (let p = reset_point E now r (ar_weekly r) in
        if days_forward E now r = 0 \<and> be_instant E (reset_zone r) p \<le> now
        then be_instant E (reset_zone r) (p + 7 * 24 * hour)
        else be_instant E (reset_zone r) (p + days_forward E now r * (24 * hour))))
      else None)"

definition add_period :: "go_time \<Rightarrow> bool \<Rightarrow> go_time option \<Rightarrow> rat \<Rightarrow> period_quota \<Rightarrow> period_quota" where
  "add_period now expired next_reset a q =
     (if 0 < jsonb_numeric (pq_limit q)
      then q\<lparr>pq_used := Some (if expired then a else jsonb_numeric (pq_used q) + a),
             pq_start := (if expired then Some now else case pq_start q of None \<Rightarrow> Some now | s \<Rightarrow> s),
             pq_reset_at := (if expired \<and> next_reset \<noteq> None then next_reset else pq_reset_at q)\<rparr>
      else q)"

definition add_account_quota :: "bill_env \<Rightarrow> go_time \<Rightarrow> rat \<Rightarrow> account_row \<Rightarrow> account_row" where
  "add_account_quota E now a r = r\<lparr>
     ar_quota_used := Some (jsonb_numeric (ar_quota_used r) + a),
     ar_daily := add_period now (dailyExpiredExpr now r) (nextDailyResetAtExpr E now r) a (ar_daily r),
     ar_weekly := add_period now (weeklyExpiredExpr now r) (nextWeeklyResetAtExpr E now r) a (ar_weekly r)\<rparr>"

definition quota_state :: "account_row \<Rightarrow> AccountQuotaState" where
  "quota_state r = \<lparr>
     qs_TotalUsed = round64 (jsonb_numeric (ar_quota_used r)),
     qs_TotalLimit = round64 (jsonb_numeric (ar_quota_limit r)),
     qs_DailyUsed = round64 (jsonb_numeric (pq_used (ar_daily r))),
     qs_DailyLimit = round64 (jsonb_numeric (pq_limit (ar_daily r))),
     qs_WeeklyUsed = round64 (jsonb_numeric (pq_used (ar_weekly r))),
     qs_WeeklyLimit = round64 (jsonb_numeric (pq_limit (ar_weekly r)))\<rparr>"

definition SchedulerOutboxEventAccountChanged :: string where
  "SchedulerOutboxEventAccountChanged = ''account_changed''"

definition SchedulerOutboxEventPlatformChanged :: string where
  "SchedulerOutboxEventPlatformChanged = ''platform_changed''"

definition SchedulerOutboxEventFullRebuild :: string where
  "SchedulerOutboxEventFullRebuild = ''full_rebuild''"

definition schedulerOutboxEventSupportsDedup :: "string \<Rightarrow> bool" where
  "schedulerOutboxEventSupportsDedup eventType \<longleftrightarrow>
     eventType = SchedulerOutboxEventAccountChanged \<or> eventType = SchedulerOutboxEventPlatformChanged \<or>
     eventType = SchedulerOutboxEventFullRebuild"

definition schedulerOutboxDedupKey ::
  "bill_env \<Rightarrow> string \<Rightarrow> int64 option \<Rightarrow> int64 option \<Rightarrow> string \<Rightarrow> string" where
  "schedulerOutboxDedupKey E eventType accountID platformID payloadJSON =
     ''scheduler_outbox:'' @ be_sha E (eventType @ [CHR 0x00] @
       (case accountID of None \<Rightarrow> '''' | Some i \<Rightarrow> Itoa i) @ [CHR 0x00] @
       (case platformID of None \<Rightarrow> '''' | Some i \<Rightarrow> Itoa i) @ [CHR 0x00] @ payloadJSON)"

text \<open>The payload is given as what \<open>json.Marshal\<close> makes of it.\<close>

definition enqueueSchedulerOutbox ::
  "bill_env \<Rightarrow> string \<Rightarrow> int64 option \<Rightarrow> int64 option \<Rightarrow> string result option \<Rightarrow> bill_world \<Rightarrow>
   go_error option \<times> bill_world" where
  "enqueueSchedulerOutbox E eventType accountID platformID payload w =
     (case payload of
        Some (Inl err) \<Rightarrow> (Some err, w)
      | _ \<Rightarrow>
        let encoded = (case payload of Some (Inr js) \<Rightarrow> Some js | _ \<Rightarrow> None);
            dedup = (if schedulerOutboxEventSupportsDedup eventType
              then Some (schedulerOutboxDedupKey E eventType accountID platformID
                     (case encoded of None \<Rightarrow> '''' | Some js \<Rightarrow> js)) else None);
            row = \<lparr>or_event = eventType, or_account = accountID, or_platform = platformID,
                   or_payload = encoded, or_dedup_key = dedup\<rparr>
        in case sql_exec (\<lambda>d. (Inr (), if dedup \<noteq> None \<and> dedup \<in> set (map or_dedup_key (bd_outbox d))
                 then d else d\<lparr>bd_outbox := bd_outbox d @ [row]\<rparr>)) w of
             (Inl e, w) \<Rightarrow> (Some e, w)
           | (Inr _, w) \<Rightarrow> (None, w))"

definition crossed :: "float64 \<Rightarrow> float64 \<Rightarrow> float64 \<Rightarrow> bool" where
  "crossed amount used limit \<longleftrightarrow> f_less f_zero limit \<and> f_le limit used \<and> f_less (f_sub used amount) limit"

definition incrementUsageBillingAccountQuota ::
  "bill_env \<Rightarrow> go_time \<Rightarrow> int64 \<Rightarrow> float64 \<Rightarrow> bill_world \<Rightarrow> AccountQuotaState result \<times> bill_world" where
  "incrementUsageBillingAccountQuota E now accountID amount w =
     (case sql_exec (with_numeric E amount (\<lambda>a. update_accounts accountID (\<lambda>r. \<not> ar_deleted r)
            (\<lambda>r. Inr (add_account_quota E now a r)))) w of
        (Inl e, w) \<Rightarrow> (Inl e, w)
      | (Inr None, w) \<Rightarrow> (Inl ErrAccountNotFound, w)
      | (Inr (Some r), w) \<Rightarrow>
          let state = quota_state r in
          if crossed amount (qs_TotalUsed state) (qs_TotalLimit state) \<or>
             crossed amount (qs_DailyUsed state) (qs_DailyLimit state) \<or>
             crossed amount (qs_WeeklyUsed state) (qs_WeeklyLimit state)
          then (case enqueueSchedulerOutbox E SchedulerOutboxEventAccountChanged (Some accountID) None None w of
                  (Some e, w) \<Rightarrow> (Inl e, w)
                | (None, w) \<Rightarrow> (Inr state, w))
          else (Inr state, w))"


section \<open>Transactions\<close>

text \<open>
  A transaction runs on the database, and its changes are undone unless it commits. The body returns
  its result and whether to commit. A commit that fails is undone too, unless its failure was only
  that the answer got lost.
\<close>

definition rollback :: "billing_db \<Rightarrow> bill_world \<Rightarrow> bill_world" where
  "rollback d w = w\<lparr>wd_db := d\<rparr>"

definition nothing :: "'d \<Rightarrow> unit result \<times> 'd" where
  "nothing d = (Inr (), d)"

definition with_tx ::
  "bill_env \<Rightarrow> (go_time \<Rightarrow> bill_world \<Rightarrow> ('a \<times> bool) result \<times> bill_world) \<Rightarrow> bill_world \<Rightarrow> 'a result \<times> bill_world" where
  "with_tx E body w =
     (case sql_exec nothing w of
        (Inl e, w) \<Rightarrow> (Inl e, w)
      | (Inr _, w0) \<Rightarrow>
          (case body (now_of w0) (tick w0) of
             (Inl e, w) \<Rightarrow> (Inl e, rollback (wd_db w0) w)
           | (Inr (res, False), w) \<Rightarrow> (Inr res, rollback (wd_db w0) w)
           | (Inr (res, True), w) \<Rightarrow>
               (case sql_exec nothing w of
                  (Inl e, w') \<Rightarrow> (Inl e, if be_lost E (wd_stmt w) then w' else rollback (wd_db w0) w')
                | (Inr _, w') \<Rightarrow> (Inr res, w'))))"

section \<open>Charging a request\<close>

definition AccountTypeAPIKey :: string where
  "AccountTypeAPIKey = ''apikey''"

definition AccountTypeBedrock :: string where
  "AccountTypeBedrock = ''bedrock''"

text \<open>The five steps of \<open>applyUsageBillingEffects\<close>, each of which may stop the charge with an error.\<close>

type_synonym charge_step = "UsageBillingApplyResult \<Rightarrow> bill_world \<Rightarrow> UsageBillingApplyResult result \<times> bill_world"

definition charge_subscription :: "bill_env \<Rightarrow> UsageBillingCommand \<Rightarrow> charge_step" where
  "charge_subscription E cmd res w =
     (if f_less f_zero (uc_SubscriptionCost cmd) \<and> uc_SubscriptionID cmd \<noteq> None
      then (case incrementUsageBillingSubscription E (the (uc_SubscriptionID cmd)) (uc_SubscriptionCost cmd) w of
              (Some e, w) \<Rightarrow> (Inl e, w) | (None, w) \<Rightarrow> (Inr res, w))
      else (Inr res, w))"

definition charge_balance :: "bill_env \<Rightarrow> UsageBillingCommand \<Rightarrow> charge_step" where
  "charge_balance E cmd res w =
     (if f_less f_zero (uc_BalanceCost cmd)
      then (case deductUsageBillingBalance E (uc_UserID cmd) (uc_BalanceCost cmd) w of
              (Inl e, w) \<Rightarrow> (Inl e, w)
            | (Inr (newBalance, sufficient), w) \<Rightarrow>
                (Inr (res\<lparr>ua_NewBalance := Some newBalance, ua_BalanceOverdrafted := \<not> sufficient\<rparr>), w))
      else (Inr res, w))"

definition charge_key_quota :: "bill_env \<Rightarrow> UsageBillingCommand \<Rightarrow> charge_step" where
  "charge_key_quota E cmd res w =
     (if f_less f_zero (uc_APIKeyQuotaCost cmd)
      then (case incrementUsageBillingAPIKeyQuota E (uc_APIKeyID cmd) (uc_APIKeyQuotaCost cmd) w of
              (Inl e, w) \<Rightarrow> (Inl e, w)
            | (Inr exhausted, w) \<Rightarrow> (Inr (res\<lparr>ua_APIKeyQuotaExhausted := exhausted\<rparr>), w))
      else (Inr res, w))"

definition charge_key_rate :: "bill_env \<Rightarrow> go_time \<Rightarrow> UsageBillingCommand \<Rightarrow> charge_step" where
  "charge_key_rate E now cmd res w =
     (if f_less f_zero (uc_APIKeyRateLimitCost cmd)
      then (case incrementUsageBillingAPIKeyRateLimit E now (uc_APIKeyID cmd) (uc_APIKeyRateLimitCost cmd) w of
              (Some e, w) \<Rightarrow> (Inl e, w) | (None, w) \<Rightarrow> (Inr res, w))
      else (Inr res, w))"

definition charge_account :: "bill_env \<Rightarrow> go_time \<Rightarrow> UsageBillingCommand \<Rightarrow> charge_step" where
  "charge_account E now cmd res w =
     (if f_less f_zero (uc_AccountQuotaCost cmd) \<and>
         (EqualFold (be_unicode E) (uc_AccountType cmd) AccountTypeAPIKey \<or>
          EqualFold (be_unicode E) (uc_AccountType cmd) AccountTypeBedrock)
      then (case incrementUsageBillingAccountQuota E now (uc_AccountID cmd) (uc_AccountQuotaCost cmd) w of
              (Inl e, w) \<Rightarrow> (Inl e, w)
            | (Inr state, w) \<Rightarrow> (Inr (res\<lparr>ua_QuotaState := Some state\<rparr>), w))
      else (Inr res, w))"

fun charge_steps :: "charge_step list \<Rightarrow> charge_step" where
  "charge_steps [] res w = (Inr res, w)"
| "charge_steps (f # fs) res w =
     (case f res w of (Inl e, w) \<Rightarrow> (Inl e, w) | (Inr res, w) \<Rightarrow> charge_steps fs res w)"

definition applyUsageBillingEffects :: "bill_env \<Rightarrow> go_time \<Rightarrow> UsageBillingCommand \<Rightarrow> charge_step" where
  "applyUsageBillingEffects E now cmd =
     charge_steps [charge_subscription E cmd, charge_balance E cmd, charge_key_quota E cmd,
       charge_key_rate E now cmd, charge_account E now cmd]"

definition ErrBillingDBNil :: go_error where
  "ErrBillingDBNil = Sentinel ''usage billing repository db is nil''"

definition apply_body ::
  "bill_env \<Rightarrow> UsageBillingCommand \<Rightarrow> go_time \<Rightarrow> bill_world \<Rightarrow> (UsageBillingApplyResult \<times> bool) result \<times> bill_world" where
  "apply_body E cmd now w =
     (case claimUsageBillingKey now cmd w of
        (Inl e, w) \<Rightarrow> (Inl e, w)
      | (Inr False, w) \<Rightarrow> (Inr (no_apply_result, False), w)
      | (Inr True, w) \<Rightarrow>
          (case applyUsageBillingEffects E now cmd (no_apply_result\<lparr>ua_Applied := True\<rparr>) w of
             (Inl e, w) \<Rightarrow> (Inl e, w)
           | (Inr res, w) \<Rightarrow> (Inr (res, True), w)))"

definition usage_Apply ::
  "bill_env \<Rightarrow> UsageBillingCommand option \<Rightarrow> bill_world \<Rightarrow> UsageBillingApplyResult result \<times> bill_world" where
  "usage_Apply E cmd w =
     (case cmd of
        None \<Rightarrow> (Inr no_apply_result, w)
      | Some cmd \<Rightarrow>
          if \<not> be_connected E then (Inl ErrBillingDBNil, w)
          else let cmd = usage_Normalize E cmd in
            if uc_RequestID cmd = '''' then (Inl ErrUsageBillingRequestIDRequired, w)
            else with_tx E (apply_body E cmd) w)"

section \<open>Holding, capturing and releasing a balance\<close>

definition batchImageHoldRequestPrefix :: string where
  "batchImageHoldRequestPrefix = ''batch_image_hold:''"

definition BatchImageHoldRequestID :: "string \<Rightarrow> string" where
  "BatchImageHoldRequestID batchID = batchImageHoldRequestPrefix @ TrimSpace batchID"

type_synonym hold_op =
  "bill_env \<Rightarrow> BatchImageBalanceHoldCommand \<Rightarrow> bill_world \<Rightarrow> BatchImageBalanceHoldResult result \<times> bill_world"

definition userExistsForBilling :: "int64 \<Rightarrow> bill_world \<Rightarrow> bool result \<times> bill_world" where
  "userExistsForBilling userID w = sql_exec (\<lambda>d. (Inr (case map_of (bd_users d) userID of
     None \<Rightarrow> False | Some r \<Rightarrow> \<not> ur_deleted r), d)) w"

text \<open>What the three operations share after their update touched no row.\<close>

definition hold_refused ::
  "int64 \<Rightarrow> go_error \<Rightarrow> bill_world \<Rightarrow> BatchImageBalanceHoldResult result \<times> bill_world" where
  "hold_refused userID err w =
     (case userExistsForBilling userID w of
        (Inl e, w) \<Rightarrow> (Inl e, w)
      | (Inr False, w) \<Rightarrow> (Inl ErrUserNotFound, w)
      | (Inr True, w) \<Rightarrow> (Inl err, w))"

definition hold_result :: "user_row \<Rightarrow> BatchImageBalanceHoldResult" where
  "hold_result r = \<lparr>hr_Applied = False, hr_NewBalance = Some (round64 (ur_balance r)),
     hr_FrozenBalance = Some (round64 (ur_frozen r))\<rparr>"

definition set_balances :: "rat \<Rightarrow> rat \<Rightarrow> user_row \<Rightarrow> user_row result" where
  "set_balances balance frozen r = (case (to_decimal 20 8 balance, to_decimal 20 8 frozen) of
     (Inr b, Inr f) \<Rightarrow> Inr (r\<lparr>ur_balance := b, ur_frozen := f\<rparr>) | _ \<Rightarrow> Inl ErrNumericOverflow)"

definition reserveUsageBillingBatchImageBalance :: hold_op where
  "reserveUsageBillingBatchImageBalance E cmd w =
     (if f_le (hc_HoldAmount cmd) f_zero then (Inr no_hold_result, w)
      else case sql_exec (with_numeric E (hc_HoldAmount cmd) (\<lambda>a. update_users (hc_UserID cmd)
             (\<lambda>r. \<not> ur_deleted r \<and> a \<le> ur_balance r)
             (\<lambda>r. set_balances (ur_balance r - a) (ur_frozen r + a) r))) w of
        (Inl e, w) \<Rightarrow> (Inl e, w)
      | (Inr (Some r), w) \<Rightarrow> (Inr (hold_result r), w)
      | (Inr None, w) \<Rightarrow> hold_refused (hc_UserID cmd) ErrBatchImageInsufficientBalance w)"

definition ErrFrozenInsufficient :: go_error where
  "ErrFrozenInsufficient = Sentinel ''batch image frozen balance is insufficient''"

definition captureUsageBillingBatchImageBalance :: hold_op where
  "captureUsageBillingBatchImageBalance E cmd w =
     (if f_le (hc_HoldAmount cmd) f_zero \<and> f_le (hc_ActualAmount cmd) f_zero then (Inr no_hold_result, w)
      else if f_less (round64 (1 / 100000000)) (f_sub (hc_ActualAmount cmd) (hc_HoldAmount cmd))
      then (Inl ErrBatchImageSettlementCostExceedsHold, w)
      else case sql_exec (with_numeric E (hc_HoldAmount cmd) (\<lambda>h. with_numeric E (hc_ActualAmount cmd) (\<lambda>a.
             update_users (hc_UserID cmd) (\<lambda>r. \<not> ur_deleted r \<and> h \<le> ur_frozen r)
             (\<lambda>r. set_balances (ur_balance r + (if a < h then h - a else 0) - (if h < a then a - h else 0))
                     (ur_frozen r - h) r)))) w of
        (Inl e, w) \<Rightarrow> (Inl e, w)
      | (Inr (Some r), w) \<Rightarrow> (Inr (hold_result r), w)
      | (Inr None, w) \<Rightarrow> hold_refused (hc_UserID cmd) ErrFrozenInsufficient w)"

definition batchImageHoldClaimExists :: "string \<Rightarrow> int64 \<Rightarrow> bill_world \<Rightarrow> bool result \<times> bill_world" where
  "batchImageHoldClaimExists holdRequestID apiKeyID w =
     (case sql_exec (\<lambda>d. (Inr (map_of (bd_dedup d) (holdRequestID, apiKeyID) \<noteq> None), d)) w of
        (Inl e, w) \<Rightarrow> (Inl e, w)
      | (Inr True, w) \<Rightarrow> (Inr True, w)
      | (Inr False, w) \<Rightarrow>
          sql_exec (\<lambda>d. (Inr (map_of (bd_archive d) (holdRequestID, apiKeyID) \<noteq> None), d)) w)"

definition releaseUsageBillingBatchImageBalance :: hold_op where
  "releaseUsageBillingBatchImageBalance E cmd w =
     (if f_le (hc_HoldAmount cmd) f_zero then (Inr no_hold_result, w)
      else case batchImageHoldClaimExists (BatchImageHoldRequestID (hc_BatchID cmd)) (hc_APIKeyID cmd) w of
        (Inl e, w) \<Rightarrow> (Inl e, w)
      | (Inr False, w) \<Rightarrow> (Inr no_hold_result, w)
      | (Inr True, w) \<Rightarrow>
          (case sql_exec (with_numeric E (hc_HoldAmount cmd) (\<lambda>a. update_users (hc_UserID cmd)
                 (\<lambda>r. \<not> ur_deleted r \<and> a \<le> ur_frozen r)
                 (\<lambda>r. set_balances (ur_balance r + a) (ur_frozen r - a) r))) w of
             (Inl e, w) \<Rightarrow> (Inl e, w)
           | (Inr (Some r), w) \<Rightarrow> (Inr (hold_result r), w)
           | (Inr None, w) \<Rightarrow> hold_refused (hc_UserID cmd) ErrFrozenInsufficient w))"

definition hold_body ::
  "bill_env \<Rightarrow> hold_op \<Rightarrow> BatchImageBalanceHoldCommand \<Rightarrow> go_time \<Rightarrow> bill_world \<Rightarrow>
   (BatchImageBalanceHoldResult \<times> bool) result \<times> bill_world" where
  "hold_body E apply cmd now w =
     (case claimUsageBillingRequest now (hc_RequestID cmd) (hc_APIKeyID cmd) (hc_RequestFingerprint cmd) w of
        (Inl e, w) \<Rightarrow> (Inl e, w)
      | (Inr False, w) \<Rightarrow> (Inr (no_hold_result, False), w)
      | (Inr True, w) \<Rightarrow>
          (case apply E cmd w of
             (Inl e, w) \<Rightarrow> (Inl e, w)
           | (Inr res, w) \<Rightarrow> (Inr (res\<lparr>hr_Applied := True\<rparr>, True), w)))"

definition applyBatchImageBalanceHold ::
  "bill_env \<Rightarrow> hold_op \<Rightarrow> BatchImageBalanceHoldCommand option \<Rightarrow> bill_world \<Rightarrow>
   BatchImageBalanceHoldResult result \<times> bill_world" where
  "applyBatchImageBalanceHold E apply cmd w =
     (case cmd of
        None \<Rightarrow> (Inr no_hold_result, w)
      | Some cmd \<Rightarrow>
          if \<not> be_connected E then (Inl ErrBillingDBNil, w)
          else let cmd = hold_Normalize E cmd in
            if hc_RequestID cmd = '''' then (Inl ErrUsageBillingRequestIDRequired, w)
            else with_tx E (hold_body E apply cmd) w)"

definition ReserveBatchImageBalance ::
  "bill_env \<Rightarrow> BatchImageBalanceHoldCommand option \<Rightarrow> bill_world \<Rightarrow> BatchImageBalanceHoldResult result \<times> bill_world" where
  "ReserveBatchImageBalance E cmd = applyBatchImageBalanceHold E reserveUsageBillingBatchImageBalance cmd"

definition CaptureBatchImageBalance ::
  "bill_env \<Rightarrow> BatchImageBalanceHoldCommand option \<Rightarrow> bill_world \<Rightarrow> BatchImageBalanceHoldResult result \<times> bill_world" where
  "CaptureBatchImageBalance E cmd = applyBatchImageBalanceHold E captureUsageBillingBatchImageBalance cmd"

definition ReleaseBatchImageBalance ::
  "bill_env \<Rightarrow> BatchImageBalanceHoldCommand option \<Rightarrow> bill_world \<Rightarrow> BatchImageBalanceHoldResult result \<times> bill_world" where
  "ReleaseBatchImageBalance E cmd = applyBatchImageBalanceHold E releaseUsageBillingBatchImageBalance cmd"


section \<open>Batch image jobs\<close>

definition batchImageCaptureRequestPrefix :: string where
  "batchImageCaptureRequestPrefix = ''batch_image_capture:''"

definition batchImageReleaseRequestPrefix :: string where
  "batchImageReleaseRequestPrefix = ''batch_image_release:''"

definition BatchImageCaptureRequestID :: "string \<Rightarrow> string" where
  "BatchImageCaptureRequestID batchID = batchImageCaptureRequestPrefix @ TrimSpace batchID"

definition BatchImageReleaseRequestID :: "string \<Rightarrow> string" where
  "BatchImageReleaseRequestID batchID = batchImageReleaseRequestPrefix @ TrimSpace batchID"

definition ErrBatchImageBillingHoldFailed :: go_error where
  "ErrBatchImageBillingHoldFailed =
     New 502 ''BATCH_IMAGE_BILLING_HOLD_FAILED'' ''batch image balance hold failed''"

definition ErrBatchImageSettlementBillingFailed :: go_error where
  "ErrBatchImageSettlementBillingFailed =
     New 502 ''BATCH_IMAGE_SETTLEMENT_BILLING_FAILED'' ''batch image settlement billing failed''"

definition ErrBatchImageSettlementMissingAPIKeyID :: go_error where
  "ErrBatchImageSettlementMissingAPIKeyID =
     New 400 ''BATCH_IMAGE_SETTLEMENT_MISSING_API_KEY_ID'' ''batch image settlement api key id is missing''"

text \<open>
  Of a job, the fields that its billing reads. The billing repository is never nil here; a nil job is
  \<open>None\<close> for the release, the only operation that accepts one.
\<close>

record BatchImageJob =
  bj_BatchID :: string
  bj_UserID :: int64
  bj_APIKeyID :: "int64 option"
  bj_EstimatedCost :: float64
  bj_HoldAmount :: "float64 option"

definition clamp_zero :: "float64 \<Rightarrow> float64" where
  "clamp_zero x = (if f_less x f_zero then f_zero else x)"

definition buildBatchImageHoldCommand ::
  "BatchImageJob \<Rightarrow> string \<Rightarrow> float64 \<Rightarrow> string \<Rightarrow> BatchImageBalanceHoldCommand result" where
  "buildBatchImageHoldCommand job requestID actualAmount payloadHash =
     (case bj_APIKeyID job of
        None \<Rightarrow> Inl ErrBatchImageSettlementMissingAPIKeyID
      | Some key \<Rightarrow>
          if key \<le> 0 then Inl ErrBatchImageSettlementMissingAPIKeyID
          else Inr \<lparr>hc_RequestID = requestID, hc_APIKeyID = key, hc_RequestFingerprint = '''',
             hc_RequestPayloadHash = TrimSpace payloadHash, hc_UserID = bj_UserID job,
             hc_BatchID = bj_BatchID job,
             hc_HoldAmount = clamp_zero (case bj_HoldAmount job of None \<Rightarrow> bj_EstimatedCost job | Some h \<Rightarrow> h),
             hc_ActualAmount = clamp_zero actualAmount\<rparr>)"

definition reserveBatchImageBalanceHold ::
  "bill_env \<Rightarrow> BatchImageJob \<Rightarrow> string \<Rightarrow> bill_world \<Rightarrow> go_error option \<times> bill_world" where
  "reserveBatchImageBalanceHold E job payloadHash w =
     (case buildBatchImageHoldCommand job (BatchImageHoldRequestID (bj_BatchID job)) f_zero payloadHash of
        Inl e \<Rightarrow> (Some e, w)
      | Inr cmd \<Rightarrow>
          if f_le (hc_HoldAmount cmd) f_zero then (None, w)
          else case ReserveBatchImageBalance E (Some cmd) w of
            (Inl err, w) \<Rightarrow>
              (Some (if errors_is err ErrBatchImageInsufficientBalance then ErrBatchImageInsufficientBalance
                     else WithCause ErrBatchImageBillingHoldFailed (Some err)), w)
          | (Inr _, w) \<Rightarrow> (None, w))"

definition captureBatchImageBalanceHold ::
  "bill_env \<Rightarrow> BatchImageJob \<Rightarrow> float64 \<Rightarrow> string \<Rightarrow> bill_world \<Rightarrow> go_error option \<times> bill_world" where
  "captureBatchImageBalanceHold E job actualAmount payloadHash w =
     (case buildBatchImageHoldCommand job (BatchImageCaptureRequestID (bj_BatchID job)) actualAmount payloadHash of
        Inl e \<Rightarrow> (Some e, w)
      | Inr cmd \<Rightarrow>
          (case CaptureBatchImageBalance E (Some cmd) w of
             (Inl err, w) \<Rightarrow> (Some (WithCause ErrBatchImageSettlementBillingFailed (Some err)), w)
           | (Inr _, w) \<Rightarrow> (None, w)))"

definition releaseBatchImageBalanceHold ::
  "bill_env \<Rightarrow> BatchImageJob option \<Rightarrow> string \<Rightarrow> bill_world \<Rightarrow> go_error option \<times> bill_world" where
  "releaseBatchImageBalanceHold E job payloadHash w =
     (case job of
        None \<Rightarrow> (None, w)
      | Some job \<Rightarrow>
          (case buildBatchImageHoldCommand job (BatchImageReleaseRequestID (bj_BatchID job)) f_zero payloadHash of
             Inl e \<Rightarrow> (Some e, w)
           | Inr cmd \<Rightarrow>
               if f_le (hc_HoldAmount cmd) f_zero then (None, w)
               else case ReleaseBatchImageBalance E (Some cmd) w of
                 (Inl err, w) \<Rightarrow>
                   (if errors_is err ErrUsageBillingRequestConflict then (None, w)
                    else (Some (WithCause ErrBatchImageBillingHoldFailed (Some err)), w))
               | (Inr _, w) \<Rightarrow> (None, w)))"

section \<open>Archiving old claims\<close>

definition usageBillingDedupCleanupBatchSize :: nat where
  "usageBillingDedupCleanupBatchSize = 10000"

definition archive_batch :: "go_time \<Rightarrow> billing_db \<Rightarrow> nat result \<times> billing_db" where
  "archive_batch cutoff d =
     (let victims = take usageBillingDedupCleanupBatchSize (filter (\<lambda>(k, f, created). created < cutoff) (bd_dedup d))
      in (Inr (length victims), d\<lparr>
           bd_archive := bd_archive d @ filter (\<lambda>(k, f). map_of (bd_archive d) k = None) victims,
           bd_dedup := filter (\<lambda>(k, f). k \<notin> fst ` set victims) (bd_dedup d)\<rparr>))"

lemma archive_batch_shrinks:
  assumes "archive_batch cutoff d = (Inr n, d')" and "0 < n"
  shows "length (bd_dedup d') < length (bd_dedup d)"
proof -
  define victims where
    "victims = take usageBillingDedupCleanupBatchSize (filter (\<lambda>(k, f, created). created < cutoff) (bd_dedup d))"
  have n: "n = length victims" and d': "bd_dedup d' = filter (\<lambda>(k, f). k \<notin> fst ` set victims) (bd_dedup d)"
    using assms(1) by (auto simp: archive_batch_def Let_def victims_def)
  obtain v where v: "v \<in> set victims" using assms(2) n by (cases victims) auto
  then have "v \<in> set (bd_dedup d)" by (auto simp: victims_def dest: in_set_takeD)
  with v show ?thesis unfolding d' by (intro length_filter_less [of v]) (auto intro: rev_image_eqI)
qed

lemma archive_sweep_shrinks:
  assumes "sql_exec (archive_batch cutoff) w = (Inr n, w')" and "\<not> n < usageBillingDedupCleanupBatchSize"
  shows "length (bd_dedup (wd_db w')) < length (bd_dedup (wd_db w))"
proof -
  have "archive_batch cutoff (wd_db w) = (Inr n, wd_db w')"
    using assms(1) sql_exec_D [of "archive_batch cutoff" w "Inr n" w'] by (auto simp: prod_eq_iff)
  moreover have "0 < n" using assms(2) by (simp add: usageBillingDedupCleanupBatchSize_def)
  ultimately show ?thesis by (rule archive_batch_shrinks)
qed

function CleanupUsageBillingDedup :: "go_time \<Rightarrow> bill_world \<Rightarrow> go_error option \<times> bill_world" where
  "CleanupUsageBillingDedup cutoff w =
     (case sql_exec (archive_batch cutoff) w of
        (Inl e, w') \<Rightarrow> (Some e, w')
      | (Inr affected, w') \<Rightarrow>
          if affected < usageBillingDedupCleanupBatchSize then (None, w')
          else CleanupUsageBillingDedup cutoff w')"
  by pat_completeness auto
termination
  by (relation "measure (\<lambda>(cutoff, w). length (bd_dedup (wd_db w)))")
    (auto intro: archive_sweep_shrinks [OF sym])

declare CleanupUsageBillingDedup.simps [simp del]

end
