(* ===== verification/Billing_Ledger.thy ===== *)
theory Billing_Ledger
  imports Usage_Billing
begin

text \<open>
  What the billing repository promises, as an abstract ledger: the set of claimed requests with their
  fingerprints, and the balances and counters as finite maps. A charge either happens completely, for
  a request that was not claimed before, or not at all. The transactions of \<open>Usage_Billing\<close>, with
  failing statements, lost acknowledgements and the archiving of old claims, implement it.
\<close>

section \<open>The ledger\<close>

record ledger =
  lg_claims :: "claim_key \<Rightarrow> string option"
  lg_users :: "int64 \<Rightarrow> user_row option"
  lg_keys :: "int64 \<Rightarrow> key_row option"
  lg_subs :: "int64 \<Rightarrow> usage_row option"
  lg_accounts :: "int64 \<Rightarrow> account_row option"
  lg_outbox :: "outbox_row list"

definition and_then :: "'a result \<Rightarrow> ('a \<Rightarrow> 'b result) \<Rightarrow> 'b result" where
  "and_then r f = (case r of Inl e \<Rightarrow> Inl e | Inr x \<Rightarrow> f x)"

definition amend ::
  "'k \<Rightarrow> ('r \<Rightarrow> bool) \<Rightarrow> ('r \<Rightarrow> 'r result) \<Rightarrow> go_error \<Rightarrow> ('k \<Rightarrow> 'r option) \<Rightarrow> ('k \<Rightarrow> 'r option) result" where
  "amend k visible f missing m = (case m k of
     None \<Rightarrow> Inl missing
   | Some r \<Rightarrow> if visible r then and_then (f r) (\<lambda>r'. Inr (m(k \<mapsto> r'))) else Inl missing)"

definition amend_user :: "int64 \<Rightarrow> (user_row \<Rightarrow> user_row result) \<Rightarrow> ledger \<Rightarrow> ledger result" where
  "amend_user k f L = and_then (amend k (\<lambda>r. \<not> ur_deleted r) f ErrUserNotFound (lg_users L))
     (\<lambda>m. Inr (L\<lparr>lg_users := m\<rparr>))"

definition amend_key :: "int64 \<Rightarrow> (key_row \<Rightarrow> key_row result) \<Rightarrow> ledger \<Rightarrow> ledger result" where
  "amend_key k f L = and_then (amend k (\<lambda>r. \<not> kr_deleted r) f ErrAPIKeyNotFound (lg_keys L))
     (\<lambda>m. Inr (L\<lparr>lg_keys := m\<rparr>))"

definition amend_sub :: "int64 \<Rightarrow> (usage_row \<Rightarrow> usage_row result) \<Rightarrow> ledger \<Rightarrow> ledger result" where
  "amend_sub k f L = and_then (amend k (\<lambda>r. \<not> sr_deleted r) f ErrSubscriptionNotFound (lg_subs L))
     (\<lambda>m. Inr (L\<lparr>lg_subs := m\<rparr>))"

definition amend_account :: "int64 \<Rightarrow> (account_row \<Rightarrow> account_row result) \<Rightarrow> ledger \<Rightarrow> ledger result" where
  "amend_account k f L = and_then (amend k (\<lambda>r. \<not> ar_deleted r) f ErrAccountNotFound (lg_accounts L))
     (\<lambda>m. Inr (L\<lparr>lg_accounts := m\<rparr>))"

text \<open>An account that crosses a limit is announced once to the scheduler.\<close>

definition announce :: "bill_env \<Rightarrow> int64 \<Rightarrow> ledger \<Rightarrow> ledger" where
  "announce E k L =
     (let key = Some (schedulerOutboxDedupKey E SchedulerOutboxEventAccountChanged (Some k) None '''') in
      if key \<in> set (map or_dedup_key (lg_outbox L)) then L
      else L\<lparr>lg_outbox := lg_outbox L @ [\<lparr>or_event = SchedulerOutboxEventAccountChanged,
        or_account = Some k, or_platform = None, or_payload = None, or_dedup_key = key\<rparr>]\<rparr>)"

definition crosses_limit :: "float64 \<Rightarrow> account_row \<Rightarrow> bool" where
  "crosses_limit amount r = (let s = quota_state r in
     crossed amount (qs_TotalUsed s) (qs_TotalLimit s) \<or> crossed amount (qs_DailyUsed s) (qs_DailyLimit s) \<or>
     crossed amount (qs_WeeklyUsed s) (qs_WeeklyLimit s))"

definition ledger_account :: "bill_env \<Rightarrow> go_time \<Rightarrow> int64 \<Rightarrow> float64 \<Rightarrow> rat \<Rightarrow> ledger \<Rightarrow> ledger result" where
  "ledger_account E now k amount a L =
     and_then (amend_account k (\<lambda>r. Inr (add_account_quota E now a r)) L) (\<lambda>L'.
       Inr (case lg_accounts L' k of
         Some r \<Rightarrow> if crosses_limit amount r then announce E k L' else L' | None \<Rightarrow> L'))"

text \<open>A cost that is not positive is not charged.\<close>

definition cost_step :: "bill_env \<Rightarrow> float64 \<Rightarrow> (rat \<Rightarrow> ledger \<Rightarrow> ledger result) \<Rightarrow> ledger \<Rightarrow> ledger result" where
  "cost_step E cost f L = (if f_less f_zero cost then and_then (be_numeric E cost) (\<lambda>a. f a L) else Inr L)"

definition billed_account :: "bill_env \<Rightarrow> UsageBillingCommand \<Rightarrow> bool" where
  "billed_account E c \<longleftrightarrow> EqualFold (be_unicode E) (uc_AccountType c) AccountTypeAPIKey \<or>
     EqualFold (be_unicode E) (uc_AccountType c) AccountTypeBedrock"

definition ledger_charge :: "bill_env \<Rightarrow> go_time \<Rightarrow> UsageBillingCommand \<Rightarrow> ledger \<Rightarrow> ledger result" where
  "ledger_charge E now c L =
     and_then (case uc_SubscriptionID c of None \<Rightarrow> Inr L
               | Some s \<Rightarrow> cost_step E (uc_SubscriptionCost c) (\<lambda>a. amend_sub s (add_usage a)) L) (\<lambda>L.
     and_then (cost_step E (uc_BalanceCost c) (\<lambda>a. amend_user (uc_UserID c) (deduct_balance a)) L) (\<lambda>L.
     and_then (cost_step E (uc_APIKeyQuotaCost c) (\<lambda>a. amend_key (uc_APIKeyID c) (add_quota a)) L) (\<lambda>L.
     and_then (cost_step E (uc_APIKeyRateLimitCost c) (\<lambda>a. amend_key (uc_APIKeyID c) (add_rate_limit E now a)) L) (\<lambda>L.
     if billed_account E c
     then cost_step E (uc_AccountQuotaCost c) (ledger_account E now (uc_AccountID c) (uc_AccountQuotaCost c)) L
     else Inr L))))"

definition ledger_reserve :: "bill_env \<Rightarrow> BatchImageBalanceHoldCommand \<Rightarrow> ledger \<Rightarrow> ledger result" where
  "ledger_reserve E c L =
     (if f_le (hc_HoldAmount c) f_zero then Inr L
      else and_then (be_numeric E (hc_HoldAmount c)) (\<lambda>a. amend_user (hc_UserID c) (\<lambda>r.
        if a \<le> ur_balance r then set_balances (ur_balance r - a) (ur_frozen r + a) r
        else Inl ErrBatchImageInsufficientBalance) L))"

definition ledger_capture :: "bill_env \<Rightarrow> BatchImageBalanceHoldCommand \<Rightarrow> ledger \<Rightarrow> ledger result" where
  "ledger_capture E c L =
     (if f_le (hc_HoldAmount c) f_zero \<and> f_le (hc_ActualAmount c) f_zero then Inr L
      else if f_less (round64 (1 / 100000000)) (f_sub (hc_ActualAmount c) (hc_HoldAmount c))
      then Inl ErrBatchImageSettlementCostExceedsHold
      else and_then (be_numeric E (hc_HoldAmount c)) (\<lambda>h.
        and_then (be_numeric E (hc_ActualAmount c)) (\<lambda>a. amend_user (hc_UserID c) (\<lambda>r.
          if h \<le> ur_frozen r then set_balances (ur_balance r + (h - a)) (ur_frozen r - h) r
          else Inl ErrFrozenInsufficient) L)))"

definition ledger_release :: "bill_env \<Rightarrow> BatchImageBalanceHoldCommand \<Rightarrow> ledger \<Rightarrow> ledger result" where
  "ledger_release E c L =
     (if f_le (hc_HoldAmount c) f_zero \<or>
         lg_claims L (BatchImageHoldRequestID (hc_BatchID c), hc_APIKeyID c) = None then Inr L
      else and_then (be_numeric E (hc_HoldAmount c)) (\<lambda>a. amend_user (hc_UserID c) (\<lambda>r.
        if a \<le> ur_frozen r then set_balances (ur_balance r + a) (ur_frozen r - a) r
        else Inl ErrFrozenInsufficient) L))"

section \<open>Calls\<close>

datatype billing_call =
    ApplyUsage UsageBillingCommand
  | ReserveHold BatchImageBalanceHoldCommand
  | CaptureHold BatchImageBalanceHoldCommand
  | ReleaseHold BatchImageBalanceHoldCommand
  | ArchiveClaims go_time

definition as_applied :: "('a \<Rightarrow> bool) \<Rightarrow> 'a result \<times> bill_world \<Rightarrow> bool result \<times> bill_world" where
  "as_applied f x = (case x of (Inl e, w) \<Rightarrow> (Inl e, w) | (Inr r, w) \<Rightarrow> (Inr (f r), w))"

fun run_call :: "bill_env \<Rightarrow> billing_call \<Rightarrow> bill_world \<Rightarrow> bool result \<times> bill_world" where
  "run_call E (ApplyUsage c) w = as_applied ua_Applied (usage_Apply E (Some c) w)"
| "run_call E (ReserveHold c) w = as_applied hr_Applied (ReserveBatchImageBalance E (Some c) w)"
| "run_call E (CaptureHold c) w = as_applied hr_Applied (CaptureBatchImageBalance E (Some c) w)"
| "run_call E (ReleaseHold c) w = as_applied hr_Applied (ReleaseBatchImageBalance E (Some c) w)"
| "run_call E (ArchiveClaims cutoff) w = (case CleanupUsageBillingDedup cutoff w of
     (Some e, w) \<Rightarrow> (Inl e, w) | (None, w) \<Rightarrow> (Inr False, w))"

text \<open>The key a call claims, the fingerprint it leaves there and its effect on the ledger.\<close>

fun call_key :: "bill_env \<Rightarrow> billing_call \<Rightarrow> claim_key option" where
  "call_key E (ApplyUsage c) = Some (uc_RequestID (usage_Normalize E c), uc_APIKeyID c)"
| "call_key E (ReserveHold c) = Some (hc_RequestID (hold_Normalize E c), hc_APIKeyID c)"
| "call_key E (CaptureHold c) = Some (hc_RequestID (hold_Normalize E c), hc_APIKeyID c)"
| "call_key E (ReleaseHold c) = Some (hc_RequestID (hold_Normalize E c), hc_APIKeyID c)"
| "call_key E (ArchiveClaims _) = None"

fun call_fingerprint :: "bill_env \<Rightarrow> billing_call \<Rightarrow> string" where
  "call_fingerprint E (ApplyUsage c) = uc_RequestFingerprint (usage_Normalize E c)"
| "call_fingerprint E (ReserveHold c) = hc_RequestFingerprint (hold_Normalize E c)"
| "call_fingerprint E (CaptureHold c) = hc_RequestFingerprint (hold_Normalize E c)"
| "call_fingerprint E (ReleaseHold c) = hc_RequestFingerprint (hold_Normalize E c)"
| "call_fingerprint E (ArchiveClaims _) = ''''"

fun call_effect :: "bill_env \<Rightarrow> go_time \<Rightarrow> billing_call \<Rightarrow> ledger \<Rightarrow> ledger result" where
  "call_effect E now (ApplyUsage c) = ledger_charge E now (usage_Normalize E c)"
| "call_effect E now (ReserveHold c) = ledger_reserve E (hold_Normalize E c)"
| "call_effect E now (CaptureHold c) = ledger_capture E (hold_Normalize E c)"
| "call_effect E now (ReleaseHold c) = ledger_release E (hold_Normalize E c)"
| "call_effect E now (ArchiveClaims _) = Inr"

text \<open>
  One call of the ledger with its answer: \<open>Inr True\<close> when it was charged, \<open>Inr False\<close> when it had
  been charged before, and an error otherwise. An error leaves the ledger as it was or, when only the
  acknowledgement was lost, charged.
\<close>

inductive ledger_step :: "bill_env \<Rightarrow> billing_call \<Rightarrow> ledger \<Rightarrow> bool result \<Rightarrow> ledger \<Rightarrow> bool"
  for E where
  Charged: "\<lbrakk>call_key E c = Some k; lg_claims L k = None;
     call_effect E now c (L\<lparr>lg_claims := (lg_claims L)(k \<mapsto> call_fingerprint E c)\<rparr>) = Inr L'\<rbrakk>
     \<Longrightarrow> ledger_step E c L (Inr True) L'"
| Unacknowledged: "\<lbrakk>call_key E c = Some k; lg_claims L k = None;
     call_effect E now c (L\<lparr>lg_claims := (lg_claims L)(k \<mapsto> call_fingerprint E c)\<rparr>) = Inr L'\<rbrakk>
     \<Longrightarrow> ledger_step E c L (Inl e) L'"
| Repeated: "\<lbrakk>call_key E c = Some k; lg_claims L k = Some f; TrimSpace f = TrimSpace (call_fingerprint E c)\<rbrakk>
     \<Longrightarrow> ledger_step E c L (Inr False) L"
| Refused: "ledger_step E c L (Inl e) L"
| Archived: "call_key E c = None \<Longrightarrow> ledger_step E c L (Inr False) L"

inductive_cases ledger_stepE: "ledger_step E c L r L'"

section \<open>The tables as a ledger\<close>

definition claims_of :: "billing_db \<Rightarrow> claim_key \<Rightarrow> string option" where
  "claims_of d k = (case map_of (bd_dedup d) k of
     Some (f, t) \<Rightarrow> Some f | None \<Rightarrow> map_option fst (map_of (bd_archive d) k))"

definition abs_ledger :: "billing_db \<Rightarrow> ledger" where
  "abs_ledger d = \<lparr>lg_claims = claims_of d, lg_users = map_of (bd_users d), lg_keys = map_of (bd_keys d),
     lg_subs = map_of (bd_subs d), lg_accounts = map_of (bd_accounts d), lg_outbox = bd_outbox d\<rparr>"

abbreviation world_ledger :: "bill_world \<Rightarrow> ledger" where
  "world_ledger w \<equiv> abs_ledger (wd_db w)"


lemma claims_of_update [simp]:
  "claims_of (d\<lparr>bd_users := u\<rparr>) = claims_of d" "claims_of (d\<lparr>bd_keys := k\<rparr>) = claims_of d"
  "claims_of (d\<lparr>bd_subs := s\<rparr>) = claims_of d" "claims_of (d\<lparr>bd_accounts := a\<rparr>) = claims_of d"
  "claims_of (d\<lparr>bd_outbox := q\<rparr>) = claims_of d"
  by (simp_all add: claims_of_def fun_eq_iff cong: option.case_cong)

section \<open>One table\<close>

text \<open>
  What the operations rely on of an update of one table: it touches the named row of that table only,
  and only when the row satisfies the condition.
\<close>

locale billing_table =
  fixes upd :: "int64 \<Rightarrow> ('r \<Rightarrow> bool) \<Rightarrow> ('r \<Rightarrow> 'r result) \<Rightarrow> billing_db \<Rightarrow> 'r option result \<times> billing_db"
    and tab :: "billing_db \<Rightarrow> (int64 \<times> 'r) list"
    and put :: "(int64 \<times> 'r) list \<Rightarrow> billing_db \<Rightarrow> billing_db"
    and col :: "ledger \<Rightarrow> int64 \<Rightarrow> 'r option"
    and set_col :: "(int64 \<Rightarrow> 'r option) \<Rightarrow> ledger \<Rightarrow> ledger"
  assumes upd_eq: "upd k P f d = (fst (update_row k P f (tab d)), put (snd (update_row k P f (tab d))) d)"
    and col_abs: "col (abs_ledger d) = map_of (tab d)"
    and put_same: "put (tab d) d = d"
    and put_abs: "abs_ledger (put t d) = set_col (map_of t) (abs_ledger d)"
    and put_claims: "bd_dedup (put t d) = bd_dedup d" "bd_archive (put t d) = bd_archive d"
begin

lemma upd_missing:
  "(\<And>row. col (abs_ledger d) k = Some row \<Longrightarrow> \<not> P row) \<Longrightarrow> upd k P f d = (Inr None, d)"
  by (auto simp: upd_eq col_abs put_same update_row_def split: option.splits)

lemma upd_failed:
  "col (abs_ledger d) k = Some row \<Longrightarrow> P row \<Longrightarrow> f row = Inl e \<Longrightarrow> upd k P f d = (Inl e, d)"
  by (simp add: upd_eq col_abs put_same update_row_def)

lemma upd_done:
  "col (abs_ledger d) k = Some row \<Longrightarrow> P row \<Longrightarrow> f row = Inr row' \<Longrightarrow> \<exists>d'. upd k P f d = (Inr (Some row'), d') \<and>
     abs_ledger d' = set_col ((col (abs_ledger d))(k \<mapsto> row')) (abs_ledger d) \<and>
     bd_dedup d' = bd_dedup d \<and> bd_archive d' = bd_archive d"
  by (simp add: upd_eq col_abs put_abs put_claims update_row_def update_conv')

lemma exec_cases:
  assumes "sql_exec (with_numeric E x (\<lambda>a. upd k (P a) (f a))) w = (r, w')"
  obtains
    (Failed) e where "r = Inl e" "wd_db w' = wd_db w"
      "healthy w \<Longrightarrow> be_numeric E x = Inl e \<or> (\<exists>a row. be_numeric E x = Inr a \<and>
         col (world_ledger w) k = Some row \<and> P a row \<and> f a row = Inl e)"
  | (Missing) a where "r = Inr None" "wd_db w' = wd_db w" "be_numeric E x = Inr a"
      "\<And>row. col (world_ledger w) k = Some row \<Longrightarrow> \<not> P a row"
  | (Updated) a row row' where "r = Inr (Some row')" "be_numeric E x = Inr a"
      "col (world_ledger w) k = Some row" "P a row" "f a row = Inr row'"
      "world_ledger w' = set_col ((col (world_ledger w))(k \<mapsto> row')) (world_ledger w)"
      "bd_dedup (wd_db w') = bd_dedup (wd_db w)" "bd_archive (wd_db w') = bd_archive (wd_db w)"
proof (cases "wd_fault w (wd_stmt w)")
  case (Some e)
  then have "r = Inl e" "wd_db w' = wd_db w" "\<not> healthy w"
    using assms by (auto simp: sql_exec_def healthy_def Let_def)
  then show thesis using that(1) by blast
next
  case None
  then have x: "with_numeric E x (\<lambda>a. upd k (P a) (f a)) (wd_db w) = (r, wd_db w')"
    using assms by (auto simp: sql_exec_def Let_def split: prod.splits)
  show thesis
  proof (cases "be_numeric E x")
    case (Inl e)
    then have "r = Inl e" "wd_db w' = wd_db w" using x by (auto simp: with_numeric_def)
    then show thesis using that(1) Inl by blast
  next
    case (Inr a)
    then have u: "upd k (P a) (f a) (wd_db w) = (r, wd_db w')" using x by (simp add: with_numeric_def)
    show thesis
    proof (cases "\<exists>row. col (world_ledger w) k = Some row \<and> P a row")
      case False
      then have "r = Inr None" "wd_db w' = wd_db w"
        using u upd_missing [of "wd_db w" k "P a" "f a"] by auto
      then show thesis using that(2) Inr False by blast
    next
      case True
      then obtain row where row: "col (world_ledger w) k = Some row" "P a row" by blast
      show thesis
      proof (cases "f a row")
        case (Inl e)
        then have "r = Inl e" "wd_db w' = wd_db w" using u upd_failed row by auto
        then show thesis using that(1) row Inl \<open>be_numeric E x = Inr a\<close> by blast
      next
        case (Inr row')
        obtain d' where "upd k (P a) (f a) (wd_db w) = (Inr (Some row'), d')"
          "abs_ledger d' = set_col ((col (world_ledger w))(k \<mapsto> row')) (world_ledger w)"
          "bd_dedup d' = bd_dedup (wd_db w)" "bd_archive d' = bd_archive (wd_db w)"
          using upd_done [of "wd_db w" k row "P a" "f a" row'] row Inr by auto
        then show thesis using that(3) row Inr \<open>be_numeric E x = Inr a\<close> u by auto
      qed
    qed
  qed
qed

end

interpretation users: billing_table update_users bd_users "\<lambda>t d. d\<lparr>bd_users := t\<rparr>" lg_users "\<lambda>m L. L\<lparr>lg_users := m\<rparr>"
  by unfold_locales (simp_all add: update_users_def abs_ledger_def Let_def split: prod.splits)

interpretation keys: billing_table update_keys bd_keys "\<lambda>t d. d\<lparr>bd_keys := t\<rparr>" lg_keys "\<lambda>m L. L\<lparr>lg_keys := m\<rparr>"
  by unfold_locales (simp_all add: update_keys_def abs_ledger_def Let_def split: prod.splits)

interpretation subs: billing_table update_subs bd_subs "\<lambda>t d. d\<lparr>bd_subs := t\<rparr>" lg_subs "\<lambda>m L. L\<lparr>lg_subs := m\<rparr>"
  by unfold_locales (simp_all add: update_subs_def abs_ledger_def Let_def split: prod.splits)

interpretation accounts: billing_table update_accounts bd_accounts "\<lambda>t d. d\<lparr>bd_accounts := t\<rparr>" lg_accounts "\<lambda>m L. L\<lparr>lg_accounts := m\<rparr>"
  by unfold_locales (simp_all add: update_accounts_def abs_ledger_def Let_def split: prod.splits)


section \<open>Implementing an effect\<close>

text \<open>
  A piece of code implements an effect on the ledger: when it returns, the effect took place; on a
  database without faults, when it fails the effect is not possible for that reason. It leaves the
  claims alone.
\<close>

definition implements ::
  "(bill_world \<Rightarrow> 'a result \<times> bill_world) \<Rightarrow> (ledger \<Rightarrow> ledger result) \<Rightarrow> bool" where
  "implements f g \<longleftrightarrow> (\<forall>w r w'. f w = (r, w') \<longrightarrow> same_env w w' \<and> wd_tick w' = wd_tick w \<and>
     bd_dedup (wd_db w') = bd_dedup (wd_db w) \<and> bd_archive (wd_db w') = bd_archive (wd_db w) \<and>
     (\<forall>x. r = Inr x \<longrightarrow> g (world_ledger w) = Inr (world_ledger w')) \<and>
     (healthy w \<longrightarrow> (\<forall>e. r = Inl e \<longrightarrow> g (world_ledger w) = Inl e)))"

lemma and_then_simps [simp]:
  "and_then (Inl e) f = Inl e" "and_then (Inr x) f = f x"
  by (simp_all add: and_then_def)

lemma implementsI:
  assumes "\<And>w r w'. f w = (r, w') \<Longrightarrow> same_env w w' \<and> wd_tick w' = wd_tick w"
    and "\<And>w r w'. f w = (r, w') \<Longrightarrow>
      bd_dedup (wd_db w') = bd_dedup (wd_db w) \<and> bd_archive (wd_db w') = bd_archive (wd_db w)"
    and "\<And>w x w'. f w = (Inr x, w') \<Longrightarrow> g (world_ledger w) = Inr (world_ledger w')"
    and "\<And>w e w'. f w = (Inl e, w') \<Longrightarrow> healthy w \<Longrightarrow> g (world_ledger w) = Inl e"
  shows "implements f g"
  unfolding implements_def using assms by blast

lemma implementsD:
  assumes "implements f g" and "f w = (r, w')"
  shows "same_env w w'" "wd_tick w' = wd_tick w" "bd_dedup (wd_db w') = bd_dedup (wd_db w)"
    "bd_archive (wd_db w') = bd_archive (wd_db w)"
    "r = Inr x \<Longrightarrow> g (world_ledger w) = Inr (world_ledger w')"
    "r = Inl e \<Longrightarrow> healthy w \<Longrightarrow> g (world_ledger w) = Inl e"
  using assms unfolding implements_def by blast+

lemma implements_return: "implements (\<lambda>w. (Inr x, w)) (\<lambda>L. Inr L)"
  by (simp add: implements_def)

lemma implements_fail: "implements (\<lambda>w. (Inl e, w)) (\<lambda>L. Inl e)"
  by (simp add: implements_def)

lemma implements_seq:
  assumes f: "implements f g" and h: "\<And>x. implements (h x) k"
  shows "implements (\<lambda>w. case f w of (Inl e, w) \<Rightarrow> (Inl e, w) | (Inr x, w) \<Rightarrow> h x w) (\<lambda>L. and_then (g L) k)"
    (is "implements ?s _")
  unfolding implements_def
proof (intro allI impI)
  fix w r w'
  assume s: "?s w = (r, w')"
  show "same_env w w' \<and> wd_tick w' = wd_tick w \<and> bd_dedup (wd_db w') = bd_dedup (wd_db w) \<and>
     bd_archive (wd_db w') = bd_archive (wd_db w) \<and>
     (\<forall>x. r = Inr x \<longrightarrow> and_then (g (world_ledger w)) k = Inr (world_ledger w')) \<and>
     (healthy w \<longrightarrow> (\<forall>e. r = Inl e \<longrightarrow> and_then (g (world_ledger w)) k = Inl e))"
  proof (cases "f w")
    case (Pair r1 w1)
    note F = implementsD [OF f Pair]
    show ?thesis
    proof (cases r1)
      case (Inl e)
      then show ?thesis using s Pair F by auto
    next
      case (Inr x)
      then have h1: "h x w1 = (r, w')" using s Pair by simp
      note H = implementsD [OF h h1]
      have "same_env w w'" using F(1) H(1) by (rule same_env_trans)
      then show ?thesis using F H same_env_healthy [OF F(1)] Inr by auto
    qed
  qed
qed

lemma implements_charge_steps:
  assumes "list_all2 (\<lambda>f g. \<forall>res. implements (f res) g) fs gs"
  shows "implements (charge_steps fs res) (\<lambda>L. foldl and_then (Inr L) gs)"
proof -
  have Inl: "foldl and_then (Inl e) gs = Inl e" for e :: go_error and gs :: "(ledger \<Rightarrow> ledger result) list"
    by (induction gs) auto
  have "implements (charge_steps fs res) (\<lambda>L. foldl and_then (Inr L) gs)" for res
    using assms
  proof (induction fs gs arbitrary: res rule: list_all2_induct)
    case Nil
    then show ?case by (simp add: implements_def)
  next
    case (Cons f fs g gs)
    have "implements (\<lambda>w. case f res w of (Inl e, w) \<Rightarrow> (Inl e, w) | (Inr x, w) \<Rightarrow> charge_steps fs x w)
        (\<lambda>L. and_then (g L) (\<lambda>L. foldl and_then (Inr L) gs))"
      using Cons by (intro implements_seq) auto
    moreover have "and_then (g L) (\<lambda>L. foldl and_then (Inr L) gs) = foldl and_then (Inr L) (g # gs)" for L
      using Inl by (cases "g L") auto
    ultimately show ?case by (simp add: fun_eq_iff [symmetric])
  qed
  then show ?thesis .
qed


context billing_table
begin

lemma exec_implements:
  "implements (\<lambda>w. case sql_exec (with_numeric E x (\<lambda>a. upd k (P a) (f a))) w of
       (Inl e, w) \<Rightarrow> (Inl e, w) | (Inr None, w) \<Rightarrow> (Inl missing, w) | (Inr (Some row), w) \<Rightarrow> (Inr (res row), w))
     (\<lambda>L. and_then (be_numeric E x) (\<lambda>a. and_then (amend k (P a) (f a) missing (col L)) (\<lambda>m. Inr (set_col m L))))"
  unfolding implements_def
proof (intro allI impI, goal_cases)
  case (1 w r w')
  obtain q where q: "sql_exec (with_numeric E x (\<lambda>a. upd k (P a) (f a))) w = (q, w')"
    using 1 by (auto split: prod.splits sum.splits option.splits)
  have env: "same_env w w' \<and> wd_tick w' = wd_tick w" using sql_exec_D [OF q] by simp
  show ?case
    using q
  proof (cases rule: exec_cases)
    case (Failed e)
    then show ?thesis using 1 q env by (auto simp: amend_def)
  next
    case (Missing a)
    then show ?thesis using 1 q env by (auto simp: amend_def split: option.splits)
  next
    case (Updated a row row')
    then show ?thesis using 1 q env by (auto simp: amend_def)
  qed
qed

end

lemmas amend_defs = amend_user_def amend_key_def amend_sub_def amend_account_def

lemma charge_subscription_implements:
  "implements (charge_subscription E cmd res) (\<lambda>L. case uc_SubscriptionID cmd of None \<Rightarrow> Inr L
     | Some s \<Rightarrow> cost_step E (uc_SubscriptionCost cmd) (\<lambda>a. amend_sub s (add_usage a)) L)"
proof (cases "f_less f_zero (uc_SubscriptionCost cmd) \<and> uc_SubscriptionID cmd \<noteq> None")
  case True
  then obtain s where s: "uc_SubscriptionID cmd = Some s" "f_less f_zero (uc_SubscriptionCost cmd)" by auto
  have "charge_subscription E cmd res = (\<lambda>w. case sql_exec (with_numeric E (uc_SubscriptionCost cmd)
        (\<lambda>a. update_subs s (\<lambda>r. \<not> sr_deleted r) (add_usage a))) w of
      (Inl e, w) \<Rightarrow> (Inl e, w) | (Inr None, w) \<Rightarrow> (Inl ErrSubscriptionNotFound, w) | (Inr (Some row), w) \<Rightarrow> (Inr res, w))"
    using s by (auto simp: fun_eq_iff charge_subscription_def incrementUsageBillingSubscription_def
        split: prod.splits sum.splits option.splits)
  then show ?thesis using s subs.exec_implements
    by (simp add: cost_step_def amend_defs)
next
  case False
  then show ?thesis
    by (auto simp: charge_subscription_def cost_step_def implements_def split: option.splits)
qed

lemma charge_key_rate_implements:
  "implements (charge_key_rate E now cmd res)
     (cost_step E (uc_APIKeyRateLimitCost cmd) (\<lambda>a. amend_key (uc_APIKeyID cmd) (add_rate_limit E now a)))"
proof (cases "f_less f_zero (uc_APIKeyRateLimitCost cmd)")
  case True
  then have "charge_key_rate E now cmd res = (\<lambda>w. case sql_exec (with_numeric E (uc_APIKeyRateLimitCost cmd)
        (\<lambda>a. update_keys (uc_APIKeyID cmd) (\<lambda>r. \<not> kr_deleted r) (add_rate_limit E now a))) w of
      (Inl e, w) \<Rightarrow> (Inl e, w) | (Inr None, w) \<Rightarrow> (Inl ErrAPIKeyNotFound, w) | (Inr (Some row), w) \<Rightarrow> (Inr res, w))"
    by (auto simp: fun_eq_iff charge_key_rate_def incrementUsageBillingAPIKeyRateLimit_def
        split: prod.splits sum.splits option.splits)
  then show ?thesis using True keys.exec_implements by (simp add: cost_step_def [abs_def] amend_defs)
qed (simp add: charge_key_rate_def cost_step_def implements_def)


text \<open>The two statements of a deduction amount to one: the balance may become negative.\<close>

lemma charge_balance_implements:
  "implements (charge_balance E cmd res)
     (cost_step E (uc_BalanceCost cmd) (\<lambda>a. amend_user (uc_UserID cmd) (deduct_balance a)))"
proof (cases "f_less f_zero (uc_BalanceCost cmd)")
  case True
  let ?x = "uc_BalanceCost cmd" and ?u = "uc_UserID cmd"
  let ?first = "with_numeric E ?x (\<lambda>a. update_users ?u (\<lambda>r. \<not> ur_deleted r \<and> a \<le> ur_balance r) (deduct_balance a))"
  let ?second = "with_numeric E ?x (\<lambda>a. update_users ?u (\<lambda>r. \<not> ur_deleted r) (deduct_balance a))"
  let ?after = "\<lambda>w. case sql_exec ?second w of (Inl e, w) \<Rightarrow> (Inl e, w)
      | (Inr None, w) \<Rightarrow> (Inl ErrUserNotFound, w)
      | (Inr (Some r), w) \<Rightarrow> (Inr (res\<lparr>ua_NewBalance := Some (round64 (ur_balance r)), ua_BalanceOverdrafted := True\<rparr>), w)"
  let ?g = "\<lambda>L. and_then (be_numeric E ?x) (\<lambda>a. amend_user ?u (deduct_balance a) L)"
  have after: "implements ?after ?g"
    using users.exec_implements [where P = "\<lambda>a r. \<not> ur_deleted r"] by (simp add: amend_defs)
  show ?thesis
    unfolding implements_def
  proof (intro allI impI, goal_cases)
    case (1 w r w')
    obtain q w1 where q: "sql_exec ?first w = (q, w1)" by fastforce
    have g: "cost_step E ?x (\<lambda>a. amend_user ?u (deduct_balance a)) = ?g"
      using True by (simp add: cost_step_def fun_eq_iff)
    have env: "same_env w w1 \<and> wd_tick w1 = wd_tick w" using sql_exec_D [OF q] by simp
    have run: "charge_balance E cmd res w = (case q of Inl e \<Rightarrow> (Inl e, w1)
        | Inr (Some r) \<Rightarrow> (Inr (res\<lparr>ua_NewBalance := Some (round64 (ur_balance r)), ua_BalanceOverdrafted := False\<rparr>), w1)
        | Inr None \<Rightarrow> ?after w1)"
      using True q by (auto simp: charge_balance_def deductUsageBillingBalance_def
          split: sum.splits option.splits prod.splits)
    show ?case
      using q
    proof (cases rule: users.exec_cases)
      case (Failed e)
      then show ?thesis using 1 run env unfolding g by (auto simp: amend_def amend_defs)
    next
      case (Missing a)
      then have w1: "?after w1 = (r, w')" using 1 run by simp
      note A = implementsD [OF after w1]
      have "same_env w w'" using env A(1) same_env_trans by blast
      then show ?thesis using A env Missing(2) same_env_healthy [of w w1] unfolding g by auto
    next
      case (Updated a row row')
      then show ?thesis using 1 run env unfolding g by (auto simp: amend_def amend_defs)
    qed
  qed
qed (simp add: charge_balance_def cost_step_def implements_def)

lemma charge_key_quota_implements:
  "implements (charge_key_quota E cmd res)
     (cost_step E (uc_APIKeyQuotaCost cmd) (\<lambda>a. amend_key (uc_APIKeyID cmd) (add_quota a)))"
proof (cases "f_less f_zero (uc_APIKeyQuotaCost cmd)")
  case True
  let ?x = "uc_APIKeyQuotaCost cmd" and ?k = "uc_APIKeyID cmd"
  let ?crossed = "case be_numeric E ?x of Inl e \<Rightarrow> (\<lambda>row. False) | Inr a \<Rightarrow> quota_crossed a"
  have "with_numeric E ?x (\<lambda>a d. case update_keys ?k (\<lambda>r. \<not> kr_deleted r) (add_quota a) d of
          (Inl e, d) \<Rightarrow> (Inl e, d) | (Inr row, d) \<Rightarrow> (Inr (map_option (quota_crossed a) row), d)) d =
        (case with_numeric E ?x (\<lambda>a. update_keys ?k (\<lambda>r. \<not> kr_deleted r) (add_quota a)) d of
          (Inl e, d) \<Rightarrow> (Inl e, d) | (Inr row, d) \<Rightarrow> (Inr (map_option ?crossed row), d))" for d
    by (simp add: with_numeric_def split: sum.splits)
  then have "sql_exec (with_numeric E ?x (\<lambda>a d. case update_keys ?k (\<lambda>r. \<not> kr_deleted r) (add_quota a) d of
          (Inl e, d) \<Rightarrow> (Inl e, d) | (Inr row, d) \<Rightarrow> (Inr (map_option (quota_crossed a) row), d))) w =
        (case sql_exec (with_numeric E ?x (\<lambda>a. update_keys ?k (\<lambda>r. \<not> kr_deleted r) (add_quota a))) w of
          (Inl e, w) \<Rightarrow> (Inl e, w) | (Inr row, w) \<Rightarrow> (Inr (map_option ?crossed row), w))" for w
    by (simp add: sql_exec_def Let_def split: option.splits prod.splits sum.splits)
  then have "charge_key_quota E cmd res = (\<lambda>w. case sql_exec (with_numeric E ?x
        (\<lambda>a. update_keys ?k (\<lambda>r. \<not> kr_deleted r) (add_quota a))) w of
      (Inl e, w) \<Rightarrow> (Inl e, w) | (Inr None, w) \<Rightarrow> (Inl ErrAPIKeyNotFound, w)
    | (Inr (Some row), w) \<Rightarrow> (Inr (res\<lparr>ua_APIKeyQuotaExhausted := ?crossed row\<rparr>), w))"
    using True by (simp add: fun_eq_iff charge_key_quota_def incrementUsageBillingAPIKeyQuota_def
        split: prod.splits sum.splits option.splits)
  then show ?thesis using True keys.exec_implements by (simp add: cost_step_def [abs_def] amend_defs)
qed (simp add: charge_key_quota_def cost_step_def implements_def)


lemma enqueue_implements:
  "implements (\<lambda>w. case enqueueSchedulerOutbox E SchedulerOutboxEventAccountChanged (Some k) None None w of
       (Some e, w) \<Rightarrow> (Inl e, w) | (None, w) \<Rightarrow> (Inr x, w))
     (\<lambda>L. Inr (announce E k L))"
  unfolding implements_def
  by (auto simp: enqueueSchedulerOutbox_def sql_exec_def announce_def abs_ledger_def same_env_def healthy_def
      schedulerOutboxEventSupportsDedup_def Let_def split: option.splits prod.splits sum.splits if_splits)

lemma account_quota_implements:
  "implements (incrementUsageBillingAccountQuota E now k amount)
     (\<lambda>L. and_then (be_numeric E amount) (\<lambda>a. ledger_account E now k amount a L))"
proof -
  let ?upd = "\<lambda>w. case sql_exec (with_numeric E amount (\<lambda>a. update_accounts k (\<lambda>r. \<not> ar_deleted r)
      (\<lambda>r. Inr (add_account_quota E now a r)))) w of
    (Inl e, w) \<Rightarrow> (Inl e, w) | (Inr None, w) \<Rightarrow> (Inl ErrAccountNotFound, w) | (Inr (Some row), w) \<Rightarrow> (Inr row, w)"
  let ?rest = "\<lambda>row w. if crosses_limit amount row
    then (case enqueueSchedulerOutbox E SchedulerOutboxEventAccountChanged (Some k) None None w of
       (Some e, w) \<Rightarrow> (Inl e, w) | (None, w) \<Rightarrow> (Inr (quota_state row), w))
    else (Inr (quota_state row), w)"
  let ?g = "\<lambda>L. and_then (be_numeric E amount) (\<lambda>a. amend_account k (\<lambda>r. Inr (add_account_quota E now a r)) L)"
  have upd: "implements ?upd ?g"
    using accounts.exec_implements [where P = "\<lambda>a r. \<not> ar_deleted r" and res = "\<lambda>row. row"
        and f = "\<lambda>a r. Inr (add_account_quota E now a r)"] by (simp add: amend_defs)
  have row: "lg_accounts (world_ledger w') k = Some row" if "?upd w = (Inr row, w')" for w row w'
  proof -
    have "sql_exec (with_numeric E amount (\<lambda>a. update_accounts k (\<lambda>r. \<not> ar_deleted r)
      (\<lambda>r. Inr (add_account_quota E now a r)))) w = (Inr (Some row), w')"
      using that by (auto split: prod.splits sum.splits option.splits)
    then show ?thesis by (cases rule: accounts.exec_cases) auto
  qed
  have split: "incrementUsageBillingAccountQuota E now k amount w =
      (case ?upd w of (Inl e, w) \<Rightarrow> (Inl e, w) | (Inr row, w) \<Rightarrow> ?rest row w)" for w
    by (simp add: incrementUsageBillingAccountQuota_def crosses_limit_def Let_def
        split: prod.splits sum.splits option.splits)
  show ?thesis
    unfolding implements_def split
  proof (intro allI impI, goal_cases)
    case (1 w r w')
    obtain r1 w1 where w1: "?upd w = (r1, w1)" by fastforce
    note U = implementsD [OF upd w1]
    show ?case
    proof (cases r1)
      case (Inl e)
      then show ?thesis using 1 w1 U by (auto simp: ledger_account_def and_then_def split: sum.splits)
    next
      case (Inr row1)
      have g: "and_then (be_numeric E amount) (\<lambda>a. ledger_account E now k amount a (world_ledger w)) =
          Inr (if crosses_limit amount row1 then announce E k (world_ledger w1) else world_ledger w1)"
        using U(5) [OF Inr] row [of w row1 w1] w1 Inr
        by (auto simp: ledger_account_def and_then_def split: sum.splits)
      show ?thesis
      proof (cases "crosses_limit amount row1")
        case True
        have w': "(case enqueueSchedulerOutbox E SchedulerOutboxEventAccountChanged (Some k) None None w1 of
            (Some e, w) \<Rightarrow> (Inl e, w) | (None, w) \<Rightarrow> (Inr (quota_state row1), w)) = (r, w')"
          using 1 w1 Inr True by simp
        note Q = implementsD [OF enqueue_implements w']
        have "same_env w w'" using U(1) Q(1) by (rule same_env_trans)
        then show ?thesis using U Q g True same_env_healthy [OF U(1)] by auto
      next
        case False
        then show ?thesis using 1 w1 Inr U g by auto
      qed
    qed
  qed
qed

lemma charge_account_implements:
  "implements (charge_account E now cmd res) (\<lambda>L. if billed_account E cmd
     then cost_step E (uc_AccountQuotaCost cmd) (ledger_account E now (uc_AccountID cmd) (uc_AccountQuotaCost cmd)) L
     else Inr L)"
proof (cases "f_less f_zero (uc_AccountQuotaCost cmd) \<and> billed_account E cmd")
  case True
  have "implements (\<lambda>w. case incrementUsageBillingAccountQuota E now (uc_AccountID cmd) (uc_AccountQuotaCost cmd) w of
      (Inl e, w) \<Rightarrow> (Inl e, w) | (Inr state, w) \<Rightarrow> (Inr (res\<lparr>ua_QuotaState := Some state\<rparr>), w))
    (\<lambda>L. and_then (and_then (be_numeric E (uc_AccountQuotaCost cmd))
       (\<lambda>a. ledger_account E now (uc_AccountID cmd) (uc_AccountQuotaCost cmd) a L)) Inr)"
    by (rule implements_seq [OF account_quota_implements implements_return])
  moreover have "and_then r Inr = r" for r :: "ledger result" by (cases r) auto
  ultimately show ?thesis
    using True by (simp add: charge_account_def [abs_def] billed_account_def cost_step_def)
qed (auto simp: charge_account_def billed_account_def cost_step_def implements_def)

lemma applyUsageBillingEffects_implements:
  "implements (applyUsageBillingEffects E now cmd res) (ledger_charge E now cmd)"
proof -
  have "implements (applyUsageBillingEffects E now cmd res) (\<lambda>L. foldl and_then (Inr L)
      [\<lambda>L. case uc_SubscriptionID cmd of None \<Rightarrow> Inr L
         | Some s \<Rightarrow> cost_step E (uc_SubscriptionCost cmd) (\<lambda>a. amend_sub s (add_usage a)) L,
       cost_step E (uc_BalanceCost cmd) (\<lambda>a. amend_user (uc_UserID cmd) (deduct_balance a)),
       cost_step E (uc_APIKeyQuotaCost cmd) (\<lambda>a. amend_key (uc_APIKeyID cmd) (add_quota a)),
       cost_step E (uc_APIKeyRateLimitCost cmd) (\<lambda>a. amend_key (uc_APIKeyID cmd) (add_rate_limit E now a)),
       \<lambda>L. if billed_account E cmd
         then cost_step E (uc_AccountQuotaCost cmd) (ledger_account E now (uc_AccountID cmd) (uc_AccountQuotaCost cmd)) L
         else Inr L])"
    unfolding applyUsageBillingEffects_def
    by (rule implements_charge_steps)
      (simp add: charge_subscription_implements charge_balance_implements charge_key_quota_implements
        charge_key_rate_implements charge_account_implements)
  moreover have "and_then (and_then a f) g = and_then a (\<lambda>x. and_then (f x) g)"
    for a :: "ledger result" and f g :: "ledger \<Rightarrow> ledger result" by (cases a) auto
  ultimately show ?thesis by (simp add: ledger_charge_def [abs_def])
qed


lemma hold_refused_run:
  assumes "hold_refused u err w = (r, w')"
  shows "same_env w w'" "wd_tick w' = wd_tick w" "wd_db w' = wd_db w" "\<exists>e. r = Inl e"
    "healthy w \<Longrightarrow> r = Inl (case lg_users (world_ledger w) u of
       None \<Rightarrow> ErrUserNotFound | Some row \<Rightarrow> if ur_deleted row then ErrUserNotFound else err)"
  using assms by (auto simp: hold_refused_def userExistsForBilling_def sql_exec_def same_env_def healthy_def
      abs_ledger_def Let_def split: option.splits bool.splits if_splits)

lemma hold_update_implements:
  "implements (\<lambda>w. case sql_exec (with_numeric E x (\<lambda>a. update_users u (\<lambda>r. \<not> ur_deleted r \<and> Q a r) (f a))) w of
       (Inl e, w) \<Rightarrow> (Inl e, w) | (Inr (Some r), w) \<Rightarrow> (Inr (hold_result r), w)
     | (Inr None, w) \<Rightarrow> hold_refused u err w)
   (\<lambda>L. and_then (be_numeric E x) (\<lambda>a. amend_user u (\<lambda>r. if Q a r then f a r else Inl err) L))"
  unfolding implements_def
proof (intro allI impI, goal_cases)
  case (1 w r w')
  obtain q w1 where q: "sql_exec (with_numeric E x (\<lambda>a. update_users u (\<lambda>r. \<not> ur_deleted r \<and> Q a r) (f a))) w = (q, w1)"
    by fastforce
  have env: "same_env w w1 \<and> wd_tick w1 = wd_tick w" using sql_exec_D [OF q] by simp
  show ?case
    using q
  proof (cases rule: users.exec_cases)
    case (Failed e)
    then show ?thesis using 1 q env by (auto simp: amend_def amend_defs)
  next
    case (Missing a)
    then have "hold_refused u err w1 = (r, w')" using 1 q by simp
    note H = hold_refused_run [OF this]
    have "same_env w w'" using env H(1) same_env_trans by blast
    moreover have "r = Inl e \<Longrightarrow> healthy w \<Longrightarrow>
        and_then (be_numeric E x) (\<lambda>a. amend_user u (\<lambda>r. if Q a r then f a r else Inl err) (world_ledger w)) = Inl e" for e
      using H(5) env Missing same_env_healthy [of w w1]
      by (auto simp: amend_def amend_defs split: option.splits if_splits)
    ultimately show ?thesis using H env Missing(2) by auto
  next
    case (Updated a row row')
    then show ?thesis using 1 q env by (auto simp: amend_def amend_defs)
  qed
qed

lemma reserve_implements:
  "implements (reserveUsageBillingBatchImageBalance E cmd) (ledger_reserve E cmd)"
proof (cases "f_le (hc_HoldAmount cmd) f_zero")
  case False
  then show ?thesis
    using hold_update_implements [where Q = "\<lambda>a r. a \<le> ur_balance r"
        and f = "\<lambda>a r. set_balances (ur_balance r - a) (ur_frozen r + a) r"]
    by (simp add: reserveUsageBillingBatchImageBalance_def [abs_def] ledger_reserve_def [abs_def])
qed (simp add: reserveUsageBillingBatchImageBalance_def ledger_reserve_def implements_def)

lemma with_numeric_read:
  "be_numeric E x = Inr a \<Longrightarrow> with_numeric E x f = f a"
  "be_numeric E x = Inl e \<Longrightarrow> with_numeric E x f = (\<lambda>d. (Inl e, d))"
  by (simp_all add: with_numeric_def fun_eq_iff)

lemma net_refund: "(x :: rat) + (if a < h then h - a else 0) - (if h < a then a - h else 0) = x + (h - a)"
  by simp

lemma capture_implements:
  "implements (captureUsageBillingBatchImageBalance E cmd) (ledger_capture E cmd)"
proof -
  let ?h = "hc_HoldAmount cmd" and ?a = "hc_ActualAmount cmd"
  consider (None) "f_le ?h f_zero \<and> f_le ?a f_zero"
    | (Exceeds) "\<not> (f_le ?h f_zero \<and> f_le ?a f_zero)" "f_less (round64 (1 / 100000000)) (f_sub ?a ?h)"
    | (Update) "\<not> (f_le ?h f_zero \<and> f_le ?a f_zero)" "\<not> f_less (round64 (1 / 100000000)) (f_sub ?a ?h)" by blast
  then show ?thesis
  proof cases
    case None
    then show ?thesis by (simp add: captureUsageBillingBatchImageBalance_def ledger_capture_def implements_def)
  next
    case Exceeds
    then show ?thesis by (auto simp: captureUsageBillingBatchImageBalance_def ledger_capture_def implements_def)
  next
    case Update
    show ?thesis
    proof (cases "be_numeric E ?a")
      case (Inr a)
      then show ?thesis
        using Update hold_update_implements [where Q = "\<lambda>h r. h \<le> ur_frozen r"
            and f = "\<lambda>h r. set_balances (ur_balance r + (h - a)) (ur_frozen r - h) r"]
        unfolding captureUsageBillingBatchImageBalance_def [abs_def] ledger_capture_def [abs_def] net_refund
          if_not_P [OF Update(1)] if_not_P [OF Update(2)]
        by (simp add: with_numeric_read)
    next
      case (Inl e)
      have "implements (\<lambda>w. case sql_exec (with_numeric E ?h (\<lambda>h d. (Inl e, d))) w of
            (Inl e, w) \<Rightarrow> (Inl e, w) | (Inr (Some r), w) \<Rightarrow> (Inr (hold_result r), w)
          | (Inr None, w) \<Rightarrow> hold_refused (hc_UserID cmd) ErrFrozenInsufficient w)
          (\<lambda>L. and_then (be_numeric E ?h) (\<lambda>h. Inl e))"
        by (auto simp: implements_def sql_exec_def with_numeric_def same_env_def healthy_def Let_def
            split: option.splits sum.splits)
      then show ?thesis
        using Update Inl unfolding captureUsageBillingBatchImageBalance_def [abs_def] ledger_capture_def [abs_def]
          if_not_P [OF Update(1)] if_not_P [OF Update(2)]
        by (simp add: with_numeric_read)
    qed
  qed
qed

lemma hold_claim_run:
  assumes "batchImageHoldClaimExists hid k w = (r, w')"
  shows "same_env w w'" "wd_tick w' = wd_tick w" "wd_db w' = wd_db w"
    "r = Inr b \<Longrightarrow> b \<longleftrightarrow> lg_claims (world_ledger w) (hid, k) \<noteq> None" "healthy w \<Longrightarrow> \<exists>b. r = Inr b"
  using assms by (auto simp: batchImageHoldClaimExists_def sql_exec_def same_env_def healthy_def
      abs_ledger_def claims_of_def Let_def split: option.splits bool.splits prod.splits if_splits)

lemma release_implements:
  "implements (releaseUsageBillingBatchImageBalance E cmd) (ledger_release E cmd)"
proof (cases "f_le (hc_HoldAmount cmd) f_zero")
  case False
  let ?k = "(BatchImageHoldRequestID (hc_BatchID cmd), hc_APIKeyID cmd)"
  let ?upd = "\<lambda>w. case sql_exec (with_numeric E (hc_HoldAmount cmd) (\<lambda>a. update_users (hc_UserID cmd)
      (\<lambda>r. \<not> ur_deleted r \<and> a \<le> ur_frozen r) (\<lambda>r. set_balances (ur_balance r + a) (ur_frozen r - a) r))) w of
    (Inl e, w) \<Rightarrow> (Inl e, w) | (Inr (Some r), w) \<Rightarrow> (Inr (hold_result r), w)
  | (Inr None, w) \<Rightarrow> hold_refused (hc_UserID cmd) ErrFrozenInsufficient w"
  note upd = hold_update_implements [where Q = "\<lambda>a r. a \<le> ur_frozen r" and E = E and x = "hc_HoldAmount cmd"
        and u = "hc_UserID cmd" and f = "\<lambda>a r. set_balances (ur_balance r + a) (ur_frozen r - a) r"
        and err = ErrFrozenInsufficient]
  show ?thesis
    unfolding implements_def
  proof (intro allI impI, goal_cases)
    case (1 w r w')
    obtain q w1 where q: "batchImageHoldClaimExists (fst ?k) (snd ?k) w = (q, w1)" by fastforce
    note C = hold_claim_run [OF q]
    show ?case
    proof (cases "q = Inr True")
      case True
      then have w': "?upd w1 = (r, w')"
        using 1 False q by (simp add: releaseUsageBillingBatchImageBalance_def)
      note U = implementsD [OF upd w']
      have "same_env w w'" using C(1) U(1) by (rule same_env_trans)
      then show ?thesis
        using U C(1-3) C(4) [OF True] False same_env_healthy [OF C(1)] by (auto simp: ledger_release_def)
    next
      case False
      then show ?thesis
        using 1 \<open>\<not> f_le (hc_HoldAmount cmd) f_zero\<close> q C
        by (auto simp: releaseUsageBillingBatchImageBalance_def ledger_release_def split: sum.splits bool.splits)
    qed
  qed
qed (simp add: releaseUsageBillingBatchImageBalance_def ledger_release_def implements_def)


section \<open>Claim, effect and commit\<close>

abbreviation claim_in :: "claim_key \<Rightarrow> string \<Rightarrow> ledger \<Rightarrow> ledger" where
  "claim_in k f L \<equiv> L\<lparr>lg_claims := (lg_claims L)(k \<mapsto> f)\<rparr>"

definition fresh_claim :: "claim_key \<Rightarrow> billing_db \<Rightarrow> bool" where
  "fresh_claim k d \<longleftrightarrow> map_of (bd_dedup d) k = None \<and> map_of (bd_archive d) k = None"

lemma fresh_claim_iff: "fresh_claim k d \<longleftrightarrow> lg_claims (abs_ledger d) k = None"
  by (auto simp: fresh_claim_def abs_ledger_def claims_of_def split: option.splits)

lemma abs_ledger_claim:
  "fresh_claim k d \<Longrightarrow> abs_ledger (d\<lparr>bd_dedup := (k, (f, now)) # bd_dedup d\<rparr>) = claim_in k f (abs_ledger d)"
  by (auto simp: abs_ledger_def claims_of_def fun_eq_iff cong: option.case_cong)

lemma claim_run:
  assumes "claimUsageBillingRequest now rid key f w = (r, w')"
  shows "same_env w w'" "wd_tick w' = wd_tick w"
    "r = Inr True \<Longrightarrow> fresh_claim (rid, key) (wd_db w) \<and>
       wd_db w' = (wd_db w)\<lparr>bd_dedup := ((rid, key), (f, now)) # bd_dedup (wd_db w)\<rparr>"
    "r = Inr False \<Longrightarrow> \<exists>g. lg_claims (world_ledger w) (rid, key) = Some g \<and> TrimSpace g = TrimSpace f"
    "r = Inl e \<Longrightarrow> healthy w \<Longrightarrow> e = ErrUsageBillingRequestConflict \<and>
       (\<exists>g. lg_claims (world_ledger w) (rid, key) = Some g \<and> TrimSpace g \<noteq> TrimSpace f)"
  using assms
  by (auto simp: claimUsageBillingRequest_def sql_exec_def same_env_def healthy_def fresh_claim_def
      abs_ledger_def claims_of_def Let_def split: option.splits bool.splits prod.splits if_splits sum.splits)

text \<open>
  What a transaction does under a claim. The body commits exactly when it claimed the key and its
  effect took place.
\<close>

definition claims_effect ::
  "('a \<Rightarrow> bool) \<Rightarrow> claim_key \<Rightarrow> string \<Rightarrow> (go_time \<Rightarrow> ledger \<Rightarrow> ledger result) \<Rightarrow>
   (go_time \<Rightarrow> bill_world \<Rightarrow> ('a \<times> bool) result \<times> bill_world) \<Rightarrow> bool" where
  "claims_effect ap k f g body \<longleftrightarrow> (\<forall>now w r w'. body now w = (r, w') \<longrightarrow> same_env w w' \<and>
     (\<forall>x b. r = Inr (x, b) \<longrightarrow> ap x = b) \<and>
     (\<forall>x. r = Inr (x, True) \<longrightarrow> fresh_claim k (wd_db w) \<and>
        g now (claim_in k f (world_ledger w)) = Inr (world_ledger w') \<and>
        bd_dedup (wd_db w') = (k, (f, now)) # bd_dedup (wd_db w) \<and> bd_archive (wd_db w') = bd_archive (wd_db w)) \<and>
     (\<forall>x. r = Inr (x, False) \<longrightarrow> (\<exists>h. lg_claims (world_ledger w) k = Some h \<and> TrimSpace h = TrimSpace f)) \<and>
     (healthy w \<longrightarrow> (\<forall>e. r = Inl e \<longrightarrow>
        (\<exists>h. lg_claims (world_ledger w) k = Some h \<and> TrimSpace h \<noteq> TrimSpace f \<and> e = ErrUsageBillingRequestConflict) \<or>
        fresh_claim k (wd_db w) \<and> g now (claim_in k f (world_ledger w)) = Inl e)))"

lemma claim_then_effect:
  assumes impl: "\<And>now. implements (eff now) (g now)"
    and none: "\<not> ap none"
    and applied: "\<And>now w x w'. eff now w = (Inr x, w') \<Longrightarrow> ap (fin x)"
  shows "claims_effect ap (rid, key) f g (\<lambda>now w. case claimUsageBillingRequest now rid key f w of
       (Inl e, w) \<Rightarrow> (Inl e, w) | (Inr False, w) \<Rightarrow> (Inr (none, False), w)
     | (Inr True, w) \<Rightarrow> (case eff now w of (Inl e, w) \<Rightarrow> (Inl e, w) | (Inr x, w) \<Rightarrow> (Inr (fin x, True), w)))"
  unfolding claims_effect_def
proof (intro allI impI, goal_cases)
  case (1 now w r w')
  obtain q w1 where q: "claimUsageBillingRequest now rid key f w = (q, w1)" by fastforce
  note C = claim_run [OF q]
  show ?case
  proof (cases "q = Inr True")
    case False
    then show ?thesis using 1 q C none
      by (auto simp: fresh_claim_iff split: sum.splits bool.splits)
  next
    case True
    obtain r2 w2 where e: "eff now w1 = (r2, w2)" by fastforce
    have w2: "w2 = w'" and r: "r = (case r2 of Inl e \<Rightarrow> Inl e | Inr x \<Rightarrow> Inr (fin x, True))"
      using 1 q e True by (auto split: sum.splits)
    note I = implementsD [OF impl e]
    have fresh: "fresh_claim (rid, key) (wd_db w)"
      and L1: "world_ledger w1 = claim_in (rid, key) f (world_ledger w)"
      and d1: "bd_dedup (wd_db w1) = ((rid, key), (f, now)) # bd_dedup (wd_db w)"
        "bd_archive (wd_db w1) = bd_archive (wd_db w)"
      using C(3) [OF True] by (auto simp: abs_ledger_claim)
    have env: "same_env w w'" using C(1) I(1) w2 same_env_trans by blast
    have ap: "r2 = Inr x \<Longrightarrow> ap (fin x)" for x using applied e by blast
    show ?thesis
      using env fresh I(3-6) L1 d1 w2 r ap same_env_healthy [OF C(1)]
      by (cases r2) auto
  qed
qed

lemma nothing_run:
  assumes "sql_exec nothing v = (s, v')"
  shows "same_env v v'" "wd_db v' = wd_db v" "now_of v' = now_of v" "healthy v \<Longrightarrow> s = Inr ()"
  using assms by (auto simp: sql_exec_def nothing_def same_env_def healthy_def Let_def now_of_def split: option.splits)

lemma same_env_rollback [simp]: "same_env w (rollback d w') = same_env w w'"
  by (simp add: same_env_def rollback_def)

lemma wd_db_rollback [simp]: "wd_db (rollback d w) = d"
  by (simp add: rollback_def)

lemma with_tx_env:
  assumes body: "claims_effect ap k f g body" and run: "with_tx E body w = (r, w')"
  shows "same_env w w'"
proof -
  obtain s w0 where w0: "sql_exec nothing w = (s, w0)" by fastforce
  obtain q w1 where q: "body (now_of w0) (tick w0) = (q, w1)" by fastforce
  obtain t w2 where t: "sql_exec nothing w1 = (t, w2)" by fastforce
  have "same_env (tick w0) w1" using body q unfolding claims_effect_def by blast
  then have w1: "same_env w w1" using nothing_run(1) [OF w0] same_env_tick same_env_trans by blast
  then have "same_env w w2" using nothing_run(1) [OF t] same_env_trans by blast
  then show ?thesis using w1 nothing_run(1) [OF w0] run w0 q t
    by (auto simp: with_tx_def split: sum.splits prod.splits bool.splits if_splits)
qed

lemma with_tx_cases:
  assumes body: "claims_effect ap k f g body" and run: "with_tx E body w = (r, w')"
  obtains
    (Undone) "wd_db w' = wd_db w"
      "\<And>x. r = Inr x \<Longrightarrow> \<not> ap x \<and> (\<exists>h. lg_claims (world_ledger w) k = Some h \<and> TrimSpace h = TrimSpace f)"
      "\<And>e. r = Inl e \<Longrightarrow> healthy w \<Longrightarrow>
        (\<exists>h. lg_claims (world_ledger w) k = Some h \<and> TrimSpace h \<noteq> TrimSpace f \<and> e = ErrUsageBillingRequestConflict) \<or>
        fresh_claim k (wd_db w) \<and> g (now_of w) (claim_in k f (world_ledger w)) = Inl e"
  | (Done) "fresh_claim k (wd_db w)" "g (now_of w) (claim_in k f (world_ledger w)) = Inr (world_ledger w')"
      "bd_dedup (wd_db w') = (k, (f, now_of w)) # bd_dedup (wd_db w)" "bd_archive (wd_db w') = bd_archive (wd_db w)"
      "\<And>x. r = Inr x \<Longrightarrow> ap x" "healthy w \<Longrightarrow> \<exists>x. r = Inr x"
proof -
  obtain s w0 where w0: "sql_exec nothing w = (s, w0)" by fastforce
  note B = nothing_run [OF w0]
  show thesis
  proof (cases s)
    case (Inl e0)
    then have "r = Inl e0" "w' = w0" using run w0 by (auto simp: with_tx_def)
    then show thesis using B Inl by (intro that(1)) auto
  next
    case (Inr u)
    obtain q w1 where q: "body (now_of w0) (tick w0) = (q, w1)" by fastforce
    note K = body [unfolded claims_effect_def, rule_format, OF q]
    have h0: "healthy w \<Longrightarrow> healthy (tick w0)" using B(1) same_env_healthy by auto
    show thesis
    proof (cases "\<exists>y. q = Inr (y, True)")
      case False
      have "w' = rollback (wd_db w) w1" "r = (case q of Inl e \<Rightarrow> Inl e | Inr (x, b) \<Rightarrow> Inr x)"
        using run w0 Inr q False B by (auto simp: with_tx_def split: sum.splits prod.splits bool.splits)
      then show thesis using K False B h0 by (intro that(1)) (auto split: sum.splits prod.splits)
    next
      case True
      then obtain y where y: "q = Inr (y, True)" by blast
      obtain t w2 where t: "sql_exec nothing w1 = (t, w2)" by fastforce
      note T = nothing_run [OF t]
      have w': "w' = (if t = Inr () \<or> be_lost E (wd_stmt w1) then w2 else rollback (wd_db w) w2)"
        and r: "r = (case t of Inl e \<Rightarrow> Inl e | Inr _ \<Rightarrow> Inr y)"
        using run w0 Inr q y t B by (auto simp: with_tx_def split: sum.splits)
      have h1: "healthy w \<Longrightarrow> t = Inr ()" using h0 K T(4) same_env_healthy by blast
      show thesis
      proof (cases "t = Inr () \<or> be_lost E (wd_stmt w1)")
        case True
        then show thesis using K y T w' r B h1 by (intro that(2)) (auto split: sum.splits)
      next
        case False
        then show thesis using w' r h1 by (intro that(1)) (auto split: sum.splits)
      qed
    qed
  qed
qed


lemma charge_steps_applied:
  assumes "charge_steps fs res w = (Inr res', w')" and "ua_Applied res"
    and "\<And>f res w res' w'. f \<in> set fs \<Longrightarrow> f res w = (Inr res', w') \<Longrightarrow> ua_Applied res \<Longrightarrow> ua_Applied res'"
  shows "ua_Applied res'"
  using assms
proof (induction fs arbitrary: res w)
  case (Cons f fs)
  obtain q w1 where f: "f res w = (q, w1)" by fastforce
  then obtain res1 where q: "q = Inr res1" using Cons.prems(1) by (cases q) auto
  have "ua_Applied res1" by (rule Cons.prems(3) [of f res w]) (use f q Cons.prems(2) in auto)
  then show ?case
  proof (rule Cons.IH [rotated])
    show "charge_steps fs res1 w1 = (Inr res', w')" using Cons.prems(1) f q by simp
    show "ua_Applied b" if "h \<in> set fs" "h a v = (Inr b, v')" "ua_Applied a" for h a v b v'
      using Cons.prems(3) [of h a v b v'] that by simp
  qed
qed simp

lemma applyUsageBillingEffects_applied:
  assumes "applyUsageBillingEffects E now cmd (no_apply_result\<lparr>ua_Applied := True\<rparr>) w = (Inr res, w')"
  shows "ua_Applied res"
  using assms unfolding applyUsageBillingEffects_def
proof (rule charge_steps_applied)
  fix f res w res' w'
  assume f: "f \<in> set [charge_subscription E cmd, charge_balance E cmd, charge_key_quota E cmd,
       charge_key_rate E now cmd, charge_account E now cmd]" "f res w = (Inr res', w')" "ua_Applied res"
  then show "ua_Applied res'"
    by (auto simp: charge_subscription_def charge_balance_def charge_key_quota_def charge_key_rate_def
        charge_account_def split: if_splits sum.splits prod.splits option.splits)
qed simp

lemma apply_body_effect:
  "claims_effect ua_Applied (uc_RequestID cmd, uc_APIKeyID cmd) (uc_RequestFingerprint cmd)
     (\<lambda>now. ledger_charge E now cmd) (apply_body E cmd)"
proof -
  have "claims_effect ua_Applied (uc_RequestID cmd, uc_APIKeyID cmd) (uc_RequestFingerprint cmd)
      (\<lambda>now. ledger_charge E now cmd) (\<lambda>now w.
        case claimUsageBillingRequest now (uc_RequestID cmd) (uc_APIKeyID cmd) (uc_RequestFingerprint cmd) w of
          (Inl e, w) \<Rightarrow> (Inl e, w) | (Inr False, w) \<Rightarrow> (Inr (no_apply_result, False), w)
        | (Inr True, w) \<Rightarrow> (case applyUsageBillingEffects E now cmd (no_apply_result\<lparr>ua_Applied := True\<rparr>) w of
            (Inl e, w) \<Rightarrow> (Inl e, w) | (Inr x, w) \<Rightarrow> (Inr (x, True), w)))"
    by (rule claim_then_effect [OF applyUsageBillingEffects_implements])
      (simp add: no_apply_result_def, rule applyUsageBillingEffects_applied)
  then show ?thesis by (simp add: apply_body_def [abs_def] claimUsageBillingKey_def)
qed

lemma hold_body_effect:
  assumes "implements (h E cmd) g"
  shows "claims_effect hr_Applied (hc_RequestID cmd, hc_APIKeyID cmd) (hc_RequestFingerprint cmd)
     (\<lambda>now. g) (hold_body E h cmd)"
  unfolding hold_body_def [abs_def]
  by (rule claim_then_effect) (auto intro: assms simp: no_hold_result_def)

text \<open>One call under a claim, whatever its kind.\<close>

definition settles :: "bill_env \<Rightarrow> billing_call \<Rightarrow> bill_world \<Rightarrow> bool result \<Rightarrow> bill_world \<Rightarrow> bool" where
  "settles E c w r w' \<longleftrightarrow> (\<exists>k. call_key E c = Some k \<and> fresh_claim k (wd_db w) \<and>
     call_effect E (now_of w) c (claim_in k (call_fingerprint E c) (world_ledger w)) = Inr (world_ledger w') \<and>
     bd_dedup (wd_db w') = (k, (call_fingerprint E c, now_of w)) # bd_dedup (wd_db w) \<and>
     bd_archive (wd_db w') = bd_archive (wd_db w) \<and> (\<forall>b. r = Inr b \<longrightarrow> b) \<and> (healthy w \<longrightarrow> r = Inr True))"

definition undone :: "bill_env \<Rightarrow> billing_call \<Rightarrow> bill_world \<Rightarrow> bool result \<Rightarrow> bill_world \<Rightarrow> bool" where
  "undone E c w r w' \<longleftrightarrow> (\<exists>k. call_key E c = Some k \<and> wd_db w' = wd_db w \<and>
     (\<forall>b. r = Inr b \<longrightarrow> \<not> b \<and>
       (\<exists>h. lg_claims (world_ledger w) k = Some h \<and> TrimSpace h = TrimSpace (call_fingerprint E c))) \<and>
     (\<forall>e. r = Inl e \<longrightarrow> healthy w \<longrightarrow> be_connected E \<longrightarrow> fst k \<noteq> '''' \<longrightarrow>
       (\<exists>h. lg_claims (world_ledger w) k = Some h \<and> TrimSpace h \<noteq> TrimSpace (call_fingerprint E c) \<and>
          e = ErrUsageBillingRequestConflict) \<or>
       fresh_claim k (wd_db w) \<and>
       call_effect E (now_of w) c (claim_in k (call_fingerprint E c) (world_ledger w)) = Inl e))"

lemma tx_settles:
  assumes body: "claims_effect ap k (call_fingerprint E c) (\<lambda>now. call_effect E now c) body"
    and key: "call_key E c = Some k"
    and run: "as_applied ap (if \<not> be_connected E then (Inl ErrBillingDBNil, w) else if fst k = '''' then (Inl ErrUsageBillingRequestIDRequired, w)
       else with_tx E body w) = (r, w')"
  shows "same_env w w' \<and> (settles E c w r w' \<or> undone E c w r w')"
proof (cases "be_connected E \<and> fst k \<noteq> ''''")
  case False
  then show ?thesis using run key by (auto simp: as_applied_def undone_def split: if_splits)
next
  case True
  obtain q where q: "with_tx E body w = (q, w')" and r: "r = (case q of Inl e \<Rightarrow> Inl e | Inr x \<Rightarrow> Inr (ap x))"
    using run True by (auto simp: as_applied_def split: sum.splits prod.splits)
  have env: "same_env w w'" using body q by (rule with_tx_env)
  show ?thesis
    using body q
  proof (cases rule: with_tx_cases)
    case Undone
    then have "undone E c w r w'" using key r by (auto simp: undone_def split: sum.splits)
    then show ?thesis using env by simp
  next
    case Done
    then have "settles E c w r w'" using key r by (auto simp: settles_def split: sum.splits)
    then show ?thesis using env by simp
  qed
qed

lemma normalize_key [simp]:
  "uc_APIKeyID (usage_Normalize E c) = uc_APIKeyID c" "hc_APIKeyID (hold_Normalize E c') = hc_APIKeyID c'"
  by (simp_all add: usage_Normalize_def hold_Normalize_def quantizeMonetaryFields_def Let_def)

lemma hold_settles:
  assumes "\<And>cmd. implements (h E cmd) (g cmd)"
    and "call_key E c = Some (hc_RequestID (hold_Normalize E cmd), hc_APIKeyID cmd)"
    and "call_fingerprint E c = hc_RequestFingerprint (hold_Normalize E cmd)"
    and "\<And>now. call_effect E now c = g (hold_Normalize E cmd)"
    and "as_applied hr_Applied (applyBatchImageBalanceHold E h (Some cmd) w) = (r, w')"
  shows "same_env w w' \<and> (settles E c w r w' \<or> undone E c w r w')"
proof (rule tx_settles)
  show "claims_effect hr_Applied (hc_RequestID (hold_Normalize E cmd), hc_APIKeyID cmd) (call_fingerprint E c)
     (\<lambda>now. call_effect E now c) (hold_body E h (hold_Normalize E cmd))"
    using hold_body_effect [of h E "hold_Normalize E cmd" "g (hold_Normalize E cmd)", OF assms(1)] assms(3,4) by simp
qed (use assms(2,5) in \<open>auto simp: applyBatchImageBalanceHold_def Let_def split: if_splits\<close>)

lemma call_settles:
  assumes "run_call E c w = (r, w')" and "call_key E c \<noteq> None"
  shows "same_env w w' \<and> (settles E c w r w' \<or> undone E c w r w')"
proof (cases c)
  case (ApplyUsage cmd)
  show ?thesis
  proof (rule tx_settles)
    show "claims_effect ua_Applied (uc_RequestID (usage_Normalize E cmd), uc_APIKeyID cmd) (call_fingerprint E c)
       (\<lambda>now. call_effect E now c) (apply_body E (usage_Normalize E cmd))"
      using apply_body_effect [of "usage_Normalize E cmd"] ApplyUsage by simp
  qed (use assms(1) ApplyUsage in \<open>auto simp: usage_Apply_def Let_def split: if_splits\<close>)
next
  case (ReserveHold cmd)
  show ?thesis
    by (rule hold_settles [of reserveUsageBillingBatchImageBalance E "ledger_reserve E" c cmd w r w'])
      (use assms(1) ReserveHold reserve_implements in \<open>simp_all add: ReserveBatchImageBalance_def fun_eq_iff\<close>)
next
  case (CaptureHold cmd)
  show ?thesis
    by (rule hold_settles [of captureUsageBillingBatchImageBalance E "ledger_capture E" c cmd w r w'])
      (use assms(1) CaptureHold capture_implements in \<open>simp_all add: CaptureBatchImageBalance_def fun_eq_iff\<close>)
next
  case (ReleaseHold cmd)
  show ?thesis
    by (rule hold_settles [of releaseUsageBillingBatchImageBalance E "ledger_release E" c cmd w r w'])
      (use assms(1) ReleaseHold release_implements in \<open>simp_all add: ReleaseBatchImageBalance_def fun_eq_iff\<close>)
qed (use assms(2) in simp)


section \<open>Archiving keeps the claims\<close>

definition wf_claims :: "billing_db \<Rightarrow> bool" where
  "wf_claims d \<longleftrightarrow> distinct (map fst (bd_dedup d)) \<and> distinct (map fst (bd_archive d)) \<and>
     fst ` set (bd_dedup d) \<inter> fst ` set (bd_archive d) = {}"

lemma map_of_filter_key: "map_of (filter (\<lambda>(k, v). k \<notin> S) xs) k = (if k \<in> S then None else map_of xs k)"
  by (induction xs) auto

lemma map_of_sub:
  assumes "distinct (map fst xs)" and "set ys \<subseteq> set xs" and "distinct (map fst ys)" and "k \<in> fst ` set ys"
  shows "map_of ys k = map_of xs k"
proof -
  obtain v where "(k, v) \<in> set ys" using assms(4) by force
  then have "(k, v) \<in> set xs" "map_of ys k = Some v" using assms(2,3) by auto
  then show ?thesis using assms(1) by simp
qed

lemma distinct_filter_keys: "distinct (map fst xs) \<Longrightarrow> distinct (map fst (filter P xs))"
  by (rule distinct_map_filter)

lemma archive_batch_run:
  assumes wf: "wf_claims d" and run: "archive_batch cutoff d = (r, d')"
  shows "abs_ledger d' = abs_ledger d" "wf_claims d'"
proof -
  define V where "V = take usageBillingDedupCleanupBatchSize (filter (\<lambda>(k, f, created). created < cutoff) (bd_dedup d))"
  have sub: "set V \<subseteq> set (bd_dedup d)" by (auto simp: V_def dest: in_set_takeD)
  have dis: "distinct (map fst V)"
    using wf by (auto simp: V_def wf_claims_def take_map [symmetric] intro!: distinct_take distinct_filter_keys)
  have V_new: "map_of (bd_archive d) k = None" if "k \<in> fst ` set V" for k
    using wf sub that by (auto simp: wf_claims_def map_of_eq_None_iff)
  have new: "filter (\<lambda>(k, f). map_of (bd_archive d) k = None) V = V"
    by (auto simp: filter_id_conv intro!: V_new rev_image_eqI)
  have d': "d' = d\<lparr>bd_archive := bd_archive d @ V, bd_dedup := filter (\<lambda>(k, f). k \<notin> fst ` set V) (bd_dedup d)\<rparr>"
    using run new by (simp add: archive_batch_def Let_def V_def)
  have "claims_of d' k = claims_of d k" for k
  proof (cases "k \<in> fst ` set V")
    case True
    have "map_of V k = map_of (bd_dedup d) k"
      using map_of_sub [OF _ sub dis True] wf by (simp add: wf_claims_def)
    moreover have "map_of V k \<noteq> None" using True by (simp add: map_of_eq_None_iff)
    ultimately show ?thesis using True V_new [OF True]
      by (auto simp: claims_of_def d' map_of_filter_key map_add_def split: option.splits)
  next
    case False
    then have "map_of V k = None" by (simp add: map_of_eq_None_iff)
    then show ?thesis using False
      by (auto simp: claims_of_def d' map_of_filter_key map_add_def split: option.splits)
  qed
  then show "abs_ledger d' = abs_ledger d" by (simp add: abs_ledger_def d' fun_eq_iff)
  have disjoint: "A \<subseteq> B - C \<Longrightarrow> X = D \<union> C \<Longrightarrow> B \<inter> D = {} \<Longrightarrow> A \<inter> X = {}" for A B C D X :: "claim_key set"
    by blast
  have VA: "fst ` set V \<inter> fst ` set (bd_archive d) = {}" using wf sub by (auto simp: wf_claims_def)
  have "fst ` set (bd_dedup d') \<inter> fst ` set (bd_archive d') = {}"
  proof (rule disjoint)
    show "fst ` set (bd_dedup d') \<subseteq> fst ` set (bd_dedup d) - fst ` set V"
      by (rule subsetI, elim imageE) (simp add: d' case_prod_unfold)
    show "fst ` set (bd_archive d') = fst ` set (bd_archive d) \<union> fst ` set V" by (simp add: d' image_Un)
  qed (use wf in \<open>simp add: wf_claims_def\<close>)
  moreover have "distinct (map fst (bd_archive d'))"
    using wf dis VA by (simp add: d' wf_claims_def Int_commute)
  ultimately show "wf_claims d'"
    using wf by (simp add: wf_claims_def d' distinct_filter_keys)
qed

lemma cleanup_run:
  assumes "CleanupUsageBillingDedup cutoff w = (r, w')" and "wf_claims (wd_db w)"
  shows "same_env w w' \<and> world_ledger w' = world_ledger w \<and> wf_claims (wd_db w')"
  using assms
proof (induction cutoff w rule: CleanupUsageBillingDedup.induct)
  case (1 cutoff w)
  obtain q w1 where q: "sql_exec (archive_batch cutoff) w = (q, w1)" by fastforce
  note D = sql_exec_D [OF q]
  have "wd_db w1 = wd_db w \<or> (\<exists>r. archive_batch cutoff (wd_db w) = (r, wd_db w1))"
    using D by (metis prod.collapse)
  then have w1: "same_env w w1 \<and> world_ledger w1 = world_ledger w \<and> wf_claims (wd_db w1)"
    using D archive_batch_run [OF 1(3)] 1(3) by metis
  show ?case
  proof (cases "\<exists>n. q = Inr n \<and> \<not> n < usageBillingDedupCleanupBatchSize")
    case True
    then obtain n where n: "q = Inr n" "\<not> n < usageBillingDedupCleanupBatchSize" by blast
    then have "CleanupUsageBillingDedup cutoff w1 = (r, w')"
      using 1(2) q by (simp add: CleanupUsageBillingDedup.simps [of cutoff w])
    then have "same_env w1 w' \<and> world_ledger w' = world_ledger w1 \<and> wf_claims (wd_db w')"
      using 1(1) [OF q [symmetric] _ n(2)] n(1) w1 by blast
    then show ?thesis using w1 same_env_trans by auto
  next
    case False
    then have "w' = w1" using 1(2) q
      by (auto simp: CleanupUsageBillingDedup.simps [of cutoff w] split: sum.splits if_splits)
    then show ?thesis using w1 by simp
  qed
qed

section \<open>The repository implements the ledger\<close>

lemma call_wf:
  assumes "run_call E c w = (r, w')" and "wf_claims (wd_db w)"
  shows "same_env w w' \<and> wf_claims (wd_db w')"
proof (cases "call_key E c")
  case None
  then obtain cutoff where c: "c = ArchiveClaims cutoff" by (cases c) auto
  obtain q where "CleanupUsageBillingDedup cutoff w = (q, w')"
    using assms(1) c by (auto split: prod.splits option.splits)
  then show ?thesis using cleanup_run assms(2) by blast
next
  case (Some k)
  then have "same_env w w' \<and> (settles E c w r w' \<or> undone E c w r w')" using call_settles assms(1) by simp
  moreover have "wf_claims (wd_db w')" if s: "settles E c w r w'"
  proof -
    obtain k f t where "bd_dedup (wd_db w') = (k, (f, t)) # bd_dedup (wd_db w)"
      "bd_archive (wd_db w') = bd_archive (wd_db w)" "fresh_claim k (wd_db w)"
      using s unfolding settles_def by blast
    then show ?thesis using assms(2) by (simp add: wf_claims_def fresh_claim_def map_of_eq_None_iff)
  qed
  moreover have "wf_claims (wd_db w')" if "undone E c w r w'"
    using that assms(2) by (auto simp: undone_def)
  ultimately show ?thesis by blast
qed

lemma call_refines:
  assumes run: "run_call E c w = (r, w')" and wf: "wf_claims (wd_db w)"
  shows "ledger_step E c (world_ledger w) r (world_ledger w')"
proof (cases "call_key E c")
  case None
  then obtain cutoff where c: "c = ArchiveClaims cutoff" by (cases c) auto
  obtain q where q: "CleanupUsageBillingDedup cutoff w = (q, w')" and
    r: "r = (case q of Some e \<Rightarrow> Inl e | None \<Rightarrow> Inr False)"
    using run c by (auto split: prod.splits option.splits)
  have "world_ledger w' = world_ledger w" using cleanup_run q wf by blast
  then show ?thesis using r None by (cases q) (auto intro: ledger_step.intros)
next
  case (Some k)
  then consider "settles E c w r w'" | "undone E c w r w'" using call_settles [OF run] by blast
  then show ?thesis
  proof cases
    case 1
    then show ?thesis
      by (cases r) (auto simp: settles_def fresh_claim_iff intro: ledger_step.intros)
  next
    case 2
    then show ?thesis
      by (cases r) (auto simp: undone_def intro: ledger_step.intros)
  qed
qed

section \<open>Exactly once\<close>

text \<open>
  The number of calls in a run that name the key \<open>k\<close> and change the books.
\<close>

fun charges :: "('c \<Rightarrow> 's \<Rightarrow> 's) \<Rightarrow> ('c \<Rightarrow> 'k option) \<Rightarrow> ('s \<Rightarrow> 'b) \<Rightarrow> 'k \<Rightarrow> 'c list \<Rightarrow> 's \<Rightarrow> nat" where
  "charges step key books k [] s = 0"
| "charges step key books k (c # cs) s =
     (if key c = Some k \<and> books (step c s) \<noteq> books s then 1 else 0) + charges step key books k cs (step c s)"

text \<open>
  A service whose calls claim a key before they change its books, and never give a claim up.
\<close>

locale claiming_service =
  fixes step :: "'c \<Rightarrow> 's \<Rightarrow> 's"
    and key :: "'c \<Rightarrow> 'k option"
    and books :: "'s \<Rightarrow> 'b"
    and valid :: "'s \<Rightarrow> bool"
    and claimed :: "'s \<Rightarrow> 'k \<Rightarrow> bool"
  assumes valid_step: "valid s \<Longrightarrow> valid (step c s)"
    and claimed_step: "valid s \<Longrightarrow> claimed s k \<Longrightarrow> claimed (step c s) k"
    and change_claims: "valid s \<Longrightarrow> books (step c s) \<noteq> books s \<Longrightarrow>
      \<exists>k. key c = Some k \<and> \<not> claimed s k \<and> claimed (step c s) k"
begin

lemma charges_bound:
  "valid s \<Longrightarrow> charges step key books k cs s \<le> (if claimed s k then 0 else 1)"
proof (induction cs arbitrary: s)
  case (Cons c cs)
  have IH: "charges step key books k cs (step c s) \<le> (if claimed (step c s) k then 0 else 1)"
    using Cons valid_step by blast
  show ?case
  proof (cases "key c = Some k \<and> books (step c s) \<noteq> books s")
    case True
    then show ?thesis using IH change_claims [of s c] Cons.prems by auto
  next
    case False
    then show ?thesis using IH claimed_step [of s k c] Cons.prems by (auto split: if_splits)
  qed
qed simp

end

definition books_of :: "bill_world \<Rightarrow> ledger" where
  "books_of w = (world_ledger w)\<lparr>lg_claims := (\<lambda>k. None)\<rparr>"

lemma and_then_InrD: "and_then r f = Inr y \<Longrightarrow> \<exists>x. r = Inr x \<and> f x = Inr y"
  by (cases r) auto

lemma amend_claims:
  "amend_user k f L = Inr L' \<Longrightarrow> lg_claims L' = lg_claims L"
  "amend_key k f' L = Inr L' \<Longrightarrow> lg_claims L' = lg_claims L"
  "amend_sub k f'' L = Inr L' \<Longrightarrow> lg_claims L' = lg_claims L"
  "amend_account k f''' L = Inr L' \<Longrightarrow> lg_claims L' = lg_claims L"
  by (auto simp: amend_defs dest: and_then_InrD)

lemma ledger_account_claims: "ledger_account E now k x a L = Inr L' \<Longrightarrow> lg_claims L' = lg_claims L"
  by (auto simp: ledger_account_def announce_def Let_def dest!: and_then_InrD amend_claims
      split: option.splits if_splits)

lemma cost_step_claims:
  "cost_step E x (\<lambda>a. amend_user k (f a)) L = Inr L' \<Longrightarrow> lg_claims L' = lg_claims L"
  "cost_step E x (\<lambda>a. amend_key k (f' a)) L = Inr L' \<Longrightarrow> lg_claims L' = lg_claims L"
  "cost_step E x (\<lambda>a. amend_sub k (f'' a)) L = Inr L' \<Longrightarrow> lg_claims L' = lg_claims L"
  "cost_step E x (ledger_account E now k y) L = Inr L' \<Longrightarrow> lg_claims L' = lg_claims L"
  by (auto simp: cost_step_def dest!: and_then_InrD dest: amend_claims ledger_account_claims split: if_splits)

lemma call_effect_claims:
  assumes "call_effect E now c L = Inr L'"
  shows "lg_claims L' = lg_claims L"
proof (cases c)
  case (ApplyUsage cmd)
  then show ?thesis using assms
    by (auto simp: ledger_charge_def dest!: and_then_InrD cost_step_claims split: option.splits if_splits)
qed (use assms in \<open>auto simp: ledger_reserve_def ledger_capture_def ledger_release_def
    dest!: and_then_InrD dest: amend_claims split: if_splits\<close>)

lemma ledger_step_claims:
  assumes "ledger_step E c L r L'"
  shows "lg_claims L k = Some f \<Longrightarrow> lg_claims L' k = Some f"
    and "L'\<lparr>lg_claims := (\<lambda>k. None)\<rparr> \<noteq> L\<lparr>lg_claims := (\<lambda>k. None)\<rparr> \<Longrightarrow>
      \<exists>k. call_key E c = Some k \<and> lg_claims L k = None \<and> lg_claims L' k \<noteq> None"
  using assms by (auto elim!: ledger_stepE dest!: call_effect_claims)

interpretation billing: claiming_service "\<lambda>c w. snd (run_call E c w)" "call_key E" books_of
  "\<lambda>w. wf_claims (wd_db w)" "\<lambda>w k. lg_claims (world_ledger w) k \<noteq> None" for E
proof
  fix w :: bill_world and c k
  assume wf: "wf_claims (wd_db w)"
  obtain r w' where run: "run_call E c w = (r, w')" by fastforce
  note step = call_refines [OF run wf]
  show "wf_claims (wd_db (snd (run_call E c w)))" using call_wf [OF run wf] run by simp
  show "lg_claims (world_ledger (snd (run_call E c w))) k \<noteq> None" if "lg_claims (world_ledger w) k \<noteq> None"
    using ledger_step_claims(1) [OF step, of k] that run by auto
  show "\<exists>k. call_key E c = Some k \<and> \<not> lg_claims (world_ledger w) k \<noteq> None \<and>
      lg_claims (world_ledger (snd (run_call E c w))) k \<noteq> None"
    if "books_of (snd (run_call E c w)) \<noteq> books_of w"
    using ledger_step_claims(2) [OF step] that run by (simp add: books_of_def)
qed

end
