(* ===== verification/Billing_Properties.thy ===== *)
theory Billing_Properties
  imports Billing_Ledger
begin

text \<open>
  What the billing repository guarantees, over the refinement of \<open>Billing_Ledger\<close>: charging at most
  once, the outcome of every call on a working database, the amounts a charge moves in decimal columns
  that stay in range, and the conservation of a user's funds under holds.
\<close>

section \<open>At most once\<close>

text \<open>
  C3. The billing repository implements the ledger: whatever statements fail and whatever
  acknowledgements of commits get lost, every call is one step of the ledger. A call that reports that
  it was applied charged everything under a request identifier that nobody had claimed; one that
  reports that it was not applied found its identifier claimed with its own fingerprint and changed
  nothing; one that reports an error changed nothing, or charged everything and lost the
  acknowledgement. Archiving old claims is not visible in the ledger.
\<close>

theorem billing_refines_ledger:
  assumes "run_call E c w = (r, w')" and "wf_claims (wd_db w)"
  shows "ledger_step E c (world_ledger w) r (world_ledger w') \<and> wf_claims (wd_db w')"
  using call_refines [OF assms] call_wf [OF assms] by simp

text \<open>
  C4. In any sequence of charges, holds, captures, releases and archive runs, with any failures and
  retries, at most one call with a given request identifier and API key changes the balances, counters
  and quotas, and none does if the pair was claimed before.
\<close>

theorem charged_at_most_once:
  assumes "wf_claims (wd_db w)"
  shows "charges (\<lambda>c w. snd (run_call E c w)) (call_key E) books_of k cs w
     \<le> (if lg_claims (world_ledger w) k \<noteq> None then 0 else 1)"
  using billing.charges_bound [OF assms] .

lemma call_outcome:
  assumes run: "run_call E c w = (r, w')" and key: "call_key E c = Some k"
    and ok: "healthy w" "be_connected E" "fst k \<noteq> ''''"
  shows "case lg_claims (world_ledger w) k of
     Some f \<Rightarrow> wd_db w' = wd_db w \<and>
       r = (if TrimSpace f = TrimSpace (call_fingerprint E c) then Inr False else Inl ErrUsageBillingRequestConflict)
   | None \<Rightarrow> (case call_effect E (now_of w) c (claim_in k (call_fingerprint E c) (world_ledger w)) of
       Inl e \<Rightarrow> r = Inl e \<and> wd_db w' = wd_db w
     | Inr L \<Rightarrow> r = Inr True \<and> world_ledger w' = L)"
proof -
  consider "settles E c w r w'" | "undone E c w r w'" using call_settles [OF run] key by blast
  then show ?thesis
  proof cases
    case 1
    then show ?thesis using key ok(1) by (auto simp: settles_def fresh_claim_iff)
  next
    case 2
    then show ?thesis using key ok by (cases r) (auto simp: undone_def fresh_claim_iff)
  qed
qed


text \<open>
  C16. On a database without faults the outcome of a charge, hold, capture or release is decided: a
  request that was not claimed is charged completely and acknowledged, or refused for the reason its
  effect is impossible; a repeated request is answered as not applied; a request that reuses an
  identifier with another fingerprint is a conflict. Only a charged request changes anything.
\<close>

theorem billing_call_spec:
  assumes run: "run_call E c w = (r, w')" and key: "call_key E c = Some k"
    and ok: "healthy w" "be_connected E" "fst k \<noteq> ''''"
  shows "case lg_claims (world_ledger w) k of
     Some f \<Rightarrow> wd_db w' = wd_db w \<and>
       r = (if TrimSpace f = TrimSpace (call_fingerprint E c) then Inr False else Inl ErrUsageBillingRequestConflict)
   | None \<Rightarrow> (case call_effect E (now_of w) c (claim_in k (call_fingerprint E c) (world_ledger w)) of
       Inl e \<Rightarrow> r = Inl e \<and> wd_db w' = wd_db w
     | Inr L \<Rightarrow> r = Inr True \<and> world_ledger w' = L)"
  using assms by (rule call_outcome)

section \<open>Decimal columns\<close>

definition on_grid :: "nat \<Rightarrow> rat \<Rightarrow> bool" where
  "on_grid s x \<longleftrightarrow> of_int \<lfloor>x * 10 ^ s\<rfloor> = x * 10 ^ s"

definition decimal :: "nat \<Rightarrow> nat \<Rightarrow> rat \<Rightarrow> bool" where
  "decimal p s x \<longleftrightarrow> on_grid s x \<and> \<bar>x\<bar> < 10 ^ (p - s)"

definition typed_user :: "user_row \<Rightarrow> bool" where
  "typed_user r \<longleftrightarrow> decimal 20 8 (ur_balance r) \<and> decimal 20 8 (ur_frozen r)"

definition typed_key :: "key_row \<Rightarrow> bool" where
  "typed_key r \<longleftrightarrow> decimal 20 8 (kr_quota_used r) \<and> decimal 20 8 (kr_usage_5h r) \<and>
     decimal 20 8 (kr_usage_1d r) \<and> decimal 20 8 (kr_usage_7d r)"

definition typed_sub :: "usage_row \<Rightarrow> bool" where
  "typed_sub r \<longleftrightarrow> decimal 20 10 (sr_daily r) \<and> decimal 20 10 (sr_weekly r) \<and> decimal 20 10 (sr_monthly r)"

definition typed_ledger :: "ledger \<Rightarrow> bool" where
  "typed_ledger L \<longleftrightarrow> (\<forall>k r. lg_users L k = Some r \<longrightarrow> typed_user r) \<and>
     (\<forall>k r. lg_keys L k = Some r \<longrightarrow> typed_key r) \<and> (\<forall>k r. lg_subs L k = Some r \<longrightarrow> typed_sub r)"

lemma on_grid_of_int: "on_grid s (of_int n / 10 ^ s)"
  by (simp add: on_grid_def)

lemma on_gridE:
  assumes "on_grid s x"
  obtains n where "x = of_int n / 10 ^ s"
proof
  show "x = of_int \<lfloor>x * 10 ^ s\<rfloor> / 10 ^ s"
    using assms unfolding on_grid_def by (metis nonzero_mult_div_cancel_right power_not_zero rel_simps(76))
qed

lemma on_grid_add [intro]: "on_grid s x \<Longrightarrow> on_grid s y \<Longrightarrow> on_grid s (x + y)"
  by (elim on_gridE) (simp add: add_divide_distrib [symmetric] of_int_add [symmetric] on_grid_of_int del: of_int_add)

lemma on_grid_diff [intro]: "on_grid s x \<Longrightarrow> on_grid s y \<Longrightarrow> on_grid s (x - y)"
  by (elim on_gridE) (simp add: diff_divide_distrib [symmetric] of_int_diff [symmetric] on_grid_of_int del: of_int_diff)

lemma to_decimal_typed: "to_decimal p s x = Inr y \<Longrightarrow> decimal p s y"
  by (auto simp: to_decimal_def decimal_def Let_def on_grid_of_int split: if_splits)

lemma round_half_away_bound: "\<bar>of_int (round_half_away x) - x\<bar> \<le> 1 / 2"
proof (cases "0 \<le> x")
  case True
  have "of_int \<lfloor>x + 1 / 2\<rfloor> \<le> x + 1 / 2" "x + 1 / 2 < of_int \<lfloor>x + 1 / 2\<rfloor> + 1"
    using floor_correct [of "x + 1 / 2"] by (simp_all only: of_int_add of_int_1)
  then have "of_int \<lfloor>x + 1 / 2\<rfloor> - x \<le> 1 / 2" "- (of_int \<lfloor>x + 1 / 2\<rfloor> - x) \<le> 1 / 2" by linarith+
  then show ?thesis using True unfolding round_half_away_def by (simp only: if_True abs_le_iff)
next
  case False
  have "of_int \<lfloor>1 / 2 - x\<rfloor> \<le> 1 / 2 - x" "1 / 2 - x < of_int \<lfloor>1 / 2 - x\<rfloor> + 1"
    using floor_correct [of "1 / 2 - x"] by (simp_all only: of_int_add of_int_1)
  then have "of_int (- \<lfloor>1 / 2 - x\<rfloor>) - x \<le> 1 / 2" "- (of_int (- \<lfloor>1 / 2 - x\<rfloor>) - x) \<le> 1 / 2"
    unfolding of_int_minus by linarith+
  then show ?thesis using False unfolding round_half_away_def by (simp only: if_False abs_le_iff)
qed

lemma round_half_away_int [simp]: "round_half_away (of_int n) = n"
proof (cases "0 \<le> n")
  case True
  then show ?thesis by (simp add: round_half_away_def floor_unique)
next
  case False
  have "\<lfloor>1 / 2 - of_int n :: rat\<rfloor> = - n" by (rule floor_unique) auto
  then show ?thesis using False by (simp add: round_half_away_def)
qed

lemma to_decimal_bound: "to_decimal p s x = Inr y \<Longrightarrow> \<bar>y - x\<bar> \<le> 1 / 2 / 10 ^ s"
proof -
  assume "to_decimal p s x = Inr y"
  then have y: "y = of_int (round_half_away (x * 10 ^ s)) / 10 ^ s"
    by (auto simp: to_decimal_def Let_def split: if_splits)
  have "y - x = (of_int (round_half_away (x * 10 ^ s)) - x * 10 ^ s) / 10 ^ s"
    by (simp add: y diff_divide_distrib)
  then have "\<bar>y - x\<bar> = \<bar>of_int (round_half_away (x * 10 ^ s)) - x * 10 ^ s\<bar> / 10 ^ s" by (simp add: abs_divide)
  also have "\<dots> \<le> 1 / 2 / 10 ^ s"
    by (intro divide_right_mono round_half_away_bound) simp
  finally show ?thesis .
qed

lemma to_decimal_exact: "to_decimal p s x = Inr y \<Longrightarrow> on_grid s x \<Longrightarrow> y = x"
  by (auto simp: to_decimal_def Let_def elim!: on_gridE split: if_splits)

lemma to_decimal_fits: "decimal p s x \<Longrightarrow> to_decimal p s x = Inr x"
  by (auto simp: to_decimal_def decimal_def Let_def elim!: on_gridE)

lemma to_decimal_nonneg: "to_decimal p s x = Inr y \<Longrightarrow> 0 \<le> x \<Longrightarrow> 0 \<le> y"
  by (auto simp: to_decimal_def Let_def round_half_away_def split: if_splits)

lemma amend_Inr:
  "amend k visible f e m = Inr m' \<Longrightarrow> \<exists>r r'. m k = Some r \<and> visible r \<and> f r = Inr r' \<and> m' = m(k \<mapsto> r')"
  by (auto simp: amend_def dest: and_then_InrD split: option.splits if_splits)

lemma typed_amend:
  assumes "typed_ledger L"
  shows "amend_user k f L = Inr L' \<Longrightarrow>
      (\<And>r r'. typed_user r \<Longrightarrow> f r = Inr r' \<Longrightarrow> typed_user r') \<Longrightarrow> typed_ledger L'"
    and "amend_key k fk L = Inr L' \<Longrightarrow>
      (\<And>r r'. typed_key r \<Longrightarrow> fk r = Inr r' \<Longrightarrow> typed_key r') \<Longrightarrow> typed_ledger L'"
    and "amend_sub k fs L = Inr L' \<Longrightarrow>
      (\<And>r r'. typed_sub r \<Longrightarrow> fs r = Inr r' \<Longrightarrow> typed_sub r') \<Longrightarrow> typed_ledger L'"
    and "amend_account k fa L = Inr L' \<Longrightarrow> typed_ledger L'"
  using assms by (auto simp: amend_defs typed_ledger_def dest!: and_then_InrD amend_Inr split: if_splits) blast+

lemma typed_announce [simp]: "typed_ledger (announce E k L) = typed_ledger L"
  by (simp add: announce_def typed_ledger_def Let_def)

lemma typed_claims [simp]: "typed_ledger (L\<lparr>lg_claims := c\<rparr>) = typed_ledger L"
  by (simp add: typed_ledger_def)

lemma typed_ledger_account: "typed_ledger L \<Longrightarrow> ledger_account E now k x a L = Inr L' \<Longrightarrow> typed_ledger L'"
  by (auto simp: ledger_account_def dest!: and_then_InrD dest: typed_amend(4) split: option.splits if_splits)

lemma row_InrD:
  "deduct_balance a u = Inr u' \<Longrightarrow> \<exists>b. to_decimal 20 8 (ur_balance u - a) = Inr b \<and> u' = u\<lparr>ur_balance := b\<rparr>"
  "add_quota a q = Inr q' \<Longrightarrow> \<exists>b st. to_decimal 20 8 (kr_quota_used q + a) = Inr b \<and>
     q' = q\<lparr>kr_quota_used := b, kr_status := st\<rparr>"
  "set_balances b f u = Inr u' \<Longrightarrow> to_decimal 20 8 b = Inr (ur_balance u') \<and> to_decimal 20 8 f = Inr (ur_frozen u') \<and>
     ur_deleted u' = ur_deleted u"
proof -
  show "deduct_balance a u = Inr u' \<Longrightarrow> \<exists>b. to_decimal 20 8 (ur_balance u - a) = Inr b \<and> u' = u\<lparr>ur_balance := b\<rparr>"
    by (cases "to_decimal 20 8 (ur_balance u - a)") (simp_all add: deduct_balance_def)
  show "add_quota a q = Inr q' \<Longrightarrow> \<exists>b st. to_decimal 20 8 (kr_quota_used q + a) = Inr b \<and>
     q' = q\<lparr>kr_quota_used := b, kr_status := st\<rparr>"
    by (cases "to_decimal 20 8 (kr_quota_used q + a)") (auto simp: add_quota_def)
  show "set_balances b f u = Inr u' \<Longrightarrow> to_decimal 20 8 b = Inr (ur_balance u') \<and> to_decimal 20 8 f = Inr (ur_frozen u') \<and>
     ur_deleted u' = ur_deleted u"
    by (cases "to_decimal 20 8 b"; cases "to_decimal 20 8 f") (auto simp: set_balances_def)
qed

lemma add_usage_InrD:
  assumes "add_usage a r = Inr r'"
  shows "\<exists>d k m. to_decimal 20 10 (sr_daily r + a) = Inr d \<and> to_decimal 20 10 (sr_weekly r + a) = Inr k \<and>
     to_decimal 20 10 (sr_monthly r + a) = Inr m \<and> r' = r\<lparr>sr_daily := d, sr_weekly := k, sr_monthly := m\<rparr>"
  using assms
  by (cases "to_decimal 20 10 (sr_daily r + a)"; cases "to_decimal 20 10 (sr_weekly r + a)";
      cases "to_decimal 20 10 (sr_monthly r + a)") (simp_all add: add_usage_def)

lemma add_rate_limit_InrD:
  assumes "add_rate_limit E now a q = Inr q'"
  shows "\<exists>u5 u1 u7 today. to_decimal 20 8 (rate_window_usage now (\<lambda>s. s + 5 * hour) (kr_window_5h q) (kr_usage_5h q) a) = Inr u5 \<and>
     to_decimal 20 8 (rate_window_usage now (\<lambda>s. s + 24 * hour) (kr_window_1d q) (kr_usage_1d q) a) = Inr u1 \<and>
     to_decimal 20 8 (rate_window_usage now (plus_7_days E) (kr_window_7d q) (kr_usage_7d q) a) = Inr u7 \<and>
     q' = q\<lparr>kr_usage_5h := u5, kr_usage_1d := u1, kr_usage_7d := u7,
          kr_window_5h := rate_window_restart now (\<lambda>s. s + 5 * hour) now (kr_window_5h q),
          kr_window_1d := rate_window_restart now (\<lambda>s. s + 24 * hour) today (kr_window_1d q),
          kr_window_7d := rate_window_restart now (plus_7_days E) today (kr_window_7d q)\<rparr>"
  using assms
  by (cases "to_decimal 20 8 (rate_window_usage now (\<lambda>s. s + 5 * hour) (kr_window_5h q) (kr_usage_5h q) a)";
      cases "to_decimal 20 8 (rate_window_usage now (\<lambda>s. s + 24 * hour) (kr_window_1d q) (kr_usage_1d q) a)";
      cases "to_decimal 20 8 (rate_window_usage now (plus_7_days E) (kr_window_7d q) (kr_usage_7d q) a)")
    (auto simp: add_rate_limit_def Let_def)

lemma row_functions_typed:
  "add_usage a r = Inr r' \<Longrightarrow> typed_sub r'"
  "deduct_balance a u = Inr u' \<Longrightarrow> typed_user u \<Longrightarrow> typed_user u'"
  "set_balances b f u = Inr u' \<Longrightarrow> typed_user u'"
  "add_quota a q = Inr q' \<Longrightarrow> typed_key q \<Longrightarrow> typed_key q'"
  "add_rate_limit E now a q = Inr q' \<Longrightarrow> typed_key q \<Longrightarrow> typed_key q'"
proof -
  note typed = typed_sub_def typed_user_def typed_key_def
  show "add_usage a r = Inr r' \<Longrightarrow> typed_sub r'"
    by (drule add_usage_InrD, elim exE conjE, (drule to_decimal_typed)+, simp add: typed)
  show "deduct_balance a u = Inr u' \<Longrightarrow> typed_user u \<Longrightarrow> typed_user u'"
    by (drule row_InrD(1), elim exE conjE, drule to_decimal_typed, simp add: typed)
  show "set_balances b f u = Inr u' \<Longrightarrow> typed_user u'"
    by (drule row_InrD(3), elim conjE, (drule to_decimal_typed)+, simp add: typed)
  show "add_quota a q = Inr q' \<Longrightarrow> typed_key q \<Longrightarrow> typed_key q'"
    by (drule row_InrD(2), elim exE conjE, drule to_decimal_typed, simp add: typed)
  show "add_rate_limit E now a q = Inr q' \<Longrightarrow> typed_key q \<Longrightarrow> typed_key q'"
    by (drule add_rate_limit_InrD, elim exE conjE, (drule to_decimal_typed)+, simp add: typed)
qed


text \<open>The amount of a cost: costs that are not positive are not charged.\<close>

definition amount :: "bill_env \<Rightarrow> float64 \<Rightarrow> rat" where
  "amount E cost = (if f_less f_zero cost then case be_numeric E cost of Inl e \<Rightarrow> 0 | Inr a \<Rightarrow> a else 0)"

lemma cost_stepE:
  assumes "cost_step E x f L = Inr L'"
  obtains (Free) "L' = L" "amount E x = 0" "\<not> f_less f_zero x"
    | (Charged) "f (amount E x) L = Inr L'" "f_less f_zero x"
proof (cases "f_less f_zero x")
  case True
  then obtain a where "be_numeric E x = Inr a" "f a L = Inr L'"
    using assms by (cases "be_numeric E x") (simp_all add: cost_step_def)
  then show thesis using that(2) True by (simp add: amount_def)
qed (use assms that(1) in \<open>simp add: cost_step_def amount_def\<close>)

lemma typed_cost_step:
  assumes "typed_ledger L"
  shows "cost_step E x (\<lambda>a. amend_user k (deduct_balance a)) L = Inr L' \<Longrightarrow> typed_ledger L'"
    and "cost_step E x (\<lambda>a. amend_key k (add_quota a)) L = Inr L' \<Longrightarrow> typed_ledger L'"
    and "cost_step E x (\<lambda>a. amend_key k (add_rate_limit E now a)) L = Inr L' \<Longrightarrow> typed_ledger L'"
    and "cost_step E x (\<lambda>a. amend_sub k (add_usage a)) L = Inr L' \<Longrightarrow> typed_ledger L'"
    and "cost_step E x (ledger_account E now k y) L = Inr L' \<Longrightarrow> typed_ledger L'"
  by (erule cost_stepE, simp add: assms, rule typed_amend(1) [OF assms], assumption, erule row_functions_typed(2), assumption)
    (erule cost_stepE, simp add: assms, rule typed_amend(2) [OF assms], assumption, erule (1) row_functions_typed(4),
     erule cost_stepE, simp add: assms, rule typed_amend(2) [OF assms], assumption, erule (1) row_functions_typed(5),
     erule cost_stepE, simp add: assms, rule typed_amend(3) [OF assms], assumption, erule row_functions_typed(1),
     erule cost_stepE, simp add: assms, erule typed_ledger_account [OF assms])

lemma ledger_chargeE:
  assumes "ledger_charge E now c L = Inr L'"
  obtains (Steps) L1 L2 L3 L4 where
    "(case uc_SubscriptionID c of None \<Rightarrow> Inr L
      | Some s \<Rightarrow> cost_step E (uc_SubscriptionCost c) (\<lambda>a. amend_sub s (add_usage a)) L) = Inr L1"
    "cost_step E (uc_BalanceCost c) (\<lambda>a. amend_user (uc_UserID c) (deduct_balance a)) L1 = Inr L2"
    "cost_step E (uc_APIKeyQuotaCost c) (\<lambda>a. amend_key (uc_APIKeyID c) (add_quota a)) L2 = Inr L3"
    "cost_step E (uc_APIKeyRateLimitCost c) (\<lambda>a. amend_key (uc_APIKeyID c) (add_rate_limit E now a)) L3 = Inr L4"
    "(if billed_account E c
      then cost_step E (uc_AccountQuotaCost c) (ledger_account E now (uc_AccountID c) (uc_AccountQuotaCost c)) L4
      else Inr L4) = Inr L'"
  using assms unfolding ledger_charge_def by (auto dest!: and_then_InrD)

lemma ledger_charge_preserves:
  assumes "ledger_charge E now c L = Inr L'" and "P L"
    and sub: "\<And>s x L L'. cost_step E x (\<lambda>a. amend_sub s (add_usage a)) L = Inr L' \<Longrightarrow> P L \<Longrightarrow> P L'"
    and user: "\<And>u x L L'. cost_step E x (\<lambda>a. amend_user u (deduct_balance a)) L = Inr L' \<Longrightarrow> P L \<Longrightarrow> P L'"
    and quota: "\<And>k x L L'. cost_step E x (\<lambda>a. amend_key k (add_quota a)) L = Inr L' \<Longrightarrow> P L \<Longrightarrow> P L'"
    and rate: "\<And>k x L L'. cost_step E x (\<lambda>a. amend_key k (add_rate_limit E now a)) L = Inr L' \<Longrightarrow> P L \<Longrightarrow> P L'"
    and account: "\<And>k x L L'. cost_step E x (ledger_account E now k x) L = Inr L' \<Longrightarrow> P L \<Longrightarrow> P L'"
  shows "P L'"
  using assms(1)
proof (cases rule: ledger_chargeE)
  case (Steps L1 L2 L3 L4)
  have "P L1" using Steps(1) sub assms(2) by (auto split: option.splits)
  then have "P L2" by (rule user [OF Steps(2)])
  then have "P L3" by (rule quota [OF Steps(3)])
  then have "P L4" by (rule rate [OF Steps(4)])
  then show ?thesis using Steps(5) account by (auto split: if_splits)
qed

lemma typed_hold:
  assumes "amend_user u (\<lambda>r. if Q r then set_balances (b r) (f r) r else Inl e) L = Inr L'" and "typed_ledger L"
  shows "typed_ledger L'"
  by (rule typed_amend(1) [OF assms(2,1)]) (auto dest: row_functions_typed(3) split: if_splits)

lemma typed_effect:
  assumes "typed_ledger L" and "call_effect E now c L = Inr L'"
  shows "typed_ledger L'"
proof (cases c)
  case (ApplyUsage cmd)
  show ?thesis
  proof (rule ledger_charge_preserves [of E now "usage_Normalize E cmd" L L' typed_ledger])
    show "ledger_charge E now (usage_Normalize E cmd) L = Inr L'" using assms(2) ApplyUsage by simp
  qed (rule assms(1), (rule typed_cost_step, assumption, assumption)+)
next
  case (ReserveHold cmd)
  then show ?thesis using assms
    by (auto simp: ledger_reserve_def dest!: and_then_InrD dest: typed_hold split: if_splits)
next
  case (CaptureHold cmd)
  then show ?thesis using assms
    by (auto simp: ledger_capture_def dest!: and_then_InrD dest: typed_hold split: if_splits)
next
  case (ReleaseHold cmd)
  then show ?thesis using assms
    by (auto simp: ledger_release_def dest!: and_then_InrD dest: typed_hold split: if_splits)
qed (use assms in simp)

section \<open>What a charge moves\<close>

text \<open>The nearest value with \<open>s\<close> decimals.\<close>

definition stored :: "nat \<Rightarrow> rat \<Rightarrow> rat \<Rightarrow> bool" where
  "stored s x y \<longleftrightarrow> on_grid s y \<and> \<bar>y - x\<bar> \<le> 1 / 2 / 10 ^ s \<and> (on_grid s x \<longrightarrow> y = x)"

lemma to_decimal_stored: "to_decimal p s x = Inr y \<Longrightarrow> stored s x y"
  using to_decimal_typed [of p s x y] to_decimal_bound [of p s x y] to_decimal_exact [of p s x y]
  by (auto simp: stored_def decimal_def)

lemma stored_same [simp]: "on_grid s x \<Longrightarrow> stored s x x"
  by (simp add: stored_def)

definition user_moved :: "rat \<Rightarrow> user_row \<Rightarrow> user_row \<Rightarrow> bool" where
  "user_moved a r r' \<longleftrightarrow> stored 8 (ur_balance r - a) (ur_balance r') \<and>
     ur_frozen r' = ur_frozen r \<and> ur_deleted r' = ur_deleted r"

definition sub_moved :: "rat \<Rightarrow> usage_row \<Rightarrow> usage_row \<Rightarrow> bool" where
  "sub_moved a r r' \<longleftrightarrow> stored 10 (sr_daily r + a) (sr_daily r') \<and> stored 10 (sr_weekly r + a) (sr_weekly r') \<and>
     stored 10 (sr_monthly r + a) (sr_monthly r') \<and> sr_deleted r' = sr_deleted r"

text \<open>A rate window that has ended starts again with the amount; one that has not goes on.\<close>

definition window_moved ::
  "bool \<Rightarrow> rat \<Rightarrow> go_time option \<Rightarrow> rat \<Rightarrow> go_time option \<Rightarrow> rat \<Rightarrow> bool" where
  "window_moved ended a start used start' used' \<longleftrightarrow>
     (if start \<noteq> None \<and> ended then stored 8 a used' \<and> start' \<noteq> None
      else stored 8 (used + a) used' \<and> start' \<noteq> None \<and> (start = None \<or> start' = start))"

definition rates_moved :: "bill_env \<Rightarrow> go_time \<Rightarrow> rat \<Rightarrow> key_row \<Rightarrow> key_row \<Rightarrow> bool" where
  "rates_moved E now a r r' \<longleftrightarrow>
     window_moved (the (kr_window_5h r) + 5 * hour \<le> now) a (kr_window_5h r) (kr_usage_5h r) (kr_window_5h r') (kr_usage_5h r') \<and>
     window_moved (the (kr_window_1d r) + 24 * hour \<le> now) a (kr_window_1d r) (kr_usage_1d r) (kr_window_1d r') (kr_usage_1d r') \<and>
     window_moved (plus_7_days E (the (kr_window_7d r)) \<le> now) a (kr_window_7d r) (kr_usage_7d r) (kr_window_7d r') (kr_usage_7d r')"

definition rates_same :: "key_row \<Rightarrow> key_row \<Rightarrow> bool" where
  "rates_same r r' \<longleftrightarrow> kr_usage_5h r' = kr_usage_5h r \<and> kr_usage_1d r' = kr_usage_1d r \<and>
     kr_usage_7d r' = kr_usage_7d r \<and> kr_window_5h r' = kr_window_5h r \<and> kr_window_1d r' = kr_window_1d r \<and>
     kr_window_7d r' = kr_window_7d r"

definition key_moved :: "bill_env \<Rightarrow> go_time \<Rightarrow> UsageBillingCommand \<Rightarrow> key_row \<Rightarrow> key_row \<Rightarrow> bool" where
  "key_moved E now c r r' \<longleftrightarrow> kr_quota r' = kr_quota r \<and> kr_deleted r' = kr_deleted r \<and>
     stored 8 (kr_quota_used r + amount E (uc_APIKeyQuotaCost c)) (kr_quota_used r') \<and>
     (if f_less f_zero (uc_APIKeyRateLimitCost c) then rates_moved E now (amount E (uc_APIKeyRateLimitCost c)) r r'
      else rates_same r r')"

definition charge_moves :: "bill_env \<Rightarrow> go_time \<Rightarrow> UsageBillingCommand \<Rightarrow> ledger \<Rightarrow> ledger \<Rightarrow> bool" where
  "charge_moves E now c L L' \<longleftrightarrow>
     (\<forall>u. if u = uc_UserID c then rel_option (user_moved (amount E (uc_BalanceCost c))) (lg_users L u) (lg_users L' u)
          else lg_users L' u = lg_users L u) \<and>
     (\<forall>k. if k = uc_APIKeyID c then rel_option (key_moved E now c) (lg_keys L k) (lg_keys L' k)
          else lg_keys L' k = lg_keys L k) \<and>
     (\<forall>s. if uc_SubscriptionID c = Some s
          then rel_option (sub_moved (amount E (uc_SubscriptionCost c))) (lg_subs L s) (lg_subs L' s)
          else lg_subs L' s = lg_subs L s)"

lemma rows_moved:
  "deduct_balance a u = Inr u' \<Longrightarrow> user_moved a u u'"
  "add_usage a s = Inr s' \<Longrightarrow> sub_moved a s s'"
proof -
  show "deduct_balance a u = Inr u' \<Longrightarrow> user_moved a u u'"
    by (drule row_InrD(1), elim exE conjE, drule to_decimal_stored, simp add: user_moved_def)
  show "add_usage a s = Inr s' \<Longrightarrow> sub_moved a s s'"
    by (drule add_usage_InrD, elim exE conjE, (drule to_decimal_stored)+, simp add: sub_moved_def)
qed

lemma quota_moved:
  "add_quota a q = Inr q' \<Longrightarrow> kr_quota q' = kr_quota q \<and> kr_deleted q' = kr_deleted q \<and>
     stored 8 (kr_quota_used q + a) (kr_quota_used q') \<and> rates_same q q'"
  by (drule row_InrD(2), elim exE conjE, drule to_decimal_stored, simp add: rates_same_def)

lemma window_movedI:
  assumes "to_decimal 20 8 (rate_window_usage now stop start used a) = Inr used'"
  shows "window_moved (stop (the start) \<le> now) a start used (rate_window_restart now stop fresh start) used'"
  using to_decimal_stored [OF assms]
  by (cases start) (auto simp: window_moved_def rate_window_usage_def rate_window_restart_def)

lemma rate_limit_moved:
  assumes "add_rate_limit E now a q = Inr q'"
  shows "kr_quota q' = kr_quota q \<and> kr_deleted q' = kr_deleted q \<and> kr_quota_used q' = kr_quota_used q \<and>
     rates_moved E now a q q'"
  using add_rate_limit_InrD [OF assms]
  by (elim exE conjE) (auto simp: rates_moved_def dest: window_movedI)

text \<open>One step of the charge moves one row of one table.\<close>

lemma amend_moved:
  assumes "amend k visible f e m = Inr m'" and "\<And>r r'. f r = Inr r' \<Longrightarrow> R r r'"
  shows "rel_option R (m k) (m' k)" "j \<noteq> k \<Longrightarrow> m' j = m j"
  using amend_Inr [OF assms(1)] assms(2) by auto

lemma cost_step_moved:
  "cost_step E x (\<lambda>a. amend_user u (deduct_balance a)) L = Inr L' \<Longrightarrow> typed_ledger L \<Longrightarrow>
     lg_keys L' = lg_keys L \<and> lg_subs L' = lg_subs L \<and> (\<forall>v. v \<noteq> u \<longrightarrow> lg_users L' v = lg_users L v) \<and>
     rel_option (user_moved (amount E x)) (lg_users L u) (lg_users L' u)"
  "cost_step E x (\<lambda>a. amend_sub s (add_usage a)) L = Inr L' \<Longrightarrow> typed_ledger L \<Longrightarrow>
     lg_keys L' = lg_keys L \<and> lg_users L' = lg_users L \<and> (\<forall>v. v \<noteq> s \<longrightarrow> lg_subs L' v = lg_subs L v) \<and>
     rel_option (sub_moved (amount E x)) (lg_subs L s) (lg_subs L' s)"
  "cost_step E x (ledger_account E now j y) L = Inr L' \<Longrightarrow>
     lg_keys L' = lg_keys L \<and> lg_users L' = lg_users L \<and> lg_subs L' = lg_subs L"
proof -
  assume run: "cost_step E x (\<lambda>a. amend_user u (deduct_balance a)) L = Inr L'" and typed: "typed_ledger L"
  show "lg_keys L' = lg_keys L \<and> lg_subs L' = lg_subs L \<and> (\<forall>v. v \<noteq> u \<longrightarrow> lg_users L' v = lg_users L v) \<and>
     rel_option (user_moved (amount E x)) (lg_users L u) (lg_users L' u)"
    using run
  proof (cases rule: cost_stepE)
    case Free
    then show ?thesis using typed
      by (cases "lg_users L u") (auto simp: typed_ledger_def typed_user_def decimal_def user_moved_def)
  next
    case Charged
    then show ?thesis using amend_moved [of u _ "deduct_balance (amount E x)" _ "lg_users L" _ "user_moved (amount E x)"]
      by (auto simp: amend_user_def rows_moved dest!: and_then_InrD)
  qed
next
  assume run: "cost_step E x (\<lambda>a. amend_sub s (add_usage a)) L = Inr L'" and typed: "typed_ledger L"
  show "lg_keys L' = lg_keys L \<and> lg_users L' = lg_users L \<and> (\<forall>v. v \<noteq> s \<longrightarrow> lg_subs L' v = lg_subs L v) \<and>
     rel_option (sub_moved (amount E x)) (lg_subs L s) (lg_subs L' s)"
    using run
  proof (cases rule: cost_stepE)
    case Free
    then show ?thesis using typed
      by (cases "lg_subs L s") (auto simp: typed_ledger_def typed_sub_def decimal_def sub_moved_def)
  next
    case Charged
    then show ?thesis using amend_moved [of s _ "add_usage (amount E x)" _ "lg_subs L" _ "sub_moved (amount E x)"]
      by (auto simp: amend_sub_def rows_moved dest!: and_then_InrD)
  qed
next
  assume "cost_step E x (ledger_account E now j y) L = Inr L'"
  then show "lg_keys L' = lg_keys L \<and> lg_users L' = lg_users L \<and> lg_subs L' = lg_subs L"
    by (cases rule: cost_stepE)
      (auto simp: ledger_account_def amend_account_def announce_def Let_def dest!: and_then_InrD split: option.splits if_splits)
qed

lemma charge_moves_claims [simp]: "charge_moves E now c (L\<lparr>lg_claims := m\<rparr>) L' = charge_moves E now c L L'"
  by (simp add: charge_moves_def)

lemma key_steps_moved:
  assumes quota: "cost_step E (uc_APIKeyQuotaCost c) (\<lambda>a. amend_key k (add_quota a)) L = Inr L1"
    and rate: "cost_step E (uc_APIKeyRateLimitCost c) (\<lambda>a. amend_key k (add_rate_limit E now a)) L1 = Inr L2"
    and typed: "typed_ledger L"
  shows "lg_users L2 = lg_users L \<and> lg_subs L2 = lg_subs L \<and> (\<forall>j. j \<noteq> k \<longrightarrow> lg_keys L2 j = lg_keys L j) \<and>
     rel_option (key_moved E now c) (lg_keys L k) (lg_keys L2 k)"
proof -
  let ?Q = "\<lambda>r r'. kr_quota r' = kr_quota r \<and> kr_deleted r' = kr_deleted r \<and>
     stored 8 (kr_quota_used r + amount E (uc_APIKeyQuotaCost c)) (kr_quota_used r') \<and> rates_same r r'"
  have 1: "lg_users L1 = lg_users L \<and> lg_subs L1 = lg_subs L \<and> (\<forall>j. j \<noteq> k \<longrightarrow> lg_keys L1 j = lg_keys L j) \<and>
     rel_option ?Q (lg_keys L k) (lg_keys L1 k)"
    using quota
  proof (cases rule: cost_stepE)
    case Free
    then show ?thesis using typed
      by (cases "lg_keys L k") (auto simp: typed_ledger_def typed_key_def decimal_def rates_same_def)
  next
    case Charged
    then show ?thesis
      using amend_moved [of k _ "add_quota (amount E (uc_APIKeyQuotaCost c))" _ "lg_keys L" _ ?Q] quota_moved
      by (auto simp: amend_key_def dest!: and_then_InrD)
  qed
  show ?thesis
    using rate
  proof (cases rule: cost_stepE)
    case Free
    have "rel_option (key_moved E now c) (lg_keys L k) (lg_keys L1 k)"
      using 1 by (auto elim!: option.rel_mono_strong simp: key_moved_def Free)
    then show ?thesis using 1 Free by simp
  next
    case Charged
    let ?a = "amount E (uc_APIKeyRateLimitCost c)"
    obtain r1 r2 where r: "lg_keys L1 k = Some r1" "add_rate_limit E now ?a r1 = Inr r2"
      "L2 = L1\<lparr>lg_keys := (lg_keys L1)(k \<mapsto> r2)\<rparr>"
      using Charged(1) by (auto simp: amend_key_def dest!: and_then_InrD amend_Inr)
    obtain r0 where r0: "lg_keys L k = Some r0" "?Q r0 r1" using 1 r(1) by (cases "lg_keys L k") auto
    have "key_moved E now c r0 r2"
      using rate_limit_moved [OF r(2)] r0(2) Charged(2) by (simp add: key_moved_def rates_moved_def rates_same_def)
    then show ?thesis using 1 r(3) r0(1) by simp
  qed
qed

lemma charge_moved:
  assumes run: "ledger_charge E now c L = Inr L'" and typed: "typed_ledger L"
  shows "charge_moves E now c L L'"
  using run
proof (cases rule: ledger_chargeE)
  case (Steps L1 L2 L3 L4)
  have s: "typed_ledger L1 \<and> lg_keys L1 = lg_keys L \<and> lg_users L1 = lg_users L \<and>
      (\<forall>s. if uc_SubscriptionID c = Some s
          then rel_option (sub_moved (amount E (uc_SubscriptionCost c))) (lg_subs L s) (lg_subs L1 s)
          else lg_subs L1 s = lg_subs L s)"
  proof (cases "uc_SubscriptionID c")
    case (Some sid)
    then have run: "cost_step E (uc_SubscriptionCost c) (\<lambda>a. amend_sub sid (add_usage a)) L = Inr L1" using Steps(1) by simp
    show ?thesis using cost_step_moved(2) [OF run typed] typed_cost_step(4) [OF typed run] Some by simp
  qed (use Steps(1) typed in simp)
  then have t1: "typed_ledger L1" by simp
  have u: "typed_ledger L2" "lg_keys L2 = lg_keys L1 \<and> lg_subs L2 = lg_subs L1 \<and>
      (\<forall>v. v \<noteq> uc_UserID c \<longrightarrow> lg_users L2 v = lg_users L1 v) \<and>
      rel_option (user_moved (amount E (uc_BalanceCost c))) (lg_users L1 (uc_UserID c)) (lg_users L2 (uc_UserID c))"
    by (rule typed_cost_step(1) [OF t1 Steps(2)], rule cost_step_moved(1) [OF Steps(2) t1])
  note k = key_steps_moved [OF Steps(3,4) u(1)]
  have a: "lg_keys L' = lg_keys L4 \<and> lg_users L' = lg_users L4 \<and> lg_subs L' = lg_subs L4"
    using Steps(5) cost_step_moved(3) by (cases "billed_account E c") auto
  show ?thesis unfolding charge_moves_def using s u(2) k a by simp
qed

text \<open>
  C17. A charge moves exactly its costs and keeps every column within its type. When it is reported as
  applied, the user's balance falls by the balance cost, the key's used quota rises by the quota cost,
  each of the key's rate windows rises by the rate cost, or starts again with it when it had ended, and
  the daily, weekly and monthly usage of the subscription rises by the subscription cost; each new value
  is the exact result when it has the decimals of its column and the nearest one that does otherwise,
  costs that are not positive move nothing, and no other user, key or subscription is touched. Any
  other answer leaves the books alone, except an error that lost the acknowledgement of such a charge.
\<close>

theorem charge_moves_costs:
  assumes "run_call E (ApplyUsage cmd) w = (r, w')" and "wf_claims (wd_db w)" and "typed_ledger (world_ledger w)"
  shows "typed_ledger (world_ledger w') \<and>
    (if r = Inr True
     then \<exists>now. charge_moves E now (usage_Normalize E cmd) (world_ledger w) (world_ledger w')
     else world_ledger w' = world_ledger w \<or>
       ((\<exists>e. r = Inl e) \<and> (\<exists>now. charge_moves E now (usage_Normalize E cmd) (world_ledger w) (world_ledger w'))))"
proof -
  let ?L = "world_ledger w" and ?L' = "world_ledger w'" and ?c = "usage_Normalize E cmd"
  have eff: "typed_ledger ?L' \<and> charge_moves E now ?c ?L ?L'"
    if run: "call_effect E now (ApplyUsage cmd) (?L\<lparr>lg_claims := m\<rparr>) = Inr ?L'" for now m
  proof -
    have typed: "typed_ledger (?L\<lparr>lg_claims := m\<rparr>)" using assms(3) by simp
    have "charge_moves E now ?c (?L\<lparr>lg_claims := m\<rparr>) ?L'" by (rule charge_moved [OF _ typed]) (use run in simp)
    then show ?thesis using typed_effect [OF typed run] by simp
  qed
  show ?thesis
    using call_refines [OF assms(1,2)] by (rule ledger_stepE) (use assms(3) eff in \<open>auto simp del: fun_upd_apply\<close>)
qed


section \<open>Funds under a hold\<close>

definition funds :: "ledger \<Rightarrow> int64 \<Rightarrow> rat" where
  "funds L u = (case lg_users L u of None \<Rightarrow> 0 | Some r \<Rightarrow> ur_balance r + ur_frozen r)"

definition spendable :: "ledger \<Rightarrow> int64 \<Rightarrow> rat" where
  "spendable L u = (case lg_users L u of None \<Rightarrow> 0 | Some r \<Rightarrow> ur_balance r)"

lemma set_balances_Inr:
  "set_balances b f r = Inr r' \<Longrightarrow> to_decimal 20 8 b = Inr (ur_balance r') \<and> to_decimal 20 8 f = Inr (ur_frozen r') \<and>
     ur_deleted r' = ur_deleted r"
  by (auto simp: set_balances_def split: sum.splits)

lemma hold_funds:
  assumes run: "amend_user v (\<lambda>r. if Q r then set_balances (b r) (f r) r else Inl e) L = Inr L'"
    and total: "\<And>r. b r + f r = ur_balance r + ur_frozen r"
  shows "\<bar>funds L' u - funds L u\<bar> \<le> 1 / 10 ^ 8"
    and "typed_ledger L \<Longrightarrow> (\<And>r. typed_user r \<Longrightarrow> on_grid 8 (b r) \<and> on_grid 8 (f r)) \<Longrightarrow> funds L' u = funds L u"
    and "(\<And>r. Q r \<Longrightarrow> 0 \<le> b r) \<Longrightarrow> 0 \<le> spendable L u \<Longrightarrow> 0 \<le> spendable L' u"
proof -
  obtain r r' where r: "lg_users L v = Some r" "Q r" "set_balances (b r) (f r) r = Inr r'"
    and L': "L' = L\<lparr>lg_users := (lg_users L)(v \<mapsto> r')\<rparr>"
    using run by (auto simp: amend_user_def dest!: and_then_InrD amend_Inr split: if_splits)
  note S = set_balances_Inr [OF r(3)]
  have "\<bar>ur_balance r' - b r\<bar> \<le> 1 / 2 / 10 ^ 8" "\<bar>ur_frozen r' - f r\<bar> \<le> 1 / 2 / 10 ^ 8"
    using S to_decimal_bound by blast+
  then have "\<bar>(ur_balance r' + ur_frozen r') - (b r + f r)\<bar> \<le> 1 / 10 ^ 8"
    by (simp add: abs_if split: if_splits)
  then show "\<bar>funds L' u - funds L u\<bar> \<le> 1 / 10 ^ 8"
    using r(1) total by (cases "u = v") (auto simp: funds_def L')
  show "funds L' u = funds L u" if "typed_ledger L" and grid: "\<And>r. typed_user r \<Longrightarrow> on_grid 8 (b r) \<and> on_grid 8 (f r)"
  proof -
    have "typed_user r" using that(1) r(1) by (auto simp: typed_ledger_def)
    then have "ur_balance r' = b r" "ur_frozen r' = f r" using S grid to_decimal_exact by blast+
    then show ?thesis using r(1) total [of r] by (cases "u = v") (auto simp: funds_def L')
  qed
  show "0 \<le> spendable L' u" if "\<And>r. Q r \<Longrightarrow> 0 \<le> b r" and "0 \<le> spendable L u"
    using that r S to_decimal_nonneg by (cases "u = v") (auto simp: spendable_def L')
qed

lemma hold_Normalize_amounts [simp]:
  "hc_HoldAmount (hold_Normalize E c) = hc_HoldAmount c" "hc_ActualAmount (hold_Normalize E c) = hc_ActualAmount c"
  "hc_UserID (hold_Normalize E c) = hc_UserID c"
  by (simp_all add: hold_Normalize_def Let_def)

lemma funds_claims [simp]: "funds (L\<lparr>lg_claims := c\<rparr>) = funds L" "spendable (L\<lparr>lg_claims := c\<rparr>) = spendable L"
  by (simp_all add: funds_def spendable_def fun_eq_iff)

definition moves_funds :: "bill_env \<Rightarrow> BatchImageBalanceHoldCommand \<Rightarrow> ledger \<Rightarrow> ledger \<Rightarrow> bool" where
  "moves_funds E h L L' \<longleftrightarrow> (\<forall>u. \<bar>funds L' u - funds L u\<bar> \<le> 1 / 10 ^ 8 \<and>
     (typed_ledger L \<longrightarrow> (\<forall>a. be_numeric E (hc_HoldAmount h) = Inr a \<longrightarrow> on_grid 8 a \<longrightarrow> funds L' u = funds L u)))"

lemma moves_funds_refl [simp]: "moves_funds E h L L"
  by (simp add: moves_funds_def)

lemma reserve_moves_funds:
  assumes "ledger_reserve E (hold_Normalize E h) L = Inr L'"
  shows "moves_funds E h L L' \<and> (\<forall>u. 0 \<le> spendable L u \<longrightarrow> 0 \<le> spendable L' u)"
proof (cases "f_le (hc_HoldAmount h) f_zero")
  case False
  obtain a where a: "be_numeric E (hc_HoldAmount h) = Inr a" and
    run: "amend_user (hc_UserID h) (\<lambda>r. if a \<le> ur_balance r then set_balances (ur_balance r - a) (ur_frozen r + a) r
        else Inl ErrBatchImageInsufficientBalance) L = Inr L'"
    using assms False by (auto simp: ledger_reserve_def dest!: and_then_InrD)
  show ?thesis
    using hold_funds [OF run] a
    by (auto simp: moves_funds_def typed_user_def decimal_def intro: on_grid_add on_grid_diff)
qed (use assms in \<open>simp add: ledger_reserve_def\<close>)

lemma release_moves_funds:
  assumes "ledger_release E (hold_Normalize E h) L = Inr L'"
  shows "moves_funds E h L L'"
proof (cases "L' = L")
  case False
  then obtain a where a: "be_numeric E (hc_HoldAmount h) = Inr a" and
    run: "amend_user (hc_UserID h) (\<lambda>r. if a \<le> ur_frozen r then set_balances (ur_balance r + a) (ur_frozen r - a) r
        else Inl ErrFrozenInsufficient) L = Inr L'"
    using assms by (auto simp: ledger_release_def dest!: and_then_InrD split: if_splits)
  show ?thesis
    using hold_funds(1,2) [OF run] a
    by (auto simp: moves_funds_def typed_user_def decimal_def intro: on_grid_add on_grid_diff)
qed simp

text \<open>
  C21. Holding and releasing move money between a user's balance and frozen balance and neither create
  nor destroy it: whatever the outcome of the call, the sum changes for nobody when the held amount has
  at most eight decimals, and by at most one hundred-millionth when the columns had to round it. A hold
  never makes a balance negative.
\<close>

theorem holds_conserve_funds:
  assumes "run_call E c w = (r, w')" and "wf_claims (wd_db w)" and "c = ReserveHold h \<or> c = ReleaseHold h"
  shows "\<bar>funds (world_ledger w') u - funds (world_ledger w) u\<bar> \<le> 1 / 10 ^ 8 \<and>
    (typed_ledger (world_ledger w) \<longrightarrow> (\<forall>a. be_numeric E (hc_HoldAmount h) = Inr a \<longrightarrow> on_grid 8 a \<longrightarrow>
       funds (world_ledger w') u = funds (world_ledger w) u)) \<and>
    (c = ReserveHold h \<longrightarrow> 0 \<le> spendable (world_ledger w) u \<longrightarrow> 0 \<le> spendable (world_ledger w') u)"
proof -
  let ?L = "world_ledger w" and ?L' = "world_ledger w'"
  have eff: "moves_funds E h ?L ?L' \<and> (c = ReserveHold h \<longrightarrow> (\<forall>u. 0 \<le> spendable ?L u \<longrightarrow> 0 \<le> spendable ?L' u))"
    if "call_effect E now c (claim_in k f ?L) = Inr ?L'" for now k f
    using assms(3) that reserve_moves_funds [of E h "claim_in k f ?L" ?L']
      release_moves_funds [of E h "claim_in k f ?L" ?L']
    by (auto simp: moves_funds_def)
  have "moves_funds E h ?L ?L' \<and> (c = ReserveHold h \<longrightarrow> (\<forall>u. 0 \<le> spendable ?L u \<longrightarrow> 0 \<le> spendable ?L' u))"
    using call_refines [OF assms(1,2)] by (rule ledger_stepE) (use eff in \<open>auto simp del: fun_upd_apply\<close>)
  then show ?thesis by (simp add: moves_funds_def)
qed


section \<open>A concrete database\<close>

definition demo_bill_env :: bill_env where
  "demo_bill_env = \<lparr>be_sha = (\<lambda>s. s), be_decimal = (\<lambda>x. x),
     be_numeric = (\<lambda>x. case x of Fin q \<Rightarrow> Inr q | _ \<Rightarrow> Inl (Sentinel ''invalid numeric'')),
     be_unicode = ascii_tables, be_local = (\<lambda>z t. t), be_instant = (\<lambda>z l. l),
     be_session_zone = ''UTC'', be_lost = (\<lambda>n. False), be_connected = True\<rparr>"

definition demo_bill_db :: billing_db where
  "demo_bill_db = \<lparr>bd_dedup = [((''old'', 5), (''fp'', 7))], bd_archive = [],
     bd_users = [(1, \<lparr>ur_balance = 3, ur_frozen = 1 / 2, ur_deleted = False\<rparr>)],
     bd_keys = [(5, \<lparr>kr_quota = 4, kr_quota_used = 7 / 2, kr_status = ''active'', kr_usage_5h = 0, kr_usage_1d = 0,
        kr_usage_7d = 0, kr_window_5h = None, kr_window_1d = None, kr_window_7d = None, kr_deleted = False\<rparr>)],
     bd_subs = [], bd_accounts = [], bd_outbox = []\<rparr>"

definition demo_bill_world :: bill_world where
  "demo_bill_world = \<lparr>wd_db = demo_bill_db, wd_clock = (\<lambda>n. 1000), wd_tick = 0, wd_fault = (\<lambda>n. None),
     wd_stmt = 0, wd_unique = (\<lambda>e. False)\<rparr>"

definition demo_usage :: UsageBillingCommand where
  "demo_usage = \<lparr>uc_RequestID = ''r1'', uc_APIKeyID = 5, uc_RequestFingerprint = ''f1'', uc_RequestPayloadHash = '''',
     uc_UserID = 1, uc_AccountID = 9, uc_SubscriptionID = None, uc_AccountType = ''oauth'', uc_Model = ''m'',
     uc_ServiceTier = '''', uc_ReasoningEffort = '''', uc_BillingType = 0, uc_InputTokens = 1, uc_OutputTokens = 1,
     uc_CacheCreationTokens = 0, uc_CacheReadTokens = 0, uc_ImageCount = 0, uc_MediaType = '''',
     uc_BalanceCost = Fin (1 / 2), uc_SubscriptionCost = f_zero, uc_APIKeyQuotaCost = Fin (1 / 2),
     uc_APIKeyRateLimitCost = f_zero, uc_AccountQuotaCost = f_zero\<rparr>"

definition demo_hold :: BatchImageBalanceHoldCommand where
  "demo_hold = \<lparr>hc_RequestID = ''batch_image_hold:b'', hc_APIKeyID = 5, hc_RequestFingerprint = ''f2'',
     hc_RequestPayloadHash = '''', hc_UserID = 1, hc_BatchID = ''b'', hc_HoldAmount = Fin 2, hc_ActualAmount = f_zero\<rparr>"

lemma demo_healthy: "healthy demo_bill_world"
  by (simp add: healthy_def demo_bill_world_def)

lemma demo_wf_claims: "wf_claims (wd_db demo_bill_world)"
  by (simp add: wf_claims_def demo_bill_world_def demo_bill_db_def)

lemma demo_typed: "typed_ledger (world_ledger demo_bill_world)"
  by (auto simp: typed_ledger_def typed_user_def typed_key_def decimal_def on_grid_def abs_ledger_def
      demo_bill_world_def demo_bill_db_def split: if_splits)


lemma demo_trim:
  "TrimSpace ''r1'' = ''r1''" "TrimSpace ''f1'' = ''f1''" "TrimSpace ''f2'' = ''f2''" "TrimSpace ''b'' = ''b''"
  "TrimSpace ''batch_image_hold:b'' = ''batch_image_hold:b''"
  by code_simp+

lemma demo_usage_Normalize: "usage_Normalize demo_bill_env demo_usage = demo_usage"
  by (simp add: usage_Normalize_def demo_usage_def demo_bill_env_def quantizeMonetaryFields_def
      QuantizeUsageBillingAmount_def demo_trim f_is_nan_def f_is_inf_def)

lemma demo_charge_runs:
  "fst (run_call demo_bill_env (ApplyUsage demo_usage) demo_bill_world) = Inr True"
  unfolding run_call.simps usage_Apply_def option.case demo_usage_Normalize Let_def
  by (simp add: with_tx_def apply_body_def claimUsageBillingKey_def
      claimUsageBillingRequest_def sql_exec_def nothing_def applyUsageBillingEffects_def charge_subscription_def
      charge_balance_def charge_key_quota_def charge_key_rate_def charge_account_def deductUsageBillingBalance_def
      incrementUsageBillingAPIKeyQuota_def with_numeric_def update_users_def update_keys_def update_row_def
      deduct_balance_def add_quota_def to_decimal_def round_half_away_def as_applied_def demo_bill_env_def
      demo_usage_def demo_bill_world_def demo_bill_db_def no_apply_result_def tick_def now_of_def Let_def)

lemma demo_hold_Normalize: "hold_Normalize demo_bill_env demo_hold = demo_hold"
  by (simp add: hold_Normalize_def demo_hold_def demo_trim)

lemma demo_hold_runs:
  "fst (run_call demo_bill_env (ReserveHold demo_hold) demo_bill_world) = Inr True"
  unfolding run_call.simps ReserveBatchImageBalance_def applyBatchImageBalanceHold_def option.case demo_hold_Normalize Let_def
  by (simp add: with_tx_def
      hold_body_def claimUsageBillingRequest_def sql_exec_def nothing_def reserveUsageBillingBatchImageBalance_def
      with_numeric_def update_users_def update_row_def set_balances_def to_decimal_def round_half_away_def
      hold_result_def as_applied_def demo_bill_env_def demo_hold_def demo_bill_world_def demo_bill_db_def
      tick_def now_of_def Let_def)

theorem billing_refines_ledger_witness:
  "wf_claims (wd_db demo_bill_world) \<and>
   ledger_step demo_bill_env (ApplyUsage demo_usage) (world_ledger demo_bill_world) (Inr True)
     (world_ledger (snd (run_call demo_bill_env (ApplyUsage demo_usage) demo_bill_world)))"
  using billing_refines_ledger [of demo_bill_env "ApplyUsage demo_usage" demo_bill_world "Inr True"
      "snd (run_call demo_bill_env (ApplyUsage demo_usage) demo_bill_world)"] demo_wf_claims demo_charge_runs
  by (simp add: prod_eq_iff)

theorem charged_at_most_once_witness:
  "wf_claims (wd_db demo_bill_world) \<and>
   charges (\<lambda>c w. snd (run_call demo_bill_env c w)) (call_key demo_bill_env) books_of (''r1'', 5)
     [ApplyUsage demo_usage, ApplyUsage demo_usage] demo_bill_world \<le> 1"
  using charged_at_most_once [OF demo_wf_claims, of demo_bill_env "(''r1'', 5)"
      "[ApplyUsage demo_usage, ApplyUsage demo_usage]"] demo_wf_claims
  by (auto split: if_splits)

theorem billing_call_spec_witness:
  "healthy demo_bill_world \<and> be_connected demo_bill_env \<and>
   call_key demo_bill_env (ApplyUsage demo_usage) = Some (''r1'', 5) \<and>
   (case call_effect demo_bill_env 1000 (ApplyUsage demo_usage)
      (claim_in (''r1'', 5) ''f1'' (world_ledger demo_bill_world)) of
     Inl e \<Rightarrow> False
   | Inr L \<Rightarrow> world_ledger (snd (run_call demo_bill_env (ApplyUsage demo_usage) demo_bill_world)) = L)"
proof -
  have key: "call_key demo_bill_env (ApplyUsage demo_usage) = Some (''r1'', 5)"
    by (simp add: demo_usage_Normalize) (simp add: demo_usage_def)
  have conn: "be_connected demo_bill_env" by (simp add: demo_bill_env_def)
  have new: "lg_claims (world_ledger demo_bill_world) (''r1'', 5) = None"
    by (simp add: abs_ledger_def claims_of_def demo_bill_world_def demo_bill_db_def)
  have fp: "call_fingerprint demo_bill_env (ApplyUsage demo_usage) = ''f1''" "now_of demo_bill_world = 1000"
    by (simp add: demo_usage_Normalize, simp add: demo_usage_def, simp add: now_of_def demo_bill_world_def)
  show ?thesis
    using billing_call_spec [of demo_bill_env "ApplyUsage demo_usage" demo_bill_world
        "fst (run_call demo_bill_env (ApplyUsage demo_usage) demo_bill_world)"
        "snd (run_call demo_bill_env (ApplyUsage demo_usage) demo_bill_world)" "(''r1'', 5)"]
      key conn new fp demo_healthy demo_charge_runs by (auto split: sum.splits)
qed

theorem charge_moves_costs_witness:
  "\<exists>u q L'. L' = world_ledger (snd (run_call demo_bill_env (ApplyUsage demo_usage) demo_bill_world)) \<and>
     typed_ledger L' \<and> lg_users L' 1 = Some u \<and> ur_balance u = 5 / 2 \<and> ur_frozen u = 1 / 2 \<and>
     lg_keys L' 5 = Some q \<and> kr_quota_used q = 4 \<and> kr_usage_5h q = 0"
proof -
  let ?L = "world_ledger demo_bill_world"
  let ?L' = "world_ledger (snd (run_call demo_bill_env (ApplyUsage demo_usage) demo_bill_world))"
  have typed: "typed_ledger ?L'" and "\<exists>now. charge_moves demo_bill_env now demo_usage ?L ?L'"
    using charge_moves_costs [of demo_bill_env demo_usage demo_bill_world "Inr True"
        "snd (run_call demo_bill_env (ApplyUsage demo_usage) demo_bill_world)"]
      demo_wf_claims demo_typed demo_charge_runs demo_usage_Normalize by (simp_all add: prod_eq_iff)
  then obtain now where moved: "charge_moves demo_bill_env now demo_usage ?L ?L'" by blast
  have cmd: "uc_UserID demo_usage = 1" "uc_APIKeyID demo_usage = 5" "\<not> f_less f_zero (uc_APIKeyRateLimitCost demo_usage)"
    "amount demo_bill_env (uc_BalanceCost demo_usage) = 1 / 2" "amount demo_bill_env (uc_APIKeyQuotaCost demo_usage) = 1 / 2"
    by (simp_all add: demo_usage_def amount_def demo_bill_env_def)
  obtain r q where rows: "lg_users ?L 1 = Some r" "ur_balance r = 3" "ur_frozen r = 1 / 2"
    "lg_keys ?L 5 = Some q" "kr_quota_used q = 7 / 2" "kr_usage_5h q = 0"
    by (simp add: abs_ledger_def demo_bill_world_def demo_bill_db_def)
  have "rel_option (user_moved (1 / 2)) (Some r) (lg_users ?L' 1)"
    "rel_option (key_moved demo_bill_env now demo_usage) (Some q) (lg_keys ?L' 5)"
    using moved rows(1,4) cmd unfolding charge_moves_def by metis+
  then obtain r' q' where new: "lg_users ?L' 1 = Some r'" "user_moved (1 / 2) r r'" "lg_keys ?L' 5 = Some q'"
    "key_moved demo_bill_env now demo_usage q q'"
    by (auto simp: option_rel_Some1)
  have "on_grid 8 (3 - 1 / 2)" "on_grid 8 (7 / 2 + 1 / 2)" by (simp_all add: on_grid_def)
  then have "ur_balance r' = 5 / 2" "ur_frozen r' = 1 / 2" "kr_quota_used q' = 4" "kr_usage_5h q' = 0"
    using new(2,4) rows cmd by (simp_all add: user_moved_def key_moved_def rates_same_def stored_def)
  then show ?thesis using typed new(1,3) by blast
qed

theorem holds_conserve_funds_witness:
  "fst (run_call demo_bill_env (ReserveHold demo_hold) demo_bill_world) = Inr True \<and>
   funds (world_ledger (snd (run_call demo_bill_env (ReserveHold demo_hold) demo_bill_world))) 1 = 7 / 2"
proof -
  have "be_numeric demo_bill_env (hc_HoldAmount demo_hold) = Inr 2" "on_grid 8 2"
    "funds (world_ledger demo_bill_world) 1 = 7 / 2"
    by (simp_all add: demo_bill_env_def demo_hold_def on_grid_def funds_def abs_ledger_def demo_bill_world_def
        demo_bill_db_def)
  then show ?thesis
    using holds_conserve_funds [of demo_bill_env "ReserveHold demo_hold" demo_bill_world
        "fst (run_call demo_bill_env (ReserveHold demo_hold) demo_bill_world)"
        "snd (run_call demo_bill_env (ReserveHold demo_hold) demo_bill_world)" demo_hold 1]
      demo_wf_claims demo_typed demo_hold_runs by simp
qed


section \<open>Holding and releasing\<close>

lemma request_ids:
  "TrimSpace (BatchImageHoldRequestID b) = BatchImageHoldRequestID b"
  "TrimSpace (BatchImageReleaseRequestID b) = BatchImageReleaseRequestID b"
  "BatchImageHoldRequestID (TrimSpace b) = BatchImageHoldRequestID b"
  "BatchImageHoldRequestID b \<noteq> ''''" "BatchImageReleaseRequestID b \<noteq> ''''"
  "BatchImageReleaseRequestID b \<noteq> BatchImageHoldRequestID b"
  by (simp_all add: BatchImageHoldRequestID_def BatchImageReleaseRequestID_def batchImageHoldRequestPrefix_def
      batchImageReleaseRequestPrefix_def TrimSpace_prefix TrimSpace_idem graphic_char_def
      del: append_Cons append_Nil)

lemma hold_call_key:
  "call_key E (ReserveHold c) = Some (TrimSpace (hc_RequestID c), hc_APIKeyID c)"
  "call_key E (ReleaseHold c) = Some (TrimSpace (hc_RequestID c), hc_APIKeyID c)"
  by (simp_all add: hold_Normalize_def Let_def)

lemma amend_user_ok:
  "lg_users L u = Some r \<Longrightarrow> \<not> ur_deleted r \<Longrightarrow> f r = Inr r' \<Longrightarrow>
   amend_user u f L = Inr (L\<lparr>lg_users := (lg_users L)(u \<mapsto> r')\<rparr>)"
  by (simp add: amend_user_def amend_def)

lemma set_balances_ok:
  "decimal 20 8 b \<Longrightarrow> decimal 20 8 f \<Longrightarrow> set_balances b f r = Inr (r\<lparr>ur_balance := b, ur_frozen := f\<rparr>)"
  by (simp add: set_balances_def to_decimal_fits)

lemma fresh_call_charged:
  assumes "call_key E c = Some k" and "healthy w" "be_connected E" "fst k \<noteq> ''''"
    and "lg_claims (world_ledger w) k = None"
    and "call_effect E (now_of w) c (claim_in k (call_fingerprint E c) (world_ledger w)) = Inr L"
  shows "\<exists>w'. run_call E c w = (Inr True, w') \<and> world_ledger w' = L \<and> healthy w'"
proof -
  obtain r w' where run: "run_call E c w = (r, w')" by fastforce
  have "healthy w'" using call_settles [OF run] assms(1,2) same_env_healthy by blast
  then show ?thesis using call_outcome [OF run assms(1-4)] assms(5,6) run by simp
qed

text \<open>The state in which a hold of the amount \<open>a\<close> for a job succeeds.\<close>

definition can_hold :: "bill_env \<Rightarrow> BatchImageJob \<Rightarrow> int64 \<Rightarrow> rat \<Rightarrow> user_row \<Rightarrow> bill_world \<Rightarrow> bool" where
  "can_hold E job key a row w \<longleftrightarrow> healthy w \<and> be_connected E \<and> bj_APIKeyID job = Some key \<and> 0 < key \<and>
     (\<exists>h. bj_HoldAmount job = Some h \<and> f_less f_zero h \<and> be_numeric E h = Inr a) \<and> 0 \<le> a \<and> on_grid 8 a \<and>
     lg_users (world_ledger w) (bj_UserID job) = Some row \<and> \<not> ur_deleted row \<and> typed_user row \<and>
     a \<le> ur_balance row \<and> 0 \<le> ur_frozen row \<and> ur_frozen row + a < 10 ^ 12"

lemma job_command:
  assumes "can_hold E job key a row w"
  obtains h where "f_less f_zero h" "\<not> f_le h f_zero" "be_numeric E h = Inr a"
    "\<And>rid ph. buildBatchImageHoldCommand job rid f_zero ph = Inr \<lparr>hc_RequestID = rid, hc_APIKeyID = key,
       hc_RequestFingerprint = '''', hc_RequestPayloadHash = TrimSpace ph, hc_UserID = bj_UserID job,
       hc_BatchID = bj_BatchID job, hc_HoldAmount = h, hc_ActualAmount = f_zero\<rparr>"
proof -
  obtain h where h: "bj_HoldAmount job = Some h" "f_less f_zero h" "be_numeric E h = Inr a"
    using assms by (auto simp: can_hold_def)
  have "\<not> f_le h f_zero" "\<not> f_less h f_zero" using h(2) by (cases h; simp)+
  then show thesis
    using that [OF h(2) _ h(3)] h assms by (simp add: buildBatchImageHoldCommand_def clamp_zero_def can_hold_def)
qed

lemma job_reserved:
  assumes ok: "can_hold E job key a row w"
    and new: "lg_claims (world_ledger w) (BatchImageHoldRequestID (bj_BatchID job), key) = None"
  shows "\<exists>f w'. reserveBatchImageBalanceHold E job ph w = (None, w') \<and> healthy w' \<and>
    world_ledger w' = (world_ledger w)\<lparr>
      lg_claims := (lg_claims (world_ledger w))((BatchImageHoldRequestID (bj_BatchID job), key) \<mapsto> f),
      lg_users := (lg_users (world_ledger w))(bj_UserID job \<mapsto>
        row\<lparr>ur_balance := ur_balance row - a, ur_frozen := ur_frozen row + a\<rparr>)\<rparr>"
proof -
  obtain h where h: "\<not> f_le h f_zero" "be_numeric E h = Inr a"
    and cmd: "\<And>rid ph. buildBatchImageHoldCommand job rid f_zero ph = Inr \<lparr>hc_RequestID = rid, hc_APIKeyID = key,
       hc_RequestFingerprint = '''', hc_RequestPayloadHash = TrimSpace ph, hc_UserID = bj_UserID job,
       hc_BatchID = bj_BatchID job, hc_HoldAmount = h, hc_ActualAmount = f_zero\<rparr>"
    using job_command [OF ok] by metis
  define c where "c = \<lparr>hc_RequestID = BatchImageHoldRequestID (bj_BatchID job), hc_APIKeyID = key,
       hc_RequestFingerprint = '''', hc_RequestPayloadHash = TrimSpace ph, hc_UserID = bj_UserID job,
       hc_BatchID = bj_BatchID job, hc_HoldAmount = h, hc_ActualAmount = f_zero\<rparr>"
  let ?k = "(BatchImageHoldRequestID (bj_BatchID job), key)"
  have key: "call_key E (ReserveHold c) = Some ?k" by (simp add: hold_call_key c_def request_ids del: call_key.simps)
  have "decimal 20 8 (ur_balance row - a)" "decimal 20 8 (ur_frozen row + a)"
    using ok by (auto simp: can_hold_def typed_user_def decimal_def)
  then have eff: "call_effect E (now_of w) (ReserveHold c) (claim_in ?k (call_fingerprint E (ReserveHold c)) (world_ledger w)) =
      Inr ((world_ledger w)\<lparr>lg_claims := (lg_claims (world_ledger w))(?k \<mapsto> call_fingerprint E (ReserveHold c)),
        lg_users := (lg_users (world_ledger w))(bj_UserID job \<mapsto>
          row\<lparr>ur_balance := ur_balance row - a, ur_frozen := ur_frozen row + a\<rparr>)\<rparr>)"
    using ok h by (simp add: ledger_reserve_def c_def can_hold_def amend_user_def amend_def set_balances_ok)
  obtain w' where w': "run_call E (ReserveHold c) w = (Inr True, w')" "healthy w'"
    "world_ledger w' = (world_ledger w)\<lparr>lg_claims := (lg_claims (world_ledger w))(?k \<mapsto> call_fingerprint E (ReserveHold c)),
        lg_users := (lg_users (world_ledger w))(bj_UserID job \<mapsto>
          row\<lparr>ur_balance := ur_balance row - a, ur_frozen := ur_frozen row + a\<rparr>)\<rparr>"
    using fresh_call_charged [OF key _ _ _ new eff] ok request_ids(4) by (auto simp: can_hold_def)
  have "reserveBatchImageBalanceHold E job ph w = (None, w')"
    using w'(1) h(1) cmd
    by (auto simp: reserveBatchImageBalanceHold_def c_def [symmetric] as_applied_def split: prod.splits sum.splits)
      (simp_all add: c_def)
  then show ?thesis using w' by blast
qed

lemma job_released:
  assumes ok: "can_hold E job key a row w" and w1: "healthy w1"
    and L1: "world_ledger w1 = (world_ledger w)\<lparr>
      lg_claims := (lg_claims (world_ledger w))((BatchImageHoldRequestID (bj_BatchID job), key) \<mapsto> f),
      lg_users := (lg_users (world_ledger w))(bj_UserID job \<mapsto>
        row\<lparr>ur_balance := ur_balance row - a, ur_frozen := ur_frozen row + a\<rparr>)\<rparr>"
    and new: "lg_claims (world_ledger w) (BatchImageReleaseRequestID (bj_BatchID job), key) = None"
  shows "\<exists>w'. releaseBatchImageBalanceHold E (Some job) ph w1 = (None, w') \<and>
    lg_users (world_ledger w') = lg_users (world_ledger w)"
proof -
  obtain h where h: "\<not> f_le h f_zero" "be_numeric E h = Inr a"
    and cmd: "\<And>rid ph. buildBatchImageHoldCommand job rid f_zero ph = Inr \<lparr>hc_RequestID = rid, hc_APIKeyID = key,
       hc_RequestFingerprint = '''', hc_RequestPayloadHash = TrimSpace ph, hc_UserID = bj_UserID job,
       hc_BatchID = bj_BatchID job, hc_HoldAmount = h, hc_ActualAmount = f_zero\<rparr>"
    using job_command [OF ok] by metis
  define c where "c = \<lparr>hc_RequestID = BatchImageReleaseRequestID (bj_BatchID job), hc_APIKeyID = key,
       hc_RequestFingerprint = '''', hc_RequestPayloadHash = TrimSpace ph, hc_UserID = bj_UserID job,
       hc_BatchID = bj_BatchID job, hc_HoldAmount = h, hc_ActualAmount = f_zero\<rparr>"
  let ?k = "(BatchImageReleaseRequestID (bj_BatchID job), key)" and ?L1 = "world_ledger w1"
  have key: "call_key E (ReleaseHold c) = Some ?k" by (simp add: hold_call_key c_def request_ids del: call_key.simps)
  have batch: "hc_BatchID (hold_Normalize E c) = TrimSpace (bj_BatchID job)"
    by (simp add: hold_Normalize_def c_def Let_def)
  have new1: "lg_claims ?L1 ?k = None" using new L1 request_ids(6) by simp
  have "decimal 20 8 (ur_balance row)" "decimal 20 8 (ur_frozen row)"
    using ok by (auto simp: can_hold_def typed_user_def)
  then have eff: "call_effect E (now_of w1) (ReleaseHold c) (claim_in ?k (call_fingerprint E (ReleaseHold c)) ?L1) =
      Inr ((claim_in ?k (call_fingerprint E (ReleaseHold c)) ?L1)\<lparr>lg_users := (lg_users ?L1)(bj_UserID job \<mapsto> row)\<rparr>)"
    using ok h batch L1
    by (simp add: ledger_release_def request_ids(3) c_def can_hold_def amend_user_def amend_def set_balances_ok)
  obtain w' where w': "run_call E (ReleaseHold c) w1 = (Inr True, w')"
    "lg_users (world_ledger w') = (lg_users ?L1)(bj_UserID job \<mapsto> row)"
    using fresh_call_charged [OF key w1 _ _ new1 eff] ok request_ids(5) by (auto simp: can_hold_def)
  have "releaseBatchImageBalanceHold E (Some job) ph w1 = (None, w')"
    using w'(1) h(1) cmd
    by (auto simp: releaseBatchImageBalanceHold_def c_def [symmetric] as_applied_def split: prod.splits sum.splits)
      (simp_all add: c_def)
  moreover have "lg_users (world_ledger w') = lg_users (world_ledger w)"
    using w'(2) L1 ok by (simp add: can_hold_def fun_upd_idem_iff)
  ultimately show ?thesis by blast
qed

text \<open>
  C22. A batch image job whose hold is reserved and then released leaves the user's balance and frozen
  balance as they were: the reservation moves exactly the held amount into the frozen balance, and the
  release, which looks for the claim of the reservation under the job's trimmed identifier, finds it
  and moves the same amount back.
\<close>

theorem hold_release_roundtrip:
  assumes "can_hold E job key a row w"
    and "lg_claims (world_ledger w) (BatchImageHoldRequestID (bj_BatchID job), key) = None"
    and "lg_claims (world_ledger w) (BatchImageReleaseRequestID (bj_BatchID job), key) = None"
  shows "\<exists>w1 w2. reserveBatchImageBalanceHold E job ph w = (None, w1) \<and>
    lg_users (world_ledger w1) (bj_UserID job) =
      Some (row\<lparr>ur_balance := ur_balance row - a, ur_frozen := ur_frozen row + a\<rparr>) \<and>
    releaseBatchImageBalanceHold E (Some job) ph' w1 = (None, w2) \<and>
    lg_users (world_ledger w2) = lg_users (world_ledger w)"
proof -
  obtain f w1 where w1: "reserveBatchImageBalanceHold E job ph w = (None, w1)" "healthy w1"
    "world_ledger w1 = (world_ledger w)\<lparr>
      lg_claims := (lg_claims (world_ledger w))((BatchImageHoldRequestID (bj_BatchID job), key) \<mapsto> f),
      lg_users := (lg_users (world_ledger w))(bj_UserID job \<mapsto>
        row\<lparr>ur_balance := ur_balance row - a, ur_frozen := ur_frozen row + a\<rparr>)\<rparr>"
    using job_reserved [OF assms(1,2)] by blast
  then show ?thesis using job_released [OF assms(1) w1(2,3) assms(3)] by auto
qed


definition demo_job :: BatchImageJob where
  "demo_job = \<lparr>bj_BatchID = ''b'', bj_UserID = 1, bj_APIKeyID = Some 5, bj_EstimatedCost = f_zero,
     bj_HoldAmount = Some (Fin 2)\<rparr>"

lemma demo_can_hold:
  "can_hold demo_bill_env demo_job 5 2 \<lparr>ur_balance = 3, ur_frozen = 1 / 2, ur_deleted = False\<rparr> demo_bill_world"
  using demo_healthy
  by (simp add: can_hold_def demo_job_def demo_bill_env_def abs_ledger_def demo_bill_world_def demo_bill_db_def
      typed_user_def decimal_def on_grid_def)

theorem hold_release_roundtrip_witness:
  "\<exists>w1 w2. reserveBatchImageBalanceHold demo_bill_env demo_job ''h1'' demo_bill_world = (None, w1) \<and>
    lg_users (world_ledger w1) 1 = Some \<lparr>ur_balance = 1, ur_frozen = 5 / 2, ur_deleted = False\<rparr> \<and>
    releaseBatchImageBalanceHold demo_bill_env (Some demo_job) ''h2'' w1 = (None, w2) \<and>
    lg_users (world_ledger w2) = lg_users (world_ledger demo_bill_world)"
proof -
  have "lg_claims (world_ledger demo_bill_world) (BatchImageHoldRequestID (bj_BatchID demo_job), 5) = None"
    "lg_claims (world_ledger demo_bill_world) (BatchImageReleaseRequestID (bj_BatchID demo_job), 5) = None"
    by (simp_all add: abs_ledger_def claims_of_def demo_bill_world_def demo_bill_db_def demo_job_def
        BatchImageHoldRequestID_def BatchImageReleaseRequestID_def batchImageHoldRequestPrefix_def
        batchImageReleaseRequestPrefix_def)
  then show ?thesis
    using hold_release_roundtrip [OF demo_can_hold, of "''h1''" "''h2''"] by (simp add: demo_job_def)
qed

section \<open>Exhausting a quota\<close>

text \<open>
  Charging an API key's quota reports that the quota is exhausted exactly when this charge took the
  used amount from below the quota to it or beyond, and changes the key's status exactly then, if the
  key was active; a key without a quota never is.
\<close>

theorem quota_exhaustion_reported:
  assumes "healthy w" and "lg_keys (world_ledger w) k = Some r" and "\<not> kr_deleted r"
    and "be_numeric E x = Inr a" and "on_grid 8 a" and "typed_key r" and "\<bar>kr_quota_used r + a\<bar> < 10 ^ 12"
  shows "\<exists>w'. incrementUsageBillingAPIKeyQuota E k x w =
       (Inr (0 < kr_quota r \<and> kr_quota_used r < kr_quota r \<and> kr_quota r \<le> kr_quota_used r + a), w') \<and>
     lg_keys (world_ledger w') k = Some (r\<lparr>kr_quota_used := kr_quota_used r + a,
       kr_status := (if 0 < kr_quota r \<and> kr_quota_used r < kr_quota r \<and> kr_quota r \<le> kr_quota_used r + a \<and>
           kr_status r = StatusAPIKeyActive then StatusAPIKeyQuotaExhausted else kr_status r)\<rparr>)"
proof -
  have "decimal 20 8 (kr_quota_used r + a)" using assms(5-7) by (auto simp: decimal_def typed_key_def)
  then have add: "add_quota a r = Inr (r\<lparr>kr_quota_used := kr_quota_used r + a,
      kr_status := (if 0 < kr_quota r \<and> kr_quota_used r < kr_quota r \<and> kr_quota r \<le> kr_quota_used r + a \<and>
           kr_status r = StatusAPIKeyActive then StatusAPIKeyQuotaExhausted else kr_status r)\<rparr>)"
    by (auto simp: add_quota_def to_decimal_fits)
  obtain d where d: "update_keys k (\<lambda>r. \<not> kr_deleted r) (add_quota a) (wd_db w) =
      (Inr (Some (projr (add_quota a r))), d)" "lg_keys (abs_ledger d) k = Some (projr (add_quota a r))"
    using keys.upd_done [OF assms(2), of "\<lambda>r. \<not> kr_deleted r" "add_quota a"] assms(3) add by auto
  have "\<exists>w'. incrementUsageBillingAPIKeyQuota E k x w = (Inr (quota_crossed a (projr (add_quota a r))), w') \<and>
      wd_db w' = d"
    using d(1) assms(4)
    by (simp add: incrementUsageBillingAPIKeyQuota_def sql_exec_healthy [OF assms(1)] with_numeric_def)
  moreover have "quota_crossed a (projr (add_quota a r)) \<longleftrightarrow>
      0 < kr_quota r \<and> kr_quota_used r < kr_quota r \<and> kr_quota r \<le> kr_quota_used r + a"
    by (auto simp: quota_crossed_def add)
  ultimately show ?thesis using d(2) add by auto
qed

theorem quota_exhaustion_reported_witness:
  "\<exists>w' r. incrementUsageBillingAPIKeyQuota demo_bill_env 5 (Fin (1 / 2)) demo_bill_world = (Inr True, w') \<and>
     lg_keys (world_ledger w') 5 = Some r \<and> kr_quota_used r = 4 \<and> kr_status r = StatusAPIKeyQuotaExhausted"
  using quota_exhaustion_reported [OF demo_healthy, of 5 _ demo_bill_env "Fin (1 / 2)" "1 / 2"]
  by (auto simp: abs_ledger_def demo_bill_world_def demo_bill_db_def demo_bill_env_def on_grid_def typed_key_def
      decimal_def StatusAPIKeyActive_def)


section \<open>The archive run ends\<close>

lemma last_batch_complete:
  assumes "archive_batch cutoff d = (Inr n, d')" and "n < usageBillingDedupCleanupBatchSize"
    and "(k, f, t) \<in> set (bd_dedup d')"
  shows "cutoff \<le> t"
proof (rule ccontr)
  let ?old = "filter (\<lambda>(k, f, created). created < cutoff) (bd_dedup d)"
  assume "\<not> cutoff \<le> t"
  moreover have "length ?old \<le> usageBillingDedupCleanupBatchSize"
    using assms(1,2) by (auto simp: archive_batch_def Let_def)
  then have "bd_dedup d' = filter (\<lambda>(k, f). k \<notin> fst ` set ?old) (bd_dedup d)"
    using assms(1) by (auto simp: archive_batch_def Let_def)
  then have "(k, f, t) \<in> set (bd_dedup d)" "k \<notin> fst ` set ?old" using assms(3) by auto
  ultimately show False using image_eqI [of k fst "(k, f, t)" "set ?old"] by simp
qed

lemma cleanup_completes:
  assumes "healthy w"
  shows "\<exists>w'. CleanupUsageBillingDedup cutoff w = (None, w') \<and> (\<forall>(k, f, t) \<in> set (bd_dedup (wd_db w')). cutoff \<le> t)"
  using assms
proof (induction cutoff w rule: CleanupUsageBillingDedup.induct)
  case (1 cutoff w)
  obtain n d' where b: "archive_batch cutoff (wd_db w) = (Inr n, d')"
    by (auto simp: archive_batch_def Let_def)
  then obtain w1 where w1: "sql_exec (archive_batch cutoff) w = (Inr n, w1)" "wd_db w1 = d'" "healthy w1"
    using sql_exec_healthy [OF 1(2), of "archive_batch cutoff"] 1(2) by auto
  show ?case
  proof (cases "n < usageBillingDedupCleanupBatchSize")
    case True
    then have "CleanupUsageBillingDedup cutoff w = (None, w1)"
      using w1(1) by (simp add: CleanupUsageBillingDedup.simps [of cutoff w])
    moreover have "\<forall>(k, f, t) \<in> set (bd_dedup (wd_db w1)). cutoff \<le> t"
      using last_batch_complete [OF b True] w1(2) by blast
    ultimately show ?thesis by blast
  next
    case False
    then have "CleanupUsageBillingDedup cutoff w = CleanupUsageBillingDedup cutoff w1"
      using w1(1) by (simp add: CleanupUsageBillingDedup.simps [of cutoff w])
    then show ?thesis using 1(1) [OF w1(1) [symmetric] refl False w1(3)] by simp
  qed
qed

text \<open>
  C23. Archiving old claims ends, however many batches it takes: afterwards no claim older than the
  cutoff is left in the table that is searched first, and every claim can still be found, with the
  fingerprint it was made with.
\<close>

theorem archive_run_completes:
  assumes "healthy w" and "wf_claims (wd_db w)"
  shows "\<exists>w'. CleanupUsageBillingDedup cutoff w = (None, w') \<and>
    (\<forall>(k, f, t) \<in> set (bd_dedup (wd_db w')). cutoff \<le> t) \<and> world_ledger w' = world_ledger w"
  using cleanup_completes [OF assms(1)] cleanup_run [OF _ assms(2)] by blast

theorem archive_run_completes_witness:
  "\<exists>w'. CleanupUsageBillingDedup 8 demo_bill_world = (None, w') \<and>
    (\<forall>(k, f, t) \<in> set (bd_dedup (wd_db w')). 8 \<le> t) \<and> world_ledger w' = world_ledger demo_bill_world \<and>
    lg_claims (world_ledger w') (''old'', 5) = Some ''fp''"
proof -
  have "lg_claims (world_ledger demo_bill_world) (''old'', 5) = Some ''fp''"
    by (simp add: abs_ledger_def claims_of_def demo_bill_world_def demo_bill_db_def)
  then show ?thesis using archive_run_completes [OF demo_healthy demo_wf_claims, of 8] by auto
qed

end
