(* ===== verification/Keyword_Words.thy ===== *)
theory Keyword_Words
  imports Go_Base
begin

text \<open>
  The words behind the keyword matcher. A node of the matcher stands for a word, a prefix of some
  keyword; reading a text, the matcher is always at the longest suffix of what it has read that is such
  a word. The locale \<open>prefix_language\<close> is what the matcher relies on: the empty word is a node, and with
  a word so is the word without its last byte. It is interpreted on the prefixes of a list of keywords.
  The second part is about the first index that satisfies a condition, which is how the code ranks
  keywords.
\<close>

section \<open>Longest suffixes\<close>

fun longest_suffix :: "string set \<Rightarrow> string \<Rightarrow> string" where
  "longest_suffix W [] = []"
| "longest_suffix W (c # u) = (if c # u \<in> W then c # u else longest_suffix W u)"

lemma longest_suffix_suffix: "suffix (longest_suffix W u) u"
  by (induction u) (auto simp: suffix_Cons)

lemma longest_suffix_length: "length (longest_suffix W u) \<le> length u"
  using longest_suffix_suffix suffix_length_le by blast

lemma longest_suffix_id [simp]: "u \<in> W \<Longrightarrow> longest_suffix W u = u"
  by (cases u) auto

lemma suffix_longest_suffix: "p \<in> W \<Longrightarrow> suffix p u \<longleftrightarrow> suffix p (longest_suffix W u)"
  by (induction u) (auto simp: suffix_Cons)

locale prefix_language =
  fixes W :: "string set"
  assumes Nil_word: "[] \<in> W"
    and word_butlast: "u @ [l] \<in> W \<Longrightarrow> u \<in> W"
begin

lemma longest_suffix_word: "longest_suffix W u \<in> W"
  by (induction u) (auto simp: Nil_word)

lemma longest_suffix_snoc: "longest_suffix W (u @ [l]) = longest_suffix W (longest_suffix W u @ [l])"
  by (induction u) (auto dest: word_butlast [of "_ # _", simplified])

text \<open>One step along a failure link loses nothing when the longer word has no such edge.\<close>

lemma longest_suffix_fail:
  assumes "x \<noteq> []" "x @ [l] \<notin> W"
  shows "longest_suffix W (longest_suffix W (tl x) @ [l]) = longest_suffix W (x @ [l])"
  using assms by (cases x) (auto simp: longest_suffix_snoc [symmetric])

lemma longest_suffix_tl_snoc:
  "u \<noteq> [] \<Longrightarrow> longest_suffix W (tl (u @ [l])) = longest_suffix W (longest_suffix W (tl u) @ [l])"
  by (simp add: longest_suffix_snoc [symmetric])

lemma suffix_word_iff:
  assumes "p \<in> W" "p \<noteq> []"
  shows "suffix p w \<longleftrightarrow> p = w \<or> suffix p (longest_suffix W (tl w))"
  using assms suffix_longest_suffix [OF assms(1), of "tl w"] by (cases w) (auto simp: suffix_Cons)

lemma sublist_snoc_iff:
  assumes "p \<in> W"
  shows "sublist p (u @ [l]) \<longleftrightarrow> sublist p u \<or> suffix p (longest_suffix W (u @ [l]))"
  by (simp add: sublist_snoc suffix_longest_suffix [OF assms, symmetric] disj_commute)

text \<open>A word is shorter than the number of words.\<close>

lemma word_take: "u \<in> W \<Longrightarrow> take k u \<in> W"
proof (induction u rule: rev_induct)
  case (snoc l u)
  then show ?case by (cases "k \<le> length u") (auto dest: word_butlast)
qed (simp add: Nil_word)

lemma word_length_less:
  assumes "finite W" "u \<in> W"
  shows "length u < card W"
proof -
  have "inj_on (\<lambda>k. take k u) {..length u}"
    by (rule inj_onI) (metis atMost_iff length_take min.absorb2)
  then have "card {..length u} = card ((\<lambda>k. take k u) ` {..length u})"
    by (simp add: card_image)
  also have "\<dots> \<le> card W"
    using assms word_take by (intro card_mono) auto
  finally show ?thesis by simp
qed

end

definition node_words :: "string list \<Rightarrow> string set" where
  "node_words ps = {u. u = [] \<or> (\<exists>p \<in> set ps. prefix u p)}"

interpretation nw: prefix_language "node_words ps" for ps
  by unfold_locales (auto simp: node_words_def dest: append_prefixD)

lemma node_words_Nil [simp]: "node_words [] = {[]}"
  by (auto simp: node_words_def)

lemma node_words_snoc_Nil [simp]: "node_words (ps @ [[]]) = node_words ps"
  by (auto simp: node_words_def)

lemma node_words_snoc: "node_words (ps @ [u @ [l]]) = insert (u @ [l]) (node_words (ps @ [u]))"
  by (auto simp: node_words_def prefix_snoc)

lemma node_words_member [simp]: "p \<in> set ps \<Longrightarrow> p \<in> node_words ps"
  by (auto simp: node_words_def)

section \<open>First indices\<close>

definition first_index :: "(nat \<Rightarrow> bool) \<Rightarrow> nat \<Rightarrow> int" where
  "first_index P n = (case find P [0..<n] of None \<Rightarrow> - 1 | Some i \<Rightarrow> int i)"

lemma first_index_0 [simp]: "first_index P 0 = - 1"
  by (simp add: first_index_def)

lemma find_append: "find P (xs @ ys) = (case find P xs of None \<Rightarrow> find P ys | Some x \<Rightarrow> Some x)"
  by (induction xs) auto

lemma first_index_Suc:
  "first_index P (Suc n) = (if 0 \<le> first_index P n then first_index P n else if P n then int n else - 1)"
  by (auto simp: first_index_def find_append split: option.splits)

lemma first_index_range: "- 1 \<le> first_index P n \<and> first_index P n < int n"
  by (induction n) (auto simp: first_index_Suc)

lemma first_index_cong: "(\<And>i. i < n \<Longrightarrow> P i \<longleftrightarrow> Q i) \<Longrightarrow> first_index P n = first_index Q n"
  unfolding first_index_def by (subst find_cong [OF refl, of "[0..<n]" P Q]) auto

lemma first_index_False [simp]: "first_index (\<lambda>i. False) n = - 1"
  by (induction n) (auto simp: first_index_Suc)

lemma first_index_zero_iff: "first_index P n = 0 \<longleftrightarrow> 0 < n \<and> P 0"
  by (induction n) (use first_index_range [of P] in \<open>auto simp: first_index_Suc\<close>)

lemma find_map_comp: "find P (map f xs) = map_option f (find (P \<circ> f) xs)"
  by (induction xs) auto

lemma find_first_index:
  "find P xs = (let i = first_index (\<lambda>i. P (xs ! i)) (length xs) in if i < 0 then None else Some (xs ! nat i))"
proof -
  have "find P xs = map_option (nth xs) (find (P \<circ> nth xs) [0..<length xs])"
    by (metis find_map_comp map_nth)
  then show ?thesis by (auto simp: first_index_def comp_def split: option.splits)
qed

end
