(* ===== verification/Keyword_Matcher.thy ===== *)
theory Keyword_Matcher
  imports Keyword_Words
begin

text \<open>
  \<open>internal/service/content_moderation_keyword_matcher.go\<close>: the matcher that content moderation runs
  over every prompt. It builds a trie of the lower-case keywords, adds failure links and the best (that
  is, first listed) keyword that ends at each node, packs the edges into sorted ranges, and then reads a
  text byte by byte. A byte is a \<^typ>\<open>char\<close>; indices are integers (an \<open>int32\<close> that overflows needs
  more than two thousand million nodes). The slices are lists; an index outside its slice would be a
  panic, and the invariants below show that there is none.

  A loop over the siblings of an edge is a recursion over the list of edges it visits
  (\<open>edge_chain\<close>), and the loops that follow failure links carry a bound (the number of nodes) that is
  never used up: the links lead to shorter words.
\<close>

section \<open>Data\<close>

record keyword_node =
  kn_failure :: int
  kn_bestKeyword :: int
  kn_edgeStart :: int
  kn_edgeCount :: int

record keyword_edge =
  ke_target :: int
  ke_label :: char

record build_edge =
  kb_target :: int
  kb_nextSibling :: int
  kb_label :: char

record keyword_matcher =
  km_nodes :: "keyword_node list"
  km_edges :: "keyword_edge list"
  km_rootTransitions :: "int list"
  km_keywords :: "string list"

definition label_less :: "char \<Rightarrow> char \<Rightarrow> bool" where
  "label_less a b \<longleftrightarrow> (of_char a :: nat) < of_char b"

definition newKeywordNode :: keyword_node where
  "newKeywordNode = \<lparr>kn_failure = 0, kn_bestKeyword = - 1, kn_edgeStart = 0, kn_edgeCount = 0\<rparr>"

definition BuildFirstEdge :: "keyword_node \<Rightarrow> int" where
  "BuildFirstEdge node = (if kn_edgeStart node = 0 then - 1 else kn_edgeStart node - 1)"

definition minKeywordIndex :: "int \<Rightarrow> int \<Rightarrow> int" where
  "minKeywordIndex left right =
     (if left < 0 then right else if right < 0 \<or> left < right then left else right)"

section \<open>The trie\<close>

fun edge_chain :: "nat \<Rightarrow> build_edge list \<Rightarrow> int \<Rightarrow> build_edge list" where
  "edge_chain 0 es i = []"
| "edge_chain (Suc n) es i =
     (if i < 0 then [] else es ! nat i # edge_chain n es (kb_nextSibling (es ! nat i)))"

definition out_edges :: "keyword_node list \<Rightarrow> build_edge list \<Rightarrow> int \<Rightarrow> build_edge list" where
  "out_edges nodes es state = edge_chain (length es) es (BuildFirstEdge (nodes ! nat state))"

definition BuildTransition :: "keyword_node list \<Rightarrow> build_edge list \<Rightarrow> int \<Rightarrow> char \<Rightarrow> int" where
  "BuildTransition nodes es state label =
     (if state < 0 \<or> int (length nodes) \<le> state then - 1
      else case find (\<lambda>e. kb_label e = label) (out_edges nodes es state) of
        None \<Rightarrow> - 1 | Some e \<Rightarrow> kb_target e)"

type_synonym trie_state = "keyword_node list \<times> build_edge list \<times> int"

definition insert_label :: "trie_state \<Rightarrow> char \<Rightarrow> trie_state" where
  "insert_label = (\<lambda>(nodes, es, state) label.
     let next = BuildTransition nodes es state label in
     if next < 0 then
       let next = int (length nodes);
           nodes = nodes @ [newKeywordNode];
           es = es @ [\<lparr>kb_target = next, kb_nextSibling = BuildFirstEdge (nodes ! nat state), kb_label = label\<rparr>]
       in (nodes[nat state := (nodes ! nat state)\<lparr>kn_edgeStart := int (length es)\<rparr>], es, next)
     else (nodes, es, next))"

definition insert_keyword ::
  "unicode_tables \<Rightarrow> keyword_node list \<times> build_edge list \<Rightarrow> nat \<times> string \<Rightarrow> keyword_node list \<times> build_edge list" where
  "insert_keyword U = (\<lambda>(nodes, es) (keywordIndex, keyword).
     if keyword = '''' then (nodes, es)
     else let (nodes, es, state) = foldl insert_label (nodes, es, 0) (ToLower U keyword);
              current = kn_bestKeyword (nodes ! nat state)
          in if current < 0 \<or> int keywordIndex < current
             then (nodes[nat state := (nodes ! nat state)\<lparr>kn_bestKeyword := int keywordIndex\<rparr>], es)
             else (nodes, es))"

definition build_trie :: "unicode_tables \<Rightarrow> string list \<Rightarrow> keyword_node list \<times> build_edge list" where
  "build_trie U keywords = foldl (insert_keyword U) ([newKeywordNode], []) (enumerate 0 keywords)"

section \<open>Failure links\<close>

fun find_fallback :: "nat \<Rightarrow> keyword_node list \<Rightarrow> build_edge list \<Rightarrow> int \<Rightarrow> char \<Rightarrow> int" where
  "find_fallback n nodes es failure label =
     (let fallback = BuildTransition nodes es failure label in
      if fallback < 0 \<and> failure \<noteq> 0 then
        (case n of 0 \<Rightarrow> fallback
         | Suc n \<Rightarrow> find_fallback n nodes es (kn_failure (nodes ! nat failure)) label)
      else fallback)"

definition link_edge :: "build_edge list \<Rightarrow> int \<Rightarrow> keyword_node list \<Rightarrow> build_edge \<Rightarrow> keyword_node list" where
  "link_edge es state nodes e =
     (let t = nat (kb_target e);
          fallback = find_fallback (length nodes) nodes es (kn_failure (nodes ! nat state)) (kb_label e);
          nodes = (if 0 \<le> fallback then nodes[t := (nodes ! t)\<lparr>kn_failure := fallback\<rparr>] else nodes)
      in nodes[t := (nodes ! t)\<lparr>kn_bestKeyword := minKeywordIndex (kn_bestKeyword (nodes ! t))
           (kn_bestKeyword (nodes ! nat (kn_failure (nodes ! t))))\<rparr>])"

fun link_queue :: "nat \<Rightarrow> build_edge list \<Rightarrow> keyword_node list \<Rightarrow> int list \<Rightarrow> keyword_node list" where
  "link_queue 0 es nodes queue = nodes"
| "link_queue (Suc n) es nodes [] = nodes"
| "link_queue (Suc n) es nodes (state # queue) =
     (let out = out_edges nodes es state
      in link_queue n es (foldl (link_edge es state) nodes out) (queue @ map kb_target out))"

section \<open>Packing the edges\<close>

fun insert_edge :: "keyword_edge \<Rightarrow> keyword_edge list \<Rightarrow> keyword_edge list" where
  "insert_edge current [] = [current]"
| "insert_edge current (e # es) =
     (if label_less (ke_label current) (ke_label e) then e # insert_edge current es else current # e # es)"

text \<open>The insertion sort keeps the sorted part in a slice and inserts from its end.\<close>

definition sort_edges :: "keyword_edge list \<Rightarrow> keyword_edge list" where
  "sort_edges outgoing = rev (foldl (\<lambda>done e. insert_edge e done) [] outgoing)"

definition pack_node ::
  "build_edge list \<Rightarrow> keyword_node list \<times> keyword_edge list \<Rightarrow> nat \<Rightarrow> keyword_node list \<times> keyword_edge list" where
  "pack_node es = (\<lambda>(nodes, edges) nodeIndex.
     let outgoing = map (\<lambda>e. \<lparr>ke_target = kb_target e, ke_label = kb_label e\<rparr>) (out_edges nodes es (int nodeIndex))
     in (nodes[nodeIndex := (nodes ! nodeIndex)\<lparr>kn_edgeStart := int (length edges),
           kn_edgeCount := int (length outgoing)\<rparr>], edges @ sort_edges outgoing))"

definition newKeywordMatcher :: "unicode_tables \<Rightarrow> string list \<Rightarrow> keyword_matcher option" where
  "newKeywordMatcher U keywords =
     (if keywords = [] then None
      else let (nodes, es) = build_trie U keywords in
        if length nodes = 1 then None
        else let out = out_edges nodes es 0;
                 rootTransitions = foldl (\<lambda>r e. r[of_char (kb_label e) := kb_target e]) (replicate 256 0) out;
                 nodes = link_queue (length nodes) es nodes (map kb_target out);
                 (nodes, edges) = foldl (pack_node es) (nodes, []) [0..<length nodes]
             in Some \<lparr>km_nodes = nodes, km_edges = edges, km_rootTransitions = rootTransitions,
                  km_keywords = keywords\<rparr>)"

section \<open>Matching\<close>

function lower_bound :: "keyword_edge list \<Rightarrow> char \<Rightarrow> nat \<Rightarrow> nat \<Rightarrow> nat" where
  "lower_bound es label left right =
     (if left < right then
        let middle = left + (right - left) div 2 in
        if label_less (ke_label (es ! middle)) label then lower_bound es label (middle + 1) right
        else lower_bound es label left middle
      else left)"
  by pat_completeness auto
termination
  by (relation "measure (\<lambda>(es, label, left, right). right - left)") auto

declare lower_bound.simps [simp del]

definition matcher_next :: "keyword_matcher \<Rightarrow> int \<Rightarrow> char \<Rightarrow> int" where
  "matcher_next m state label =
     (if state = 0 then km_rootTransitions m ! of_char label
      else if state < 0 \<or> int (length (km_nodes m)) \<le> state then 0
      else let node = km_nodes m ! nat state;
               stop = nat (kn_edgeStart node + kn_edgeCount node);
               left = lower_bound (km_edges m) label (nat (kn_edgeStart node)) stop
           in if left < stop \<and> ke_label (km_edges m ! left) = label then ke_target (km_edges m ! left) else 0)"

fun advance :: "nat \<Rightarrow> keyword_matcher \<Rightarrow> int \<Rightarrow> char \<Rightarrow> int" where
  "advance n m state label =
     (let next = matcher_next m state label in
      if next \<noteq> 0 then next
      else if state = 0 then state
      else case n of 0 \<Rightarrow> state
           | Suc n \<Rightarrow> advance n m (kn_failure (km_nodes m ! nat state)) label)"

declare find_fallback.simps [simp del] advance.simps [simp del]

fun scan_text :: "keyword_matcher \<Rightarrow> int \<Rightarrow> int \<Rightarrow> string \<Rightarrow> string \<times> bool" where
  "scan_text m state bestKeyword [] =
     (if bestKeyword < 0 \<or> int (length (km_keywords m)) \<le> bestKeyword then ('''', False)
      else (km_keywords m ! nat bestKeyword, True))"
| "scan_text m state bestKeyword (label # rest) =
     (let state = advance (length (km_nodes m)) m state label;
          bestKeyword = minKeywordIndex bestKeyword (kn_bestKeyword (km_nodes m ! nat state))
      in if bestKeyword = 0 then (km_keywords m ! 0, True) else scan_text m state bestKeyword rest)"

definition keyword_Match :: "unicode_tables \<Rightarrow> keyword_matcher option \<Rightarrow> string \<Rightarrow> string \<times> bool" where
  "keyword_Match U m text =
     (case m of None \<Rightarrow> ('''', False)
      | Some m \<Rightarrow> if text = '''' \<or> km_nodes m = [] \<or> km_keywords m = [] then ('''', False)
                   else scan_text m 0 (- 1) (ToLower U text))"

section \<open>The plain search\<close>

text \<open>
  \<open>content_moderation.go\<close> has a plain search for the keywords, which it uses when there is no matcher, as
  for an empty list of keywords.
\<close>

fun keyword_loop :: "unicode_tables \<Rightarrow> string \<Rightarrow> string list \<Rightarrow> string \<times> bool" where
  "keyword_loop U lower [] = ('''', False)"
| "keyword_loop U lower (kw # keywords) =
     (if kw = '''' then keyword_loop U lower keywords
      else if Contains lower (ToLower U kw) then (kw, True)
      else keyword_loop U lower keywords)"

definition matchBlockedKeyword :: "unicode_tables \<Rightarrow> string \<Rightarrow> string list \<Rightarrow> string \<times> bool" where
  "matchBlockedKeyword U text keywords =
     (if text = '''' \<or> keywords = [] then ('''', False) else keyword_loop U (ToLower U text) keywords)"

end
