(* ===== verification/Go_Strings.thy ===== *)
theory Go_Strings
  imports Go_Text
begin

text \<open>
  More of Go's \<open>strings\<close> package, and \<open>path.Match\<close>, on byte strings: splitting, joining and replacing,
  as the components that look at names of models use them. The separator of a split and the text that
  is replaced are never empty there.
\<close>

section \<open>Prefixes, parts and words\<close>

definition TrimPrefix :: "string \<Rightarrow> string \<Rightarrow> string" where
  "TrimPrefix s p = (if HasPrefix s p then drop (length p) s else s)"

definition CutPrefix :: "string \<Rightarrow> string \<Rightarrow> string \<times> bool" where
  "CutPrefix s p = (if HasPrefix s p then (drop (length p) s, True) else (s, False))"

definition TrimLeftByte :: "char \<Rightarrow> string \<Rightarrow> string" where
  "TrimLeftByte c s = dropWhile (\<lambda>x. x = c) s"

definition TrimRightByte :: "char \<Rightarrow> string \<Rightarrow> string" where
  "TrimRightByte c s = rev (dropWhile (\<lambda>x. x = c) (rev s))"

text \<open>\<open>strings.Split\<close> with a separator of one byte, and \<open>strings.Join\<close>.\<close>

fun SplitByte :: "char \<Rightarrow> string \<Rightarrow> string list" where
  "SplitByte c [] = [[]]"
| "SplitByte c (x # xs) = (if x = c then [] # SplitByte c xs
     else case SplitByte c xs of p # ps \<Rightarrow> (x # p) # ps | [] \<Rightarrow> [[x]])"

fun join_strings :: "string \<Rightarrow> string list \<Rightarrow> string" where
  "join_strings sep [] = ''''"
| "join_strings sep [s] = s"
| "join_strings sep (s # t # ss) = s @ sep @ join_strings sep (t # ss)"

text \<open>\<open>strings.Fields\<close>: the words between white space.\<close>

function fields_loop :: "string \<Rightarrow> string \<Rightarrow> string list" where
  "fields_loop word s =
     (if s = [] then (if word = [] then [] else [rev word])
      else case strip_one space_runes s of
        Some r \<Rightarrow> (if word = [] then [] else [rev word]) @ fields_loop [] r
      | None \<Rightarrow> fields_loop (hd s # word) (tl s))"
  by pat_completeness auto
termination
  by (relation "measure (\<lambda>(word, s). length s)") (auto dest: strip_one_shorter)

declare fields_loop.simps [simp del]

definition Fields :: "string \<Rightarrow> string list" where
  "Fields s = fields_loop [] s"

text \<open>\<open>strings.LastIndex\<close>: the last position at which a text starts, \<open>None\<close> for the \<open>-1\<close> of the code.\<close>

definition LastIndex :: "string \<Rightarrow> string \<Rightarrow> nat option" where
  "LastIndex s t = (case filter (\<lambda>i. HasPrefix (drop i s) t) [0..<Suc (length s)] of
     [] \<Rightarrow> None | is \<Rightarrow> Some (last is))"

text \<open>The order of strings is that of their bytes.\<close>

fun string_less :: "string \<Rightarrow> string \<Rightarrow> bool" where
  "string_less _ [] = False"
| "string_less [] (_ # _) = True"
| "string_less (x # xs) (y # ys) = ((of_char x :: nat) < of_char y \<or> x = y \<and> string_less xs ys)"

lemma string_less_irrefl [simp]: "\<not> string_less s s"
  by (induction s) auto

lemma string_less_asym: "string_less s t \<Longrightarrow> \<not> string_less t s"
  by (induction s t rule: string_less.induct) auto

lemma string_less_neg_trans: "string_less s t \<Longrightarrow> string_less s r \<or> string_less r t"
proof (induction s t arbitrary: r rule: string_less.induct)
  case (3 x xs y ys)
  show ?case
  proof (cases r)
    case (Cons z zs)
    have "z = y \<or> (of_char z :: nat) < of_char y \<or> (of_char y :: nat) < of_char z"
      by (metis linorder_neqE_nat of_char_eq_iff)
    then show ?thesis using 3 Cons by (cases "x = z"; cases "z = y") auto
  qed simp
qed (use string_less.elims(3) in fastforce)+

lemma string_less_total: "s \<noteq> t \<Longrightarrow> string_less s t \<or> string_less t s"
proof (induction s t rule: string_less.induct)
  case (3 x xs y ys)
  have "x = y \<or> (of_char x :: nat) < of_char y \<or> (of_char y :: nat) < of_char x"
    by (metis linorder_neqE_nat of_char_eq_iff)
  then show ?case using 3 by auto
qed (auto simp: neq_Nil_conv)

section \<open>Replacing\<close>

function ReplaceAll :: "string \<Rightarrow> string \<Rightarrow> string \<Rightarrow> string" where
  "ReplaceAll s old new = (if s = [] \<or> old = [] then s
     else if HasPrefix s old then new @ ReplaceAll (drop (length old) s) old new
     else hd s # ReplaceAll (tl s) old new)"
  by pat_completeness auto
termination
  by (relation "measure (\<lambda>(s, old, new). length s)") auto

declare ReplaceAll.simps [simp del]

lemma ReplaceAll_Nil [simp]: "ReplaceAll [] old new = []"
  by (simp add: ReplaceAll.simps)

lemma Contains_iff: "Contains s t \<longleftrightarrow> (\<exists>i \<le> length s. HasPrefix (drop i s) t)"
  unfolding Contains_def list_ex_iff set_upt Bex_def atLeastLessThan_iff less_Suc_eq_le by simp

lemma Contains_Cons: "Contains (x # s) t \<longleftrightarrow> HasPrefix (x # s) t \<or> Contains s t"
proof -
  have "(\<exists>i \<le> Suc n. P i) \<longleftrightarrow> P 0 \<or> (\<exists>i \<le> n. P (Suc i))" for n and P :: "nat \<Rightarrow> bool"
    by (metis Suc_le_mono le0 not0_implies_Suc)
  then show ?thesis by (simp add: Contains_iff)
qed

lemma Contains_Nil: "Contains [] t \<longleftrightarrow> t = []"
  by (auto simp: Contains_def HasPrefix_def)

lemma ReplaceAll_length: "length new \<le> length old \<Longrightarrow> length (ReplaceAll s old new) \<le> length s"
proof (induction s old new rule: ReplaceAll.induct)
  case (1 s old new)
  show ?case
  proof (cases "s = [] \<or> old = []")
    case False
    show ?thesis
    proof (cases "HasPrefix s old")
      case True
      then have "length old \<le> length s" by (auto simp: HasPrefix_iff)
      then show ?thesis using False True 1 by (subst ReplaceAll.simps) auto
    next
      case no: False
      then show ?thesis using False 1 by (subst ReplaceAll.simps) (auto simp: Suc_le_eq intro: le_less_trans)
    qed
  qed (simp add: ReplaceAll.simps)
qed

text \<open>Replacing by something shorter shortens, so the loop that collapses dashes ends.\<close>

lemma ReplaceAll_shorter:
  "length new < length old \<Longrightarrow> Contains s old \<Longrightarrow> length (ReplaceAll s old new) < length s"
proof (induction s old new rule: ReplaceAll.induct)
  case (1 s old new)
  then have ne: "s \<noteq> []" "old \<noteq> []" by (auto simp: Contains_Nil)
  show ?case
  proof (cases "HasPrefix s old")
    case True
    then have "length old \<le> length s" by (auto simp: HasPrefix_iff)
    then show ?thesis using ne True "1.prems"(1) ReplaceAll_length [of new old "drop (length old) s"]
      by (subst ReplaceAll.simps) auto
  next
    case False
    then have "Contains (tl s) old" using "1.prems"(2) ne by (cases s) (auto simp: Contains_Cons)
    then show ?thesis using ne False 1 by (subst ReplaceAll.simps) auto
  qed
qed

end
