(* ===== verification/Moderation_Config.thy ===== *)
theory Moderation_Config
  imports Keyword_Matcher Go_Strings Go_Float App_Errors
begin

text \<open>
  The configuration of content moderation (\<open>internal/service/content_moderation.go\<close>): its defaults, how
  a configuration that was read or edited is normalized, how an edit is merged into it and checked, and
  the questions the service asks it (is this platform, this model, this input to be audited). A Go
  \<open>map[string]float64\<close> is an association list; texts that are not ASCII are given byte by byte. SHA-256,
  which names API keys, is an argument, as is the URL parser of the standard library.
\<close>

section \<open>Constants\<close>

definition ContentModerationModeOff :: string where "ContentModerationModeOff = ''off''"
definition ContentModerationModeObserve :: string where "ContentModerationModeObserve = ''observe''"
definition ContentModerationModePreBlock :: string where "ContentModerationModePreBlock = ''pre_block''"

definition contentModerationAPIKeysModeAppend :: string where
  "contentModerationAPIKeysModeAppend = ''append''"
definition contentModerationAPIKeysModeReplace :: string where
  "contentModerationAPIKeysModeReplace = ''replace''"

definition ContentModerationActionAllow :: string where "ContentModerationActionAllow = ''allow''"
definition ContentModerationActionBlock :: string where "ContentModerationActionBlock = ''block''"
definition ContentModerationActionHashBlock :: string where "ContentModerationActionHashBlock = ''hash_block''"
definition ContentModerationActionKeywordBlock :: string where
  "ContentModerationActionKeywordBlock = ''keyword_block''"
definition ContentModerationActionError :: string where "ContentModerationActionError = ''error''"
definition ContentModerationActionCyberPolicy :: string where
  "ContentModerationActionCyberPolicy = ''cyber_policy''"

definition contentModerationKeywordCategory :: string where "contentModerationKeywordCategory = ''keyword''"

definition ContentModerationKeywordModeKeywordOnly :: string where
  "ContentModerationKeywordModeKeywordOnly = ''keyword_only''"
definition ContentModerationKeywordModeKeywordAndAPI :: string where
  "ContentModerationKeywordModeKeywordAndAPI = ''keyword_and_api''"
definition ContentModerationKeywordModeAPIOnly :: string where
  "ContentModerationKeywordModeAPIOnly = ''api_only''"

definition ContentModerationModelFilterAll :: string where "ContentModerationModelFilterAll = ''all''"
definition ContentModerationModelFilterInclude :: string where "ContentModerationModelFilterInclude = ''include''"
definition ContentModerationModelFilterExclude :: string where "ContentModerationModelFilterExclude = ''exclude''"

lemmas moderation_names =
  ContentModerationModeOff_def ContentModerationModeObserve_def ContentModerationModePreBlock_def
  ContentModerationActionAllow_def ContentModerationActionBlock_def ContentModerationActionHashBlock_def
  ContentModerationActionKeywordBlock_def ContentModerationActionError_def
  ContentModerationActionCyberPolicy_def
  ContentModerationKeywordModeKeywordOnly_def ContentModerationKeywordModeKeywordAndAPI_def
  ContentModerationKeywordModeAPIOnly_def
  ContentModerationModelFilterAll_def ContentModerationModelFilterInclude_def
  ContentModerationModelFilterExclude_def

definition defaultContentModerationBaseURL :: string where
  "defaultContentModerationBaseURL = ''https://api.openai.com''"
definition defaultContentModerationModel :: string where
  "defaultContentModerationModel = ''omni-moderation-latest''"
definition defaultContentModerationTimeoutMS :: int where "defaultContentModerationTimeoutMS = 3000"
definition maxContentModerationTimeoutMS :: int where "maxContentModerationTimeoutMS = 30000"
definition maxModerationInputRunes :: int where "maxModerationInputRunes = 12000"
definition maxModerationExcerptRunes :: int where "maxModerationExcerptRunes = 240"
definition defaultContentModerationWorkerCount :: int where "defaultContentModerationWorkerCount = 4"
definition maxContentModerationWorkerCount :: int where "maxContentModerationWorkerCount = 32"
definition defaultContentModerationQueueSize :: int where "defaultContentModerationQueueSize = 32768"
definition maxContentModerationQueueSize :: int where "maxContentModerationQueueSize = 100000"
definition defaultContentModerationBanThreshold :: int where "defaultContentModerationBanThreshold = 10"
definition defaultContentModerationViolationWindowHours :: int where
  "defaultContentModerationViolationWindowHours = 720"
definition defaultContentModerationBlockHTTPStatus :: int where
  "defaultContentModerationBlockHTTPStatus = 403"
definition defaultContentModerationBlockMessage :: string where
  "defaultContentModerationBlockMessage =
    [CHR 0xE5, CHR 0x86, CHR 0x85, CHR 0xE5, CHR 0xAE, CHR 0xB9, CHR 0xE5, CHR 0xAE,
     CHR 0xA1, CHR 0xE8, CHR 0xAE, CHR 0xA1, CHR 0xE5, CHR 0x91, CHR 0xBD, CHR 0xE4,
     CHR 0xB8, CHR 0xAD, CHR 0xE9, CHR 0xA3, CHR 0x8E, CHR 0xE9, CHR 0x99, CHR 0xA9,
     CHR 0xE8, CHR 0xA7, CHR 0x84, CHR 0xE5, CHR 0x88, CHR 0x99, CHR 0xEF, CHR 0xBC,
     CHR 0x8C, CHR 0xE8, CHR 0xAF, CHR 0xB7, CHR 0xE8, CHR 0xB0, CHR 0x83, CHR 0xE6,
     CHR 0x95, CHR 0xB4, CHR 0xE8, CHR 0xBE, CHR 0x93, CHR 0xE5, CHR 0x85, CHR 0xA5,
     CHR 0xE5, CHR 0x90, CHR 0x8E, CHR 0xE9, CHR 0x87, CHR 0x8D, CHR 0xE8, CHR 0xAF,
     CHR 0x95]"
definition defaultContentModerationRetryCount :: int where "defaultContentModerationRetryCount = 2"
definition maxContentModerationRetryCount :: int where "maxContentModerationRetryCount = 5"
definition defaultContentModerationHitRetentionDays :: int where
  "defaultContentModerationHitRetentionDays = 180"
definition defaultContentModerationNonHitRetentionDays :: int where
  "defaultContentModerationNonHitRetentionDays = 3"
definition maxContentModerationRetentionDays :: int where "maxContentModerationRetentionDays = 3650"
definition maxContentModerationNonHitRetentionDays :: int where
  "maxContentModerationNonHitRetentionDays = 3"
definition maxContentModerationBlockedKeywords :: nat where "maxContentModerationBlockedKeywords = 10000"
definition maxContentModerationBlockedKeywordRunes :: int where
  "maxContentModerationBlockedKeywordRunes = 200"
definition maxContentModerationModelFilterModels :: nat where
  "maxContentModerationModelFilterModels = 1000"
definition maxContentModerationModelFilterRunes :: int where "maxContentModerationModelFilterRunes = 200"

definition contentModerationCategoryOrder :: "string list" where
  "contentModerationCategoryOrder = [''harassment'', ''harassment/threatening'', ''hate'',
     ''hate/threatening'', ''illicit'', ''illicit/violent'', ''self-harm'', ''self-harm/intent'',
     ''self-harm/instructions'', ''sexual'', ''sexual/minors'', ''violence'', ''violence/graphic'']"

definition ContentModerationDefaultThresholds :: "(string \<times> float64) list" where
  "ContentModerationDefaultThresholds = [(''harassment'', round64 (98 / 100)),
     (''harassment/threatening'', round64 (90 / 100)), (''hate'', round64 (65 / 100)),
     (''hate/threatening'', round64 (65 / 100)), (''illicit'', round64 (95 / 100)),
     (''illicit/violent'', round64 (95 / 100)), (''self-harm'', round64 (65 / 100)),
     (''self-harm/intent'', round64 (85 / 100)), (''self-harm/instructions'', round64 (65 / 100)),
     (''sexual'', round64 (65 / 100)), (''sexual/minors'', round64 (65 / 100)),
     (''violence'', round64 (95 / 100)), (''violence/graphic'', round64 (95 / 100))]"

section \<open>Runes\<close>

text \<open>\<open>[]rune(text)\<close>: a byte that starts no valid rune becomes the replacement rune.\<close>

function runes :: "string \<Rightarrow> string list" where
  "runes s = (if s = [] then []
     else if rune_size s = 0 then [CHR 0xEF, CHR 0xBF, CHR 0xBD] # runes (tl s)
     else take (rune_size s) s # runes (drop (rune_size s) s))"
  by pat_completeness auto
termination
  by (relation "measure length") (auto simp: neq_Nil_conv)

declare runes.simps [simp del]

definition trimRunes :: "string \<Rightarrow> int \<Rightarrow> string" where
  "trimRunes text limit =
     (if limit \<le> 0 then '''' else let rs = runes text in
      if int (length rs) \<le> limit then text else concat (take (nat limit) rs))"

section \<open>The configuration\<close>

record ContentModerationModelFilter =
  mf_Type :: string
  mf_Models :: "string list"

record ContentModerationConfig =
  cm_Enabled :: bool
  cm_Mode :: string
  cm_BaseURL :: string
  cm_Model :: string
  cm_ProxyID :: "int option"
  cm_APIKey :: string
  cm_APIKeys :: "string list"
  cm_TimeoutMS :: int
  cm_SampleRate :: int
  cm_AllPlatforms :: bool
  cm_PlatformIDs :: "int list"
  cm_RecordNonHits :: bool
  cm_Thresholds :: "(string \<times> float64) list"
  cm_WorkerCount :: int
  cm_QueueSize :: int
  cm_BlockStatus :: int
  cm_BlockMessage :: string
  cm_EmailOnHit :: bool
  cm_AutoBanEnabled :: bool
  cm_BanThreshold :: int
  cm_ViolationWindowHours :: int
  cm_RetryCount :: int
  cm_HitRetentionDays :: int
  cm_NonHitRetentionDays :: int
  cm_PreHashCheckEnabled :: bool
  cm_BlockedKeywords :: "string list"
  cm_KeywordBlockingMode :: string
  cm_ModelFilter :: ContentModerationModelFilter
  cm_CyberPolicyExcludeFromBanCount :: bool

definition defaultContentModerationConfig :: ContentModerationConfig where
  "defaultContentModerationConfig = \<lparr>cm_Enabled = False, cm_Mode = ContentModerationModePreBlock,
     cm_BaseURL = defaultContentModerationBaseURL, cm_Model = defaultContentModerationModel,
     cm_ProxyID = None, cm_APIKey = '''', cm_APIKeys = [],
     cm_TimeoutMS = defaultContentModerationTimeoutMS, cm_SampleRate = 100, cm_AllPlatforms = True,
     cm_PlatformIDs = [], cm_RecordNonHits = False, cm_Thresholds = ContentModerationDefaultThresholds,
     cm_WorkerCount = defaultContentModerationWorkerCount, cm_QueueSize = defaultContentModerationQueueSize,
     cm_BlockStatus = defaultContentModerationBlockHTTPStatus,
     cm_BlockMessage = defaultContentModerationBlockMessage, cm_EmailOnHit = True, cm_AutoBanEnabled = True,
     cm_BanThreshold = defaultContentModerationBanThreshold,
     cm_ViolationWindowHours = defaultContentModerationViolationWindowHours,
     cm_RetryCount = defaultContentModerationRetryCount,
     cm_HitRetentionDays = defaultContentModerationHitRetentionDays,
     cm_NonHitRetentionDays = defaultContentModerationNonHitRetentionDays,
     cm_PreHashCheckEnabled = False, cm_BlockedKeywords = [],
     cm_KeywordBlockingMode = ContentModerationKeywordModeKeywordAndAPI,
     cm_ModelFilter = \<lparr>mf_Type = ContentModerationModelFilterAll, mf_Models = []\<rparr>,
     cm_CyberPolicyExcludeFromBanCount = False\<rparr>"

section \<open>Normalization\<close>

text \<open>The loops that trim, drop empty entries and drop repeated ones.\<close>

fun api_keys_loop :: "string list \<Rightarrow> string list \<Rightarrow> string list" where
  "api_keys_loop seen [] = []"
| "api_keys_loop seen (key # keys) =
     (let key = TrimSpace key in
      if key = '''' then api_keys_loop seen keys
      else if key \<in> set seen then api_keys_loop seen keys
      else key # api_keys_loop (key # seen) keys)"

definition normalizeModerationAPIKeys :: "string list \<Rightarrow> string list" where
  "normalizeModerationAPIKeys keys = (if keys = [] then [] else api_keys_loop [] keys)"

fun ids_loop :: "int list \<Rightarrow> int list \<Rightarrow> int list" where
  "ids_loop seen [] = []"
| "ids_loop seen (i # is) =
     (if i \<le> 0 then ids_loop seen is
      else if i \<in> set seen then ids_loop seen is
      else i # ids_loop (i # seen) is)"

definition normalizeInt64IDs :: "int list \<Rightarrow> int list" where
  "normalizeInt64IDs ids = (if ids = [] then [] else sort (ids_loop [] ids))"

fun blocked_keywords_loop :: "unicode_tables \<Rightarrow> string list \<Rightarrow> nat \<Rightarrow> string list \<Rightarrow> string list" where
  "blocked_keywords_loop U seen n [] = []"
| "blocked_keywords_loop U seen n (raw # rest) =
     (let kw = TrimSpace raw in
      if kw = '''' then blocked_keywords_loop U seen n rest
      else let kw = trimRunes kw maxContentModerationBlockedKeywordRunes; key = ToLower U kw in
        if key \<in> set seen then blocked_keywords_loop U seen n rest
        else kw # (if maxContentModerationBlockedKeywords \<le> Suc n then []
                   else blocked_keywords_loop U (key # seen) (Suc n) rest))"

definition normalizeBlockedKeywords :: "unicode_tables \<Rightarrow> string list \<Rightarrow> string list" where
  "normalizeBlockedKeywords U kws = (if kws = [] then [] else blocked_keywords_loop U [] 0 kws)"

definition normalizeKeywordBlockingMode :: "string \<Rightarrow> string" where
  "normalizeKeywordBlockingMode mode =
     (let m = TrimSpace mode in
      if m = ContentModerationKeywordModeKeywordOnly then ContentModerationKeywordModeKeywordOnly
      else if m = ContentModerationKeywordModeAPIOnly then ContentModerationKeywordModeAPIOnly
      else if m = ContentModerationKeywordModeKeywordAndAPI then ContentModerationKeywordModeKeywordAndAPI
      else ContentModerationKeywordModeKeywordAndAPI)"

definition normalizeContentModerationModelFilterType :: "unicode_tables \<Rightarrow> string \<Rightarrow> string" where
  "normalizeContentModerationModelFilterType U filterType =
     (let t = ToLower U (TrimSpace filterType) in
      if t = ContentModerationModelFilterInclude then ContentModerationModelFilterInclude
      else if t = ContentModerationModelFilterExclude then ContentModerationModelFilterExclude
      else if t = ContentModerationModelFilterAll then ContentModerationModelFilterAll
      else ContentModerationModelFilterAll)"

fun model_names_loop :: "unicode_tables \<Rightarrow> string list \<Rightarrow> nat \<Rightarrow> string list \<Rightarrow> string list" where
  "model_names_loop U seen n [] = []"
| "model_names_loop U seen n (raw # rest) =
     (let model = trimRunes (TrimSpace raw) maxContentModerationModelFilterRunes in
      if model = '''' then model_names_loop U seen n rest
      else let key = ToLower U model in
        if key \<in> set seen then model_names_loop U seen n rest
        else model # (if maxContentModerationModelFilterModels \<le> Suc n then []
                      else model_names_loop U (key # seen) (Suc n) rest))"

definition normalizeContentModerationModelNames :: "unicode_tables \<Rightarrow> string list \<Rightarrow> string list" where
  "normalizeContentModerationModelNames U models = (if models = [] then [] else model_names_loop U [] 0 models)"

definition normalizeContentModerationModelFilter ::
  "unicode_tables \<Rightarrow> ContentModerationModelFilter \<Rightarrow> ContentModerationModelFilter" where
  "normalizeContentModerationModelFilter U flt =
     (let out = \<lparr>mf_Type = normalizeContentModerationModelFilterType U (mf_Type flt),
                 mf_Models = normalizeContentModerationModelNames U (mf_Models flt)\<rparr>
      in if mf_Type out = ContentModerationModelFilterAll then out\<lparr>mf_Models := []\<rparr> else out)"

fun merge_loop :: "(string \<times> float64) list \<Rightarrow> (string \<times> float64) list \<Rightarrow> string list \<Rightarrow> (string \<times> float64) list" where
  "merge_loop override out [] = out"
| "merge_loop override out (category # rest) =
     (case map_of override category of
        None \<Rightarrow> merge_loop override out rest
      | Some v \<Rightarrow>
          let v = (if f_less v f_zero then f_zero else v);
              v = (if f_less (Fin 1) v then Fin 1 else v)
          in merge_loop override (AList.update category v out) rest)"

definition mergeContentModerationThresholds ::
  "(string \<times> float64) list \<Rightarrow> (string \<times> float64) list \<Rightarrow> (string \<times> float64) list" where
  "mergeContentModerationThresholds base override = merge_loop override base contentModerationCategoryOrder"

text \<open>The numeric settings: a value that is not positive becomes the default, one too large the maximum.\<close>

definition default_or_max :: "int \<Rightarrow> int \<Rightarrow> int \<Rightarrow> int" where
  "default_or_max dflt hi v = (let v = (if v \<le> 0 then dflt else v) in if v > hi then hi else v)"

definition clamp_int :: "int \<Rightarrow> int \<Rightarrow> int \<Rightarrow> int" where
  "clamp_int lo hi v = (let v = (if v < lo then lo else v) in if v > hi then hi else v)"

definition config_normalize :: "unicode_tables \<Rightarrow> ContentModerationConfig \<Rightarrow> ContentModerationConfig" where
  "config_normalize U cfg = cfg\<lparr>
     cm_APIKeys := normalizeModerationAPIKeys
       (if cm_APIKey cfg \<noteq> '''' then cm_APIKeys cfg @ [cm_APIKey cfg] else cm_APIKeys cfg),
     cm_APIKey := '''',
     cm_Mode := (if cm_Mode cfg = '''' then ContentModerationModePreBlock else cm_Mode cfg),
     cm_BaseURL := TrimRightByte (CHR ''/'')
       (TrimSpace (if cm_BaseURL cfg = '''' then defaultContentModerationBaseURL else cm_BaseURL cfg)),
     cm_Model := TrimSpace (if cm_Model cfg = '''' then defaultContentModerationModel else cm_Model cfg),
     cm_ProxyID := (case cm_ProxyID cfg of Some i \<Rightarrow> if i \<le> 0 then None else Some i | None \<Rightarrow> None),
     cm_TimeoutMS := default_or_max defaultContentModerationTimeoutMS maxContentModerationTimeoutMS (cm_TimeoutMS cfg),
     cm_SampleRate := clamp_int 0 100 (cm_SampleRate cfg),
     cm_WorkerCount := default_or_max defaultContentModerationWorkerCount maxContentModerationWorkerCount (cm_WorkerCount cfg),
     cm_QueueSize := default_or_max defaultContentModerationQueueSize maxContentModerationQueueSize (cm_QueueSize cfg),
     cm_BlockMessage := TrimSpace
       (if TrimSpace (cm_BlockMessage cfg) = '''' then defaultContentModerationBlockMessage else cm_BlockMessage cfg),
     cm_BlockStatus := (if cm_BlockStatus cfg \<le> 0 then defaultContentModerationBlockHTTPStatus else cm_BlockStatus cfg),
     cm_BanThreshold := (if cm_BanThreshold cfg \<le> 0 then defaultContentModerationBanThreshold else cm_BanThreshold cfg),
     cm_ViolationWindowHours := (if cm_ViolationWindowHours cfg \<le> 0
       then defaultContentModerationViolationWindowHours else cm_ViolationWindowHours cfg),
     cm_RetryCount := clamp_int 0 maxContentModerationRetryCount (cm_RetryCount cfg),
     cm_HitRetentionDays := default_or_max defaultContentModerationHitRetentionDays maxContentModerationRetentionDays
       (cm_HitRetentionDays cfg),
     cm_NonHitRetentionDays := default_or_max defaultContentModerationNonHitRetentionDays
       maxContentModerationNonHitRetentionDays (cm_NonHitRetentionDays cfg),
     cm_PlatformIDs := normalizeInt64IDs (cm_PlatformIDs cfg),
     cm_Thresholds := mergeContentModerationThresholds ContentModerationDefaultThresholds (cm_Thresholds cfg),
     cm_BlockedKeywords := normalizeBlockedKeywords U (cm_BlockedKeywords cfg),
     cm_KeywordBlockingMode := normalizeKeywordBlockingMode (cm_KeywordBlockingMode cfg),
     cm_ModelFilter := normalizeContentModerationModelFilter U (cm_ModelFilter cfg)\<rparr>"

section \<open>What is audited\<close>

definition includesPlatform :: "ContentModerationConfig \<Rightarrow> int option \<Rightarrow> bool" where
  "includesPlatform cfg platformID =
     (if cm_AllPlatforms cfg then True
      else case platformID of None \<Rightarrow> False | Some p \<Rightarrow> list_ex (\<lambda>i. i = p) (cm_PlatformIDs cfg))"

definition contentModerationModelListContains :: "unicode_tables \<Rightarrow> string list \<Rightarrow> string \<Rightarrow> bool" where
  "contentModerationModelListContains U models model =
     (let model = ToLower U (TrimSpace model) in
      if model = '''' then False
      else list_ex (\<lambda>candidate. ToLower U (TrimSpace candidate) = model) models)"

definition includesModel :: "unicode_tables \<Rightarrow> ContentModerationConfig \<Rightarrow> string \<Rightarrow> bool" where
  "includesModel U cfg model =
     (let flt = normalizeContentModerationModelFilter U (cm_ModelFilter cfg) in
      if mf_Type flt = ContentModerationModelFilterInclude
      then contentModerationModelListContains U (mf_Models flt) model
      else if mf_Type flt = ContentModerationModelFilterExclude
      then \<not> contentModerationModelListContains U (mf_Models flt) model
      else True)"

text \<open>\<open>hex.EncodeToString\<close> and \<open>hex.DecodeString\<close>.\<close>

definition hex_digit :: "nat \<Rightarrow> char" where
  "hex_digit d = (if d < 10 then char_of (48 + d) else char_of (87 + d))"

definition hexEncode :: "string \<Rightarrow> string" where
  "hexEncode s = concat (map (\<lambda>c. [hex_digit (of_char c div 16), hex_digit (of_char c mod 16)]) s)"

definition hex_value :: "char \<Rightarrow> nat option" where
  "hex_value c = (let n = (of_char c :: nat) in
     if 48 \<le> n \<and> n \<le> 57 then Some (n - 48)
     else if 97 \<le> n \<and> n \<le> 102 then Some (n - 87)
     else if 65 \<le> n \<and> n \<le> 70 then Some (n - 55) else None)"

fun hexDecode :: "string \<Rightarrow> string option" where
  "hexDecode [] = Some []"
| "hexDecode [c] = None"
| "hexDecode (a # b # s) =
     (case (hex_value a, hex_value b, hexDecode s) of
        (Some x, Some y, Some r) \<Rightarrow> Some (char_of (16 * x + y) # r)
      | _ \<Rightarrow> None)"

definition shouldSample :: "ContentModerationConfig \<Rightarrow> string \<Rightarrow> bool" where
  "shouldSample cfg hashText =
     (if 100 \<le> cm_SampleRate cfg then True
      else if cm_SampleRate cfg \<le> 0 then False
      else case hexDecode hashText of
        Some (a # b # _) \<Rightarrow> (256 * int (of_char a) + int (of_char b)) mod 100 < cm_SampleRate cfg
      | _ \<Rightarrow> True)"

definition config_apiKeys :: "ContentModerationConfig \<Rightarrow> string list" where
  "config_apiKeys cfg = normalizeModerationAPIKeys (cm_APIKeys cfg)"

section \<open>API keys by hash\<close>

definition moderationAPIKeyHash :: "(string \<Rightarrow> string) \<Rightarrow> string \<Rightarrow> string" where
  "moderationAPIKeyHash sha256 key =
     (let key = TrimSpace key in if key = '''' then '''' else hexEncode (sha256 key))"

definition normalizeContentModerationHash :: "unicode_tables \<Rightarrow> string \<Rightarrow> string" where
  "normalizeContentModerationHash U inputHash =
     (let inputHash = ToLower U (TrimSpace inputHash) in
      if length inputHash \<noteq> 64 then ''''
      else if hexDecode inputHash = None then '''' else inputHash)"

definition deleteModerationAPIKeysByHash ::
  "unicode_tables \<Rightarrow> (string \<Rightarrow> string) \<Rightarrow> string list \<Rightarrow> string list \<Rightarrow> string list" where
  "deleteModerationAPIKeysByHash U sha256 keys hashes =
     (let keys = normalizeModerationAPIKeys keys;
          deleteHashes = filter (\<lambda>h. h \<noteq> '''') (map (normalizeContentModerationHash U) hashes)
      in if deleteHashes = [] then keys
         else filter (\<lambda>key. moderationAPIKeyHash sha256 key \<notin> set deleteHashes) keys)"

definition normalizeContentModerationAPIKeysMode :: "unicode_tables \<Rightarrow> string \<Rightarrow> string" where
  "normalizeContentModerationAPIKeysMode U mode =
     (if ToLower U (TrimSpace mode) = contentModerationAPIKeysModeReplace
      then contentModerationAPIKeysModeReplace else contentModerationAPIKeysModeAppend)"

definition maskSecretTail :: "string \<Rightarrow> string" where
  "maskSecretTail secret =
     (let secret = TrimSpace secret in
      if secret = '''' then ''''
      else if length secret \<le> 4 then ''****''
      else replicate 8 (CHR ''*'') @ drop (length secret - 4) secret)"

section \<open>Editing the configuration\<close>

record UpdateContentModerationConfigInput =
  cu_Enabled :: "bool option"
  cu_Mode :: "string option"
  cu_BaseURL :: "string option"
  cu_Model :: "string option"
  cu_ProxyID :: "int option"
  cu_APIKey :: "string option"
  cu_APIKeys :: "string list option"
  cu_APIKeysMode :: string
  cu_DeleteAPIKeyHashes :: "string list option"
  cu_ClearAPIKey :: bool
  cu_TimeoutMS :: "int option"
  cu_SampleRate :: "int option"
  cu_AllPlatforms :: "bool option"
  cu_PlatformIDs :: "int list option"
  cu_RecordNonHits :: "bool option"
  cu_Thresholds :: "(string \<times> float64) list option"
  cu_WorkerCount :: "int option"
  cu_QueueSize :: "int option"
  cu_BlockStatus :: "int option"
  cu_BlockMessage :: "string option"
  cu_EmailOnHit :: "bool option"
  cu_AutoBanEnabled :: "bool option"
  cu_BanThreshold :: "int option"
  cu_ViolationWindowHours :: "int option"
  cu_RetryCount :: "int option"
  cu_HitRetentionDays :: "int option"
  cu_NonHitRetentionDays :: "int option"
  cu_PreHashCheckEnabled :: "bool option"
  cu_BlockedKeywords :: "string list option"
  cu_KeywordBlockingMode :: "string option"
  cu_ModelFilter :: "ContentModerationModelFilter option"
  cu_CyberPolicyExcludeFromBanCount :: "bool option"

definition given :: "'a option \<Rightarrow> 'a \<Rightarrow> 'a" where
  "given new old = (case new of None \<Rightarrow> old | Some v \<Rightarrow> v)"

definition update_fields ::
  "unicode_tables \<Rightarrow> UpdateContentModerationConfigInput \<Rightarrow> ContentModerationConfig \<Rightarrow> ContentModerationConfig" where
  "update_fields U i cfg = cfg\<lparr>
     cm_Enabled := given (cu_Enabled i) (cm_Enabled cfg),
     cm_Mode := given (map_option TrimSpace (cu_Mode i)) (cm_Mode cfg),
     cm_BaseURL := given (map_option TrimSpace (cu_BaseURL i)) (cm_BaseURL cfg),
     cm_Model := given (map_option TrimSpace (cu_Model i)) (cm_Model cfg),
     cm_ProxyID := (case cu_ProxyID i of None \<Rightarrow> cm_ProxyID cfg | Some p \<Rightarrow> if 0 < p then Some p else None),
     cm_TimeoutMS := given (cu_TimeoutMS i) (cm_TimeoutMS cfg),
     cm_SampleRate := given (cu_SampleRate i) (cm_SampleRate cfg),
     cm_WorkerCount := given (cu_WorkerCount i) (cm_WorkerCount cfg),
     cm_QueueSize := given (cu_QueueSize i) (cm_QueueSize cfg),
     cm_BlockStatus := given (cu_BlockStatus i) (cm_BlockStatus cfg),
     cm_BlockMessage := given (map_option TrimSpace (cu_BlockMessage i)) (cm_BlockMessage cfg),
     cm_EmailOnHit := given (cu_EmailOnHit i) (cm_EmailOnHit cfg),
     cm_AutoBanEnabled := given (cu_AutoBanEnabled i) (cm_AutoBanEnabled cfg),
     cm_BanThreshold := given (cu_BanThreshold i) (cm_BanThreshold cfg),
     cm_ViolationWindowHours := given (cu_ViolationWindowHours i) (cm_ViolationWindowHours cfg),
     cm_RetryCount := given (cu_RetryCount i) (cm_RetryCount cfg),
     cm_HitRetentionDays := given (cu_HitRetentionDays i) (cm_HitRetentionDays cfg),
     cm_NonHitRetentionDays := given (cu_NonHitRetentionDays i) (cm_NonHitRetentionDays cfg),
     cm_PreHashCheckEnabled := given (cu_PreHashCheckEnabled i) (cm_PreHashCheckEnabled cfg),
     cm_BlockedKeywords := given (map_option (normalizeBlockedKeywords U) (cu_BlockedKeywords i)) (cm_BlockedKeywords cfg),
     cm_KeywordBlockingMode := given (map_option TrimSpace (cu_KeywordBlockingMode i)) (cm_KeywordBlockingMode cfg),
     cm_ModelFilter := given (cu_ModelFilter i) (cm_ModelFilter cfg),
     cm_AllPlatforms := given (cu_AllPlatforms i) (cm_AllPlatforms cfg),
     cm_PlatformIDs := given (map_option normalizeInt64IDs (cu_PlatformIDs i)) (cm_PlatformIDs cfg),
     cm_RecordNonHits := given (cu_RecordNonHits i) (cm_RecordNonHits cfg),
     cm_CyberPolicyExcludeFromBanCount := given (cu_CyberPolicyExcludeFromBanCount i) (cm_CyberPolicyExcludeFromBanCount cfg),
     cm_Thresholds := given
       (map_option (mergeContentModerationThresholds ContentModerationDefaultThresholds) (cu_Thresholds i))
       (cm_Thresholds cfg)\<rparr>"

definition set_keys :: "string list \<Rightarrow> ContentModerationConfig \<Rightarrow> ContentModerationConfig" where
  "set_keys keys cfg = cfg\<lparr>cm_APIKeys := keys, cm_APIKey := ''''\<rparr>"

definition update_api_keys ::
  "unicode_tables \<Rightarrow> (string \<Rightarrow> string) \<Rightarrow> UpdateContentModerationConfigInput \<Rightarrow> ContentModerationConfig \<Rightarrow> ContentModerationConfig" where
  "update_api_keys U sha256 i cfg =
     (if cu_ClearAPIKey i then set_keys [] cfg
      else let replace = (normalizeContentModerationAPIKeysMode U (cu_APIKeysMode i) = contentModerationAPIKeysModeReplace);
               cfg = (case cu_DeleteAPIKeyHashes i of
                        Some hashes \<Rightarrow> if replace then cfg
                          else set_keys (deleteModerationAPIKeysByHash U sha256 (config_apiKeys cfg) hashes) cfg
                      | None \<Rightarrow> cfg);
               cfg = (case cu_APIKeys i of
                        Some keys \<Rightarrow> set_keys (normalizeModerationAPIKeys
                          (if replace then keys else config_apiKeys cfg @ keys)) cfg
                      | None \<Rightarrow> cfg)
           in case cu_APIKey i of
                Some key \<Rightarrow> if TrimSpace key \<noteq> ''''
                  then set_keys (normalizeModerationAPIKeys (cm_APIKeys cfg @ [key])) cfg else cfg
              | None \<Rightarrow> cfg)"

section \<open>What normalization guarantees\<close>

definition threshold_ok :: "float64 \<Rightarrow> bool" where
  "threshold_ok v \<longleftrightarrow> \<not> f_less v f_zero \<and> \<not> f_less (Fin 1) v"

definition config_ok :: "unicode_tables \<Rightarrow> ContentModerationConfig \<Rightarrow> bool" where
  "config_ok U cfg \<longleftrightarrow>
     cm_APIKey cfg = '''' \<and> distinct (cm_APIKeys cfg) \<and> '''' \<notin> set (cm_APIKeys cfg) \<and>
     cm_Mode cfg \<noteq> '''' \<and> 0 < cm_TimeoutMS cfg \<and> cm_TimeoutMS cfg \<le> 30000 \<and>
     0 \<le> cm_SampleRate cfg \<and> cm_SampleRate cfg \<le> 100 \<and>
     0 < cm_WorkerCount cfg \<and> cm_WorkerCount cfg \<le> 32 \<and> 0 < cm_QueueSize cfg \<and> cm_QueueSize cfg \<le> 100000 \<and>
     0 < cm_BlockStatus cfg \<and> 0 < cm_BanThreshold cfg \<and> 0 < cm_ViolationWindowHours cfg \<and>
     0 \<le> cm_RetryCount cfg \<and> cm_RetryCount cfg \<le> 5 \<and>
     0 < cm_HitRetentionDays cfg \<and> cm_HitRetentionDays cfg \<le> 3650 \<and>
     0 < cm_NonHitRetentionDays cfg \<and> cm_NonHitRetentionDays cfg \<le> 3 \<and>
     sorted_wrt (<) (cm_PlatformIDs cfg) \<and> (\<forall>i \<in> set (cm_PlatformIDs cfg). 0 < i) \<and>
     length (cm_BlockedKeywords cfg) \<le> 10000 \<and> '''' \<notin> set (cm_BlockedKeywords cfg) \<and>
     distinct (map (ToLower U) (cm_BlockedKeywords cfg))"

lemma api_keys_loop_ok: "distinct (api_keys_loop seen ks) \<and> set (api_keys_loop seen ks) \<inter> insert '''' (set seen) = {}"
proof (induction seen ks rule: api_keys_loop.induct)
  case (2 seen key keys)
  then show ?case by (cases "TrimSpace key = []"; cases "TrimSpace key \<in> set seen") (auto simp: Let_def)
qed simp

lemma ids_loop_ok: "distinct (ids_loop seen is) \<and> (\<forall>i \<in> set (ids_loop seen is). 0 < i \<and> i \<notin> set seen)"
proof (induction seen "is" rule: ids_loop.induct)
  case (2 seen i "is")
  then show ?case by (cases "i \<le> 0"; cases "i \<in> set seen") auto
qed simp

lemma normalizeInt64IDs_ok: "sorted_wrt (<) (normalizeInt64IDs ids) \<and> (\<forall>i \<in> set (normalizeInt64IDs ids). 0 < i)"
  using ids_loop_ok [of "[]" ids] by (auto simp: normalizeInt64IDs_def strict_sorted_iff)

lemma runes_Nil_iff [simp]: "runes s = [] \<longleftrightarrow> s = []"
  by (simp add: runes.simps [of s])

lemma runes_not_Nil: "r \<in> set (runes s) \<Longrightarrow> r \<noteq> []"
proof (induction s rule: runes.induct)
  case (1 s)
  then show ?case
    by (cases "s = []"; cases "rune_size s = 0") (auto simp: runes.simps [of s] runes.simps [of "[]"])
qed

lemma trimRunes_not_Nil:
  assumes "s \<noteq> ''''" "0 < k"
  shows "trimRunes s k \<noteq> ''''"
proof (cases "int (length (runes s)) \<le> k")
  case True
  then show ?thesis using assms by (simp add: trimRunes_def)
next
  case False
  then obtain r rs where r: "runes s = r # rs" by (cases "runes s") (use assms in auto)
  then have "r \<noteq> []" using runes_not_Nil [of r s] by simp
  moreover obtain n where "nat k = Suc n" using assms by (cases "nat k") auto
  ultimately show ?thesis using False assms r by (simp add: trimRunes_def Let_def)
qed

lemma blocked_keywords_loop_ok:
  assumes "n < 10000"
  shows "n + length (blocked_keywords_loop U seen n ks) \<le> 10000 \<and> '''' \<notin> set (blocked_keywords_loop U seen n ks) \<and>
    distinct (map (ToLower U) (blocked_keywords_loop U seen n ks)) \<and>
    ToLower U ` set (blocked_keywords_loop U seen n ks) \<inter> set seen = {}"
  using assms
proof (induction U seen n ks rule: blocked_keywords_loop.induct)
  case (2 U seen n raw rest)
  let ?kw = "trimRunes (TrimSpace raw) maxContentModerationBlockedKeywordRunes"
  have "TrimSpace raw \<noteq> '''' \<Longrightarrow> ?kw \<noteq> ''''"
    by (rule trimRunes_not_Nil) (simp_all add: maxContentModerationBlockedKeywordRunes_def)
  then show ?case
    using 2 by (auto simp: Let_def maxContentModerationBlockedKeywords_def)
qed simp

theorem config_normalize_ok: "config_ok U (config_normalize U cfg)"
proof -
  have "'''' \<notin> set (normalizeModerationAPIKeys ks)" "distinct (normalizeModerationAPIKeys ks)" for ks
    using api_keys_loop_ok [of "[]" ks] by (auto simp: normalizeModerationAPIKeys_def)
  moreover have "length (normalizeBlockedKeywords U ks) \<le> 10000" "'''' \<notin> set (normalizeBlockedKeywords U ks)"
    "distinct (map (ToLower U) (normalizeBlockedKeywords U ks))" for ks
    using blocked_keywords_loop_ok [of 0 U "[]" ks] by (auto simp: normalizeBlockedKeywords_def)
  ultimately show ?thesis
    using normalizeInt64IDs_ok
    by (simp add: config_ok_def config_normalize_def default_or_max_def clamp_int_def Let_def
        ContentModerationModePreBlock_def defaultContentModerationTimeoutMS_def maxContentModerationTimeoutMS_def
        defaultContentModerationWorkerCount_def maxContentModerationWorkerCount_def
        defaultContentModerationQueueSize_def maxContentModerationQueueSize_def
        defaultContentModerationBlockHTTPStatus_def defaultContentModerationBanThreshold_def
        defaultContentModerationViolationWindowHours_def maxContentModerationRetryCount_def
        defaultContentModerationHitRetentionDays_def maxContentModerationRetentionDays_def
        defaultContentModerationNonHitRetentionDays_def maxContentModerationNonHitRetentionDays_def)
qed

end
