(* ===== verification/Moderation_Service.thy ===== *)
theory Moderation_Service
  imports Moderation_Config Sql_World
begin

text \<open>
  The content moderation service (\<open>internal/service/content_moderation.go\<close>) with the repositories behind
  it (\<open>repository/content_moderation_repo.go\<close>, \<open>content_moderation_hash_cache.go\<close>, \<open>setting_repo.go\<close>): the
  cached snapshot of the configuration, the rotation of the audit API keys, the check of a request, the
  queue of logs and observed requests, and the side effects of a hit (the flagged-hash set, the
  automatic ban, the log). The state is one record; the tables are in a world whose statements may fail.
  A background goroutine is an operation of its own: \<open>triggerRuntimeSnapshotRefresh\<close> takes the refresh
  lock and \<open>background_refresh\<close> runs later and releases it; \<open>worker_step\<close> is one turn of a worker. Log
  lines are left out. Nil checks for the service and for the repositories, which the program's wiring
  always provides, are left out too.

  Arguments of the model (\<open>mod_env\<close>): the Unicode tables, SHA-256, \<open>encoding/json\<close> on the
  configuration, the URL parser, the extraction of the prompt from a request body (which walks the body
  with a JSON library), the regular expressions that redact secrets, the audit API (which answers the
  \<open>n\<close>-th call as it likes), the random source, and whether a mail can be sent.
\<close>

section \<open>Data\<close>

record ContentModerationInput =
  mi_Text :: string
  mi_Images :: "string list"

record ContentModerationCheckInput =
  ci_RequestID :: string
  ci_UserID :: int
  ci_UserEmail :: string
  ci_APIKeyID :: int
  ci_APIKeyName :: string
  ci_PlatformID :: "int option"
  ci_PlatformName :: string
  ci_Endpoint :: string
  ci_Provider :: string
  ci_Model :: string
  ci_Protocol :: string
  ci_Body :: string

record ContentModerationDecision =
  cd_Allowed :: bool
  cd_Blocked :: bool
  cd_Flagged :: bool
  cd_Message :: string
  cd_StatusCode :: int
  cd_InputHash :: string
  cd_HighestCategory :: string
  cd_HighestScore :: float64
  cd_CategoryScores :: "(string \<times> float64) list"
  cd_Action :: string

record ContentModerationLog =
  lo_ID :: int
  lo_RequestID :: string
  lo_UserID :: "int option"
  lo_UserEmail :: string
  lo_APIKeyID :: "int option"
  lo_APIKeyName :: string
  lo_PlatformID :: "int option"
  lo_PlatformName :: string
  lo_Endpoint :: string
  lo_Provider :: string
  lo_Model :: string
  lo_Mode :: string
  lo_Action :: string
  lo_Flagged :: bool
  lo_HighestCategory :: string
  lo_HighestScore :: float64
  lo_MatchedKeyword :: string
  lo_CategoryScores :: "(string \<times> float64) list"
  lo_ThresholdSnapshot :: "(string \<times> float64) list"
  lo_InputExcerpt :: string
  lo_UpstreamLatencyMS :: "int option"
  lo_Error :: string
  lo_ViolationCount :: int
  lo_AutoBanned :: bool
  lo_EmailSent :: bool
  lo_QueueDelayMS :: "int option"
  lo_CreatedAt :: go_time

record contentModerationRuntimeSnapshot =
  rs_riskControlEnabled :: bool
  rs_config :: ContentModerationConfig
  rs_keywordMatcher :: "keyword_matcher option"
  rs_configDigest :: string
  rs_loadedAt :: go_time

record contentModerationTask =
  ta_input :: ContentModerationCheckInput
  ta_content :: ContentModerationInput
  ta_inputHash :: string
  ta_log :: "ContentModerationLog option"
  ta_config :: "ContentModerationConfig option"
  ta_recordHash :: bool
  ta_applySideEffects :: bool
  ta_enqueuedAt :: go_time

record contentModerationKeyHealth =
  kh_Hash :: string
  kh_Masked :: string
  kh_FailureCount :: int
  kh_SuccessCount :: int
  kh_LastError :: string
  kh_LastCheckedAt :: go_time
  kh_FrozenUntil :: go_time
  kh_LastLatencyMS :: int
  kh_LastHTTPStatus :: int
  kh_LastTested :: bool
  kh_SyncActive :: int
  kh_SyncTotal :: int
  kh_SyncSuccess :: int
  kh_SyncErrors :: int
  kh_SyncLatencyMS :: int

text \<open>The tables: of a user only the role and the status matter here.\<close>

record mod_user =
  mu_Role :: string
  mu_Status :: string

record mod_db =
  mb_settings :: "string \<Rightarrow> string option"
  mb_hashes :: "string set"
  mb_logs :: "ContentModerationLog list"
  mb_nextLog :: int
  mb_users :: "int \<Rightarrow> mod_user option"
  mb_proxies :: "int list"
  mb_platforms :: "int list"

datatype audit_input = AuditText string | AuditParts "string option" "string list"

record mod_env =
  me_unicode :: unicode_tables
  me_sha256 :: "string \<Rightarrow> string"
  me_unmarshal :: "string \<Rightarrow> ContentModerationConfig \<Rightarrow> ContentModerationConfig option"
  me_marshal :: "ContentModerationConfig \<Rightarrow> string result"
  me_url_ok :: "string \<Rightarrow> bool"
  me_extract :: "string \<Rightarrow> string \<Rightarrow> ContentModerationInput"
  me_redact :: "string \<Rightarrow> string"
  me_audit :: "nat \<Rightarrow> ContentModerationConfig \<Rightarrow> string \<Rightarrow> audit_input \<Rightarrow> (string \<times> float64) list result \<times> int"
  me_cancelled :: "nat \<Rightarrow> bool"
  me_random :: "nat \<Rightarrow> nat option"
  me_error_text :: "go_error \<Rightarrow> string"
  me_violation_mail :: "ContentModerationLog \<Rightarrow> bool"
  me_disabled_mail :: "ContentModerationLog \<Rightarrow> bool"

record mod_state =
  ms_world :: "mod_db world"
  ms_runtimeSnapshot :: "contentModerationRuntimeSnapshot option"
  ms_runtimeCacheTTL :: duration
  ms_refreshLocked :: bool
  ms_runtimeRefreshRetryAt :: int
  ms_asyncQueue :: "contentModerationTask list"
  ms_asyncActive :: int
  ms_asyncEnqueued :: int
  ms_asyncDropped :: int
  ms_asyncProcessed :: int
  ms_asyncErrors :: int
  ms_preBlockActive :: int
  ms_preBlockChecked :: int
  ms_preBlockAllowed :: int
  ms_preBlockBlocked :: int
  ms_preBlockErrors :: int
  ms_preBlockLatencyTotalMS :: int
  ms_apiKeyCursor :: nat
  ms_keyHealth :: "string \<Rightarrow> contentModerationKeyHealth option"
  ms_auditCalls :: nat
  ms_invalidated :: "int list"

definition mod_clock :: "mod_state \<Rightarrow> go_time \<times> mod_state" where
  "mod_clock st = (now_of (ms_world st), st\<lparr>ms_world := tick (ms_world st)\<rparr>)"

definition mod_stmt :: "(mod_db \<Rightarrow> 'a result \<times> mod_db) \<Rightarrow> mod_state \<Rightarrow> 'a result \<times> mod_state" where
  "mod_stmt f st = (let (r, w) = sql_exec f (ms_world st) in (r, st\<lparr>ms_world := w\<rparr>))"

definition millis_between :: "go_time \<Rightarrow> go_time \<Rightarrow> int" where
  "millis_between start stop = go_quot (time_sub stop start) millisecond"

section \<open>Settings\<close>

definition SettingKeyRiskControlEnabled :: string where
  "SettingKeyRiskControlEnabled = ''risk_control_enabled''"
definition SettingKeyContentModerationConfig :: string where
  "SettingKeyContentModerationConfig = ''content_moderation_config''"

definition ErrSettingNotFound :: go_error where
  "ErrSettingNotFound = NotFound ''SETTING_NOT_FOUND'' ''setting not found''"

definition setting_GetValue :: "string \<Rightarrow> mod_state \<Rightarrow> string result \<times> mod_state" where
  "setting_GetValue key = mod_stmt (\<lambda>db. (case mb_settings db key of
     None \<Rightarrow> Inl ErrSettingNotFound | Some v \<Rightarrow> Inr v, db))"

definition setting_GetMultiple :: "string list \<Rightarrow> mod_state \<Rightarrow> (string \<Rightarrow> string option) result \<times> mod_state" where
  "setting_GetMultiple keys = mod_stmt (\<lambda>db. (Inr (\<lambda>k. if k \<in> set keys then mb_settings db k else None), db))"

definition setting_Set :: "string \<Rightarrow> string \<Rightarrow> mod_state \<Rightarrow> unit result \<times> mod_state" where
  "setting_Set key v = mod_stmt (\<lambda>db. (Inr (), db\<lparr>mb_settings := (mb_settings db)(key := Some v)\<rparr>))"

definition parseContentModerationConfig :: "mod_env \<Rightarrow> string \<Rightarrow> ContentModerationConfig result" where
  "parseContentModerationConfig E raw =
     (if TrimSpace raw = '''' then Inr (config_normalize (me_unicode E) defaultContentModerationConfig)
      else case me_unmarshal E raw defaultContentModerationConfig of
        None \<Rightarrow> Inl (BadRequest ''INVALID_CONTENT_MODERATION_CONFIG''
          ([CHR 0xE5, CHR 0x86, CHR 0x85, CHR 0xE5, CHR 0xAE, CHR 0xB9, CHR 0xE5,
              CHR 0xAE, CHR 0xA1, CHR 0xE8, CHR 0xAE, CHR 0xA1, CHR 0xE9, CHR 0x85,
              CHR 0x8D, CHR 0xE7, CHR 0xBD, CHR 0xAE, CHR 0xE4, CHR 0xB8, CHR 0x8D,
              CHR 0xE6, CHR 0x98, CHR 0xAF, CHR 0xE6, CHR 0x9C, CHR 0x89, CHR 0xE6,
              CHR 0x95, CHR 0x88] @ '' JSON''))
      | Some cfg \<Rightarrow> Inr (config_normalize (me_unicode E) cfg))"

definition loadConfig :: "mod_env \<Rightarrow> mod_state \<Rightarrow> ContentModerationConfig result \<times> mod_state" where
  "loadConfig E st =
     (case setting_GetValue SettingKeyContentModerationConfig st of
        (Inl err, st) \<Rightarrow>
          (if errors_is err ErrSettingNotFound then parseContentModerationConfig E ''''
           else Inl (Wrapped ''get content moderation config'' err), st)
      | (Inr raw, st) \<Rightarrow> (parseContentModerationConfig E raw, st))"

definition isRiskControlEnabled :: "mod_state \<Rightarrow> bool \<times> mod_state" where
  "isRiskControlEnabled st =
     (case setting_GetValue SettingKeyRiskControlEnabled st of
        (Inl _, st) \<Rightarrow> (False, st) | (Inr raw, st) \<Rightarrow> (raw = ''true'', st))"

section \<open>The snapshot of the configuration\<close>

definition contentModerationRuntimeCacheTTL :: duration where
  "contentModerationRuntimeCacheTTL = second"

definition runtimeSnapshotTTL :: "mod_state \<Rightarrow> duration" where
  "runtimeSnapshotTTL st =
     (if 0 < ms_runtimeCacheTTL st then ms_runtimeCacheTTL st else contentModerationRuntimeCacheTTL)"

definition refreshRuntimeSnapshot ::
  "mod_env \<Rightarrow> mod_state \<Rightarrow> contentModerationRuntimeSnapshot result \<times> mod_state" where
  "refreshRuntimeSnapshot E st =
     (case setting_GetMultiple [SettingKeyRiskControlEnabled, SettingKeyContentModerationConfig] st of
        (Inl err, st) \<Rightarrow> (Inl (Wrapped ''get content moderation runtime settings'' err), st)
      | (Inr values, st) \<Rightarrow>
          let rawConfig = given (values SettingKeyContentModerationConfig) '''';
              enabled = (given (values SettingKeyRiskControlEnabled) '''' = ''true'');
              digest = me_sha256 E rawConfig;
              store = (\<lambda>cfg m st. let (now, st) = mod_clock st;
                snapshot = \<lparr>rs_riskControlEnabled = enabled, rs_config = cfg, rs_keywordMatcher = m,
                  rs_configDigest = digest, rs_loadedAt = now\<rparr>
                in (Inr snapshot, st\<lparr>ms_runtimeSnapshot := Some snapshot, ms_runtimeRefreshRetryAt := 0\<rparr>));
              parse = (case parseContentModerationConfig E rawConfig of
                Inl err \<Rightarrow> (Inl err, st)
              | Inr cfg \<Rightarrow> store cfg (newKeywordMatcher (me_unicode E) (cm_BlockedKeywords cfg)) st)
          in case ms_runtimeSnapshot st of
               Some current \<Rightarrow> if rs_configDigest current = digest
                 then store (rs_config current) (rs_keywordMatcher current) st else parse
             | None \<Rightarrow> parse)"

definition runtimeRefreshDeferred :: "mod_state \<Rightarrow> bool \<times> mod_state" where
  "runtimeRefreshDeferred st =
     (let (now, st) = mod_clock st in (unix_nano now < ms_runtimeRefreshRetryAt st, st))"

definition triggerRuntimeSnapshotRefresh :: "mod_state \<Rightarrow> mod_state" where
  "triggerRuntimeSnapshotRefresh st =
     (case runtimeRefreshDeferred st of
        (True, st) \<Rightarrow> st
      | (False, st) \<Rightarrow>
          if ms_refreshLocked st then st
          else (case runtimeRefreshDeferred st of
                  (True, st) \<Rightarrow> st
                | (False, st) \<Rightarrow> st\<lparr>ms_refreshLocked := True\<rparr>))"

definition background_refresh :: "mod_env \<Rightarrow> mod_state \<Rightarrow> mod_state" where
  "background_refresh E st =
     (if \<not> ms_refreshLocked st then st
      else case refreshRuntimeSnapshot E st of
        (Inl _, st) \<Rightarrow> (let (now, st) = mod_clock st in
          st\<lparr>ms_runtimeRefreshRetryAt := unix_nano (now + runtimeSnapshotTTL st), ms_refreshLocked := False\<rparr>)
      | (Inr _, st) \<Rightarrow> st\<lparr>ms_refreshLocked := False\<rparr>)"

definition loadRuntimeSnapshot ::
  "mod_env \<Rightarrow> mod_state \<Rightarrow> contentModerationRuntimeSnapshot result \<times> mod_state" where
  "loadRuntimeSnapshot E st =
     (let (now, st) = mod_clock st in
      case ms_runtimeSnapshot st of
        Some snapshot \<Rightarrow>
          if time_sub now (rs_loadedAt snapshot) < runtimeSnapshotTTL st then (Inr snapshot, st)
          else (Inr snapshot, triggerRuntimeSnapshotRefresh st)
      | None \<Rightarrow> refreshRuntimeSnapshot E st)"

text \<open>Lists are values here, so \<open>cloneContentModerationConfig\<close> is the identity.\<close>

definition replaceRuntimeConfig :: "mod_env \<Rightarrow> ContentModerationConfig \<Rightarrow> string \<Rightarrow> mod_state \<Rightarrow> mod_state" where
  "replaceRuntimeConfig E cfg raw st =
     (case ms_runtimeSnapshot st of
        None \<Rightarrow> st
      | Some current \<Rightarrow> let (now, st) = mod_clock st in
          st\<lparr>ms_runtimeSnapshot := Some \<lparr>rs_riskControlEnabled = rs_riskControlEnabled current, rs_config = cfg,
            rs_keywordMatcher = newKeywordMatcher (me_unicode E) (cm_BlockedKeywords cfg),
            rs_configDigest = me_sha256 E raw, rs_loadedAt = now\<rparr>\<rparr>)"

definition snapshot_matchBlockedKeyword ::
  "unicode_tables \<Rightarrow> contentModerationRuntimeSnapshot \<Rightarrow> string \<Rightarrow> string \<times> bool" where
  "snapshot_matchBlockedKeyword U s text =
     (if rs_keywordMatcher s \<noteq> None then keyword_Match U (rs_keywordMatcher s) text
      else matchBlockedKeyword U text (cm_BlockedKeywords (rs_config s)))"

section \<open>Editing the configuration\<close>

definition proxy_exists :: "int \<Rightarrow> mod_state \<Rightarrow> unit result \<times> mod_state" where
  "proxy_exists i = mod_stmt (\<lambda>db. (if i \<in> set (mb_proxies db) then Inr () else Inl entNotFound, db))"

definition platform_ids :: "mod_state \<Rightarrow> int list result \<times> mod_state" where
  "platform_ids = mod_stmt (\<lambda>db. (Inr (mb_platforms db), db))"

definition validate_platforms :: "ContentModerationConfig \<Rightarrow> mod_state \<Rightarrow> go_error option \<times> mod_state" where
  "validate_platforms cfg st =
     (if \<not> cm_AllPlatforms cfg \<and> cm_PlatformIDs cfg \<noteq> [] then
        (case platform_ids st of
           (Inl _, st) \<Rightarrow> (Some (BadRequest ''INVALID_CONTENT_MODERATION_PLATFORM''
             [CHR 0xE6, CHR 0x97, CHR 0xA0, CHR 0xE6, CHR 0xB3, CHR 0x95, CHR 0xE5,
              CHR 0x8A, CHR 0xA0, CHR 0xE8, CHR 0xBD, CHR 0xBD, CHR 0xE5, CHR 0xAE,
              CHR 0xA1, CHR 0xE8, CHR 0xAE, CHR 0xA1, CHR 0xE5, CHR 0xB9, CHR 0xB3,
              CHR 0xE5, CHR 0x8F, CHR 0xB0]), st)
         | (Inr known, st) \<Rightarrow>
             (case find (\<lambda>i. i \<notin> set known) (cm_PlatformIDs cfg) of
                None \<Rightarrow> (None, st)
              | Some i \<Rightarrow> (Some (BadRequest ''INVALID_CONTENT_MODERATION_PLATFORM''
                  ([CHR 0xE5, CHR 0xAE, CHR 0xA1, CHR 0xE8, CHR 0xAE, CHR 0xA1, CHR 0xE5,
              CHR 0xB9, CHR 0xB3, CHR 0xE5, CHR 0x8F, CHR 0xB0, CHR 0xE4, CHR 0xB8,
              CHR 0x8D, CHR 0xE5, CHR 0xAD, CHR 0x98, CHR 0xE5, CHR 0x9C, CHR 0xA8] @ '': '' @ Itoa i)), st)))
      else (None, st))"

definition validateConfig ::
  "mod_env \<Rightarrow> ContentModerationConfig \<Rightarrow> mod_state \<Rightarrow> ContentModerationConfig result \<times> mod_state" where
  "validateConfig E cfg st =
     (let cfg = config_normalize (me_unicode E) cfg;
          finish = (\<lambda>st.
            if cm_BlockStatus cfg < 400 \<or> cm_BlockStatus cfg > 599 then
              (Inl (BadRequest ''INVALID_CONTENT_MODERATION_BLOCK_STATUS''
                ([CHR 0xE6, CHR 0x8B, CHR 0xA6, CHR 0xE6, CHR 0x88, CHR 0xAA] @ '' HTTP '' @ [CHR 0xE7, CHR 0x8A, CHR 0xB6, CHR 0xE6, CHR 0x80, CHR 0x81, CHR 0xE7,
              CHR 0xA0, CHR 0x81, CHR 0xE5, CHR 0xBF, CHR 0x85, CHR 0xE9, CHR 0xA1,
              CHR 0xBB, CHR 0xE5, CHR 0x9C, CHR 0xA8] @ '' 400-599 '' @ [CHR 0xE4, CHR 0xB9, CHR 0x8B, CHR 0xE9, CHR 0x97, CHR 0xB4])), st)
            else if mf_Type (cm_ModelFilter cfg) \<noteq> ContentModerationModelFilterAll \<and> mf_Models (cm_ModelFilter cfg) = [] then
              (Inl (BadRequest ''INVALID_CONTENT_MODERATION_MODEL_FILTER''
                ([CHR 0xE6, CHR 0x8C, CHR 0x87, CHR 0xE5, CHR 0xAE, CHR 0x9A, CHR 0xE6,
              CHR 0x88, CHR 0x96, CHR 0xE6, CHR 0x8E, CHR 0x92, CHR 0xE9, CHR 0x99,
              CHR 0xA4, CHR 0xE6, CHR 0xA8, CHR 0xA1, CHR 0xE5, CHR 0x9E, CHR 0x8B,
              CHR 0xE6, CHR 0x97, CHR 0xB6, CHR 0xE8, CHR 0x87, CHR 0xB3, CHR 0xE5,
              CHR 0xB0, CHR 0x91, CHR 0xE9, CHR 0x9C, CHR 0x80, CHR 0xE8, CHR 0xA6,
              CHR 0x81, CHR 0xE9, CHR 0x85, CHR 0x8D, CHR 0xE7, CHR 0xBD, CHR 0xAE] @ '' 1 '' @ [CHR 0xE4, CHR 0xB8, CHR 0xAA, CHR 0xE6, CHR 0xA8, CHR 0xA1, CHR 0xE5,
              CHR 0x9E, CHR 0x8B])), st)
            else (case validate_platforms cfg st of
                    (Some err, st) \<Rightarrow> (Inl err, st) | (None, st) \<Rightarrow> (Inr cfg, st)))
      in if cm_Mode cfg \<noteq> ContentModerationModeOff \<and> cm_Mode cfg \<noteq> ContentModerationModeObserve \<and>
            cm_Mode cfg \<noteq> ContentModerationModePreBlock then
           (Inl (BadRequest ''INVALID_CONTENT_MODERATION_MODE''
             [CHR 0xE5, CHR 0x86, CHR 0x85, CHR 0xE5, CHR 0xAE, CHR 0xB9, CHR 0xE5,
              CHR 0xAE, CHR 0xA1, CHR 0xE8, CHR 0xAE, CHR 0xA1, CHR 0xE6, CHR 0xA8,
              CHR 0xA1, CHR 0xE5, CHR 0xBC, CHR 0x8F, CHR 0xE6, CHR 0x97, CHR 0xA0,
              CHR 0xE6, CHR 0x95, CHR 0x88]), st)
         else if \<not> me_url_ok E (cm_BaseURL cfg) then
           (Inl (BadRequest ''INVALID_CONTENT_MODERATION_BASE_URL'' (''OpenAI Base URL '' @ [CHR 0xE6, CHR 0x97, CHR 0xA0, CHR 0xE6, CHR 0x95, CHR 0x88])), st)
         else (case cm_ProxyID cfg of
             None \<Rightarrow> finish st
           | Some i \<Rightarrow> (case proxy_exists i st of
                 (Inl _, st) \<Rightarrow> (Inl (BadRequest ''INVALID_CONTENT_MODERATION_PROXY''
                   ([CHR 0xE4, CHR 0xBB, CHR 0xA3, CHR 0xE7, CHR 0x90, CHR 0x86, CHR 0xE6,
              CHR 0x9C, CHR 0x8D, CHR 0xE5, CHR 0x8A, CHR 0xA1, CHR 0xE5, CHR 0x99,
              CHR 0xA8, CHR 0xE4, CHR 0xB8, CHR 0x8D, CHR 0xE5, CHR 0xAD, CHR 0x98,
              CHR 0xE5, CHR 0x9C, CHR 0xA8] @ '': '' @ Itoa i)), st)
               | (Inr _, st) \<Rightarrow> finish st)))"

text \<open>The returned configuration stands for the view that the code builds from it.\<close>

definition UpdateConfig ::
  "mod_env \<Rightarrow> UpdateContentModerationConfigInput \<Rightarrow> mod_state \<Rightarrow> ContentModerationConfig result \<times> mod_state" where
  "UpdateConfig E input st =
     (case loadConfig E st of
        (Inl err, st) \<Rightarrow> (Inl err, st)
      | (Inr cfg, st) \<Rightarrow>
          let cfg = update_api_keys (me_unicode E) (me_sha256 E) input (update_fields (me_unicode E) input cfg) in
          case validateConfig E cfg st of
            (Inl err, st) \<Rightarrow> (Inl err, st)
          | (Inr cfg, st) \<Rightarrow>
              let cfg = config_normalize (me_unicode E) cfg in
              (case me_marshal E cfg of
                 Inl err \<Rightarrow> (Inl (Wrapped ''marshal content moderation config'' err), st)
               | Inr raw \<Rightarrow>
                   (case setting_Set SettingKeyContentModerationConfig raw st of
                      (Inl err, st) \<Rightarrow> (Inl (Wrapped ''save content moderation config'' err), st)
                    | (Inr _, st) \<Rightarrow> (Inr cfg, replaceRuntimeConfig E cfg raw st))))"

section \<open>The audit API keys\<close>

definition contentModerationFreezeDurationForHTTPStatus :: "int \<Rightarrow> duration" where
  "contentModerationFreezeDurationForHTTPStatus httpStatus =
     (if httpStatus = 0 \<or> httpStatus = 400 then 0
      else if httpStatus = 401 \<or> httpStatus = 403 then 10 * minute
      else if httpStatus = 429 \<or> httpStatus = 529 then minute
      else 10 * second)"

definition new_key_health :: "string \<Rightarrow> contentModerationKeyHealth" where
  "new_key_health hash = \<lparr>kh_Hash = hash, kh_Masked = '''', kh_FailureCount = 0, kh_SuccessCount = 0,
     kh_LastError = '''', kh_LastCheckedAt = 0, kh_FrozenUntil = 0, kh_LastLatencyMS = 0,
     kh_LastHTTPStatus = 0, kh_LastTested = False, kh_SyncActive = 0, kh_SyncTotal = 0,
     kh_SyncSuccess = 0, kh_SyncErrors = 0, kh_SyncLatencyMS = 0\<rparr>"

definition ensureAPIKeyHealthLocked :: "string \<Rightarrow> string \<Rightarrow> mod_state \<Rightarrow> contentModerationKeyHealth" where
  "ensureAPIKeyHealthLocked hash masked st =
     (let state = given (ms_keyHealth st hash) (new_key_health hash)
      in if TrimSpace masked \<noteq> '''' then state\<lparr>kh_Masked := masked\<rparr> else state)"

text \<open>The pattern of the operations below: find or make the entry of a key and change it.\<close>

definition change_health ::
  "mod_env \<Rightarrow> string \<Rightarrow> (contentModerationKeyHealth \<Rightarrow> contentModerationKeyHealth) \<Rightarrow> mod_state \<Rightarrow> mod_state" where
  "change_health E key f st =
     (let hash = moderationAPIKeyHash (me_sha256 E) key in
      if hash = '''' then st
      else st\<lparr>ms_keyHealth := (ms_keyHealth st)(hash \<mapsto> f (ensureAPIKeyHealthLocked hash (maskSecretTail key) st))\<rparr>)"

definition isAPIKeyFrozen :: "mod_env \<Rightarrow> string \<Rightarrow> go_time \<Rightarrow> mod_state \<Rightarrow> bool" where
  "isAPIKeyFrozen E key now st =
     (let hash = moderationAPIKeyHash (me_sha256 E) key in
      if hash = '''' then False
      else case ms_keyHealth st hash of None \<Rightarrow> False | Some state \<Rightarrow> now < kh_FrozenUntil state)"

definition beginModerationAPIKeyCall :: "mod_env \<Rightarrow> string \<Rightarrow> mod_state \<Rightarrow> mod_state" where
  "beginModerationAPIKeyCall E key = change_health E key (\<lambda>h. h\<lparr>kh_SyncActive := kh_SyncActive h + 1\<rparr>)"

definition finishModerationAPIKeyCall :: "mod_env \<Rightarrow> string \<Rightarrow> int \<Rightarrow> bool \<Rightarrow> mod_state \<Rightarrow> mod_state" where
  "finishModerationAPIKeyCall E key latencyMS success = change_health E key (\<lambda>h.
     let h = h\<lparr>kh_SyncActive := (if 0 < kh_SyncActive h then kh_SyncActive h - 1 else kh_SyncActive h),
               kh_SyncTotal := kh_SyncTotal h + 1,
               kh_SyncLatencyMS := kh_SyncLatencyMS h + (if latencyMS < 0 then 0 else latencyMS)\<rparr>
     in if success then h\<lparr>kh_SyncSuccess := kh_SyncSuccess h + 1\<rparr>
        else h\<lparr>kh_SyncErrors := kh_SyncErrors h + 1\<rparr>)"

definition markAPIKeySuccess :: "mod_env \<Rightarrow> string \<Rightarrow> int \<Rightarrow> int \<Rightarrow> mod_state \<Rightarrow> mod_state" where
  "markAPIKeySuccess E key latencyMS httpStatus st =
     (let (now, st) = mod_clock st in
      change_health E key (\<lambda>h. h\<lparr>kh_FailureCount := 0, kh_SuccessCount := kh_SuccessCount h + 1,
        kh_LastError := '''', kh_LastCheckedAt := now, kh_FrozenUntil := 0, kh_LastLatencyMS := latencyMS,
        kh_LastHTTPStatus := httpStatus, kh_LastTested := True\<rparr>) st)"

definition markAPIKeyError :: "mod_env \<Rightarrow> string \<Rightarrow> string \<Rightarrow> int \<Rightarrow> int \<Rightarrow> mod_state \<Rightarrow> mod_state" where
  "markAPIKeyError E key errText latencyMS httpStatus st =
     (let (now, st) = mod_clock st;
          freeze = contentModerationFreezeDurationForHTTPStatus httpStatus;
          (now2, st2) = (if 0 < freeze then mod_clock st else (now, st))
      in change_health E key (\<lambda>h. h\<lparr>
           kh_FailureCount := (if 0 < freeze then kh_FailureCount h + 1 else kh_FailureCount h),
           kh_LastError := trimRunes errText 180, kh_LastCheckedAt := now, kh_LastLatencyMS := latencyMS,
           kh_LastHTTPStatus := httpStatus, kh_LastTested := True,
           kh_FrozenUntil := (if 0 < freeze then now2 + freeze else kh_FrozenUntil h)\<rparr>) st2)"

text \<open>The cursor counts the keys handed out; it stays far below the \<open>2 ^ 63\<close> at which it would wrap.\<close>

fun next_key_loop :: "mod_env \<Rightarrow> string list \<Rightarrow> go_time \<Rightarrow> nat \<Rightarrow> mod_state \<Rightarrow> string option \<times> mod_state" where
  "next_key_loop E keys now 0 st = (None, st)"
| "next_key_loop E keys now (Suc n) st =
     (let key = keys ! (ms_apiKeyCursor st mod length keys);
          st = st\<lparr>ms_apiKeyCursor := ms_apiKeyCursor st + 1\<rparr>
      in if isAPIKeyFrozen E key now st then next_key_loop E keys now n st else (Some key, st))"

definition nextUsableAPIKey :: "mod_env \<Rightarrow> ContentModerationConfig \<Rightarrow> mod_state \<Rightarrow> string option \<times> mod_state" where
  "nextUsableAPIKey E cfg st =
     (let keys = config_apiKeys cfg in
      if keys = [] then (None, st)
      else let (now, st) = mod_clock st in next_key_loop E keys now (length keys) st)"

section \<open>The audit\<close>

definition limitContentModerationImages :: "mod_env \<Rightarrow> nat \<Rightarrow> string list \<Rightarrow> string list" where
  "limitContentModerationImages E n images =
     (if length images \<le> 1 then images
      else case me_random E n of None \<Rightarrow> take 1 images | Some i \<Rightarrow> [images ! (i mod length images)])"

definition ModerationInput :: "mod_env \<Rightarrow> nat \<Rightarrow> ContentModerationInput \<Rightarrow> audit_input" where
  "ModerationInput E n inp =
     (let images = limitContentModerationImages E n (mi_Images inp) in
      if images = [] then AuditText (mi_Text inp)
      else AuditParts (if TrimSpace (mi_Text inp) \<noteq> '''' then Some (mi_Text inp) else None) images)"

definition errNoModerationKey :: go_error where
  "errNoModerationKey = Sentinel ''no moderation api key available''"

definition contextCanceled :: go_error where
  "contextCanceled = Sentinel ''context canceled''"

fun audit_attempts ::
  "mod_env \<Rightarrow> ContentModerationConfig \<Rightarrow> audit_input \<Rightarrow> bool \<Rightarrow> nat \<Rightarrow> mod_state \<Rightarrow>
   (string \<times> float64) list result \<times> mod_state" where
  "audit_attempts E cfg inp trackLoad retries st =
     (case nextUsableAPIKey E cfg st of
        (None, st) \<Rightarrow> (Inl errNoModerationKey, st)
      | (Some key, st) \<Rightarrow>
          let st = (if trackLoad then beginModerationAPIKeyCall E key st else st);
              (start, st) = mod_clock st;
              n = ms_auditCalls st;
              (answer, httpStatus) = me_audit E n cfg key inp;
              st = st\<lparr>ms_auditCalls := Suc n\<rparr>;
              (stop, st) = mod_clock st;
              latency = millis_between start stop
          in case answer of
               Inr scores \<Rightarrow>
                 (Inr scores, markAPIKeySuccess E key latency httpStatus
                    (if trackLoad then finishModerationAPIKeyCall E key latency True st else st))
             | Inl err \<Rightarrow>
                 let st = markAPIKeyError E key (me_error_text E err) latency httpStatus
                            (if trackLoad then finishModerationAPIKeyCall E key latency False st else st)
                 in if httpStatus = 400 then (Inl err, st)
                    else (case retries of
                        0 \<Rightarrow> (Inl err, st)
                      | Suc retries \<Rightarrow> if me_cancelled E n then (Inl contextCanceled, st)
                          else audit_attempts E cfg inp trackLoad retries st))"

declare audit_attempts.simps [simp del]

definition callModeration ::
  "mod_env \<Rightarrow> ContentModerationConfig \<Rightarrow> audit_input \<Rightarrow> bool \<Rightarrow> mod_state \<Rightarrow>
   (string \<times> float64) list result \<times> mod_state" where
  "callModeration E cfg inp trackLoad st =
     (let attempts = cm_RetryCount cfg + 1;
          attempts = (if attempts \<le> 0 then 1 else attempts);
          attempts = (if attempts > maxContentModerationRetryCount + 1 then maxContentModerationRetryCount + 1 else attempts)
      in audit_attempts E cfg inp trackLoad (nat (attempts - 1)) st)"

definition score_of :: "(string \<times> float64) list \<Rightarrow> string \<Rightarrow> float64" where
  "score_of scores category = given (map_of scores category) f_zero"

definition higher_score :: "string \<times> float64 \<Rightarrow> string \<times> float64 \<Rightarrow> string \<times> float64" where
  "higher_score = (\<lambda>(highestCategory, highestScore) (category, score).
     if f_less highestScore score \<or> highestCategory = '''' then (category, score) else (highestCategory, highestScore))"

definition evaluateModerationScores ::
  "(string \<times> float64) list \<Rightarrow> (string \<times> float64) list \<Rightarrow> bool \<times> string \<times> float64" where
  "evaluateModerationScores scores thresholds =
     (list_ex (\<lambda>category. f_le (score_of thresholds category) (score_of scores category)) contentModerationCategoryOrder,
      foldl higher_score
        (foldl (\<lambda>acc category. higher_score acc (category, score_of scores category)) ('''', f_zero)
           contentModerationCategoryOrder)
        scores)"

section \<open>Counters and queue\<close>

definition recordPreBlockSyncMetric :: "int \<Rightarrow> string \<Rightarrow> mod_state \<Rightarrow> mod_state" where
  "recordPreBlockSyncMetric latencyMS action st =
     (let st = st\<lparr>ms_preBlockChecked := ms_preBlockChecked st + 1,
            ms_preBlockLatencyTotalMS := ms_preBlockLatencyTotalMS st + (if latencyMS < 0 then 0 else latencyMS)\<rparr>
      in if action = ContentModerationActionBlock \<or> action = ContentModerationActionHashBlock \<or>
            action = ContentModerationActionKeywordBlock
         then st\<lparr>ms_preBlockBlocked := ms_preBlockBlocked st + 1\<rparr>
         else if action = ContentModerationActionError then st\<lparr>ms_preBlockErrors := ms_preBlockErrors st + 1\<rparr>
         else st\<lparr>ms_preBlockAllowed := ms_preBlockAllowed st + 1\<rparr>)"

definition drop_task :: "mod_state \<Rightarrow> mod_state" where
  "drop_task st = st\<lparr>ms_asyncDropped := ms_asyncDropped st + 1\<rparr>"

definition send_task :: "(go_time \<Rightarrow> contentModerationTask) \<Rightarrow> mod_state \<Rightarrow> mod_state" where
  "send_task task st =
     (let (now, st) = mod_clock st in
      if int (length (ms_asyncQueue st)) < maxContentModerationQueueSize
      then st\<lparr>ms_asyncQueue := ms_asyncQueue st @ [task now], ms_asyncEnqueued := ms_asyncEnqueued st + 1\<rparr>
      else drop_task st)"

definition queue_limit :: "ContentModerationConfig \<Rightarrow> int" where
  "queue_limit cfg = (if 0 < cm_QueueSize cfg then cm_QueueSize cfg else defaultContentModerationQueueSize)"

definition enqueueAsync ::
  "ContentModerationCheckInput \<Rightarrow> ContentModerationConfig \<Rightarrow> ContentModerationInput \<Rightarrow> string \<Rightarrow> mod_state \<Rightarrow> mod_state" where
  "enqueueAsync input cfg content hashText st =
     (if queue_limit cfg \<le> int (length (ms_asyncQueue st)) then drop_task st
      else send_task (\<lambda>now. \<lparr>ta_input = input, ta_content = content, ta_inputHash = hashText, ta_log = None,
        ta_config = None, ta_recordHash = False, ta_applySideEffects = False, ta_enqueuedAt = now\<rparr>) st)"

definition enqueueRecord ::
  "ContentModerationCheckInput \<Rightarrow> ContentModerationConfig \<Rightarrow> ContentModerationLog \<Rightarrow> string \<Rightarrow> bool \<Rightarrow> bool \<Rightarrow>
   mod_state \<Rightarrow> mod_state" where
  "enqueueRecord input cfg entry inputHash recordHash applySideEffects st =
     (if queue_limit cfg \<le> int (length (ms_asyncQueue st)) then drop_task st
      else send_task (\<lambda>now. \<lparr>ta_input = input, ta_content = \<lparr>mi_Text = '''', mi_Images = []\<rparr>,
        ta_inputHash = inputHash, ta_log = Some entry, ta_config = Some cfg, ta_recordHash = recordHash,
        ta_applySideEffects = applySideEffects, ta_enqueuedAt = now\<rparr>) st)"
section \<open>The repositories\<close>

definition RecordFlaggedInputHash :: "string \<Rightarrow> mod_state \<Rightarrow> unit result \<times> mod_state" where
  "RecordFlaggedInputHash inputHash st =
     (let inputHash = TrimSpace inputHash in
      if inputHash = '''' then (Inr (), st)
      else mod_stmt (\<lambda>db. (Inr (), db\<lparr>mb_hashes := insert inputHash (mb_hashes db)\<rparr>)) st)"

definition HasFlaggedInputHash :: "string \<Rightarrow> mod_state \<Rightarrow> bool result \<times> mod_state" where
  "HasFlaggedInputHash inputHash st =
     (let inputHash = TrimSpace inputHash in
      if inputHash = '''' then (Inr False, st)
      else mod_stmt (\<lambda>db. (Inr (inputHash \<in> mb_hashes db), db)) st)"

definition finite_scores :: "(string \<times> float64) list \<Rightarrow> bool" where
  "finite_scores m = list_all (\<lambda>(k, v). \<not> f_is_nan v \<and> \<not> f_is_inf v) m"

definition CreateLog :: "ContentModerationLog \<Rightarrow> mod_state \<Rightarrow> ContentModerationLog result \<times> mod_state" where
  "CreateLog entry st =
     (if \<not> finite_scores (lo_CategoryScores entry) then
        (Inl (Wrapped ''marshal moderation category scores'' (Sentinel ''json: unsupported value'')), st)
      else if \<not> finite_scores (lo_ThresholdSnapshot entry) then
        (Inl (Wrapped ''marshal moderation thresholds'' (Sentinel ''json: unsupported value'')), st)
      else let (now, st) = mod_clock st in
        (case mod_stmt (\<lambda>db. let row = entry\<lparr>lo_ID := mb_nextLog db, lo_CreatedAt := now\<rparr> in
                  (Inr row, db\<lparr>mb_logs := mb_logs db @ [row], mb_nextLog := mb_nextLog db + 1\<rparr>)) st of
           (Inl err, st) \<Rightarrow> (Inl (Wrapped ''insert content moderation log'' err), st)
         | (Inr row, st) \<Rightarrow> (Inr row, st)))"

definition last_auto_ban :: "int \<Rightarrow> ContentModerationLog list \<Rightarrow> go_time option" where
  "last_auto_ban userID logs =
     (case map lo_CreatedAt (filter (\<lambda>l. lo_UserID l = Some userID \<and> lo_AutoBanned l) logs) of
        [] \<Rightarrow> None | ts \<Rightarrow> Some (Max (set ts)))"

definition counts_for_ban :: "int \<Rightarrow> go_time \<Rightarrow> bool \<Rightarrow> ContentModerationLog list \<Rightarrow> ContentModerationLog \<Rightarrow> bool" where
  "counts_for_ban userID since excludeCyberPolicy logs l \<longleftrightarrow>
     lo_UserID l = Some userID \<and> lo_Flagged l \<and> lo_Action l \<noteq> ''hash_block'' \<and>
     (\<not> excludeCyberPolicy \<or> lo_Action l \<noteq> ''cyber_policy'') \<and> since \<le> lo_CreatedAt l \<and>
     (case last_auto_ban userID logs of None \<Rightarrow> True | Some t \<Rightarrow> t < lo_CreatedAt l)"

definition CountFlaggedByUserSince :: "int \<Rightarrow> go_time \<Rightarrow> bool \<Rightarrow> mod_state \<Rightarrow> int result \<times> mod_state" where
  "CountFlaggedByUserSince userID since excludeCyberPolicy st =
     (if userID \<le> 0 then (Inr 0, st)
      else case mod_stmt (\<lambda>db. (Inr (int (length (filter (counts_for_ban userID since excludeCyberPolicy (mb_logs db))
                    (mb_logs db)))), db)) st of
             (Inl err, st) \<Rightarrow> (Inl (Wrapped ''count user content moderation flagged logs'' err), st)
           | (Inr n, st) \<Rightarrow> (Inr n, st))"

definition RoleAdmin :: string where "RoleAdmin = ''admin''"
definition user_StatusDisabled :: string where "user_StatusDisabled = ''disabled''"

definition IsAdmin :: "mod_user \<Rightarrow> bool" where
  "IsAdmin u \<longleftrightarrow> mu_Role u = RoleAdmin"

text \<open>The two statements of the user repository that the service issues.\<close>

definition mod_GetUser :: "int \<Rightarrow> mod_state \<Rightarrow> mod_user result \<times> mod_state" where
  "mod_GetUser i = mod_stmt (\<lambda>db. (case mb_users db i of None \<Rightarrow> Inl entNotFound | Some u \<Rightarrow> Inr u, db))"

definition mod_UpdateUserStatus :: "int \<Rightarrow> string \<Rightarrow> mod_state \<Rightarrow> unit result \<times> mod_state" where
  "mod_UpdateUserStatus i status = mod_stmt (\<lambda>db. (case mb_users db i of
       None \<Rightarrow> (Inl entNotFound, db)
     | Some u \<Rightarrow> (Inr (), db\<lparr>mb_users := (mb_users db)(i \<mapsto> u\<lparr>mu_Status := status\<rparr>)\<rparr>)))"

section \<open>The consequences of a hit\<close>

definition buildLog ::
  "mod_env \<Rightarrow> ContentModerationCheckInput \<Rightarrow> ContentModerationConfig \<Rightarrow> string \<Rightarrow> bool \<Rightarrow> string \<Rightarrow> float64 \<Rightarrow>
   (string \<times> float64) list \<Rightarrow> string \<Rightarrow> int option \<Rightarrow> int option \<Rightarrow> string \<Rightarrow> ContentModerationLog" where
  "buildLog E input cfg action flagged highestCategory highestScore scores text latency queueDelay errText =
     \<lparr>lo_ID = 0, lo_RequestID = ci_RequestID input,
      lo_UserID = (if 0 < ci_UserID input then Some (ci_UserID input) else None),
      lo_UserEmail = ci_UserEmail input,
      lo_APIKeyID = (if 0 < ci_APIKeyID input then Some (ci_APIKeyID input) else None),
      lo_APIKeyName = ci_APIKeyName input, lo_PlatformID = ci_PlatformID input,
      lo_PlatformName = ci_PlatformName input, lo_Endpoint = ci_Endpoint input, lo_Provider = ci_Provider input,
      lo_Model = ci_Model input, lo_Mode = cm_Mode cfg, lo_Action = action, lo_Flagged = flagged,
      lo_HighestCategory = highestCategory, lo_HighestScore = highestScore, lo_MatchedKeyword = '''',
      lo_CategoryScores = scores, lo_ThresholdSnapshot = cm_Thresholds cfg,
      lo_InputExcerpt = trimRunes (me_redact E text) maxModerationExcerptRunes,
      lo_UpstreamLatencyMS = latency, lo_Error = errText, lo_ViolationCount = 0, lo_AutoBanned = False,
      lo_EmailSent = False, lo_QueueDelayMS = queueDelay, lo_CreatedAt = 0\<rparr>"

definition violation_count ::
  "ContentModerationConfig \<Rightarrow> int \<Rightarrow> mod_state \<Rightarrow> int \<times> mod_state" where
  "violation_count cfg userID st =
     (if 0 < cm_ViolationWindowHours cfg then
        let (now, st) = mod_clock st;
            since = now + wrap64 (- wrap64 (cm_ViolationWindowHours cfg) * hour)
        in (case CountFlaggedByUserSince userID since (cm_CyberPolicyExcludeFromBanCount cfg) st of
              (Inl _, st) \<Rightarrow> (1, st) | (Inr n, st) \<Rightarrow> (n + 1, st))
      else (1, st))"

definition ban_user :: "int \<Rightarrow> ContentModerationLog \<Rightarrow> mod_state \<Rightarrow> bool \<times> ContentModerationLog \<times> mod_state" where
  "ban_user userID entry st =
     (case mod_GetUser userID st of
        (Inl _, st) \<Rightarrow> (False, entry, st)
      | (Inr user, st) \<Rightarrow>
          if IsAdmin user then (False, entry, st)
          else if mu_Status user \<noteq> user_StatusDisabled then
            (case mod_UpdateUserStatus userID user_StatusDisabled st of
               (Inl _, st) \<Rightarrow> (False, entry, st)
             | (Inr _, st) \<Rightarrow> (True, entry\<lparr>lo_AutoBanned := True\<rparr>,
                 st\<lparr>ms_invalidated := ms_invalidated st @ [userID]\<rparr>))
          else (False, entry\<lparr>lo_AutoBanned := True\<rparr>, st))"

definition applyFlaggedAccountSideEffects ::
  "ContentModerationConfig \<Rightarrow> ContentModerationLog \<Rightarrow> mod_state \<Rightarrow> bool \<times> ContentModerationLog \<times> mod_state" where
  "applyFlaggedAccountSideEffects cfg entry st =
     (case lo_UserID entry of
        None \<Rightarrow> (False, entry, st)
      | Some userID \<Rightarrow>
          if \<not> lo_Flagged entry \<or> userID \<le> 0 then (False, entry, st)
          else let (n, st) = violation_count cfg userID st;
                   entry = entry\<lparr>lo_ViolationCount := n\<rparr>
               in if cm_AutoBanEnabled cfg \<and> 0 < cm_BanThreshold cfg \<and> cm_BanThreshold cfg \<le> n
                  then ban_user userID entry st else (False, entry, st))"

definition sendFlaggedNotificationSideEffects ::
  "mod_env \<Rightarrow> ContentModerationConfig \<Rightarrow> ContentModerationLog \<Rightarrow> bool \<Rightarrow> ContentModerationLog" where
  "sendFlaggedNotificationSideEffects E cfg entry autoBanJustApplied =
     (if \<not> lo_Flagged entry then entry
      else if TrimSpace (lo_UserEmail entry) = '''' then entry
      else entry\<lparr>lo_EmailSent :=
        (cm_EmailOnHit cfg \<and> me_violation_mail E entry) \<or> (autoBanJustApplied \<and> me_disabled_mail E entry)\<rparr>)"

definition persistContentModerationLog ::
  "mod_env \<Rightarrow> ContentModerationConfig \<Rightarrow> ContentModerationLog \<Rightarrow> string \<Rightarrow> bool \<Rightarrow> bool \<Rightarrow> mod_state \<Rightarrow> mod_state" where
  "persistContentModerationLog E cfg entry hashText recordHash applySideEffects st =
     (let st = (if recordHash then snd (RecordFlaggedInputHash hashText st) else st);
          (entry, st) =
            (if applySideEffects then
               let (banned, entry, st) = applyFlaggedAccountSideEffects cfg entry st
               in (sendFlaggedNotificationSideEffects E cfg entry banned, st)
             else (entry, st))
      in snd (CreateLog entry st))"

section \<open>Checking a request\<close>

definition normalizeContentModerationText :: "string \<Rightarrow> string" where
  "normalizeContentModerationText text = join_strings '' '' (Fields (TrimSpace text))"

definition normalizeModerationImages :: "string list \<Rightarrow> string list" where
  "normalizeModerationImages images = api_keys_loop [] images"

definition input_Normalize :: "ContentModerationInput \<Rightarrow> ContentModerationInput" where
  "input_Normalize inp = \<lparr>mi_Text = trimRunes (normalizeContentModerationText (mi_Text inp)) maxModerationInputRunes,
     mi_Images = normalizeModerationImages (mi_Images inp)\<rparr>"

definition input_IsEmpty :: "ContentModerationInput \<Rightarrow> bool" where
  "input_IsEmpty inp \<longleftrightarrow> TrimSpace (mi_Text inp) = '''' \<and> mi_Images inp = []"

definition input_Hash :: "mod_env \<Rightarrow> ContentModerationInput \<Rightarrow> string" where
  "input_Hash E inp = hexEncode (me_sha256 E (''text:'' @ mi_Text inp @
     concat (map (\<lambda>image. [CHR 0x0A] @ ''image:'' @ hexEncode (me_sha256 E image)) (mi_Images inp))))"

definition allow_decision :: ContentModerationDecision where
  "allow_decision = \<lparr>cd_Allowed = True, cd_Blocked = False, cd_Flagged = False, cd_Message = '''',
     cd_StatusCode = 0, cd_InputHash = '''', cd_HighestCategory = '''', cd_HighestScore = f_zero,
     cd_CategoryScores = [], cd_Action = ContentModerationActionAllow\<rparr>"

definition unavailable_decision :: ContentModerationDecision where
  "unavailable_decision = \<lparr>cd_Allowed = False, cd_Blocked = True, cd_Flagged = False,
     cd_Message = [CHR 0xE9, CHR 0xA3, CHR 0x8E, CHR 0xE6, CHR 0x8E, CHR 0xA7, CHR 0xE7,
              CHR 0xB3, CHR 0xBB, CHR 0xE7, CHR 0xBB, CHR 0x9F, CHR 0xE6, CHR 0x9A,
              CHR 0x82, CHR 0xE6, CHR 0x97, CHR 0xB6, CHR 0xE4, CHR 0xB8, CHR 0x8D,
              CHR 0xE5, CHR 0x8F, CHR 0xAF, CHR 0xE7, CHR 0x94, CHR 0xA8, CHR 0xEF,
              CHR 0xBC, CHR 0x8C, CHR 0xE8, CHR 0xAF, CHR 0xB7, CHR 0xE7, CHR 0xA8,
              CHR 0x8D, CHR 0xE5, CHR 0x90, CHR 0x8E, CHR 0xE9, CHR 0x87, CHR 0x8D,
              CHR 0xE8, CHR 0xAF, CHR 0x95],
     cd_StatusCode = 500, cd_InputHash = '''', cd_HighestCategory = '''', cd_HighestScore = f_zero,
     cd_CategoryScores = [], cd_Action = ContentModerationActionError\<rparr>"

text \<open>What \<open>checkSync\<close> does with the answer of the audit: the decision, and what is recorded.\<close>

definition audit_flagged :: "ContentModerationConfig \<Rightarrow> (string \<times> float64) list \<Rightarrow> bool" where
  "audit_flagged cfg scores = fst (evaluateModerationScores scores (cm_Thresholds cfg))"

definition audit_blocks :: "ContentModerationConfig \<Rightarrow> bool \<Rightarrow> (string \<times> float64) list \<Rightarrow> bool" where
  "audit_blocks cfg allowBlock scores \<longleftrightarrow>
     allowBlock \<and> audit_flagged cfg scores \<and> cm_Mode cfg = ContentModerationModePreBlock"

definition audit_action :: "ContentModerationConfig \<Rightarrow> bool \<Rightarrow> (string \<times> float64) list \<Rightarrow> string" where
  "audit_action cfg allowBlock scores =
     (if audit_blocks cfg allowBlock scores then ContentModerationActionBlock else ContentModerationActionAllow)"

definition audited_decision ::
  "ContentModerationConfig \<Rightarrow> bool \<Rightarrow> (string \<times> float64) list \<Rightarrow> ContentModerationDecision" where
  "audited_decision cfg allowBlock scores =
     (let (flagged, highestCategory, highestScore) = evaluateModerationScores scores (cm_Thresholds cfg) in
      if audit_blocks cfg allowBlock scores
      then \<lparr>cd_Allowed = False, cd_Blocked = True, cd_Flagged = True, cd_Message = cm_BlockMessage cfg,
        cd_StatusCode = cm_BlockStatus cfg, cd_InputHash = '''', cd_HighestCategory = highestCategory,
        cd_HighestScore = highestScore, cd_CategoryScores = scores, cd_Action = audit_action cfg allowBlock scores\<rparr>
      else \<lparr>cd_Allowed = True, cd_Blocked = False, cd_Flagged = flagged, cd_Message = '''',
        cd_StatusCode = 0, cd_InputHash = '''', cd_HighestCategory = highestCategory,
        cd_HighestScore = highestScore, cd_CategoryScores = scores, cd_Action = audit_action cfg allowBlock scores\<rparr>)"

definition record_audit ::
  "mod_env \<Rightarrow> ContentModerationCheckInput \<Rightarrow> ContentModerationConfig \<Rightarrow> ContentModerationInput \<Rightarrow> string \<Rightarrow>
   int option \<Rightarrow> bool \<Rightarrow> int \<Rightarrow> (string \<times> float64) list \<Rightarrow> mod_state \<Rightarrow> mod_state" where
  "record_audit E input cfg content hashText queueDelay allowBlock latency scores st =
     (let (flagged, highestCategory, highestScore) = evaluateModerationScores scores (cm_Thresholds cfg) in
      if flagged \<or> cm_RecordNonHits cfg then
        let entry = buildLog E input cfg (audit_action cfg allowBlock scores) flagged highestCategory highestScore
              scores (mi_Text content) (Some latency) queueDelay ''''
        in if queueDelay = None \<and> cm_Mode cfg = ContentModerationModePreBlock
           then enqueueRecord input cfg entry hashText flagged flagged st
           else persistContentModerationLog E cfg entry hashText flagged flagged st
      else st)"

definition record_audit_failure ::
  "mod_env \<Rightarrow> ContentModerationCheckInput \<Rightarrow> ContentModerationConfig \<Rightarrow> ContentModerationInput \<Rightarrow>
   int option \<Rightarrow> int \<Rightarrow> go_error \<Rightarrow> mod_state \<Rightarrow> mod_state" where
  "record_audit_failure E input cfg content queueDelay latency err st =
     (let st = (if queueDelay \<noteq> None then st\<lparr>ms_asyncErrors := ms_asyncErrors st + 1\<rparr> else st)
      in if cm_RecordNonHits cfg then snd (CreateLog (buildLog E input cfg ContentModerationActionError
           False '''' f_zero [] (mi_Text content) (Some latency) queueDelay (me_error_text E err)) st)
         else st)"

definition checkSync ::
  "mod_env \<Rightarrow> ContentModerationCheckInput \<Rightarrow> ContentModerationConfig \<Rightarrow> ContentModerationInput \<Rightarrow> string \<Rightarrow>
   int option \<Rightarrow> bool \<Rightarrow> mod_state \<Rightarrow> ContentModerationDecision \<times> mod_state" where
  "checkSync E input cfg content hashText queueDelay allowBlock st =
     (let trackPreBlock = (queueDelay = None \<and> allowBlock \<and> cm_Mode cfg = ContentModerationModePreBlock);
          active = (\<lambda>n st. if trackPreBlock then st\<lparr>ms_preBlockActive := ms_preBlockActive st + n\<rparr> else st);
          metric = (\<lambda>latency action st. if trackPreBlock then recordPreBlockSyncMetric latency action st else st);
          (start, st) = mod_clock (active 1 st);
          (result, st) = callModeration E cfg (ModerationInput E (ms_auditCalls st) content) trackPreBlock st;
          (stop, st) = mod_clock st;
          latency = millis_between start stop
      in case result of
           Inl err \<Rightarrow>
             (allow_decision, active (- 1) (record_audit_failure E input cfg content queueDelay latency err
                (metric latency ContentModerationActionError st)))
         | Inr scores \<Rightarrow>
             (audited_decision cfg allowBlock scores,
              active (- 1) (record_audit E input cfg content hashText queueDelay allowBlock latency scores
                (metric latency (audit_action cfg allowBlock scores) st))))"

text \<open>The stages of \<open>Check\<close>: the keyword stage, the hash stage, and the audit.\<close>

definition keyword_block ::
  "mod_env \<Rightarrow> ContentModerationCheckInput \<Rightarrow> ContentModerationConfig \<Rightarrow> ContentModerationInput \<Rightarrow> string \<Rightarrow> string \<Rightarrow>
   mod_state \<Rightarrow> ContentModerationDecision \<times> mod_state" where
  "keyword_block E input cfg content hashText keyword st =
     (let st = recordPreBlockSyncMetric 0 ContentModerationActionKeywordBlock st;
          scores = [(contentModerationKeywordCategory, Fin 1)];
          entry = (buildLog E input cfg ContentModerationActionKeywordBlock True contentModerationKeywordCategory
            (Fin 1) scores (mi_Text content) None None '''')\<lparr>lo_MatchedKeyword := keyword\<rparr>
      in (\<lparr>cd_Allowed = False, cd_Blocked = True, cd_Flagged = True, cd_Message = cm_BlockMessage cfg,
            cd_StatusCode = cm_BlockStatus cfg, cd_InputHash = '''', cd_HighestCategory = contentModerationKeywordCategory,
            cd_HighestScore = Fin 1, cd_CategoryScores = scores, cd_Action = ContentModerationActionKeywordBlock\<rparr>,
          enqueueRecord input cfg entry hashText False True st))"

definition hash_block ::
  "mod_env \<Rightarrow> ContentModerationCheckInput \<Rightarrow> ContentModerationConfig \<Rightarrow> ContentModerationInput \<Rightarrow> string \<Rightarrow>
   mod_state \<Rightarrow> ContentModerationDecision \<times> mod_state" where
  "hash_block E input cfg content hashText st =
     (let st = (if cm_Mode cfg = ContentModerationModePreBlock
                then recordPreBlockSyncMetric 0 ContentModerationActionHashBlock st else st);
          message = (if cm_BlockMessage cfg \<noteq> '''' then cm_BlockMessage cfg @
            [CHR 0xEF, CHR 0xBC, CHR 0x88] @ ''hash: '' @ hashText @ [CHR 0xEF, CHR 0xBC, CHR 0x89] else cm_BlockMessage cfg);
          entry = buildLog E input cfg ContentModerationActionHashBlock True ''hash'' (Fin 1) [(''hash'', Fin 1)]
            (mi_Text content) None None ''''
      in (\<lparr>cd_Allowed = False, cd_Blocked = True, cd_Flagged = True, cd_Message = message,
            cd_StatusCode = cm_BlockStatus cfg, cd_InputHash = hashText, cd_HighestCategory = '''',
            cd_HighestScore = f_zero, cd_CategoryScores = [], cd_Action = ContentModerationActionHashBlock\<rparr>,
          enqueueRecord input cfg entry hashText False False st))"

definition check_audit ::
  "mod_env \<Rightarrow> ContentModerationCheckInput \<Rightarrow> ContentModerationConfig \<Rightarrow> ContentModerationInput \<Rightarrow> string \<Rightarrow>
   mod_state \<Rightarrow> ContentModerationDecision \<times> mod_state" where
  "check_audit E input cfg content hashText st =
     (let metric = (\<lambda>action st. if cm_Mode cfg = ContentModerationModePreBlock
            then recordPreBlockSyncMetric 0 action st else st)
      in if \<not> shouldSample cfg hashText then (allow_decision, metric ContentModerationActionAllow st)
         else if config_apiKeys cfg = [] then (allow_decision, metric ContentModerationActionError st)
         else if cm_Mode cfg = ContentModerationModeObserve then
           (allow_decision, enqueueAsync input cfg content hashText st)
         else checkSync E input cfg content hashText None True st)"

definition check_hash ::
  "mod_env \<Rightarrow> ContentModerationCheckInput \<Rightarrow> ContentModerationConfig \<Rightarrow> ContentModerationInput \<Rightarrow> string \<Rightarrow>
   mod_state \<Rightarrow> ContentModerationDecision \<times> mod_state" where
  "check_hash E input cfg content hashText st =
     (if cm_PreHashCheckEnabled cfg then
        (case HasFlaggedInputHash hashText st of
           (Inr True, st) \<Rightarrow> hash_block E input cfg content hashText st
         | (_, st) \<Rightarrow> check_audit E input cfg content hashText st)
      else check_audit E input cfg content hashText st)"

definition check_content ::
  "mod_env \<Rightarrow> ContentModerationCheckInput \<Rightarrow> contentModerationRuntimeSnapshot \<Rightarrow> ContentModerationInput \<Rightarrow>
   mod_state \<Rightarrow> ContentModerationDecision \<times> mod_state" where
  "check_content E input snapshot content st =
     (let cfg = rs_config snapshot; hashText = input_Hash E content in
      if cm_Mode cfg = ContentModerationModePreBlock then
        let (keyword, hit) =
              (if cm_KeywordBlockingMode cfg \<noteq> ContentModerationKeywordModeAPIOnly \<and> cm_BlockedKeywords cfg \<noteq> []
               then snapshot_matchBlockedKeyword (me_unicode E) snapshot (mi_Text content) else ('''', False))
        in if hit then keyword_block E input cfg content hashText keyword st
           else if cm_KeywordBlockingMode cfg = ContentModerationKeywordModeKeywordOnly
           then (allow_decision, recordPreBlockSyncMetric 0 ContentModerationActionAllow st)
           else check_hash E input cfg content hashText st
      else check_hash E input cfg content hashText st)"

definition mod_Check ::
  "mod_env \<Rightarrow> ContentModerationCheckInput \<Rightarrow> mod_state \<Rightarrow> ContentModerationDecision \<times> mod_state" where
  "mod_Check E input st =
     (case loadRuntimeSnapshot E st of
        (Inl _, st) \<Rightarrow> (unavailable_decision, st)
      | (Inr snapshot, st) \<Rightarrow>
          let cfg = rs_config snapshot in
          if \<not> rs_riskControlEnabled snapshot then (allow_decision, st)
          else if \<not> cm_Enabled cfg then (allow_decision, st)
          else if cm_Mode cfg = ContentModerationModeOff then (allow_decision, st)
          else if \<not> includesPlatform cfg (ci_PlatformID input) then (allow_decision, st)
          else if \<not> includesModel (me_unicode E) cfg (ci_Model input) then (allow_decision, st)
          else let content = me_extract E (ci_Protocol input) (ci_Body input) in
            if input_IsEmpty content then (allow_decision, st)
            else check_content E input snapshot (input_Normalize content) st)"

section \<open>The workers\<close>

definition process_task ::
  "mod_env \<Rightarrow> ContentModerationConfig \<Rightarrow> contentModerationTask \<Rightarrow> mod_state \<Rightarrow> mod_state" where
  "process_task E cfg task st =
     (case ta_log task of
        Some entry \<Rightarrow>
          let st = st\<lparr>ms_asyncActive := ms_asyncActive st + 1\<rparr>;
              (now, st) = mod_clock st;
              entry = entry\<lparr>lo_QueueDelayMS := Some (millis_between (ta_enqueuedAt task) now)\<rparr>;
              st = persistContentModerationLog E (given (ta_config task) cfg) entry (ta_inputHash task)
                     (ta_recordHash task) (ta_applySideEffects task) st
          in st\<lparr>ms_asyncProcessed := ms_asyncProcessed st + 1, ms_asyncActive := ms_asyncActive st - 1\<rparr>
      | None \<Rightarrow>
          if \<not> cm_Enabled cfg \<or> cm_Mode cfg = ContentModerationModeOff \<or> config_apiKeys cfg = [] then st
          else if \<not> includesPlatform cfg (ci_PlatformID (ta_input task)) then st
          else if \<not> includesModel (me_unicode E) cfg (ci_Model (ta_input task)) then st
          else let st = st\<lparr>ms_asyncActive := ms_asyncActive st + 1\<rparr>;
                   (now, st) = mod_clock st;
                   st = snd (checkSync E (ta_input task) cfg (ta_content task) (ta_inputHash task)
                          (Some (millis_between (ta_enqueuedAt task) now)) False st)
               in st\<lparr>ms_asyncProcessed := ms_asyncProcessed st + 1, ms_asyncActive := ms_asyncActive st - 1\<rparr>)"

definition worker_step :: "mod_env \<Rightarrow> int \<Rightarrow> mod_state \<Rightarrow> mod_state" where
  "worker_step E worker st =
     (case loadRuntimeSnapshot E st of
        (Inl _, st) \<Rightarrow> st
      | (Inr snapshot, st) \<Rightarrow>
          if cm_WorkerCount (rs_config snapshot) \<le> worker then st
          else (case ms_asyncQueue st of
              [] \<Rightarrow> st
            | task # queue \<Rightarrow> process_task E (rs_config snapshot) task (st\<lparr>ms_asyncQueue := queue\<rparr>)))"

end
