(* ===== verification/Keyword_Trie.thy ===== *)
theory Keyword_Trie
  imports Keyword_Matcher
begin

text \<open>
  The first half of the construction in \<open>content_moderation_keyword_matcher.go\<close>: the trie. The
  invariant \<open>trie_shape\<close> relates the slices of nodes and edges to the list \<open>ws\<close> of the words that the
  nodes stand for; inserting a keyword keeps it, and records at the node of every keyword the first
  index at which that keyword is listed.
\<close>

section \<open>Chains of siblings\<close>

definition edges_ok :: "build_edge list \<Rightarrow> bool" where
  "edges_ok es \<longleftrightarrow> (\<forall>j < length es. kb_nextSibling (es ! j) < int j)"

lemma edges_okD: "edges_ok es \<Longrightarrow> 0 \<le> i \<Longrightarrow> i < int (length es) \<Longrightarrow> kb_nextSibling (es ! nat i) < i"
  unfolding edges_ok_def by (metis nat_less_iff nat_0_le)

lemma edge_chain_fuel:
  assumes "edges_ok es" "i < int (length es)" "nat (i + 1) \<le> n"
  shows "edge_chain n es i = edge_chain (nat (i + 1)) es i"
  using assms(2,3)
proof (induction n arbitrary: i rule: less_induct)
  case (less n)
  show ?case
  proof (cases "i < 0")
    case True
    then show ?thesis by (cases n) auto
  next
    case False
    then obtain m where n: "n = Suc m" using less.prems by (cases n) auto
    let ?k = "kb_nextSibling (es ! nat i)"
    have k: "?k < i" using edges_okD [OF assms(1)] False less.prems by simp
    have "edge_chain m es ?k = edge_chain (nat (?k + 1)) es ?k"
      using less.IH [of m ?k] k less.prems False by (simp add: n)
    moreover have "edge_chain (nat i) es ?k = edge_chain (nat (?k + 1)) es ?k"
      using less.IH [of "nat i" ?k] k less.prems False by (simp add: n)
    moreover have "nat (i + 1) = Suc (nat i)" using False by simp
    ultimately show ?thesis using False by (simp add: n)
  qed
qed

definition chain :: "build_edge list \<Rightarrow> int \<Rightarrow> build_edge list" where
  "chain es i = edge_chain (nat (i + 1)) es i"

lemma chain_neg [simp]: "i < 0 \<Longrightarrow> chain es i = []"
  by (cases "nat (i + 1)") (auto simp: chain_def)

lemma chain_unfold:
  assumes "edges_ok es" "0 \<le> i" "i < int (length es)"
  shows "chain es i = es ! nat i # chain es (kb_nextSibling (es ! nat i))"
proof -
  have "nat (i + 1) = Suc (nat i)" using assms by simp
  then show ?thesis
    using edge_chain_fuel [OF assms(1), of "kb_nextSibling (es ! nat i)" "nat i"]
      edges_okD [OF assms] assms by (simp add: chain_def)
qed

lemma chain_append:
  assumes "edges_ok (es @ fs)" "edges_ok es" "i < int (length es)"
  shows "chain (es @ fs) i = chain es i"
  using assms(3)
proof (induction "nat (i + 1)" arbitrary: i rule: less_induct)
  case less
  show ?case
  proof (cases "i < 0")
    case False
    then show ?thesis
      using less edges_okD [OF assms(2), of i] assms
      by (simp add: chain_unfold [of _ i] nth_append)
  qed simp
qed

lemma edges_ok_snoc: "edges_ok (es @ [e]) \<longleftrightarrow> edges_ok es \<and> kb_nextSibling e < int (length es)"
  by (auto simp: edges_ok_def nth_append less_Suc_eq)

section \<open>The shape of the trie\<close>

definition node_ok :: "keyword_node list \<Rightarrow> build_edge list \<Rightarrow> string list \<Rightarrow> nat \<Rightarrow> bool" where
  "node_ok nodes es ws s \<longleftrightarrow>
     0 \<le> kn_edgeStart (nodes ! s) \<and> kn_edgeStart (nodes ! s) \<le> int (length es) \<and>
     distinct (map kb_label (chain es (BuildFirstEdge (nodes ! s)))) \<and>
     (\<lambda>e. (kb_label e, kb_target e)) ` set (chain es (BuildFirstEdge (nodes ! s)))
       = {(l, int t) |l t. t < length ws \<and> ws ! t = ws ! s @ [l]}"

definition trie_shape :: "keyword_node list \<Rightarrow> build_edge list \<Rightarrow> string list \<Rightarrow> bool" where
  "trie_shape nodes es ws \<longleftrightarrow>
     edges_ok es \<and> length nodes = length ws \<and> ws \<noteq> [] \<and> ws ! 0 = [] \<and> distinct ws \<and>
     (\<forall>s < length ws. node_ok nodes es ws s)"

lemma out_edges_chain:
  assumes "trie_shape nodes es ws" "s < length ws"
  shows "out_edges nodes es (int s) = chain es (BuildFirstEdge (nodes ! s))"
  using assms edge_chain_fuel [of es "BuildFirstEdge (nodes ! s)" "length es"]
  by (auto simp: out_edges_def chain_def trie_shape_def node_ok_def BuildFirstEdge_def)

lemma out_edges_distinct:
  "trie_shape nodes es ws \<Longrightarrow> s < length ws \<Longrightarrow> distinct (map kb_label (out_edges nodes es (int s)))"
  by (simp add: out_edges_chain) (simp add: trie_shape_def node_ok_def)

lemma out_edges_image:
  "trie_shape nodes es ws \<Longrightarrow> s < length ws \<Longrightarrow>
   (\<lambda>e. (kb_label e, kb_target e)) ` set (out_edges nodes es (int s))
     = {(l, int t) |l t. t < length ws \<and> ws ! t = ws ! s @ [l]}"
  by (simp add: out_edges_chain) (simp add: trie_shape_def node_ok_def)

lemma out_edge_target:
  assumes "trie_shape nodes es ws" "s < length ws" "e \<in> set (out_edges nodes es (int s))"
  obtains t where "kb_target e = int t" "t < length ws" "ws ! t = ws ! s @ [kb_label e]"
proof -
  have "(kb_label e, kb_target e) \<in> {(l, int t) |l t. t < length ws \<and> ws ! t = ws ! s @ [l]}"
    using out_edges_image [OF assms(1,2)] assms(3) by blast
  then show thesis using that by blast
qed

section \<open>The node of a word\<close>

definition node_of :: "string list \<Rightarrow> string \<Rightarrow> int" where
  "node_of ws w = first_index (\<lambda>t. ws ! t = w) (length ws)"

lemma node_of_eq:
  assumes "distinct ws" "t < length ws" "ws ! t = w"
  shows "node_of ws w = int t"
proof -
  have "find (\<lambda>i. ws ! i = w) [0..<length ws] = Some t"
    using assms by (auto simp: find_Some_iff nth_eq_iff_index_eq intro!: exI [of _ t])
  then show ?thesis by (simp add: node_of_def first_index_def)
qed

lemma node_of_absent: "w \<notin> set ws \<Longrightarrow> node_of ws w = - 1"
  unfolding node_of_def by (subst first_index_cong [of _ _ "\<lambda>i. False"]) (auto dest: nth_mem)

lemma node_of_Nil [simp]: "trie_shape nodes es ws \<Longrightarrow> node_of ws [] = 0"
  using node_of_eq [of ws 0] by (auto simp: trie_shape_def)

lemma node_ofE:
  assumes "trie_shape nodes es ws" "w \<in> set ws"
  obtains t where "node_of ws w = int t" "t < length ws" "ws ! t = w"
  using assms node_of_eq [of ws] by (metis in_set_conv_nth trie_shape_def)

lemma node_of_nth [simp]: "trie_shape nodes es ws \<Longrightarrow> t < length ws \<Longrightarrow> node_of ws (ws ! t) = int t"
  using node_of_eq [of ws t] by (simp add: trie_shape_def)

lemma BuildTransition_spec:
  assumes "trie_shape nodes es ws" "s < length ws"
  shows "BuildTransition nodes es (int s) l = node_of ws (ws ! s @ [l])"
proof (cases "find (\<lambda>e. kb_label e = l) (out_edges nodes es (int s))")
  case None
  have "ws ! s @ [l] \<notin> set ws"
  proof
    assume "ws ! s @ [l] \<in> set ws"
    then obtain t where "(l, int t) \<in> (\<lambda>e. (kb_label e, kb_target e)) ` set (out_edges nodes es (int s))"
      using out_edges_image [OF assms] by (auto simp: in_set_conv_nth)
    then show False using None by (auto simp: find_None_iff)
  qed
  then show ?thesis using None assms by (simp add: BuildTransition_def trie_shape_def node_of_absent)
next
  case (Some e)
  then have "e \<in> set (out_edges nodes es (int s))" "kb_label e = l"
    by (auto simp: find_Some_iff)
  then obtain t where "kb_target e = int t" "t < length ws" "ws ! t = ws ! s @ [l]"
    using out_edge_target [OF assms] by metis
  then show ?thesis
    using Some assms node_of_eq [of ws t] by (simp add: BuildTransition_def trie_shape_def)
qed

section \<open>Inserting a byte\<close>

lemma BuildFirstEdge_less:
  "trie_shape nodes es ws \<Longrightarrow> s < length ws \<Longrightarrow> BuildFirstEdge (nodes ! s) < int (length es)"
  by (auto simp: trie_shape_def node_ok_def BuildFirstEdge_def)

lemma BuildFirstEdge_edgeStart:
  "0 \<le> k \<Longrightarrow> BuildFirstEdge (n\<lparr>kn_edgeStart := k + 1\<rparr>) = k"
  by (simp add: BuildFirstEdge_def)

lemma BuildFirstEdge_new [simp]: "BuildFirstEdge newKeywordNode = - 1"
  by (simp add: BuildFirstEdge_def newKeywordNode_def)

lemma chain_push:
  assumes "edges_ok es" "kb_nextSibling e < int (length es)"
  shows "chain (es @ [e]) (int (length es)) = e # chain es (kb_nextSibling e)"
  using assms chain_unfold [of "es @ [e]" "int (length es)"] chain_append [of es "[e]"]
  by (simp add: edges_ok_snoc)

text \<open>The parent of a new node, the other old nodes, and the new node.\<close>

lemma node_ok_parent:
  assumes ok: "node_ok nodes es ws s" and s: "s < length ws" and new: "ws ! s @ [l] \<notin> set ws"
    and e: "kb_label e = l" "kb_target e = int (length ws)"
    and n: "kn_edgeStart (nodes' ! s) = int (length es) + 1"
    and ch: "chain (es @ [e]) (int (length es)) = e # chain es (BuildFirstEdge (nodes ! s))"
  shows "node_ok nodes' (es @ [e]) (ws @ [ws ! s @ [l]]) s"
proof -
  let ?old = "chain es (BuildFirstEdge (nodes ! s))" and ?ws = "ws @ [ws ! s @ [l]]"
  have im: "(\<lambda>e. (kb_label e, kb_target e)) ` set ?old = {(l, int t) |l t. t < length ws \<and> ws ! t = ws ! s @ [l]}"
    using ok by (simp add: node_ok_def)
  have "l \<notin> kb_label ` set ?old"
  proof
    assume "l \<in> kb_label ` set ?old"
    then obtain x where "(l, x) \<in> {(l, int t) |l t. t < length ws \<and> ws ! t = ws ! s @ [l]}"
      unfolding im [symmetric] by auto
    then show False using new nth_mem by force
  qed
  then have "distinct (map kb_label (e # ?old))"
    using ok e by (simp add: node_ok_def)
  moreover have "(\<lambda>e. (kb_label e, kb_target e)) ` set (e # ?old)
      = {(l, int t) |l t. t < length ?ws \<and> ?ws ! t = ?ws ! s @ [l]}"
  proof -
    have "{(l, int t) |l t. t < length ?ws \<and> ?ws ! t = ?ws ! s @ [l]}
        = insert (l, int (length ws)) {(l, int t) |l t. t < length ws \<and> ws ! t = ws ! s @ [l]}"
      using s by (auto simp: nth_append less_Suc_eq) force
    then show ?thesis using im e by simp
  qed
  ultimately show ?thesis
    using n ch by (simp add: node_ok_def BuildFirstEdge_def)
qed

lemma node_ok_other:
  assumes "node_ok nodes es ws i" "i < length ws" "ws ! i \<noteq> u" "nodes' ! i = nodes ! i"
    and "chain (es @ [e]) (BuildFirstEdge (nodes ! i)) = chain es (BuildFirstEdge (nodes ! i))"
  shows "node_ok nodes' (es @ [e]) (ws @ [u @ [l]]) i"
proof -
  let ?ws = "ws @ [u @ [l]]"
  have "{(l, int t) |l t. t < length ?ws \<and> ?ws ! t = ?ws ! i @ [l]}
      = {(l, int t) |l t. t < length ws \<and> ws ! t = ws ! i @ [l]}"
    using assms(2,3) by (auto simp: nth_append less_Suc_eq)
  then show ?thesis using assms by (simp add: node_ok_def)
qed

lemma node_ok_fresh:
  assumes "nodes' ! length ws = newKeywordNode" "w \<notin> set ws" "\<And>u l. u @ [l] \<in> set ws \<Longrightarrow> u \<in> set ws"
  shows "node_ok nodes' es (ws @ [w]) (length ws)"
proof -
  have "{(l, int t) |l t. t < length (ws @ [w]) \<and> (ws @ [w]) ! t = (ws @ [w]) ! length ws @ [l]} = {}"
    using assms(2,3) nth_mem by (fastforce simp: nth_append less_Suc_eq)
  then show ?thesis
    unfolding node_ok_def assms(1) BuildFirstEdge_new by (simp only: chain_neg) (simp add: newKeywordNode_def)
qed

lemma trie_shape_grow:
  fixes nodes es ws s l
  defines "e \<equiv> \<lparr>kb_target = int (length ws), kb_nextSibling = BuildFirstEdge (nodes ! s), kb_label = l\<rparr>"
  defines "nodes' \<equiv> (nodes @ [newKeywordNode])[s := (nodes ! s)\<lparr>kn_edgeStart := int (length es) + 1\<rparr>]"
  assumes sh: "trie_shape nodes es ws" and s: "s < length ws"
    and new: "ws ! s @ [l] \<notin> set ws"
    and pref: "\<And>u l. u @ [l] \<in> set ws \<Longrightarrow> u \<in> set ws"
  shows "trie_shape nodes' (es @ [e]) (ws @ [ws ! s @ [l]])"
proof -
  have len: "length nodes = length ws" and eok: "edges_ok es" and d: "distinct ws"
    and ok: "\<And>i. i < length ws \<Longrightarrow> node_ok nodes es ws i"
    using sh by (auto simp: trie_shape_def)
  have eok': "edges_ok (es @ [e])"
    using eok BuildFirstEdge_less [OF sh s] by (simp add: edges_ok_snoc e_def)
  have "node_ok nodes' (es @ [e]) (ws @ [ws ! s @ [l]]) i" if i: "i < Suc (length ws)" for i
  proof -
    consider "i = s" | "i \<noteq> s" "i < length ws" | "i = length ws" using i by fastforce
    then show ?thesis
    proof cases
      case 1
      have "chain (es @ [e]) (int (length es)) = e # chain es (BuildFirstEdge (nodes ! s))"
        using chain_push [OF eok, of e] BuildFirstEdge_less [OF sh s] by (simp add: e_def)
      then show ?thesis
        unfolding 1 by (intro node_ok_parent [OF ok [OF s] s new]) (use s len in \<open>auto simp: nodes'_def e_def\<close>)
    next
      case 2
      then have "nodes' ! i = nodes ! i" "ws ! i \<noteq> ws ! s"
        using len s d by (auto simp: nodes'_def nth_append nth_eq_iff_index_eq)
      then show ?thesis
        using 2 by (intro node_ok_other [OF ok] chain_append [OF eok' eok BuildFirstEdge_less [OF sh]])
    next
      case 3
      have "nodes' ! length ws = newKeywordNode" using s len by (simp add: nodes'_def nth_append)
      then show ?thesis unfolding 3 using new pref by (rule node_ok_fresh)
    qed
  qed
  then show ?thesis
    using sh new eok' len by (simp add: trie_shape_def nodes'_def nth_append)
qed

section \<open>Inserting the keywords\<close>

lemma BuildFirstEdge_cong: "kn_edgeStart m = kn_edgeStart n \<Longrightarrow> BuildFirstEdge m = BuildFirstEdge n"
  by (simp add: BuildFirstEdge_def)

text \<open>The shape depends on the edges of the nodes only.\<close>

lemma trie_shape_edgeStart:
  assumes "trie_shape nodes es ws" "map kn_edgeStart nodes' = map kn_edgeStart nodes"
  shows "trie_shape nodes' es ws"
proof -
  have len: "length nodes' = length nodes" using assms(2) by (rule map_eq_imp_length_eq)
  have "kn_edgeStart (nodes' ! i) = kn_edgeStart (nodes ! i)" if "i < length nodes" for i
    using assms(2) that len by (metis nth_map)
  then have "node_ok nodes' es ws i" if "i < length ws" for i
    using assms(1) that BuildFirstEdge_cong [of "nodes' ! i" "nodes ! i"]
    by (simp add: trie_shape_def node_ok_def)
  then show ?thesis using assms(1) len by (simp add: trie_shape_def)
qed

definition trie_inv ::
  "keyword_node list \<Rightarrow> build_edge list \<Rightarrow> string list \<Rightarrow> string list \<Rightarrow> (string \<Rightarrow> int) \<Rightarrow> bool" where
  "trie_inv nodes es ws ps b \<longleftrightarrow>
     trie_shape nodes es ws \<and> set ws = node_words ps \<and>
     (\<forall>s < length ws. kn_failure (nodes ! s) = 0 \<and> kn_bestKeyword (nodes ! s) = b (ws ! s)) \<and>
     (\<forall>w. w \<notin> set ws \<longrightarrow> b w = - 1)"

lemma insert_label_inv:
  assumes I: "trie_inv nodes es ws (ps @ [u]) b" and s: "s < length ws" "ws ! s = u"
  shows "\<exists>nodes' es' ws' s'. insert_label (nodes, es, int s) l = (nodes', es', int s') \<and>
    trie_inv nodes' es' ws' (ps @ [u @ [l]]) b \<and> s' < length ws' \<and> ws' ! s' = u @ [l]"
proof -
  have sh: "trie_shape nodes es ws" and W: "set ws = node_words (ps @ [u])" and len: "length nodes = length ws"
    using I by (auto simp: trie_inv_def trie_shape_def)
  have bt: "BuildTransition nodes es (int s) l = node_of ws (u @ [l])"
    using BuildTransition_spec [OF sh s(1)] s by simp
  show ?thesis
  proof (cases "u @ [l] \<in> set ws")
    case True
    then obtain t where t: "node_of ws (u @ [l]) = int t" "t < length ws" "ws ! t = u @ [l]"
      using node_ofE [OF sh] by metis
    moreover have "trie_inv nodes es ws (ps @ [u @ [l]]) b"
      using I True by (auto simp: trie_inv_def node_words_snoc insert_absorb)
    ultimately show ?thesis
      by (intro exI [of _ nodes] exI [of _ es] exI [of _ ws] exI [of _ t]) (simp add: insert_label_def bt)
  next
    case False
    let ?nodes = "(nodes @ [newKeywordNode])[s := (nodes ! s)\<lparr>kn_edgeStart := int (length es) + 1\<rparr>]"
    let ?e = "\<lparr>kb_target = int (length ws), kb_nextSibling = BuildFirstEdge (nodes ! s), kb_label = l\<rparr>"
    have "trie_shape ?nodes (es @ [?e]) (ws @ [u @ [l]])"
      using trie_shape_grow [OF sh s(1), of l] False s(2) W nw.word_butlast by simp
    then have "trie_inv ?nodes (es @ [?e]) (ws @ [u @ [l]]) (ps @ [u @ [l]]) b"
      using I False len s unfolding trie_inv_def node_words_snoc
      by (auto simp: nth_append nth_list_update newKeywordNode_def less_Suc_eq)
    moreover have "insert_label (nodes, es, int s) l = (?nodes, es @ [?e], int (length ws))"
      using False s len by (simp add: insert_label_def bt node_of_absent nth_append add.commute Let_def)
    ultimately show ?thesis
      by (intro exI [of _ ?nodes] exI [of _ "es @ [?e]"] exI [of _ "ws @ [u @ [l]]"] exI [of _ "length ws"])
        (simp add: nth_append)
  qed
qed

lemma insert_labels_inv:
  assumes "trie_inv nodes es ws (ps @ [u]) b" "s < length ws" "ws ! s = u"
  shows "\<exists>nodes' es' ws' s'. foldl insert_label (nodes, es, int s) v = (nodes', es', int s') \<and>
    trie_inv nodes' es' ws' (ps @ [u @ v]) b \<and> s' < length ws' \<and> ws' ! s' = u @ v"
  using assms
proof (induction v arbitrary: nodes es ws s u)
  case Nil
  then show ?case by auto
next
  case (Cons l v)
  obtain nodes' es' ws' s' where 1: "insert_label (nodes, es, int s) l = (nodes', es', int s')"
    and 2: "trie_inv nodes' es' ws' (ps @ [u @ [l]]) b" "s' < length ws'" "ws' ! s' = u @ [l]"
    using insert_label_inv [OF Cons.prems] by blast
  show ?case using Cons.IH [OF 2] by (simp add: 1)
qed

lemma insert_keyword_inv:
  assumes I: "trie_inv nodes es ws ps b" and k: "k \<noteq> ''''"
  shows "\<exists>nodes' es' ws'. insert_keyword U (nodes, es) (i, k) = (nodes', es') \<and>
    trie_inv nodes' es' ws' (ps @ [ToLower U k])
      (b(ToLower U k := if b (ToLower U k) < 0 \<or> int i < b (ToLower U k) then int i else b (ToLower U k)))"
proof -
  have "trie_inv nodes es ws (ps @ [[]]) b" "0 < length ws" "ws ! 0 = []"
    using I by (auto simp: trie_inv_def trie_shape_def)
  from insert_labels_inv [OF this, of "ToLower U k"]
  obtain nodes' es' ws' s where f: "foldl insert_label (nodes, es, 0) (ToLower U k) = (nodes', es', int s)"
    and I': "trie_inv nodes' es' ws' (ps @ [ToLower U k]) b" and s: "s < length ws'" "ws' ! s = ToLower U k"
    by auto
  let ?p = "ToLower U k" and ?nodes = "nodes'[s := (nodes' ! s)\<lparr>kn_bestKeyword := int i\<rparr>]"
  have b: "kn_bestKeyword (nodes' ! s) = b ?p" and len: "length nodes' = length ws'" and d: "distinct ws'"
    and p: "?p \<in> set ws'"
    using I' s nth_mem by (auto simp: trie_inv_def trie_shape_def)
  have "trie_shape ?nodes es' ws'"
  proof (rule trie_shape_edgeStart)
    show "trie_shape nodes' es' ws'" using I' by (simp add: trie_inv_def)
    show "map kn_edgeStart ?nodes = map kn_edgeStart nodes'"
      using s len by (intro nth_equalityI) (simp_all add: nth_list_update)
  qed
  moreover have "ws' ! j = ?p \<longleftrightarrow> j = s" if "j < length ws'" for j
    using that s d nth_eq_iff_index_eq by metis
  ultimately have "trie_inv ?nodes es' ws' (ps @ [?p]) (b(?p := int i))"
    using I' s len p by (auto simp: trie_inv_def nth_list_update)
  then show ?thesis
    using I' k f b by (auto simp: insert_keyword_def)
qed

section \<open>The finished trie\<close>

definition patterns :: "unicode_tables \<Rightarrow> string list \<Rightarrow> string list" where
  "patterns U keywords = map (ToLower U) (filter (\<lambda>k. k \<noteq> '''') keywords)"

definition key_index :: "unicode_tables \<Rightarrow> string list \<Rightarrow> (string \<Rightarrow> bool) \<Rightarrow> int" where
  "key_index U keywords Q =
     first_index (\<lambda>j. keywords ! j \<noteq> '''' \<and> Q (ToLower U (keywords ! j))) (length keywords)"

lemma key_index_Nil [simp]: "key_index U [] Q = - 1"
  by (simp add: key_index_def)

lemma key_index_snoc:
  "key_index U (ks @ [k]) Q =
     (if 0 \<le> key_index U ks Q then key_index U ks Q
      else if k \<noteq> '''' \<and> Q (ToLower U k) then int (length ks) else - 1)"
proof -
  have "first_index (\<lambda>j. (ks @ [k]) ! j \<noteq> '''' \<and> Q (ToLower U ((ks @ [k]) ! j))) (length ks) = key_index U ks Q"
    unfolding key_index_def by (rule first_index_cong) (simp add: nth_append)
  then show ?thesis by (simp add: key_index_def [of U "ks @ [k]"] first_index_Suc)
qed

lemma key_index_range: "- 1 \<le> key_index U ks Q \<and> key_index U ks Q < int (length ks)"
  by (simp add: key_index_def first_index_range)

lemma key_index_cong:
  assumes "\<And>p. p \<in> set (patterns U ks) \<Longrightarrow> P p \<longleftrightarrow> Q p"
  shows "key_index U ks P = key_index U ks Q"
  unfolding key_index_def by (rule first_index_cong) (use assms in \<open>auto simp: patterns_def\<close>)

lemma key_index_update:
  "(\<lambda>w. key_index U (ks @ [k]) (\<lambda>p. p = w)) =
     (if k = '''' then (\<lambda>w. key_index U ks (\<lambda>p. p = w))
      else let b = (\<lambda>w. key_index U ks (\<lambda>p. p = w)); p = ToLower U k in
        b(p := if b p < 0 \<or> int (length ks) < b p then int (length ks) else b p))"
proof (rule ext)
  fix w
  show "key_index U (ks @ [k]) (\<lambda>p. p = w) = (if k = '''' then (\<lambda>w. key_index U ks (\<lambda>p. p = w))
      else let b = (\<lambda>w. key_index U ks (\<lambda>p. p = w)); p = ToLower U k in
        b(p := if b p < 0 \<or> int (length ks) < b p then int (length ks) else b p)) w"
    using key_index_range [of U ks "\<lambda>p. p = w"] by (auto simp: key_index_snoc Let_def)
qed

theorem build_trie_inv:
  "\<exists>nodes es ws. build_trie U ks = (nodes, es) \<and>
     trie_inv nodes es ws (patterns U ks) (\<lambda>w. key_index U ks (\<lambda>p. p = w))"
proof (induction ks rule: rev_induct)
  case Nil
  have "trie_inv [newKeywordNode] [] [[]] [] (\<lambda>w. - 1)"
    by (simp add: trie_inv_def trie_shape_def edges_ok_def node_ok_def) (simp add: newKeywordNode_def)
  then show ?case by (auto simp: build_trie_def patterns_def)
next
  case (snoc k ks)
  then obtain nodes es ws where b: "build_trie U ks = (nodes, es)"
    and I: "trie_inv nodes es ws (patterns U ks) (\<lambda>w. key_index U ks (\<lambda>p. p = w))" by blast
  have step: "build_trie U (ks @ [k]) = insert_keyword U (nodes, es) (length ks, k)"
    using b by (simp add: build_trie_def enumerate_append_eq)
  show ?case
  proof (cases "k = ''''")
    case True
    have "build_trie U (ks @ [k]) = (nodes, es)" by (simp add: step) (simp add: insert_keyword_def True)
    then show ?thesis using I True by (auto simp: key_index_update patterns_def)
  next
    case False
    from insert_keyword_inv [OF I this, of U "length ks"] False show ?thesis
      by (simp add: step key_index_update Let_def patterns_def)
  qed
qed

end
