(* ===== verification/Keyword_Links.thy ===== *)
theory Keyword_Links
  imports Keyword_Trie
begin

text \<open>
  The second half of the construction: the breadth-first pass that links every node to the node of the
  longest proper suffix of its word, and lowers the keyword of a node to the first keyword that ends
  there. \<open>linked\<close> is its invariant: the nodes in a set \<open>L\<close> have their final links, the others are as the
  trie left them. The pass visits each node once, so the number of nodes bounds it.
\<close>

abbreviation words :: "unicode_tables \<Rightarrow> string list \<Rightarrow> string set" where
  "words U ks \<equiv> node_words (patterns U ks)"

definition linked ::
  "unicode_tables \<Rightarrow> string list \<Rightarrow> keyword_node list \<Rightarrow> build_edge list \<Rightarrow> string list \<Rightarrow> nat set \<Rightarrow> bool" where
  "linked U ks nodes es ws L \<longleftrightarrow>
     trie_shape nodes es ws \<and> set ws = words U ks \<and>
     (\<forall>s < length ws.
        kn_failure (nodes ! s) = (if s \<in> L then node_of ws (longest_suffix (words U ks) (tl (ws ! s))) else 0) \<and>
        kn_bestKeyword (nodes ! s) = key_index U ks (\<lambda>p. if s \<in> L then suffix p (ws ! s) else p = ws ! s))"

lemma linked_shape: "linked U ks nodes es ws L \<Longrightarrow> trie_shape nodes es ws"
  by (simp add: linked_def)

lemma linked_words: "linked U ks nodes es ws L \<Longrightarrow> set ws = words U ks"
  by (simp add: linked_def)

lemma linked_failure:
  "linked U ks nodes es ws L \<Longrightarrow> s < length ws \<Longrightarrow> s \<in> L \<Longrightarrow>
   kn_failure (nodes ! s) = node_of ws (longest_suffix (words U ks) (tl (ws ! s)))"
  by (simp add: linked_def)

lemma linked_length: "linked U ks nodes es ws L \<Longrightarrow> length nodes = length ws"
  by (simp add: linked_def trie_shape_def)

lemma word_short:
  assumes "linked U ks nodes es ws L" "w \<in> words U ks"
  shows "length w < length ws"
proof -
  have "card (words U ks) = length ws"
    using assms(1) distinct_card [of ws] by (simp add: linked_def trie_shape_def)
  moreover have "finite (words U ks)"
    using finite_set [of ws] by (simp add: linked_words [OF assms(1)])
  ultimately show ?thesis using nw.word_length_less [OF _ assms(2)] by simp
qed

lemma linked_node:
  assumes "linked U ks nodes es ws L" "w \<in> words U ks"
  obtains t where "node_of ws w = int t" "t < length ws" "ws ! t = w"
  using node_ofE [OF linked_shape [OF assms(1)], of w] assms by (auto simp: linked_words)

lemma node_of_zero_iff:
  assumes "linked U ks nodes es ws L" "w \<in> words U ks"
  shows "node_of ws w = 0 \<longleftrightarrow> w = []"
proof -
  obtain t where "node_of ws w = int t" "t < length ws" "ws ! t = w" using linked_node [OF assms] .
  then show ?thesis using linked_shape [OF assms(1)] by (auto simp: trie_shape_def)
qed

section \<open>Following failure links\<close>

lemma find_fallback_spec:
  assumes lk: "linked U ks nodes es ws L"
    and L: "\<And>t. t < length ws \<Longrightarrow> length (ws ! t) \<le> d \<Longrightarrow> t \<in> L"
    and "x \<in> words U ks" "length x \<le> d" "length x \<le> n"
  shows "find_fallback n nodes es (node_of ws x) l =
    (let y = longest_suffix (words U ks) (x @ [l]) in if y = [] then - 1 else node_of ws y)"
  using assms(3-5)
proof (induction n arbitrary: x)
  case 0
  note sh = linked_shape [OF lk]
  have "BuildTransition nodes es (int 0) l = node_of ws [l]"
    using BuildTransition_spec [OF sh, of 0] sh by (auto simp: trie_shape_def)
  then show ?case
    using 0 sh by (cases "[l] \<in> words U ks")
      (auto simp: find_fallback.simps [of 0] node_of_absent linked_words [OF lk] Let_def)
next
  case (Suc n)
  note sh = linked_shape [OF lk]
  obtain s where s: "node_of ws x = int s" "s < length ws" "ws ! s = x"
    using linked_node [OF lk Suc.prems(1)] by metis
  have bt: "BuildTransition nodes es (int s) l = node_of ws (x @ [l])"
    using BuildTransition_spec [OF sh s(2)] s(3) by simp
  show ?case
  proof (cases "x @ [l] \<in> words U ks")
    case True
    then obtain t where "node_of ws (x @ [l]) = int t" using linked_node [OF lk] by metis
    then show ?thesis using True bt by (simp add: find_fallback.simps [of "Suc n"] s(1))
  next
    case False
    then have none: "BuildTransition nodes es (int s) l = - 1"
      using bt by (simp add: node_of_absent linked_words [OF lk])
    show ?thesis
    proof (cases "x = []")
      case True
      then show ?thesis
        using False none s sh by (simp add: find_fallback.simps [of "Suc n"])
    next
      case x: False
      let ?y = "longest_suffix (words U ks) (tl x)"
      have y: "length ?y < length x"
        using longest_suffix_length [of "words U ks" "tl x"] x by (cases x) auto
      have "kn_failure (nodes ! s) = node_of ws ?y"
        using linked_failure [OF lk s(2)] L s(2,3) Suc.prems by simp
      moreover have "s \<noteq> 0" using node_of_zero_iff [OF lk Suc.prems(1)] x s by simp
      moreover have "find_fallback n nodes es (node_of ws ?y) l =
          (let y = longest_suffix (words U ks) (x @ [l]) in if y = [] then - 1 else node_of ws y)"
        using Suc.IH [of ?y] y Suc.prems nw.longest_suffix_word nw.longest_suffix_fail [OF x False] by simp
      ultimately show ?thesis
        using none by (simp add: find_fallback.simps [of "Suc n"] s(1))
    qed
  qed
qed

section \<open>Linking one edge\<close>

lemma minKeywordIndex_first:
  "minKeywordIndex (first_index P n) (first_index Q n) = first_index (\<lambda>i. P i \<or> Q i) n"
proof (induction n)
  case (Suc n)
  then show ?case
    using first_index_range [of P n] first_index_range [of Q n]
    by (auto simp: first_index_Suc minKeywordIndex_def split: if_splits)
qed (simp add: minKeywordIndex_def)

lemma minKeywordIndex_key:
  "minKeywordIndex (key_index U ks P) (key_index U ks Q) = key_index U ks (\<lambda>p. P p \<or> Q p)"
  unfolding key_index_def minKeywordIndex_first by (rule first_index_cong) blast

lemma kn_failure_id: "kn_failure n = f \<Longrightarrow> n\<lparr>kn_failure := f\<rparr> = n"
  by (cases n) simp

lemma link_edge_eq:
  assumes lk: "linked U ks nodes es ws L"
    and L: "\<And>i. i < length ws \<Longrightarrow> length (ws ! i) \<le> length (ws ! s) \<Longrightarrow> i \<in> L"
    and s: "s < length ws" "ws ! s \<noteq> []"
    and t: "kb_target e = int t" "t < length ws" "ws ! t = ws ! s @ [kb_label e]" "t \<notin> L"
  shows "\<exists>f. f < length ws \<and> f \<in> L \<and> ws ! f = longest_suffix (words U ks) (tl (ws ! t)) \<and>
    link_edge es (int s) nodes e = nodes[t := (nodes ! t)\<lparr>kn_failure := int f,
      kn_bestKeyword := minKeywordIndex (kn_bestKeyword (nodes ! t)) (kn_bestKeyword (nodes ! f))\<rparr>]"
proof -
  let ?W = "words U ks" and ?u = "ws ! s" and ?l = "kb_label e"
  let ?x = "longest_suffix ?W (tl ?u)"
  let ?y = "longest_suffix ?W (tl (ws ! t))"
  have y: "?y = longest_suffix ?W (?x @ [?l])"
    using nw.longest_suffix_tl_snoc [OF s(2)] t(3) by metis
  have xlen: "length ?x < length ?u"
    using longest_suffix_length [of ?W "tl ?u"] s(2) by (cases ?u) auto
  have u: "?u \<in> ?W" using s(1) linked_words [OF lk] nth_mem by blast
  have "find_fallback (length nodes) nodes es (node_of ws ?x) ?l = (if ?y = [] then - 1 else node_of ws ?y)"
    using find_fallback_spec [OF lk L, where x = ?x and n = "length nodes" and l = ?l] xlen
      nw.longest_suffix_word word_short [OF lk u] linked_length [OF lk] by (simp add: y Let_def)
  moreover have "kn_failure (nodes ! s) = node_of ws ?x"
    using linked_failure [OF lk s(1)] L [OF s(1)] by simp
  moreover obtain f where f: "node_of ws ?y = int f" "f < length ws" "ws ! f = ?y"
    using linked_node [OF lk nw.longest_suffix_word] by metis
  moreover have "kn_failure (nodes ! t) = 0" using lk t by (simp add: linked_def)
  moreover have ylen: "length ?y \<le> length ?u"
    using longest_suffix_length [of ?W "tl (ws ! t)"] t(3) by (simp add: s(2))
  then have fL: "f \<in> L" using L f by simp
  moreover have "f = 0" if "?y = []" using f(1) that linked_shape [OF lk] by simp
  ultimately have "link_edge es (int s) nodes e = nodes[t := (nodes ! t)\<lparr>kn_failure := int f,
      kn_bestKeyword := minKeywordIndex (kn_bestKeyword (nodes ! t)) (kn_bestKeyword (nodes ! f))\<rparr>]"
    using t linked_length [OF lk] by (auto simp: link_edge_def Let_def nth_list_update kn_failure_id)
  then show ?thesis using f fL by blast
qed

lemma link_edge_linked:
  assumes lk: "linked U ks nodes es ws L" and ne: "[] \<notin> set (patterns U ks)"
    and L: "\<And>i. i < length ws \<Longrightarrow> length (ws ! i) \<le> length (ws ! s) \<Longrightarrow> i \<in> L"
    and s: "s < length ws" "ws ! s \<noteq> []"
    and t: "kb_target e = int t" "t < length ws" "ws ! t = ws ! s @ [kb_label e]" "t \<notin> L"
  shows "linked U ks (link_edge es (int s) nodes e) es ws (insert t L)"
proof -
  let ?W = "words U ks" and ?y = "longest_suffix (words U ks) (tl (ws ! t))"
  obtain f where f: "f < length ws" "f \<in> L" "ws ! f = ?y"
    and eq: "link_edge es (int s) nodes e = nodes[t := (nodes ! t)\<lparr>kn_failure := int f,
      kn_bestKeyword := minKeywordIndex (kn_bestKeyword (nodes ! t)) (kn_bestKeyword (nodes ! f))\<rparr>]"
      (is "_ = ?nodes")
    using link_edge_eq [OF lk L s t] by blast
  have len: "length nodes = length ws" using linked_length [OF lk] .
  have "kn_bestKeyword (nodes ! t) = key_index U ks (\<lambda>p. p = ws ! t)"
    "kn_bestKeyword (nodes ! f) = key_index U ks (\<lambda>p. suffix p ?y)"
    using lk t f by (simp_all add: linked_def)
  then have "minKeywordIndex (kn_bestKeyword (nodes ! t)) (kn_bestKeyword (nodes ! f))
      = key_index U ks (\<lambda>p. p = ws ! t \<or> suffix p ?y)"
    by (simp add: minKeywordIndex_key)
  also have "\<dots> = key_index U ks (\<lambda>p. suffix p (ws ! t))"
    using ne nw.suffix_word_iff by (intro key_index_cong) (metis node_words_member)
  finally have best: "minKeywordIndex (kn_bestKeyword (nodes ! t)) (kn_bestKeyword (nodes ! f))
      = key_index U ks (\<lambda>p. suffix p (ws ! t))" .
  have "trie_shape ?nodes es ws"
    using linked_shape [OF lk] by (rule trie_shape_edgeStart)
      (use t len in \<open>auto simp: nth_list_update intro: nth_equalityI\<close>)
  moreover have "node_of ws ?y = int f" using f linked_shape [OF lk] node_of_nth by metis
  ultimately show ?thesis
    unfolding eq linked_def using lk t best len by (auto simp: linked_def nth_list_update)
qed

lemma link_edges_linked:
  assumes "linked U ks nodes es ws L" and ne: "[] \<notin> set (patterns U ks)"
    and "\<And>i. i < length ws \<Longrightarrow> length (ws ! i) \<le> length (ws ! s) \<Longrightarrow> i \<in> L"
    and s: "s < length ws" "ws ! s \<noteq> []"
    and "distinct (map kb_target out)"
    and "\<And>e. e \<in> set out \<Longrightarrow>
      \<exists>t. kb_target e = int t \<and> t < length ws \<and> ws ! t = ws ! s @ [kb_label e] \<and> t \<notin> L"
  shows "linked U ks (foldl (link_edge es (int s)) nodes out) es ws (L \<union> set (map (nat \<circ> kb_target) out))"
  using assms(1,3,6,7)
proof (induction out arbitrary: nodes L)
  case (Cons e out)
  obtain t where t: "kb_target e = int t" "t < length ws" "ws ! t = ws ! s @ [kb_label e]" "t \<notin> L"
    using Cons.prems(4) by fastforce
  have 1: "linked U ks (link_edge es (int s) nodes e) es ws (insert t L)"
    by (rule link_edge_linked [OF Cons.prems(1) ne Cons.prems(2) s t])
  have "linked U ks (foldl (link_edge es (int s)) (link_edge es (int s) nodes e) out) es ws
      (insert t L \<union> set (map (nat \<circ> kb_target) out))"
  proof (rule Cons.IH [OF 1])
    show "\<exists>t'. kb_target e' = int t' \<and> t' < length ws \<and> ws ! t' = ws ! s @ [kb_label e'] \<and> t' \<notin> insert t L"
      if e': "e' \<in> set out" for e'
    proof -
      obtain t' where "kb_target e' = int t'" "t' < length ws" "ws ! t' = ws ! s @ [kb_label e']" "t' \<notin> L"
        using Cons.prems(4) e' by fastforce
      moreover have "kb_target e' \<noteq> kb_target e" using Cons.prems(3) imageI [OF e', of kb_target] by auto
      ultimately show ?thesis using t by auto
    qed
  qed (use Cons.prems in auto)
  then show ?case using t by simp
qed simp

section \<open>The breadth-first pass\<close>

text \<open>\<open>P\<close> are the nodes already taken from the queue, \<open>Q\<close> those still in it.\<close>

definition bfs ::
  "unicode_tables \<Rightarrow> string list \<Rightarrow> keyword_node list \<Rightarrow> build_edge list \<Rightarrow> string list \<Rightarrow> nat list \<Rightarrow> nat list \<Rightarrow> bool" where
  "bfs U ks nodes es ws P Q \<longleftrightarrow>
     linked U ks nodes es ws (insert 0 (set (P @ Q))) \<and> distinct (P @ Q) \<and>
     set (P @ Q) = {i. i < length ws \<and> (length (ws ! i) = 1 \<or> (\<exists>p \<in> set P. \<exists>l. ws ! i = ws ! p @ [l]))} \<and>
     sorted (map (\<lambda>i. length (ws ! i)) (P @ Q))"

lemma bfs_linked: "bfs U ks nodes es ws P Q \<Longrightarrow> linked U ks nodes es ws (insert 0 (set (P @ Q)))"
  unfolding bfs_def by blast

lemma bfs_set:
  "bfs U ks nodes es ws P Q \<Longrightarrow> i \<in> set (P @ Q) \<longleftrightarrow>
     i < length ws \<and> (length (ws ! i) = 1 \<or> (\<exists>p \<in> set P. \<exists>l. ws ! i = ws ! p @ [l]))"
  unfolding bfs_def by blast

lemma bfs_cover:
  assumes b: "bfs U ks nodes es ws P Q" and d: "\<And>q. q \<in> set Q \<Longrightarrow> d \<le> length (ws ! q)"
  shows "i < length ws \<Longrightarrow> length (ws ! i) \<le> d \<Longrightarrow> i \<in> insert 0 (set (P @ Q))"
proof (induction "length (ws ! i)" arbitrary: i rule: less_induct)
  case less
  note lk = bfs_linked [OF b]
  show ?case
  proof (cases "ws ! i" rule: rev_cases)
    case Nil
    then show ?thesis using node_of_nth [OF linked_shape [OF lk] less.prems(1)] linked_shape [OF lk] by simp
  next
    case (snoc u l)
    show ?thesis
    proof (cases "u = []")
      case True
      then show ?thesis using bfs_set [OF b, of i] less.prems snoc by simp
    next
      case False
      have "u @ [l] \<in> words U ks" using nth_mem [OF less.prems(1)] snoc by (simp add: linked_words [OF lk])
      then obtain j where j: "j < length ws" "ws ! j = u"
        using linked_node [OF lk] nw.word_butlast by metis
      then have "j \<in> insert 0 (set (P @ Q))" using less.hyps [of j] less.prems snoc by simp
      moreover have "j \<noteq> 0" using j False linked_shape [OF lk] unfolding trie_shape_def by metis
      moreover have "j \<notin> set Q" using d [of j] j less.prems snoc by auto
      ultimately have "j \<in> set P" by simp
      then show ?thesis using bfs_set [OF b, of i] less.prems snoc j by auto
    qed
  qed
qed

lemma bfs_nonempty: "bfs U ks nodes es ws P Q \<Longrightarrow> q \<in> set (P @ Q) \<Longrightarrow> q < length ws \<and> ws ! q \<noteq> []"
  using bfs_set [of U ks nodes es ws P Q q] by auto

lemma children_of:
  assumes sh: "trie_shape nodes es ws" and q: "q < length ws"
  defines "out \<equiv> out_edges nodes es (int q)"
  shows "distinct (map (nat \<circ> kb_target) out)" "map kb_target out = map int (map (nat \<circ> kb_target) out)"
    "set (map (nat \<circ> kb_target) out) = {i. i < length ws \<and> (\<exists>l. ws ! i = ws ! q @ [l])}"
proof -
  have tgt: "\<exists>t. kb_target e = int t \<and> t < length ws \<and> ws ! t = ws ! q @ [kb_label e]" if "e \<in> set out" for e
    using out_edge_target [OF sh q] that unfolding out_def by metis
  show "map kb_target out = map int (map (nat \<circ> kb_target) out)"
    using tgt by fastforce
  have "inj_on (nat \<circ> kb_target) (set out)"
  proof (rule inj_onI)
    fix e e' assume *: "e \<in> set out" "e' \<in> set out" "(nat \<circ> kb_target) e = (nat \<circ> kb_target) e'"
    then have "kb_label e = kb_label e'" using tgt [of e] tgt [of e'] by auto
    then show "e = e'" using * out_edges_distinct [OF sh q] unfolding out_def
      by (simp add: distinct_map inj_on_def)
  qed
  then show "distinct (map (nat \<circ> kb_target) out)"
    using out_edges_distinct [OF sh q] unfolding out_def by (simp add: distinct_map)
  show "set (map (nat \<circ> kb_target) out) = {i. i < length ws \<and> (\<exists>l. ws ! i = ws ! q @ [l])}" (is "?A = ?B")
  proof
    show "?A \<subseteq> ?B" using tgt by fastforce
    show "?B \<subseteq> ?A"
    proof
      fix i assume "i \<in> ?B"
      then obtain l where "(l, int i) \<in> (\<lambda>e. (kb_label e, kb_target e)) ` set out"
        using out_edges_image [OF sh q] unfolding out_def by blast
      then show "i \<in> ?A" by (force simp: image_iff)
    qed
  qed
qed

lemma children_sorted:
  assumes "trie_shape nodes es ws" "q < length ws"
    and "x \<in> set (map (\<lambda>i. length (ws ! i)) (map (nat \<circ> kb_target) (out_edges nodes es (int q))))"
  shows "x = Suc (length (ws ! q))"
  using assms(3) unfolding set_map [of "\<lambda>i. length (ws ! i)"] children_of(3) [OF assms(1,2)] by auto

lemma sorted_const: "(\<And>x. x \<in> set xs \<Longrightarrow> x = c) \<Longrightarrow> sorted xs"
  by (induction xs) auto

lemma bfs_depth:
  assumes b: "bfs U ks nodes es ws P (q # Q)" and i: "i \<in> set (P @ q # Q)"
  shows "length (ws ! i) \<le> Suc (length (ws ! q))"
proof -
  have "sorted (map (\<lambda>i. length (ws ! i)) (P @ q # Q))" using b unfolding bfs_def by blast
  then have "\<And>p. p \<in> set P \<Longrightarrow> length (ws ! p) \<le> length (ws ! q)" by (simp add: sorted_append)
  moreover have "1 \<le> length (ws ! q)"
    using bfs_nonempty [OF b, of q] by (cases "ws ! q") auto
  ultimately show ?thesis using bfs_set [OF b, of i] i by force
qed

lemma bfs_fresh:
  assumes b: "bfs U ks nodes es ws P (q # Q)" and i: "i < length ws" "ws ! i = ws ! q @ [l]"
  shows "i \<notin> insert 0 (set (P @ q # Q))"
proof
  assume "i \<in> insert 0 (set (P @ q # Q))"
  note sh = linked_shape [OF bfs_linked [OF b]]
  have q: "q < length ws" "ws ! q \<noteq> []" using bfs_nonempty [OF b, of q] by simp_all
  have "i \<noteq> 0" using i sh unfolding trie_shape_def by (metis append_is_Nil_conv not_Cons_self2)
  then have "i \<in> set (P @ q # Q)" using \<open>i \<in> _\<close> by simp
  then obtain p where p: "p \<in> set P" "ws ! p = ws ! q"
    using bfs_set [OF b, of i] i q by auto
  then have "p = q"
    using bfs_nonempty [OF b, of p] q sh by (auto simp: trie_shape_def nth_eq_iff_index_eq)
  moreover have "distinct (P @ q # Q)" using b unfolding bfs_def by blast
  ultimately show False using p by simp
qed

lemma bfs_step:
  assumes b: "bfs U ks nodes es ws P (q # Q)" and ne: "[] \<notin> set (patterns U ks)"
  defines "out \<equiv> out_edges nodes es (int q)"
  shows "bfs U ks (foldl (link_edge es (int q)) nodes out) es ws (P @ [q]) (Q @ map (nat \<circ> kb_target) out)"
proof -
  note lk = bfs_linked [OF b]
  note sh = linked_shape [OF lk]
  have q: "q < length ws" "ws ! q \<noteq> []" using bfs_nonempty [OF b, of q] by simp_all
  note ch = children_of [OF sh q(1), folded out_def]
  have so: "sorted (map (\<lambda>i. length (ws ! i)) (P @ q # Q))" and d: "distinct (P @ q # Q)"
    using b unfolding bfs_def by blast+
  have least: "length (ws ! q) \<le> length (ws ! x)" if "x \<in> set (q # Q)" for x
    using so that by (auto simp: sorted_append)
  have "linked U ks (foldl (link_edge es (int q)) nodes out) es ws
      (insert 0 (set (P @ q # Q)) \<union> set (map (nat \<circ> kb_target) out))"
  proof (rule link_edges_linked [OF lk ne _ q])
    show "i \<in> insert 0 (set (P @ q # Q))" if "i < length ws" "length (ws ! i) \<le> length (ws ! q)" for i
      using bfs_cover [OF b least that] .
    show "distinct (map kb_target out)" using ch(1) inj_on_imageI2 by (auto simp: distinct_map)
    show "\<exists>t. kb_target e = int t \<and> t < length ws \<and> ws ! t = ws ! q @ [kb_label e] \<and>
        t \<notin> insert 0 (set (P @ q # Q))" if e: "e \<in> set out" for e
      using out_edge_target [OF sh q(1) e [unfolded out_def]] bfs_fresh [OF b] by metis
  qed
  moreover have "distinct ((P @ [q]) @ Q @ map (nat \<circ> kb_target) out)"
    using d ch bfs_fresh [OF b] by auto
  moreover have "set ((P @ [q]) @ Q @ map (nat \<circ> kb_target) out) =
      {i. i < length ws \<and> (length (ws ! i) = 1 \<or> (\<exists>p \<in> set (P @ [q]). \<exists>l. ws ! i = ws ! p @ [l]))}"
    using bfs_set [OF b] unfolding set_append [of "P @ [q]"] set_append [of Q] ch(3) by auto
  moreover have "sorted (map (\<lambda>i. length (ws ! i)) ((P @ q # Q) @ map (nat \<circ> kb_target) out))"
  proof -
    let ?f = "\<lambda>i. length (ws ! i)"
    have c: "x = Suc (length (ws ! q))" if "x \<in> set (map ?f (map (nat \<circ> kb_target) out))" for x
      using children_sorted [OF sh q(1)] that unfolding out_def .
    have "x \<le> Suc (length (ws ! q))" if "x \<in> set (map ?f (P @ q # Q))" for x
      using that bfs_depth [OF b] by auto
    then show ?thesis
      unfolding map_append [of _ "P @ q # Q"] sorted_append using so c sorted_const [OF c] by blast
  qed
  ultimately show ?thesis by (simp add: bfs_def Un_assoc)
qed

lemma link_queue_bfs:
  assumes ne: "[] \<notin> set (patterns U ks)"
  shows "bfs U ks nodes es ws P Q \<Longrightarrow> n + length P = length ws \<Longrightarrow>
    \<exists>P'. bfs U ks (link_queue n es nodes (map int Q)) es ws P' []"
proof (induction n arbitrary: nodes P Q)
  case 0
  have "set P \<subseteq> {1..<length ws}"
  proof
    fix p assume "p \<in> set P"
    then have "p < length ws" "ws ! p \<noteq> []" using bfs_nonempty [OF "0.prems"(1), of p] by simp_all
    moreover have "ws ! 0 = []" using linked_shape [OF bfs_linked [OF "0.prems"(1)]] by (simp add: trie_shape_def)
    ultimately show "p \<in> {1..<length ws}" by (cases p) auto
  qed
  then have "card (set P) \<le> length ws - 1" using card_mono [of "{1..<length ws}" "set P"] by simp
  moreover have "card (set P) = length P" using "0.prems"(1) by (simp add: bfs_def distinct_card)
  moreover have "ws \<noteq> []" using linked_shape [OF bfs_linked [OF "0.prems"(1)]] by (simp add: trie_shape_def)
  ultimately show ?case using "0.prems"(2) by (cases ws) auto
next
  case (Suc n)
  show ?case
  proof (cases Q)
    case Nil
    then show ?thesis using Suc.prems by auto
  next
    case (Cons q R)
    have "q < length ws" using bfs_nonempty [OF Suc.prems(1), of q] Cons by simp
    note tgt = children_of(2) [OF linked_shape [OF bfs_linked [OF Suc.prems(1)]] this]
    let ?out = "out_edges nodes es (int q)"
    have "link_queue (Suc n) es nodes (map int Q) =
        link_queue n es (foldl (link_edge es (int q)) nodes ?out) (map int (R @ map (nat \<circ> kb_target) ?out))"
      unfolding Cons list.map link_queue.simps Let_def map_append tgt ..
    then show ?thesis
      using Suc.IH [OF bfs_step [OF Suc.prems(1) [unfolded Cons] ne]] Suc.prems(2) by simp
  qed
qed

lemma bfs_start:
  assumes I: "trie_inv nodes es ws (patterns U ks) (\<lambda>w. key_index U ks (\<lambda>p. p = w))"
    and ne: "[] \<notin> set (patterns U ks)"
  shows "bfs U ks nodes es ws [] (map (nat \<circ> kb_target) (out_edges nodes es 0))"
proof -
  have sh: "trie_shape nodes es ws" and root: "0 < length ws" "ws ! 0 = []"
    using I by (auto simp: trie_inv_def trie_shape_def)
  let ?Q = "map (nat \<circ> kb_target) (out_edges nodes es 0)"
  note ch = children_of [OF sh root(1), simplified root(2), simplified]
  have "linked U ks nodes es ws (insert 0 (set ?Q))"
    unfolding linked_def
  proof (intro conjI allI impI)
    fix s assume s: "s < length ws"
    have w: "ws ! s = []" if "s = 0" using that root by simp
    have w1: "\<exists>l. ws ! s = [l]" if "s \<in> set ?Q" using that ch(3) by simp
    show "kn_failure (nodes ! s) = (if s \<in> insert 0 (set ?Q)
        then node_of ws (longest_suffix (words U ks) (tl (ws ! s))) else 0)"
      using I s w w1 sh by (auto simp: trie_inv_def)
    have *: "suffix p (ws ! s) \<longleftrightarrow> p = ws ! s" if "s \<in> insert 0 (set ?Q)" "p \<in> set (patterns U ks)" for p
      using that ne w w1 by (auto simp: suffix_Cons)
    have "key_index U ks (\<lambda>p. if s \<in> insert 0 (set ?Q) then suffix p (ws ! s) else p = ws ! s)
        = key_index U ks (\<lambda>p. p = ws ! s)"
      by (rule key_index_cong) (meson *)
    then show "kn_bestKeyword (nodes ! s) =
        key_index U ks (\<lambda>p. if s \<in> insert 0 (set ?Q) then suffix p (ws ! s) else p = ws ! s)"
      using I s unfolding trie_inv_def by metis
  qed (use I in \<open>simp_all add: trie_inv_def\<close>)
  moreover have "sorted (map (\<lambda>i. length (ws ! i)) ?Q)"
    using children_sorted [OF sh root(1), of _] by (intro sorted_const) simp
  moreover have "length (ws ! i) = 1 \<longleftrightarrow> (\<exists>l. ws ! i = [l])" for i
    by (simp add: length_Suc_conv)
  ultimately show ?thesis
    using ch by (simp add: bfs_def)
qed

text \<open>Together: the pass over the finished trie links every node.\<close>

theorem link_queue_linked:
  assumes I: "trie_inv nodes es ws (patterns U ks) (\<lambda>w. key_index U ks (\<lambda>p. p = w))"
    and ne: "[] \<notin> set (patterns U ks)"
  shows "linked U ks (link_queue (length nodes) es nodes (map kb_target (out_edges nodes es 0))) es ws {..<length ws}"
proof -
  have sh: "trie_shape nodes es ws" and root: "0 < length ws" and len: "length nodes = length ws"
    using I by (auto simp: trie_inv_def trie_shape_def)
  let ?Q = "map (nat \<circ> kb_target) (out_edges nodes es 0)"
  have tgt: "map int ?Q = map kb_target (out_edges nodes es 0)"
    using children_of(2) [OF sh root, symmetric] unfolding of_nat_0 .
  from link_queue_bfs [OF ne bfs_start [OF I ne], of "length nodes"]
  obtain P where P: "bfs U ks (link_queue (length nodes) es nodes (map int ?Q)) es ws P []" using len by auto
  have "i \<in> insert 0 (set P)" if "i < length ws" for i
    using bfs_cover [OF P _ that, of "length (ws ! i)"] by simp
  then show ?thesis
    using bfs_linked [OF P [unfolded tgt]] by (simp add: linked_def)
qed

end
