(* ===== verification/Keyword_Equiv.thy ===== *)
theory Keyword_Equiv
  imports Keyword_Links
begin

text \<open>
  The finished matcher and what it computes: the packed edges are sorted, so the binary search finds the
  edge of a byte; following failure links, the matcher is always at the longest suffix of the text read
  that is a node; and so \<open>Match\<close> gives the answer of the plain search \<open>matchBlockedKeyword\<close> that it
  replaces.
\<close>

section \<open>Sorted segments and binary search\<close>

abbreviation edge_byte :: "keyword_edge \<Rightarrow> nat" where
  "edge_byte e \<equiv> of_char (ke_label e)"

lemma set_insert_edge [simp]: "set (insert_edge e es) = insert e (set es)"
  by (induction es) auto

lemma length_insert_edge [simp]: "length (insert_edge e es) = Suc (length es)"
  by (induction es) auto

lemma insert_edge_sorted:
  "sorted_wrt (\<lambda>a b. edge_byte b \<le> edge_byte a) es \<Longrightarrow> sorted_wrt (\<lambda>a b. edge_byte b \<le> edge_byte a) (insert_edge e es)"
  by (induction es) (auto simp: label_less_def)

lemma insertion_fold:
  "sorted_wrt (\<lambda>a b. edge_byte b \<le> edge_byte a) done \<Longrightarrow>
   sorted_wrt (\<lambda>a b. edge_byte b \<le> edge_byte a) (foldl (\<lambda>done e. insert_edge e done) done es) \<and>
   set (foldl (\<lambda>done e. insert_edge e done) done es) = set done \<union> set es \<and>
   length (foldl (\<lambda>done e. insert_edge e done) done es) = length done + length es"
  by (induction es arbitrary: "done") (auto simp: insert_edge_sorted)

lemma sort_edges_spec:
  "sorted (map edge_byte (sort_edges es))" "set (sort_edges es) = set es" "length (sort_edges es) = length es"
  using insertion_fold [of "[]" es] by (simp_all add: sort_edges_def sorted_wrt_rev sorted_wrt_map rev_map)

definition splits_at :: "keyword_edge list \<Rightarrow> char \<Rightarrow> nat \<Rightarrow> nat \<Rightarrow> nat \<Rightarrow> bool" where
  "splits_at es l left right r \<longleftrightarrow> left \<le> r \<and> r \<le> right \<and>
     (\<forall>i. left \<le> i \<and> i < r \<longrightarrow> edge_byte (es ! i) < of_char l) \<and>
     (\<forall>i. r \<le> i \<and> i < right \<longrightarrow> of_char l \<le> edge_byte (es ! i))"

lemma lower_bound_spec:
  assumes "left \<le> right"
    and "\<And>i j. left \<le> i \<Longrightarrow> i \<le> j \<Longrightarrow> j < right \<Longrightarrow> edge_byte (es ! i) \<le> edge_byte (es ! j)"
  shows "splits_at es l left right (lower_bound es l left right)"
  using assms
proof (induction es l left right rule: lower_bound.induct)
  case (1 es l left right)
  let ?mid = "left + (right - left) div 2"
  consider "left < right" "label_less (ke_label (es ! ?mid)) l"
    | "left < right" "\<not> label_less (ke_label (es ! ?mid)) l" | "left = right"
    using "1.prems"(1) by fastforce
  then show ?case
  proof cases
    case 1
    have mid: "?mid + 1 \<le> right" using 1 by simp
    have "edge_byte (es ! i) < of_char l" if "left \<le> i" "i < ?mid + 1" for i
      using "1.prems"(2) [of i ?mid] that 1 mid by (simp add: label_less_def)
    moreover have "splits_at es l (?mid + 1) right (lower_bound es l (?mid + 1) right)"
      using "1.IH"(1) [OF 1(1) refl 1(2) mid] "1.prems"(2) by simp
    ultimately show ?thesis
      using 1 by (simp add: lower_bound.simps [of es l left right] Let_def splits_at_def)
        (meson not_less_eq_eq not_le)
  next
    case 2
    have mid: "left \<le> ?mid" "?mid < right" using 2 by simp_all
    have "of_char l \<le> edge_byte (es ! i)" if "?mid \<le> i" "i < right" for i
      using "1.prems"(2) [of ?mid i] that 2 mid by (simp add: label_less_def)
    moreover have "splits_at es l left ?mid (lower_bound es l left ?mid)"
      using "1.IH"(2) [OF 2(1) refl 2(2) mid(1)] "1.prems"(2) mid by simp
    ultimately show ?thesis
      using 2 mid by (simp add: lower_bound.simps [of es l left right] Let_def splits_at_def)
        (meson not_le order.trans less_imp_le)
  next
    case 3
    then show ?thesis by (simp add: lower_bound.simps [of es l right right] splits_at_def)
  qed
qed

text \<open>The search in the segment of one node.\<close>

lemma search_segment:
  fixes A seg B l
  defines "es \<equiv> A @ seg @ B" and "stop \<equiv> length A + length seg"
  defines "left \<equiv> lower_bound es l (length A) stop"
  assumes so: "sorted (map edge_byte seg)" and d: "distinct (map ke_label seg)"
  shows "(if left < stop \<and> ke_label (es ! left) = l then ke_target (es ! left) else 0)
    = (case find (\<lambda>e. ke_label e = l) seg of None \<Rightarrow> 0 | Some e \<Rightarrow> ke_target e)"
proof -
  have nth: "es ! (length A + j) = seg ! j" if "j < length seg" for j
    using that by (simp add: es_def nth_append)
  have mono: "edge_byte (es ! i) \<le> edge_byte (es ! j)" if "length A \<le> i" "i \<le> j" "j < stop" for i j
  proof -
    obtain a b where "i = length A + a" "j = length A + b" using \<open>length A \<le> i\<close> \<open>i \<le> j\<close> by (metis le_Suc_ex order.trans)
    then show ?thesis using that so nth by (auto simp: stop_def sorted_iff_nth_mono)
  qed
  have sp: "splits_at es l (length A) stop left"
    unfolding left_def using mono by (intro lower_bound_spec) (auto simp: stop_def)
  have in_seg: "es ! left \<in> set seg" if "left < stop"
  proof -
    have "left - length A < length seg" "length A + (left - length A) = left"
      using sp that by (auto simp: splits_at_def stop_def)
    then show ?thesis using nth [of "left - length A"] by simp
  qed
  show ?thesis
  proof (cases "\<exists>j < length seg. ke_label (seg ! j) = l")
    case True
    then obtain j where j: "j < length seg" "ke_label (seg ! j) = l" by blast
    then have e: "es ! (length A + j) = seg ! j" "length A + j < stop" using nth by (auto simp: stop_def)
    have le: "left \<le> length A + j"
    proof (rule ccontr)
      assume "\<not> left \<le> length A + j"
      then have "edge_byte (es ! (length A + j)) < of_char l" using sp by (simp add: splits_at_def)
      then show False using e j by simp
    qed
    then have "edge_byte (es ! left) \<le> of_char l" "of_char l \<le> edge_byte (es ! left)"
      using sp mono [of left "length A + j"] e j by (auto simp: splits_at_def)
    then have eq: "ke_label (es ! left) = l" by simp
    obtain x where x: "find (\<lambda>e. ke_label e = l) seg = Some x" "x \<in> set seg" "ke_label x = l"
      using j by (cases "find (\<lambda>e. ke_label e = l) seg") (auto simp: find_None_iff find_Some_iff)
    then have "x = es ! left" using d eq in_seg le e(2) by (auto simp: distinct_map inj_on_def)
    then show ?thesis using x eq le e(2) by simp
  next
    case False
    then have "find (\<lambda>e. ke_label e = l) seg = None" by (auto simp: find_None_iff in_set_conv_nth)
    moreover have "ke_label (es ! left) \<noteq> l" if "left < stop"
      using in_seg [OF that] False by (auto simp: in_set_conv_nth)
    ultimately show ?thesis by auto
  qed
qed

section \<open>The packed edges\<close>

definition outgoing :: "keyword_node list \<Rightarrow> build_edge list \<Rightarrow> nat \<Rightarrow> keyword_edge list" where
  "outgoing nodes es i =
     map (\<lambda>e. \<lparr>ke_target = kb_target e, ke_label = kb_label e\<rparr>) (out_edges nodes es (int i))"

definition segments :: "keyword_node list \<Rightarrow> build_edge list \<Rightarrow> nat list \<Rightarrow> keyword_edge list" where
  "segments nodes es is = concat (map (\<lambda>i. sort_edges (outgoing nodes es i)) is)"

lemma segments_append [simp]: "segments nodes es (xs @ ys) = segments nodes es xs @ segments nodes es ys"
  by (simp add: segments_def)

definition packed :: "keyword_node list \<Rightarrow> build_edge list \<Rightarrow> nat \<Rightarrow> keyword_node" where
  "packed nodes es i = (nodes ! i)\<lparr>kn_edgeStart := int (length (segments nodes es [0..<i])),
     kn_edgeCount := int (length (outgoing nodes es i))\<rparr>"

lemma pack_nodes:
  assumes "k \<le> length nodes"
  shows "foldl (pack_node es) (nodes, []) [0..<k] =
    (map (\<lambda>i. if i < k then packed nodes es i else nodes ! i) [0..<length nodes], segments nodes es [0..<k])"
  using assms
proof (induction k)
  case 0
  then show ?case by (simp add: segments_def map_nth)
next
  case (Suc k)
  let ?nodes = "map (\<lambda>i. if i < k then packed nodes es i else nodes ! i) [0..<length nodes]"
  have k: "?nodes ! k = nodes ! k" using Suc.prems by simp
  then have "out_edges ?nodes es (int k) = out_edges nodes es (int k)"
    by (simp add: out_edges_def)
  then have "pack_node es (?nodes, segments nodes es [0..<k]) k =
      (?nodes[k := packed nodes es k], segments nodes es [0..<k] @ sort_edges (outgoing nodes es k))"
    using k by (simp add: pack_node_def Let_def packed_def outgoing_def)
  moreover have "?nodes[k := packed nodes es k] =
      map (\<lambda>i. if i < Suc k then packed nodes es i else nodes ! i) [0..<length nodes]"
    using Suc.prems by (intro nth_equalityI) (auto simp: nth_list_update less_Suc_eq)
  ultimately show ?case using Suc by (simp add: segments_def)
qed

lemma pack_all:
  "foldl (pack_node es) (nodes, []) [0..<length nodes] =
     (map (packed nodes es) [0..<length nodes], segments nodes es [0..<length nodes])"
  using pack_nodes [of "length nodes" nodes es] by (auto intro: nth_equalityI)

lemma find_outgoing:
  assumes "trie_shape nodes es ws" "s < length ws"
  shows "(case find (\<lambda>e. ke_label e = l) (sort_edges (outgoing nodes es s)) of None \<Rightarrow> 0 | Some e \<Rightarrow> ke_target e)
    = (if ws ! s @ [l] \<in> set ws then node_of ws (ws ! s @ [l]) else 0)"
proof (cases "find (\<lambda>e. ke_label e = l) (sort_edges (outgoing nodes es s))")
  case None
  have "ws ! s @ [l] \<notin> set ws"
  proof
    assume "ws ! s @ [l] \<in> set ws"
    then obtain t where "(l, int t) \<in> (\<lambda>e. (kb_label e, kb_target e)) ` set (out_edges nodes es (int s))"
      using out_edges_image [OF assms] by (auto simp: in_set_conv_nth)
    then show False using None by (auto simp: find_None_iff sort_edges_spec outgoing_def)
  qed
  then show ?thesis using None by simp
next
  case (Some x)
  then have x: "x \<in> set (outgoing nodes es s)" "ke_label x = l"
    using sort_edges_spec(2) [of "outgoing nodes es s"] nth_mem by (fastforce simp: find_Some_iff)+
  then obtain e where e: "e \<in> set (out_edges nodes es (int s))" "x = \<lparr>ke_target = kb_target e, ke_label = kb_label e\<rparr>"
    by (auto simp: outgoing_def)
  obtain t where t: "ke_target x = int t" "t < length ws" "ws ! t = ws ! s @ [l]"
    using out_edge_target [OF assms e(1)] e(2) x(2) by auto
  then have "node_of ws (ws ! s @ [l]) = int t" "ws ! s @ [l] \<in> set ws"
    using node_of_nth [OF assms(1) t(2)] nth_mem [OF t(2)] by simp_all
  then show ?thesis using Some t by simp
qed

lemma root_table:
  assumes "distinct (map kb_label out)" "length r = 256"
  shows "foldl (\<lambda>r e. r[of_char (kb_label e) := kb_target e]) r out ! of_char l
    = (case find (\<lambda>e. kb_label e = l) out of None \<Rightarrow> r ! of_char l | Some e \<Rightarrow> kb_target e)"
  using assms
proof (induction out arbitrary: r)
  case (Cons e out)
  have "find (\<lambda>e. kb_label e = l) out = None" if "kb_label e = l"
    using Cons.prems that by (auto simp: find_None_iff image_iff)
  then show ?case using Cons by (auto simp: nth_list_update split: option.splits)
qed simp

section \<open>The finished matcher\<close>

definition matcher_ok :: "unicode_tables \<Rightarrow> string list \<Rightarrow> keyword_matcher \<Rightarrow> string list \<Rightarrow> bool" where
  "matcher_ok U ks m ws \<longleftrightarrow>
     set ws = words U ks \<and> distinct ws \<and> ws \<noteq> [] \<and> ws ! 0 = [] \<and>
     length (km_nodes m) = length ws \<and> km_keywords m = ks \<and>
     (\<forall>s < length ws.
        kn_failure (km_nodes m ! s) = node_of ws (longest_suffix (words U ks) (tl (ws ! s))) \<and>
        kn_bestKeyword (km_nodes m ! s) = key_index U ks (\<lambda>p. suffix p (ws ! s)) \<and>
        (\<forall>l. matcher_next m (int s) l =
           (if ws ! s @ [l] \<in> words U ks then node_of ws (ws ! s @ [l]) else 0)))"

lemma matcher_next_root:
  assumes sh: "trie_shape nodes es ws"
    and r: "km_rootTransitions m = foldl (\<lambda>r e. r[of_char (kb_label e) := kb_target e]) (replicate 256 0) (out_edges nodes es 0)"
  shows "matcher_next m 0 l = (if [l] \<in> set ws then node_of ws [l] else 0)"
proof -
  have root: "0 < length ws" "ws ! 0 = []" "length nodes = length ws"
    using sh by (auto simp: trie_shape_def)
  have "distinct (map kb_label (out_edges nodes es 0))"
    using out_edges_distinct [OF sh root(1)] by simp
  then have "matcher_next m 0 l = (case find (\<lambda>e. kb_label e = l) (out_edges nodes es 0) of
      None \<Rightarrow> 0 | Some e \<Rightarrow> kb_target e)"
    by (simp add: matcher_next_def r root_table split: option.splits)
  moreover have "node_of ws [l] = (case find (\<lambda>e. kb_label e = l) (out_edges nodes es 0) of
      None \<Rightarrow> - 1 | Some e \<Rightarrow> kb_target e)"
    using BuildTransition_spec [OF sh root(1), of l] root by (simp add: BuildTransition_def)
  moreover have "0 \<le> node_of ws [l]" if "[l] \<in> set ws" using node_ofE [OF sh that] by (metis of_nat_0_le_iff)
  moreover have "0 \<le> kb_target e" if "find (\<lambda>e. kb_label e = l) (out_edges nodes es 0) = Some e" for e
    using out_edge_target [OF sh root(1), of e] that nth_mem by (fastforce simp: find_Some_iff)
  ultimately show ?thesis
    using node_of_absent [of "[l]" ws] by (auto split: option.splits)
qed

lemma matcher_next_inner:
  assumes sh: "trie_shape nodes es ws" and s: "s < length ws" "s \<noteq> 0"
    and n: "km_nodes m = map (packed nodes es) [0..<length nodes]"
    and e: "km_edges m = segments nodes es [0..<length nodes]"
  shows "matcher_next m (int s) l = (if ws ! s @ [l] \<in> set ws then node_of ws (ws ! s @ [l]) else 0)"
proof -
  have len: "length nodes = length ws" using sh by (simp add: trie_shape_def)
  let ?A = "segments nodes es [0..<s]" and ?seg = "sort_edges (outgoing nodes es s)"
    and ?B = "segments nodes es [Suc s..<length nodes]"
  have "[0..<length nodes] = [0..<s] @ [s] @ [Suc s..<length nodes]"
    using s len upt_add_eq_append [of 0 s "length nodes - s"] by (simp add: upt_conv_Cons)
  then have es: "km_edges m = ?A @ ?seg @ ?B"
    using e by (simp add: segments_def)
  have node: "km_nodes m ! s = packed nodes es s" using n s len by simp
  have "distinct (map ke_label (outgoing nodes es s))"
    using out_edges_distinct [OF sh s(1)] by (simp add: outgoing_def comp_def)
  from distinct_card [OF this] have d: "distinct (map ke_label ?seg)"
    by (intro card_distinct) (simp add: sort_edges_spec(2,3))
  have "matcher_next m (int s) l = (case find (\<lambda>e. ke_label e = l) ?seg of None \<Rightarrow> 0 | Some e \<Rightarrow> ke_target e)"
    unfolding search_segment [OF sort_edges_spec(1) d, of ?A ?B l, symmetric]
    using s len n by (simp add: matcher_next_def Let_def es node packed_def nat_add_distrib sort_edges_spec(3))
  then show ?thesis using find_outgoing [OF sh s(1)] by simp
qed

definition packed_matcher ::
  "string list \<Rightarrow> keyword_node list \<Rightarrow> keyword_node list \<Rightarrow> build_edge list \<Rightarrow> keyword_matcher" where
  "packed_matcher ks nodes nodes' es = \<lparr>km_nodes = map (packed nodes' es) [0..<length nodes'],
     km_edges = segments nodes' es [0..<length nodes'],
     km_rootTransitions = foldl (\<lambda>r e. r[of_char (kb_label e) := kb_target e]) (replicate 256 0) (out_edges nodes es 0),
     km_keywords = ks\<rparr>"

lemma linked_matcher_ok:
  assumes sh: "trie_shape nodes es ws" and lk: "linked U ks nodes' es ws {..<length ws}"
  shows "matcher_ok U ks (packed_matcher ks nodes nodes' es) ws" (is "matcher_ok U ks ?m ws")
proof -
  have root: "ws \<noteq> []" "ws ! 0 = []" "distinct ws" using sh by (auto simp: trie_shape_def)
  have W: "set ws = words U ks" by (rule linked_words [OF lk])
  have next_ok: "matcher_next ?m (int s) l = (if ws ! s @ [l] \<in> words U ks then node_of ws (ws ! s @ [l]) else 0)"
    if "s < length ws" for s l
    using matcher_next_root [OF sh, of ?m l] matcher_next_inner [OF linked_shape [OF lk] that, of ?m l] root W
    by (cases "s = 0") (simp_all add: packed_matcher_def)
  have "kn_failure (km_nodes ?m ! s) = node_of ws (longest_suffix (words U ks) (tl (ws ! s)))"
    "kn_bestKeyword (km_nodes ?m ! s) = key_index U ks (\<lambda>p. suffix p (ws ! s))" if "s < length ws" for s
    using lk that linked_length [OF lk] by (simp_all add: linked_def packed_def packed_matcher_def)
  moreover have "length (km_nodes ?m) = length ws" "km_keywords ?m = ks"
    using linked_length [OF lk] by (simp_all add: packed_matcher_def)
  ultimately show ?thesis
    unfolding matcher_ok_def using root W next_ok by simp
qed

lemma set_patterns: "[] \<notin> set (patterns U ks) \<longleftrightarrow> (\<forall>k \<in> set ks. k \<noteq> '''' \<longrightarrow> ToLower U k \<noteq> '''')"
  unfolding patterns_def set_map set_filter image_iff by (metis (mono_tags, lifting) mem_Collect_eq)

text \<open>The constructor returns nil only when no keyword is left to match.\<close>

theorem newKeywordMatcher_built:
  assumes ne: "[] \<notin> set (patterns U ks)"
  shows "(newKeywordMatcher U ks = None \<and> patterns U ks = []) \<or>
    (\<exists>nodes nodes' es ws. newKeywordMatcher U ks = Some (packed_matcher ks nodes nodes' es) \<and>
       trie_shape nodes es ws \<and> linked U ks nodes' es ws {..<length ws})"
proof (cases "ks = []")
  case True
  then show ?thesis by (simp add: newKeywordMatcher_def patterns_def)
next
  case False
  obtain nodes es ws where b: "build_trie U ks = (nodes, es)"
    and I: "trie_inv nodes es ws (patterns U ks) (\<lambda>w. key_index U ks (\<lambda>p. p = w))"
    using build_trie_inv by blast
  have sh: "trie_shape nodes es ws" using I by (simp add: trie_inv_def)
  have lk: "linked U ks (link_queue (length nodes) es nodes (map kb_target (out_edges nodes es 0))) es ws {..<length ws}"
    by (rule link_queue_linked [OF I ne])
  show ?thesis
  proof (cases "length nodes = 1")
    case True
    then have "ws = [[]]" using sh by (cases ws) (auto simp: trie_shape_def)
    then have "words U ks = {[]}" using I by (auto simp: trie_inv_def)
    then have "patterns U ks = []"
      using ne node_words_member [of _ "patterns U ks"] by (cases "patterns U ks") fastforce+
    then show ?thesis using True False b by (simp add: newKeywordMatcher_def)
  next
    case len: False
    show ?thesis
      using sh lk False len b by (simp add: newKeywordMatcher_def Let_def pack_all packed_matcher_def) blast
  qed
qed

section \<open>Reading a text\<close>

lemma matcher_node:
  assumes "matcher_ok U ks m ws" "w \<in> words U ks"
  obtains t where "node_of ws w = int t" "t < length ws" "ws ! t = w"
  using assms node_of_eq [of ws] by (metis in_set_conv_nth matcher_ok_def)

lemma matcher_root: "matcher_ok U ks m ws \<Longrightarrow> node_of ws [] = 0"
  using node_of_eq [of ws 0] by (auto simp: matcher_ok_def)

lemma node_zero:
  assumes "matcher_ok U ks m ws" "w \<in> words U ks"
  shows "node_of ws w = 0 \<longleftrightarrow> w = []"
proof -
  obtain t where "node_of ws w = int t" "t < length ws" "ws ! t = w" using matcher_node [OF assms] .
  then show ?thesis using matcher_root [OF assms(1)] assms(1) by (auto simp: matcher_ok_def)
qed

lemma matcher_next_ok:
  "matcher_ok U ks m ws \<Longrightarrow> s < length ws \<Longrightarrow>
   matcher_next m (int s) l = (if ws ! s @ [l] \<in> words U ks then node_of ws (ws ! s @ [l]) else 0)"
  by (simp add: matcher_ok_def)

lemma advance_spec:
  assumes ok: "matcher_ok U ks m ws" and "x \<in> words U ks" "length x \<le> n"
  shows "advance n m (node_of ws x) l = node_of ws (longest_suffix (words U ks) (x @ [l]))"
  using assms(2,3)
proof (induction n arbitrary: x)
  case (0 x)
  have "matcher_next m (int 0) l = (if [l] \<in> words U ks then node_of ws [l] else 0)"
    using matcher_next_ok [OF ok, of 0 l] ok unfolding matcher_ok_def by (metis append_Nil length_greater_0_conv)
  then show ?case
    using 0 matcher_root [OF ok] node_zero [OF ok, of "[l]"] by (simp add: advance.simps [of 0])
next
  case (Suc n)
  obtain s where s: "node_of ws x = int s" "s < length ws" "ws ! s = x" using matcher_node [OF ok Suc.prems(1)] .
  have nx: "matcher_next m (int s) l = (if x @ [l] \<in> words U ks then node_of ws (x @ [l]) else 0)"
    and fl: "kn_failure (km_nodes m ! s) = node_of ws (longest_suffix (words U ks) (tl x))"
    using ok s by (auto simp: matcher_ok_def)
  show ?case
  proof (cases "x @ [l] \<in> words U ks")
    case True
    then show ?thesis using nx s node_zero [OF ok True] by (simp add: advance.simps [of "Suc n"])
  next
    case False
    show ?thesis
    proof (cases "x = []")
      case True
      then show ?thesis using nx s False matcher_root [OF ok] by (simp add: advance.simps [of "Suc n"])
    next
      case x: False
      let ?y = "longest_suffix (words U ks) (tl x)"
      have "length ?y < length x" using longest_suffix_length [of "words U ks" "tl x"] x by (cases x) auto
      then have "advance n m (node_of ws ?y) l = node_of ws (longest_suffix (words U ks) (x @ [l]))"
        using Suc.IH [of ?y] Suc.prems nw.longest_suffix_word nw.longest_suffix_fail [OF x False] by simp
      moreover have "s \<noteq> 0" using node_zero [OF ok Suc.prems(1)] x s by simp
      ultimately show ?thesis using nx s False fl by (simp add: advance.simps [of "Suc n"])
    qed
  qed
qed

lemma matcher_word_short:
  assumes "matcher_ok U ks m ws" "w \<in> words U ks"
  shows "length w < length (km_nodes m)"
proof -
  have "card (words U ks) = length ws" "finite (words U ks)"
    using assms(1) distinct_card [of ws] finite_set [of ws] by (simp_all add: matcher_ok_def)
  then show ?thesis using nw.word_length_less [OF _ assms(2)] assms(1) by (simp add: matcher_ok_def)
qed

definition keyword_at :: "string list \<Rightarrow> int \<Rightarrow> string \<times> bool" where
  "keyword_at ks i = (if i < 0 then ('''', False) else (ks ! nat i, True))"

lemma key_index_zero_mono:
  assumes "key_index U ks P = 0" "\<And>p. P p \<Longrightarrow> Q p"
  shows "key_index U ks Q = 0"
  using assms by (simp add: key_index_def first_index_zero_iff)

lemma scan_text_spec:
  assumes ok: "matcher_ok U ks m ws"
  shows "scan_text m (node_of ws (longest_suffix (words U ks) pre)) (key_index U ks (\<lambda>p. sublist p pre)) rest
    = keyword_at ks (key_index U ks (\<lambda>p. sublist p (pre @ rest)))"
proof (induction rest arbitrary: pre)
  case Nil
  then show ?case
    using ok key_index_range [of U ks "\<lambda>p. sublist p pre"] by (auto simp: keyword_at_def matcher_ok_def)
next
  case (Cons l rest)
  let ?x = "longest_suffix (words U ks) pre" and ?y = "longest_suffix (words U ks) (pre @ [l])"
  let ?best = "key_index U ks (\<lambda>p. sublist p (pre @ [l]))"
  obtain t where t: "node_of ws ?y = int t" "t < length ws" "ws ! t = ?y"
    using matcher_node [OF ok nw.longest_suffix_word] .
  have "advance (length (km_nodes m)) m (node_of ws ?x) l = int t"
    using advance_spec [OF ok nw.longest_suffix_word, of pre "length (km_nodes m)" l]
      matcher_word_short [OF ok nw.longest_suffix_word, of pre] nw.longest_suffix_snoc t(1) by simp
  moreover have "minKeywordIndex (key_index U ks (\<lambda>p. sublist p pre)) (kn_bestKeyword (km_nodes m ! t)) = ?best"
  proof -
    have "kn_bestKeyword (km_nodes m ! t) = key_index U ks (\<lambda>p. suffix p ?y)"
      using ok t by (simp add: matcher_ok_def)
    then show ?thesis
      unfolding \<open>kn_bestKeyword _ = _\<close> minKeywordIndex_key
      by (intro key_index_cong) (simp add: nw.sublist_snoc_iff [where ps = "patterns U ks"])
  qed
  ultimately have step: "scan_text m (node_of ws ?x) (key_index U ks (\<lambda>p. sublist p pre)) (l # rest) =
      (if ?best = 0 then (ks ! 0, True) else scan_text m (node_of ws ?y) ?best rest)"
    using ok t by (simp add: Let_def matcher_ok_def)
  show ?case
  proof (cases "?best = 0")
    case True
    then have "key_index U ks (\<lambda>p. sublist p (pre @ l # rest)) = 0"
      by (rule key_index_zero_mono) (metis append.assoc append_Cons append_Nil sublist_append)
    then show ?thesis using True step by (simp add: keyword_at_def)
  next
    case False
    then show ?thesis using step Cons.IH [of "pre @ [l]"] by simp
  qed
qed

section \<open>The plain search\<close>

lemma Contains_sublist: "Contains s t \<longleftrightarrow> sublist t s"
proof
  have pre: "HasPrefix (drop i s) t \<longleftrightarrow> prefix t (drop i s)" for i
    unfolding HasPrefix_def prefix_def by (metis append_eq_conv_conj append_take_drop_id)
  show "sublist t s" if c: "Contains s t"
  proof -
    obtain i where "prefix t (drop i s)" using c by (auto simp: Contains_def list_ex_iff pre)
    then show ?thesis using suffix_drop sublist_altdef' by blast
  qed
  show "Contains s t" if c: "sublist t s"
  proof -
    obtain u v where s: "s = u @ t @ v" using c by (auto simp: sublist_def)
    then have "HasPrefix (drop (length u) s) t" "length u \<in> set [0..<Suc (length s)]" by (simp_all add: pre)
    then show ?thesis unfolding Contains_def list_ex_iff by blast
  qed
qed

lemma keyword_loop_index:
  "keyword_loop U lower ks = keyword_at ks (key_index U ks (\<lambda>p. sublist p lower))"
proof -
  have "keyword_loop U lower ks = (case find (\<lambda>k. k \<noteq> '''' \<and> sublist (ToLower U k) lower) ks of
      None \<Rightarrow> ('''', False) | Some k \<Rightarrow> (k, True))"
    by (induction ks) (auto simp: Contains_sublist)
  then show ?thesis by (simp add: find_first_index Let_def keyword_at_def key_index_def)
qed

section \<open>Sizes\<close>

lemma card_node_words: "finite (node_words ps) \<and> card (node_words ps) \<le> Suc (sum_list (map length ps))"
proof (induction ps)
  case (Cons p ps)
  have "node_words (p # ps) = node_words ps \<union> (\<lambda>k. take k p) ` {1..length p}" (is "_ = _ \<union> ?T")
  proof -
    have "u \<in> (\<lambda>k. take k p) ` {1..length p}" if "prefix u p" "u \<noteq> []" for u
      using that by (intro image_eqI [of _ _ "length u"]) (auto simp: prefix_def Suc_le_eq)
    then show ?thesis by (auto simp: node_words_def take_is_prefix)
  qed
  moreover have "card ?T \<le> length p" using card_image_le [of "{1..length p}"] by simp
  ultimately show ?case using Cons card_Un_le [of "node_words ps" ?T] by auto
qed simp

lemma distinct_labels_256:
  fixes ls :: "char list"
  assumes "distinct ls"
  shows "length ls \<le> 256"
proof -
  have "inj_on (of_char :: char \<Rightarrow> nat) (set ls)" by (rule inj_onI) simp
  then have "card (set ls) = card ((of_char :: char \<Rightarrow> nat) ` set ls)" by (simp add: card_image)
  also have "\<dots> \<le> card {..<256::nat}" by (intro card_mono) auto
  finally show ?thesis using assms by (simp add: distinct_card)
qed

lemma segments_bound:
  "i < n \<Longrightarrow> length (segments nodes es [0..<i]) + length (outgoing nodes es i) \<le> length (segments nodes es [0..<n])"
proof (induction n)
  case (Suc n)
  then show ?case by (cases "i = n") (auto simp: segments_def sort_edges_spec(3))
qed simp

lemma segments_target:
  assumes sh: "trie_shape nodes es ws" and e: "e \<in> set (segments nodes es [0..<length nodes])"
  shows "0 < ke_target e \<and> ke_target e < int (length nodes)"
proof -
  obtain i where i: "i < length nodes" "e \<in> set (outgoing nodes es i)"
    using e by (auto simp: segments_def sort_edges_spec(2))
  obtain b where b: "b \<in> set (out_edges nodes es (int i))" "ke_target e = kb_target b"
    using i(2) by (auto simp: outgoing_def)
  have len: "length nodes = length ws" using sh by (simp add: trie_shape_def)
  obtain t where t: "kb_target b = int t" "t < length ws" "ws ! t = ws ! i @ [kb_label b]"
    using out_edge_target [OF sh _ b(1)] i(1) len by auto
  moreover have "t \<noteq> 0" using t(3) sh unfolding trie_shape_def by (metis append_is_Nil_conv not_Cons_self2)
  ultimately show ?thesis using b len by simp
qed

definition node_bounds :: "keyword_matcher \<Rightarrow> keyword_node \<Rightarrow> bool" where
  "node_bounds m node \<longleftrightarrow>
     0 \<le> kn_failure node \<and> kn_failure node < int (length (km_nodes m)) \<and>
     - 1 \<le> kn_bestKeyword node \<and> kn_bestKeyword node < int (length (km_keywords m)) \<and>
     0 \<le> kn_edgeStart node \<and> 0 \<le> kn_edgeCount node \<and> kn_edgeCount node \<le> 256 \<and>
     kn_edgeStart node + kn_edgeCount node \<le> int (length (km_edges m))"

lemma packed_matcher_bounds:
  assumes sh: "trie_shape nodes es ws" and lk: "linked U ks nodes' es ws {..<length ws}"
  shows "list_all (node_bounds (packed_matcher ks nodes nodes' es)) (km_nodes (packed_matcher ks nodes nodes' es))"
proof -
  let ?m = "packed_matcher ks nodes nodes' es"
  have len: "length nodes' = length ws" by (rule linked_length [OF lk])
  have ok: "matcher_ok U ks ?m ws" by (rule linked_matcher_ok [OF sh lk])
  have "node_bounds ?m (km_nodes ?m ! s)" if s: "s < length ws" for s
  proof -
    have node: "km_nodes ?m ! s = packed nodes' es s" using s len by (simp add: packed_matcher_def)
    obtain f where "kn_failure (km_nodes ?m ! s) = int f" "f < length ws"
      using matcher_node [OF ok nw.longest_suffix_word] ok s unfolding matcher_ok_def by metis
    moreover have "kn_bestKeyword (km_nodes ?m ! s) = key_index U ks (\<lambda>p. suffix p (ws ! s))"
      using ok s by (simp add: matcher_ok_def)
    moreover have "length (outgoing nodes' es s) \<le> 256"
      using distinct_labels_256 [OF out_edges_distinct [OF linked_shape [OF lk] s]] by (simp add: outgoing_def)
    ultimately show ?thesis
      using segments_bound [of s "length ws" nodes' es] key_index_range s len
      by (simp add: node_bounds_def) (simp add: node packed_def packed_matcher_def)
  qed
  then show ?thesis using len by (simp add: list_all_length packed_matcher_def)
qed

section \<open>Properties\<close>

lemma keyword_Match_plain:
  assumes ne: "[] \<notin> set (patterns U ks)"
  shows "keyword_Match U (newKeywordMatcher U ks) text = matchBlockedKeyword U text ks"
  using newKeywordMatcher_built [OF ne]
proof (elim disjE exE conjE)
  assume "newKeywordMatcher U ks = None" "patterns U ks = []"
  moreover from this have "key_index U ks (\<lambda>p. sublist p (ToLower U text)) = - 1"
    using key_index_cong [of U ks _ "\<lambda>p. False"] by (simp add: key_index_def)
  ultimately show ?thesis
    by (simp add: keyword_Match_def matchBlockedKeyword_def keyword_loop_index keyword_at_def)
next
  fix nodes nodes' es ws
  assume m: "newKeywordMatcher U ks = Some (packed_matcher ks nodes nodes' es)"
    and sh: "trie_shape nodes es ws" and lk: "linked U ks nodes' es ws {..<length ws}"
  have ok: "matcher_ok U ks (packed_matcher ks nodes nodes' es) ws" by (rule linked_matcher_ok [OF sh lk])
  have "key_index U ks (\<lambda>p. sublist p []) = key_index U ks (\<lambda>p. False)"
    using ne by (intro key_index_cong) auto
  then have "key_index U ks (\<lambda>p. sublist p []) = - 1" by (simp add: key_index_def)
  then show ?thesis
    using scan_text_spec [OF ok, of "[]" "ToLower U text"] ok m matcher_root [OF ok]
    by (auto simp: keyword_Match_def matchBlockedKeyword_def keyword_loop_index matcher_ok_def)
qed

text \<open>
  C5. The matcher is equivalent to the plain search it replaces: for every list of keywords and every
  text, \<open>Match\<close> on the built matcher returns what \<open>matchBlockedKeyword\<close> returns, the first listed keyword
  that occurs in the text without regard to case. It is assumed that lower-casing a string that is not
  empty does not give an empty string.
\<close>

theorem keyword_Match_equiv:
  assumes "\<forall>k \<in> set ks. k \<noteq> '''' \<longrightarrow> ToLower U k \<noteq> ''''"
  shows "keyword_Match U (newKeywordMatcher U ks) text = matchBlockedKeyword U text ks"
  using assms by (intro keyword_Match_plain) (simp add: set_patterns)

theorem keyword_Match_equiv_witness:
  "keyword_Match ascii_tables (newKeywordMatcher ascii_tables [''his'', '''', ''HE'', ''she'']) ''Ushers''
   = (''HE'', True)"
proof -
  have "matchBlockedKeyword ascii_tables ''Ushers'' [''his'', '''', ''HE'', ''she''] = (''HE'', True)" by code_simp
  moreover have "\<forall>k \<in> set [''his'', '''', ''HE'', ''she'']. k \<noteq> '''' \<longrightarrow> ToLower ascii_tables k \<noteq> ''''" by code_simp
  ultimately show ?thesis
    using keyword_Match_equiv [of "[''his'', '''', ''HE'', ''she'']" ascii_tables "''Ushers''"] by simp
qed

text \<open>
  C38. The sizes of a built matcher: it has at most one node more than the keywords have bytes, a node has
  at most 256 outgoing edges (so they fit the array they are sorted in and the 16-bit count), its edges
  lie within the slice of edges, failure links and edges lead to nodes, and the keyword of a node is a
  listed one or none. Hence no index that \<open>Match\<close> uses is out of range.
\<close>

theorem keyword_matcher_bounds:
  assumes "newKeywordMatcher U ks = Some m" "\<forall>k \<in> set ks. k \<noteq> '''' \<longrightarrow> ToLower U k \<noteq> ''''"
  shows "length (km_nodes m) \<le> Suc (sum_list (map length (patterns U ks))) \<and>
    length (km_rootTransitions m) = 256 \<and> km_keywords m = ks \<and>
    list_all (node_bounds m) (km_nodes m) \<and>
    list_all (\<lambda>e. 0 < ke_target e \<and> ke_target e < int (length (km_nodes m))) (km_edges m)"
proof -
  have ne: "[] \<notin> set (patterns U ks)" using assms(2) by (simp add: set_patterns)
  obtain nodes nodes' es ws where m: "m = packed_matcher ks nodes nodes' es"
    and sh: "trie_shape nodes es ws" and lk: "linked U ks nodes' es ws {..<length ws}"
    using newKeywordMatcher_built [OF ne] assms(1) by auto
  have len: "length nodes' = length ws" by (rule linked_length [OF lk])
  have "length ws = card (words U ks)"
    using linked_words [OF lk] sh distinct_card [of ws] by (simp add: trie_shape_def)
  then have "length (km_nodes m) \<le> Suc (sum_list (map length (patterns U ks)))"
    using card_node_words [of "patterns U ks"] len by (simp add: m packed_matcher_def)
  moreover have "length (foldl (\<lambda>r e. r[of_char (kb_label e) := kb_target e]) r out) = length r" 
    for r :: "int list" and out :: "build_edge list"
    by (induction out arbitrary: r) simp_all
  moreover have "list_all (\<lambda>e. 0 < ke_target e \<and> ke_target e < int (length (km_nodes m))) (km_edges m)"
    using segments_target [OF linked_shape [OF lk]] by (simp add: m packed_matcher_def list_all_iff)
  ultimately show ?thesis
    using packed_matcher_bounds [OF sh lk] by (simp add: m) (simp add: packed_matcher_def)
qed

theorem keyword_matcher_bounds_witness:
  "\<exists>m. newKeywordMatcher ascii_tables [''he'', ''She''] = Some m \<and> length (km_nodes m) \<le> 6 \<and>
     list_all (node_bounds m) (km_nodes m)"
proof -
  have "newKeywordMatcher ascii_tables [''he'', ''She''] \<noteq> None" by code_simp
  then obtain m where m: "newKeywordMatcher ascii_tables [''he'', ''She''] = Some m" by blast
  moreover have "\<forall>k \<in> set [''he'', ''She'']. k \<noteq> '''' \<longrightarrow> ToLower ascii_tables k \<noteq> ''''" by code_simp
  moreover have "sum_list (map length (patterns ascii_tables [''he'', ''She''])) = 5" by code_simp
  ultimately show ?thesis using keyword_matcher_bounds [OF m] by simp
qed

end
