(* ===== verification/Moderation_Properties.thy ===== *)
theory Moderation_Properties
  imports Moderation_Service Keyword_Equiv
begin

text \<open>
  What content moderation guarantees: in every reachable state the cached snapshot is a normalized
  configuration with the keyword matcher that belongs to it, whatever settings are edited, refreshed or
  changed by other instances in between; a request is blocked exactly when a keyword, a flagged hash or
  the audit says so; and the automatic ban disables exactly the users it should.
\<close>

section \<open>What does not touch the snapshot\<close>

named_theorems snapshot_frame \<open>operations that keep the cached snapshot\<close>

lemma mod_clock_snapshot [snapshot_frame]: "ms_runtimeSnapshot (snd (mod_clock st)) = ms_runtimeSnapshot st"
  by (simp add: mod_clock_def)

lemma mod_stmt_snapshot [snapshot_frame]: "ms_runtimeSnapshot (snd (mod_stmt f st)) = ms_runtimeSnapshot st"
  by (simp add: mod_stmt_def split: prod.splits)

lemma change_health_snapshot [snapshot_frame]: "ms_runtimeSnapshot (change_health E key f st) = ms_runtimeSnapshot st"
  by (simp add: change_health_def Let_def)

lemma key_call_snapshot [snapshot_frame]:
  "ms_runtimeSnapshot (beginModerationAPIKeyCall E key st) = ms_runtimeSnapshot st"
  "ms_runtimeSnapshot (finishModerationAPIKeyCall E key n b st) = ms_runtimeSnapshot st"
  by (simp_all add: beginModerationAPIKeyCall_def finishModerationAPIKeyCall_def snapshot_frame)

lemma key_mark_snapshot [snapshot_frame]:
  "ms_runtimeSnapshot (markAPIKeySuccess E key n h st) = ms_runtimeSnapshot st"
  "ms_runtimeSnapshot (markAPIKeyError E key t n h st) = ms_runtimeSnapshot st"
  by (simp_all add: markAPIKeySuccess_def markAPIKeyError_def mod_clock_def snapshot_frame Let_def)

lemma next_key_loop_snapshot: "ms_runtimeSnapshot (snd (next_key_loop E keys now n st)) = ms_runtimeSnapshot st"
  by (induction n arbitrary: st) (simp_all add: Let_def)

lemma nextUsableAPIKey_snapshot [snapshot_frame]:
  "ms_runtimeSnapshot (snd (nextUsableAPIKey E cfg st)) = ms_runtimeSnapshot st"
  by (simp add: nextUsableAPIKey_def mod_clock_def Let_def next_key_loop_snapshot)

lemma audit_attempts_snapshot:
  "ms_runtimeSnapshot (snd (audit_attempts E cfg inp t n st)) = ms_runtimeSnapshot st"
proof (induction E cfg inp t n st rule: audit_attempts.induct)
  case (1 E cfg inp t n st)
  obtain k st1 where k: "nextUsableAPIKey E cfg st = (k, st1)" by fastforce
  then have s1: "ms_runtimeSnapshot st1 = ms_runtimeSnapshot st"
    using nextUsableAPIKey_snapshot [of E cfg st] by simp
  show ?case
  proof (cases k)
    case None
    then show ?thesis using k s1 by (simp add: audit_attempts.simps [of E cfg inp t n st])
  next
    case (Some key)
    let ?st = "snd (mod_clock (if t then beginModerationAPIKeyCall E key st1 else st1))"
    obtain ans h where a: "me_audit E (ms_auditCalls ?st) cfg key inp = (ans, h)" by fastforce
    show ?thesis
      using 1 [OF k [symmetric] Some] k Some s1 a
      by (auto simp: audit_attempts.simps [of E cfg inp t n st] mod_clock_def Let_def snapshot_frame
          split: sum.splits nat.splits)
  qed
qed

lemma callModeration_snapshot [snapshot_frame]:
  "ms_runtimeSnapshot (snd (callModeration E cfg inp t st)) = ms_runtimeSnapshot st"
  by (simp add: callModeration_def audit_attempts_snapshot Let_def)

lemma queue_snapshot [snapshot_frame]:
  "ms_runtimeSnapshot (recordPreBlockSyncMetric n a st) = ms_runtimeSnapshot st"
  "ms_runtimeSnapshot (enqueueAsync i cfg c h st) = ms_runtimeSnapshot st"
  "ms_runtimeSnapshot (enqueueRecord i cfg l h b s st) = ms_runtimeSnapshot st"
  by (simp_all add: recordPreBlockSyncMetric_def enqueueAsync_def enqueueRecord_def send_task_def drop_task_def
      mod_clock_def Let_def)

lemma repo_snapshot [snapshot_frame]:
  "ms_runtimeSnapshot (snd (RecordFlaggedInputHash h st)) = ms_runtimeSnapshot st"
  "ms_runtimeSnapshot (snd (HasFlaggedInputHash h st)) = ms_runtimeSnapshot st"
  "ms_runtimeSnapshot (snd (mod_GetUser i st)) = ms_runtimeSnapshot st"
  "ms_runtimeSnapshot (snd (mod_UpdateUserStatus i s st)) = ms_runtimeSnapshot st"
  by (simp_all add: RecordFlaggedInputHash_def HasFlaggedInputHash_def mod_GetUser_def mod_UpdateUserStatus_def
      snapshot_frame Let_def)

lemma CreateLog_snapshot [snapshot_frame]: "ms_runtimeSnapshot (snd (CreateLog l st)) = ms_runtimeSnapshot st"
  by (simp add: CreateLog_def mod_clock_def mod_stmt_def Let_def split: prod.splits sum.splits)

lemma CountFlagged_snapshot [snapshot_frame]:
  "ms_runtimeSnapshot (snd (CountFlaggedByUserSince u t b st)) = ms_runtimeSnapshot st"
  by (simp add: CountFlaggedByUserSince_def mod_stmt_def split: prod.splits sum.splits)

lemma violation_count_snapshot [snapshot_frame]:
  "ms_runtimeSnapshot (snd (violation_count cfg u st)) = ms_runtimeSnapshot st"
  using CountFlagged_snapshot [of u _ "cm_CyberPolicyExcludeFromBanCount cfg" "snd (mod_clock st)"]
  by (auto simp: violation_count_def mod_clock_def Let_def split: prod.splits sum.splits)
    (metis snd_conv)+

lemma ban_user_snapshot [snapshot_frame]:
  "ms_runtimeSnapshot (snd (snd (ban_user u l st))) = ms_runtimeSnapshot st"
  by (simp add: ban_user_def mod_GetUser_def mod_UpdateUserStatus_def mod_stmt_def split: prod.splits sum.splits)

lemma side_effects_snapshot [snapshot_frame]:
  "ms_runtimeSnapshot (snd (snd (applyFlaggedAccountSideEffects cfg l st))) = ms_runtimeSnapshot st"
proof (cases "lo_UserID l")
  case (Some u)
  obtain n st1 where v: "violation_count cfg u st = (n, st1)" by fastforce
  then have "ms_runtimeSnapshot st1 = ms_runtimeSnapshot st" using violation_count_snapshot [of cfg u st] by simp
  then show ?thesis by (simp add: applyFlaggedAccountSideEffects_def Some v snapshot_frame Let_def)
qed (simp add: applyFlaggedAccountSideEffects_def)

lemma persist_snapshot [snapshot_frame]:
  "ms_runtimeSnapshot (persistContentModerationLog E cfg l h r s st) = ms_runtimeSnapshot st"
proof -
  let ?st = "if r then snd (RecordFlaggedInputHash h st) else st"
  obtain b l1 st1 where a: "applyFlaggedAccountSideEffects cfg l ?st = (b, l1, st1)" using prod_cases3 by blast
  then have "ms_runtimeSnapshot st1 = ms_runtimeSnapshot st"
    using side_effects_snapshot [of cfg l ?st] by (simp add: snapshot_frame split: if_splits)
  then show ?thesis
    using a by (cases r) (simp_all add: persistContentModerationLog_def snapshot_frame Let_def)
qed

lemma record_audit_snapshot [snapshot_frame]:
  "ms_runtimeSnapshot (record_audit E i cfg c h q b n scores st) = ms_runtimeSnapshot st"
  "ms_runtimeSnapshot (record_audit_failure E i cfg c q n err st) = ms_runtimeSnapshot st"
  by (simp_all add: record_audit_def record_audit_failure_def Let_def snapshot_frame split: prod.splits)

lemma checkSync_snapshot [snapshot_frame]:
  "ms_runtimeSnapshot (snd (checkSync E i cfg c h q b st)) = ms_runtimeSnapshot st"
proof -
  let ?t = "q = None \<and> b \<and> cm_Mode cfg = ContentModerationModePreBlock"
  let ?st = "snd (mod_clock (if ?t then st\<lparr>ms_preBlockActive := ms_preBlockActive st + 1\<rparr> else st))"
  obtain r st1 where r: "callModeration E cfg (ModerationInput E (ms_auditCalls ?st) c) ?t ?st = (r, st1)" by fastforce
  then have s1: "ms_runtimeSnapshot st1 = ms_runtimeSnapshot st"
    using callModeration_snapshot [of E cfg "ModerationInput E (ms_auditCalls ?st) c" ?t ?st]
    by (simp add: snapshot_frame split: if_splits)
  show ?thesis
    using r s1 by (cases ?t; cases r) (simp_all add: checkSync_def Let_def mod_clock_def snapshot_frame)
qed

lemma stages_snapshot [snapshot_frame]:
  "ms_runtimeSnapshot (snd (keyword_block E i cfg c h k st)) = ms_runtimeSnapshot st"
  "ms_runtimeSnapshot (snd (hash_block E i cfg c h st)) = ms_runtimeSnapshot st"
  "ms_runtimeSnapshot (snd (check_audit E i cfg c h st)) = ms_runtimeSnapshot st"
  by (simp_all add: keyword_block_def hash_block_def check_audit_def Let_def snapshot_frame)

lemma check_hash_snapshot [snapshot_frame]:
  "ms_runtimeSnapshot (snd (check_hash E i cfg c h st)) = ms_runtimeSnapshot st"
proof -
  obtain r st1 where r: "HasFlaggedInputHash h st = (r, st1)" by fastforce
  then have "ms_runtimeSnapshot st1 = ms_runtimeSnapshot st" using repo_snapshot(2) [of h st] by simp
  then show ?thesis using r by (simp add: check_hash_def snapshot_frame split: sum.splits bool.splits)
qed

lemma check_content_snapshot [snapshot_frame]:
  "ms_runtimeSnapshot (snd (check_content E i s c st)) = ms_runtimeSnapshot st"
  by (simp add: check_content_def Let_def snapshot_frame split: prod.splits)

lemma process_task_snapshot [snapshot_frame]:
  "ms_runtimeSnapshot (process_task E cfg t st) = ms_runtimeSnapshot st"
  by (simp add: process_task_def mod_clock_def Let_def snapshot_frame split: option.splits)

section \<open>The snapshot belongs to its configuration\<close>

definition snapshot_ok :: "mod_env \<Rightarrow> contentModerationRuntimeSnapshot \<Rightarrow> bool" where
  "snapshot_ok E s \<longleftrightarrow> config_ok (me_unicode E) (rs_config s) \<and>
     rs_keywordMatcher s = newKeywordMatcher (me_unicode E) (cm_BlockedKeywords (rs_config s))"

definition state_ok :: "mod_env \<Rightarrow> mod_state \<Rightarrow> bool" where
  "state_ok E st \<longleftrightarrow> (\<forall>s. ms_runtimeSnapshot st = Some s \<longrightarrow> snapshot_ok E s)"

lemma state_ok_frame: "ms_runtimeSnapshot st' = ms_runtimeSnapshot st \<Longrightarrow> state_ok E st' \<longleftrightarrow> state_ok E st"
  by (simp add: state_ok_def)

lemma parse_ok: "parseContentModerationConfig E raw = Inr cfg \<Longrightarrow> config_ok (me_unicode E) cfg"
  by (auto simp: parseContentModerationConfig_def config_normalize_ok split: if_splits option.splits)

lemma setting_snapshot [snapshot_frame]:
  "ms_runtimeSnapshot (snd (setting_GetValue k st)) = ms_runtimeSnapshot st"
  "ms_runtimeSnapshot (snd (setting_GetMultiple keys st)) = ms_runtimeSnapshot st"
  "ms_runtimeSnapshot (snd (setting_Set k v st)) = ms_runtimeSnapshot st"
  by (simp_all add: setting_GetValue_def setting_GetMultiple_def setting_Set_def snapshot_frame)

lemma refresh_ok:
  assumes ok: "state_ok E st" and r: "refreshRuntimeSnapshot E st = (res, st')"
  shows "state_ok E st' \<and> (\<forall>s. res = Inr s \<longrightarrow> snapshot_ok E s)"
proof -
  obtain v st1 where v: "setting_GetMultiple [SettingKeyRiskControlEnabled, SettingKeyContentModerationConfig] st = (v, st1)"
    by fastforce
  then have s1: "ms_runtimeSnapshot st1 = ms_runtimeSnapshot st"
    using setting_snapshot(2) [of _ st] by (metis snd_conv)
  have new: "snapshot_ok E \<lparr>rs_riskControlEnabled = b, rs_config = cfg,
      rs_keywordMatcher = newKeywordMatcher (me_unicode E) (cm_BlockedKeywords cfg),
      rs_configDigest = d, rs_loadedAt = t\<rparr>" if "parseContentModerationConfig E raw = Inr cfg" for b cfg d t raw
    using parse_ok [OF that] by (simp add: snapshot_ok_def)
  have keep: "snapshot_ok E \<lparr>rs_riskControlEnabled = b, rs_config = rs_config c, rs_keywordMatcher = rs_keywordMatcher c,
      rs_configDigest = d, rs_loadedAt = t\<rparr>" if "ms_runtimeSnapshot st = Some c" for b c d t
    using ok that by (simp add: snapshot_ok_def state_ok_def)
  show ?thesis
    using r ok s1 new keep
    by (cases v; cases "ms_runtimeSnapshot st")
      (auto simp: refreshRuntimeSnapshot_def v Let_def mod_clock_def state_ok_def split: if_splits sum.splits)
qed

lemma trigger_snapshot [snapshot_frame]: "ms_runtimeSnapshot (triggerRuntimeSnapshotRefresh st) = ms_runtimeSnapshot st"
  by (simp add: triggerRuntimeSnapshotRefresh_def runtimeRefreshDeferred_def mod_clock_def Let_def split: bool.splits)

lemma load_ok:
  assumes ok: "state_ok E st" and r: "loadRuntimeSnapshot E st = (res, st')"
  shows "state_ok E st' \<and> (\<forall>s. res = Inr s \<longrightarrow> snapshot_ok E s)"
proof -
  let ?st = "snd (mod_clock st)"
  have s1: "ms_runtimeSnapshot ?st = ms_runtimeSnapshot st" by (simp add: snapshot_frame)
  show ?thesis
  proof (cases "ms_runtimeSnapshot st")
    case None
    then have "refreshRuntimeSnapshot E ?st = (res, st')"
      using r by (simp add: loadRuntimeSnapshot_def mod_clock_def Let_def)
    then show ?thesis using refresh_ok ok state_ok_frame [OF s1] by blast
  next
    case (Some s)
    then have "ms_runtimeSnapshot st' = Some s" "res = Inr s"
      using r by (auto simp: loadRuntimeSnapshot_def mod_clock_def Let_def snapshot_frame split: if_splits)
    then show ?thesis using ok Some by (simp add: state_ok_def)
  qed
qed

lemma background_refresh_ok:
  assumes "state_ok E st"
  shows "state_ok E (background_refresh E st)"
proof -
  obtain r st1 where r: "refreshRuntimeSnapshot E st = (r, st1)" by fastforce
  then have "state_ok E st1" using refresh_ok [OF assms] by blast
  then show ?thesis
    using r assms by (simp add: background_refresh_def mod_clock_def state_ok_def Let_def split: sum.splits)
qed

lemma snapshot_snd: "f st = (r, st') \<Longrightarrow> ms_runtimeSnapshot (snd (f st)) = s \<Longrightarrow> ms_runtimeSnapshot st' = s"
  by simp

lemma loadConfig_snapshot [snapshot_frame]: "ms_runtimeSnapshot (snd (loadConfig E st)) = ms_runtimeSnapshot st"
  using setting_snapshot(1) [of SettingKeyContentModerationConfig st]
  by (cases "setting_GetValue SettingKeyContentModerationConfig st") (simp add: loadConfig_def split: sum.splits)

lemma validate_platforms_snapshot [snapshot_frame]:
  "ms_runtimeSnapshot (snd (validate_platforms cfg st)) = ms_runtimeSnapshot st"
proof -
  have "ms_runtimeSnapshot (snd (platform_ids st)) = ms_runtimeSnapshot st"
    by (simp add: platform_ids_def snapshot_frame)
  then show ?thesis
    by (cases "platform_ids st") (simp add: validate_platforms_def split: sum.splits option.splits)
qed

lemma validateConfig_snapshot [snapshot_frame]:
  "ms_runtimeSnapshot (snd (validateConfig E cfg st)) = ms_runtimeSnapshot st"
proof -
  let ?cfg = "config_normalize (me_unicode E) cfg"
  have fin: "ms_runtimeSnapshot (snd (case validate_platforms ?cfg s of (Some err, t) \<Rightarrow> (Inl err, t) | (None, t) \<Rightarrow> (Inr ?cfg, t)))
      = ms_runtimeSnapshot s" for s
    using validate_platforms_snapshot [of ?cfg s]
    by (cases "validate_platforms ?cfg s") (simp split: option.splits)
  have px: "ms_runtimeSnapshot (snd (proxy_exists i st)) = ms_runtimeSnapshot st" for i
    by (simp add: proxy_exists_def snapshot_frame)
  show ?thesis
  proof (cases "cm_ProxyID ?cfg")
    case None
    then show ?thesis using fin by (simp add: validateConfig_def Let_def)
  next
    case (Some i)
    then show ?thesis
      using fin px [of i] by (cases "proxy_exists i st") (simp add: validateConfig_def Let_def split: sum.splits)
  qed
qed

lemma replaceRuntimeConfig_ok:
  "state_ok E st \<Longrightarrow> config_ok (me_unicode E) cfg \<Longrightarrow> state_ok E (replaceRuntimeConfig E cfg raw st)"
  by (simp add: replaceRuntimeConfig_def mod_clock_def state_ok_def snapshot_ok_def split: option.splits)

lemma UpdateConfig_ok:
  assumes ok: "state_ok E st"
  shows "state_ok E (snd (UpdateConfig E input st))"
proof -
  obtain r1 st1 where 1: "loadConfig E st = (r1, st1)" by fastforce
  have ok1: "state_ok E st1"
    using ok state_ok_frame [OF loadConfig_snapshot [of E st]] by (simp add: 1)
  show ?thesis
  proof (cases r1)
    case (Inr cfg)
    let ?cfg = "update_api_keys (me_unicode E) (me_sha256 E) input (update_fields (me_unicode E) input cfg)"
    obtain r2 st2 where 2: "validateConfig E ?cfg st1 = (r2, st2)" by fastforce
    have ok2: "state_ok E st2"
      using ok1 state_ok_frame [OF validateConfig_snapshot [of E ?cfg st1]] by (simp add: 2)
    have set_ok: "state_ok E (snd (setting_Set k v st2))" for k v
      using ok2 state_ok_frame [OF setting_snapshot(3)] by blast
    show ?thesis
    proof (cases r2)
      case (Inr cfg')
      then show ?thesis
        using 1 2 \<open>r1 = Inr cfg\<close> ok2 set_ok replaceRuntimeConfig_ok [OF _ config_normalize_ok]
        by (auto simp: UpdateConfig_def Let_def split: sum.splits prod.splits) (metis snd_conv)+
    qed (use 1 2 Inr ok2 in \<open>simp add: UpdateConfig_def Let_def\<close>)
  qed (use 1 ok1 in \<open>simp add: UpdateConfig_def\<close>)
qed

lemma mod_Check_ok:
  assumes ok: "state_ok E st"
  shows "state_ok E (snd (mod_Check E input st))"
proof -
  obtain r st1 where r: "loadRuntimeSnapshot E st = (r, st1)" by fastforce
  then have "state_ok E st1" using load_ok [OF ok] by blast
  then show ?thesis
    using r state_ok_frame [OF check_content_snapshot]
    by (cases r) (simp_all add: mod_Check_def Let_def)
qed

lemma worker_step_ok:
  assumes ok: "state_ok E st"
  shows "state_ok E (worker_step E i st)"
proof -
  obtain r st1 where r: "loadRuntimeSnapshot E st = (r, st1)" by fastforce
  then have "state_ok E st1" using load_ok [OF ok] by blast
  moreover have "state_ok E (process_task E cfg t (st1\<lparr>ms_asyncQueue := q\<rparr>))" if "state_ok E st1" for cfg t q
    using that state_ok_frame [of "process_task E cfg t (st1\<lparr>ms_asyncQueue := q\<rparr>)" st1 E] process_task_snapshot by simp
  ultimately show ?thesis
    using r by (cases r) (simp_all add: worker_step_def split: list.splits)
qed

text \<open>
  The states the service can get into: requests, edits, background refreshes and workers in any order,
  and anything that other instances or administrators do to the tables in between.
\<close>

inductive mod_reach :: "mod_env \<Rightarrow> mod_state \<Rightarrow> bool" for E where
  start: "ms_runtimeSnapshot st = None \<Longrightarrow> mod_reach E st"
| check: "mod_reach E st \<Longrightarrow> mod_reach E (snd (mod_Check E input st))"
| edit: "mod_reach E st \<Longrightarrow> mod_reach E (snd (UpdateConfig E update st))"
| refresh: "mod_reach E st \<Longrightarrow> mod_reach E (background_refresh E st)"
| work: "mod_reach E st \<Longrightarrow> mod_reach E (worker_step E i st)"
| outside: "mod_reach E st \<Longrightarrow> mod_reach E (st\<lparr>ms_world := w\<rparr>)"

lemma mod_reach_ok: "mod_reach E st \<Longrightarrow> state_ok E st"
proof (induction rule: mod_reach.induct)
  case (start st)
  then show ?case by (simp add: state_ok_def)
next
  case (outside st w)
  then show ?case by (simp add: state_ok_def)
qed (simp_all add: mod_Check_ok UpdateConfig_ok background_refresh_ok worker_step_ok)

lemma snapshot_keyword:
  assumes "snapshot_ok E s" and "\<forall>k \<in> set (cm_BlockedKeywords (rs_config s)). ToLower (me_unicode E) k \<noteq> ''''"
  shows "snapshot_matchBlockedKeyword (me_unicode E) s text =
    matchBlockedKeyword (me_unicode E) text (cm_BlockedKeywords (rs_config s))"
proof -
  have "[] \<notin> set (patterns (me_unicode E) (cm_BlockedKeywords (rs_config s)))"
    using assms(2) by (simp add: set_patterns)
  then show ?thesis
    using assms(1) keyword_Match_plain by (simp add: snapshot_matchBlockedKeyword_def snapshot_ok_def)
qed

section \<open>When a request is blocked\<close>

definition in_scope :: "mod_env \<Rightarrow> ContentModerationCheckInput \<Rightarrow> contentModerationRuntimeSnapshot \<Rightarrow> bool" where
  "in_scope E input s \<longleftrightarrow>
     rs_riskControlEnabled s \<and> cm_Enabled (rs_config s) \<and> cm_Mode (rs_config s) \<noteq> ContentModerationModeOff \<and>
     includesPlatform (rs_config s) (ci_PlatformID input) \<and>
     includesModel (me_unicode E) (rs_config s) (ci_Model input) \<and>
     \<not> input_IsEmpty (me_extract E (ci_Protocol input) (ci_Body input))"

definition checked_content :: "mod_env \<Rightarrow> ContentModerationCheckInput \<Rightarrow> ContentModerationInput" where
  "checked_content E input = input_Normalize (me_extract E (ci_Protocol input) (ci_Body input))"

definition keyword_occurs :: "mod_env \<Rightarrow> ContentModerationConfig \<Rightarrow> string \<Rightarrow> bool" where
  "keyword_occurs E cfg text \<longleftrightarrow>
     cm_Mode cfg = ContentModerationModePreBlock \<and> cm_KeywordBlockingMode cfg \<noteq> ContentModerationKeywordModeAPIOnly \<and>
     text \<noteq> '''' \<and> list_ex (\<lambda>k. k \<noteq> '''' \<and> Contains (ToLower (me_unicode E) text) (ToLower (me_unicode E) k)) (cm_BlockedKeywords cfg)"

definition keywords_only :: "ContentModerationConfig \<Rightarrow> bool" where
  "keywords_only cfg \<longleftrightarrow> cm_Mode cfg = ContentModerationModePreBlock \<and>
     cm_KeywordBlockingMode cfg = ContentModerationKeywordModeKeywordOnly"

definition hash_flagged :: "ContentModerationConfig \<Rightarrow> string \<Rightarrow> mod_state \<Rightarrow> bool" where
  "hash_flagged cfg h st \<longleftrightarrow> cm_PreHashCheckEnabled cfg \<and> fst (HasFlaggedInputHash h st) = Inr True"

definition after_hash :: "ContentModerationConfig \<Rightarrow> string \<Rightarrow> mod_state \<Rightarrow> mod_state" where
  "after_hash cfg h st = (if cm_PreHashCheckEnabled cfg then snd (HasFlaggedInputHash h st) else st)"

text \<open>The answer of the audit API to this request, after its retries.\<close>

definition audit_answer ::
  "mod_env \<Rightarrow> ContentModerationConfig \<Rightarrow> ContentModerationInput \<Rightarrow> mod_state \<Rightarrow> (string \<times> float64) list result" where
  "audit_answer E cfg c st = fst (callModeration E cfg (ModerationInput E (ms_auditCalls st) c) True
     (snd (mod_clock (st\<lparr>ms_preBlockActive := ms_preBlockActive st + 1\<rparr>))))"

definition over_threshold :: "ContentModerationConfig \<Rightarrow> (string \<times> float64) list \<Rightarrow> bool" where
  "over_threshold cfg scores \<longleftrightarrow>
     list_ex (\<lambda>k. f_le (score_of (cm_Thresholds cfg) k) (score_of scores k)) contentModerationCategoryOrder"

definition audit_flags ::
  "mod_env \<Rightarrow> ContentModerationConfig \<Rightarrow> ContentModerationInput \<Rightarrow> string \<Rightarrow> mod_state \<Rightarrow> bool" where
  "audit_flags E cfg c h st \<longleftrightarrow>
     cm_Mode cfg = ContentModerationModePreBlock \<and> shouldSample cfg h \<and> config_apiKeys cfg \<noteq> [] \<and>
     (case audit_answer E cfg c st of Inl _ \<Rightarrow> False | Inr scores \<Rightarrow> over_threshold cfg scores)"

definition well_formed_decision :: "ContentModerationConfig \<Rightarrow> ContentModerationDecision \<Rightarrow> bool" where
  "well_formed_decision cfg d \<longleftrightarrow> cd_Allowed d = (\<not> cd_Blocked d) \<and>
     (cd_Blocked d \<longrightarrow> cd_StatusCode d = cm_BlockStatus cfg \<and> cd_Flagged d)"

lemma matchBlockedKeyword_hit:
  "snd (matchBlockedKeyword U text ks) \<longleftrightarrow>
     text \<noteq> '''' \<and> list_ex (\<lambda>k. k \<noteq> '''' \<and> Contains (ToLower U text) (ToLower U k)) ks"
proof -
  have "snd (keyword_loop U lower ks) \<longleftrightarrow> list_ex (\<lambda>k. k \<noteq> '''' \<and> Contains lower (ToLower U k)) ks" for lower
    by (induction ks) auto
  then show ?thesis by (simp add: matchBlockedKeyword_def)
qed

lemma audited_decision_blocked:
  "cd_Blocked (audited_decision cfg b scores) \<longleftrightarrow> audit_blocks cfg b scores"
  "well_formed_decision cfg (audited_decision cfg b scores)"
  by (simp_all add: audited_decision_def well_formed_decision_def split: prod.splits)

lemma allow_decision_simps [simp]:
  "cd_Blocked allow_decision = False" "well_formed_decision cfg allow_decision"
  by (simp_all add: allow_decision_def well_formed_decision_def)

lemma checkSync_blocked:
  "cd_Blocked (fst (checkSync E i cfg c h None True st)) \<longleftrightarrow> cm_Mode cfg = ContentModerationModePreBlock \<and>
     (case audit_answer E cfg c st of Inl _ \<Rightarrow> False | Inr scores \<Rightarrow> over_threshold cfg scores)"
  "well_formed_decision cfg (fst (checkSync E i cfg c h None True st))"
proof -
  let ?t = "cm_Mode cfg = ContentModerationModePreBlock"
  let ?st = "snd (mod_clock (if ?t then st\<lparr>ms_preBlockActive := ms_preBlockActive st + 1\<rparr> else st))"
  obtain r st1 where r: "callModeration E cfg (ModerationInput E (ms_auditCalls ?st) c) ?t ?st = (r, st1)" by fastforce
  have d: "fst (checkSync E i cfg c h None True st) =
      (case r of Inl _ \<Rightarrow> allow_decision | Inr scores \<Rightarrow> audited_decision cfg True scores)"
    using r by (cases ?t; cases r) (simp_all add: checkSync_def Let_def mod_clock_def)
  have "audit_answer E cfg c st = r" if ?t
    using r that by (simp add: audit_answer_def mod_clock_def)
  then show "cd_Blocked (fst (checkSync E i cfg c h None True st)) \<longleftrightarrow> ?t \<and>
     (case audit_answer E cfg c st of Inl _ \<Rightarrow> False | Inr scores \<Rightarrow> over_threshold cfg scores)"
    unfolding d by (cases r) (auto simp: audited_decision_blocked audit_blocks_def audit_flagged_def
        evaluateModerationScores_def over_threshold_def)
  show "well_formed_decision cfg (fst (checkSync E i cfg c h None True st))"
    unfolding d by (cases r) (simp_all add: audited_decision_blocked)
qed

lemma observe_not_preblock: "ContentModerationModePreBlock \<noteq> ContentModerationModeObserve"
  by (simp add: moderation_names)

lemma check_audit_blocked:
  "cd_Blocked (fst (check_audit E i cfg c h st)) \<longleftrightarrow> audit_flags E cfg c h st"
  "well_formed_decision cfg (fst (check_audit E i cfg c h st))"
  using checkSync_blocked observe_not_preblock
  by (auto simp: check_audit_def audit_flags_def Let_def)

lemma check_hash_blocked:
  "cd_Blocked (fst (check_hash E i cfg c h st)) \<longleftrightarrow> hash_flagged cfg h st \<or> audit_flags E cfg c h (after_hash cfg h st)"
  "well_formed_decision cfg (fst (check_hash E i cfg c h st))"
proof -
  obtain r st1 where r: "HasFlaggedInputHash h st = (r, st1)" by fastforce
  show "cd_Blocked (fst (check_hash E i cfg c h st)) \<longleftrightarrow> hash_flagged cfg h st \<or> audit_flags E cfg c h (after_hash cfg h st)"
    using r check_audit_blocked
    by (auto simp: check_hash_def hash_flagged_def after_hash_def hash_block_def Let_def split: sum.splits bool.splits)
  show "well_formed_decision cfg (fst (check_hash E i cfg c h st))"
    using r check_audit_blocked(2)
    by (auto simp: check_hash_def hash_block_def well_formed_decision_def Let_def split: sum.splits bool.splits)
qed

lemma check_content_blocked:
  assumes "snapshot_ok E s" and "\<forall>k \<in> set (cm_BlockedKeywords (rs_config s)). ToLower (me_unicode E) k \<noteq> ''''"
  shows "cd_Blocked (fst (check_content E i s c st)) \<longleftrightarrow>
      keyword_occurs E (rs_config s) (mi_Text c) \<or> \<not> keywords_only (rs_config s) \<and>
      (hash_flagged (rs_config s) (input_Hash E c) st \<or>
       audit_flags E (rs_config s) c (input_Hash E c) (after_hash (rs_config s) (input_Hash E c) st))"
    and "well_formed_decision (rs_config s) (fst (check_content E i s c st))"
proof -
  let ?cfg = "rs_config s" and ?U = "me_unicode E"
  obtain k b where k: "matchBlockedKeyword ?U (mi_Text c) (cm_BlockedKeywords ?cfg) = (k, b)" by fastforce
  have m: "snapshot_matchBlockedKeyword ?U s (mi_Text c) = (k, b)"
    using snapshot_keyword [OF assms] k by simp
  have hit: "keyword_occurs E ?cfg (mi_Text c) \<longleftrightarrow> cm_Mode ?cfg = ContentModerationModePreBlock \<and>
      cm_KeywordBlockingMode ?cfg \<noteq> ContentModerationKeywordModeAPIOnly \<and> cm_BlockedKeywords ?cfg \<noteq> [] \<and> b"
    using matchBlockedKeyword_hit [of ?U "mi_Text c" "cm_BlockedKeywords ?cfg"] k by (auto simp: keyword_occurs_def)
  show "cd_Blocked (fst (check_content E i s c st)) \<longleftrightarrow>
      keyword_occurs E ?cfg (mi_Text c) \<or> \<not> keywords_only ?cfg \<and>
      (hash_flagged ?cfg (input_Hash E c) st \<or>
       audit_flags E ?cfg c (input_Hash E c) (after_hash ?cfg (input_Hash E c) st))"
    unfolding hit by (auto simp: check_content_def m Let_def keyword_block_def keywords_only_def check_hash_blocked)
  show "well_formed_decision ?cfg (fst (check_content E i s c st))"
    by (auto simp: check_content_def m Let_def keyword_block_def check_hash_blocked)
      (simp_all add: well_formed_decision_def)
qed

section \<open>The automatic ban\<close>

abbreviation mod_tables :: "mod_state \<Rightarrow> mod_db" where
  "mod_tables st \<equiv> wd_db (ms_world st)"

definition user_violations :: "ContentModerationConfig \<Rightarrow> int \<Rightarrow> mod_state \<Rightarrow> int" where
  "user_violations cfg u st =
     (let since = now_of (ms_world st) + wrap64 (- wrap64 (cm_ViolationWindowHours cfg) * hour);
          logs = mb_logs (mod_tables st)
      in int (length (filter (counts_for_ban u since (cm_CyberPolicyExcludeFromBanCount cfg) logs) logs)))"

definition to_be_banned :: "ContentModerationConfig \<Rightarrow> int \<Rightarrow> mod_user \<Rightarrow> mod_state \<Rightarrow> bool" where
  "to_be_banned cfg u row st \<longleftrightarrow> cm_AutoBanEnabled cfg \<and> cm_BanThreshold cfg \<le> user_violations cfg u st + 1 \<and> \<not> IsAdmin row"

lemma mod_stmt_healthy:
  "healthy (ms_world st) \<Longrightarrow> mod_stmt f st = (fst (f (mod_tables st)),
     st\<lparr>ms_world := (ms_world st)\<lparr>wd_stmt := Suc (wd_stmt (ms_world st)), wd_db := snd (f (mod_tables st))\<rparr>\<rparr>)"
  by (simp add: mod_stmt_def sql_exec_healthy)

lemma violation_count_healthy:
  assumes "healthy (ms_world st)" "0 < cm_ViolationWindowHours cfg" "0 < u"
  shows "\<exists>st1. violation_count cfg u st = (user_violations cfg u st + 1, st1) \<and> healthy (ms_world st1) \<and>
    mod_tables st1 = mod_tables st \<and> ms_invalidated st1 = ms_invalidated st"
  using assms
  by (simp add: violation_count_def mod_clock_def CountFlaggedByUserSince_def mod_stmt_healthy user_violations_def Let_def)

lemma ban_user_healthy:
  assumes "healthy (ms_world st)" "mb_users (mod_tables st) u = Some row"
  shows "\<exists>b l' st1. ban_user u l st = (b, l', st1) \<and> healthy (ms_world st1) \<and>
    mb_users (mod_tables st1) = (mb_users (mod_tables st))(u \<mapsto> if IsAdmin row then row else row\<lparr>mu_Status := user_StatusDisabled\<rparr>) \<and>
    (b \<longleftrightarrow> \<not> IsAdmin row \<and> mu_Status row \<noteq> user_StatusDisabled) \<and>
    ms_invalidated st1 = ms_invalidated st @ (if b then [u] else []) \<and> lo_AutoBanned l' = (\<not> IsAdmin row \<or> lo_AutoBanned l)"
proof -
  have "row\<lparr>mu_Status := user_StatusDisabled\<rparr> = row" if "mu_Status row = user_StatusDisabled"
    using that by (cases row) simp
  then show ?thesis
    using assms by (auto simp: ban_user_def mod_GetUser_def mod_UpdateUserStatus_def mod_stmt_healthy)
qed

lemma side_effects_healthy:
  assumes w: "healthy (ms_world st)" and u: "lo_UserID l = Some u" "0 < u" "lo_Flagged l"
    and cfg: "config_ok U cfg" and row: "mb_users (mod_tables st) u = Some row"
  shows "\<exists>b l' st1. applyFlaggedAccountSideEffects cfg l st = (b, l', st1) \<and> healthy (ms_world st1) \<and>
    mb_users (mod_tables st1) = (mb_users (mod_tables st))
      (u \<mapsto> if to_be_banned cfg u row st then row\<lparr>mu_Status := user_StatusDisabled\<rparr> else row) \<and>
    ms_invalidated st1 = ms_invalidated st @
      (if to_be_banned cfg u row st \<and> mu_Status row \<noteq> user_StatusDisabled then [u] else [])"
proof -
  have pos: "0 < cm_ViolationWindowHours cfg" "0 < cm_BanThreshold cfg" using cfg by (auto simp: config_ok_def)
  obtain st1 where v: "violation_count cfg u st = (user_violations cfg u st + 1, st1)" "healthy (ms_world st1)"
    "mod_tables st1 = mod_tables st" "ms_invalidated st1 = ms_invalidated st"
    using violation_count_healthy [OF w pos(1) u(2)] by blast
  let ?l = "l\<lparr>lo_ViolationCount := user_violations cfg u st + 1\<rparr>"
  show ?thesis
  proof (cases "cm_AutoBanEnabled cfg \<and> cm_BanThreshold cfg \<le> user_violations cfg u st + 1")
    case True
    obtain b l' st2 where "ban_user u ?l st1 = (b, l', st2)" "healthy (ms_world st2)"
      "mb_users (mod_tables st2) = (mb_users (mod_tables st1))(u \<mapsto> if IsAdmin row then row else row\<lparr>mu_Status := user_StatusDisabled\<rparr>)"
      "b \<longleftrightarrow> \<not> IsAdmin row \<and> mu_Status row \<noteq> user_StatusDisabled"
      "ms_invalidated st2 = ms_invalidated st1 @ (if b then [u] else [])"
      using ban_user_healthy [OF v(2), of u row ?l] row v(3) by auto
    then show ?thesis
      using True u v pos by (auto simp: applyFlaggedAccountSideEffects_def to_be_banned_def Let_def)
  next
    case False
    then show ?thesis
      using u v pos row by (auto simp: applyFlaggedAccountSideEffects_def to_be_banned_def Let_def)
  qed
qed

lemma CreateLog_users:
  "mb_users (mod_tables (snd (CreateLog l st))) = mb_users (mod_tables st)"
  "ms_invalidated (snd (CreateLog l st)) = ms_invalidated st"
  by (auto simp: CreateLog_def mod_clock_def mod_stmt_def sql_exec_def Let_def split: prod.splits sum.splits option.splits)

lemma RecordHash_healthy:
  assumes "healthy (ms_world st)"
  shows "healthy (ms_world (snd (RecordFlaggedInputHash h st)))"
    "mb_users (mod_tables (snd (RecordFlaggedInputHash h st))) = mb_users (mod_tables st)"
    "mb_logs (mod_tables (snd (RecordFlaggedInputHash h st))) = mb_logs (mod_tables st)"
    "now_of (ms_world (snd (RecordFlaggedInputHash h st))) = now_of (ms_world st)"
    "ms_invalidated (snd (RecordFlaggedInputHash h st)) = ms_invalidated st"
  using assms by (simp_all add: RecordFlaggedInputHash_def mod_stmt_healthy Let_def)

section \<open>Properties\<close>

text \<open>
  C24. However requests, edits of the settings, background refreshes, workers and changes of the tables by
  others follow each other, with any failing statements, the snapshot the service has cached is
  normalized, and its keyword search answers as the plain search over the keywords of that same
  configuration: a matcher never outlives the keywords it was built from.
\<close>

theorem snapshot_consistent:
  assumes "mod_reach E st" and "ms_runtimeSnapshot st = Some s"
    and "\<forall>k \<in> set (cm_BlockedKeywords (rs_config s)). ToLower (me_unicode E) k \<noteq> ''''"
  shows "config_ok (me_unicode E) (rs_config s) \<and>
    snapshot_matchBlockedKeyword (me_unicode E) s text =
      matchBlockedKeyword (me_unicode E) text (cm_BlockedKeywords (rs_config s))"
proof -
  have "snapshot_ok E s" using mod_reach_ok [OF assms(1)] assms(2) by (simp add: state_ok_def)
  then show ?thesis using snapshot_keyword [OF _ assms(3)] by (simp add: snapshot_ok_def)
qed

text \<open>
  C6. When a request is blocked. If the configuration cannot be loaded, every request is refused with
  status 500. Otherwise a request is refused exactly when it is within the scope of moderation and a
  blocked keyword occurs in its text (in pre-block mode with keywords enabled), or, unless only keywords
  count, its hash is flagged, or in pre-block mode the audit answers with a score at a threshold; it then
  gets the configured status. A failing audit or hash lookup lets the request through.
\<close>

theorem Check_blocks_iff:
  assumes "mod_reach E st" and "loadRuntimeSnapshot E st = (r, st1)"
    and "\<forall>s. r = Inr s \<longrightarrow> (\<forall>k \<in> set (cm_BlockedKeywords (rs_config s)). ToLower (me_unicode E) k \<noteq> '''')"
  shows "case r of
      Inl err \<Rightarrow> fst (mod_Check E input st) = unavailable_decision
    | Inr s \<Rightarrow> let cfg = rs_config s; c = checked_content E input; h = input_Hash E c; d = fst (mod_Check E input st) in
        (cd_Blocked d \<longleftrightarrow> in_scope E input s \<and>
          (keyword_occurs E cfg (mi_Text c) \<or> \<not> keywords_only cfg \<and>
            (hash_flagged cfg h st1 \<or> audit_flags E cfg c h (after_hash cfg h st1)))) \<and>
        well_formed_decision cfg d"
proof (cases r)
  case (Inl err)
  then show ?thesis using assms(2) by (simp add: mod_Check_def)
next
  case (Inr s)
  have ok: "snapshot_ok E s" using load_ok [OF mod_reach_ok [OF assms(1)] assms(2)] Inr by blast
  have "fst (mod_Check E input st) =
      (if in_scope E input s then fst (check_content E input s (checked_content E input) st1) else allow_decision)"
    using assms(2) Inr by (simp add: mod_Check_def in_scope_def checked_content_def Let_def)
  then show ?thesis
    using check_content_blocked [OF ok] assms(3) Inr by (simp add: Let_def)
qed

text \<open>
  C25. Recording a flagged request on a working database disables its user exactly when the automatic ban
  is on, the earlier counted violations of the window and this one reach the threshold, and the user is
  not an administrator; nobody else's row changes, and the cached credentials of a user are dropped
  exactly when the ban is new.
\<close>

theorem auto_ban_spec:
  assumes "healthy (ms_world st)" and "config_ok U cfg" and "lo_UserID l = Some u" and "0 < u" and "lo_Flagged l"
    and "mb_users (mod_tables st) u = Some row"
  shows "mb_users (mod_tables (persistContentModerationLog E cfg l h rh True st)) = (mb_users (mod_tables st))
      (u \<mapsto> if to_be_banned cfg u row st then row\<lparr>mu_Status := user_StatusDisabled\<rparr> else row) \<and>
    ms_invalidated (persistContentModerationLog E cfg l h rh True st) = ms_invalidated st @
      (if to_be_banned cfg u row st \<and> mu_Status row \<noteq> user_StatusDisabled then [u] else [])"
proof -
  let ?st = "if rh then snd (RecordFlaggedInputHash h st) else st"
  note rec = RecordHash_healthy [OF assms(1), of h]
  have w: "healthy (ms_world ?st)" "mb_users (mod_tables ?st) u = Some row" using assms(1,6) rec by auto
  have b: "to_be_banned cfg u row ?st \<longleftrightarrow> to_be_banned cfg u row st"
    using rec by (auto simp: to_be_banned_def user_violations_def)
  obtain b l' st1 where a: "applyFlaggedAccountSideEffects cfg l ?st = (b, l', st1)"
    "mb_users (mod_tables st1) = (mb_users (mod_tables ?st))
      (u \<mapsto> if to_be_banned cfg u row ?st then row\<lparr>mu_Status := user_StatusDisabled\<rparr> else row)"
    "ms_invalidated st1 = ms_invalidated ?st @
      (if to_be_banned cfg u row ?st \<and> mu_Status row \<noteq> user_StatusDisabled then [u] else [])"
    using side_effects_healthy [OF w(1) assms(3-5,2) w(2)] by blast
  then have "persistContentModerationLog E cfg l h rh True st =
      snd (CreateLog (sendFlaggedNotificationSideEffects E cfg l' b) st1)"
    by (simp add: persistContentModerationLog_def Let_def)
  then show ?thesis using a(2,3) b rec by (cases rh) (simp_all add: CreateLog_users)
qed
section \<open>Witnesses\<close>

definition demo_config :: ContentModerationConfig where
  "demo_config = config_normalize ascii_tables
     (defaultContentModerationConfig\<lparr>cm_Enabled := True, cm_BlockedKeywords := [''bad'']\<rparr>)"

definition mod_demo_env :: mod_env where
  "mod_demo_env = \<lparr>me_unicode = ascii_tables, me_sha256 = (\<lambda>s. s),
     me_unmarshal = (\<lambda>raw cfg. Some (cfg\<lparr>cm_Enabled := True, cm_BlockedKeywords := [''bad'']\<rparr>)),
     me_marshal = (\<lambda>cfg. Inr ''{}''), me_url_ok = (\<lambda>u. True),
     me_extract = (\<lambda>protocol body. \<lparr>mi_Text = body, mi_Images = []\<rparr>), me_redact = (\<lambda>s. s),
     me_audit = (\<lambda>n cfg key inp. (Inl (Sentinel ''down''), 500)), me_cancelled = (\<lambda>n. False),
     me_random = (\<lambda>n. None), me_error_text = (\<lambda>e. ''error''),
     me_violation_mail = (\<lambda>l. True), me_disabled_mail = (\<lambda>l. True)\<rparr>"

definition demo_tables :: mod_db where
  "demo_tables = \<lparr>mb_settings = (\<lambda>k. None)(SettingKeyRiskControlEnabled \<mapsto> ''true'', SettingKeyContentModerationConfig \<mapsto> ''{}''),
     mb_hashes = {}, mb_logs = [], mb_nextLog = 1,
     mb_users = (\<lambda>u. None)(7 \<mapsto> \<lparr>mu_Role = ''user'', mu_Status = ''active''\<rparr>),
     mb_proxies = [], mb_platforms = []\<rparr>"

definition demo_mod_state :: mod_state where
  "demo_mod_state = \<lparr>ms_world = \<lparr>wd_db = demo_tables, wd_clock = (\<lambda>n. int n), wd_tick = 0,
       wd_fault = (\<lambda>n. None), wd_stmt = 0, wd_unique = (\<lambda>e. False)\<rparr>,
     ms_runtimeSnapshot = None, ms_runtimeCacheTTL = 0, ms_refreshLocked = False,
     ms_runtimeRefreshRetryAt = 0, ms_asyncQueue = [], ms_asyncActive = 0, ms_asyncEnqueued = 0,
     ms_asyncDropped = 0, ms_asyncProcessed = 0, ms_asyncErrors = 0, ms_preBlockActive = 0,
     ms_preBlockChecked = 0, ms_preBlockAllowed = 0, ms_preBlockBlocked = 0, ms_preBlockErrors = 0,
     ms_preBlockLatencyTotalMS = 0, ms_apiKeyCursor = 0, ms_keyHealth = (\<lambda>k. None), ms_auditCalls = 0,
     ms_invalidated = []\<rparr>"

definition mod_demo_request :: ContentModerationCheckInput where
  "mod_demo_request = \<lparr>ci_RequestID = ''r'', ci_UserID = 7, ci_UserEmail = '''', ci_APIKeyID = 1,
     ci_APIKeyName = ''k'', ci_PlatformID = None, ci_PlatformName = '''', ci_Endpoint = ''/v1'',
     ci_Provider = ''p'', ci_Model = ''m'', ci_Protocol = ''x'', ci_Body = ''so Bad''\<rparr>"

lemma demo_config_fields:
  "cm_Enabled demo_config" "cm_Mode demo_config = ContentModerationModePreBlock" "cm_AllPlatforms demo_config"
  "cm_BlockedKeywords demo_config = [''bad'']"
  "cm_KeywordBlockingMode demo_config = ContentModerationKeywordModeKeywordAndAPI"
  "mf_Type (cm_ModelFilter demo_config) = ContentModerationModelFilterAll"
proof -
  show "cm_BlockedKeywords demo_config = [''bad'']"
    by (simp add: demo_config_def config_normalize_def) code_simp
  show "mf_Type (cm_ModelFilter demo_config) = ContentModerationModelFilterAll"
    by (simp add: demo_config_def config_normalize_def defaultContentModerationConfig_def) code_simp
  show "cm_KeywordBlockingMode demo_config = ContentModerationKeywordModeKeywordAndAPI"
    by (simp add: demo_config_def config_normalize_def defaultContentModerationConfig_def) code_simp
  show "cm_Mode demo_config = ContentModerationModePreBlock"
    by (simp add: demo_config_def config_normalize_def defaultContentModerationConfig_def)
qed (simp_all add: demo_config_def config_normalize_def defaultContentModerationConfig_def)

lemma demo_load:
  "\<exists>s st1. loadRuntimeSnapshot mod_demo_env demo_mod_state = (Inr s, st1) \<and> ms_runtimeSnapshot st1 = Some s \<and>
     rs_riskControlEnabled s \<and> rs_config s = demo_config"
proof -
  have t: "TrimSpace ''{}'' \<noteq> ''''" by code_simp
  have "SettingKeyRiskControlEnabled \<noteq> SettingKeyContentModerationConfig"
    by (simp add: SettingKeyRiskControlEnabled_def SettingKeyContentModerationConfig_def)
  then show ?thesis
    by (simp add: loadRuntimeSnapshot_def refreshRuntimeSnapshot_def setting_GetMultiple_def mod_stmt_def sql_exec_def
        mod_clock_def demo_mod_state_def demo_tables_def given_def parseContentModerationConfig_def mod_demo_env_def
        demo_config_def Let_def t)
qed

lemma demo_reach: "mod_reach mod_demo_env demo_mod_state"
  by (rule mod_reach.start) (simp add: demo_mod_state_def)

lemma demo_unicode [simp]: "me_unicode mod_demo_env = ascii_tables"
  by (simp add: mod_demo_env_def)

lemma demo_keywords: "\<forall>k \<in> set (cm_BlockedKeywords demo_config). ToLower ascii_tables k \<noteq> ''''"
  unfolding demo_config_fields by code_simp

theorem snapshot_consistent_witness:
  "\<exists>s. ms_runtimeSnapshot (snd (mod_Check mod_demo_env mod_demo_request demo_mod_state)) = Some s \<and>
     snapshot_matchBlockedKeyword ascii_tables s ''so Bad'' = (''bad'', True)"
proof -
  obtain s st1 where s: "loadRuntimeSnapshot mod_demo_env demo_mod_state = (Inr s, st1)" "ms_runtimeSnapshot st1 = Some s"
    "rs_config s = demo_config" using demo_load by blast
  then have now: "ms_runtimeSnapshot (snd (mod_Check mod_demo_env mod_demo_request demo_mod_state)) = Some s"
    by (simp add: mod_Check_def Let_def snapshot_frame)
  have "matchBlockedKeyword ascii_tables ''so Bad'' [''bad''] = (''bad'', True)" by code_simp
  then show ?thesis
    using snapshot_consistent [OF mod_reach.check [OF demo_reach] now, of "''so Bad''"] now s(3) demo_keywords
    by (simp add: demo_config_fields)
qed

theorem Check_blocks_iff_witness:
  "cd_Blocked (fst (mod_Check mod_demo_env mod_demo_request demo_mod_state)) \<and>
   cd_StatusCode (fst (mod_Check mod_demo_env mod_demo_request demo_mod_state)) = cm_BlockStatus demo_config"
proof -
  obtain s st1 where s: "loadRuntimeSnapshot mod_demo_env demo_mod_state = (Inr s, st1)"
    "rs_riskControlEnabled s" "rs_config s = demo_config" using demo_load by blast
  have c: "mi_Text (checked_content mod_demo_env mod_demo_request) = ''so Bad''"
    by (simp add: checked_content_def mod_demo_env_def mod_demo_request_def input_Normalize_def) code_simp
  have k: "keyword_occurs mod_demo_env demo_config ''so Bad''"
    by (simp add: keyword_occurs_def demo_config_fields moderation_names) code_simp
  have "TrimSpace ''so Bad'' \<noteq> ''''" by code_simp
  moreover have "includesModel ascii_tables demo_config ''m''"
  proof -
    have "normalizeContentModerationModelFilterType ascii_tables ContentModerationModelFilterAll =
        ContentModerationModelFilterAll" by code_simp
    then show ?thesis
      by (simp add: includesModel_def normalizeContentModerationModelFilter_def demo_config_fields Let_def)
        (simp add: moderation_names)
  qed
  ultimately have "in_scope mod_demo_env mod_demo_request s"
    using s by (simp add: in_scope_def demo_config_fields moderation_names includesPlatform_def input_IsEmpty_def
        mod_demo_request_def mod_demo_env_def)
  then show ?thesis
    using Check_blocks_iff [OF demo_reach s(1), of mod_demo_request] s(3) demo_keywords k c
    by (simp add: Let_def well_formed_decision_def)
qed

theorem auto_ban_spec_witness:
  "mb_users (mod_tables (persistContentModerationLog mod_demo_env (demo_config\<lparr>cm_BanThreshold := 1\<rparr>)
     (buildLog mod_demo_env mod_demo_request demo_config ''block'' True ''hate'' (Fin 1) [] ''x'' None None '''')
     ''h'' False True demo_mod_state)) 7 = Some \<lparr>mu_Role = ''user'', mu_Status = ''disabled''\<rparr>"
proof -
  let ?cfg = "demo_config\<lparr>cm_BanThreshold := 1\<rparr>"
  let ?l = "buildLog mod_demo_env mod_demo_request demo_config ''block'' True ''hate'' (Fin 1) [] ''x'' None None ''''"
  have "config_ok ascii_tables demo_config" by (simp add: demo_config_def config_normalize_ok)
  then have ok: "config_ok ascii_tables ?cfg" by (simp add: config_ok_def)
  have h: "healthy (ms_world demo_mod_state)" by (simp add: healthy_def demo_mod_state_def)
  have row: "mb_users (mod_tables demo_mod_state) 7 = Some \<lparr>mu_Role = ''user'', mu_Status = ''active''\<rparr>"
    by (simp add: demo_mod_state_def demo_tables_def)
  have "to_be_banned ?cfg 7 \<lparr>mu_Role = ''user'', mu_Status = ''active''\<rparr> demo_mod_state"
    by (simp add: to_be_banned_def user_violations_def IsAdmin_def RoleAdmin_def demo_config_def config_normalize_def
        defaultContentModerationConfig_def Let_def demo_mod_state_def demo_tables_def)
  then show ?thesis
    using auto_ban_spec [OF h ok _ _ _ row, of ?l mod_demo_env "''h''" False]
    by (simp add: buildLog_def mod_demo_request_def user_StatusDisabled_def)
qed

end
