(* ===== verification/Price_Names.thy ===== *)
theory Price_Names
  imports Go_Strings Go_Float
begin

text \<open>
  How names of models and sizes are brought to the form prices are listed under
  (\<open>internal/service/openai_model_alias.go\<close>, \<open>openai_codex_transform.go\<close>, \<open>openai_images.go\<close>,
  \<open>image_billing_size.go\<close>, \<open>video_billing_resolution.go\<close> and the name functions of
  \<open>pricing_service.go\<close>).
\<close>

section \<open>Names of OpenAI models\<close>

definition lastOpenAIModelSegment :: "string \<Rightarrow> string" where
  "lastOpenAIModelSegment model = (let m = TrimSpace model in
     if m = '''' then ''''
     else TrimSpace (if Contains m ''/'' then last (SplitByte (CHR ''/'') m) else m))"

function collapse_dashes :: "string \<Rightarrow> string" where
  "collapse_dashes s = (if Contains s ''--'' then collapse_dashes (ReplaceAll s ''--'' ''-'') else s)"
  by pat_completeness auto
termination
  by (relation "measure length") (auto intro: ReplaceAll_shorter)

declare collapse_dashes.simps [simp del]

definition alias_replacements :: "(string \<times> string) list" where
  "alias_replacements = [
     (''gpt-5.4mini'', ''gpt-5.4-mini''), (''gpt-5.4nano'', ''gpt-5.4-nano''),
     (''gpt-5.3-codexspark'', ''gpt-5.3-codex-spark''), (''gpt-5.3codexspark'', ''gpt-5.3-codex-spark''),
     (''gpt-5.3codex'', ''gpt-5.3-codex'')]"

definition canonicalizeOpenAIModelAliasSpelling :: "unicode_tables \<Rightarrow> string \<Rightarrow> string" where
  "canonicalizeOpenAIModelAliasSpelling U model =
     (let model = ToLower U (lastOpenAIModelSegment model) in
      if model = '''' then ''''
      else let n = ReplaceAll model ''_'' ''-'';
               n = join_strings ''-'' (Fields n);
               n = collapse_dashes n;
               n = (if HasPrefix n ''gpt5'' then ''gpt-5'' @ TrimPrefix n ''gpt5'' else n)
           in if \<not> HasPrefix n ''gpt-'' \<and> \<not> Contains n ''codex'' then ''''
              else foldl (\<lambda>n (from, to). ReplaceAll n from to) n alias_replacements)"

definition codexModelMap :: "(string \<times> string) list" where
  "codexModelMap = [
    (''gpt-5.6-sol'', ''gpt-5.6-sol''), (''gpt-5.6-terra'', ''gpt-5.6-terra''),
    (''gpt-5.6-luna'', ''gpt-5.6-luna''), (''gpt-5.5'', ''gpt-5.5''), (''gpt-5.5-pro'', ''gpt-5.5-pro''),
    (''codex-auto-review'', ''codex-auto-review''), (''gpt-5.4'', ''gpt-5.4''),
    (''gpt-5.4-mini'', ''gpt-5.4-mini''), (''gpt-5.4-none'', ''gpt-5.4''), (''gpt-5.4-low'', ''gpt-5.4''),
    (''gpt-5.4-medium'', ''gpt-5.4''), (''gpt-5.4-high'', ''gpt-5.4''), (''gpt-5.4-xhigh'', ''gpt-5.4''),
    (''gpt-5.4-chat-latest'', ''gpt-5.4''), (''gpt-5.3'', ''gpt-5.3-codex''),
    (''gpt-5.3-none'', ''gpt-5.3-codex''), (''gpt-5.3-low'', ''gpt-5.3-codex''),
    (''gpt-5.3-medium'', ''gpt-5.3-codex''), (''gpt-5.3-high'', ''gpt-5.3-codex''),
    (''gpt-5.3-xhigh'', ''gpt-5.3-codex''), (''gpt-5.3-codex'', ''gpt-5.3-codex''),
    (''gpt-5.3-codex-spark'', ''gpt-5.3-codex-spark''), (''gpt-5.3-codex-low'', ''gpt-5.3-codex''),
    (''gpt-5.3-codex-medium'', ''gpt-5.3-codex''), (''gpt-5.3-codex-high'', ''gpt-5.3-codex''),
    (''gpt-5.3-codex-xhigh'', ''gpt-5.3-codex''), (''gpt-5.2'', ''gpt-5.2''),
    (''gpt-5.2-none'', ''gpt-5.2''), (''gpt-5.2-low'', ''gpt-5.2''), (''gpt-5.2-medium'', ''gpt-5.2''),
    (''gpt-5.2-high'', ''gpt-5.2''), (''gpt-5.2-xhigh'', ''gpt-5.2''), (''gpt-5'', ''gpt-5.4''),
    (''gpt-5-mini'', ''gpt-5.4''), (''gpt-5-nano'', ''gpt-5.4''), (''gpt-5.1'', ''gpt-5.4''),
    (''gpt-5.1-codex'', ''gpt-5.3-codex''), (''gpt-5.1-codex-max'', ''gpt-5.3-codex''),
    (''gpt-5.1-codex-mini'', ''gpt-5.3-codex''), (''gpt-5.2-codex'', ''gpt-5.2''),
    (''codex-mini-latest'', ''gpt-5.3-codex''), (''gpt-5-codex'', ''gpt-5.3-codex'')]"

definition codexModelLookupKey :: "unicode_tables \<Rightarrow> string \<Rightarrow> string" where
  "codexModelLookupKey U modelID = (let m = TrimSpace modelID in
     if m = '''' then ''''
     else let m = (if Contains m ''/'' then last (SplitByte (CHR ''/'') m) else m) in
       ToLower U (join_strings ''-'' (Fields m)))"

definition getNormalizedCodexModel :: "unicode_tables \<Rightarrow> string \<Rightarrow> string" where
  "getNormalizedCodexModel U modelID = (let key = codexModelLookupKey U modelID in
     if key = '''' then '''' else case map_of codexModelMap key of Some mapped \<Rightarrow> mapped | None \<Rightarrow> '''')"

definition digit_byte :: "char \<Rightarrow> bool" where
  "digit_byte c \<longleftrightarrow> byte_in c 0x30 0x39"

definition isCodexDateSuffix :: "string \<Rightarrow> bool" where
  "isCodexDateSuffix suf = (let parts = SplitByte (CHR ''-'') suf in
     map length parts = [4, 2, 2] \<and> list_all (list_all digit_byte) parts)"

definition isKnownCodexModelSuffix :: "string \<Rightarrow> bool" where
  "isKnownCodexModelSuffix suf =
     (suf \<in> set [''none'', ''minimal'', ''low'', ''medium'', ''high'', ''xhigh''] \<or> isCodexDateSuffix suf)"

text \<open>The switch over a canonical name that is in no table.\<close>

definition codex_family :: "string \<Rightarrow> string" where
  "codex_family n =
     (if Contains n ''gpt-5.6-sol'' then ''gpt-5.6-sol''
      else if Contains n ''gpt-5.6-terra'' then ''gpt-5.6-terra''
      else if Contains n ''gpt-5.6-luna'' then ''gpt-5.6-luna''
      else if n = ''gpt-5.6'' then ''gpt-5.6-sol''
      else if HasPrefix n ''gpt-5.6-'' then
        (let suf = TrimPrefix n ''gpt-5.6-'' in
         if suf = ''max'' \<or> isKnownCodexModelSuffix suf then ''gpt-5.6-sol'' else '''')
      else if Contains n ''gpt-5.5-pro'' then ''gpt-5.5-pro''
      else if Contains n ''gpt-5.5'' then ''gpt-5.5''
      else if Contains n ''gpt-5.4-mini'' then ''gpt-5.4-mini''
      else if Contains n ''gpt-5.4-nano'' then ''gpt-5.4-nano''
      else if Contains n ''gpt-5.4'' then ''gpt-5.4''
      else if Contains n ''gpt-5.2'' then ''gpt-5.2''
      else if Contains n ''gpt-5.3-codex-spark'' then ''gpt-5.3-codex-spark''
      else if Contains n ''gpt-5.3-codex'' then ''gpt-5.3-codex''
      else if Contains n ''gpt-5.3'' then ''gpt-5.3-codex''
      else if Contains n ''codex'' then ''gpt-5.3-codex''
      else if Contains n ''gpt-5'' then ''gpt-5.4''
      else '''')"

definition normalizeKnownOpenAICodexModel :: "unicode_tables \<Rightarrow> string \<Rightarrow> string" where
  "normalizeKnownOpenAICodexModel U model =
     (let n = canonicalizeOpenAIModelAliasSpelling U model in
      if n = '''' then ''''
      else let mapped = getNormalizedCodexModel U n in
        if mapped \<noteq> '''' then mapped
        else let mapped = (if HasSuffix n ''-openai-compact''
                           then getNormalizedCodexModel U (TrimSuffix n ''-openai-compact'') else '''') in
          if mapped \<noteq> '''' then mapped else codex_family n)"

definition isOpenAIGPT56Model :: "unicode_tables \<Rightarrow> string \<Rightarrow> bool" where
  "isOpenAIGPT56Model U model =
     (let n = canonicalizeOpenAIModelAliasSpelling U model; (suf, ok) = CutPrefix n ''gpt-5.6-'' in
      n = ''gpt-5.6'' \<or> ok \<and> (suf = ''max'' \<or> isKnownCodexModelSuffix suf) \<or>
      list_ex (\<lambda>p. n = p \<or> HasPrefix n (p @ ''-'')) [''gpt-5.6-sol'', ''gpt-5.6-terra'', ''gpt-5.6-luna''])"

definition usesOpenAILegacyLongContextPricing :: "string \<Rightarrow> bool" where
  "usesOpenAILegacyLongContextPricing n = (n = ''gpt-5.4'' \<or> n = ''gpt-5.5'' \<or> n = ''gpt-5.5-pro'')"

definition IsGPTImageGenerationModel :: "unicode_tables \<Rightarrow> string \<Rightarrow> bool" where
  "IsGPTImageGenerationModel U model = HasPrefix (ToLower U (TrimSpace model)) ''gpt-image-''"

definition isGrokImageGenerationModel :: "unicode_tables \<Rightarrow> string \<Rightarrow> bool" where
  "isGrokImageGenerationModel U model = (let m = ToLower U (TrimSpace model) in
     m = ''grok-imagine'' \<or> m = ''grok-imagine-edit'' \<or> HasPrefix m ''grok-imagine-image'')"

definition isOpenAIImageGenerationModel :: "unicode_tables \<Rightarrow> string \<Rightarrow> bool" where
  "isOpenAIImageGenerationModel U model =
     (IsGPTImageGenerationModel U model \<or> isGrokImageGenerationModel U model)"


section \<open>Names in the price catalog\<close>

definition normalizeGeminiThinkingTierAlias :: "string \<Rightarrow> string" where
  "normalizeGeminiThinkingTierAlias model =
     (if list_ex (\<lambda>tier. model = ''gemini-3.6-flash'' @ tier) [''-high'', ''-low'', ''-medium'', ''-tiered'']
      then ''gemini-3.6-flash'' else model)"

definition lastSegment :: "string \<Rightarrow> string" where
  "lastSegment model = (case LastIndex model ''/'' of Some i \<Rightarrow> drop (Suc i) model | None \<Rightarrow> model)"

definition after_last :: "string \<Rightarrow> string \<Rightarrow> string" where
  "after_last s t = (case LastIndex s t of Some i \<Rightarrow> drop (i + length t) s | None \<Rightarrow> s)"

definition normalizeModelNameForPricing :: "unicode_tables \<Rightarrow> string \<Rightarrow> string" where
  "normalizeModelNameForPricing U model =
     (let m = TrimSpace model;
          m = TrimLeftByte (CHR ''/'') m;
          m = TrimPrefix m ''models/'';
          m = TrimPrefix m ''publishers/google/models/'';
          m = after_last m ''/publishers/google/models/'';
          m = after_last m ''/models/'';
          m = TrimLeftByte (CHR ''/'') m;
          canonical = canonicalizeOpenAIModelAliasSpelling U m
      in if canonical \<noteq> '''' then
           (let (suf, ok) = CutPrefix canonical ''gpt-5.6-'' in
            if canonical = ''gpt-5.6'' then ''gpt-5.6-sol''
            else if ok \<and> (suf = ''max'' \<or> isKnownCodexModelSuffix suf) then ''gpt-5.6-sol''
            else canonical)
         else normalizeGeminiThinkingTierAlias m)"

text \<open>The candidates are trimmed, and empty or repeated ones are dropped.\<close>

fun candidates_loop :: "string list \<Rightarrow> string list \<Rightarrow> string list" where
  "candidates_loop seen [] = []"
| "candidates_loop seen (c # cs) = (let c = TrimSpace c in
     if c = '''' \<or> c \<in> set seen then candidates_loop seen cs else c # candidates_loop (c # seen) cs)"

definition buildModelLookupCandidates :: "unicode_tables \<Rightarrow> string \<Rightarrow> string list" where
  "buildModelLookupCandidates U modelLower =
     (let raw = [modelLower, TrimPrefix modelLower ''models/'', lastSegment modelLower,
                 lastSegment (TrimPrefix modelLower ''models/'')];
          n = normalizeModelNameForPricing U modelLower;
          candidates = (if normalizeGeminiThinkingTierAlias (lastSegment modelLower) \<noteq> lastSegment modelLower
                        then raw @ [n] else n # raw);
          out = candidates_loop [] candidates
      in if out = [] then [modelLower] else out)"

definition isNumeric :: "string \<Rightarrow> bool" where
  "isNumeric s = list_all digit_byte s"

definition extractBaseName :: "string \<Rightarrow> string" where
  "extractBaseName model = join_strings ''-''
     (filter (\<lambda>part. \<not> (length part = 8 \<and> isNumeric part) \<and> \<not> Contains part '':'') (SplitByte (CHR ''-'') model))"

text \<open>The regular expressions \<open>-\d{8}$\<close> and \<open>^(gpt-\d+(?:\.\d+)?)(?:-|$)\<close>.\<close>

definition strip_date :: "string \<Rightarrow> string" where
  "strip_date s = (let n = length s - 9 in
     if 9 \<le> length s \<and> s ! n = CHR ''-'' \<and> list_all digit_byte (drop (Suc n) s) then take n s else s)"

definition gpt_base :: "string \<Rightarrow> string option" where
  "gpt_base s = (let r = drop 4 s; d = takeWhile digit_byte r; r1 = dropWhile digit_byte r in
     if \<not> HasPrefix s ''gpt-'' \<or> d = [] then None
     else if r1 = [] \<or> hd r1 = CHR ''-'' then Some (''gpt-'' @ d)
     else if hd r1 = CHR ''.'' then
       (let e = takeWhile digit_byte (tl r1); r2 = dropWhile digit_byte (tl r1) in
        if e \<noteq> [] \<and> (r2 = [] \<or> hd r2 = CHR ''-'') then Some (''gpt-'' @ d @ ''.'' @ e) else None)
     else None)"

definition add_variant :: "string \<Rightarrow> string list \<Rightarrow> string \<Rightarrow> string list" where
  "add_variant model variants v = (if v \<noteq> model \<and> v \<notin> set variants then variants @ [v] else variants)"

definition generateOpenAIModelVariants :: "string \<Rightarrow> string list" where
  "generateOpenAIModelVariants model =
     (let withoutDate = strip_date model;
          vs = (if withoutDate \<noteq> model then add_variant model [] withoutDate else []);
          withoutPreview = TrimSuffix model ''-preview'';
          vs = (if withoutPreview \<noteq> model then add_variant model vs withoutPreview else vs);
          vs = (case gpt_base model of Some b \<Rightarrow> add_variant model vs b | None \<Rightarrow> vs)
      in if withoutDate \<noteq> model
         then (case gpt_base withoutDate of Some b \<Rightarrow> add_variant model vs b | None \<Rightarrow> vs) else vs)"

section \<open>Sizes of images and videos\<close>

definition ImageBillingSize1K :: string where "ImageBillingSize1K = ''1K''"
definition ImageBillingSize2K :: string where "ImageBillingSize2K = ''2K''"
definition ImageBillingSize4K :: string where "ImageBillingSize4K = ''4K''"

definition parseImageBillingDimensions :: "unicode_tables \<Rightarrow> string \<Rightarrow> (int \<times> int) option" where
  "parseImageBillingDimensions U sz =
     (case SplitByte (CHR ''x'') (ToLower U (TrimSpace sz)) of
        [w, h] \<Rightarrow> (case (Atoi (TrimSpace w), Atoi (TrimSpace h)) of
            (Some width, Some height) \<Rightarrow> if width \<le> 0 \<or> height \<le> 0 then None else Some (width, height)
          | _ \<Rightarrow> None)
      | _ \<Rightarrow> None)"

definition ClassifyImageBillingTier :: "unicode_tables \<Rightarrow> string \<Rightarrow> string option" where
  "ClassifyImageBillingTier U sz =
     (let trimmed = TrimSpace sz; n = ToLower U trimmed in
      if n = '''' \<or> n = ''auto'' then None
      else if n = ''1k'' then Some ImageBillingSize1K
      else if n = ''2k'' then Some ImageBillingSize2K
      else if n = ''4k'' then Some ImageBillingSize4K
      else if n = ''2048x2048'' \<or> n = ''2048x1152'' then Some ImageBillingSize2K
      else if n = ''3840x2160'' \<or> n = ''2160x3840'' then Some ImageBillingSize4K
      else case parseImageBillingDimensions U trimmed of
        None \<Rightarrow> None
      | Some (width, height) \<Rightarrow> let maxEdge = (if height > width then height else width) in
          if maxEdge \<le> 1024 then Some ImageBillingSize1K
          else if maxEdge \<le> 2048 then Some ImageBillingSize2K else Some ImageBillingSize4K)"

definition NormalizeImageBillingTierOrDefault :: "unicode_tables \<Rightarrow> string \<Rightarrow> string" where
  "NormalizeImageBillingTierOrDefault U sz =
     (case ClassifyImageBillingTier U sz of Some tier \<Rightarrow> tier | None \<Rightarrow> ImageBillingSize2K)"

definition VideoBillingResolution480P :: string where "VideoBillingResolution480P = ''480p''"
definition VideoBillingResolution720P :: string where "VideoBillingResolution720P = ''720p''"
definition VideoBillingResolution1080P :: string where "VideoBillingResolution1080P = ''1080p''"

definition NormalizeVideoBillingDurationSecondsOrDefault :: "int \<Rightarrow> int" where
  "NormalizeVideoBillingDurationSecondsOrDefault d =
     (if d \<le> 0 then 8 else if d < 1 then 1 else if d > 15 then 15 else d)"

definition NormalizeVideoBillingResolutionOrDefault :: "unicode_tables \<Rightarrow> string \<Rightarrow> string" where
  "NormalizeVideoBillingResolutionOrDefault U resolution = (let r = ToLower U (TrimSpace resolution) in
     if r \<in> set [''480'', ''480p'', ''sd''] then VideoBillingResolution480P
     else if r \<in> set [''720'', ''720p'', ''hd''] then VideoBillingResolution720P
     else if r \<in> set [''1080'', ''1080p'', ''full_hd'', ''full-hd'', ''fhd''] then VideoBillingResolution1080P
     else VideoBillingResolution480P)"


definition ImageSizeSourceOutput :: string where "ImageSizeSourceOutput = ''output''"
definition ImageSizeSourceInput :: string where "ImageSizeSourceInput = ''input''"
definition ImageSizeSourceDefault :: string where "ImageSizeSourceDefault = ''default''"

record ImageBillingSizeResolution =
  ir_BillingSize :: string
  ir_InputSize :: string
  ir_OutputSize :: string
  ir_Source :: string
  ir_Breakdown :: "(string \<times> int) list"

definition compactTrimmedStrings :: "string list \<Rightarrow> string list" where
  "compactTrimmedStrings values = filter (\<lambda>v. v \<noteq> '''') (map TrimSpace values)"

definition firstDisplayImageOutputSize :: "string list \<Rightarrow> string" where
  "firstDisplayImageOutputSize sizes = (case compactTrimmedStrings sizes of [] \<Rightarrow> '''' | s # _ \<Rightarrow> s)"

definition imageTierRank :: "unicode_tables \<Rightarrow> string \<Rightarrow> int" where
  "imageTierRank U tier = (let t = ToUpper U (TrimSpace tier) in
     if t = ImageBillingSize1K then 1 else if t = ImageBillingSize2K then 2 else if t = ImageBillingSize4K then 3 else 0)"

text \<open>The counts per tier, listed in the fixed order of the tiers; tiers that do not occur are left out.\<close>

definition normalizeImageSizeBreakdown :: "string list \<Rightarrow> (string \<times> int) list" where
  "normalizeImageSizeBreakdown tiers =
     filter (\<lambda>(t, n). 0 < n) (map (\<lambda>t. (t, int (length (filter (\<lambda>x. x = t) tiers))))
       [ImageBillingSize1K, ImageBillingSize2K, ImageBillingSize4K])"

definition output_tiers :: "unicode_tables \<Rightarrow> string list \<Rightarrow> string list" where
  "output_tiers U sizes = List.map_filter (ClassifyImageBillingTier U) sizes"

definition largest_tier :: "unicode_tables \<Rightarrow> string list \<Rightarrow> string" where
  "largest_tier U tiers = foldl (\<lambda>best t. if imageTierRank U t > imageTierRank U best then t else best) '''' tiers"

definition ResolveImageBillingSize :: "unicode_tables \<Rightarrow> string \<Rightarrow> string list \<Rightarrow> ImageBillingSizeResolution" where
  "ResolveImageBillingSize U inputSize outputSizes =
     (let inputSize = TrimSpace inputSize; outputSizes = compactTrimmedStrings outputSizes;
          outputSize = firstDisplayImageOutputSize outputSizes;
          tiers = output_tiers U outputSizes; outputTier = largest_tier U tiers
      in if outputTier \<noteq> '''' then
           \<lparr>ir_BillingSize = outputTier, ir_InputSize = inputSize, ir_OutputSize = outputSize,
            ir_Source = ImageSizeSourceOutput, ir_Breakdown = normalizeImageSizeBreakdown tiers\<rparr>
         else case ClassifyImageBillingTier U inputSize of
           Some tier \<Rightarrow> \<lparr>ir_BillingSize = tier, ir_InputSize = inputSize, ir_OutputSize = outputSize,
             ir_Source = ImageSizeSourceInput, ir_Breakdown = []\<rparr>
         | None \<Rightarrow> \<lparr>ir_BillingSize = ImageBillingSize2K, ir_InputSize = inputSize, ir_OutputSize = outputSize,
             ir_Source = ImageSizeSourceDefault, ir_Breakdown = []\<rparr>)"

lemma known_tier:
  "NormalizeImageBillingTierOrDefault U s \<in> {ImageBillingSize1K, ImageBillingSize2K, ImageBillingSize4K}"
  by (auto simp: NormalizeImageBillingTierOrDefault_def ClassifyImageBillingTier_def Let_def split: option.splits)

end
