(* ===== verification/Price_Types.thy ===== *)
theory Price_Types
  imports Price_Names App_Errors
begin

text \<open>
  The data of price calculation: prices of a model per token (\<open>internal/service/billing_service.go\<close>),
  the tokens of a request, its cost, and prices in intervals of context length with their validation
  (\<open>model_pricing_types.go\<close>). A decimal literal of the code is the nearest binary64 number; prices of
  the code's tables are written per million tokens. An \<open>int\<close> has 64 bits. The time stamps of an
  interval, which no code here reads, are left out.
\<close>

section \<open>Prices, usage and cost\<close>

definition per_mtok :: "rat \<Rightarrow> float64" where
  "per_mtok q = round64 (q / 1000000)"

definition f_of_int :: "int \<Rightarrow> float64" where
  "f_of_int n = round64 (of_int n)"

record ModelPricing =
  mp_InputPricePerToken :: float64
  mp_InputPriceExplicit :: bool
  mp_InputPricePerTokenPriority :: float64
  mp_ImageInputPricePerToken :: float64
  mp_ImageInputPriceExplicit :: bool
  mp_OutputPricePerToken :: float64
  mp_OutputPriceExplicit :: bool
  mp_OutputPricePerTokenPriority :: float64
  mp_CacheCreationPricePerToken :: float64
  mp_CacheCreationPricePerTokenPriority :: float64
  mp_CacheCreationPriceExplicit :: bool
  mp_CacheReadPricePerToken :: float64
  mp_CacheReadPriceExplicit :: bool
  mp_CacheReadPricePerTokenPriority :: float64
  mp_CacheCreation5mPrice :: float64
  mp_CacheCreation1hPrice :: float64
  mp_SupportsCacheBreakdown :: bool
  mp_LongContextInputThreshold :: int
  mp_LongContextInputMultiplier :: float64
  mp_LongContextOutputMultiplier :: float64
  mp_ImageOutputPricePerToken :: float64
  mp_ImageOutputPriceExplicit :: bool

definition no_pricing :: ModelPricing where
  "no_pricing = \<lparr>
     mp_InputPricePerToken = f_zero, mp_InputPriceExplicit = False, mp_InputPricePerTokenPriority = f_zero,
     mp_ImageInputPricePerToken = f_zero, mp_ImageInputPriceExplicit = False,
     mp_OutputPricePerToken = f_zero, mp_OutputPriceExplicit = False,
     mp_OutputPricePerTokenPriority = f_zero, mp_CacheCreationPricePerToken = f_zero,
     mp_CacheCreationPricePerTokenPriority = f_zero, mp_CacheCreationPriceExplicit = False,
     mp_CacheReadPricePerToken = f_zero, mp_CacheReadPriceExplicit = False,
     mp_CacheReadPricePerTokenPriority = f_zero, mp_CacheCreation5mPrice = f_zero,
     mp_CacheCreation1hPrice = f_zero, mp_SupportsCacheBreakdown = False, mp_LongContextInputThreshold = 0,
     mp_LongContextInputMultiplier = f_zero, mp_LongContextOutputMultiplier = f_zero,
     mp_ImageOutputPricePerToken = f_zero, mp_ImageOutputPriceExplicit = False\<rparr>"

record UsageTokens =
  ut_InputTokens :: int
  ut_ImageInputTokens :: int
  ut_OutputTokens :: int
  ut_CacheCreationTokens :: int
  ut_CacheReadTokens :: int
  ut_CacheCreation5mTokens :: int
  ut_CacheCreation1hTokens :: int
  ut_ImageOutputTokens :: int

definition no_tokens :: UsageTokens where
  "no_tokens = \<lparr>ut_InputTokens = 0, ut_ImageInputTokens = 0, ut_OutputTokens = 0, ut_CacheCreationTokens = 0,
     ut_CacheReadTokens = 0, ut_CacheCreation5mTokens = 0, ut_CacheCreation1hTokens = 0, ut_ImageOutputTokens = 0\<rparr>"

record CostBreakdown =
  co_InputCost :: float64
  co_ImageInputCost :: float64
  co_OutputCost :: float64
  co_ImageOutputCost :: float64
  co_CacheCreationCost :: float64
  co_CacheReadCost :: float64
  co_TotalCost :: float64
  co_ActualCost :: float64
  co_BillingMode :: string
  co_LongContextBillingApplied :: bool

definition no_cost :: CostBreakdown where
  "no_cost = \<lparr>co_InputCost = f_zero, co_ImageInputCost = f_zero, co_OutputCost = f_zero, co_ImageOutputCost = f_zero,
     co_CacheCreationCost = f_zero, co_CacheReadCost = f_zero, co_TotalCost = f_zero, co_ActualCost = f_zero,
     co_BillingMode = '''', co_LongContextBillingApplied = False\<rparr>"

definition BillingModeToken :: string where "BillingModeToken = ''token''"
definition BillingModePerRequest :: string where "BillingModePerRequest = ''per_request''"
definition BillingModeImage :: string where "BillingModeImage = ''image''"
definition BillingModeVideo :: string where "BillingModeVideo = ''video''"

lemmas billing_modes = BillingModeToken_def BillingModePerRequest_def BillingModeImage_def BillingModeVideo_def

definition mode_IsValid :: "string \<Rightarrow> bool" where
  "mode_IsValid m \<longleftrightarrow> m \<in> set [BillingModeToken, BillingModePerRequest, BillingModeImage, '''']"

definition IsValidUsageFilter :: "string \<Rightarrow> bool" where
  "IsValidUsageFilter m \<longleftrightarrow>
     m \<in> set [BillingModeToken, BillingModePerRequest, BillingModeImage, BillingModeVideo, '''']"

section \<open>Intervals of context length\<close>

record PricingInterval =
  iv_MinTokens :: int
  iv_MaxTokens :: "int option"
  iv_TierLabel :: string
  iv_InputPrice :: "float64 option"
  iv_OutputPrice :: "float64 option"
  iv_CacheWritePrice :: "float64 option"
  iv_CacheReadPrice :: "float64 option"
  iv_PerRequestPrice :: "float64 option"
  iv_SortOrder :: int

definition in_interval :: "int \<Rightarrow> PricingInterval \<Rightarrow> bool" where
  "in_interval t iv \<longleftrightarrow>
     t > iv_MinTokens iv \<and> (case iv_MaxTokens iv of None \<Rightarrow> True | Some m \<Rightarrow> t \<le> m)"

definition FindMatchingInterval :: "PricingInterval list \<Rightarrow> int \<Rightarrow> PricingInterval option" where
  "FindMatchingInterval intervals totalTokens = List.find (in_interval totalTokens) intervals"

definition interval_label :: "nat \<Rightarrow> string" where
  "interval_label i = ''interval #'' @ Itoa (int i + 1)"

definition negative_price :: "float64 option \<Rightarrow> bool" where
  "negative_price p = (case p of None \<Rightarrow> False | Some v \<Rightarrow> f_less v f_zero)"

definition validateIntervalPrices :: "PricingInterval \<Rightarrow> nat \<Rightarrow> go_error option" where
  "validateIntervalPrices iv i =
     (case List.find (\<lambda>(name, v). negative_price v)
        [(''input_price'', iv_InputPrice iv), (''output_price'', iv_OutputPrice iv),
         (''cache_write_price'', iv_CacheWritePrice iv), (''cache_read_price'', iv_CacheReadPrice iv),
         (''per_request_price'', iv_PerRequestPrice iv)] of
        None \<Rightarrow> None
      | Some (name, _) \<Rightarrow> Some (Sentinel (interval_label i @ '': '' @ name @ '' must be >= 0'')))"

definition validateSingleInterval :: "PricingInterval \<Rightarrow> nat \<Rightarrow> go_error option" where
  "validateSingleInterval iv i =
     (if iv_MinTokens iv < 0
      then Some (Sentinel (interval_label i @ '': min_tokens ('' @ Itoa (iv_MinTokens iv) @ '') must be >= 0''))
      else case iv_MaxTokens iv of
        None \<Rightarrow> validateIntervalPrices iv i
      | Some m \<Rightarrow>
          if m \<le> 0
          then Some (Sentinel (interval_label i @ '': max_tokens ('' @ Itoa m @ '') must be > 0''))
          else if m \<le> iv_MinTokens iv
          then Some (Sentinel (interval_label i @ '': max_tokens ('' @ Itoa m @ '') must be > min_tokens ('' @
                 Itoa (iv_MinTokens iv) @ '')''))
          else validateIntervalPrices iv i)"

definition formatMaxTokensLabel :: "int option \<Rightarrow> string" where
  "formatMaxTokensLabel m = (case m of None \<Rightarrow> ''unbounded'' | Some v \<Rightarrow> Itoa v)"

fun overlap_loop :: "nat \<Rightarrow> PricingInterval option \<Rightarrow> PricingInterval list \<Rightarrow> go_error option" where
  "overlap_loop i previous [] = None"
| "overlap_loop i previous (iv # ivs) =
     (if iv_MaxTokens iv = None \<and> ivs \<noteq> []
      then Some (Sentinel (interval_label i @ '': unbounded interval (max_tokens=null) must be the last one''))
      else case previous of
        None \<Rightarrow> overlap_loop (Suc i) (Some iv) ivs
      | Some p \<Rightarrow>
          if (case iv_MaxTokens p of None \<Rightarrow> True | Some m \<Rightarrow> m > iv_MinTokens iv)
          then Some (Sentinel (''interval #'' @ Itoa (int i) @ '' and #'' @ Itoa (int i + 1) @ '' overlap: prev max='' @
                 formatMaxTokensLabel (iv_MaxTokens p) @ '' > cur min='' @ Itoa (iv_MinTokens iv)))
          else overlap_loop (Suc i) (Some iv) ivs)"

definition validateIntervalOverlap :: "PricingInterval list \<Rightarrow> go_error option" where
  "validateIntervalOverlap intervals = overlap_loop 0 None intervals"

fun single_loop :: "nat \<Rightarrow> PricingInterval list \<Rightarrow> go_error option" where
  "single_loop i [] = None"
| "single_loop i (iv # ivs) =
     (case validateSingleInterval iv i of Some e \<Rightarrow> Some e | None \<Rightarrow> single_loop (Suc i) ivs)"

definition min_less :: "PricingInterval \<Rightarrow> PricingInterval \<Rightarrow> bool" where
  "min_less a b \<longleftrightarrow> iv_MinTokens a < iv_MinTokens b"

text \<open>
  \<open>sort.Slice\<close> may order intervals with the same lower end either way; they overlap in both orders, so
  only the wording of the error depends on it.
\<close>

definition ValidateIntervals :: "PricingInterval list \<Rightarrow> go_error option" where
  "ValidateIntervals intervals =
     (if intervals = [] then None
      else let sorted = stable_sort min_less intervals in
        case single_loop 0 sorted of Some e \<Rightarrow> Some e | None \<Rightarrow> validateIntervalOverlap sorted)"

definition filterValidIntervals :: "PricingInterval list \<Rightarrow> PricingInterval list" where
  "filterValidIntervals intervals = filter (\<lambda>iv.
     iv_InputPrice iv \<noteq> None \<or> iv_OutputPrice iv \<noteq> None \<or> iv_CacheWritePrice iv \<noteq> None \<or>
     iv_CacheReadPrice iv \<noteq> None \<or> iv_PerRequestPrice iv \<noteq> None) intervals"

end
