(* ===== verification/Price_Fallback.thy ===== *)
theory Price_Fallback
  imports Price_Types
begin

text \<open>
  The prices built into the code (\<open>initFallbackPricing\<close>, \<open>getFallbackPricing\<close> of
  \<open>internal/service/billing_service.go\<close>), used when the price catalog has none. The Go map from names to
  pointers is an association list; an entry also says under which name its record was created, since
  several names share one pointer and the code compares pointers. The list has the order in which a
  loop over the map happens to run.
\<close>

section \<open>The built-in prices\<close>

definition openAIGPT54LongContextInputThreshold :: int where
  "openAIGPT54LongContextInputThreshold = 272000"
definition openAIGPT54LongContextInputMultiplier :: float64 where
  "openAIGPT54LongContextInputMultiplier = Fin 2"
definition openAIGPT54LongContextOutputMultiplier :: float64 where
  "openAIGPT54LongContextOutputMultiplier = Fin 1.5"

definition price_claude_opus_4_5 :: ModelPricing where
  "price_claude_opus_4_5 = no_pricing\<lparr>mp_InputPricePerToken := per_mtok 5, mp_OutputPricePerToken := per_mtok 25,
     mp_CacheCreationPricePerToken := per_mtok 6.25, mp_CacheReadPricePerToken := per_mtok 0.5\<rparr>"

definition price_claude_sonnet_4 :: ModelPricing where
  "price_claude_sonnet_4 = no_pricing\<lparr>mp_InputPricePerToken := per_mtok 3, mp_OutputPricePerToken := per_mtok 15,
     mp_CacheCreationPricePerToken := per_mtok 3.75, mp_CacheReadPricePerToken := per_mtok 0.3\<rparr>"

definition price_claude_3_5_sonnet :: ModelPricing where
  "price_claude_3_5_sonnet = no_pricing\<lparr>mp_InputPricePerToken := per_mtok 3, mp_OutputPricePerToken := per_mtok 15,
     mp_CacheCreationPricePerToken := per_mtok 3.75, mp_CacheReadPricePerToken := per_mtok 0.3\<rparr>"

definition price_claude_3_5_haiku :: ModelPricing where
  "price_claude_3_5_haiku = no_pricing\<lparr>mp_InputPricePerToken := per_mtok 1, mp_OutputPricePerToken := per_mtok 5,
     mp_CacheCreationPricePerToken := per_mtok 1.25, mp_CacheReadPricePerToken := per_mtok 0.1\<rparr>"

definition price_claude_3_opus :: ModelPricing where
  "price_claude_3_opus = no_pricing\<lparr>mp_InputPricePerToken := per_mtok 15, mp_OutputPricePerToken := per_mtok 75,
     mp_CacheCreationPricePerToken := per_mtok 18.75, mp_CacheReadPricePerToken := per_mtok 1.5\<rparr>"

definition price_claude_3_haiku :: ModelPricing where
  "price_claude_3_haiku = no_pricing\<lparr>mp_InputPricePerToken := per_mtok 0.25, mp_OutputPricePerToken := per_mtok 1.25,
     mp_CacheCreationPricePerToken := per_mtok 0.3, mp_CacheReadPricePerToken := per_mtok 0.03\<rparr>"

definition price_gemini_3_1_pro :: ModelPricing where
  "price_gemini_3_1_pro = no_pricing\<lparr>mp_InputPricePerToken := per_mtok 2, mp_OutputPricePerToken := per_mtok 12,
     mp_CacheCreationPricePerToken := per_mtok 2, mp_CacheReadPricePerToken := per_mtok 0.2\<rparr>"

definition price_gemini_3_6_flash :: ModelPricing where
  "price_gemini_3_6_flash = no_pricing\<lparr>mp_InputPricePerToken := per_mtok 1.5, mp_OutputPricePerToken := per_mtok 7.5,
     mp_CacheReadPricePerToken := per_mtok 0.15\<rparr>"

definition price_gpt_5_4 :: ModelPricing where
  "price_gpt_5_4 = no_pricing\<lparr>mp_InputPricePerToken := per_mtok 2.5, mp_InputPricePerTokenPriority := per_mtok 5,
     mp_OutputPricePerToken := per_mtok 15, mp_OutputPricePerTokenPriority := per_mtok 30,
     mp_CacheCreationPricePerToken := per_mtok 2.5, mp_CacheReadPricePerToken := per_mtok 0.25,
     mp_CacheReadPricePerTokenPriority := per_mtok 0.5,
     mp_LongContextInputThreshold := openAIGPT54LongContextInputThreshold,
     mp_LongContextInputMultiplier := openAIGPT54LongContextInputMultiplier,
     mp_LongContextOutputMultiplier := openAIGPT54LongContextOutputMultiplier\<rparr>"

definition price_gpt_5_6_sol :: ModelPricing where
  "price_gpt_5_6_sol = no_pricing\<lparr>mp_InputPricePerToken := per_mtok 5, mp_InputPricePerTokenPriority := per_mtok 10,
     mp_OutputPricePerToken := per_mtok 30, mp_OutputPricePerTokenPriority := per_mtok 60,
     mp_CacheCreationPricePerToken := per_mtok 6.25,
     mp_CacheCreationPricePerTokenPriority := per_mtok 12.5, mp_CacheReadPricePerToken := per_mtok 0.5,
     mp_CacheReadPricePerTokenPriority := per_mtok 1,
     mp_LongContextInputThreshold := openAIGPT54LongContextInputThreshold,
     mp_LongContextInputMultiplier := openAIGPT54LongContextInputMultiplier,
     mp_LongContextOutputMultiplier := openAIGPT54LongContextOutputMultiplier\<rparr>"

definition price_gpt_5_6_terra :: ModelPricing where
  "price_gpt_5_6_terra = no_pricing\<lparr>mp_InputPricePerToken := per_mtok 2, mp_InputPricePerTokenPriority := per_mtok 4,
     mp_OutputPricePerToken := per_mtok 12, mp_OutputPricePerTokenPriority := per_mtok 24,
     mp_CacheCreationPricePerToken := per_mtok 2.5, mp_CacheCreationPricePerTokenPriority := per_mtok 5,
     mp_CacheReadPricePerToken := per_mtok 0.2, mp_CacheReadPricePerTokenPriority := per_mtok 0.4,
     mp_LongContextInputThreshold := openAIGPT54LongContextInputThreshold,
     mp_LongContextInputMultiplier := openAIGPT54LongContextInputMultiplier,
     mp_LongContextOutputMultiplier := openAIGPT54LongContextOutputMultiplier\<rparr>"

definition price_gpt_5_6_luna :: ModelPricing where
  "price_gpt_5_6_luna = no_pricing\<lparr>mp_InputPricePerToken := per_mtok 0.2, mp_InputPricePerTokenPriority := per_mtok 0.4,
     mp_OutputPricePerToken := per_mtok 1.2, mp_OutputPricePerTokenPriority := per_mtok 2.4,
     mp_CacheCreationPricePerToken := per_mtok 0.25,
     mp_CacheCreationPricePerTokenPriority := per_mtok 0.5, mp_CacheReadPricePerToken := per_mtok 0.02,
     mp_CacheReadPricePerTokenPriority := per_mtok 0.04,
     mp_LongContextInputThreshold := openAIGPT54LongContextInputThreshold,
     mp_LongContextInputMultiplier := openAIGPT54LongContextInputMultiplier,
     mp_LongContextOutputMultiplier := openAIGPT54LongContextOutputMultiplier\<rparr>"

definition price_gpt_5_4_mini :: ModelPricing where
  "price_gpt_5_4_mini = no_pricing\<lparr>mp_InputPricePerToken := per_mtok 0.75, mp_OutputPricePerToken := per_mtok 4.5,
     mp_CacheReadPricePerToken := per_mtok 0.075\<rparr>"

definition price_gpt_5_4_nano :: ModelPricing where
  "price_gpt_5_4_nano = no_pricing\<lparr>mp_InputPricePerToken := per_mtok 0.2, mp_OutputPricePerToken := per_mtok 1.25,
     mp_CacheReadPricePerToken := per_mtok 0.02\<rparr>"

definition price_gpt_5_2 :: ModelPricing where
  "price_gpt_5_2 = no_pricing\<lparr>mp_InputPricePerToken := per_mtok 1.75, mp_InputPricePerTokenPriority := per_mtok 3.5,
     mp_OutputPricePerToken := per_mtok 14, mp_OutputPricePerTokenPriority := per_mtok 28,
     mp_CacheCreationPricePerToken := per_mtok 1.75, mp_CacheReadPricePerToken := per_mtok 0.175,
     mp_CacheReadPricePerTokenPriority := per_mtok 0.35\<rparr>"

definition price_gpt_5_3_codex :: ModelPricing where
  "price_gpt_5_3_codex = no_pricing\<lparr>mp_InputPricePerToken := per_mtok 1.5, mp_InputPricePerTokenPriority := per_mtok 3,
     mp_OutputPricePerToken := per_mtok 12, mp_OutputPricePerTokenPriority := per_mtok 24,
     mp_CacheCreationPricePerToken := per_mtok 1.5, mp_CacheReadPricePerToken := per_mtok 0.15,
     mp_CacheReadPricePerTokenPriority := per_mtok 0.3\<rparr>"

definition price_deepseek_v4_pro :: ModelPricing where
  "price_deepseek_v4_pro = no_pricing\<lparr>mp_InputPricePerToken := per_mtok 0.435, mp_OutputPricePerToken := per_mtok 0.87,
     mp_CacheReadPricePerToken := per_mtok 0.003625\<rparr>"

definition price_deepseek_v4_flash :: ModelPricing where
  "price_deepseek_v4_flash = no_pricing\<lparr>mp_InputPricePerToken := per_mtok 0.14, mp_OutputPricePerToken := per_mtok 0.28,
     mp_CacheReadPricePerToken := per_mtok 0.0028\<rparr>"

definition price_glm_5_2 :: ModelPricing where
  "price_glm_5_2 = no_pricing\<lparr>mp_InputPricePerToken := per_mtok 1.4, mp_OutputPricePerToken := per_mtok 4.4,
     mp_CacheReadPricePerToken := per_mtok 0.26\<rparr>"

definition price_glm_5_1 :: ModelPricing where
  "price_glm_5_1 = no_pricing\<lparr>mp_InputPricePerToken := per_mtok 1.4, mp_OutputPricePerToken := per_mtok 4.4,
     mp_CacheReadPricePerToken := per_mtok 0.26\<rparr>"

definition price_glm_5 :: ModelPricing where
  "price_glm_5 = no_pricing\<lparr>mp_InputPricePerToken := per_mtok 1, mp_OutputPricePerToken := per_mtok 3.2,
     mp_CacheReadPricePerToken := per_mtok 0.2\<rparr>"

definition price_glm_5_turbo :: ModelPricing where
  "price_glm_5_turbo = no_pricing\<lparr>mp_InputPricePerToken := per_mtok 1.2, mp_OutputPricePerToken := per_mtok 4,
     mp_CacheReadPricePerToken := per_mtok 0.24\<rparr>"

definition price_glm_4_7 :: ModelPricing where
  "price_glm_4_7 = no_pricing\<lparr>mp_InputPricePerToken := per_mtok 0.6, mp_OutputPricePerToken := per_mtok 2.2,
     mp_CacheReadPricePerToken := per_mtok 0.11\<rparr>"

definition price_glm_4_7_flashx :: ModelPricing where
  "price_glm_4_7_flashx = no_pricing\<lparr>mp_InputPricePerToken := per_mtok 0.07, mp_OutputPricePerToken := per_mtok 0.4,
     mp_CacheReadPricePerToken := per_mtok 0.01\<rparr>"

definition price_glm_4_6 :: ModelPricing where
  "price_glm_4_6 = no_pricing\<lparr>mp_InputPricePerToken := per_mtok 0.6, mp_OutputPricePerToken := per_mtok 2.2,
     mp_CacheReadPricePerToken := per_mtok 0.11\<rparr>"

definition price_glm_4_5 :: ModelPricing where
  "price_glm_4_5 = no_pricing\<lparr>mp_InputPricePerToken := per_mtok 0.6, mp_OutputPricePerToken := per_mtok 2.2,
     mp_CacheReadPricePerToken := per_mtok 0.11\<rparr>"

definition price_glm_4_5_x :: ModelPricing where
  "price_glm_4_5_x = no_pricing\<lparr>mp_InputPricePerToken := per_mtok 2.2, mp_OutputPricePerToken := per_mtok 8.9,
     mp_CacheReadPricePerToken := per_mtok 0.45\<rparr>"

definition price_glm_4_5_air :: ModelPricing where
  "price_glm_4_5_air = no_pricing\<lparr>mp_InputPricePerToken := per_mtok 0.2, mp_OutputPricePerToken := per_mtok 1.1,
     mp_CacheReadPricePerToken := per_mtok 0.03\<rparr>"

definition price_glm_4_5_airx :: ModelPricing where
  "price_glm_4_5_airx = no_pricing\<lparr>mp_InputPricePerToken := per_mtok 1.1, mp_OutputPricePerToken := per_mtok 4.5,
     mp_CacheReadPricePerToken := per_mtok 0.22\<rparr>"

definition price_glm_4_32b_0414_128k :: ModelPricing where
  "price_glm_4_32b_0414_128k = no_pricing\<lparr>mp_InputPricePerToken := per_mtok 0.1, mp_OutputPricePerToken := per_mtok 0.1\<rparr>"

definition price_glm_4_5_flash :: ModelPricing where
  "price_glm_4_5_flash = no_pricing"

definition price_glm_4_7_flash :: ModelPricing where
  "price_glm_4_7_flash = no_pricing"

definition price_kimi_k3 :: ModelPricing where
  "price_kimi_k3 = no_pricing\<lparr>mp_InputPricePerToken := per_mtok 3, mp_OutputPricePerToken := per_mtok 15,
     mp_CacheReadPricePerToken := per_mtok 0.3\<rparr>"

definition price_kimi_k2_6 :: ModelPricing where
  "price_kimi_k2_6 = no_pricing\<lparr>mp_InputPricePerToken := per_mtok 0.95, mp_OutputPricePerToken := per_mtok 4,
     mp_CacheReadPricePerToken := per_mtok 0.15\<rparr>"

definition price_kimi_for_coding :: ModelPricing where
  "price_kimi_for_coding = no_pricing\<lparr>mp_InputPricePerToken := per_mtok 0.95, mp_OutputPricePerToken := per_mtok 4,
     mp_CacheReadPricePerToken := per_mtok 0.15\<rparr>"

definition price_kimi_k2_5 :: ModelPricing where
  "price_kimi_k2_5 = no_pricing\<lparr>mp_InputPricePerToken := per_mtok 0.6, mp_OutputPricePerToken := per_mtok 3,
     mp_CacheReadPricePerToken := per_mtok 0.098\<rparr>"

definition price_kimi_k2_thinking :: ModelPricing where
  "price_kimi_k2_thinking = no_pricing\<lparr>mp_InputPricePerToken := per_mtok 0.56, mp_OutputPricePerToken := per_mtok 2.24,
     mp_CacheReadPricePerToken := per_mtok 0.14\<rparr>"

definition price_kimi_k2 :: ModelPricing where
  "price_kimi_k2 = no_pricing\<lparr>mp_InputPricePerToken := per_mtok 0.56, mp_OutputPricePerToken := per_mtok 2.24,
     mp_CacheReadPricePerToken := per_mtok 0.14\<rparr>"

definition price_minimax_m3 :: ModelPricing where
  "price_minimax_m3 = no_pricing\<lparr>mp_InputPricePerToken := per_mtok 0.6, mp_OutputPricePerToken := per_mtok 2.4,
     mp_CacheReadPricePerToken := per_mtok 0.12\<rparr>"

definition price_minimax_m2_7 :: ModelPricing where
  "price_minimax_m2_7 = no_pricing\<lparr>mp_InputPricePerToken := per_mtok 0.3, mp_OutputPricePerToken := per_mtok 1.2,
     mp_CacheReadPricePerToken := per_mtok 0.06\<rparr>"

definition price_minimax_m2_7_highspeed :: ModelPricing where
  "price_minimax_m2_7_highspeed = no_pricing\<lparr>mp_InputPricePerToken := per_mtok 0.6, mp_OutputPricePerToken := per_mtok 2.4,
     mp_CacheReadPricePerToken := per_mtok 0.06\<rparr>"

definition price_minimax_m2_5 :: ModelPricing where
  "price_minimax_m2_5 = no_pricing\<lparr>mp_InputPricePerToken := per_mtok 0.3, mp_OutputPricePerToken := per_mtok 1.2,
     mp_CacheReadPricePerToken := per_mtok 0.03\<rparr>"

definition price_minimax_m2_1 :: ModelPricing where
  "price_minimax_m2_1 = no_pricing\<lparr>mp_InputPricePerToken := per_mtok 0.3, mp_OutputPricePerToken := per_mtok 1.2,
     mp_CacheReadPricePerToken := per_mtok 0.03\<rparr>"

definition price_minimax_m2 :: ModelPricing where
  "price_minimax_m2 = no_pricing\<lparr>mp_InputPricePerToken := per_mtok 0.3, mp_OutputPricePerToken := per_mtok 1.2,
     mp_CacheReadPricePerToken := per_mtok 0.03\<rparr>"

definition price_doubao_embedding_vision :: ModelPricing where
  "price_doubao_embedding_vision = no_pricing\<lparr>mp_InputPricePerToken := per_mtok 0.098, mp_ImageInputPricePerToken := per_mtok 0.252\<rparr>"

definition price_grok_4_5 :: ModelPricing where
  "price_grok_4_5 = no_pricing\<lparr>mp_InputPricePerToken := per_mtok 2, mp_OutputPricePerToken := per_mtok 6,
     mp_CacheReadPricePerToken := per_mtok 0.5\<rparr>"

definition price_grok_4_3 :: ModelPricing where
  "price_grok_4_3 = no_pricing\<lparr>mp_InputPricePerToken := per_mtok 1.25, mp_OutputPricePerToken := per_mtok 2.5,
     mp_CacheReadPricePerToken := per_mtok 0.2, mp_LongContextInputThreshold := 1000000,
     mp_LongContextInputMultiplier := Fin 1\<rparr>"

definition price_grok_build_0_1 :: ModelPricing where
  "price_grok_build_0_1 = no_pricing\<lparr>mp_InputPricePerToken := per_mtok 1, mp_OutputPricePerToken := per_mtok 2,
     mp_CacheReadPricePerToken := per_mtok 0.2\<rparr>"

definition initFallbackPricing :: "(string \<times> string \<times> ModelPricing) list" where
  "initFallbackPricing = [
    (''claude-opus-4.5'', ''claude-opus-4.5'', price_claude_opus_4_5),
    (''claude-sonnet-4'', ''claude-sonnet-4'', price_claude_sonnet_4),
    (''claude-3-5-sonnet'', ''claude-3-5-sonnet'', price_claude_3_5_sonnet),
    (''claude-3-5-haiku'', ''claude-3-5-haiku'', price_claude_3_5_haiku),
    (''claude-3-opus'', ''claude-3-opus'', price_claude_3_opus),
    (''claude-3-haiku'', ''claude-3-haiku'', price_claude_3_haiku),
    (''claude-opus-4.6'', ''claude-opus-4.5'', price_claude_opus_4_5),
    (''claude-opus-4.7'', ''claude-opus-4.5'', price_claude_opus_4_5),
    (''claude-opus-4.8'', ''claude-opus-4.5'', price_claude_opus_4_5),
    (''claude-opus-5'', ''claude-opus-4.5'', price_claude_opus_4_5),
    (''gemini-3.1-pro'', ''gemini-3.1-pro'', price_gemini_3_1_pro),
    (''gemini-3.6-flash'', ''gemini-3.6-flash'', price_gemini_3_6_flash),
    (''gpt-5.4'', ''gpt-5.4'', price_gpt_5_4), (''gpt-5.5'', ''gpt-5.4'', price_gpt_5_4),
    (''gpt-5.5-pro'', ''gpt-5.4'', price_gpt_5_4), (''gpt-5.6-sol'', ''gpt-5.6-sol'', price_gpt_5_6_sol),
    (''gpt-5.6-terra'', ''gpt-5.6-terra'', price_gpt_5_6_terra),
    (''gpt-5.6-luna'', ''gpt-5.6-luna'', price_gpt_5_6_luna),
    (''gpt-5.4-mini'', ''gpt-5.4-mini'', price_gpt_5_4_mini),
    (''gpt-5.4-nano'', ''gpt-5.4-nano'', price_gpt_5_4_nano), (''gpt-5.2'', ''gpt-5.2'', price_gpt_5_2),
    (''gpt-5.3-codex'', ''gpt-5.3-codex'', price_gpt_5_3_codex),
    (''deepseek-v4-pro'', ''deepseek-v4-pro'', price_deepseek_v4_pro),
    (''deepseek-v4-flash'', ''deepseek-v4-flash'', price_deepseek_v4_flash),
    (''glm-5.2'', ''glm-5.2'', price_glm_5_2), (''glm-5.1'', ''glm-5.1'', price_glm_5_1),
    (''glm-5'', ''glm-5'', price_glm_5), (''glm-5-turbo'', ''glm-5-turbo'', price_glm_5_turbo),
    (''glm-4.7'', ''glm-4.7'', price_glm_4_7),
    (''glm-4.7-flashx'', ''glm-4.7-flashx'', price_glm_4_7_flashx),
    (''glm-4.6'', ''glm-4.6'', price_glm_4_6), (''glm-4.5'', ''glm-4.5'', price_glm_4_5),
    (''glm-4.5-x'', ''glm-4.5-x'', price_glm_4_5_x), (''glm-4.5-air'', ''glm-4.5-air'', price_glm_4_5_air),
    (''glm-4.5-airx'', ''glm-4.5-airx'', price_glm_4_5_airx),
    (''glm-4-32b-0414-128k'', ''glm-4-32b-0414-128k'', price_glm_4_32b_0414_128k),
    (''glm-4.5-flash'', ''glm-4.5-flash'', price_glm_4_5_flash),
    (''glm-4.7-flash'', ''glm-4.7-flash'', price_glm_4_7_flash), (''kimi-k3'', ''kimi-k3'', price_kimi_k3),
    (''kimi-k2.6'', ''kimi-k2.6'', price_kimi_k2_6),
    (''kimi-for-coding'', ''kimi-for-coding'', price_kimi_for_coding),
    (''kimi-k2.5'', ''kimi-k2.5'', price_kimi_k2_5),
    (''kimi-k2-thinking'', ''kimi-k2-thinking'', price_kimi_k2_thinking),
    (''kimi-k2'', ''kimi-k2'', price_kimi_k2), (''minimax-m3'', ''minimax-m3'', price_minimax_m3),
    (''minimax-m2.7'', ''minimax-m2.7'', price_minimax_m2_7),
    (''minimax-m2.7-highspeed'', ''minimax-m2.7-highspeed'', price_minimax_m2_7_highspeed),
    (''minimax-m2.5'', ''minimax-m2.5'', price_minimax_m2_5),
    (''minimax-m2.1'', ''minimax-m2.1'', price_minimax_m2_1),
    (''minimax-m2'', ''minimax-m2'', price_minimax_m2),
    (''doubao-embedding-vision'', ''doubao-embedding-vision'', price_doubao_embedding_vision),
    (''grok-4.5'', ''grok-4.5'', price_grok_4_5), (''grok-4.3'', ''grok-4.3'', price_grok_4_3),
    (''grok-build-0.1'', ''grok-build-0.1'', price_grok_build_0_1)]"

section \<open>Which entry a model falls back to\<close>

text \<open>The branch for names of the switch over the OpenAI models.\<close>

definition codex_fallback_key :: "string \<Rightarrow> string option" where
  "codex_fallback_key n =
     (if n \<in> set [''gpt-5.6-sol'', ''gpt-5.6-terra'', ''gpt-5.6-luna'', ''gpt-5.5-pro'', ''gpt-5.5'', ''gpt-5.4-mini'',
                   ''gpt-5.4-nano'', ''gpt-5.4'', ''gpt-5.2''] then Some n
      else if n = ''gpt-5.3-codex'' \<or> n = ''gpt-5.3-codex-spark'' then Some ''gpt-5.3-codex''
      else None)"

definition grok_fallback_key :: "string \<Rightarrow> string option" where
  "grok_fallback_key m =
     (if m \<in> set [''grok'', ''grok-latest'', ''grok-4.5'', ''grok-4.5-latest'', ''grok-build-latest'']
      then Some ''grok-4.5''
      else if m \<in> set [''grok-4.3'', ''grok-4.20-0309-reasoning'', ''grok-4.20-0309-non-reasoning'',
                        ''grok-4.20-multi-agent-0309'', ''grok-4.20-reasoning'', ''grok-4.20-non-reasoning'']
      then Some ''grok-4.3''
      else if m \<in> set [''grok-build'', ''grok-build-0.1'', ''grok-composer'', ''grok-composer-2.5-fast'', ''composer-2.5'']
      then Some ''grok-build-0.1''
      else None)"

text \<open>
  The branches for one family: the first pattern that occurs in the name decides. The order is that of
  the code.
\<close>

definition claude_fallback_key :: "string \<Rightarrow> string option" where
  "claude_fallback_key m =
     (if Contains m ''opus'' then
        (if Contains m ''opus-5'' \<or> Contains m ''opus5'' then Some ''claude-opus-5''
         else if Contains m ''4.8'' \<or> Contains m ''4-8'' then Some ''claude-opus-4.8''
         else if Contains m ''4.7'' \<or> Contains m ''4-7'' then Some ''claude-opus-4.7''
         else if Contains m ''4.6'' \<or> Contains m ''4-6'' then Some ''claude-opus-4.6''
         else if Contains m ''4.5'' \<or> Contains m ''4-5'' then Some ''claude-opus-4.5''
         else Some ''claude-3-opus'')
      else if Contains m ''sonnet'' then
        (if Contains m ''4'' \<and> \<not> Contains m ''3'' then Some ''claude-sonnet-4'' else Some ''claude-3-5-sonnet'')
      else if Contains m ''haiku'' then
        (if Contains m ''3-5'' \<or> Contains m ''3.5'' then Some ''claude-3-5-haiku'' else Some ''claude-3-haiku'')
      else if Contains m ''claude'' then Some ''claude-sonnet-4''
      else None)"

definition family_patterns :: "(string list \<times> string) list" where
  "family_patterns = [
     ([''gemini-3.1-pro'', ''gemini-3-1-pro''], ''gemini-3.1-pro''),
     ([''gemini-3.6-flash'', ''gemini-3-6-flash''], ''gemini-3.6-flash''),
     ([''deepseek-v4-flash''], ''deepseek-v4-flash''),
     ([''deepseek-v4-pro''], ''deepseek-v4-pro''),
     ([''deepseek-chat'', ''deepseek-reasoner''], ''deepseek-v4-flash''),
     ([''glm-5.2''], ''glm-5.2''),
     ([''glm-5.1''], ''glm-5.1''),
     ([''glm-5-turbo'', ''glm-5turbo''], ''glm-5-turbo''),
     ([''glm-5''], ''glm-5''),
     ([''glm-4.7-flashx''], ''glm-4.7-flashx''),
     ([''glm-4.7-flash''], ''glm-4.7-flash''),
     ([''glm-4.7''], ''glm-4.7''),
     ([''glm-4.6''], ''glm-4.6''),
     ([''glm-4.5-flash''], ''glm-4.5-flash''),
     ([''glm-4.5-x'', ''glm-4.5x''], ''glm-4.5-x''),
     ([''glm-4.5-airx'', ''glm-4.5airx''], ''glm-4.5-airx''),
     ([''glm-4.5-air'', ''glm-4.5air''], ''glm-4.5-air''),
     ([''glm-4.5''], ''glm-4.5''),
     ([''glm-4-32b''], ''glm-4-32b-0414-128k''),
     ([''kimi-for-coding''], ''kimi-for-coding'')]"

definition kimi_minimax_patterns :: "(string list \<times> string) list" where
  "kimi_minimax_patterns = [
     ([''kimi-k2.6'', ''kimi-k2-6''], ''kimi-k2.6''),
     ([''kimi-k2.5'', ''kimi-k2-5''], ''kimi-k2.5''),
     ([''kimi-k2-thinking'', ''kimi-k2-thinking-''], ''kimi-k2-thinking''),
     ([''kimi-k2'', ''kimi/k2''], ''kimi-k2''),
     ([''minimax-m3''], ''minimax-m3''),
     ([''minimax-m2.7-highspeed'', ''minimax-m2-7-highspeed''], ''minimax-m2.7-highspeed''),
     ([''minimax-m2.7'', ''minimax-m2-7''], ''minimax-m2.7''),
     ([''minimax-m2.5'', ''minimax-m2-5''], ''minimax-m2.5''),
     ([''minimax-m2.1'', ''minimax-m2-1''], ''minimax-m2.1''),
     ([''minimax-m2'', ''minimax-m-2''], ''minimax-m2''),
     ([''doubao-embedding-vision''], ''doubao-embedding-vision'')]"

definition first_pattern :: "(string list \<times> string) list \<Rightarrow> string \<Rightarrow> string option" where
  "first_pattern pats m = map_option snd (List.find (\<lambda>(ps, key). list_ex (Contains m) ps) pats)"

definition is_kimi_k3 :: "string \<Rightarrow> bool" where
  "is_kimi_k3 m \<longleftrightarrow> m = ''kimi-k3'' \<or> HasSuffix m ''/kimi-k3'' \<or> m = ''k3'' \<or> m = ''k3-256k'' \<or>
     HasSuffix m ''/k3'' \<or> HasSuffix m ''/k3-256k''"

definition fallback_key :: "unicode_tables \<Rightarrow> string \<Rightarrow> string option" where
  "fallback_key U model = (let m = ToLower U model in
     case claude_fallback_key m of
       Some k \<Rightarrow> Some k
     | None \<Rightarrow> (case first_pattern family_patterns m of
         Some k \<Rightarrow> Some k
       | None \<Rightarrow> if is_kimi_k3 m then Some ''kimi-k3''
           else (case first_pattern kimi_minimax_patterns m of
             Some k \<Rightarrow> Some k
           | None \<Rightarrow> (case codex_fallback_key (normalizeKnownOpenAICodexModel U m) of
               Some k \<Rightarrow> Some k
             | None \<Rightarrow> grok_fallback_key m))))"

type_synonym fallback_table = "(string \<times> string \<times> ModelPricing) list"

definition getFallbackPricing :: "unicode_tables \<Rightarrow> fallback_table \<Rightarrow> string \<Rightarrow> (string \<times> ModelPricing) option" where
  "getFallbackPricing U fallbackPrices model = Option.bind (fallback_key U model) (map_of fallbackPrices)"

text \<open>
  \<open>fallbackMatchedModel\<close>: the name under which the price record is listed, for display. Pointers are
  compared by the name the record was created under.
\<close>

definition same_record :: "fallback_table \<Rightarrow> string \<Rightarrow> string \<Rightarrow> bool" where
  "same_record fallbackPrices origin name \<longleftrightarrow> map_option fst (map_of fallbackPrices name) = Some origin"

definition fallbackMatchedModel :: "unicode_tables \<Rightarrow> fallback_table \<Rightarrow> string \<Rightarrow> string \<Rightarrow> string" where
  "fallbackMatchedModel U fallbackPrices model origin =
     (case List.find (\<lambda>c. c \<noteq> '''' \<and> same_record fallbackPrices origin c)
        [model, normalizeKnownOpenAICodexModel U model] of
        Some c \<Rightarrow> c
      | None \<Rightarrow>
          let sharing = filter (same_record fallbackPrices origin) (map fst fallbackPrices);
              matched = foldl (\<lambda>best c. if Contains model c \<and> length c > length best then c else best) '''' sharing
          in if matched \<noteq> '''' then matched
             else foldl (\<lambda>best c. if best = '''' \<or> string_less c best then c else best) '''' sharing)"

end
