(* ===== verification/Price_List.thy ===== *)
theory Price_List
  imports Price_Fallback
begin

text \<open>
  The list of prices the service downloads (\<open>internal/service/pricing_service.go\<close>): how a file of
  prices becomes the list, how the bundled file completes it, how it is refreshed, and how a model is
  looked up in it by name, by variants of the name and by its family. The list is a Go map and is
  kept as an association list in the order in which a loop over the map runs, which the language leaves
  open. The JSON decoder, SHA-256 and the check of a URL are arguments, files and the remote server
  answer as the state says: the \<open>n\<close>-th file operation fails or not, the \<open>n\<close>-th request has an answer.
\<close>

section \<open>Entries of the list\<close>

record LiteLLMModelPricing =
  ll_InputCostPerToken :: float64
  ll_InputCostPerTokenPriority :: float64
  ll_OutputCostPerToken :: float64
  ll_OutputCostPerTokenPriority :: float64
  ll_CacheCreationInputTokenCost :: float64
  ll_CacheCreationInputTokenCostPriority :: float64
  ll_CacheCreationInputTokenCostAbove1hr :: float64
  ll_CacheReadInputTokenCost :: float64
  ll_CacheReadInputTokenCostPriority :: float64
  ll_LongContextInputTokenThreshold :: int
  ll_LongContextInputCostMultiplier :: float64
  ll_LongContextOutputCostMultiplier :: float64
  ll_SupportsServiceTier :: bool
  ll_LiteLLMProvider :: string
  ll_Mode :: string
  ll_SupportsPromptCaching :: bool
  ll_OutputCostPerImage :: float64
  ll_OutputCostPerImageToken :: float64
  ll_InputCostPerImageToken :: float64
  ll_InputCostPerTokenExplicit :: bool
  ll_OutputCostPerTokenExplicit :: bool
  ll_CacheCreationInputTokenCostExplicit :: bool
  ll_CacheReadInputTokenCostExplicit :: bool
  ll_OutputCostPerImageExplicit :: bool
  ll_OutputCostPerImageTokenExplicit :: bool
  ll_InputCostPerImageTokenExplicit :: bool
  ll_TokenPricingAbsent :: bool

record LiteLLMRawEntry =
  re_InputCostPerToken :: "float64 option"
  re_InputCostPerTokenPriority :: "float64 option"
  re_OutputCostPerToken :: "float64 option"
  re_OutputCostPerTokenPriority :: "float64 option"
  re_CacheCreationInputTokenCost :: "float64 option"
  re_CacheCreationInputTokenCostPriority :: "float64 option"
  re_CacheCreationInputTokenCostAbove1hr :: "float64 option"
  re_CacheReadInputTokenCost :: "float64 option"
  re_CacheReadInputTokenCostPriority :: "float64 option"
  re_LongContextInputTokenThreshold :: "int option"
  re_LongContextInputCostMultiplier :: "float64 option"
  re_LongContextOutputCostMultiplier :: "float64 option"
  re_SupportsServiceTier :: bool
  re_LiteLLMProvider :: string
  re_Mode :: string
  re_SupportsPromptCaching :: bool
  re_OutputCostPerImage :: "float64 option"
  re_OutputCostPerImageToken :: "float64 option"
  re_InputCostPerImageToken :: "float64 option"

definition no_litellm :: LiteLLMModelPricing where
  "no_litellm = \<lparr>ll_InputCostPerToken = f_zero, ll_InputCostPerTokenPriority = f_zero,
     ll_OutputCostPerToken = f_zero, ll_OutputCostPerTokenPriority = f_zero,
     ll_CacheCreationInputTokenCost = f_zero, ll_CacheCreationInputTokenCostPriority = f_zero,
     ll_CacheCreationInputTokenCostAbove1hr = f_zero, ll_CacheReadInputTokenCost = f_zero,
     ll_CacheReadInputTokenCostPriority = f_zero, ll_LongContextInputTokenThreshold = 0,
     ll_LongContextInputCostMultiplier = f_zero, ll_LongContextOutputCostMultiplier = f_zero,
     ll_SupportsServiceTier = False, ll_LiteLLMProvider = '''', ll_Mode = '''', ll_SupportsPromptCaching = False,
     ll_OutputCostPerImage = f_zero, ll_OutputCostPerImageToken = f_zero, ll_InputCostPerImageToken = f_zero,
     ll_InputCostPerTokenExplicit = False, ll_OutputCostPerTokenExplicit = False,
     ll_CacheCreationInputTokenCostExplicit = False, ll_CacheReadInputTokenCostExplicit = False,
     ll_OutputCostPerImageExplicit = False, ll_OutputCostPerImageTokenExplicit = False,
     ll_InputCostPerImageTokenExplicit = False, ll_TokenPricingAbsent = False\<rparr>"

definition or_zero :: "float64 option \<Rightarrow> float64" where
  "or_zero p = (case p of Some v \<Rightarrow> v | None \<Rightarrow> f_zero)"

definition openAIGPT54FallbackPricing :: LiteLLMModelPricing where
  "openAIGPT54FallbackPricing = no_litellm\<lparr>ll_InputCostPerToken := per_mtok 2.5,
     ll_OutputCostPerToken := per_mtok 15, ll_CacheReadInputTokenCost := per_mtok 0.25,
     ll_LongContextInputTokenThreshold := 272000, ll_LongContextInputCostMultiplier := Fin 2,
     ll_LongContextOutputCostMultiplier := Fin 1.5, ll_LiteLLMProvider := ''openai'', ll_Mode := ''chat'',
     ll_SupportsPromptCaching := True\<rparr>"

text \<open>The three prices of the 5.6 family differ in their numbers only.\<close>

definition gpt56_pricing :: "rat \<Rightarrow> rat \<Rightarrow> rat \<Rightarrow> rat \<Rightarrow> LiteLLMModelPricing" where
  "gpt56_pricing i out cw cr = no_litellm\<lparr>ll_InputCostPerToken := per_mtok i,
     ll_InputCostPerTokenPriority := per_mtok (2 * i), ll_OutputCostPerToken := per_mtok out,
     ll_OutputCostPerTokenPriority := per_mtok (2 * out), ll_CacheCreationInputTokenCost := per_mtok cw,
     ll_CacheCreationInputTokenCostPriority := per_mtok (2 * cw), ll_CacheReadInputTokenCost := per_mtok cr,
     ll_CacheReadInputTokenCostPriority := per_mtok (2 * cr),
     ll_LongContextInputTokenThreshold := openAIGPT54LongContextInputThreshold,
     ll_LongContextInputCostMultiplier := openAIGPT54LongContextInputMultiplier,
     ll_LongContextOutputCostMultiplier := openAIGPT54LongContextOutputMultiplier,
     ll_SupportsServiceTier := True, ll_LiteLLMProvider := ''openai'', ll_Mode := ''chat'',
     ll_SupportsPromptCaching := True\<rparr>"

definition openAIGPT56SolFallbackPricing :: LiteLLMModelPricing where
  "openAIGPT56SolFallbackPricing = gpt56_pricing 5 30 6.25 0.5"
definition openAIGPT56TerraFallbackPricing :: LiteLLMModelPricing where
  "openAIGPT56TerraFallbackPricing = gpt56_pricing 2 12 2.5 0.2"
definition openAIGPT56LunaFallbackPricing :: LiteLLMModelPricing where
  "openAIGPT56LunaFallbackPricing = gpt56_pricing 0.2 1.2 0.25 0.02"

definition openAIGPT54MiniFallbackPricing :: LiteLLMModelPricing where
  "openAIGPT54MiniFallbackPricing = no_litellm\<lparr>ll_InputCostPerToken := per_mtok 0.75,
     ll_OutputCostPerToken := per_mtok 4.5, ll_CacheReadInputTokenCost := per_mtok 0.075,
     ll_LiteLLMProvider := ''openai'', ll_Mode := ''chat'', ll_SupportsPromptCaching := True\<rparr>"
definition openAIGPT54NanoFallbackPricing :: LiteLLMModelPricing where
  "openAIGPT54NanoFallbackPricing = no_litellm\<lparr>ll_InputCostPerToken := per_mtok 0.2,
     ll_OutputCostPerToken := per_mtok 1.25, ll_CacheReadInputTokenCost := per_mtok 0.02,
     ll_LiteLLMProvider := ''openai'', ll_Mode := ''chat'', ll_SupportsPromptCaching := True\<rparr>"


section \<open>From a file to the list\<close>

datatype PricingSourceType = RemoteCatalog | CachedRemoteCatalog | BundledCatalog | CodeFallback | SourceUnavailable

record PricingSourceInfo =
  si_Type :: PricingSourceType
  si_Name :: string
  si_URL :: string
  si_MatchedModel :: string
  si_UpdatedAt :: "go_time option"

type_synonym price_list = "(string \<times> LiteLLMModelPricing) list"
type_synonym source_list = "(string \<times> PricingSourceInfo) list"

definition has_price :: "LiteLLMRawEntry \<Rightarrow> bool" where
  "has_price e \<longleftrightarrow> re_InputCostPerToken e \<noteq> None \<or> re_OutputCostPerToken e \<noteq> None \<or>
     re_OutputCostPerImage e \<noteq> None \<or> re_OutputCostPerImageToken e \<noteq> None \<or> re_InputCostPerImageToken e \<noteq> None"

definition entry_pricing :: "LiteLLMRawEntry \<Rightarrow> LiteLLMModelPricing" where
  "entry_pricing e = \<lparr>
     ll_InputCostPerToken = or_zero (re_InputCostPerToken e),
     ll_InputCostPerTokenPriority = or_zero (re_InputCostPerTokenPriority e),
     ll_OutputCostPerToken = or_zero (re_OutputCostPerToken e),
     ll_OutputCostPerTokenPriority = or_zero (re_OutputCostPerTokenPriority e),
     ll_CacheCreationInputTokenCost = or_zero (re_CacheCreationInputTokenCost e),
     ll_CacheCreationInputTokenCostPriority = or_zero (re_CacheCreationInputTokenCostPriority e),
     ll_CacheCreationInputTokenCostAbove1hr = or_zero (re_CacheCreationInputTokenCostAbove1hr e),
     ll_CacheReadInputTokenCost = or_zero (re_CacheReadInputTokenCost e),
     ll_CacheReadInputTokenCostPriority = or_zero (re_CacheReadInputTokenCostPriority e),
     ll_LongContextInputTokenThreshold =
       (case re_LongContextInputTokenThreshold e of Some n \<Rightarrow> n | None \<Rightarrow> 0),
     ll_LongContextInputCostMultiplier = or_zero (re_LongContextInputCostMultiplier e),
     ll_LongContextOutputCostMultiplier = or_zero (re_LongContextOutputCostMultiplier e),
     ll_SupportsServiceTier = re_SupportsServiceTier e,
     ll_LiteLLMProvider = re_LiteLLMProvider e, ll_Mode = re_Mode e,
     ll_SupportsPromptCaching = re_SupportsPromptCaching e,
     ll_OutputCostPerImage = or_zero (re_OutputCostPerImage e),
     ll_OutputCostPerImageToken = or_zero (re_OutputCostPerImageToken e),
     ll_InputCostPerImageToken = or_zero (re_InputCostPerImageToken e),
     ll_InputCostPerTokenExplicit = (re_InputCostPerToken e \<noteq> None),
     ll_OutputCostPerTokenExplicit = (re_OutputCostPerToken e \<noteq> None),
     ll_CacheCreationInputTokenCostExplicit = (re_CacheCreationInputTokenCost e \<noteq> None),
     ll_CacheReadInputTokenCostExplicit = (re_CacheReadInputTokenCost e \<noteq> None),
     ll_OutputCostPerImageExplicit = (re_OutputCostPerImage e \<noteq> None),
     ll_OutputCostPerImageTokenExplicit = (re_OutputCostPerImageToken e \<noteq> None),
     ll_InputCostPerImageTokenExplicit = (re_InputCostPerImageToken e \<noteq> None),
     ll_TokenPricingAbsent = (re_InputCostPerToken e = None \<and> re_OutputCostPerToken e = None)\<rparr>"

text \<open>
  The environment. The decoder gives the members of the top-level object, each with its value decoded
  as an entry, \<open>None\<close> where it is not one.
\<close>

record price_env =
  pe_unicode :: unicode_tables
  pe_decode :: "string \<Rightarrow> (string \<times> LiteLLMRawEntry option) list result"
  pe_sha256 :: "string \<Rightarrow> string"
  pe_validURL :: "string \<Rightarrow> string result"
  pe_RemoteURL :: string
  pe_HashURL :: string
  pe_FallbackFile :: string
  pe_pricingFile :: string
  pe_hashFile :: string
  pe_UpdateIntervalHours :: int

definition keep_entry :: "string \<times> LiteLLMRawEntry option \<Rightarrow> (string \<times> LiteLLMModelPricing) option" where
  "keep_entry m = (case m of
     (name, Some e) \<Rightarrow> if name \<noteq> ''sample_spec'' \<and> has_price e then Some (name, entry_pricing e) else None
   | (name, None) \<Rightarrow> None)"

definition parsePricingData :: "price_env \<Rightarrow> string \<Rightarrow> price_list result" where
  "parsePricingData E body =
     (case pe_decode E body of
        Inl err \<Rightarrow> Inl (Wrapped ''parse raw JSON'' err)
      | Inr members \<Rightarrow> let entries = List.map_filter keep_entry members in
          if entries = [] then Inl (Sentinel ''no valid pricing entries found'') else Inr entries)"

definition newPricingSourceMap :: "price_list \<Rightarrow> PricingSourceInfo \<Rightarrow> source_list" where
  "newPricingSourceMap data source = map (\<lambda>(name, _). (name, source\<lparr>si_MatchedModel := name\<rparr>)) data"

section \<open>The service's state\<close>

record pricing_state =
  ps_pricingData :: price_list
  ps_pricingSources :: source_list
  ps_lastUpdated :: "go_time option"
  ps_localHash :: string
  ps_files :: "string \<rightharpoonup> string \<times> go_time"
  ps_io_fault :: "nat \<Rightarrow> go_error option"
  ps_io :: nat
  ps_torn :: "nat \<Rightarrow> string option"
  ps_fetch :: "nat \<Rightarrow> string \<Rightarrow> string result"
  ps_calls :: nat
  ps_clock :: "nat \<Rightarrow> go_time"
  ps_tick :: nat

definition ErrNotExist :: go_error where
  "ErrNotExist = Sentinel ''file does not exist''"

definition ps_now :: "pricing_state \<Rightarrow> go_time \<times> pricing_state" where
  "ps_now st = (ps_clock st (ps_tick st), st\<lparr>ps_tick := Suc (ps_tick st)\<rparr>)"

text \<open>\<open>os.ReadFile\<close>, \<open>os.Stat\<close> (the time of the last change) and \<open>os.WriteFile\<close>. A write that
  fails may leave the file as it was or with some other content.\<close>

definition ReadFile :: "string \<Rightarrow> pricing_state \<Rightarrow> string result \<times> pricing_state" where
  "ReadFile path st =
     (case ps_files st path of
        None \<Rightarrow> Inl ErrNotExist
      | Some (content, _) \<Rightarrow> (case ps_io_fault st (ps_io st) of Some e \<Rightarrow> Inl e | None \<Rightarrow> Inr content),
      st\<lparr>ps_io := Suc (ps_io st)\<rparr>)"

definition StatFile :: "string \<Rightarrow> pricing_state \<Rightarrow> go_time result \<times> pricing_state" where
  "StatFile path st =
     (case ps_files st path of
        None \<Rightarrow> Inl ErrNotExist
      | Some (_, modified) \<Rightarrow> (case ps_io_fault st (ps_io st) of Some e \<Rightarrow> Inl e | None \<Rightarrow> Inr modified),
      st\<lparr>ps_io := Suc (ps_io st)\<rparr>)"

definition WriteFile :: "string \<Rightarrow> string \<Rightarrow> pricing_state \<Rightarrow> pricing_state" where
  "WriteFile path content st =
     (let n = ps_io st; (now, st) = ps_now (st\<lparr>ps_io := Suc n\<rparr>) in
      case (case ps_io_fault st n of None \<Rightarrow> Some content | Some e \<Rightarrow> ps_torn st n) of
        None \<Rightarrow> st
      | Some written \<Rightarrow> st\<lparr>ps_files := (ps_files st)(path \<mapsto> (written, now))\<rparr>)"

definition fetch_remote :: "string \<Rightarrow> pricing_state \<Rightarrow> string result \<times> pricing_state" where
  "fetch_remote url st = (ps_fetch st (ps_calls st) url, st\<lparr>ps_calls := Suc (ps_calls st)\<rparr>)"

text \<open>The time of the last change, or the present when it cannot be read.\<close>

definition stat_or_now :: "string \<Rightarrow> pricing_state \<Rightarrow> go_time \<times> pricing_state" where
  "stat_or_now path st = (let (now, st) = ps_now st in
     case StatFile path st of (Inr modified, st) \<Rightarrow> (modified, st) | (Inl _, st) \<Rightarrow> (now, st))"


text \<open>The bundled file adds the models the list does not have.\<close>

definition bundled_source :: "string \<Rightarrow> go_time \<Rightarrow> PricingSourceInfo" where
  "bundled_source name t0 = \<lparr>si_Type = BundledCatalog, si_Name = ''Bundled pricing catalog'', si_URL = '''',
     si_MatchedModel = name, si_UpdatedAt = Some t0\<rparr>"

definition mergeFallbackPricingDataWithSources ::
  "price_env \<Rightarrow> price_list \<Rightarrow> source_list \<Rightarrow> pricing_state \<Rightarrow> (price_list \<times> source_list) \<times> pricing_state" where
  "mergeFallbackPricingDataWithSources E data sources st =
     (if TrimSpace (pe_FallbackFile E) = '''' then ((data, sources), st)
      else case ReadFile (pe_FallbackFile E) st of
        (Inl _, st) \<Rightarrow> ((data, sources), st)
      | (Inr body, st) \<Rightarrow>
          (case parsePricingData E body of
             Inl _ \<Rightarrow> ((data, sources), st)
           | Inr fallbackData \<Rightarrow>
               let (t0, st) = stat_or_now (pe_FallbackFile E) st;
                   missing = filter (\<lambda>(name, _). map_of data name = None) fallbackData
               in ((data @ missing, sources @ map (\<lambda>(name, _). (name, bundled_source name t0)) missing), st)))"

definition loadPricingData :: "price_env \<Rightarrow> string \<Rightarrow> pricing_state \<Rightarrow> unit result \<times> pricing_state" where
  "loadPricingData E filePath st =
     (case ReadFile filePath st of
        (Inl err, st) \<Rightarrow> (Inl (Wrapped ''read file failed'' err), st)
      | (Inr body, st) \<Rightarrow>
          (case parsePricingData E body of
             Inl err \<Rightarrow> (Inl (Wrapped ''parse pricing data'' err), st)
           | Inr data \<Rightarrow>
               let hash = pe_sha256 E body;
                   (updatedAt, st) = stat_or_now filePath st;
                   cached = \<lparr>si_Type = CachedRemoteCatalog, si_Name = ''Cached LiteLLM price catalog'',
                     si_URL = TrimSpace (pe_RemoteURL E), si_MatchedModel = '''', si_UpdatedAt = Some updatedAt\<rparr>;
                   (bundled, st) = ReadFile (pe_FallbackFile E) st;
                   primary = (case bundled of
                       Inr b \<Rightarrow> if pe_sha256 E b = hash
                         then cached\<lparr>si_Type := BundledCatalog, si_Name := ''Bundled pricing catalog'', si_URL := ''''\<rparr>
                         else cached
                     | Inl _ \<Rightarrow> cached);
                   ((data, sources), st) =
                     mergeFallbackPricingDataWithSources E data (newPricingSourceMap data primary) st
               in (Inr (), st\<lparr>ps_pricingData := data, ps_pricingSources := sources, ps_localHash := hash,
                     ps_lastUpdated := Some updatedAt\<rparr>)))"

definition fetchRemoteHash :: "price_env \<Rightarrow> pricing_state \<Rightarrow> string result \<times> pricing_state" where
  "fetchRemoteHash E st =
     (case pe_validURL E (pe_HashURL E) of
        Inl err \<Rightarrow> (Inl err, st)
      | Inr url \<Rightarrow> (case fetch_remote url st of
          (Inl err, st) \<Rightarrow> (Inl err, st)
        | (Inr text, st) \<Rightarrow> (Inr (TrimSpace text), st)))"

definition remote_hash_or_empty :: "price_env \<Rightarrow> pricing_state \<Rightarrow> string \<times> pricing_state" where
  "remote_hash_or_empty E st =
     (if TrimSpace (pe_HashURL E) \<noteq> '''' then
        (case fetchRemoteHash E st of (Inr h, st) \<Rightarrow> (h, st) | (Inl _, st) \<Rightarrow> ('''', st))
      else ('''', st))"

definition downloadPricingData :: "price_env \<Rightarrow> pricing_state \<Rightarrow> unit result \<times> pricing_state" where
  "downloadPricingData E st =
     (case pe_validURL E (pe_RemoteURL E) of
        Inl err \<Rightarrow> (Inl err, st)
      | Inr remoteURL \<Rightarrow>
          let (remoteHash, st) = remote_hash_or_empty E st in
          (case fetch_remote remoteURL st of
             (Inl err, st) \<Rightarrow> (Inl (Wrapped ''download failed'' err), st)
           | (Inr body, st) \<Rightarrow>
               (case parsePricingData E body of
                  Inl err \<Rightarrow> (Inl (Wrapped ''parse pricing data'' err), st)
                | Inr data \<Rightarrow>
                    let (downloadedAt, st) = ps_now st;
                        remote = \<lparr>si_Type = RemoteCatalog, si_Name = ''LiteLLM price catalog'', si_URL = remoteURL,
                          si_MatchedModel = '''', si_UpdatedAt = Some downloadedAt\<rparr>;
                        ((data, sources), st) =
                          mergeFallbackPricingDataWithSources E data (newPricingSourceMap data remote) st;
                        st = WriteFile (pe_pricingFile E) body st;
                        syncHash = (if remoteHash \<noteq> '''' then remoteHash else pe_sha256 E body);
                        st = WriteFile (pe_hashFile E) (syncHash @ [CHR 0x0A]) st
                    in (Inr (), st\<lparr>ps_pricingData := data, ps_pricingSources := sources,
                          ps_lastUpdated := Some downloadedAt, ps_localHash := syncHash\<rparr>))))"

definition ForceUpdate :: "price_env \<Rightarrow> pricing_state \<Rightarrow> unit result \<times> pricing_state" where
  "ForceUpdate E st = downloadPricingData E st"

text \<open>Whether a file is older than the configured interval.\<close>

definition file_expired :: "price_env \<Rightarrow> go_time \<Rightarrow> pricing_state \<Rightarrow> bool \<times> pricing_state" where
  "file_expired E modified st = (let (now, st) = ps_now st in
     (time_sub now modified > wrap64 (pe_UpdateIntervalHours E * hour), st))"

definition syncWithRemote :: "price_env \<Rightarrow> pricing_state \<Rightarrow> unit result \<times> pricing_state" where
  "syncWithRemote E st =
     (if pe_HashURL E \<noteq> '''' then
        (case fetchRemoteHash E st of
           (Inl _, st) \<Rightarrow> (Inr (), st)
         | (Inr remoteHash, st) \<Rightarrow>
             if ps_localHash st = '''' \<or> remoteHash \<noteq> ps_localHash st then downloadPricingData E st else (Inr (), st))
      else case StatFile (pe_pricingFile E) st of
        (Inl _, st) \<Rightarrow> downloadPricingData E st
      | (Inr modified, st) \<Rightarrow> let (old, st) = file_expired E modified st in
          if old then downloadPricingData E st else (Inr (), st))"

text \<open>At the start the local file is loaded first; a newer remote list replaces it, a failure to get one does not.\<close>

definition update_loaded :: "price_env \<Rightarrow> pricing_state \<Rightarrow> pricing_state" where
  "update_loaded E st =
     (if pe_HashURL E \<noteq> '''' then
        (case fetchRemoteHash E st of
           (Inl _, st) \<Rightarrow> st
         | (Inr remoteHash, st) \<Rightarrow>
             if ps_localHash st = '''' \<or> remoteHash \<noteq> ps_localHash st then snd (downloadPricingData E st) else st)
      else case StatFile (pe_pricingFile E) st of
        (Inl _, st) \<Rightarrow> st
      | (Inr modified, st) \<Rightarrow> let (old, st) = file_expired E modified st in
          if old then snd (downloadPricingData E st) else st)"

definition checkAndUpdatePricing :: "price_env \<Rightarrow> pricing_state \<Rightarrow> unit result \<times> pricing_state" where
  "checkAndUpdatePricing E st =
     (case StatFile (pe_pricingFile E) st of
        (found, st) \<Rightarrow>
          if found = Inl ErrNotExist then downloadPricingData E st
          else case loadPricingData E (pe_pricingFile E) st of
            (Inl _, st) \<Rightarrow> downloadPricingData E st
          | (Inr _, st) \<Rightarrow> (Inr (), update_loaded E st))"

definition useFallbackPricing :: "price_env \<Rightarrow> pricing_state \<Rightarrow> unit result \<times> pricing_state" where
  "useFallbackPricing E st =
     (case StatFile (pe_FallbackFile E) st of
        (found, st) \<Rightarrow>
          if found = Inl ErrNotExist then (Inl (Sentinel (''fallback file not found: '' @ pe_FallbackFile E)), st)
          else case ReadFile (pe_FallbackFile E) st of
            (Inl err, st) \<Rightarrow> (Inl (Wrapped ''read fallback failed'' err), st)
          | (Inr body, st) \<Rightarrow>
              loadPricingData E (pe_FallbackFile E) (WriteFile (pe_pricingFile E) body st))"

definition Initialize :: "price_env \<Rightarrow> pricing_state \<Rightarrow> unit result \<times> pricing_state" where
  "Initialize E st =
     (case checkAndUpdatePricing E st of
        (Inr _, st) \<Rightarrow> (Inr (), st)
      | (Inl _, st) \<Rightarrow> (case useFallbackPricing E st of
          (Inl err, st) \<Rightarrow> (Inl (Wrapped ''failed to load pricing data'' err), st)
        | (Inr _, st) \<Rightarrow> (Inr (), st)))"


section \<open>Looking a model up\<close>

record LiteLLMPricingLookup =
  lk_Pricing :: LiteLLMModelPricing
  lk_MatchedModel :: string
  lk_Source :: PricingSourceInfo

definition catalogLookupLocked :: "pricing_state \<Rightarrow> string \<Rightarrow> LiteLLMPricingLookup option" where
  "catalogLookupLocked st name =
     (case map_of (ps_pricingData st) name of
        None \<Rightarrow> None
      | Some pricing \<Rightarrow>
          let source = (case map_of (ps_pricingSources st) name of
                Some s \<Rightarrow> s
              | None \<Rightarrow> \<lparr>si_Type = SourceUnavailable, si_Name = ''Pricing source unavailable'', si_URL = '''',
                    si_MatchedModel = '''', si_UpdatedAt = None\<rparr>)
          in Some \<lparr>lk_Pricing = pricing, lk_MatchedModel = name, lk_Source = source\<lparr>si_MatchedModel := name\<rparr>\<rparr>)"

definition staticPricingLookup :: "string \<Rightarrow> LiteLLMModelPricing \<Rightarrow> LiteLLMPricingLookup" where
  "staticPricingLookup name pricing = \<lparr>lk_Pricing = pricing, lk_MatchedModel = name,
     lk_Source = \<lparr>si_Type = CodeFallback, si_Name = ''XCode built-in pricing'', si_URL = '''',
       si_MatchedModel = name, si_UpdatedAt = None\<rparr>\<rparr>"

definition listed :: "pricing_state \<Rightarrow> string \<Rightarrow> bool" where
  "listed st name \<longleftrightarrow> map_of (ps_pricingData st) name \<noteq> None"

text \<open>The families of Claude models, most specific first: what a name must contain, and where the price is looked for.\<close>

record modelFamily =
  fa_name :: string
  fa_match :: "string list"
  fa_pricing :: "string list option"

definition model_families :: "modelFamily list" where
  "model_families = [
     \<lparr>fa_name = ''opus-5'', fa_match = [''claude-opus-5''], fa_pricing = Some [''claude-opus-5'', ''claude-opus-4-8'']\<rparr>,
     \<lparr>fa_name = ''opus-4.8'', fa_match = [''claude-opus-4-8'', ''claude-opus-4.8''],
      fa_pricing = Some [''claude-opus-4-8'', ''claude-opus-4.8'', ''claude-opus-4-7'']\<rparr>,
     \<lparr>fa_name = ''opus-4.7'', fa_match = [''claude-opus-4-7'', ''claude-opus-4.7''],
      fa_pricing = Some [''claude-opus-4-7'', ''claude-opus-4.7'', ''claude-opus-4-6'']\<rparr>,
     \<lparr>fa_name = ''opus-4.6'', fa_match = [''claude-opus-4-6'', ''claude-opus-4.6''], fa_pricing = None\<rparr>,
     \<lparr>fa_name = ''opus-4.5'', fa_match = [''claude-opus-4-5'', ''claude-opus-4.5''], fa_pricing = None\<rparr>,
     \<lparr>fa_name = ''opus-4'', fa_match = [''claude-opus-4'', ''claude-3-opus''], fa_pricing = None\<rparr>,
     \<lparr>fa_name = ''sonnet-4.5'', fa_match = [''claude-sonnet-4-5'', ''claude-sonnet-4.5''], fa_pricing = None\<rparr>,
     \<lparr>fa_name = ''sonnet-4'', fa_match = [''claude-sonnet-4'', ''claude-3-5-sonnet''], fa_pricing = None\<rparr>,
     \<lparr>fa_name = ''sonnet-3.5'', fa_match = [''claude-3-5-sonnet'', ''claude-3.5-sonnet''], fa_pricing = None\<rparr>,
     \<lparr>fa_name = ''sonnet-3'', fa_match = [''claude-3-sonnet''], fa_pricing = None\<rparr>,
     \<lparr>fa_name = ''haiku-3.5'', fa_match = [''claude-3-5-haiku'', ''claude-3.5-haiku''], fa_pricing = None\<rparr>,
     \<lparr>fa_name = ''haiku-3'', fa_match = [''claude-3-haiku''], fa_pricing = None\<rparr>]"

definition family_matches :: "string \<Rightarrow> modelFamily \<Rightarrow> bool" where
  "family_matches model f =
     list_ex (\<lambda>p. Contains model p \<or> Contains model (ReplaceAll p ''-'' '''')) (fa_match f)"

definition rough_family :: "string \<Rightarrow> string option" where
  "rough_family m =
     (if Contains m ''opus'' then Some
        (if Contains m ''opus-5'' \<or> Contains m ''opus5'' then ''opus-5''
         else if Contains m ''4.8'' \<or> Contains m ''4-8'' then ''opus-4.8''
         else if Contains m ''4.7'' \<or> Contains m ''4-7'' then ''opus-4.7''
         else if Contains m ''4.6'' \<or> Contains m ''4-6'' then ''opus-4.6''
         else if Contains m ''4.5'' \<or> Contains m ''4-5'' then ''opus-4.5''
         else ''opus-4'')
      else if Contains m ''sonnet'' then Some
        (if Contains m ''4.5'' \<or> Contains m ''4-5'' then ''sonnet-4.5''
         else if Contains m ''3-5'' \<or> Contains m ''3.5'' then ''sonnet-3.5''
         else ''sonnet-4'')
      else if Contains m ''haiku'' then Some
        (if Contains m ''3-5'' \<or> Contains m ''3.5'' then ''haiku-3.5'' else ''haiku-3'')
      else None)"

definition family_of :: "string \<Rightarrow> modelFamily option" where
  "family_of model =
     (case List.find (family_matches model) model_families of
        Some f \<Rightarrow> Some f
      | None \<Rightarrow> Option.bind (rough_family model) (\<lambda>n. List.find (\<lambda>f. fa_name f = n) model_families))"

text \<open>The price of a family is that of the first name, in the order of the map, that contains a pattern.\<close>

fun family_price :: "unicode_tables \<Rightarrow> price_list \<Rightarrow> string list \<Rightarrow> string" where
  "family_price U data [] = ''''"
| "family_price U data (pattern # ps) =
     (case List.find (\<lambda>key. Contains (ToLower U key) pattern) (map fst data) of
        Some key \<Rightarrow> key
      | None \<Rightarrow> family_price U data ps)"

definition matchByModelFamily :: "unicode_tables \<Rightarrow> pricing_state \<Rightarrow> string \<Rightarrow> string" where
  "matchByModelFamily U st model =
     (case family_of model of
        None \<Rightarrow> ''''
      | Some f \<Rightarrow> family_price U (ps_pricingData st) (case fa_pricing f of Some ps \<Rightarrow> ps | None \<Rightarrow> fa_match f))"

definition openai_DefaultTestModel :: string where
  "openai_DefaultTestModel = ''gpt-5.4''"

definition static_family :: "string \<Rightarrow> LiteLLMPricingLookup option" where
  "static_family model =
     (if HasPrefix model ''gpt-5.6-sol'' then Some (staticPricingLookup ''gpt-5.6-sol'' openAIGPT56SolFallbackPricing)
      else if HasPrefix model ''gpt-5.6-terra'' then Some (staticPricingLookup ''gpt-5.6-terra'' openAIGPT56TerraFallbackPricing)
      else if HasPrefix model ''gpt-5.6-luna'' then Some (staticPricingLookup ''gpt-5.6-luna'' openAIGPT56LunaFallbackPricing)
      else if HasPrefix model ''gpt-5.5'' then Some (staticPricingLookup ''gpt-5.4'' openAIGPT54FallbackPricing)
      else if HasPrefix model ''gpt-5.4-mini'' then Some (staticPricingLookup ''gpt-5.4-mini'' openAIGPT54MiniFallbackPricing)
      else if HasPrefix model ''gpt-5.4-nano'' then Some (staticPricingLookup ''gpt-5.4-nano'' openAIGPT54NanoFallbackPricing)
      else if HasPrefix model ''gpt-5.4'' then Some (staticPricingLookup ''gpt-5.4'' openAIGPT54FallbackPricing)
      else None)"

definition matchOpenAIModel :: "unicode_tables \<Rightarrow> pricing_state \<Rightarrow> string \<Rightarrow> LiteLLMPricingLookup option" where
  "matchOpenAIModel U st model =
     (if HasPrefix model ''gpt-5.3-codex-spark'' \<and> listed st ''gpt-5.1-codex'' then catalogLookupLocked st ''gpt-5.1-codex''
      else case List.find (listed st) (generateOpenAIModelVariants model) of
        Some variant \<Rightarrow> catalogLookupLocked st variant
      | None \<Rightarrow>
          if HasPrefix model ''gpt-5.3-codex'' \<and> listed st ''gpt-5.2-codex'' then catalogLookupLocked st ''gpt-5.2-codex''
          else case static_family model of
            Some found \<Rightarrow> Some found
          | None \<Rightarrow>
              if isOpenAIImageGenerationModel U model then
                (case List.find (listed st) [''gpt-image-2'', ''gpt-image-1.5'', ''gpt-image-1''] of
                   Some candidate \<Rightarrow> catalogLookupLocked st candidate
                 | None \<Rightarrow> None)
              else let defaultModel = ToLower U openai_DefaultTestModel in
                if listed st defaultModel then catalogLookupLocked st defaultModel else None)"

definition list_LookupModelPricing :: "unicode_tables \<Rightarrow> pricing_state \<Rightarrow> string \<Rightarrow> LiteLLMPricingLookup option" where
  "list_LookupModelPricing U st modelName =
     (if modelName = '''' then None
      else let modelLower = ToLower U (TrimSpace modelName);
               candidates = buildModelLookupCandidates U modelLower
           in case List.find (\<lambda>c. c \<noteq> '''' \<and> listed st c) candidates of
                Some c \<Rightarrow> catalogLookupLocked st c
              | None \<Rightarrow>
            (case List.find (listed st) (map (\<lambda>c. ReplaceAll c ''-4-5-'' ''-4.5-'') candidates) of
               Some c \<Rightarrow> catalogLookupLocked st c
             | None \<Rightarrow>
            (let baseName = extractBaseName (hd candidates) in
             case List.find (\<lambda>key. extractBaseName (ToLower U key) = baseName) (map fst (ps_pricingData st)) of
               Some key \<Rightarrow> catalogLookupLocked st key
             | None \<Rightarrow>
                 let family = matchByModelFamily U st (hd candidates) in
                 if family \<noteq> '''' then catalogLookupLocked st family
                 else if HasPrefix (hd candidates) ''gpt-'' then matchOpenAIModel U st (hd candidates)
                 else None)))"

definition list_GetModelPricing :: "unicode_tables \<Rightarrow> pricing_state \<Rightarrow> string \<Rightarrow> LiteLLMModelPricing option" where
  "list_GetModelPricing U st modelName = map_option lk_Pricing (list_LookupModelPricing U st modelName)"

definition ListModelNamesByProvider :: "unicode_tables \<Rightarrow> pricing_state \<Rightarrow> string \<Rightarrow> string list" where
  "ListModelNamesByProvider U st provider = (let p = ToLower U (TrimSpace provider) in
     stable_sort string_less (map fst (filter (\<lambda>(_, e). ToLower U (ll_LiteLLMProvider e) = p) (ps_pricingData st))))"

end
