(* ===== verification/Go_Path.thy ===== *)
theory Go_Path
  imports Go_Strings
begin

text \<open>
  \<open>path.Match\<close> of Go's standard library: shell patterns with \<open>*\<close>, \<open>?\<close>, \<open>[...]\<close> and \<open>\\<close>, matched
  against a whole name; \<open>*\<close> and \<open>?\<close> do not match a slash. \<open>None\<close> is \<open>path.ErrBadPattern\<close>.
  The definitions follow the library's: a pattern is cut into chunks between stars, and a chunk is
  matched at successive positions of the name. At the end, what a pattern without \<open>?\<close>, brackets and
  backslashes matches.
\<close>

section \<open>Runes\<close>

definition RuneError :: nat where "RuneError = 0xFFFD"

text \<open>\<open>utf8.DecodeRuneInString\<close>: the rune at the front and its length.\<close>

definition low6 :: "char \<Rightarrow> nat" where
  "low6 c = (of_char c :: nat) mod 64"

definition DecodeRune :: "string \<Rightarrow> nat \<times> nat" where
  "DecodeRune s = (let n = rune_size s; b = (\<lambda>i. of_char (s ! i) :: nat) in
     if s = [] then (RuneError, 0)
     else if n = 0 then (RuneError, 1)
     else if n = 1 then (b 0, 1)
     else if n = 2 then (b 0 mod 32 * 64 + low6 (s ! 1), 2)
     else if n = 3 then (b 0 mod 16 * 4096 + low6 (s ! 1) * 64 + low6 (s ! 2), 3)
     else (b 0 mod 8 * 262144 + low6 (s ! 1) * 4096 + low6 (s ! 2) * 64 + low6 (s ! 3), 4))"

lemma DecodeRune_size: "s \<noteq> [] \<Longrightarrow> 0 < snd (DecodeRune s)"
  by (simp add: DecodeRune_def Let_def)

section \<open>Chunks\<close>

text \<open>\<open>scanChunk\<close>: the leading stars, then the bytes up to the next star outside brackets.\<close>

fun scan_loop :: "bool \<Rightarrow> string \<Rightarrow> string \<times> string" where
  "scan_loop inrange [] = ([], [])"
| "scan_loop inrange (c # cs) =
     (if c = CHR 0x5C then
        (case cs of
           [] \<Rightarrow> ([c], [])
         | d # ds \<Rightarrow> let (chunk, rest) = scan_loop inrange ds in (c # d # chunk, rest))
      else if c = CHR ''['' then let (chunk, rest) = scan_loop True cs in (c # chunk, rest)
      else if c = CHR '']'' then let (chunk, rest) = scan_loop False cs in (c # chunk, rest)
      else if c = CHR ''*'' \<and> \<not> inrange then ([], c # cs)
      else let (chunk, rest) = scan_loop inrange cs in (c # chunk, rest))"

definition scanChunk :: "string \<Rightarrow> bool \<times> string \<times> string" where
  "scanChunk pattern = (let p = TrimLeftByte (CHR ''*'') pattern; (chunk, rest) = scan_loop False p in
     (p \<noteq> pattern, chunk, rest))"

lemma scan_loop_append: "scan_loop b p = (chunk, rest) \<Longrightarrow> chunk @ rest = p"
  by (induction b p arbitrary: chunk rest rule: scan_loop.induct)
    (auto split: if_splits list.splits prod.splits)

lemma scan_loop_star: "scan_loop False p = ([], rest) \<Longrightarrow> p \<noteq> [] \<Longrightarrow> hd p = CHR ''*''"
  by (cases p) (auto split: if_splits list.splits prod.splits)

lemma hd_TrimLeftByte: "TrimLeftByte c s \<noteq> [] \<Longrightarrow> hd (TrimLeftByte c s) \<noteq> c"
  unfolding TrimLeftByte_def by (metis (mono_tags, lifting) hd_dropWhile)

lemma length_TrimLeftByte: "length (TrimLeftByte c s) \<le> length s"
  by (simp add: TrimLeftByte_def length_dropWhile_le)

lemma scanChunk_shorter: "scanChunk p = (star, chunk, rest) \<Longrightarrow> p \<noteq> [] \<Longrightarrow> length rest < length p"
proof -
  assume s: "scanChunk p = (star, chunk, rest)" and ne: "p \<noteq> []"
  let ?t = "TrimLeftByte (CHR ''*'') p"
  have l: "scan_loop False ?t = (chunk, rest)" "star \<longleftrightarrow> ?t \<noteq> p"
    using s by (auto simp: scanChunk_def Let_def split: prod.splits)
  show ?thesis
  proof (cases chunk)
    case Nil
    then have "?t = []" using scan_loop_star [of ?t rest] hd_TrimLeftByte [of "CHR ''*''" p] l(1) by auto
    then show ?thesis using scan_loop_append [OF l(1)] ne by simp
  next
    case (Cons c cs)
    then have "?t = c # cs @ rest" using scan_loop_append [OF l(1)] by simp
    then have "length rest < length ?t" by simp
    then show ?thesis using length_TrimLeftByte [of "CHR ''*''" p] by linarith
  qed
qed

text \<open>\<open>getEsc\<close>: one bound of a range in brackets.\<close>

definition getEsc :: "string \<Rightarrow> (nat \<times> string) option" where
  "getEsc chunk =
     (if chunk = [] \<or> hd chunk = CHR ''-'' \<or> hd chunk = CHR '']'' then None
      else let c = (if hd chunk = CHR 0x5C then tl chunk else chunk) in
        if c = [] then None
        else let (r, n) = DecodeRune c; rest = drop n c in
          if r = RuneError \<and> n = 1 \<or> rest = [] then None else Some (r, rest))"

lemma getEsc_shorter: "getEsc chunk = Some (r, rest) \<Longrightarrow> length rest < length chunk \<and> rest \<noteq> []"
proof -
  assume g: "getEsc chunk = Some (r, rest)"
  let ?c = "if hd chunk = CHR 0x5C then tl chunk else chunk"
  have c: "chunk \<noteq> []" "?c \<noteq> []" "rest = drop (snd (DecodeRune ?c)) ?c" "rest \<noteq> []"
    using g by (auto simp: getEsc_def Let_def split: if_splits prod.splits)
  have "length rest < length ?c" using c(2,3) DecodeRune_size [OF c(2)] by (simp add: Suc_le_eq diff_less)
  moreover have "length ?c \<le> length chunk" by simp
  ultimately show ?thesis using c(4) by simp
qed

text \<open>The ranges of a class up to its closing bracket; \<open>None\<close> for a malformed class.\<close>

function class_loop :: "nat \<Rightarrow> bool \<Rightarrow> nat \<Rightarrow> string \<Rightarrow> (bool \<times> string) option" where
  "class_loop r matched nrange chunk =
     (if chunk \<noteq> [] \<and> hd chunk = CHR '']'' \<and> 0 < nrange then Some (matched, tl chunk)
      else case getEsc chunk of
        None \<Rightarrow> None
      | Some (lo, c1) \<Rightarrow>
          (if hd c1 = CHR ''-'' then
             (case getEsc (tl c1) of
                None \<Rightarrow> None
              | Some (hi, c2) \<Rightarrow> class_loop r (matched \<or> lo \<le> r \<and> r \<le> hi) (Suc nrange) c2)
           else class_loop r (matched \<or> lo = r) (Suc nrange) c1))"
  by pat_completeness auto
termination
  by (relation "measure (\<lambda>(r, m, n, chunk). length chunk)") (auto dest!: getEsc_shorter)

declare class_loop.simps [simp del]

lemma class_loop_shorter: "class_loop r m n chunk = Some (m', rest) \<Longrightarrow> length rest < length chunk"
proof (induction r m n chunk rule: class_loop.induct)
  case (1 r m n chunk)
  show ?case
  proof (cases "chunk \<noteq> [] \<and> hd chunk = CHR '']'' \<and> 0 < n")
    case True
    then show ?thesis using "1.prems" by (cases chunk) (auto simp: class_loop.simps [of r m n])
  next
    case False
    then obtain lo c1 where g: "getEsc chunk = Some (lo, c1)"
      using "1.prems" by (auto simp: class_loop.simps [of r m n] split: option.splits)
    note c1 = getEsc_shorter [OF g]
    show ?thesis
    proof (cases "hd c1 = CHR ''-''")
      case dash: True
      then obtain hi c2 where g2: "getEsc (tl c1) = Some (hi, c2)"
        and l: "class_loop r (m \<or> lo \<le> r \<and> r \<le> hi) (Suc n) c2 = Some (m', rest)"
        using "1.prems" False g by (auto simp: class_loop.simps [of r m n] split: option.splits)
      have "length rest < length c2"
        by (rule "1.IH"(1) [OF False g refl dash g2 refl l])
      then show ?thesis using c1 getEsc_shorter [OF g2] by simp linarith
    next
      case nodash: False
      then have l: "class_loop r (m \<or> lo = r) (Suc n) c1 = Some (m', rest)"
        using "1.prems" False g by (simp add: class_loop.simps [of r m n])
      have "length rest < length c1" by (rule "1.IH"(2) [OF False g refl nodash l])
      then show ?thesis using c1 by simp
    qed
  qed
qed

text \<open>
  \<open>matchChunk\<close>. After the match has failed the rest of the chunk is still read, to find a malformed
  pattern. \<open>Some None\<close> is no match, \<open>Some (Some rest)\<close> what is left of the name after a match. The
  class reads the rune of a failed match as 0.
\<close>

function matchChunk :: "bool \<Rightarrow> string \<Rightarrow> string \<Rightarrow> string option option" where
  "matchChunk failed chunk s =
     (case chunk of
        [] \<Rightarrow> Some (if failed then None else Some s)
      | c # cs \<Rightarrow> let failed = (failed \<or> s = []) in
          if c = CHR ''['' then
            let (r, n) = (if failed then (0, 0) else DecodeRune s);
                negated = (cs \<noteq> [] \<and> hd cs = CHR ''^'')
            in (case class_loop r False 0 (if negated then tl cs else cs) of
                  None \<Rightarrow> None
                | Some (m, rest) \<Rightarrow> matchChunk (failed \<or> m = negated) rest (drop n s))
          else if c = CHR ''?'' then
            matchChunk (failed \<or> hd s = CHR ''/'') cs (if failed then s else drop (snd (DecodeRune s)) s)
          else if c = CHR 0x5C then
            (if cs = [] then None
             else matchChunk (failed \<or> hd cs \<noteq> hd s) (tl cs) (if failed then s else tl s))
          else matchChunk (failed \<or> c \<noteq> hd s) cs (if failed then s else tl s))"
  by pat_completeness auto
termination
proof (relation "measure (\<lambda>(f, chunk, s). length chunk)", goal_cases)
  case (2 f chunk s c cs f' p r n negated q m rest)
  then show ?case using class_loop_shorter [of r False 0 "if negated then tl cs else cs" m rest]
    by (auto split: if_splits)
qed (auto simp: neq_Nil_conv)

declare matchChunk.simps [simp del]

section \<open>Patterns\<close>

text \<open>After a star: the first later position, before any slash, at which the chunk matches.\<close>

fun skip_loop :: "bool \<Rightarrow> string \<Rightarrow> string \<Rightarrow> string option option" where
  "skip_loop is_last chunk [] = Some None"
| "skip_loop is_last chunk (c # name) =
     (if c = CHR ''/'' then Some None
      else case matchChunk False chunk name of
        None \<Rightarrow> None
      | Some None \<Rightarrow> skip_loop is_last chunk name
      | Some (Some t) \<Rightarrow> if is_last \<and> t \<noteq> [] then skip_loop is_last chunk name else Some (Some t))"

text \<open>After a failed match the rest of the pattern is checked for syntax.\<close>

function check_chunks :: "string \<Rightarrow> bool option" where
  "check_chunks pattern = (if pattern = [] then Some False
     else case scanChunk pattern of (star, chunk, rest) \<Rightarrow>
       (case matchChunk False chunk [] of None \<Rightarrow> None | Some _ \<Rightarrow> check_chunks rest))"
  by pat_completeness auto
termination
  by (relation "measure length") (auto dest: scanChunk_shorter [OF sym])

declare check_chunks.simps [simp del]

function path_Match :: "string \<Rightarrow> string \<Rightarrow> bool option" where
  "path_Match pattern name = (if pattern = [] then Some (name = [])
     else case scanChunk pattern of (star, chunk, rest) \<Rightarrow>
       if star \<and> chunk = [] then Some (\<not> list_ex (\<lambda>c. c = CHR ''/'') name)
       else (case matchChunk False chunk name of
         None \<Rightarrow> None
       | Some m \<Rightarrow>
           if m \<noteq> None \<and> (the m = [] \<or> rest \<noteq> []) then path_Match rest (the m)
           else if star then
             (case skip_loop (rest = []) chunk name of
                None \<Rightarrow> None
              | Some None \<Rightarrow> check_chunks rest
              | Some (Some t) \<Rightarrow> path_Match rest t)
           else check_chunks rest))"
  by pat_completeness auto
termination
  by (relation "measure (\<lambda>(pattern, name). length pattern)") (auto dest: scanChunk_shorter [OF sym])

declare path_Match.simps [simp del]

text \<open>A pattern without special bytes matches itself only.\<close>

definition plain_byte :: "char \<Rightarrow> bool" where
  "plain_byte c \<longleftrightarrow> c \<notin> {CHR ''*'', CHR ''?'', CHR ''['', CHR '']'', CHR 0x5C}"

lemma scan_loop_plain: "list_all plain_byte p \<Longrightarrow> scan_loop False (p @ r) =
    (case scan_loop False r of (chunk, rest) \<Rightarrow> (p @ chunk, rest))"
  by (induction p) (auto simp: plain_byte_def split: prod.splits)

lemma matchChunk_plain: "list_all plain_byte p \<Longrightarrow>
    matchChunk failed p s = Some (if failed \<or> \<not> HasPrefix s p then None else Some (drop (length p) s))"
proof (induction p arbitrary: failed s)
  case Nil
  then show ?case by (simp add: matchChunk.simps HasPrefix_def)
next
  case (Cons c cs)
  then have "matchChunk failed (c # cs) s =
      matchChunk (failed \<or> s = [] \<or> c \<noteq> hd s) cs (if failed \<or> s = [] then s else tl s)"
    by (subst matchChunk.simps) (auto simp: plain_byte_def Let_def)
  then show ?case using Cons by (cases s) (auto simp: HasPrefix_def)
qed

theorem path_Match_plain: "list_all plain_byte p \<Longrightarrow> path_Match p s = Some (s = p)"
proof -
  assume p: "list_all plain_byte p"
  show ?thesis
  proof (cases "p = []")
    case False
    have "TrimLeftByte (CHR ''*'') p = p" using p False by (cases p) (auto simp: TrimLeftByte_def plain_byte_def)
    then have sc: "scanChunk p = (False, p, [])" using scan_loop_plain [OF p, of "[]"] by (simp add: scanChunk_def Let_def)
    show ?thesis using False
      by (subst path_Match.simps) (auto simp: sc matchChunk_plain [OF p] path_Match.simps [of "[]"] check_chunks.simps [of "[]"] HasPrefix_iff)
  qed (auto simp: path_Match.simps)
qed

text \<open>A pattern that ends in a star matches what starts with the rest of it and has no slash after that.\<close>

theorem path_Match_prefix:
  "list_all plain_byte p \<Longrightarrow>
   path_Match (p @ ''*'') s = Some (HasPrefix s p \<and> \<not> list_ex (\<lambda>c. c = CHR ''/'') (drop (length p) s))"
proof -
  assume p: "list_all plain_byte p"
  have star: "path_Match ''*'' t = Some (\<not> list_ex (\<lambda>c. c = CHR ''/'') t)" for t
    by (subst path_Match.simps) (simp add: scanChunk_def TrimLeftByte_def Let_def)
  show ?thesis
  proof (cases "p = []")
    case False
    have "TrimLeftByte (CHR ''*'') (p @ ''*'') = p @ ''*''" using p False by (cases p) (auto simp: TrimLeftByte_def plain_byte_def)
    then have sc: "scanChunk (p @ ''*'') = (False, p, ''*'')"
      using scan_loop_plain [OF p, of "''*''"] by (simp add: scanChunk_def Let_def)
    have c: "check_chunks ''*'' = Some False"
      by (subst check_chunks.simps)
        (simp add: scanChunk_def TrimLeftByte_def Let_def matchChunk.simps [of _ "[]"] check_chunks.simps [of "[]"])
    show ?thesis using False by (subst path_Match.simps) (auto simp: sc matchChunk_plain [OF p] star c)
  qed (use star in \<open>simp add: HasPrefix_def\<close>)
qed

end
