(* ===== verification/Price_Rules.thy ===== *)
theory Price_Rules
  imports Price_List Platform_Rules Sql_World Go_Path
begin

text \<open>
  The price rules of the administrators (\<open>internal/service/model_pricing_catalog.go\<close>,
  \<open>internal/repository/model_pricing_override_repo.go\<close>): what is checked before a rule is stored, the
  table of rules, and which rule applies to a request. How the database lowers and orders text is an
  argument (\<open>rule_sql\<close>); a rule's intervals are stored as they are, since their JSON form is read back
  by the decoder that wrote it. The catalog and its repository are never nil, and neither is the rule
  that is stored.
\<close>

section \<open>Rules\<close>

record ModelPricingOverride =
  mo_ID :: int
  mo_Adapter :: string
  mo_ModelPattern :: string
  mo_BillingMode :: string
  mo_InputPrice :: "float64 option"
  mo_OutputPrice :: "float64 option"
  mo_CacheWritePrice :: "float64 option"
  mo_CacheReadPrice :: "float64 option"
  mo_ImageInputPrice :: "float64 option"
  mo_ImageOutputPrice :: "float64 option"
  mo_PerRequestPrice :: "float64 option"
  mo_Intervals :: "PricingInterval list"
  mo_Status :: string

definition ModelPricingStatusActive :: string where
  "ModelPricingStatusActive = ''active''"

definition ErrModelPricingOverrideNotFound :: go_error where
  "ErrModelPricingOverrideNotFound = Sentinel ''model pricing override not found''"
definition ErrModelPricingOverrideConflict :: go_error where
  "ErrModelPricingOverrideConflict = Sentinel ''model pricing override already exists''"
definition ErrModelPricingIncompleteSale :: go_error where
  "ErrModelPricingIncompleteSale = BadRequest ''MODEL_PRICING_INCOMPLETE_SALE''
     ''platform sale pricing must cover every request scenario when it cannot inherit official pricing''"
definition ErrModelPricingPlatformModelNotEnabled :: go_error where
  "ErrModelPricingPlatformModelNotEnabled = BadRequest ''MODEL_PRICING_PLATFORM_MODEL_NOT_ENABLED''
     ''model is not enabled on the selected platform''"

definition rule_prices :: "ModelPricingOverride \<Rightarrow> float64 option list" where
  "rule_prices r = [mo_InputPrice r, mo_OutputPrice r, mo_CacheWritePrice r, mo_CacheReadPrice r,
     mo_ImageInputPrice r, mo_ImageOutputPrice r, mo_PerRequestPrice r]"

text \<open>The check also brings the rule into its stored form.\<close>

definition validateModelPricingOverride :: "unicode_tables \<Rightarrow> ModelPricingOverride \<Rightarrow> ModelPricingOverride result" where
  "validateModelPricingOverride U item =
     (let item = item\<lparr>mo_Adapter := ToLower U (TrimSpace (mo_Adapter item)),
                      mo_ModelPattern := TrimSpace (mo_ModelPattern item)\<rparr> in
      if mo_Adapter item = '''' \<or> mo_ModelPattern item = ''''
      then Inl (Sentinel ''adapter and model_pattern are required'')
      else let item = (if mo_BillingMode item = '''' then item\<lparr>mo_BillingMode := BillingModeToken\<rparr> else item) in
        if \<not> mode_IsValid (mo_BillingMode item) \<or> mo_BillingMode item = BillingModeVideo
        then Inl (Sentinel (''unsupported billing_mode: '' @ mo_BillingMode item))
        else let item = (if mo_Status item = '''' then item\<lparr>mo_Status := ModelPricingStatusActive\<rparr> else item);
                 item = item\<lparr>mo_Status := ToLower U (TrimSpace (mo_Status item))\<rparr> in
          if mo_Status item \<noteq> ModelPricingStatusActive \<and> mo_Status item \<noteq> ''disabled''
          then Inl (Sentinel (''unsupported status: '' @ mo_Status item))
          else if list_ex negative_price (rule_prices item)
          then Inl (Sentinel ''pricing values must be non-negative'')
          else case ValidateIntervals (mo_Intervals item) of
            Some err \<Rightarrow> Inl err
          | None \<Rightarrow> Inr item)"

section \<open>The table of rules\<close>

record rule_sql =
  rq_lower :: "string \<Rightarrow> string"
  rq_less :: "string \<Rightarrow> string \<Rightarrow> bool"

record rule_db =
  rb_rows :: "ModelPricingOverride list"
  rb_next_id :: int

type_synonym rule_world = "rule_db world"

definition pqUniqueViolation :: go_error where
  "pqUniqueViolation = Sentinel ''pq: 23505''"
definition pqCheckViolation :: go_error where
  "pqCheckViolation = Sentinel ''pq: 23514''"
definition pqStringTooLong :: go_error where
  "pqStringTooLong = Sentinel ''pq: 22001''"

definition isUniqueViolation :: "rule_world \<Rightarrow> go_error \<Rightarrow> bool" where
  "isUniqueViolation w err \<longleftrightarrow> err = pqUniqueViolation \<or> wd_unique w err"

definition row_less :: "rule_sql \<Rightarrow> ModelPricingOverride \<Rightarrow> ModelPricingOverride \<Rightarrow> bool" where
  "row_less Q a b \<longleftrightarrow> rq_less Q (mo_Adapter a) (mo_Adapter b) \<or> mo_Adapter a = mo_Adapter b \<and>
     (rq_less Q (mo_ModelPattern a) (mo_ModelPattern b) \<or>
      mo_ModelPattern a = mo_ModelPattern b \<and> mo_ID a < mo_ID b)"

definition rules_List :: "rule_sql \<Rightarrow> string \<Rightarrow> rule_world \<Rightarrow> ModelPricingOverride list result \<times> rule_world" where
  "rules_List Q adapter w =
     (case sql_exec (\<lambda>d. (Inr (stable_sort (row_less Q) (filter (\<lambda>r.
          TrimSpace adapter = '''' \<or> rq_lower Q (mo_Adapter r) = rq_lower Q (TrimSpace adapter)) (rb_rows d))), d)) w of
        (Inl err, w) \<Rightarrow> (Inl (Wrapped ''list model pricing overrides'' err), w)
      | (Inr rows, w) \<Rightarrow> (Inr rows, w))"

definition rules_Get :: "int \<Rightarrow> rule_world \<Rightarrow> ModelPricingOverride result \<times> rule_world" where
  "rules_Get i w =
     (case sql_exec (\<lambda>d. case List.find (\<lambda>r. mo_ID r = i) (rb_rows d) of
          Some r \<Rightarrow> (Inr r, d) | None \<Rightarrow> (Inl sqlErrNoRows, d)) w of
        (Inl err, w) \<Rightarrow> (Inl (if err = sqlErrNoRows then ErrModelPricingOverrideNotFound
                          else Wrapped ''get model pricing override'' err), w)
      | (Inr r, w) \<Rightarrow> (Inr r, w))"

definition normalizeBillingMode :: "string \<Rightarrow> string" where
  "normalizeBillingMode mode = (if mode = '''' then BillingModeToken else mode)"

definition normalizeStatus :: "unicode_tables \<Rightarrow> string \<Rightarrow> string" where
  "normalizeStatus U status =
     (if TrimSpace status = '''' then ModelPricingStatusActive else ToLower U (TrimSpace status))"

text \<open>The row an insert or update writes. JSON has no infinities and no NaN.\<close>

definition stored_row :: "unicode_tables \<Rightarrow> ModelPricingOverride \<Rightarrow> ModelPricingOverride" where
  "stored_row U r = r\<lparr>mo_Adapter := ToLower U (TrimSpace (mo_Adapter r)),
     mo_ModelPattern := TrimSpace (mo_ModelPattern r), mo_BillingMode := normalizeBillingMode (mo_BillingMode r),
     mo_Status := normalizeStatus U (mo_Status r)\<rparr>"

definition finite_price :: "float64 option \<Rightarrow> bool" where
  "finite_price p = (case p of Some v \<Rightarrow> \<not> f_is_nan v \<and> \<not> f_is_inf v | None \<Rightarrow> True)"

definition marshal_error :: "ModelPricingOverride \<Rightarrow> go_error option" where
  "marshal_error r =
     (if list_all (\<lambda>iv. list_all finite_price [iv_InputPrice iv, iv_OutputPrice iv, iv_CacheWritePrice iv,
           iv_CacheReadPrice iv, iv_PerRequestPrice iv]) (mo_Intervals r) then None
      else Some (Wrapped ''marshal model pricing intervals'' (Sentinel ''json: unsupported value'')))"

text \<open>The columns and constraints of the table: lengths in characters, and the two checks.\<close>

definition char_count :: "string \<Rightarrow> nat" where
  "char_count s = length (filter (\<lambda>c. \<not> byte_in c 0x80 0xBF) s)"

definition row_error :: "ModelPricingOverride \<Rightarrow> go_error option" where
  "row_error r =
     (if char_count (mo_Adapter r) > 50 \<or> char_count (mo_ModelPattern r) > 100 then Some pqStringTooLong
      else if mo_BillingMode r \<notin> set [BillingModeToken, BillingModePerRequest, BillingModeImage] \<or>
        mo_Status r \<notin> set [ModelPricingStatusActive, ''disabled''] then Some pqCheckViolation
      else None)"

definition same_rule_key :: "rule_sql \<Rightarrow> ModelPricingOverride \<Rightarrow> ModelPricingOverride \<Rightarrow> bool" where
  "same_rule_key Q a b \<longleftrightarrow>
     rq_lower Q (mo_Adapter a) = rq_lower Q (mo_Adapter b) \<and> mo_ModelPattern a = mo_ModelPattern b"


definition rules_Create ::
  "unicode_tables \<Rightarrow> rule_sql \<Rightarrow> ModelPricingOverride \<Rightarrow> rule_world \<Rightarrow> ModelPricingOverride result \<times> rule_world" where
  "rules_Create U Q r w =
     (case marshal_error r of
        Some err \<Rightarrow> (Inl err, w)
      | None \<Rightarrow>
          (case sql_exec (\<lambda>d. let row = (stored_row U r)\<lparr>mo_ID := rb_next_id d\<rparr>;
                  d' = d\<lparr>rb_next_id := rb_next_id d + 1\<rparr> in
                case row_error row of
                  Some err \<Rightarrow> (Inl err, d')
                | None \<Rightarrow> if list_ex (same_rule_key Q row) (rb_rows d) then (Inl pqUniqueViolation, d')
                    else (Inr (mo_ID row), d'\<lparr>rb_rows := rb_rows d @ [row]\<rparr>)) w of
             (Inl err, w) \<Rightarrow> (Inl (if isUniqueViolation w err then ErrModelPricingOverrideConflict
                               else Wrapped ''create model pricing override'' err), w)
           | (Inr i, w) \<Rightarrow> (Inr (r\<lparr>mo_ID := i\<rparr>), w)))"

definition rules_Update ::
  "unicode_tables \<Rightarrow> rule_sql \<Rightarrow> ModelPricingOverride \<Rightarrow> rule_world \<Rightarrow> ModelPricingOverride result \<times> rule_world" where
  "rules_Update U Q r w =
     (if mo_ID r \<le> 0 then (Inl ErrModelPricingOverrideNotFound, w)
      else case marshal_error r of
        Some err \<Rightarrow> (Inl err, w)
      | None \<Rightarrow>
          (case sql_exec (\<lambda>d. let row = stored_row U r in
                if \<not> list_ex (\<lambda>x. mo_ID x = mo_ID r) (rb_rows d) then (Inr (0::nat), d)
                else case row_error row of
                  Some err \<Rightarrow> (Inl err, d)
                | None \<Rightarrow> if list_ex (\<lambda>x. mo_ID x \<noteq> mo_ID r \<and> same_rule_key Q row x) (rb_rows d)
                    then (Inl pqUniqueViolation, d)
                    else (Inr 1, d\<lparr>rb_rows := map (\<lambda>x. if mo_ID x = mo_ID r then row else x) (rb_rows d)\<rparr>)) w of
             (Inl err, w) \<Rightarrow> (Inl (if isUniqueViolation w err then ErrModelPricingOverrideConflict
                               else Wrapped ''update model pricing override'' err), w)
           | (Inr n, w) \<Rightarrow> (if n = 0 then Inl ErrModelPricingOverrideNotFound else Inr r, w)))"

definition rules_Upsert ::
  "unicode_tables \<Rightarrow> rule_sql \<Rightarrow> ModelPricingOverride \<Rightarrow> rule_world \<Rightarrow> ModelPricingOverride result \<times> rule_world" where
  "rules_Upsert U Q r w =
     (case marshal_error r of
        Some err \<Rightarrow> (Inl err, w)
      | None \<Rightarrow>
          (case sql_exec (\<lambda>d. let row = (stored_row U r)\<lparr>mo_ID := rb_next_id d\<rparr>;
                  d' = d\<lparr>rb_next_id := rb_next_id d + 1\<rparr> in
                case row_error row of
                  Some err \<Rightarrow> (Inl err, d')
                | None \<Rightarrow> (case List.find (same_rule_key Q row) (rb_rows d) of
                    None \<Rightarrow> (Inr (mo_ID row), d'\<lparr>rb_rows := rb_rows d @ [row]\<rparr>)
                  | Some old \<Rightarrow> (Inr (mo_ID old), d'\<lparr>rb_rows := map (\<lambda>x. if mo_ID x = mo_ID old
                      then row\<lparr>mo_ID := mo_ID old, mo_Adapter := mo_Adapter old, mo_ModelPattern := mo_ModelPattern old\<rparr>
                      else x) (rb_rows d)\<rparr>))) w of
             (Inl err, w) \<Rightarrow> (Inl (Wrapped ''upsert model pricing override'' err), w)
           | (Inr i, w) \<Rightarrow> (Inr (r\<lparr>mo_ID := i\<rparr>), w)))"

definition rules_Delete :: "int \<Rightarrow> rule_world \<Rightarrow> unit result \<times> rule_world" where
  "rules_Delete i w =
     (case sql_exec (\<lambda>d. (Inr (length (filter (\<lambda>r. mo_ID r = i) (rb_rows d))),
            d\<lparr>rb_rows := filter (\<lambda>r. mo_ID r \<noteq> i) (rb_rows d)\<rparr>)) w of
        (Inl err, w) \<Rightarrow> (Inl (Wrapped ''delete model pricing override'' err), w)
      | (Inr n, w) \<Rightarrow> (if n = 0 then Inl ErrModelPricingOverrideNotFound else Inr (), w))"

section \<open>The catalog's operations\<close>

definition catalog_Create ::
  "unicode_tables \<Rightarrow> rule_sql \<Rightarrow> ModelPricingOverride \<Rightarrow> rule_world \<Rightarrow> ModelPricingOverride result \<times> rule_world" where
  "catalog_Create U Q r w = (case validateModelPricingOverride U r of
     Inl err \<Rightarrow> (Inl err, w) | Inr r \<Rightarrow> rules_Create U Q r w)"

definition catalog_Update ::
  "unicode_tables \<Rightarrow> rule_sql \<Rightarrow> int \<Rightarrow> ModelPricingOverride \<Rightarrow> rule_world \<Rightarrow> ModelPricingOverride result \<times> rule_world" where
  "catalog_Update U Q i r w = (case validateModelPricingOverride U (r\<lparr>mo_ID := i\<rparr>) of
     Inl err \<Rightarrow> (Inl err, w) | Inr r \<Rightarrow> rules_Update U Q r w)"

definition catalog_Delete :: "int \<Rightarrow> rule_world \<Rightarrow> unit result \<times> rule_world" where
  "catalog_Delete i w = rules_Delete i w"

definition is_active_rule :: "unicode_tables \<Rightarrow> ModelPricingOverride \<Rightarrow> bool" where
  "is_active_rule U r \<longleftrightarrow> EqualFold U (TrimSpace (mo_Status r)) ModelPricingStatusActive"

definition GetExact ::
  "unicode_tables \<Rightarrow> rule_sql \<Rightarrow> string \<Rightarrow> string \<Rightarrow> rule_world \<Rightarrow> ModelPricingOverride option result \<times> rule_world" where
  "GetExact U Q adapter pattern w =
     (let adapter = ToLower U (TrimSpace adapter); pattern = TrimSpace pattern in
      if adapter = '''' \<or> pattern = '''' then (Inr None, w)
      else case rules_List Q adapter w of
        (Inl err, w) \<Rightarrow> (Inl (Wrapped ''list model pricing overrides'' err), w)
      | (Inr rules, w) \<Rightarrow> (Inr (List.find (\<lambda>r. is_active_rule U r \<and>
            EqualFold U (TrimSpace (mo_Adapter r)) adapter \<and>
            EqualFold U (TrimSpace (mo_ModelPattern r)) pattern) rules), w))"

definition enabled_pattern :: "unicode_tables \<Rightarrow> svcPlatform \<Rightarrow> string \<Rightarrow> string option" where
  "enabled_pattern U platform pattern =
     map_option (\<lambda>r. TrimSpace (ru_ModelPattern r)) (List.find (\<lambda>r. ru_Enabled r \<and>
       EqualFold U (TrimSpace (ru_ModelPattern r)) pattern) (pf_ModelRules platform))"

definition UpsertPlatformSale ::
  "unicode_tables \<Rightarrow> rule_sql \<Rightarrow> svcPlatform option \<Rightarrow> string \<Rightarrow> ModelPricingOverride \<Rightarrow> rule_world \<Rightarrow>
   ModelPricingOverride result \<times> rule_world" where
  "UpsertPlatformSale U Q platform pattern input w =
     (let pattern = TrimSpace pattern in
      case platform of
        None \<Rightarrow> (Inl ErrModelPricingPlatformModelNotEnabled, w)
      | Some p \<Rightarrow>
          if pf_ID p \<le> 0 \<or> TrimSpace (pf_Code p) = '''' \<or> \<not> platform_IsActive p
          then (Inl ErrModelPricingPlatformModelNotEnabled, w)
          else (case enabled_pattern U p pattern of
            None \<Rightarrow> (Inl ErrModelPricingPlatformModelNotEnabled, w)
          | Some canonical \<Rightarrow>
              if canonical = '''' then (Inl ErrModelPricingPlatformModelNotEnabled, w)
              else (case GetExact U Q (pf_Code p) canonical w of
                (Inl err, w) \<Rightarrow> (Inl err, w)
              | (Inr existing, w) \<Rightarrow>
                  let canonical = (case existing of Some r \<Rightarrow> TrimSpace (mo_ModelPattern r) | None \<Rightarrow> canonical)
                  in (case validateModelPricingOverride U
                        (input\<lparr>mo_ID := 0, mo_Adapter := pf_Code p, mo_ModelPattern := canonical\<rparr>) of
                        Inl err \<Rightarrow> (Inl err, w)
                      | Inr r \<Rightarrow> rules_Upsert U Q r w))))"

section \<open>Which rule applies\<close>

definition modelPatternMatches :: "unicode_tables \<Rightarrow> string \<Rightarrow> string \<Rightarrow> bool" where
  "modelPatternMatches U pattern model =
     (let pattern = ToLower U (TrimSpace pattern); model = ToLower U (TrimSpace model) in
      if pattern = '''' \<or> model = '''' then False
      else pattern = model \<or> path_Match pattern model = Some True)"

definition patternSpecificity :: "string \<Rightarrow> nat" where
  "patternSpecificity pattern = length (filter (\<lambda>c. c \<noteq> CHR ''*'' \<and> c \<noteq> CHR ''?'') (TrimSpace pattern))"

definition rule_exact :: "unicode_tables \<Rightarrow> string \<Rightarrow> ModelPricingOverride \<Rightarrow> bool" where
  "rule_exact U model r \<longleftrightarrow> EqualFold U (TrimSpace (mo_ModelPattern r)) model"

definition rule_before :: "unicode_tables \<Rightarrow> string \<Rightarrow> ModelPricingOverride \<Rightarrow> ModelPricingOverride \<Rightarrow> bool" where
  "rule_before U model a b =
     (if rule_exact U model a \<noteq> rule_exact U model b then rule_exact U model a
      else if patternSpecificity (mo_ModelPattern a) \<noteq> patternSpecificity (mo_ModelPattern b)
      then patternSpecificity (mo_ModelPattern a) > patternSpecificity (mo_ModelPattern b)
      else string_less (ToLower U (mo_ModelPattern a)) (ToLower U (mo_ModelPattern b)))"

definition rule_applies :: "unicode_tables \<Rightarrow> string \<Rightarrow> ModelPricingOverride \<Rightarrow> bool" where
  "rule_applies U model r \<longleftrightarrow> ToLower U (TrimSpace (mo_Status r)) = ModelPricingStatusActive \<and>
     modelPatternMatches U (mo_ModelPattern r) (ToLower U model)"

definition resolveModelPricingRules ::
  "unicode_tables \<Rightarrow> ModelPricingOverride list \<Rightarrow> string \<Rightarrow> ModelPricingOverride option" where
  "resolveModelPricingRules U rules model =
     (case stable_sort (rule_before U model) (filter (rule_applies U model) rules) of
        [] \<Rightarrow> None | r # _ \<Rightarrow> Some r)"

record PricingInput =
  pi_Model :: string
  pi_Adapter :: string
  pi_PlatformCode :: string
  pi_PublicModel :: string

fun identities_loop :: "unicode_tables \<Rightarrow> string list \<Rightarrow> (string \<times> string) list \<Rightarrow> (string \<times> string) list" where
  "identities_loop U seen [] = []"
| "identities_loop U seen ((adapter, model) # rest) =
     (let adapter = ToLower U (TrimSpace adapter); model = TrimSpace model;
          key = adapter @ [CHR 0x00] @ ToLower U model in
      if adapter = '''' \<or> model = '''' \<or> key \<in> set seen then identities_loop U seen rest
      else (adapter, model) # identities_loop U (key # seen) rest)"

definition pricingIdentitiesForInput :: "unicode_tables \<Rightarrow> PricingInput \<Rightarrow> (string \<times> string) list" where
  "pricingIdentitiesForInput U input = identities_loop U [] [(pi_PlatformCode input, pi_PublicModel input),
     (pi_PlatformCode input, pi_Model input), (pi_Adapter input, pi_PublicModel input), (pi_Adapter input, pi_Model input)]"

text \<open>Resolving one request reads the rules of an adapter when it first needs them.\<close>

fun identity_loop ::
  "unicode_tables \<Rightarrow> rule_sql \<Rightarrow> (string \<times> ModelPricingOverride list) list \<Rightarrow> (string \<times> string) list \<Rightarrow> rule_world \<Rightarrow>
   ModelPricingOverride option result \<times> rule_world" where
  "identity_loop U Q loaded [] w = (Inr None, w)"
| "identity_loop U Q loaded ((adapter, model) # rest) w =
     (case (case map_of loaded adapter of Some rules \<Rightarrow> (Inr rules, w) | None \<Rightarrow> rules_List Q adapter w) of
        (Inl err, w) \<Rightarrow> (Inl (Wrapped ''list model pricing overrides'' err), w)
      | (Inr rules, w) \<Rightarrow>
          (case resolveModelPricingRules U rules model of
             Some r \<Rightarrow> (Inr (Some r), w)
           | None \<Rightarrow> identity_loop U Q ((adapter, rules) # loaded) rest w))"

definition ResolveForPricingInput ::
  "unicode_tables \<Rightarrow> rule_sql \<Rightarrow> PricingInput \<Rightarrow> rule_world \<Rightarrow> ModelPricingOverride option result \<times> rule_world" where
  "ResolveForPricingInput U Q input w = identity_loop U Q [] (pricingIdentitiesForInput U input) w"

definition catalog_Resolve ::
  "unicode_tables \<Rightarrow> rule_sql \<Rightarrow> string \<Rightarrow> string \<Rightarrow> rule_world \<Rightarrow> ModelPricingOverride option result \<times> rule_world" where
  "catalog_Resolve U Q adapter model w =
     (let adapter = ToLower U (TrimSpace adapter); model = TrimSpace model in
      if adapter = '''' \<or> model = '''' then (Inr None, w)
      else case rules_List Q adapter w of
        (Inl err, w) \<Rightarrow> (Inl (Wrapped ''list model pricing overrides'' err), w)
      | (Inr rules, w) \<Rightarrow> (Inr (resolveModelPricingRules U rules model), w))"

text \<open>Resolving many requests reads all rules once and groups them by adapter.\<close>

record ModelPricingRuleSnapshot =
  sn_rulesByAdapter :: "string \<Rightarrow> ModelPricingOverride list"

definition LoadSnapshot :: "unicode_tables \<Rightarrow> rule_sql \<Rightarrow> rule_world \<Rightarrow> ModelPricingRuleSnapshot result \<times> rule_world" where
  "LoadSnapshot U Q w =
     (case rules_List Q '''' w of
        (Inl err, w) \<Rightarrow> (Inl (Wrapped ''list model pricing overrides'' err), w)
      | (Inr rules, w) \<Rightarrow> (Inr \<lparr>sn_rulesByAdapter =
            (\<lambda>a. filter (\<lambda>r. a \<noteq> '''' \<and> ToLower U (TrimSpace (mo_Adapter r)) = a) rules)\<rparr>, w))"

definition snapshot_ResolveForPricingInput ::
  "unicode_tables \<Rightarrow> ModelPricingRuleSnapshot \<Rightarrow> PricingInput \<Rightarrow> ModelPricingOverride option" where
  "snapshot_ResolveForPricingInput U s input =
     (case List.map_filter (\<lambda>(adapter, model). resolveModelPricingRules U (sn_rulesByAdapter s adapter) model)
        (pricingIdentitiesForInput U input) of [] \<Rightarrow> None | r # _ \<Rightarrow> Some r)"

end
