(* ===== verification/Price_Resolver.thy ===== *)
theory Price_Resolver
  imports Price_Rules
begin

text \<open>
  From a model to its price (\<open>internal/service/model_pricing_resolver.go\<close>, the lookups and checks of
  \<open>billing_service.go\<close> and the conversion of a rule in \<open>model_pricing_catalog.go\<close>): the listed or
  built-in price of the model, the administrators' rule on top of it, and whether the result is complete
  enough to charge a request. The service remembers for which models it has logged a warning; that is
  left out.
\<close>

section \<open>Listed and built-in prices\<close>

definition ErrModelPricingUnavailable :: go_error where
  "ErrModelPricingUnavailable = Sentinel ''pricing not found''"

definition unavailable_for :: "string \<Rightarrow> go_error" where
  "unavailable_for model = Wrapped ('' for model: '' @ model) ErrModelPricingUnavailable"

record BillingService =
  bs_pricingService :: "pricing_state option"
  bs_fallbackPrices :: fallback_table
  bs_defaultRate :: float64

definition NewBillingService :: "float64 \<Rightarrow> pricing_state option \<Rightarrow> BillingService" where
  "NewBillingService rate pricingService =
     \<lparr>bs_pricingService = pricingService, bs_fallbackPrices = initFallbackPricing, bs_defaultRate = rate\<rparr>"

definition liteLLMToModelPricing :: "LiteLLMModelPricing \<Rightarrow> ModelPricing" where
  "liteLLMToModelPricing p = (let price5m = ll_CacheCreationInputTokenCost p;
        price1h = ll_CacheCreationInputTokenCostAbove1hr p in \<lparr>
     mp_InputPricePerToken = ll_InputCostPerToken p, mp_InputPriceExplicit = ll_InputCostPerTokenExplicit p,
     mp_InputPricePerTokenPriority = ll_InputCostPerTokenPriority p,
     mp_ImageInputPricePerToken = ll_InputCostPerImageToken p,
     mp_ImageInputPriceExplicit = ll_InputCostPerImageTokenExplicit p,
     mp_OutputPricePerToken = ll_OutputCostPerToken p, mp_OutputPriceExplicit = ll_OutputCostPerTokenExplicit p,
     mp_OutputPricePerTokenPriority = ll_OutputCostPerTokenPriority p,
     mp_CacheCreationPricePerToken = ll_CacheCreationInputTokenCost p,
     mp_CacheCreationPricePerTokenPriority = ll_CacheCreationInputTokenCostPriority p,
     mp_CacheCreationPriceExplicit = ll_CacheCreationInputTokenCostExplicit p,
     mp_CacheReadPricePerToken = ll_CacheReadInputTokenCost p,
     mp_CacheReadPriceExplicit = ll_CacheReadInputTokenCostExplicit p,
     mp_CacheReadPricePerTokenPriority = ll_CacheReadInputTokenCostPriority p,
     mp_CacheCreation5mPrice = price5m, mp_CacheCreation1hPrice = price1h,
     mp_SupportsCacheBreakdown = (f_less f_zero price1h \<and> f_less price5m price1h),
     mp_LongContextInputThreshold = ll_LongContextInputTokenThreshold p,
     mp_LongContextInputMultiplier = ll_LongContextInputCostMultiplier p,
     mp_LongContextOutputMultiplier = ll_LongContextOutputCostMultiplier p,
     mp_ImageOutputPricePerToken = ll_OutputCostPerImageToken p,
     mp_ImageOutputPriceExplicit = ll_OutputCostPerImageTokenExplicit p\<rparr>)"

text \<open>OpenAI's rules for its own models: a price for writing the cache, and a higher price for long contexts.\<close>

definition not_positive :: "float64 \<Rightarrow> bool" where
  "not_positive x \<longleftrightarrow> f_le x f_zero"

definition applyModelSpecificPricingPolicy :: "unicode_tables \<Rightarrow> string \<Rightarrow> ModelPricing \<Rightarrow> ModelPricing" where
  "applyModelSpecificPricingPolicy U model p =
     (let n = normalizeKnownOpenAICodexModel U model; isGPT56 = isOpenAIGPT56Model U n;
          legacy = usesOpenAILegacyLongContextPricing n in
      if \<not> isGPT56 \<and> \<not> legacy then p
      else let needsLongContext = (mp_LongContextInputThreshold p \<le> 0 \<or> not_positive (mp_LongContextInputMultiplier p) \<or>
                 not_positive (mp_LongContextOutputMultiplier p));
               needsCacheCreation = (isGPT56 \<and> \<not> mp_CacheCreationPriceExplicit p \<and>
                 (not_positive (mp_CacheCreationPricePerToken p) \<or>
                  f_less f_zero (mp_InputPricePerTokenPriority p) \<and> not_positive (mp_CacheCreationPricePerTokenPriority p)))
           in if \<not> needsLongContext \<and> \<not> needsCacheCreation then p
              else let p = (if isGPT56 \<and> \<not> mp_CacheCreationPriceExplicit p then p\<lparr>
                       mp_CacheCreationPricePerToken := (if not_positive (mp_CacheCreationPricePerToken p)
                         then f_mul (mp_InputPricePerToken p) (Fin 1.25) else mp_CacheCreationPricePerToken p),
                       mp_CacheCreationPricePerTokenPriority := (if not_positive (mp_CacheCreationPricePerTokenPriority p)
                         then f_mul (mp_InputPricePerTokenPriority p) (Fin 1.25)
                         else mp_CacheCreationPricePerTokenPriority p)\<rparr> else p)
                   in p\<lparr>
                       mp_LongContextInputThreshold := (if mp_LongContextInputThreshold p \<le> 0
                         then openAIGPT54LongContextInputThreshold else mp_LongContextInputThreshold p),
                       mp_LongContextInputMultiplier := (if not_positive (mp_LongContextInputMultiplier p)
                         then openAIGPT54LongContextInputMultiplier else mp_LongContextInputMultiplier p),
                       mp_LongContextOutputMultiplier := (if not_positive (mp_LongContextOutputMultiplier p)
                         then openAIGPT54LongContextOutputMultiplier else mp_LongContextOutputMultiplier p)\<rparr>)"

record ModelPricingLookup =
  ml_Pricing :: ModelPricing
  ml_Mode :: string
  ml_DefaultPerRequestPrice :: float64
  ml_DefaultPerRequestPriceExplicit :: bool
  ml_Source :: PricingSourceInfo

text \<open>What the list gives for a model: a price per image when it has no price per token, else a price per token.\<close>

definition listed_lookup :: "unicode_tables \<Rightarrow> BillingService \<Rightarrow> string \<Rightarrow> ModelPricingLookup option" where
  "listed_lookup U s model =
     (case Option.bind (bs_pricingService s) (\<lambda>st. list_LookupModelPricing U st model) of
        None \<Rightarrow> None
      | Some found \<Rightarrow> let p = lk_Pricing found in
          if ll_TokenPricingAbsent p \<and> (f_less f_zero (ll_OutputCostPerImage p) \<or> ll_OutputCostPerImageExplicit p)
          then Some \<lparr>ml_Pricing = liteLLMToModelPricing p, ml_Mode = BillingModeImage,
                 ml_DefaultPerRequestPrice = ll_OutputCostPerImage p,
                 ml_DefaultPerRequestPriceExplicit = ll_OutputCostPerImageExplicit p, ml_Source = lk_Source found\<rparr>
          else if \<not> ll_TokenPricingAbsent p
          then Some \<lparr>ml_Pricing = applyModelSpecificPricingPolicy U model (liteLLMToModelPricing p),
                 ml_Mode = BillingModeToken, ml_DefaultPerRequestPrice = f_zero,
                 ml_DefaultPerRequestPriceExplicit = False, ml_Source = lk_Source found\<rparr>
          else None)"

definition LookupModelPricing :: "unicode_tables \<Rightarrow> BillingService \<Rightarrow> string \<Rightarrow> ModelPricingLookup result" where
  "LookupModelPricing U s model =
     (let model = ToLower U (TrimSpace model) in
      case listed_lookup U s model of
        Some found \<Rightarrow> Inr found
      | None \<Rightarrow>
          (case getFallbackPricing U (bs_fallbackPrices s) model of
             Some (origin, p) \<Rightarrow> Inr \<lparr>ml_Pricing = applyModelSpecificPricingPolicy U model p, ml_Mode = BillingModeToken,
               ml_DefaultPerRequestPrice = f_zero, ml_DefaultPerRequestPriceExplicit = False,
               ml_Source = \<lparr>si_Type = CodeFallback, si_Name = ''XCode built-in pricing'', si_URL = '''',
                 si_MatchedModel = fallbackMatchedModel U (bs_fallbackPrices s) model origin, si_UpdatedAt = None\<rparr>\<rparr>
           | None \<Rightarrow> Inl (unavailable_for model)))"

definition GetModelPricing :: "unicode_tables \<Rightarrow> BillingService \<Rightarrow> string \<Rightarrow> ModelPricing result" where
  "GetModelPricing U s model =
     (let model = ToLower U model in
      case Option.bind (bs_pricingService s) (\<lambda>st. list_GetModelPricing U st model) of
        Some p \<Rightarrow> if \<not> ll_TokenPricingAbsent p
          then Inr (applyModelSpecificPricingPolicy U model (liteLLMToModelPricing p))
          else (case getFallbackPricing U (bs_fallbackPrices s) model of
            Some (_, p) \<Rightarrow> Inr (applyModelSpecificPricingPolicy U model p)
          | None \<Rightarrow> Inl (unavailable_for model))
      | None \<Rightarrow>
          (case getFallbackPricing U (bs_fallbackPrices s) model of
             Some (_, p) \<Rightarrow> Inr (applyModelSpecificPricingPolicy U model p)
           | None \<Rightarrow> Inl (unavailable_for model)))"


section \<open>Prices given by an override\<close>

record ModelPricingOverrideInput =
  oi_InputPrice :: "float64 option"
  oi_OutputPrice :: "float64 option"
  oi_CacheWritePrice :: "float64 option"
  oi_CacheReadPrice :: "float64 option"
  oi_ImageInputPrice :: "float64 option"
  oi_ImageOutputPrice :: "float64 option"
  oi_PerRequestPrice :: "float64 option"
  oi_Intervals :: "PricingInterval list"

definition applyOverrideImageInputPrice :: "ModelPricingOverrideInput \<Rightarrow> ModelPricing \<Rightarrow> ModelPricing" where
  "applyOverrideImageInputPrice o1 p = p\<lparr>mp_ImageInputPricePerToken := or_zero (oi_ImageInputPrice o1)\<rparr>"

definition set_input :: "bool \<Rightarrow> float64 option \<Rightarrow> ModelPricing \<Rightarrow> ModelPricing" where
  "set_input explicit v p = (case v of None \<Rightarrow> p | Some x \<Rightarrow> p\<lparr>mp_InputPricePerToken := x,
     mp_InputPricePerTokenPriority := x, mp_InputPriceExplicit := (explicit \<or> mp_InputPriceExplicit p)\<rparr>)"

definition set_output :: "bool \<Rightarrow> float64 option \<Rightarrow> ModelPricing \<Rightarrow> ModelPricing" where
  "set_output explicit v p = (case v of None \<Rightarrow> p | Some x \<Rightarrow> p\<lparr>mp_OutputPricePerToken := x,
     mp_OutputPricePerTokenPriority := x, mp_OutputPriceExplicit := (explicit \<or> mp_OutputPriceExplicit p)\<rparr>)"

definition set_cache_write :: "float64 option \<Rightarrow> ModelPricing \<Rightarrow> ModelPricing" where
  "set_cache_write v p = (case v of None \<Rightarrow> p | Some x \<Rightarrow> p\<lparr>mp_CacheCreationPricePerToken := x,
     mp_CacheCreationPricePerTokenPriority := x, mp_CacheCreationPriceExplicit := True,
     mp_CacheCreation5mPrice := x, mp_CacheCreation1hPrice := x\<rparr>)"

definition set_cache_read :: "bool \<Rightarrow> float64 option \<Rightarrow> ModelPricing \<Rightarrow> ModelPricing" where
  "set_cache_read explicit v p = (case v of None \<Rightarrow> p | Some x \<Rightarrow> p\<lparr>mp_CacheReadPricePerToken := x,
     mp_CacheReadPricePerTokenPriority := x, mp_CacheReadPriceExplicit := (explicit \<or> mp_CacheReadPriceExplicit p)\<rparr>)"

definition flat_override :: "ModelPricingOverrideInput \<Rightarrow> ModelPricing \<Rightarrow> ModelPricing" where
  "flat_override o1 p = applyOverrideImageInputPrice o1
     ((set_cache_read False (oi_CacheReadPrice o1) (set_cache_write (oi_CacheWritePrice o1)
        (set_output False (oi_OutputPrice o1) (set_input False (oi_InputPrice o1) p))))
      \<lparr>mp_ImageOutputPricePerToken := or_zero (oi_ImageOutputPrice o1), mp_ImageOutputPriceExplicit := True\<rparr>)"

definition GetModelPricingWithOverride ::
  "unicode_tables \<Rightarrow> BillingService \<Rightarrow> string \<Rightarrow> ModelPricingOverrideInput option \<Rightarrow> ModelPricing result" where
  "GetModelPricingWithOverride U s model ov =
     (case GetModelPricing U s model of
        Inl err \<Rightarrow> Inl err
      | Inr p \<Rightarrow> (case ov of None \<Rightarrow> Inr p | Some o1 \<Rightarrow> Inr (flat_override o1 p)))"

section \<open>Resolved prices\<close>

definition PricingSourceOverride :: string where "PricingSourceOverride = ''override''"
definition PricingSourceLiteLLM :: string where "PricingSourceLiteLLM = ''litellm''"
definition PricingSourceFallback :: string where "PricingSourceFallback = ''fallback''"

record ResolvedPricing =
  rp_Mode :: string
  rp_BasePricing :: "ModelPricing option"
  rp_OfficialPricing :: "ModelPricing option"
  rp_OfficialMode :: string
  rp_OfficialSource :: "PricingSourceInfo option"
  rp_MatchedOverride :: "ModelPricingOverride option"
  rp_Intervals :: "PricingInterval list"
  rp_RequestTiers :: "PricingInterval list"
  rp_DefaultPerRequestPrice :: float64
  rp_DefaultPerRequestPriceExplicit :: bool
  rp_OfficialDefaultPerRequestPrice :: float64
  rp_OfficialDefaultPerRequestPriceExplicit :: bool
  rp_Source :: string
  rp_SupportsCacheBreakdown :: bool

definition unavailable_source :: "string \<Rightarrow> PricingSourceInfo" where
  "unavailable_source model = \<lparr>si_Type = SourceUnavailable, si_Name = ''Unavailable'', si_URL = '''',
     si_MatchedModel = model, si_UpdatedAt = None\<rparr>"

definition applyOverridePrices :: "ModelPricingOverride \<Rightarrow> ModelPricing \<Rightarrow> ModelPricing" where
  "applyOverridePrices r p =
     (let p = set_cache_read True (mo_CacheReadPrice r) (set_cache_write (mo_CacheWritePrice r)
            (set_output True (mo_OutputPrice r) (set_input True (mo_InputPrice r) p)));
          p = (case mo_ImageInputPrice r of None \<Rightarrow> p
               | Some x \<Rightarrow> p\<lparr>mp_ImageInputPricePerToken := x, mp_ImageInputPriceExplicit := True\<rparr>)
      in case mo_ImageOutputPrice r of None \<Rightarrow> p
         | Some x \<Rightarrow> p\<lparr>mp_ImageOutputPricePerToken := x, mp_ImageOutputPriceExplicit := True\<rparr>)"

definition pricingOverrideToResolved ::
  "ModelPricingOverride \<Rightarrow> ModelPricing option \<Rightarrow> PricingSourceInfo option \<Rightarrow> ResolvedPricing" where
  "pricingOverrideToResolved r base officialSource =
     (let mode = (if mo_BillingMode r = '''' then BillingModeToken else mo_BillingMode r);
          intervals = filterValidIntervals (mo_Intervals r) in \<lparr>
        rp_Mode = mode,
        rp_BasePricing = Some (applyOverridePrices r (case base of Some p \<Rightarrow> p | None \<Rightarrow> no_pricing)),
        rp_OfficialPricing = base, rp_OfficialMode = '''', rp_OfficialSource = officialSource,
        rp_MatchedOverride = Some r, rp_Intervals = intervals,
        rp_RequestTiers = (if mode = BillingModePerRequest \<or> mode = BillingModeImage then intervals else []),
        rp_DefaultPerRequestPrice = or_zero (mo_PerRequestPrice r),
        rp_DefaultPerRequestPriceExplicit = (mo_PerRequestPrice r \<noteq> None),
        rp_OfficialDefaultPerRequestPrice = f_zero, rp_OfficialDefaultPerRequestPriceExplicit = False,
        rp_Source = PricingSourceOverride,
        rp_SupportsCacheBreakdown = (case base of Some p \<Rightarrow> mp_SupportsCacheBreakdown p | None \<Rightarrow> False)\<rparr>)"

definition pricingModelForInput :: "PricingInput \<Rightarrow> string" where
  "pricingModelForInput input = (let model = TrimSpace (pi_Model input) in
     if model \<noteq> '''' then model else TrimSpace (pi_PublicModel input))"

definition resolveBasePricing :: "unicode_tables \<Rightarrow> BillingService \<Rightarrow> string \<Rightarrow> (ModelPricingLookup \<times> string) result" where
  "resolveBasePricing U s model =
     (case LookupModelPricing U s model of
        Inl err \<Rightarrow> Inl err
      | Inr found \<Rightarrow> Inr (found, if si_Type (ml_Source found) = CodeFallback then PricingSourceFallback else PricingSourceLiteLLM))"

text \<open>A rule on top of the official price: prices of another billing mode are not inherited.\<close>

definition inherit_official :: "ModelPricingOverride \<Rightarrow> ModelPricingLookup \<Rightarrow> ResolvedPricing \<Rightarrow> ResolvedPricing" where
  "inherit_official r found p =
     (let p = p\<lparr>rp_OfficialMode := ml_Mode found,
            rp_OfficialDefaultPerRequestPrice := ml_DefaultPerRequestPrice found,
            rp_OfficialDefaultPerRequestPriceExplicit := ml_DefaultPerRequestPriceExplicit found\<rparr>;
          p = (if ml_Mode found \<noteq> rp_Mode p
               then p\<lparr>rp_BasePricing := Some (applyOverridePrices r no_pricing), rp_SupportsCacheBreakdown := False\<rparr>
               else p)
      in if ml_Mode found = rp_Mode p \<and> mo_PerRequestPrice r = None
         then p\<lparr>rp_DefaultPerRequestPrice := ml_DefaultPerRequestPrice found,
                rp_DefaultPerRequestPriceExplicit := ml_DefaultPerRequestPriceExplicit found\<rparr>
         else p)"

definition resolveWithOverride ::
  "unicode_tables \<Rightarrow> BillingService \<Rightarrow> PricingInput \<Rightarrow> ModelPricingOverride option \<Rightarrow> ResolvedPricing result" where
  "resolveWithOverride U s input override =
     (let model = pricingModelForInput input; base = resolveBasePricing U s model in
      case override of
        Some r \<Rightarrow>
          (case base of
             Inl err \<Rightarrow> if errors_is err ErrModelPricingUnavailable
               then Inr (pricingOverrideToResolved r None (Some (unavailable_source model))) else Inl err
           | Inr (found, _) \<Rightarrow> Inr (inherit_official r found
               (pricingOverrideToResolved r (Some (ml_Pricing found)) (Some (ml_Source found)))))
      | None \<Rightarrow>
          (case base of
             Inl err \<Rightarrow> Inl err
           | Inr (found, source) \<Rightarrow> Inr \<lparr>rp_Mode = ml_Mode found,
               rp_BasePricing = Some (ml_Pricing found), rp_OfficialPricing = Some (ml_Pricing found),
               rp_OfficialMode = ml_Mode found, rp_OfficialSource = Some (ml_Source found),
               rp_MatchedOverride = None, rp_Intervals = [], rp_RequestTiers = [],
               rp_DefaultPerRequestPrice = ml_DefaultPerRequestPrice found,
               rp_DefaultPerRequestPriceExplicit = ml_DefaultPerRequestPriceExplicit found,
               rp_OfficialDefaultPerRequestPrice = ml_DefaultPerRequestPrice found,
               rp_OfficialDefaultPerRequestPriceExplicit = ml_DefaultPerRequestPriceExplicit found,
               rp_Source = source,
               rp_SupportsCacheBreakdown = mp_SupportsCacheBreakdown (ml_Pricing found)\<rparr>))"

text \<open>The resolver. Without a catalog (\<open>None\<close>) there are no rules.\<close>

record ModelPricingResolver =
  mr_billingService :: BillingService
  mr_pricingCatalog :: "rule_sql option"

definition resolver_Resolve ::
  "unicode_tables \<Rightarrow> ModelPricingResolver \<Rightarrow> PricingInput \<Rightarrow> rule_world \<Rightarrow> ResolvedPricing result \<times> rule_world" where
  "resolver_Resolve U R input w =
     (case mr_pricingCatalog R of
        None \<Rightarrow> (resolveWithOverride U (mr_billingService R) input None, w)
      | Some Q \<Rightarrow>
          (case ResolveForPricingInput U Q input w of
             (Inl err, w) \<Rightarrow> (Inl err, w)
           | (Inr override, w) \<Rightarrow> (resolveWithOverride U (mr_billingService R) input override, w)))"

definition unavailable_pricing :: "string \<Rightarrow> ResolvedPricing" where
  "unavailable_pricing model = \<lparr>rp_Mode = '''', rp_BasePricing = None, rp_OfficialPricing = None, rp_OfficialMode = '''',
     rp_OfficialSource = Some (unavailable_source model), rp_MatchedOverride = None, rp_Intervals = [],
     rp_RequestTiers = [], rp_DefaultPerRequestPrice = f_zero, rp_DefaultPerRequestPriceExplicit = False,
     rp_OfficialDefaultPerRequestPrice = f_zero, rp_OfficialDefaultPerRequestPriceExplicit = False,
     rp_Source = ''unavailable'', rp_SupportsCacheBreakdown = False\<rparr>"

fun batch_loop ::
  "unicode_tables \<Rightarrow> BillingService \<Rightarrow> ModelPricingRuleSnapshot option \<Rightarrow> PricingInput list \<Rightarrow> ResolvedPricing list result" where
  "batch_loop U s snapshot [] = Inr []"
| "batch_loop U s snapshot (input # rest) =
     (case resolveWithOverride U s input (Option.bind snapshot (\<lambda>sn. snapshot_ResolveForPricingInput U sn input)) of
        Inl err \<Rightarrow> if errors_is err ErrModelPricingUnavailable
          then map_sum id (\<lambda>ps. unavailable_pricing (pricingModelForInput input) # ps) (batch_loop U s snapshot rest)
          else Inl err
      | Inr p \<Rightarrow> map_sum id (\<lambda>ps. p # ps) (batch_loop U s snapshot rest))"

definition ResolveBatch ::
  "unicode_tables \<Rightarrow> ModelPricingResolver \<Rightarrow> PricingInput list \<Rightarrow> rule_world \<Rightarrow> ResolvedPricing list result \<times> rule_world" where
  "ResolveBatch U R inputs w =
     (case mr_pricingCatalog R of
        None \<Rightarrow> (batch_loop U (mr_billingService R) None inputs, w)
      | Some Q \<Rightarrow>
          (case LoadSnapshot U Q w of
             (Inl err, w) \<Rightarrow> (Inl err, w)
           | (Inr snapshot, w) \<Rightarrow> (batch_loop U (mr_billingService R) (Some snapshot) inputs, w)))"


section \<open>Prices by context length and by tier\<close>

definition intervalToModelPricing ::
  "PricingInterval \<Rightarrow> ModelPricing option \<Rightarrow> bool \<Rightarrow> ModelPricingOverrideInput option \<Rightarrow> ModelPricing" where
  "intervalToModelPricing iv base supportsBreakdown ov =
     (let p = (case base of Some p \<Rightarrow> p | None \<Rightarrow> no_pricing\<lparr>mp_SupportsCacheBreakdown := supportsBreakdown\<rparr>);
          p = set_cache_read True (iv_CacheReadPrice iv) (set_cache_write (iv_CacheWritePrice iv)
            (set_output True (iv_OutputPrice iv) (set_input True (iv_InputPrice iv) p)))
      in case ov of
           None \<Rightarrow> p
         | Some o1 \<Rightarrow> applyOverrideImageInputPrice o1 (p\<lparr>mp_ImageOutputPriceExplicit := True,
             mp_ImageOutputPricePerToken := (case oi_ImageOutputPrice o1 of
               Some x \<Rightarrow> x | None \<Rightarrow> mp_ImageOutputPricePerToken p)\<rparr>))"

definition GetIntervalPricing :: "ResolvedPricing \<Rightarrow> int \<Rightarrow> ModelPricing option" where
  "GetIntervalPricing p totalContext =
     (if rp_Intervals p = [] then rp_BasePricing p
      else case FindMatchingInterval (rp_Intervals p) totalContext of
        None \<Rightarrow> rp_BasePricing p
      | Some iv \<Rightarrow> Some (intervalToModelPricing iv (rp_BasePricing p) (rp_SupportsCacheBreakdown p) None))"

definition GetRequestTierPrice :: "ResolvedPricing \<Rightarrow> string \<Rightarrow> float64 option" where
  "GetRequestTierPrice p label =
     Option.bind (List.find (\<lambda>t. iv_TierLabel t = label \<and> iv_PerRequestPrice t \<noteq> None) (rp_RequestTiers p)) iv_PerRequestPrice"

definition GetRequestTierPriceByContext :: "ResolvedPricing \<Rightarrow> int \<Rightarrow> float64 option" where
  "GetRequestTierPriceByContext p totalContext =
     Option.bind (FindMatchingInterval (rp_RequestTiers p) totalContext) iv_PerRequestPrice"

definition applyTokenOverrides :: "ModelPricingOverrideInput \<Rightarrow> ResolvedPricing \<Rightarrow> ResolvedPricing" where
  "applyTokenOverrides o1 p =
     (let valid = filterValidIntervals (oi_Intervals o1);
          base = (case rp_BasePricing p of Some b \<Rightarrow> b | None \<Rightarrow> no_pricing)
      in if valid \<noteq> [] then p\<lparr>rp_Intervals := valid, rp_BasePricing := Some (applyOverrideImageInputPrice o1
             (base\<lparr>mp_ImageOutputPricePerToken := or_zero (oi_ImageOutputPrice o1), mp_ImageOutputPriceExplicit := True\<rparr>))\<rparr>
         else p\<lparr>rp_BasePricing := Some (flat_override o1 base)\<rparr>)"

definition applyRequestTierOverrides :: "ModelPricingOverrideInput \<Rightarrow> ResolvedPricing \<Rightarrow> ResolvedPricing" where
  "applyRequestTierOverrides o1 p = p\<lparr>rp_RequestTiers := filterValidIntervals (oi_Intervals o1),
     rp_DefaultPerRequestPrice := (case oi_PerRequestPrice o1 of Some x \<Rightarrow> x | None \<Rightarrow> rp_DefaultPerRequestPrice p)\<rparr>"

section \<open>Is a price complete?\<close>

definition tokenPriceValueAvailable :: "float64 \<Rightarrow> bool \<Rightarrow> bool" where
  "tokenPriceValueAvailable value explicit \<longleftrightarrow>
     \<not> f_is_nan value \<and> \<not> f_is_inf value \<and> (f_less f_zero value \<or> value = f_zero \<and> explicit)"

definition isCoreTokenPricingAvailable :: "ModelPricing \<Rightarrow> bool" where
  "isCoreTokenPricingAvailable p \<longleftrightarrow>
     tokenPriceValueAvailable (mp_InputPricePerToken p) (mp_InputPriceExplicit p) \<and>
     tokenPriceValueAvailable (mp_OutputPricePerToken p) (mp_OutputPriceExplicit p)"

definition isCompleteTokenPricing :: "ModelPricing \<Rightarrow> bool" where
  "isCompleteTokenPricing p \<longleftrightarrow> isCoreTokenPricingAvailable p \<and>
     tokenPriceValueAvailable (mp_CacheCreationPricePerToken p) (mp_CacheCreationPriceExplicit p) \<and>
     tokenPriceValueAvailable (mp_CacheReadPricePerToken p) (mp_CacheReadPriceExplicit p)"

definition price_values :: "ModelPricing \<Rightarrow> float64 list" where
  "price_values p = [mp_InputPricePerToken p, mp_InputPricePerTokenPriority p, mp_ImageInputPricePerToken p,
     mp_OutputPricePerToken p, mp_OutputPricePerTokenPriority p, mp_ImageOutputPricePerToken p,
     mp_CacheCreationPricePerToken p, mp_CacheCreationPricePerTokenPriority p, mp_CacheReadPricePerToken p,
     mp_CacheReadPricePerTokenPriority p, mp_CacheCreation5mPrice p, mp_CacheCreation1hPrice p]"

definition tokenPricingValuesValid :: "ModelPricing \<Rightarrow> bool" where
  "tokenPricingValuesValid p \<longleftrightarrow>
     list_all (\<lambda>v. \<not> f_is_nan v \<and> \<not> f_is_inf v \<and> \<not> f_less v f_zero) (price_values p)"

definition option_holds :: "('a \<Rightarrow> bool) \<Rightarrow> 'a option \<Rightarrow> bool" where
  "option_holds P x = (case x of Some v \<Rightarrow> P v | None \<Rightarrow> False)"

definition tokenPriceAvailable ::
  "float64 option \<Rightarrow> ModelPricing option \<Rightarrow> (ModelPricing \<Rightarrow> float64 \<times> bool) \<Rightarrow> bool" where
  "tokenPriceAvailable overridePrice official price =
     (case overridePrice of
        Some v \<Rightarrow> tokenPriceValueAvailable v True
      | None \<Rightarrow> option_holds (\<lambda>p. tokenPriceValueAvailable (fst (price p)) (snd (price p))) official)"

definition requiresIndependentSalePricing :: "ResolvedPricing \<Rightarrow> bool" where
  "requiresIndependentSalePricing p \<longleftrightarrow> rp_MatchedOverride p \<noteq> None \<and>
     (rp_OfficialPricing p = None \<or> rp_OfficialMode p \<noteq> rp_Mode p)"

definition interval_pricing :: "ResolvedPricing \<Rightarrow> PricingInterval \<Rightarrow> ModelPricing" where
  "interval_pricing p iv = intervalToModelPricing iv (rp_BasePricing p) (rp_SupportsCacheBreakdown p) None"

definition coverage_less :: "PricingInterval \<Rightarrow> PricingInterval \<Rightarrow> bool" where
  "coverage_less a b = (if iv_MinTokens a \<noteq> iv_MinTokens b then iv_MinTokens a < iv_MinTokens b
     else iv_SortOrder a < iv_SortOrder b)"

text \<open>The sweep over the sorted intervals: \<open>next\<close> is where the covered part ends, \<open>None\<close> for infinity.\<close>

fun coverage_loop :: "ResolvedPricing \<Rightarrow> bool \<Rightarrow> int option \<Rightarrow> PricingInterval list \<Rightarrow> bool" where
  "coverage_loop p baseComplete covered [] = (covered = None \<or> baseComplete)"
| "coverage_loop p baseComplete covered (iv # ivs) =
     (case covered of
        None \<Rightarrow> False
      | Some nextToken \<Rightarrow>
          if iv_MinTokens iv < nextToken \<or> iv_MinTokens iv > nextToken \<and> \<not> baseComplete then False
          else if \<not> isCompleteTokenPricing (interval_pricing p iv) then False
          else case iv_MaxTokens iv of
            None \<Rightarrow> coverage_loop p baseComplete None ivs
          | Some m \<Rightarrow> if m \<le> iv_MinTokens iv then False else coverage_loop p baseComplete (Some m) ivs)"

definition validateIndependentTokenIntervalCoverage :: "ResolvedPricing \<Rightarrow> bool" where
  "validateIndependentTokenIntervalCoverage p \<longleftrightarrow> rp_Intervals p \<noteq> [] \<and>
     coverage_loop p (option_holds isCompleteTokenPricing (rp_BasePricing p)) (Some 0)
       (stable_sort coverage_less (rp_Intervals p))"

definition flat_sale_available :: "ResolvedPricing \<Rightarrow> ModelPricingOverride \<Rightarrow> bool" where
  "flat_sale_available p r =
     (let official = (if rp_OfficialMode p = rp_Mode p then rp_OfficialPricing p else None) in
      tokenPriceAvailable (mo_InputPrice r) official (\<lambda>q. (mp_InputPricePerToken q, mp_InputPriceExplicit q)) \<and>
      tokenPriceAvailable (mo_OutputPrice r) official (\<lambda>q. (mp_OutputPricePerToken q, mp_OutputPriceExplicit q)) \<and>
      tokenPriceAvailable (mo_CacheWritePrice r) official
        (\<lambda>q. (mp_CacheCreationPricePerToken q, mp_CacheCreationPriceExplicit q)) \<and>
      tokenPriceAvailable (mo_CacheReadPrice r) official (\<lambda>q. (mp_CacheReadPricePerToken q, mp_CacheReadPriceExplicit q)))"

text \<open>The check answers \<open>True\<close> for no error; every error of the code is \<open>ErrModelPricingUnavailable\<close>.\<close>

definition validateResolvedPricingAvailable :: "ResolvedPricing \<Rightarrow> bool" where
  "validateResolvedPricingAvailable p =
     (if rp_Mode p = BillingModePerRequest \<or> rp_Mode p = BillingModeImage then
        (if requiresIndependentSalePricing p \<and> \<not> rp_DefaultPerRequestPriceExplicit p then False
         else rp_DefaultPerRequestPriceExplicit p \<or> list_ex (\<lambda>t. iv_PerRequestPrice t \<noteq> None) (rp_RequestTiers p))
      else if rp_BasePricing p \<noteq> None \<and> \<not> tokenPricingValuesValid (the (rp_BasePricing p)) then False
      else if \<not> list_all (\<lambda>iv. tokenPricingValuesValid (interval_pricing p iv)) (rp_Intervals p) then False
      else case rp_MatchedOverride p of
        None \<Rightarrow> rp_Intervals p \<noteq> [] \<or> option_holds isCoreTokenPricingAvailable (rp_BasePricing p)
      | Some r \<Rightarrow>
          if \<not> requiresIndependentSalePricing p
          then rp_Intervals p \<noteq> [] \<or> option_holds isCoreTokenPricingAvailable (rp_BasePricing p)
          else if rp_Intervals p \<noteq> [] then validateIndependentTokenIntervalCoverage p
          else flat_sale_available p r)"

definition ValidatePlatformSaleOverride :: "unicode_tables \<Rightarrow> string \<Rightarrow> ModelPricingOverride \<Rightarrow> go_error option" where
  "ValidatePlatformSaleOverride U officialMode input =
     (case validateModelPricingOverride U input of
        Inl err \<Rightarrow> Some err
      | Inr r \<Rightarrow>
          if mo_Status r \<noteq> ModelPricingStatusActive then None
          else if officialMode \<noteq> '''' \<and> officialMode = mo_BillingMode r then None
          else if validateResolvedPricingAvailable
            ((pricingOverrideToResolved r None (Some ((unavailable_source '''')\<lparr>si_Name := ''''\<rparr>)))\<lparr>rp_OfficialMode := officialMode\<rparr>)
          then None else Some ErrModelPricingIncompleteSale)"

end
