(* ===== verification/Price_Calc.thy ===== *)
theory Price_Calc
  imports Price_Resolver
begin

text \<open>
  The cost of a request (\<open>internal/service/billing_service.go\<close>): tokens times prices, by service tier
  and context length; prices per request, image, video second and web search; and the quote of
  \<open>sub2api_pricing_adapter.go\<close>. Arithmetic is that of binary64, in the order of the code; sums of
  token counts wrap at 64 bits.
\<close>

section \<open>Service tiers and long contexts\<close>

definition normalizeBillingServiceTier :: "unicode_tables \<Rightarrow> string \<Rightarrow> string" where
  "normalizeBillingServiceTier U tier = ToLower U (TrimSpace tier)"

definition usePriorityServiceTierPricing :: "unicode_tables \<Rightarrow> string \<Rightarrow> ModelPricing \<Rightarrow> bool" where
  "usePriorityServiceTierPricing U tier p \<longleftrightarrow> normalizeBillingServiceTier U tier = ''priority'' \<and>
     (f_less f_zero (mp_InputPricePerTokenPriority p) \<or> f_less f_zero (mp_OutputPricePerTokenPriority p) \<or>
      f_less f_zero (mp_CacheCreationPricePerTokenPriority p) \<or> f_less f_zero (mp_CacheReadPricePerTokenPriority p))"

definition serviceTierCostMultiplier :: "unicode_tables \<Rightarrow> string \<Rightarrow> float64" where
  "serviceTierCostMultiplier U tier = (let t = normalizeBillingServiceTier U tier in
     if t = ''priority'' then Fin 2 else if t = ''flex'' then Fin 0.5 else Fin 1)"

definition context_tokens :: "UsageTokens \<Rightarrow> int" where
  "context_tokens t = wrap64 (wrap64 (ut_InputTokens t + ut_CacheCreationTokens t) + ut_CacheReadTokens t)"

definition shouldApplySessionLongContextPricing :: "UsageTokens \<Rightarrow> ModelPricing \<Rightarrow> bool" where
  "shouldApplySessionLongContextPricing t p \<longleftrightarrow>
     \<not> mp_LongContextInputThreshold p \<le> 0 \<and>
     \<not> (f_le (mp_LongContextInputMultiplier p) (Fin 1) \<and> f_le (mp_LongContextOutputMultiplier p) (Fin 1)) \<and>
     context_tokens t > mp_LongContextInputThreshold p"

section \<open>The cost of tokens\<close>

definition computeCacheCreationCost :: "ModelPricing \<Rightarrow> UsageTokens \<Rightarrow> float64 \<Rightarrow> float64 \<Rightarrow> float64" where
  "computeCacheCreationCost p t price multiplier =
     (if mp_SupportsCacheBreakdown p \<and> (f_less f_zero (mp_CacheCreation5mPrice p) \<or> f_less f_zero (mp_CacheCreation1hPrice p))
      then if ut_CacheCreation5mTokens t = 0 \<and> ut_CacheCreation1hTokens t = 0 \<and> ut_CacheCreationTokens t > 0
           then f_mul (f_mul (f_of_int (ut_CacheCreationTokens t)) (mp_CacheCreation5mPrice p)) multiplier
           else f_add (f_mul (f_mul (f_of_int (ut_CacheCreation5mTokens t)) (mp_CacheCreation5mPrice p)) multiplier)
                      (f_mul (f_mul (f_of_int (ut_CacheCreation1hTokens t)) (mp_CacheCreation1hPrice p)) multiplier)
      else f_mul (f_mul (f_of_int (ut_CacheCreationTokens t)) price) multiplier)"

text \<open>The prices that apply: per token for input, output, cache reads and cache writes, the factor of
  cache writes, and the factor of the service tier.\<close>

record token_rates =
  tr_input :: float64
  tr_output :: float64
  tr_cache_read :: float64
  tr_cache_creation :: float64
  tr_creation_factor :: float64
  tr_tier :: float64

definition prefer_positive :: "float64 \<Rightarrow> float64 \<Rightarrow> float64" where
  "prefer_positive priority standard = (if f_less f_zero priority then priority else standard)"

definition tier_rates :: "unicode_tables \<Rightarrow> ModelPricing \<Rightarrow> string \<Rightarrow> token_rates" where
  "tier_rates U p tier =
     (if usePriorityServiceTierPricing U tier p then
        \<lparr>tr_input = prefer_positive (mp_InputPricePerTokenPriority p) (mp_InputPricePerToken p),
         tr_output = prefer_positive (mp_OutputPricePerTokenPriority p) (mp_OutputPricePerToken p),
         tr_cache_read = prefer_positive (mp_CacheReadPricePerTokenPriority p) (mp_CacheReadPricePerToken p),
         tr_cache_creation = prefer_positive (mp_CacheCreationPricePerTokenPriority p) (mp_CacheCreationPricePerToken p),
         tr_creation_factor = Fin 1, tr_tier = Fin 1\<rparr>
      else
        \<lparr>tr_input = mp_InputPricePerToken p, tr_output = mp_OutputPricePerToken p,
         tr_cache_read = mp_CacheReadPricePerToken p, tr_cache_creation = mp_CacheCreationPricePerToken p,
         tr_creation_factor = Fin 1, tr_tier = serviceTierCostMultiplier U tier\<rparr>)"

definition long_context_rates :: "ModelPricing \<Rightarrow> token_rates \<Rightarrow> token_rates" where
  "long_context_rates p r = r\<lparr>tr_input := f_mul (tr_input r) (mp_LongContextInputMultiplier p),
     tr_output := f_mul (tr_output r) (mp_LongContextOutputMultiplier p),
     tr_cache_read := f_mul (tr_cache_read r) (mp_LongContextInputMultiplier p),
     tr_creation_factor := mp_LongContextInputMultiplier p\<rparr>"

text \<open>Text and image tokens of the input: the image part is at most the whole input.\<close>

definition input_costs :: "ModelPricing \<Rightarrow> UsageTokens \<Rightarrow> float64 \<Rightarrow> float64 \<times> float64" where
  "input_costs p t inputPrice =
     (if ut_ImageInputTokens t > 0 then
        let text = wrap64 (ut_InputTokens t - ut_ImageInputTokens t);
            (text, image) = (if text < 0 then (0, ut_InputTokens t) else (text, ut_ImageInputTokens t));
            imagePrice = (if mp_ImageInputPricePerToken p = f_zero \<and> \<not> mp_ImageInputPriceExplicit p
                          then inputPrice else mp_ImageInputPricePerToken p)
        in (f_mul (f_of_int text) inputPrice, f_mul (f_of_int image) imagePrice)
      else (f_mul (f_of_int (ut_InputTokens t)) inputPrice, f_zero))"

definition output_costs :: "ModelPricing \<Rightarrow> UsageTokens \<Rightarrow> float64 \<Rightarrow> float64 \<times> float64" where
  "output_costs p t outputPrice =
     (let text = wrap64 (ut_OutputTokens t - ut_ImageOutputTokens t); text = (if text < 0 then 0 else text) in
      (f_mul (f_of_int text) outputPrice,
       if ut_ImageOutputTokens t > 0 then
         f_mul (f_of_int (ut_ImageOutputTokens t))
           (if mp_ImageOutputPricePerToken p = f_zero \<and> \<not> mp_ImageOutputPriceExplicit p
            then outputPrice else mp_ImageOutputPricePerToken p)
       else f_zero))"

definition non_negative_rate :: "float64 \<Rightarrow> float64" where
  "non_negative_rate r = (if f_less r f_zero then f_zero else r)"

text \<open>The cost at given rates.\<close>

definition price_tokens :: "ModelPricing \<Rightarrow> UsageTokens \<Rightarrow> float64 \<Rightarrow> token_rates \<Rightarrow> CostBreakdown" where
  "price_tokens p t rateMultiplier r =
     (let (input, imageInput) = input_costs p t (tr_input r);
          (out, imageOut) = output_costs p t (tr_output r);
          creation = computeCacheCreationCost p t (tr_cache_creation r) (tr_creation_factor r);
          cacheRead = f_mul (f_of_int (ut_CacheReadTokens t)) (tr_cache_read r);
          scale = (\<lambda>c. if tr_tier r \<noteq> Fin 1 then f_mul c (tr_tier r) else c);
          total = f_add (f_add (f_add (f_add (f_add (scale input) (scale imageInput)) (scale out)) (scale imageOut))
            (scale creation)) (scale cacheRead)
      in \<lparr>co_InputCost = scale input, co_ImageInputCost = scale imageInput, co_OutputCost = scale out,
          co_ImageOutputCost = scale imageOut, co_CacheCreationCost = scale creation, co_CacheReadCost = scale cacheRead,
          co_TotalCost = total, co_ActualCost = f_mul total rateMultiplier, co_BillingMode = '''',
          co_LongContextBillingApplied = False\<rparr>)"

text \<open>The code calls itself without long-context prices to see whether they made a difference.\<close>

definition computeTokenBreakdown ::
  "unicode_tables \<Rightarrow> ModelPricing \<Rightarrow> UsageTokens \<Rightarrow> float64 \<Rightarrow> string \<Rightarrow> bool \<Rightarrow> CostBreakdown" where
  "computeTokenBreakdown U p t rateMultiplier tier applyLongCtx =
     (let rate = non_negative_rate rateMultiplier; rates = tier_rates U p tier;
          baseline = price_tokens p t rate rates
      in if applyLongCtx \<and> shouldApplySessionLongContextPricing t p
         then let bd = price_tokens p t rate (long_context_rates p rates) in
           bd\<lparr>co_LongContextBillingApplied := f_less (co_ActualCost baseline) (co_ActualCost bd)\<rparr>
         else baseline)"


section \<open>The cost of a request\<close>

record CostInput =
  ci_Model :: string
  ci_Adapter :: string
  ci_PlatformCode :: string
  ci_PublicModel :: string
  ci_Tokens :: UsageTokens
  ci_RequestCount :: int
  ci_SizeTier :: string
  ci_RateMultiplier :: float64
  ci_ServiceTier :: string
  ci_Resolver :: "ModelPricingResolver option"
  ci_Resolved :: "ResolvedPricing option"
  ci_LongContextBillingEnabled :: "bool option"

definition unavailable_because :: "string \<Rightarrow> string \<Rightarrow> go_error" where
  "unavailable_because what model = Wrapped (what @ '' for model: '' @ model) ErrModelPricingUnavailable"

definition calculateTokenCost :: "unicode_tables \<Rightarrow> ResolvedPricing \<Rightarrow> CostInput \<Rightarrow> CostBreakdown result" where
  "calculateTokenCost U p input =
     (case GetIntervalPricing p (context_tokens (ci_Tokens input)) of
        None \<Rightarrow> Inl (unavailable_because ''no pricing available'' (ci_Model input))
      | Some pricing \<Rightarrow>
          if \<not> tokenPricingValuesValid pricing
          then Inl (unavailable_because ''invalid token pricing'' (ci_Model input))
          else if (if requiresIndependentSalePricing p then \<not> isCompleteTokenPricing pricing
                   else \<not> isCoreTokenPricingAvailable pricing)
          then Inl (unavailable_because ''incomplete token pricing'' (ci_Model input))
          else Inr (computeTokenBreakdown U (applyModelSpecificPricingPolicy U (ci_Model input) pricing)
            (ci_Tokens input) (ci_RateMultiplier input) (ci_ServiceTier input)
            (rp_Intervals p = [] \<and> (case ci_LongContextBillingEnabled input of None \<Rightarrow> True | Some b \<Rightarrow> b))))"

definition calculatePerRequestCost :: "ResolvedPricing \<Rightarrow> CostInput \<Rightarrow> CostBreakdown result" where
  "calculatePerRequestCost p input =
     (let count = (if ci_RequestCount input \<le> 0 then 1 else ci_RequestCount input);
          byTier = (if ci_SizeTier input \<noteq> '''' then GetRequestTierPrice p (ci_SizeTier input) else None);
          matched = (case byTier of Some v \<Rightarrow> Some v
                     | None \<Rightarrow> GetRequestTierPriceByContext p (context_tokens (ci_Tokens input)));
          cost = (\<lambda>unitPrice. let total = f_mul unitPrice (f_of_int count) in
             no_cost\<lparr>co_TotalCost := total, co_ActualCost := f_mul total (ci_RateMultiplier input)\<rparr>)
      in case matched of
           Some unitPrice \<Rightarrow> Inr (cost unitPrice)
         | None \<Rightarrow> if \<not> rp_DefaultPerRequestPriceExplicit p
             then Inl (unavailable_because ''no per-request pricing available'' (ci_Model input))
             else Inr (cost (rp_DefaultPerRequestPrice p)))"

definition calculateCostInternalWithPolicy ::
  "unicode_tables \<Rightarrow> BillingService \<Rightarrow> string \<Rightarrow> UsageTokens \<Rightarrow> float64 \<Rightarrow> string \<Rightarrow> ModelPricingOverrideInput option \<Rightarrow>
   bool \<Rightarrow> CostBreakdown result" where
  "calculateCostInternalWithPolicy U s model t rate tier ov longContext =
     (case (case ov of Some _ \<Rightarrow> GetModelPricingWithOverride U s model ov | None \<Rightarrow> GetModelPricing U s model) of
        Inl err \<Rightarrow> Inl err
      | Inr p \<Rightarrow> Inr (computeTokenBreakdown U p t rate tier longContext))"

definition CalculateCost :: "unicode_tables \<Rightarrow> BillingService \<Rightarrow> string \<Rightarrow> UsageTokens \<Rightarrow> float64 \<Rightarrow> CostBreakdown result" where
  "CalculateCost U s model t rate = calculateCostInternalWithPolicy U s model t rate '''' None True"

definition CalculateCostWithServiceTier ::
  "unicode_tables \<Rightarrow> BillingService \<Rightarrow> string \<Rightarrow> UsageTokens \<Rightarrow> float64 \<Rightarrow> string \<Rightarrow> CostBreakdown result" where
  "CalculateCostWithServiceTier U s model t rate tier = calculateCostInternalWithPolicy U s model t rate tier None True"

definition CalculateCostWithConfig :: "unicode_tables \<Rightarrow> BillingService \<Rightarrow> string \<Rightarrow> UsageTokens \<Rightarrow> CostBreakdown result" where
  "CalculateCostWithConfig U s model t =
     CalculateCost U s model t (if f_le (bs_defaultRate s) f_zero then Fin 1 else bs_defaultRate s)"

definition GetEstimatedCost :: "unicode_tables \<Rightarrow> BillingService \<Rightarrow> string \<Rightarrow> int \<Rightarrow> int \<Rightarrow> float64 result" where
  "GetEstimatedCost U s model inputTokens outputTokens =
     map_sum id co_ActualCost (CalculateCostWithConfig U s model
       (no_tokens\<lparr>ut_InputTokens := inputTokens, ut_OutputTokens := outputTokens\<rparr>))"

definition IsModelSupported :: "unicode_tables \<Rightarrow> string \<Rightarrow> bool" where
  "IsModelSupported U model = (let m = ToLower U model in
     Contains m ''claude'' \<or> Contains m ''opus'' \<or> Contains m ''sonnet'' \<or> Contains m ''haiku'')"

text \<open>The mode of the price, which an empty mode of the price list means to be tokens.\<close>

definition set_mode :: "string \<Rightarrow> CostBreakdown \<Rightarrow> CostBreakdown" where
  "set_mode mode bd = bd\<lparr>co_BillingMode := (if mode = '''' then BillingModeToken else mode)\<rparr>"

definition cost_of_resolved :: "unicode_tables \<Rightarrow> ResolvedPricing \<Rightarrow> CostInput \<Rightarrow> CostBreakdown result" where
  "cost_of_resolved U p input =
     (if \<not> validateResolvedPricingAvailable p then Inl ErrModelPricingUnavailable
      else let input = input\<lparr>ci_RateMultiplier := non_negative_rate (ci_RateMultiplier input)\<rparr> in
        map_sum id (set_mode (rp_Mode p))
          (if rp_Mode p = BillingModePerRequest \<or> rp_Mode p = BillingModeImage
           then calculatePerRequestCost p input else calculateTokenCost U p input))"

definition CalculateCostUnified ::
  "unicode_tables \<Rightarrow> BillingService \<Rightarrow> CostInput \<Rightarrow> rule_world \<Rightarrow> CostBreakdown result \<times> rule_world" where
  "CalculateCostUnified U s input w =
     (case ci_Resolver input of
        None \<Rightarrow> (calculateCostInternalWithPolicy U s (ci_Model input) (ci_Tokens input) (ci_RateMultiplier input)
          (ci_ServiceTier input) None (case ci_LongContextBillingEnabled input of None \<Rightarrow> True | Some b \<Rightarrow> b), w)
      | Some R \<Rightarrow>
          (case (case ci_Resolved input of
                   Some p \<Rightarrow> (Inr p, w)
                 | None \<Rightarrow> resolver_Resolve U R \<lparr>pi_Model = ci_Model input, pi_Adapter = ci_Adapter input,
                     pi_PlatformCode = ci_PlatformCode input, pi_PublicModel = ci_PublicModel input\<rparr> w) of
             (Inl err, w) \<Rightarrow> (Inl err, w)
           | (Inr p, w) \<Rightarrow> (cost_of_resolved U p input, w)))"

section \<open>Long contexts charged in two parts\<close>

text \<open>How the input and the cache reads of a request are split at a threshold.\<close>

definition split_tokens :: "UsageTokens \<Rightarrow> int \<Rightarrow> UsageTokens \<times> UsageTokens" where
  "split_tokens t threshold =
     (let (inCache, inInput, outCache, outInput) =
        (if ut_CacheReadTokens t \<ge> threshold
         then (threshold, 0, wrap64 (ut_CacheReadTokens t - threshold), ut_InputTokens t)
         else (let i = wrap64 (threshold - ut_CacheReadTokens t) in
               (ut_CacheReadTokens t, i, 0, wrap64 (ut_InputTokens t - i))))
      in (t\<lparr>ut_InputTokens := inInput, ut_CacheReadTokens := inCache, ut_ImageInputTokens := 0\<rparr>,
          no_tokens\<lparr>ut_InputTokens := outInput, ut_CacheReadTokens := outCache\<rparr>))"

text \<open>An error for the second part is returned together with the cost of the first; the pair is
  \<open>Inl\<close> here, since the callers drop a cost that comes with an error.\<close>

definition CalculateCostWithLongContext ::
  "unicode_tables \<Rightarrow> BillingService \<Rightarrow> string \<Rightarrow> UsageTokens \<Rightarrow> float64 \<Rightarrow> int \<Rightarrow> float64 \<Rightarrow> CostBreakdown result" where
  "CalculateCostWithLongContext U s model t rate threshold extra =
     (if threshold \<le> 0 \<or> f_le extra (Fin 1) then CalculateCost U s model t rate
      else if wrap64 (ut_CacheReadTokens t + ut_InputTokens t) \<le> threshold then CalculateCost U s model t rate
      else let (inRange, outRange) = split_tokens t threshold in
        (case CalculateCost U s model inRange rate of
           Inl err \<Rightarrow> Inl err
         | Inr a \<Rightarrow>
             (case CalculateCost U s model outRange (f_mul rate extra) of
                Inl err \<Rightarrow> Inl (Wrapped ''out-range cost'' err)
              | Inr b \<Rightarrow> Inr \<lparr>co_InputCost = f_add (co_InputCost a) (co_InputCost b),
                  co_ImageInputCost = f_add (co_ImageInputCost a) (co_ImageInputCost b),
                  co_OutputCost = co_OutputCost a, co_ImageOutputCost = co_ImageOutputCost a,
                  co_CacheCreationCost = co_CacheCreationCost a,
                  co_CacheReadCost = f_add (co_CacheReadCost a) (co_CacheReadCost b),
                  co_TotalCost = f_add (co_TotalCost a) (co_TotalCost b),
                  co_ActualCost = f_add (co_ActualCost a) (co_ActualCost b), co_BillingMode = '''',
                  co_LongContextBillingApplied = f_less f_zero (co_ActualCost b)\<rparr>)))"

section \<open>Images, videos and searches\<close>

definition f_lit :: "rat \<Rightarrow> float64" where
  "f_lit q = round64 q"

definition defaultImageGenerationPrice :: float64 where "defaultImageGenerationPrice = f_lit 0.134"
definition defaultWebSearchPricePerCall :: float64 where "defaultWebSearchPricePerCall = f_lit 0.01"

record ImagePriceConfig =
  ip_Price1K :: "float64 option"
  ip_Price2K :: "float64 option"
  ip_Price4K :: "float64 option"

record VideoPriceConfig =
  vp_Price480P :: "float64 option"
  vp_Price720P :: "float64 option"
  vp_Price1080P :: "float64 option"

definition flat_cost :: "string \<Rightarrow> float64 \<Rightarrow> float64 \<Rightarrow> CostBreakdown" where
  "flat_cost mode amount rate = no_cost\<lparr>co_TotalCost := amount,
     co_ActualCost := f_mul amount (non_negative_rate rate), co_BillingMode := mode\<rparr>"

definition CalculateWebSearchCost :: "int \<Rightarrow> float64 option \<Rightarrow> float64 \<Rightarrow> CostBreakdown" where
  "CalculateWebSearchCost callCount overridePrice rate =
     (if callCount \<le> 0 then no_cost
      else let unitPrice = (case overridePrice of
                 Some v \<Rightarrow> if f_le f_zero v then v else defaultWebSearchPricePerCall
               | None \<Rightarrow> defaultWebSearchPricePerCall)
           in flat_cost BillingModePerRequest (f_mul unitPrice (f_of_int callCount)) rate)"

definition getGrokImagineImageTierPrice :: "unicode_tables \<Rightarrow> string \<Rightarrow> float64 \<Rightarrow> float64 \<Rightarrow> float64" where
  "getGrokImagineImageTierPrice U imageSize price1K price2K =
     (if NormalizeImageBillingTierOrDefault U imageSize = ImageBillingSize1K then price1K else price2K)"

definition getDefaultGrokImagineImagePrice :: "unicode_tables \<Rightarrow> string \<Rightarrow> string \<Rightarrow> float64 option" where
  "getDefaultGrokImagineImagePrice U model imageSize = (let m = ToLower U (TrimSpace model) in
     if m = ''grok-imagine-image-quality'' then Some (getGrokImagineImageTierPrice U imageSize (f_lit 0.05) (f_lit 0.07))
     else if m \<in> set [''grok-imagine'', ''grok-imagine-image'', ''grok-imagine-edit'']
     then Some (getGrokImagineImageTierPrice U imageSize (f_lit 0.02) (f_lit 0.02))
     else None)"

definition getDefaultGrokImagineVideoPrice :: "unicode_tables \<Rightarrow> string \<Rightarrow> string \<Rightarrow> float64 option" where
  "getDefaultGrokImagineVideoPrice U model resolution =
     (let m = ToLower U (TrimSpace model); r = NormalizeVideoBillingResolutionOrDefault U resolution in
      if HasPrefix m ''grok-imagine-video-1.5'' then Some
        (if r = VideoBillingResolution480P then f_lit 0.08
         else if r = VideoBillingResolution720P then f_lit 0.14
         else if r = VideoBillingResolution1080P then f_lit 0.25 else f_lit 0.08)
      else if HasPrefix m ''grok-imagine-video'' then Some
        (if r = VideoBillingResolution480P then f_lit 0.05
         else if r = VideoBillingResolution720P \<or> r = VideoBillingResolution1080P then f_lit 0.07 else f_lit 0.05)
      else None)"

definition getDefaultImagePrice :: "unicode_tables \<Rightarrow> BillingService \<Rightarrow> string \<Rightarrow> string \<Rightarrow> float64" where
  "getDefaultImagePrice U s model imageSize =
     (case getDefaultGrokImagineImagePrice U model imageSize of
        Some price \<Rightarrow> price
      | None \<Rightarrow>
          let listedPrice = (case Option.bind (bs_pricingService s) (\<lambda>st. list_GetModelPricing U st model) of
                Some p \<Rightarrow> if f_less f_zero (ll_OutputCostPerImage p) then ll_OutputCostPerImage p else f_zero
              | None \<Rightarrow> f_zero);
              basePrice = (if f_le listedPrice f_zero then defaultImageGenerationPrice else listedPrice)
          in if imageSize = ''2K'' then f_mul basePrice (Fin 1.5)
             else if imageSize = ''4K'' then f_mul basePrice (Fin 2) else basePrice)"

definition getImageUnitPrice ::
  "unicode_tables \<Rightarrow> BillingService \<Rightarrow> string \<Rightarrow> string \<Rightarrow> ImagePriceConfig option \<Rightarrow> float64" where
  "getImageUnitPrice U s model imageSize cfg =
     (case Option.bind cfg (\<lambda>c. if imageSize = ''1K'' then ip_Price1K c else if imageSize = ''2K'' then ip_Price2K c
          else if imageSize = ''4K'' then ip_Price4K c else None) of
        Some v \<Rightarrow> v
      | None \<Rightarrow> getDefaultImagePrice U s model imageSize)"

definition getDefaultVideoPrice :: "unicode_tables \<Rightarrow> BillingService \<Rightarrow> string \<Rightarrow> string \<Rightarrow> float64" where
  "getDefaultVideoPrice U s model resolution =
     (case getDefaultGrokImagineVideoPrice U model resolution of
        Some price \<Rightarrow> price
      | None \<Rightarrow> getDefaultImagePrice U s model ImageBillingSize2K)"

definition getVideoUnitPrice ::
  "unicode_tables \<Rightarrow> BillingService \<Rightarrow> string \<Rightarrow> string \<Rightarrow> VideoPriceConfig option \<Rightarrow> float64" where
  "getVideoUnitPrice U s model resolution cfg =
     (case Option.bind cfg (\<lambda>c. if resolution = VideoBillingResolution480P then vp_Price480P c
          else if resolution = VideoBillingResolution720P then vp_Price720P c
          else if resolution = VideoBillingResolution1080P then vp_Price1080P c else None) of
        Some v \<Rightarrow> v
      | None \<Rightarrow> getDefaultVideoPrice U s model resolution)"

definition CalculateImageCost ::
  "unicode_tables \<Rightarrow> BillingService \<Rightarrow> string \<Rightarrow> string \<Rightarrow> int \<Rightarrow> ImagePriceConfig option \<Rightarrow> float64 \<Rightarrow> CostBreakdown" where
  "CalculateImageCost U s model imageSize imageCount cfg rate =
     (if imageCount \<le> 0 then no_cost
      else flat_cost BillingModeImage (f_mul (getImageUnitPrice U s model
        (NormalizeImageBillingTierOrDefault U imageSize) cfg) (f_of_int imageCount)) rate)"

definition CalculateVideoCost ::
  "unicode_tables \<Rightarrow> BillingService \<Rightarrow> string \<Rightarrow> string \<Rightarrow> int \<Rightarrow> int \<Rightarrow> VideoPriceConfig option \<Rightarrow> float64 \<Rightarrow> CostBreakdown" where
  "CalculateVideoCost U s model resolution videoCount durationSeconds cfg rate =
     (if videoCount \<le> 0 then no_cost
      else flat_cost BillingModeVideo (f_mul (f_mul (getVideoUnitPrice U s model
        (NormalizeVideoBillingResolutionOrDefault U resolution) cfg)
        (f_of_int (NormalizeVideoBillingDurationSecondsOrDefault durationSeconds))) (f_of_int videoCount)) rate)"

section \<open>Quotes\<close>

record PricingQuote =
  pq_InputCost :: float64
  pq_OutputCost :: float64
  pq_TotalCost :: float64
  pq_BillingMode :: string

definition Quote ::
  "unicode_tables \<Rightarrow> BillingService \<Rightarrow> ModelPricingResolver option \<Rightarrow> CostInput \<Rightarrow> rule_world \<Rightarrow> PricingQuote result \<times> rule_world" where
  "Quote U s resolver request w =
     (let tokens = (ci_Tokens request)\<lparr>ut_CacheCreation5mTokens := 0, ut_CacheCreation1hTokens := 0\<rparr>;
          input = request\<lparr>ci_Tokens := tokens, ci_RateMultiplier := Fin 1, ci_Resolver := resolver, ci_Resolved := None, ci_PlatformCode := '''',
            ci_PublicModel := ''''\<rparr> in
      case (case resolver of
              Some _ \<Rightarrow> CalculateCostUnified U s input w
            | None \<Rightarrow> (CalculateCostWithServiceTier U s (ci_Model input) (ci_Tokens input) (Fin 1) (ci_ServiceTier input), w)) of
        (Inl err, w) \<Rightarrow> (Inl err, w)
      | (Inr c, w) \<Rightarrow> (Inr \<lparr>pq_InputCost = f_add (co_InputCost c) (co_ImageInputCost c),
            pq_OutputCost = f_add (co_OutputCost c) (co_ImageOutputCost c), pq_TotalCost = co_TotalCost c,
            pq_BillingMode = co_BillingMode c\<rparr>, w))"

end
