(* ===== verification/Price_Choice.thy ===== *)
theory Price_Choice
  imports Price_Calc
begin

text \<open>
  Theorems about the price rules: which rule is chosen, that resolving one request and resolving a batch
  agree, and what every rule of the table satisfies.
\<close>

section \<open>The order of rules\<close>

interpretation rule_order: comparator "rule_before U model" for U model
proof unfold_locales
  show "rule_before U model a b \<Longrightarrow> \<not> rule_before U model b a" for a b
    by (auto simp: rule_before_def dest: string_less_asym split: if_splits)
  show "rule_before U model a c \<Longrightarrow> rule_before U model a b \<or> rule_before U model b c" for a b c
    by (auto simp: rule_before_def dest: string_less_neg_trans split: if_splits)
qed

lemma rule_before_total:
  "ToLower U (mo_ModelPattern a) \<noteq> ToLower U (mo_ModelPattern b) \<Longrightarrow> rule_before U model a b \<or> rule_before U model b a"
  using string_less_total [of "ToLower U (mo_ModelPattern a)" "ToLower U (mo_ModelPattern b)"]
  by (auto simp: rule_before_def)

lemma resolve_None: "resolveModelPricingRules U rules model = None \<longleftrightarrow> (\<forall>r \<in> set rules. \<not> rule_applies U model r)"
proof -
  have "resolveModelPricingRules U rules model = None \<longleftrightarrow>
      stable_sort (rule_before U model) (filter (rule_applies U model) rules) = []"
    by (simp add: resolveModelPricingRules_def del: stable_sort_Nil_iff split: list.split)
  then show ?thesis by (simp add: filter_empty_conv)
qed

lemma resolve_Some:
  assumes "resolveModelPricingRules U rules model = Some r"
  shows "r \<in> set rules \<and> rule_applies U model r \<and>
    (\<forall>r' \<in> set rules. rule_applies U model r' \<longrightarrow> \<not> rule_before U model r' r)"
proof -
  obtain rs where s: "stable_sort (rule_before U model) (filter (rule_applies U model) rules) = r # rs"
    using assms by (auto simp: resolveModelPricingRules_def split: list.splits)
  then have "r \<in> set (filter (rule_applies U model) rules)" by (metis list.set_intros(1) set_stable_sort)
  then show ?thesis using rule_order.stable_sort_hd_least [OF s] by auto
qed


lemma resolve_best:
  assumes "inj_on (\<lambda>r. ToLower U (mo_ModelPattern r)) {r \<in> set rules. rule_applies U model r}"
  shows "resolveModelPricingRules U rules model = Some r \<longleftrightarrow> r \<in> set rules \<and> rule_applies U model r \<and>
    (\<forall>r' \<in> set rules. rule_applies U model r' \<and> r' \<noteq> r \<longrightarrow> rule_before U model r r')"
proof
  assume "resolveModelPricingRules U rules model = Some r"
  note s = resolve_Some [OF this]
  have "rule_before U model r r'" if "r' \<in> set rules" "rule_applies U model r'" "r' \<noteq> r" for r'
  proof -
    have "ToLower U (mo_ModelPattern r) \<noteq> ToLower U (mo_ModelPattern r')"
      using that s inj_onD [OF assms, of r r'] by auto
    then show ?thesis using rule_before_total s that by blast
  qed
  then show "r \<in> set rules \<and> rule_applies U model r \<and>
    (\<forall>r' \<in> set rules. rule_applies U model r' \<and> r' \<noteq> r \<longrightarrow> rule_before U model r r')" using s by blast
next
  assume r: "r \<in> set rules \<and> rule_applies U model r \<and>
    (\<forall>r' \<in> set rules. rule_applies U model r' \<and> r' \<noteq> r \<longrightarrow> rule_before U model r r')"
  then obtain q where q: "resolveModelPricingRules U rules model = Some q"
    using resolve_None [of U rules model] by (cases "resolveModelPricingRules U rules model") auto
  then have "q = r" using resolve_Some [OF q] r by blast
  with q show "resolveModelPricingRules U rules model = Some r" by simp
qed

section \<open>One request and a batch of requests\<close>

text \<open>The rule of the first identity that has one, over rules given per adapter.\<close>

definition first_rule ::
  "unicode_tables \<Rightarrow> (string \<Rightarrow> ModelPricingOverride list) \<Rightarrow> (string \<times> string) list \<Rightarrow> ModelPricingOverride option" where
  "first_rule U rules ids = (case List.map_filter (\<lambda>(a, m). resolveModelPricingRules U (rules a) m) ids of
     [] \<Rightarrow> None | r # _ \<Rightarrow> Some r)"

lemma first_rule_Nil [simp]: "first_rule U rules [] = None"
  by (simp add: first_rule_def List.map_filter_simps)

lemma first_rule_Cons [simp]: "first_rule U rules ((a, m) # ids) =
    (case resolveModelPricingRules U (rules a) m of Some r \<Rightarrow> Some r | None \<Rightarrow> first_rule U rules ids)"
  by (simp add: first_rule_def List.map_filter_simps split: option.split)

lemma first_rule_cong: "(\<And>a m. (a, m) \<in> set ids \<Longrightarrow> rules a = rules' a) \<Longrightarrow> first_rule U rules ids = first_rule U rules' ids"
proof (induction ids)
  case (Cons i ids)
  obtain a m where i: "i = (a, m)" by (cases i)
  have "rules a = rules' a" by (rule Cons.prems [of a m]) (simp add: i)
  moreover have "first_rule U rules ids = first_rule U rules' ids" using Cons.IH Cons.prems by (metis list.set_intros(2))
  ultimately show ?case by (simp add: i split: option.split)
qed simp

text \<open>What the table answers for an adapter.\<close>

definition rows_for :: "rule_sql \<Rightarrow> rule_db \<Rightarrow> string \<Rightarrow> ModelPricingOverride list" where
  "rows_for Q d adapter = stable_sort (row_less Q) (filter (\<lambda>r.
     TrimSpace adapter = '''' \<or> rq_lower Q (mo_Adapter r) = rq_lower Q (TrimSpace adapter)) (rb_rows d))"

lemma rules_List_healthy:
  "healthy w \<Longrightarrow> rules_List Q adapter w = (Inr (rows_for Q (wd_db w) adapter), w\<lparr>wd_stmt := Suc (wd_stmt w)\<rparr>)"
  by (simp add: rules_List_def sql_exec_healthy rows_for_def)

lemma identity_loop_healthy:
  assumes "healthy w" and "\<And>a rules. map_of loaded a = Some rules \<Longrightarrow> rules = rows_for Q (wd_db w) a"
  shows "\<exists>n. identity_loop U Q loaded ids w = (Inr (first_rule U (rows_for Q (wd_db w)) ids), w\<lparr>wd_stmt := n\<rparr>)"
  using assms
proof (induction U Q loaded ids w rule: identity_loop.induct)
  case (1 U Q loaded w)
  then show ?case by (auto intro: exI [of _ "wd_stmt w"])
next
  case (2 U Q loaded a m ids w)
  let ?rows = "rows_for Q (wd_db w) a"
  obtain k where l: "(case map_of loaded a of Some rules \<Rightarrow> (Inr rules, w) | None \<Rightarrow> rules_List Q a w) =
      (Inr ?rows, w\<lparr>wd_stmt := k\<rparr>)"
  proof (cases "map_of loaded a")
    case None
    then show ?thesis using that [of "Suc (wd_stmt w)"] rules_List_healthy [OF "2.prems"(1)] by simp
  next
    case (Some rules)
    then show ?thesis using that [of "wd_stmt w"] "2.prems"(2) by simp
  qed
  show ?case
  proof (cases "resolveModelPricingRules U ?rows m")
    case None
    have "\<exists>n. identity_loop U Q ((a, ?rows) # loaded) ids (w\<lparr>wd_stmt := k\<rparr>) =
        (Inr (first_rule U (rows_for Q (wd_db (w\<lparr>wd_stmt := k\<rparr>))) ids), w\<lparr>wd_stmt := k\<rparr>\<lparr>wd_stmt := n\<rparr>)"
      by (rule "2.IH" [OF l [symmetric] refl None]) (use "2.prems" in \<open>auto split: if_splits\<close>)
    then show ?thesis using None by (simp add: l)
  next
    case (Some r)
    then show ?thesis by (auto simp: l)
  qed
qed

lemma ResolveForPricingInput_healthy:
  "healthy w \<Longrightarrow> \<exists>n. ResolveForPricingInput U Q input w =
     (Inr (first_rule U (rows_for Q (wd_db w)) (pricingIdentitiesForInput U input)), w\<lparr>wd_stmt := n\<rparr>)"
  unfolding ResolveForPricingInput_def by (rule identity_loop_healthy) simp_all


text \<open>Filtering commutes with a stable sort.\<close>

context comparator
begin

lemma filter_stable_insert:
  "sorted_wrt (\<lambda>a b. \<not> lt b a) ys \<Longrightarrow>
   filter P (stable_insert lt x ys) = (if P x then stable_insert lt x (filter P ys) else filter P ys)"
proof (induction ys)
  case (Cons y ys)
  have front: "stable_insert lt x zs = x # zs" if "\<forall>z \<in> set zs. \<not> lt z x" for zs
    using that by (cases zs) auto
  show ?case
  proof (cases "lt y x")
    case False
    then have "\<forall>z \<in> set (filter P (y # ys)). \<not> lt z x" using Cons.prems not_less_trans by auto
    then show ?thesis using False front [of "filter P (y # ys)"] by auto
  qed (use Cons in auto)
qed simp

lemma filter_stable_sort: "filter P (stable_sort lt xs) = stable_sort lt (filter P xs)"
  by (induction xs) (simp_all add: filter_stable_insert stable_sort_sorted)

end

text \<open>The database orders texts strictly and totally.\<close>

definition text_order :: "(string \<Rightarrow> string \<Rightarrow> bool) \<Rightarrow> bool" where
  "text_order lt \<longleftrightarrow> (\<forall>a b. lt a b \<longrightarrow> \<not> lt b a) \<and> (\<forall>a b c. lt a c \<longrightarrow> lt a b \<or> lt b c) \<and>
     (\<forall>a b. a \<noteq> b \<longrightarrow> lt a b \<or> lt b a)"

lemma row_less_comparator: "text_order (rq_less Q) \<Longrightarrow> comparator (row_less Q)"
proof
  assume "text_order (rq_less Q)"
  then have o: "rq_less Q a b \<Longrightarrow> \<not> rq_less Q b a" "rq_less Q a c \<Longrightarrow> rq_less Q a b \<or> rq_less Q b c"
    "a \<noteq> b \<Longrightarrow> rq_less Q a b \<or> rq_less Q b a" for a b c
    by (auto simp: text_order_def)
  have irr: "\<not> rq_less Q a a" for a using o(1) by blast
  show "row_less Q x y \<Longrightarrow> \<not> row_less Q y x" for x y
    by (cases "mo_Adapter x = mo_Adapter y"; cases "mo_ModelPattern x = mo_ModelPattern y")
      (auto simp: row_less_def irr dest: o(1))
  show "row_less Q x z \<Longrightarrow> row_less Q x y \<or> row_less Q y z" for x y z
    unfolding row_less_def
    using o(2) [of "mo_Adapter x" "mo_Adapter z" "mo_Adapter y"] o(3) [of "mo_Adapter x" "mo_Adapter y"]
      o(2) [of "mo_ModelPattern x" "mo_ModelPattern z" "mo_ModelPattern y"]
      o(3) [of "mo_ModelPattern x" "mo_ModelPattern y"] o(3) [of "mo_Adapter y" "mo_Adapter z"]
      o(3) [of "mo_ModelPattern y" "mo_ModelPattern z"]
    by (cases "mo_Adapter x = mo_Adapter y"; cases "mo_Adapter y = mo_Adapter z";
        cases "mo_ModelPattern x = mo_ModelPattern y"; cases "mo_ModelPattern y = mo_ModelPattern z") auto
qed

text \<open>A name of an adapter in the form it is stored: trimmed, and left alone by both ways to lower it.\<close>

definition normal_name :: "unicode_tables \<Rightarrow> rule_sql \<Rightarrow> string \<Rightarrow> bool" where
  "normal_name U Q a \<longleftrightarrow> TrimSpace a = a \<and> ToLower U a = a \<and> rq_lower Q a = a"

lemma snapshot_rules_eq:
  assumes o: "text_order (rq_less Q)" and rows: "\<forall>r \<in> set (rb_rows d). normal_name U Q (mo_Adapter r)"
    and a: "normal_name U Q a" "a \<noteq> ''''"
  shows "filter (\<lambda>r. a \<noteq> '''' \<and> ToLower U (TrimSpace (mo_Adapter r)) = a) (rows_for Q d '''') = rows_for Q d a"
proof -
  have "filter (\<lambda>r. a \<noteq> '''' \<and> ToLower U (TrimSpace (mo_Adapter r)) = a) (rb_rows d) =
      filter (\<lambda>r. TrimSpace a = '''' \<or> rq_lower Q (mo_Adapter r) = rq_lower Q (TrimSpace a)) (rb_rows d)"
    using rows a by (intro filter_cong) (auto simp: normal_name_def)
  then show ?thesis
    using comparator.filter_stable_sort [OF row_less_comparator [OF o]] by (simp add: rows_for_def)
qed

lemma identities_nonempty: "(a, m) \<in> set (identities_loop U seen ids) \<Longrightarrow> a \<noteq> '''' \<and> m \<noteq> ''''"
  by (induction U seen ids rule: identities_loop.induct) (auto simp: Let_def split: if_splits)

lemma snapshot_first_rule:
  "snapshot_ResolveForPricingInput U s input = first_rule U (sn_rulesByAdapter s) (pricingIdentitiesForInput U input)"
  by (simp add: snapshot_ResolveForPricingInput_def first_rule_def)

lemma LookupModelPricing_error: "LookupModelPricing U s model = Inl err \<Longrightarrow> errors_is err ErrModelPricingUnavailable"
  by (auto simp: LookupModelPricing_def Let_def unavailable_for_def ErrModelPricingUnavailable_def
      split: option.splits prod.splits)

lemma resolveWithOverride_error:
  "resolveWithOverride U s input ov = Inl err \<Longrightarrow> errors_is err ErrModelPricingUnavailable"
  by (auto simp: resolveWithOverride_def resolveBasePricing_def Let_def
      dest: LookupModelPricing_error split: option.splits sum.splits if_splits)

text \<open>The price of one request of a batch: a model without any price has the unavailable price.\<close>

definition or_unavailable :: "PricingInput \<Rightarrow> ResolvedPricing result \<Rightarrow> ResolvedPricing" where
  "or_unavailable input r = (case r of Inr p \<Rightarrow> p | Inl _ \<Rightarrow> unavailable_pricing (pricingModelForInput input))"

lemma batch_loop_eq:
  "batch_loop U s snapshot inputs = Inr (map (\<lambda>i. or_unavailable i
     (resolveWithOverride U s i (Option.bind snapshot (\<lambda>sn. snapshot_ResolveForPricingInput U sn i)))) inputs)"
  by (induction inputs)
    (auto simp: or_unavailable_def dest: resolveWithOverride_error split: sum.splits)

text \<open>
  C10. Resolving a batch of requests against one snapshot of the rules gives for each request the price
  that resolving it alone gives, and the unavailable price where that reports a model without a price.
  The database works, orders texts strictly, and the adapters' names are in their stored form.
\<close>

theorem ResolveBatch_pointwise:
  assumes w: "healthy w" and cat: "mr_pricingCatalog R = Some Q" and o: "text_order (rq_less Q)"
    and rows: "\<forall>r \<in> set (rb_rows (wd_db w)). normal_name U Q (mo_Adapter r)"
    and ids: "\<forall>i \<in> set inputs. \<forall>(a, m) \<in> set (pricingIdentitiesForInput U i). normal_name U Q a"
  shows "fst (ResolveBatch U R inputs w) =
    Inr (map (\<lambda>i. or_unavailable i (fst (resolver_Resolve U R i w))) inputs)"
proof -
  let ?rows = "rows_for Q (wd_db w)"
  let ?sn = "\<lparr>sn_rulesByAdapter = (\<lambda>a. filter (\<lambda>r. a \<noteq> '''' \<and> ToLower U (TrimSpace (mo_Adapter r)) = a) (?rows ''''))\<rparr>"
  have one: "fst (resolver_Resolve U R i w) =
      resolveWithOverride U (mr_billingService R) i (first_rule U ?rows (pricingIdentitiesForInput U i))" for i
    using ResolveForPricingInput_healthy [OF w, of U Q i] by (auto simp: resolver_Resolve_def cat)
  have same: "snapshot_ResolveForPricingInput U ?sn i = first_rule U ?rows (pricingIdentitiesForInput U i)"
    if "i \<in> set inputs" for i
    unfolding snapshot_first_rule
  proof (rule first_rule_cong)
    fix a m assume am: "(a, m) \<in> set (pricingIdentitiesForInput U i)"
    have "a \<noteq> ''''" using identities_nonempty am unfolding pricingIdentitiesForInput_def by blast
    then show "sn_rulesByAdapter ?sn a = ?rows a"
      using snapshot_rules_eq [OF o rows, of a] ids that am by auto
  qed
  have "fst (ResolveBatch U R inputs w) = batch_loop U (mr_billingService R) (Some ?sn) inputs"
    by (simp add: ResolveBatch_def cat LoadSnapshot_def rules_List_healthy [OF w])
  then show ?thesis using same by (auto simp: batch_loop_eq one intro: map_cong)
qed


lemma rule_before_cases: "rule_before U model r r' \<longleftrightarrow>
    rule_exact U model r \<and> \<not> rule_exact U model r' \<or> rule_exact U model r = rule_exact U model r' \<and>
    (patternSpecificity (mo_ModelPattern r') < patternSpecificity (mo_ModelPattern r) \<or>
     patternSpecificity (mo_ModelPattern r') = patternSpecificity (mo_ModelPattern r) \<and>
     string_less (ToLower U (mo_ModelPattern r)) (ToLower U (mo_ModelPattern r')))"
  by (auto simp: rule_before_def)

text \<open>
  C9. Which rule sets the price. Among the active rules whose pattern matches the model, and whose
  patterns differ in more than case, the one chosen is the one that comes before all others: an exact
  pattern before a wildcard, then the pattern with more literal bytes, then the smaller pattern. So the
  choice does not depend on the order in which the rules are stored, and there is none only when no rule
  matches.
\<close>

theorem rule_choice:
  assumes "inj_on (\<lambda>r. ToLower U (mo_ModelPattern r)) {r \<in> set rules. rule_applies U model r}"
  shows "(resolveModelPricingRules U rules model = Some r \<longleftrightarrow> r \<in> set rules \<and> rule_applies U model r \<and>
      (\<forall>r' \<in> set rules. rule_applies U model r' \<and> r' \<noteq> r \<longrightarrow>
         rule_exact U model r \<and> \<not> rule_exact U model r' \<or> rule_exact U model r = rule_exact U model r' \<and>
         (patternSpecificity (mo_ModelPattern r') < patternSpecificity (mo_ModelPattern r) \<or>
          patternSpecificity (mo_ModelPattern r') = patternSpecificity (mo_ModelPattern r) \<and>
          string_less (ToLower U (mo_ModelPattern r)) (ToLower U (mo_ModelPattern r'))))) \<and>
    (resolveModelPricingRules U rules model = None \<longleftrightarrow> (\<forall>r' \<in> set rules. \<not> rule_applies U model r'))"
  unfolding rule_before_cases [symmetric] using resolve_best [OF assms] resolve_None by blast

definition demo_rule :: "int \<Rightarrow> string \<Rightarrow> string \<Rightarrow> ModelPricingOverride" where
  "demo_rule i adapter pattern = \<lparr>mo_ID = i, mo_Adapter = adapter, mo_ModelPattern = pattern, mo_BillingMode = ''token'',
     mo_InputPrice = Some (Fin 1), mo_OutputPrice = Some (Fin 2), mo_CacheWritePrice = None, mo_CacheReadPrice = None,
     mo_ImageInputPrice = None, mo_ImageOutputPrice = None, mo_PerRequestPrice = None, mo_Intervals = [],
     mo_Status = ''active''\<rparr>"

lemma distinct_inj_on: "distinct (map f xs) \<Longrightarrow> inj_on f {x \<in> set xs. P x}"
  by (auto simp: distinct_map inj_on_def)

lemma demo_rule_applies:
  assumes "ToLower ascii_tables (TrimSpace p) = q" "path_Match q ''glm-5.1'' = Some b" "q \<noteq> ''''" "q \<noteq> ''glm-5.1''"
  shows "rule_applies ascii_tables ''GLM-5.1'' (demo_rule i a p) = b"
proof -
  have m: "ToLower ascii_tables ''GLM-5.1'' = ''glm-5.1''" "ToLower ascii_tables (TrimSpace ''glm-5.1'') = ''glm-5.1''"
    "ToLower ascii_tables (TrimSpace ''active'') = ''active''"
    by code_simp+
  show ?thesis using assms m
    by (simp add: rule_applies_def modelPatternMatches_def demo_rule_def ModelPricingStatusActive_def)
qed

theorem rule_choice_witness:
  "resolveModelPricingRules ascii_tables [demo_rule 1 ''glm'' ''glm*'', demo_rule 2 ''glm'' ''glm-5*'', demo_rule 3 ''glm'' ''x'']
     ''GLM-5.1'' = Some (demo_rule 2 ''glm'' ''glm-5*'')"
proof -
  let ?rs = "[demo_rule 1 ''glm'' ''glm*'', demo_rule 2 ''glm'' ''glm-5*'', demo_rule 3 ''glm'' ''x'']"
  have n: "ToLower ascii_tables (TrimSpace ''glm*'') = ''glm*''" "ToLower ascii_tables (TrimSpace ''glm-5*'') = ''glm-5*''"
    "ToLower ascii_tables (TrimSpace ''x'') = ''x''" by code_simp+
  have p: "list_all plain_byte ''glm''" "list_all plain_byte ''glm-5''" "list_all plain_byte ''x''" by code_simp+
  have m: "path_Match ''glm*'' ''glm-5.1'' = Some True" "path_Match ''glm-5*'' ''glm-5.1'' = Some True"
    "path_Match ''x'' ''glm-5.1'' = Some False"
    using path_Match_prefix [OF p(1), of "''glm-5.1''"] path_Match_prefix [OF p(2), of "''glm-5.1''"]
      path_Match_plain [OF p(3), of "''glm-5.1''"] by (simp_all add: HasPrefix_def)
  have a: "rule_applies ascii_tables ''GLM-5.1'' (demo_rule 1 ''glm'' ''glm*'')"
    "rule_applies ascii_tables ''GLM-5.1'' (demo_rule 2 ''glm'' ''glm-5*'')"
    "\<not> rule_applies ascii_tables ''GLM-5.1'' (demo_rule 3 ''glm'' ''x'')"
    using demo_rule_applies [OF n(1) m(1)] demo_rule_applies [OF n(2) m(2)] demo_rule_applies [OF n(3) m(3)] by auto
  have b: "\<not> rule_exact ascii_tables ''GLM-5.1'' (demo_rule 1 ''glm'' ''glm*'')"
    "\<not> rule_exact ascii_tables ''GLM-5.1'' (demo_rule 2 ''glm'' ''glm-5*'')"
    "patternSpecificity (mo_ModelPattern (demo_rule 1 ''glm'' ''glm*'')) <
     patternSpecificity (mo_ModelPattern (demo_rule 2 ''glm'' ''glm-5*''))" by code_simp+
  have d: "distinct (map (\<lambda>r. ToLower ascii_tables (mo_ModelPattern r)) ?rs)" by code_simp
  show ?thesis
    using rule_choice [OF distinct_inj_on [OF d], of "''GLM-5.1''" "demo_rule 2 ''glm'' ''glm-5*''"] a b by auto
qed

definition demo_sql :: rule_sql where
  "demo_sql = \<lparr>rq_lower = map lower_char, rq_less = string_less\<rparr>"

definition demo_rules_world :: rule_world where
  "demo_rules_world = \<lparr>wd_db = \<lparr>rb_rows = [demo_rule 1 ''glm'' ''glm*'', demo_rule 2 ''codex'' ''gpt-5.4''], rb_next_id = 3\<rparr>,
     wd_clock = (\<lambda>_. 0), wd_tick = 0, wd_fault = (\<lambda>_. None), wd_stmt = 0, wd_unique = (\<lambda>_. False)\<rparr>"

definition demo_resolver :: ModelPricingResolver where
  "demo_resolver = \<lparr>mr_billingService = NewBillingService (Fin 1) None, mr_pricingCatalog = Some demo_sql\<rparr>"

definition demo_inputs :: "PricingInput list" where
  "demo_inputs = [\<lparr>pi_Model = ''glm-5'', pi_Adapter = ''Openai'', pi_PlatformCode = ''GLM'', pi_PublicModel = ''''\<rparr>,
     \<lparr>pi_Model = ''gpt-5.4'', pi_Adapter = ''codex'', pi_PlatformCode = '''', pi_PublicModel = ''''\<rparr>,
     \<lparr>pi_Model = ''nothing'', pi_Adapter = ''openai'', pi_PlatformCode = '''', pi_PublicModel = ''''\<rparr>]"

lemma demo_text_order: "text_order (rq_less demo_sql)"
  using string_less_asym string_less_neg_trans string_less_total by (auto simp: text_order_def demo_sql_def)

theorem ResolveBatch_pointwise_witness:
  "fst (ResolveBatch ascii_tables demo_resolver demo_inputs demo_rules_world) =
     Inr (map (\<lambda>i. or_unavailable i (fst (resolver_Resolve ascii_tables demo_resolver i demo_rules_world))) demo_inputs)"
proof -
  have n: "list_all (normal_name ascii_tables demo_sql) [''glm'', ''codex'', ''openai'']" by code_simp
  have i: "map (pricingIdentitiesForInput ascii_tables) demo_inputs =
      [[(''glm'', ''glm-5''), (''openai'', ''glm-5'')], [(''codex'', ''gpt-5.4'')], [(''openai'', ''nothing'')]]"
    by code_simp
  show ?thesis
  proof (rule ResolveBatch_pointwise)
    show "healthy demo_rules_world" by (simp add: healthy_def demo_rules_world_def)
    show "mr_pricingCatalog demo_resolver = Some demo_sql" by (simp add: demo_resolver_def)
    show "text_order (rq_less demo_sql)" by (rule demo_text_order)
    show "\<forall>r \<in> set (rb_rows (wd_db demo_rules_world)). normal_name ascii_tables demo_sql (mo_Adapter r)"
      using n by (simp add: demo_rules_world_def demo_rule_def)
    show "\<forall>i \<in> set demo_inputs. \<forall>(a, m) \<in> set (pricingIdentitiesForInput ascii_tables i). normal_name ascii_tables demo_sql a"
      using n i by (simp add: demo_inputs_def)
  qed
qed

end
