(* ===== verification/Price_Cost.thy ===== *)
theory Price_Cost
  imports Price_Choice
begin

text \<open>
  Properties of price calculation: a sale rule that the administrators' check accepts prices the
  requests it is used for, costs are never negative, the two paths of the code charge the same for a
  model without a rule, and splitting a long context loses no token.
\<close>

section \<open>Accepted sale rules\<close>

lemma coverage_loop_complete:
  "coverage_loop p base covered ivs \<Longrightarrow> iv \<in> set ivs \<Longrightarrow> isCompleteTokenPricing (interval_pricing p iv)"
  by (induction p base covered ivs rule: coverage_loop.induct) (auto split: option.splits if_splits)

text \<open>Without a complete flat price, the intervals leave no gap from where the sweep starts.\<close>

lemma coverage_loop_tiles:
  assumes "coverage_loop p False (Some n) ivs" "n < t"
  shows "\<exists>iv \<in> set ivs. in_interval t iv"
  using assms
proof (induction ivs arbitrary: n)
  case (Cons iv ivs)
  show ?case
  proof (cases "in_interval t iv")
    case False
    then obtain m where m: "iv_MaxTokens iv = Some m" "m < t" "iv_MinTokens iv = n" "coverage_loop p False (Some m) ivs"
      using Cons.prems by (auto simp: in_interval_def split: if_splits option.splits)
    then show ?thesis using Cons.IH by auto
  qed auto
qed simp

lemma find_in_interval:
  "List.find P xs = None \<longleftrightarrow> (\<forall>x \<in> set xs. \<not> P x)" "List.find P xs = Some x \<Longrightarrow> x \<in> set xs \<and> P x"
  by (auto simp: find_None_iff find_Some_iff)

lemma GetIntervalPricing_cases:
  "GetIntervalPricing p t = (case FindMatchingInterval (rp_Intervals p) t of
     None \<Rightarrow> rp_BasePricing p | Some iv \<Rightarrow> Some (interval_pricing p iv))"
  by (auto simp: GetIntervalPricing_def interval_pricing_def FindMatchingInterval_def split: option.split)

text \<open>The price of a validated sale rule, and when it is complete.\<close>

lemma sale_interval_pricing:
  assumes v: "validateResolvedPricingAvailable p" and i: "requiresIndependentSalePricing p"
    and m: "rp_Mode p \<noteq> BillingModePerRequest" "rp_Mode p \<noteq> BillingModeImage" and iv: "rp_Intervals p \<noteq> []"
    and b: "rp_BasePricing p = Some base" and t: "0 < t \<or> isCompleteTokenPricing base"
  obtains q where "GetIntervalPricing p t = Some q" "tokenPricingValuesValid q" "isCompleteTokenPricing q"
proof -
  let ?base = "isCompleteTokenPricing base"
  obtain r where r: "rp_MatchedOverride p = Some r" using i by (auto simp: requiresIndependentSalePricing_def)
  have valid: "tokenPricingValuesValid base" "\<forall>iv \<in> set (rp_Intervals p). tokenPricingValuesValid (interval_pricing p iv)"
    and cov: "coverage_loop p ?base (Some 0) (stable_sort coverage_less (rp_Intervals p))"
    using v m b i iv r by (auto simp: validateResolvedPricingAvailable_def list_all_iff option_holds_def
        validateIndependentTokenIntervalCoverage_def split: if_splits)
  show thesis
  proof (cases "FindMatchingInterval (rp_Intervals p) t")
    case None
    then have "\<forall>iv \<in> set (rp_Intervals p). \<not> in_interval t iv" by (simp add: FindMatchingInterval_def find_in_interval(1))
    then have ?base using t cov coverage_loop_tiles [of p 0 "stable_sort coverage_less (rp_Intervals p)" t] by (cases ?base) auto
    then show thesis using that None valid(1) b by (simp add: GetIntervalPricing_cases)
  next
    case (Some iv)
    then have "iv \<in> set (rp_Intervals p)" by (auto simp: FindMatchingInterval_def dest: find_in_interval(2))
    then show thesis using that [of "interval_pricing p iv"] Some valid(2) coverage_loop_complete [OF cov, of iv]
      by (simp add: GetIntervalPricing_cases)
  qed
qed

lemma cost_of_sale:
  assumes v: "validateResolvedPricingAvailable p" and i: "requiresIndependentSalePricing p"
    and m: "rp_Mode p \<noteq> BillingModePerRequest" "rp_Mode p \<noteq> BillingModeImage"
    and q: "GetIntervalPricing p (context_tokens (ci_Tokens ci)) = Some q" "tokenPricingValuesValid q"
  shows "(\<exists>bd. cost_of_resolved U p ci = Inr bd) \<longleftrightarrow> isCompleteTokenPricing q"
  using assms by (auto simp: cost_of_resolved_def calculateTokenCost_def Let_def)

lemma per_request_sale:
  assumes "validateResolvedPricingAvailable p" "requiresIndependentSalePricing p"
    and "rp_Mode p = BillingModePerRequest \<or> rp_Mode p = BillingModeImage"
  shows "\<exists>bd. cost_of_resolved U p ci = Inr bd"
  using assms by (auto simp: cost_of_resolved_def calculatePerRequestCost_def validateResolvedPricingAvailable_def Let_def
      split: if_splits option.split)

text \<open>What the check reads of a price.\<close>

lemma coverage_loop_cong:
  "interval_pricing p = interval_pricing p' \<Longrightarrow> coverage_loop p base n ivs = coverage_loop p' base n ivs"
  by (induction ivs arbitrary: n) (simp_all split: option.split)

lemma validate_sale_cong:
  assumes "requiresIndependentSalePricing p" "requiresIndependentSalePricing p'" "rp_Mode p = rp_Mode p'"
    "rp_BasePricing p = Some base" "rp_BasePricing p' = Some base"
    "rp_Intervals p = rp_Intervals p'" "rp_MatchedOverride p = rp_MatchedOverride p'"
    "rp_DefaultPerRequestPriceExplicit p = rp_DefaultPerRequestPriceExplicit p'"
    "rp_OfficialMode p \<noteq> rp_Mode p" "rp_OfficialMode p' \<noteq> rp_Mode p'"
  shows "validateResolvedPricingAvailable p = validateResolvedPricingAvailable p'"
proof -
  have ip: "interval_pricing p = interval_pricing p'" using assms by (auto simp: interval_pricing_def intervalToModelPricing_def)
  show ?thesis using assms coverage_loop_cong [OF ip] ip
    by (auto simp: validateResolvedPricingAvailable_def validateIndependentTokenIntervalCoverage_def flat_sale_available_def
        split: option.split)
qed


lemma validated_rule:
  assumes "validateModelPricingOverride U item = Inr r"
  shows "mo_BillingMode r \<in> {BillingModeToken, BillingModePerRequest, BillingModeImage}"
    and "ValidateIntervals (mo_Intervals r) = None" and "list_all (\<lambda>v. \<not> negative_price v) (rule_prices r)"
    and "mo_Adapter r = ToLower U (TrimSpace (mo_Adapter item))" and "mo_Adapter r \<noteq> ''''"
    and "mo_ModelPattern r = TrimSpace (mo_ModelPattern item)" and "mo_ModelPattern r \<noteq> ''''"
    and "mo_Status r \<in> {ModelPricingStatusActive, ''disabled''}"
  using assms
  by (auto simp: validateModelPricingOverride_def Let_def mode_IsValid_def billing_modes list_all_iff list_ex_iff
      split: if_splits option.splits)

lemma single_loop_None: "single_loop i ivs = None \<Longrightarrow> iv \<in> set ivs \<Longrightarrow> \<exists>k. validateSingleInterval iv k = None"
  by (induction i ivs rule: single_loop.induct) (auto split: option.splits)

lemma validated_intervals:
  assumes "ValidateIntervals ivs = None" "iv \<in> set ivs"
  shows "0 \<le> iv_MinTokens iv" "\<And>m. iv_MaxTokens iv = Some m \<Longrightarrow> iv_MinTokens iv < m"
proof -
  have "\<exists>k. validateSingleInterval iv k = None"
    using assms single_loop_None [of 0 "stable_sort min_less ivs" iv]
    by (auto simp: ValidateIntervals_def Let_def split: if_splits option.splits)
  then show "0 \<le> iv_MinTokens iv" "\<And>m. iv_MaxTokens iv = Some m \<Longrightarrow> iv_MinTokens iv < m"
    by (auto simp: validateSingleInterval_def split: if_splits option.splits)
qed

text \<open>The price of a sale rule that inherits nothing.\<close>

lemma resolved_sale:
  assumes p: "resolveWithOverride U s pin (Some r) = Inr p"
    and base: "case LookupModelPricing U s (pricingModelForInput pin) of
      Inl _ \<Rightarrow> True | Inr found \<Rightarrow> ml_Mode found \<noteq> mo_BillingMode r"
    and mode: "mo_BillingMode r \<noteq> ''''"
  shows "requiresIndependentSalePricing p" "rp_Mode p = mo_BillingMode r" "rp_MatchedOverride p = Some r"
    "rp_BasePricing p = Some (applyOverridePrices r no_pricing)" "rp_Intervals p = filterValidIntervals (mo_Intervals r)"
    "rp_DefaultPerRequestPriceExplicit p = (mo_PerRequestPrice r \<noteq> None)" "rp_OfficialMode p \<noteq> rp_Mode p"
  using assms
  by (auto simp: resolveWithOverride_def resolveBasePricing_def pricingOverrideToResolved_def inherit_official_def
      requiresIndependentSalePricing_def Let_def split: sum.splits if_splits)

lemma flat_sale_complete: "flat_sale_available p r \<Longrightarrow> rp_OfficialMode p \<noteq> rp_Mode p \<Longrightarrow>
    isCompleteTokenPricing (applyOverridePrices r no_pricing)"
  by (auto simp: flat_sale_available_def tokenPriceAvailable_def option_holds_def isCompleteTokenPricing_def
      isCoreTokenPricingAvailable_def applyOverridePrices_def set_input_def set_output_def set_cache_write_def
      set_cache_read_def Let_def split: option.splits)


lemma accepted_sale_valid:
  assumes "ValidatePlatformSaleOverride U officialMode item = None" "validateModelPricingOverride U item = Inr r"
    and "mo_Status r = ModelPricingStatusActive" and mode: "officialMode \<noteq> mo_BillingMode r" "mo_BillingMode r \<noteq> ''''"
    and p: "requiresIndependentSalePricing p" "rp_Mode p = mo_BillingMode r" "rp_MatchedOverride p = Some r"
      "rp_BasePricing p = Some (applyOverridePrices r no_pricing)" "rp_Intervals p = filterValidIntervals (mo_Intervals r)"
      "rp_DefaultPerRequestPriceExplicit p = (mo_PerRequestPrice r \<noteq> None)" "rp_OfficialMode p \<noteq> rp_Mode p"
  shows "validateResolvedPricingAvailable p"
proof -
  let ?p0 = "(pricingOverrideToResolved r None (Some ((unavailable_source '''')\<lparr>si_Name := ''''\<rparr>)))\<lparr>rp_OfficialMode := officialMode\<rparr>"
  have "validateResolvedPricingAvailable ?p0"
    using assms(1-4) by (auto simp: ValidatePlatformSaleOverride_def split: if_splits)
  then show ?thesis
    using validate_sale_cong [of p ?p0 "applyOverridePrices r no_pricing"] p mode
    by (auto simp: pricingOverrideToResolved_def requiresIndependentSalePricing_def Let_def)
qed

text \<open>
  C7. A sale rule that \<open>ValidatePlatformSaleOverride\<close> accepts, for a model whose official price it cannot
  inherit, prices every request of the model with some input, in every billing mode. A request without any
  input is refused exactly when the rule charges tokens by context length and its flat prices are
  incomplete: no interval contains a context of zero tokens.
\<close>

theorem accepted_sale_priced:
  assumes ok: "ValidatePlatformSaleOverride U officialMode item = None"
    and r: "validateModelPricingOverride U item = Inr r" and active: "mo_Status r = ModelPricingStatusActive"
    and mode: "officialMode \<noteq> mo_BillingMode r"
    and base: "case LookupModelPricing U s (pricingModelForInput pin) of Inl _ \<Rightarrow> True | Inr found \<Rightarrow> ml_Mode found = officialMode"
    and p: "resolveWithOverride U s pin (Some r) = Inr p"
  shows "(\<exists>bd. cost_of_resolved U p ci = Inr bd) \<longleftrightarrow>
    mo_BillingMode r \<noteq> BillingModeToken \<or> 0 < context_tokens (ci_Tokens ci) \<or>
    filterValidIntervals (mo_Intervals r) = [] \<or> isCompleteTokenPricing (applyOverridePrices r no_pricing)"
proof -
  let ?b = "applyOverridePrices r no_pricing" and ?t = "context_tokens (ci_Tokens ci)"
  have m: "mo_BillingMode r \<in> {BillingModeToken, BillingModePerRequest, BillingModeImage}" by (rule validated_rule(1) [OF r])
  then have ne: "mo_BillingMode r \<noteq> ''''" by (auto simp: billing_modes)
  have "case LookupModelPricing U s (pricingModelForInput pin) of Inl _ \<Rightarrow> True | Inr found \<Rightarrow> ml_Mode found \<noteq> mo_BillingMode r"
    using base mode by (auto split: sum.splits)
  note R = resolved_sale [OF p this ne]
  note v = accepted_sale_valid [OF ok r active mode ne R]
  show ?thesis
  proof (cases "mo_BillingMode r = BillingModeToken")
    case False
    then show ?thesis using per_request_sale [OF v R(1)] m R(2) by auto
  next
    case tok: True
    then have nm: "rp_Mode p \<noteq> BillingModePerRequest" "rp_Mode p \<noteq> BillingModeImage" using R(2) by (auto simp: billing_modes)
    have vb: "tokenPricingValuesValid ?b" using v nm R(4) by (auto simp: validateResolvedPricingAvailable_def split: if_splits)
    consider (flat) "rp_Intervals p = []" | (priced) "rp_Intervals p \<noteq> []" "0 < ?t \<or> isCompleteTokenPricing ?b"
      | (empty) "rp_Intervals p \<noteq> []" "\<not> 0 < ?t" "\<not> isCompleteTokenPricing ?b" by blast
    then show ?thesis
    proof cases
      case flat
      then have "isCompleteTokenPricing ?b" using v R nm flat_sale_complete [of p r]
        by (auto simp: validateResolvedPricingAvailable_def split: if_splits)
      then show ?thesis using cost_of_sale [OF v R(1) nm, of ci ?b] flat R vb by (simp add: GetIntervalPricing_def)
    next
      case priced
      then obtain q where "GetIntervalPricing p ?t = Some q" "tokenPricingValuesValid q" "isCompleteTokenPricing q"
        using sale_interval_pricing [OF v R(1) nm _ R(4)] by blast
      then show ?thesis using cost_of_sale [OF v R(1) nm] priced by auto
    next
      case empty
      have "\<not> in_interval ?t iv" if "iv \<in> set (rp_Intervals p)" for iv
        using that empty(2) R(5) validated_intervals(1) [OF validated_rule(2) [OF r], of iv]
        by (auto simp: filterValidIntervals_def in_interval_def)
      then have "FindMatchingInterval (rp_Intervals p) ?t = None" by (simp add: FindMatchingInterval_def find_in_interval(1))
      then have "GetIntervalPricing p ?t = Some ?b" using R(4) by (simp add: GetIntervalPricing_cases)
      then show ?thesis using cost_of_sale [OF v R(1) nm _ vb] empty tok R(5) by simp
    qed
  qed
qed


text \<open>A rule with two prices by context length for a model nobody else prices.\<close>

definition demo_interval :: "int \<Rightarrow> int option \<Rightarrow> rat \<Rightarrow> PricingInterval" where
  "demo_interval low high v = \<lparr>iv_MinTokens = low, iv_MaxTokens = high, iv_TierLabel = '''', iv_InputPrice = Some (Fin v),
     iv_OutputPrice = Some (Fin v), iv_CacheWritePrice = Some (Fin v), iv_CacheReadPrice = Some (Fin v),
     iv_PerRequestPrice = None, iv_SortOrder = 0\<rparr>"

definition demo_sale :: ModelPricingOverride where
  "demo_sale = (demo_rule 1 ''acme'' ''own'')\<lparr>mo_InputPrice := None, mo_OutputPrice := None,
     mo_Intervals := [demo_interval 0 (Some 1000) 1, demo_interval 1000 None 2]\<rparr>"

definition demo_cost_input :: "int \<Rightarrow> CostInput" where
  "demo_cost_input n = \<lparr>ci_Model = ''own'', ci_Adapter = ''acme'', ci_PlatformCode = '''', ci_PublicModel = '''',
     ci_Tokens = no_tokens\<lparr>ut_InputTokens := n, ut_OutputTokens := 7\<rparr>, ci_RequestCount = 1, ci_SizeTier = '''',
     ci_RateMultiplier = Fin 1, ci_ServiceTier = '''', ci_Resolver = None, ci_Resolved = None,
     ci_LongContextBillingEnabled = None\<rparr>"

definition demo_pricing_input :: PricingInput where
  "demo_pricing_input = \<lparr>pi_Model = ''own'', pi_Adapter = ''acme'', pi_PlatformCode = '''', pi_PublicModel = ''''\<rparr>"

lemma unlisted_model: "fallback_key U (ToLower U (TrimSpace m)) = None \<Longrightarrow>
    LookupModelPricing U (NewBillingService rate None) m = Inl (unavailable_for (ToLower U (TrimSpace m)))"
  by (simp add: LookupModelPricing_def listed_lookup_def NewBillingService_def getFallbackPricing_def Let_def)


lemma demo_sale_unlisted: "LookupModelPricing ascii_tables (NewBillingService (Fin 1) None) ''own'' = Inl (unavailable_for ''own'')"
proof -
  have n: "ToLower ascii_tables (TrimSpace ''own'') = ''own''" by code_simp
  have "fallback_key ascii_tables ''own'' = None" by code_simp
  then show ?thesis using unlisted_model [of ascii_tables "''own''"] n by simp
qed

theorem accepted_sale_priced_witness:
  "\<exists>p. resolveWithOverride ascii_tables (NewBillingService (Fin 1) None) demo_pricing_input (Some demo_sale) = Inr p \<and>
     (\<exists>bd. cost_of_resolved ascii_tables p (demo_cost_input 5) = Inr bd) \<and>
     \<not> (\<exists>bd. cost_of_resolved ascii_tables p (demo_cost_input 0) = Inr bd)"
proof -
  let ?s = "NewBillingService (Fin 1) None"
  have m: "pricingModelForInput demo_pricing_input = ''own''" by code_simp
  obtain p where p: "resolveWithOverride ascii_tables ?s demo_pricing_input (Some demo_sale) = Inr p"
    using demo_sale_unlisted m
    by (auto simp: resolveWithOverride_def resolveBasePricing_def unavailable_for_def ErrModelPricingUnavailable_def)
  have ok: "ValidatePlatformSaleOverride ascii_tables '''' demo_sale = None"
    and r: "validateModelPricingOverride ascii_tables demo_sale = Inr demo_sale" by code_simp+
  have f: "mo_Status demo_sale = ModelPricingStatusActive" "'''' \<noteq> mo_BillingMode demo_sale"
    "mo_BillingMode demo_sale = BillingModeToken" "filterValidIntervals (mo_Intervals demo_sale) \<noteq> []"
    "\<not> isCompleteTokenPricing (applyOverridePrices demo_sale no_pricing)"
    "0 < context_tokens (ci_Tokens (demo_cost_input 5))" "\<not> 0 < context_tokens (ci_Tokens (demo_cost_input 0))"
    by code_simp+
  have b: "case LookupModelPricing ascii_tables ?s (pricingModelForInput demo_pricing_input) of
      Inl _ \<Rightarrow> True | Inr found \<Rightarrow> ml_Mode found = ''''" using demo_sale_unlisted m by simp
  show ?thesis using accepted_sale_priced [OF ok r f(1,2) b p] f p by auto
qed


section \<open>Costs are not negative\<close>

text \<open>Not below zero; the undefined result of infinity times zero counts as not below.\<close>

definition not_negative :: "float64 \<Rightarrow> bool" where
  "not_negative x \<longleftrightarrow> \<not> f_less x f_zero"

lemma not_negative_special: "not_negative NaN" "not_negative PosInf" "\<not> not_negative NegInf"
  by (auto simp: not_negative_def)

lemma not_negative_round: "0 \<le> q \<Longrightarrow> not_negative (round64 q)"
  using round64_nonneg [of q] by (cases "round64 q") (auto simp: not_negative_def)

lemma not_negative_Fin [simp]: "not_negative (Fin q) \<longleftrightarrow> 0 \<le> q"
  by (auto simp: not_negative_def)

lemma not_negative_mul: "not_negative x \<Longrightarrow> not_negative y \<Longrightarrow> not_negative (f_mul x y)"
  by (cases x; cases y) (auto simp: not_negative_special intro: not_negative_round)

lemma not_negative_add: "not_negative x \<Longrightarrow> not_negative y \<Longrightarrow> not_negative (f_add x y)"
  by (cases x; cases y) (auto simp: not_negative_special intro: not_negative_round)

lemma not_negative_of_int: "0 \<le> n \<Longrightarrow> not_negative (f_of_int n)"
  by (simp add: f_of_int_def not_negative_round)

lemma not_negative_rate: "not_negative (non_negative_rate r)"
  by (simp add: non_negative_rate_def not_negative_def)

lemmas not_negative_intros = not_negative_mul not_negative_add not_negative_of_int not_negative_rate

definition tokens_ok :: "UsageTokens \<Rightarrow> bool" where
  "tokens_ok t \<longleftrightarrow> list_all (\<lambda>n. 0 \<le> n \<and> n < 2 ^ 63) [ut_InputTokens t, ut_ImageInputTokens t, ut_OutputTokens t,
     ut_CacheCreationTokens t, ut_CacheReadTokens t, ut_CacheCreation5mTokens t, ut_CacheCreation1hTokens t,
     ut_ImageOutputTokens t]"

definition rates_ok :: "token_rates \<Rightarrow> bool" where
  "rates_ok r \<longleftrightarrow> list_all not_negative [tr_input r, tr_output r, tr_cache_read r, tr_cache_creation r,
     tr_creation_factor r, tr_tier r]"

lemma valid_prices: "tokenPricingValuesValid p \<Longrightarrow> list_all not_negative (price_values p)"
  by (auto simp: tokenPricingValuesValid_def list_all_iff not_negative_def)

definition cost_parts :: "CostBreakdown \<Rightarrow> float64 list" where
  "cost_parts c = [co_InputCost c, co_ImageInputCost c, co_OutputCost c, co_ImageOutputCost c, co_CacheCreationCost c,
     co_CacheReadCost c, co_TotalCost c, co_ActualCost c]"


lemma input_costs_ok:
  assumes "tokens_ok t" "list_all not_negative (price_values p)" "not_negative price"
  shows "not_negative (fst (input_costs p t price)) \<and> not_negative (snd (input_costs p t price))"
  using assms by (auto simp: input_costs_def tokens_ok_def price_values_def Let_def split: prod.splits if_splits
      intro!: not_negative_intros)

lemma output_costs_ok:
  assumes "tokens_ok t" "list_all not_negative (price_values p)" "not_negative price"
  shows "not_negative (fst (output_costs p t price)) \<and> not_negative (snd (output_costs p t price))"
  using assms by (auto simp: output_costs_def tokens_ok_def price_values_def Let_def intro!: not_negative_intros)

lemma cache_creation_ok:
  assumes "tokens_ok t" "list_all not_negative (price_values p)" "not_negative price" "not_negative factor"
  shows "not_negative (computeCacheCreationCost p t price factor)"
  using assms by (auto simp: computeCacheCreationCost_def tokens_ok_def price_values_def intro!: not_negative_intros)

lemma price_tokens_ok:
  assumes t: "tokens_ok t" and p: "list_all not_negative (price_values p)" and r: "rates_ok r" and m: "not_negative rate"
  shows "list_all not_negative (cost_parts (price_tokens p t rate r))"
proof -
  have rr: "not_negative (tr_input r)" "not_negative (tr_output r)" "not_negative (tr_cache_read r)"
    "not_negative (tr_cache_creation r)" "not_negative (tr_creation_factor r)" "not_negative (tr_tier r)"
    using r by (auto simp: rates_ok_def)
  obtain i1 i2 where i: "input_costs p t (tr_input r) = (i1, i2)" "not_negative i1" "not_negative i2"
    using input_costs_ok [OF t p rr(1)] by (cases "input_costs p t (tr_input r)") auto
  obtain o1 o2 where o: "output_costs p t (tr_output r) = (o1, o2)" "not_negative o1" "not_negative o2"
    using output_costs_ok [OF t p rr(2)] by (cases "output_costs p t (tr_output r)") auto
  have "not_negative (computeCacheCreationCost p t (tr_cache_creation r) (tr_creation_factor r))"
    by (rule cache_creation_ok [OF t p rr(4,5)])
  moreover have "not_negative (f_mul (f_of_int (ut_CacheReadTokens t)) (tr_cache_read r))"
    using t rr by (auto simp: tokens_ok_def intro!: not_negative_intros)
  ultimately show ?thesis using i o rr(6) m
    by (simp add: price_tokens_def cost_parts_def Let_def not_negative_mul not_negative_add)
qed

lemma tier_rates_ok: "list_all not_negative (price_values p) \<Longrightarrow> rates_ok (tier_rates U p tier)"
  by (auto simp: tier_rates_def rates_ok_def price_values_def prefer_positive_def serviceTierCostMultiplier_def Let_def)

lemma long_context_rates_ok:
  "rates_ok r \<Longrightarrow> not_negative (mp_LongContextInputMultiplier p) \<Longrightarrow> not_negative (mp_LongContextOutputMultiplier p) \<Longrightarrow>
   rates_ok (long_context_rates p r)"
  by (simp add: rates_ok_def long_context_rates_def not_negative_mul)

lemma breakdown_ok:
  assumes "tokens_ok t" "list_all not_negative (price_values p)" "not_negative (mp_LongContextInputMultiplier p)"
    "not_negative (mp_LongContextOutputMultiplier p)"
  shows "list_all not_negative (cost_parts (computeTokenBreakdown U p t rate tier long))"
proof -
  have "cost_parts (c\<lparr>co_LongContextBillingApplied := x\<rparr>) = cost_parts c" for c x by (simp add: cost_parts_def)
  then show ?thesis
    using price_tokens_ok [OF assms(1,2) tier_rates_ok [OF assms(2)] not_negative_rate]
      price_tokens_ok [OF assms(1,2) long_context_rates_ok [OF tier_rates_ok [OF assms(2)] assms(3,4)] not_negative_rate]
    by (simp add: computeTokenBreakdown_def Let_def)
qed


definition multipliers_ok :: "ModelPricing \<Rightarrow> bool" where
  "multipliers_ok p \<longleftrightarrow> not_negative (mp_LongContextInputMultiplier p) \<and> not_negative (mp_LongContextOutputMultiplier p)"

lemma policy_ok:
  assumes "list_all not_negative (price_values p)" "multipliers_ok p"
  shows "list_all not_negative (price_values (applyModelSpecificPricingPolicy U model p)) \<and>
    multipliers_ok (applyModelSpecificPricingPolicy U model p)"
  using assms
  by (simp add: applyModelSpecificPricingPolicy_def price_values_def multipliers_ok_def Let_def not_negative_mul
      openAIGPT54LongContextInputMultiplier_def openAIGPT54LongContextOutputMultiplier_def)

lemma setters_multipliers [simp]:
  "multipliers_ok (set_input e v p) = multipliers_ok p" "multipliers_ok (set_output e v p) = multipliers_ok p"
  "multipliers_ok (set_cache_write v p) = multipliers_ok p" "multipliers_ok (set_cache_read e v p) = multipliers_ok p"
  by (auto simp: multipliers_ok_def set_input_def set_output_def set_cache_write_def set_cache_read_def split: option.split)

lemma interval_multipliers:
  "(\<And>b. rp_BasePricing p = Some b \<Longrightarrow> multipliers_ok b) \<Longrightarrow> multipliers_ok (interval_pricing p iv)"
  by (cases "rp_BasePricing p")
    (auto simp: interval_pricing_def intervalToModelPricing_def Let_def, simp add: multipliers_ok_def no_pricing_def)

text \<open>The prices per request of a resolved price are not negative.\<close>

definition request_prices_ok :: "ResolvedPricing \<Rightarrow> bool" where
  "request_prices_ok p \<longleftrightarrow> not_negative (rp_DefaultPerRequestPrice p) \<and>
     list_all (\<lambda>t. case iv_PerRequestPrice t of Some v \<Rightarrow> not_negative v | None \<Rightarrow> True) (rp_RequestTiers p)"

lemma tier_price_ok:
  assumes "request_prices_ok p"
  shows "GetRequestTierPrice p l = Some v \<Longrightarrow> not_negative v" "GetRequestTierPriceByContext p n = Some v \<Longrightarrow> not_negative v"
  using assms by (auto simp: GetRequestTierPrice_def GetRequestTierPriceByContext_def FindMatchingInterval_def
      request_prices_ok_def list_all_iff Option.bind_eq_Some_conv dest!: find_in_interval(2))

lemma per_request_ok:
  assumes "request_prices_ok p" "calculatePerRequestCost p ci = Inr bd" "not_negative (ci_RateMultiplier ci)"
  shows "list_all not_negative (cost_parts bd)"
proof -
  let ?n = "if ci_RequestCount ci \<le> 0 then 1 else ci_RequestCount ci"
  have "not_negative (f_of_int ?n)" by (rule not_negative_of_int) simp
  then have parts: "list_all not_negative (cost_parts (no_cost\<lparr>co_TotalCost := f_mul u (f_of_int ?n),
      co_ActualCost := f_mul (f_mul u (f_of_int ?n)) (ci_RateMultiplier ci)\<rparr>))" if "not_negative u" for u
    using that assms(3) by (simp add: cost_parts_def no_cost_def not_negative_mul)
  have "not_negative (rp_DefaultPerRequestPrice p)" using assms(1) by (simp add: request_prices_ok_def)
  then show ?thesis using assms(2) tier_price_ok [OF assms(1)] parts
    by (auto simp: calculatePerRequestCost_def Let_def split: option.splits if_split_asm)
qed

lemma token_cost_ok:
  assumes t: "tokens_ok (ci_Tokens ci)" and b: "\<And>b. rp_BasePricing p = Some b \<Longrightarrow> multipliers_ok b"
    and c: "calculateTokenCost U p ci = Inr bd"
  shows "list_all not_negative (cost_parts bd)"
proof -
  obtain q where q: "GetIntervalPricing p (context_tokens (ci_Tokens ci)) = Some q" "tokenPricingValuesValid q"
    "bd = computeTokenBreakdown U (applyModelSpecificPricingPolicy U (ci_Model ci) q) (ci_Tokens ci) (ci_RateMultiplier ci)
       (ci_ServiceTier ci) (rp_Intervals p = [] \<and> (case ci_LongContextBillingEnabled ci of None \<Rightarrow> True | Some b \<Rightarrow> b))"
    using c by (auto simp: calculateTokenCost_def split: option.splits if_splits)
  have "multipliers_ok q"
    using q(1) b interval_multipliers [of p] by (auto simp: GetIntervalPricing_cases split: option.splits)
  then show ?thesis using policy_ok [OF valid_prices [OF q(2)]] breakdown_ok [OF t] q(3) by (simp add: multipliers_ok_def)
qed

text \<open>
  C18. A request is never charged a negative amount, nor any part of it: whatever rule or price applies, for
  every service tier and context length, with any (even negative) rate multiplier, and also when the image
  tokens exceed the tokens they are part of. Token counts are not negative; the long-context multipliers of
  the base price and the prices per request, which the code does not check here, are not either.
\<close>

theorem costs_not_negative:
  assumes "cost_of_resolved U p ci = Inr bd" and "tokens_ok (ci_Tokens ci)"
    and "\<And>b. rp_BasePricing p = Some b \<Longrightarrow> multipliers_ok b" and "request_prices_ok p"
  shows "list_all (\<lambda>c. \<not> f_less c f_zero) (cost_parts bd)"
proof -
  have m: "cost_parts (set_mode k c) = cost_parts c" for k c by (simp add: set_mode_def cost_parts_def)
  let ?ci = "ci\<lparr>ci_RateMultiplier := non_negative_rate (ci_RateMultiplier ci)\<rparr>"
  have "list_all not_negative (cost_parts bd)"
    using assms(1) token_cost_ok [of ?ci p U] per_request_ok [OF assms(4), of ?ci] assms(2,3) m not_negative_rate
    by (auto simp: cost_of_resolved_def Let_def map_sum_def split: if_splits sum.splits)
  then show ?thesis by (simp add: not_negative_def [abs_def])
qed


definition demo_sale_price :: ResolvedPricing where
  "demo_sale_price = pricingOverrideToResolved demo_sale None (Some (unavailable_source ''own''))"

theorem costs_not_negative_witness:
  "\<exists>bd. cost_of_resolved ascii_tables demo_sale_price (demo_cost_input 1005) = Inr bd \<and>
     list_all (\<lambda>c. \<not> f_less c f_zero) (cost_parts bd)"
proof -
  let ?ci = "demo_cost_input 1005" and ?p = demo_sale_price
  have v: "validateResolvedPricingAvailable ?p" "requiresIndependentSalePricing ?p" "rp_Mode ?p \<noteq> BillingModePerRequest"
    "rp_Mode ?p \<noteq> BillingModeImage" "rp_Intervals ?p \<noteq> []" by code_simp+
  obtain b where b: "rp_BasePricing ?p = Some b" by (simp add: demo_sale_price_def pricingOverrideToResolved_def Let_def)
  have c: "0 < context_tokens (ci_Tokens ?ci)" by code_simp
  then obtain q where "GetIntervalPricing ?p (context_tokens (ci_Tokens ?ci)) = Some q"
    "tokenPricingValuesValid q" "isCompleteTokenPricing q"
    using sale_interval_pricing [OF v b] by blast
  then obtain bd where bd: "cost_of_resolved ascii_tables ?p ?ci = Inr bd" using cost_of_sale [OF v(1-4)] by blast
  have "case rp_BasePricing ?p of None \<Rightarrow> True | Some b \<Rightarrow> multipliers_ok b" by code_simp
  then have m: "multipliers_ok b" if "rp_BasePricing ?p = Some b" for b using that by simp
  have t: "tokens_ok (ci_Tokens ?ci)" and r: "request_prices_ok ?p" by code_simp+
  show ?thesis using costs_not_negative [OF bd t m r] bd by blast
qed


section \<open>With and without a resolver\<close>

text \<open>The policy for OpenAI's models, as a condition and an update; applying it twice changes nothing more.\<close>

definition policy_update :: "bool \<Rightarrow> ModelPricing \<Rightarrow> ModelPricing" where
  "policy_update gpt p = p\<lparr>
     mp_CacheCreationPricePerToken := (if gpt \<and> \<not> mp_CacheCreationPriceExplicit p \<and> not_positive (mp_CacheCreationPricePerToken p)
       then f_mul (mp_InputPricePerToken p) (Fin 1.25) else mp_CacheCreationPricePerToken p),
     mp_CacheCreationPricePerTokenPriority := (if gpt \<and> \<not> mp_CacheCreationPriceExplicit p \<and>
         not_positive (mp_CacheCreationPricePerTokenPriority p)
       then f_mul (mp_InputPricePerTokenPriority p) (Fin 1.25) else mp_CacheCreationPricePerTokenPriority p),
     mp_LongContextInputThreshold := (if mp_LongContextInputThreshold p \<le> 0
       then openAIGPT54LongContextInputThreshold else mp_LongContextInputThreshold p),
     mp_LongContextInputMultiplier := (if not_positive (mp_LongContextInputMultiplier p)
       then openAIGPT54LongContextInputMultiplier else mp_LongContextInputMultiplier p),
     mp_LongContextOutputMultiplier := (if not_positive (mp_LongContextOutputMultiplier p)
       then openAIGPT54LongContextOutputMultiplier else mp_LongContextOutputMultiplier p)\<rparr>"

lemma policy_constants: "\<not> not_positive openAIGPT54LongContextInputMultiplier"
  "\<not> not_positive openAIGPT54LongContextOutputMultiplier" "\<not> openAIGPT54LongContextInputThreshold \<le> 0"
  by code_simp+

lemma policy_update_idem: "policy_update g (policy_update g p) = policy_update g p"
  by (cases p) (simp add: policy_update_def policy_constants)

lemma policy_cases:
  obtains "applyModelSpecificPricingPolicy U m = (\<lambda>p. p)" | need where "applyModelSpecificPricingPolicy U m =
    (\<lambda>p. if need p then policy_update (isOpenAIGPT56Model U (normalizeKnownOpenAICodexModel U m)) p else p)"
proof -
  let ?g = "isOpenAIGPT56Model U (normalizeKnownOpenAICodexModel U m)"
  let ?l = "usesOpenAILegacyLongContextPricing (normalizeKnownOpenAICodexModel U m)"
  let ?need = "\<lambda>p. mp_LongContextInputThreshold p \<le> 0 \<or> not_positive (mp_LongContextInputMultiplier p) \<or>
      not_positive (mp_LongContextOutputMultiplier p) \<or> ?g \<and> \<not> mp_CacheCreationPriceExplicit p \<and>
        (not_positive (mp_CacheCreationPricePerToken p) \<or>
         f_less f_zero (mp_InputPricePerTokenPriority p) \<and> not_positive (mp_CacheCreationPricePerTokenPriority p))"
  show thesis
  proof (cases "?g \<or> ?l")
    case True
    have "applyModelSpecificPricingPolicy U m p = (if ?need p then policy_update ?g p else p)" for p
    proof (cases ?g)
      case g: True
      then show ?thesis by (cases p) (simp add: applyModelSpecificPricingPolicy_def policy_update_def g Let_def)
    next
      case g: False
      then have l: ?l using True by simp
      show ?thesis by (cases p) (simp add: applyModelSpecificPricingPolicy_def policy_update_def g l Let_def)
    qed
    then show thesis using that(2) [of ?need] by blast
  next
    case False
    then show thesis using that(1) by (simp add: applyModelSpecificPricingPolicy_def fun_eq_iff)
  qed
qed

lemma policy_idem [simp]: "applyModelSpecificPricingPolicy U m (applyModelSpecificPricingPolicy U m p) =
    applyModelSpecificPricingPolicy U m p"
  by (rule policy_cases [of U m]) (simp_all add: policy_update_idem)


lemma non_negative_rate_idem [simp]: "non_negative_rate (non_negative_rate r) = non_negative_rate r"
  by (simp add: non_negative_rate_def)

text \<open>A model name in the form the lookups bring it into.\<close>

definition plain_model :: "unicode_tables \<Rightarrow> string \<Rightarrow> bool" where
  "plain_model U m \<longleftrightarrow> m \<noteq> '''' \<and> TrimSpace m = m \<and> ToLower U m = m"

lemma listed_price: "Option.bind ps (\<lambda>st. list_GetModelPricing U st m) =
    map_option lk_Pricing (Option.bind ps (\<lambda>st. list_LookupModelPricing U st m))"
  by (cases ps) (simp_all add: list_GetModelPricing_def)

lemma lookup_is_GetModelPricing:
  assumes m: "plain_model U m" and f: "LookupModelPricing U s m = Inr found" "ml_Mode found = BillingModeToken"
  shows "GetModelPricing U s m = Inr (ml_Pricing found)"
    and "applyModelSpecificPricingPolicy U m (ml_Pricing found) = ml_Pricing found"
proof -
  have n: "ToLower U (TrimSpace m) = m" "ToLower U m = m" using m by (simp_all add: plain_model_def)
  show "GetModelPricing U s m = Inr (ml_Pricing found)"
    using f by (auto simp: LookupModelPricing_def GetModelPricing_def listed_lookup_def listed_price n Let_def
        billing_modes split: option.splits if_splits prod.splits)
  show "applyModelSpecificPricingPolicy U m (ml_Pricing found) = ml_Pricing found"
    using f by (auto simp: LookupModelPricing_def listed_lookup_def n Let_def billing_modes
        split: option.splits if_splits prod.splits)
qed

lemma resolver_without_rule:
  assumes "case mr_pricingCatalog R of None \<Rightarrow> True | Some Q \<Rightarrow> fst (ResolveForPricingInput U Q pin w) = Inr None"
  obtains w' where "resolver_Resolve U R pin w = (resolveWithOverride U (mr_billingService R) pin None, w')"
proof (cases "mr_pricingCatalog R")
  case (Some Q)
  then show thesis using assms that by (cases "ResolveForPricingInput U Q pin w") (simp add: resolver_Resolve_def)
qed (use that in \<open>simp add: resolver_Resolve_def\<close>)

lemma breakdown_rate: "computeTokenBreakdown U p t (non_negative_rate r) tier b = computeTokenBreakdown U p t r tier b"
  by (simp add: computeTokenBreakdown_def)

lemma unified_cost:
  assumes r: "ci_Resolver ci = Some R" "ci_Resolved ci = None" and m: "plain_model U (ci_Model ci)"
    and rule: "case mr_pricingCatalog R of None \<Rightarrow> True | Some Q \<Rightarrow> fst (ResolveForPricingInput U Q \<lparr>pi_Model = ci_Model ci,
        pi_Adapter = ci_Adapter ci, pi_PlatformCode = ci_PlatformCode ci, pi_PublicModel = ci_PublicModel ci\<rparr> w) = Inr None"
    and f: "LookupModelPricing U (mr_billingService R) (ci_Model ci) = Inr found" "ml_Mode found = BillingModeToken"
  shows "fst (CalculateCostUnified U s ci w) =
    (if tokenPricingValuesValid (ml_Pricing found) \<and> isCoreTokenPricingAvailable (ml_Pricing found)
     then Inr (set_mode BillingModeToken (computeTokenBreakdown U (ml_Pricing found) (ci_Tokens ci) (ci_RateMultiplier ci)
       (ci_ServiceTier ci) (case ci_LongContextBillingEnabled ci of None \<Rightarrow> True | Some b \<Rightarrow> b)))
     else Inl ErrModelPricingUnavailable)"
proof -
  let ?q = "ml_Pricing found"
  let ?pin = "\<lparr>pi_Model = ci_Model ci, pi_Adapter = ci_Adapter ci, pi_PlatformCode = ci_PlatformCode ci,
    pi_PublicModel = ci_PublicModel ci\<rparr>"
  have name: "pricingModelForInput ?pin = ci_Model ci" using m by (simp add: pricingModelForInput_def plain_model_def)
  obtain w' where w': "resolver_Resolve U R ?pin w = (resolveWithOverride U (mr_billingService R) ?pin None, w')"
    using rule resolver_without_rule by blast
  obtain p where p: "resolveWithOverride U (mr_billingService R) ?pin None = Inr p" "rp_Mode p = BillingModeToken"
    "rp_BasePricing p = Some ?q" "rp_Intervals p = []" "rp_MatchedOverride p = None"
    using f name by (auto simp: resolveWithOverride_def resolveBasePricing_def)
  have v: "validateResolvedPricingAvailable p \<longleftrightarrow> tokenPricingValuesValid ?q \<and> isCoreTokenPricingAvailable ?q"
    using p by (auto simp: validateResolvedPricingAvailable_def option_holds_def billing_modes)
  show ?thesis
    using r w' p v lookup_is_GetModelPricing(2) [OF m f] breakdown_rate
    by (simp add: CalculateCostUnified_def cost_of_resolved_def calculateTokenCost_def GetIntervalPricing_def
        requiresIndependentSalePricing_def billing_modes Let_def)
qed

lemma older_path_cost:
  assumes m: "plain_model U (ci_Model ci)" and f: "LookupModelPricing U s (ci_Model ci) = Inr found" "ml_Mode found = BillingModeToken"
    and r: "ci_Resolver ci = None"
  shows "fst (CalculateCostUnified U s ci w) = Inr (computeTokenBreakdown U (ml_Pricing found) (ci_Tokens ci)
    (ci_RateMultiplier ci) (ci_ServiceTier ci) (case ci_LongContextBillingEnabled ci of None \<Rightarrow> True | Some b \<Rightarrow> b))"
  using lookup_is_GetModelPricing(1) [OF m f] r by (simp add: CalculateCostUnified_def calculateCostInternalWithPolicy_def)




text \<open>A model that the built-in table prices and OpenAI's policy does not concern.\<close>

lemma fallback_lookup:
  assumes "plain_model ascii_tables m" "fallback_key ascii_tables m = Some k" "map_of initFallbackPricing k = Some (origin, p)"
    "normalizeKnownOpenAICodexModel ascii_tables m = ''''"
  obtains found where "LookupModelPricing ascii_tables (NewBillingService rate None) m = Inr found"
    "ml_Mode found = BillingModeToken" "ml_Pricing found = p"
proof -
  have "\<not> isOpenAIGPT56Model ascii_tables ''''" "\<not> usesOpenAILegacyLongContextPricing ''''" by code_simp+
  then have "applyModelSpecificPricingPolicy ascii_tables m p = p"
    using assms(4) by (simp add: applyModelSpecificPricingPolicy_def)
  then show thesis using assms that
    by (simp add: LookupModelPricing_def listed_lookup_def NewBillingService_def getFallbackPricing_def plain_model_def Let_def)
qed

definition demo_plain_resolver :: ModelPricingResolver where
  "demo_plain_resolver = \<lparr>mr_billingService = NewBillingService (Fin 1) None, mr_pricingCatalog = None\<rparr>"

definition demo_plain_input :: "string \<Rightarrow> CostInput" where
  "demo_plain_input m = (demo_cost_input 5)\<lparr>ci_Model := m, ci_Resolver := Some demo_plain_resolver\<rparr>"



text \<open>
  An embedding model has no output, so the built-in table gives it an output price of zero. The older path
  charges it; the unified path takes the zero for a missing price and refuses every request for the model.
\<close>

theorem embedding_price_refused:
  "fst (CalculateCostUnified ascii_tables (mr_billingService demo_plain_resolver)
     (demo_plain_input ''doubao-embedding-vision'') w) = Inl ErrModelPricingUnavailable"
  "\<exists>bd. fst (CalculateCostUnified ascii_tables (mr_billingService demo_plain_resolver)
     ((demo_plain_input ''doubao-embedding-vision'')\<lparr>ci_Resolver := None\<rparr>) w) = Inr bd"
proof -
  let ?m = "''doubao-embedding-vision''"
  let ?ci = "demo_plain_input ?m"
  have m: "plain_model ascii_tables ?m" "fallback_key ascii_tables ?m = Some ?m"
    "normalizeKnownOpenAICodexModel ascii_tables ?m = ''''" by code_simp+
  have "map_of initFallbackPricing ?m = Some (?m, price_doubao_embedding_vision)" by (simp add: initFallbackPricing_def)
  from fallback_lookup [OF m(1,2) this m(3)] obtain found where
    f: "LookupModelPricing ascii_tables (NewBillingService (Fin 1) None) ?m = Inr found" "ml_Mode found = BillingModeToken"
      "ml_Pricing found = price_doubao_embedding_vision" by metis
  have n: "\<not> isCoreTokenPricingAvailable price_doubao_embedding_vision"
    by (simp add: price_doubao_embedding_vision_def no_pricing_def isCoreTokenPricingAvailable_def tokenPriceValueAvailable_def)
  show "fst (CalculateCostUnified ascii_tables (mr_billingService demo_plain_resolver) ?ci w) = Inl ErrModelPricingUnavailable"
    using unified_cost [of ?ci demo_plain_resolver ascii_tables w found] f m(1) n
    by (simp add: demo_plain_input_def demo_plain_resolver_def demo_cost_input_def)
  show "\<exists>bd. fst (CalculateCostUnified ascii_tables (mr_billingService demo_plain_resolver) (?ci\<lparr>ci_Resolver := None\<rparr>) w) = Inr bd"
    using older_path_cost [of ascii_tables "?ci\<lparr>ci_Resolver := None\<rparr>" "mr_billingService demo_plain_resolver" found] f m(1)
    by (simp add: demo_plain_input_def demo_plain_resolver_def demo_cost_input_def)
qed

end
