(* ===== verification/Price_Table.thy ===== *)
theory Price_Table
  imports Price_Cost
begin

text \<open>
  The table of price rules under the administrators' operations: what every row and the table as a whole
  satisfy, whatever is entered, in whatever order, and however statements fail.
\<close>

section \<open>Rows and table\<close>

definition row_ok :: "ModelPricingOverride \<Rightarrow> bool" where
  "row_ok r \<longleftrightarrow> row_error r = None \<and> list_all (\<lambda>v. \<not> negative_price v) (rule_prices r) \<and> ValidateIntervals (mo_Intervals r) = None"

definition table_ok :: "rule_sql \<Rightarrow> rule_db \<Rightarrow> bool" where
  "table_ok Q d \<longleftrightarrow> distinct (map mo_ID (rb_rows d)) \<and>
     (\<forall>r \<in> set (rb_rows d). mo_ID r < rb_next_id d \<and> row_ok r) \<and>
     (\<forall>r \<in> set (rb_rows d). \<forall>x \<in> set (rb_rows d). same_rule_key Q r x \<longrightarrow> x = r)"

lemma row_error_id [simp]: "row_error (r\<lparr>mo_ID := i\<rparr>) = row_error r"
  by (simp add: row_error_def)

lemma row_ok_id [simp]: "row_ok (r\<lparr>mo_ID := i\<rparr>) = row_ok r"
  by (simp add: row_ok_def row_error_def rule_prices_def)

lemma row_okI:
  assumes "validateModelPricingOverride U item = Inr r" "row_error (stored_row U r) = None"
  shows "row_ok (stored_row U r)"
  using validated_rule(2,3) [OF assms(1)] assms(2) by (simp add: row_ok_def stored_row_def rule_prices_def)

lemma same_key_id [simp]: "same_rule_key Q (r\<lparr>mo_ID := i\<rparr>) x = same_rule_key Q r x" "same_rule_key Q x (r\<lparr>mo_ID := i\<rparr>) = same_rule_key Q x r"
  by (simp_all add: same_rule_key_def)

lemma same_key_sym: "same_rule_key Q x y = same_rule_key Q y x"
  by (auto simp: same_rule_key_def)

lemma same_key_trans: "same_rule_key Q x y \<Longrightarrow> same_rule_key Q y z \<Longrightarrow> same_rule_key Q x z"
  by (simp add: same_rule_key_def)

lemma table_ok_next: "table_ok Q d \<Longrightarrow> table_ok Q (d\<lparr>rb_next_id := rb_next_id d + 1\<rparr>)"
  by (fastforce simp: table_ok_def)

lemma table_insert:
  assumes d: "table_ok Q d" and r: "row_ok r" "mo_ID r = rb_next_id d" "\<not> list_ex (same_rule_key Q r) (rb_rows d)"
  shows "table_ok Q (d\<lparr>rb_next_id := rb_next_id d + 1, rb_rows := rb_rows d @ [r]\<rparr>)"
proof -
  have k: "\<not> same_rule_key Q r x \<and> \<not> same_rule_key Q x r" if "x \<in> set (rb_rows d)" for x
    using r(3) that same_key_sym by (auto simp: list_ex_iff)
  have "distinct (map mo_ID (rb_rows d @ [r]))" using d r(2) by (auto simp: table_ok_def)
  moreover have "\<forall>x \<in> set (rb_rows d @ [r]). mo_ID x < rb_next_id d + 1 \<and> row_ok x"
    using d r(1,2) by (auto simp: table_ok_def intro: less_trans)
  moreover have "\<forall>x \<in> set (rb_rows d @ [r]). \<forall>y \<in> set (rb_rows d @ [r]). same_rule_key Q x y \<longrightarrow> y = x"
    using d k by (auto simp: table_ok_def)
  ultimately show ?thesis by (simp add: table_ok_def)
qed

lemma table_replace:
  assumes d: "table_ok Q d" and r: "row_ok r" and k: "\<forall>x \<in> set (rb_rows d). mo_ID x \<noteq> mo_ID r \<longrightarrow> \<not> same_rule_key Q r x"
    and i: "mo_ID r \<in> set (map mo_ID (rb_rows d))"
  shows "table_ok Q (d\<lparr>rb_rows := map (\<lambda>x. if mo_ID x = mo_ID r then r else x) (rb_rows d)\<rparr>)"
proof -
  let ?rows = "map (\<lambda>x. if mo_ID x = mo_ID r then r else x) (rb_rows d)"
  have "map mo_ID ?rows = map mo_ID (rb_rows d)" by simp
  then have "distinct (map mo_ID ?rows)" using d unfolding table_ok_def by metis
  moreover have "\<forall>x \<in> set ?rows. mo_ID x < rb_next_id d \<and> row_ok x" using d r i by (auto simp: table_ok_def)
  moreover have "y = x" if x: "x \<in> set ?rows" and y: "y \<in> set ?rows" and s: "same_rule_key Q x y" for x y
  proof -
    have cases: "z = r \<or> z \<in> set (rb_rows d) \<and> mo_ID z \<noteq> mo_ID r" if "z \<in> set ?rows" for z using that by auto
    have s': "same_rule_key Q y x" using s same_key_sym by metis
    show ?thesis using cases [OF x] cases [OF y] k d s s' unfolding table_ok_def by metis
  qed
  ultimately show ?thesis by (simp add: table_ok_def)
qed

lemma table_delete: "table_ok Q d \<Longrightarrow> table_ok Q (d\<lparr>rb_rows := filter P (rb_rows d)\<rparr>)"
  by (auto simp: table_ok_def distinct_map_filter)


section \<open>The operations\<close>

text \<open>A statement either fails without effect or takes effect as a whole.\<close>

lemma exec_ok:
  assumes "sql_exec f w = (r, w')" "table_ok Q (wd_db w)" "table_ok Q (snd (f (wd_db w)))"
  shows "table_ok Q (wd_db w')"
  using sql_exec_D [OF assms(1)] assms(2,3) by auto

lemma list_keeps_db: "rules_List Q a w = (r, w') \<Longrightarrow> wd_db w' = wd_db w"
  by (auto simp: rules_List_def dest!: sql_exec_D split: prod.splits sum.splits)

lemma GetExact_keeps_db: "GetExact U Q a m w = (r, w') \<Longrightarrow> wd_db w' = wd_db w"
  by (auto simp: GetExact_def Let_def dest!: list_keeps_db split: prod.splits sum.splits if_splits)

lemma create_ok:
  assumes "table_ok Q (wd_db w)" "validateModelPricingOverride U item = Inr r"
  shows "table_ok Q (wd_db (snd (rules_Create U Q r w)))"
proof -
  let ?row = "\<lambda>d. (stored_row U r)\<lparr>mo_ID := rb_next_id d\<rparr>"
  have "table_ok Q (d\<lparr>rb_next_id := rb_next_id d + 1, rb_rows := rb_rows d @ [?row d]\<rparr>)"
    if "table_ok Q d" "row_error (?row d) = None" "\<not> list_ex (same_rule_key Q (?row d)) (rb_rows d)" for d
    using that row_okI [OF assms(2)] by (intro table_insert) simp_all
  then show ?thesis using assms(1)
    by (auto simp: rules_Create_def Let_def table_ok_next intro!: exec_ok split: prod.splits sum.splits option.splits
        elim!: exec_ok)
qed


lemma update_ok:
  assumes "table_ok Q (wd_db w)" "validateModelPricingOverride U item = Inr r"
  shows "table_ok Q (wd_db (snd (rules_Update U Q r w)))"
proof -
  have "table_ok Q (d\<lparr>rb_rows := map (\<lambda>x. if mo_ID x = mo_ID r then stored_row U r else x) (rb_rows d)\<rparr>)"
    if "table_ok Q d" "row_error (stored_row U r) = None" "list_ex (\<lambda>x. mo_ID x = mo_ID r) (rb_rows d)"
      "\<not> list_ex (\<lambda>x. mo_ID x \<noteq> mo_ID r \<and> same_rule_key Q (stored_row U r) x) (rb_rows d)" for d
  proof -
    have i: "mo_ID (stored_row U r) = mo_ID r" by (simp add: stored_row_def)
    have m: "mo_ID r \<in> set (map mo_ID (rb_rows d))" using that(3) by (auto simp: list_ex_iff intro: rev_image_eqI)
    have k: "\<forall>x \<in> set (rb_rows d). mo_ID x \<noteq> mo_ID r \<longrightarrow> \<not> same_rule_key Q (stored_row U r) x"
      using that(4) by (auto simp: list_ex_iff)
    show ?thesis using table_replace [OF that(1) row_okI [OF assms(2) that(2)]] k m unfolding i by blast
  qed
  then show ?thesis using assms(1)
    by (auto simp: rules_Update_def Let_def elim!: exec_ok split: prod.splits sum.splits option.splits if_splits)
qed

lemma upsert_ok:
  assumes "table_ok Q (wd_db w)" "validateModelPricingOverride U item = Inr r"
  shows "table_ok Q (wd_db (snd (rules_Upsert U Q r w)))"
proof -
  let ?row = "\<lambda>d. (stored_row U r)\<lparr>mo_ID := rb_next_id d\<rparr>"
  have ins: "table_ok Q (d\<lparr>rb_next_id := rb_next_id d + 1, rb_rows := rb_rows d @ [?row d]\<rparr>)"
    if "table_ok Q d" "row_error (?row d) = None" "List.find (same_rule_key Q (?row d)) (rb_rows d) = None" for d
    using that row_okI [OF assms(2)] by (intro table_insert) (simp_all add: find_None_iff list_ex_iff)
  have upd: "table_ok Q (d\<lparr>rb_next_id := rb_next_id d + 1, rb_rows := map (\<lambda>x. if mo_ID x = mo_ID old
      then (?row d)\<lparr>mo_ID := mo_ID old, mo_Adapter := mo_Adapter old, mo_ModelPattern := mo_ModelPattern old\<rparr> else x) (rb_rows d)\<rparr>)"
    if d: "table_ok Q d" and e: "row_error (?row d) = None" and f: "List.find (same_rule_key Q (?row d)) (rb_rows d) = Some old" for d old
  proof -
    let ?r = "(?row d)\<lparr>mo_ID := mo_ID old, mo_Adapter := mo_Adapter old, mo_ModelPattern := mo_ModelPattern old\<rparr>"
    have old: "old \<in> set (rb_rows d)" using find_in_interval(2) [OF f] by simp
    then have "row_error old = None" using d by (simp add: table_ok_def row_ok_def)
    then have r: "row_ok ?r" using e validated_rule(2,3) [OF assms(2)]
      by (auto simp: row_ok_def row_error_def rule_prices_def stored_row_def split: if_splits)
    have k: "\<not> same_rule_key Q ?r x" if "x \<in> set (rb_rows d)" "mo_ID x \<noteq> mo_ID ?r" for x
      using that d old by (auto simp: table_ok_def same_rule_key_def)
    show ?thesis using table_replace [OF table_ok_next [OF d] r] k old by auto
  qed
  show ?thesis using assms(1) ins upd table_ok_next
    by (auto simp: rules_Upsert_def Let_def elim!: exec_ok split: prod.splits sum.splits option.splits)
qed

lemma delete_ok: "table_ok Q (wd_db w) \<Longrightarrow> table_ok Q (wd_db (snd (rules_Delete i w)))"
  by (auto simp: rules_Delete_def table_delete elim!: exec_ok split: prod.splits sum.splits)

text \<open>
  Any sequence of the administrators' operations, with any input, on a database that may fail any statement;
  between them faults and clock may change.
\<close>

inductive rule_step :: "unicode_tables \<Rightarrow> rule_sql \<Rightarrow> rule_world \<Rightarrow> rule_world \<Rightarrow> bool" for U Q where
  create: "rule_step U Q w (snd (catalog_Create U Q item w))"
| update: "rule_step U Q w (snd (catalog_Update U Q i item w))"
| sale: "rule_step U Q w (snd (UpsertPlatformSale U Q platform pattern item w))"
| delete: "rule_step U Q w (snd (catalog_Delete i w))"
| world: "wd_db w' = wd_db w \<Longrightarrow> rule_step U Q w w'"

lemma rule_step_ok: "rule_step U Q w w' \<Longrightarrow> table_ok Q (wd_db w) \<Longrightarrow> table_ok Q (wd_db w')"
proof (induction rule: rule_step.induct)
  case (create w item)
  then show ?case by (auto simp: catalog_Create_def create_ok split: sum.splits)
next
  case (update w i item)
  then show ?case by (auto simp: catalog_Update_def update_ok split: sum.splits)
next
  case (sale w platform pattern item)
  then show ?case
    by (auto simp: UpsertPlatformSale_def Let_def dest!: GetExact_keeps_db intro!: upsert_ok
        split: prod.splits sum.splits option.splits)
next
  case (delete w i)
  then show ?case by (simp add: catalog_Delete_def delete_ok)
qed simp


text \<open>
  C20. Whatever the administrators enter and however the database fails, the table of price rules never
  holds two rules for one adapter and model pattern, two rules with one identifier, a negative price, a
  malformed or overlapping list of intervals, or a billing mode or status that the calculation does not
  know.
\<close>

theorem rule_table_kept:
  assumes "(rule_step U Q)\<^sup>*\<^sup>* w w'" "table_ok Q (wd_db w)"
  shows "table_ok Q (wd_db w')"
  using assms by (induction rule: rtranclp_induct) (auto intro: rule_step_ok)

theorem rule_table_kept_witness:
  "table_ok demo_sql (wd_db (snd (catalog_Create ascii_tables demo_sql (demo_rule 0 ''Glm'' ''glm-5'')
     (demo_rules_world\<lparr>wd_db := \<lparr>rb_rows = [], rb_next_id = 1\<rparr>\<rparr>))))"
proof -
  let ?w = "demo_rules_world\<lparr>wd_db := \<lparr>rb_rows = [], rb_next_id = 1\<rparr>\<rparr>"
  have "(rule_step ascii_tables demo_sql)\<^sup>*\<^sup>* ?w (snd (catalog_Create ascii_tables demo_sql (demo_rule 0 ''Glm'' ''glm-5'') ?w))"
    by (rule r_into_rtranclp) (rule rule_step.create)
  then show ?thesis by (rule rule_table_kept) (simp add: table_ok_def)
qed

end
