(* ===== verification/Go_Rounding.thy ===== *)
theory Go_Rounding
  imports Go_Float
begin

text \<open>
  Relative errors of binary64 arithmetic. A computed amount is compared with the exact one by the
  number \<open>k\<close> of roundings between them: each multiplies it by a factor between \<open>1 - 2^-53\<close> and
  \<open>1 + 2^-53\<close>, as long as the exact amount is zero or within \<open>2^-1000\<close> and \<open>2^1000\<close>.
\<close>

definition ulp :: rat where
  "ulp = 1 / 2 ^ 53"

definition close_to :: "nat \<Rightarrow> rat \<Rightarrow> float64 \<Rightarrow> bool" where
  "close_to k X f \<longleftrightarrow> (\<exists>y. f = Fin y \<and> X * (1 - ulp) ^ k \<le> y \<and> y \<le> X * (1 + ulp) ^ k)"

definition in_range :: "int \<Rightarrow> rat \<Rightarrow> bool" where
  "in_range k X \<longleftrightarrow> X = 0 \<or> pow2 (- k) \<le> X \<and> X \<le> pow2 k"

lemma ulp_bounds: "0 < ulp" "ulp < 1"
  by (simp_all add: ulp_def)

lemma ulp_power_low: "1 - of_nat k * ulp \<le> (1 - ulp) ^ k"
  using Bernoulli_inequality [of "- ulp" k] ulp_bounds by simp

lemma ulp_power_up: "(1 + ulp) ^ k * (1 - ulp) ^ k \<le> 1" "0 < (1 - ulp) ^ k" "0 < (1 + ulp) ^ k"
proof -
  have "(1 + ulp) * (1 - ulp) \<le> 1" using ulp_bounds by (simp add: algebra_simps)
  moreover have "0 \<le> (1 + ulp) * (1 - ulp)" using ulp_bounds by simp
  ultimately show "(1 + ulp) ^ k * (1 - ulp) ^ k \<le> 1" by (simp add: power_le_one flip: power_mult_distrib)
  show "0 < (1 - ulp) ^ k" "0 < (1 + ulp) ^ k" using ulp_bounds by simp_all
qed

lemma ulp_small: "k \<le> 50 \<Longrightarrow> of_nat k * ulp \<le> 1 / 2"
proof -
  assume "k \<le> 50"
  then have "of_nat k * ulp \<le> 50 * ulp" using ulp_bounds by (intro mult_right_mono) auto
  then show ?thesis by (simp add: ulp_def)
qed

lemma ulp_powers:
  assumes "k \<le> 50"
  shows "1 / 2 \<le> (1 - ulp) ^ k" "(1 + ulp) ^ k \<le> 1 + 2 * of_nat k * ulp" "(1 + ulp) ^ k \<le> 2"
proof -
  let ?d = "of_nat k * ulp" and ?a = "(1 - ulp) ^ k" and ?b = "(1 + ulp) ^ k"
  have d: "?d \<le> 1 / 2" "0 \<le> ?d" using ulp_small [OF assms] ulp_bounds by simp_all
  show "1 / 2 \<le> ?a" using ulp_power_low [of k] d by linarith
  have "?b * (1 - ?d) \<le> ?b * ?a" using ulp_power_low ulp_power_up(3) by (intro mult_left_mono) (simp_all add: less_imp_le)
  also have "\<dots> \<le> 1" by (rule ulp_power_up(1))
  also have "1 \<le> (1 + 2 * ?d) * (1 - ?d)"
  proof -
    have "?d * (2 * ?d) \<le> ?d * 1" using d by (intro mult_left_mono) auto
    then show ?thesis by (simp add: algebra_simps)
  qed
  finally have "?b * (1 - ?d) \<le> (1 + 2 * ?d) * (1 - ?d)" .
  then have "?b \<le> 1 + 2 * ?d" by (rule mult_right_le_imp_le) (use d in linarith)
  then show "?b \<le> 1 + 2 * of_nat k * ulp" "?b \<le> 2" using d by (simp_all add: mult.assoc)
qed

lemma close_mono:
  assumes "close_to k X f" "k \<le> l" "0 \<le> X"
  shows "close_to l X f"
proof -
  have "(1 - ulp) ^ l \<le> (1 - ulp) ^ k" using assms(2) ulp_bounds by (intro power_decreasing) auto
  moreover have "(1 + ulp) ^ k \<le> (1 + ulp) ^ l" using assms(2) ulp_bounds by (intro power_increasing) auto
  ultimately have "X * (1 - ulp) ^ l \<le> X * (1 - ulp) ^ k" "X * (1 + ulp) ^ k \<le> X * (1 + ulp) ^ l"
    using assms(3) by (auto intro: mult_left_mono)
  then show ?thesis using assms(1) by (force simp: close_to_def)
qed

lemma close_refl [simp]: "close_to 0 X f \<longleftrightarrow> f = Fin X"
  by (auto simp: close_to_def)

lemma close_round:
  assumes z: "X * (1 - ulp) ^ k \<le> z" "z \<le> X * (1 + ulp) ^ k" and k: "k \<le> 50" and X: "in_range 1000 X"
  shows "close_to (Suc k) X (round64 z)"
proof (cases "X = 0")
  case True
  then show ?thesis using z by (simp add: round64_def close_to_def)
next
  case False
  then have r: "pow2 (- 1000) \<le> X" "X \<le> pow2 1000" using X by (auto simp: in_range_def)
  have X0: "0 < X" using r(1) pow2_pos [of "- 1000"] by linarith
  have "X * (1 / 2) \<le> z" using z(1) mult_left_mono [OF ulp_powers(1) [OF k], of X] X0 by linarith
  moreover have "z \<le> X * 2" using z(2) mult_left_mono [OF ulp_powers(3) [OF k], of X] X0 by linarith
  moreover have "2 * pow2 (- 1022) \<le> pow2 (- 1000)" "2 * pow2 1000 < pow2 1023" by (simp_all add: pow2_def)
  ultimately have "pow2 (- 1022) \<le> z" "z < pow2 1023" using r by linarith+
  then obtain y where y: "round64 z = Fin y" "\<bar>y - z\<bar> \<le> z / 2 ^ 53" by (rule round64_near)
  have e: "z * (1 - ulp) = z - z / 2 ^ 53" "z * (1 + ulp) = z + z / 2 ^ 53" by (simp_all add: ulp_def right_diff_distrib distrib_left)
  have n: "z * (1 - ulp) \<le> y" "y \<le> z * (1 + ulp)" using y(2) unfolding e by linarith+
  have "X * (1 - ulp) ^ k * (1 - ulp) \<le> z * (1 - ulp)" "z * (1 + ulp) \<le> X * (1 + ulp) ^ k * (1 + ulp)"
    using z ulp_bounds by (auto intro: mult_right_mono)
  then show ?thesis using n y(1) by (auto simp: close_to_def mult.assoc mult.commute [of "1 - ulp"] mult.commute [of "1 + ulp"])
qed

lemma close_mul:
  assumes "close_to k X f" "close_to l Y g" "0 \<le> X" "0 \<le> Y" "k + l \<le> 50" "in_range 1000 (X * Y)"
  shows "close_to (Suc (k + l)) (X * Y) (f_mul f g)"
proof -
  obtain x y where x: "f = Fin x" "X * (1 - ulp) ^ k \<le> x" "x \<le> X * (1 + ulp) ^ k"
    and y: "g = Fin y" "Y * (1 - ulp) ^ l \<le> y" "y \<le> Y * (1 + ulp) ^ l"
    using assms(1,2) by (auto simp: close_to_def)
  have low: "0 \<le> X * (1 - ulp) ^ k" "0 \<le> Y * (1 - ulp) ^ l" using assms(3,4) ulp_bounds by simp_all
  have "X * (1 - ulp) ^ k * (Y * (1 - ulp) ^ l) \<le> x * y" using x y low by (intro mult_mono) auto
  moreover have "x * y \<le> X * (1 + ulp) ^ k * (Y * (1 + ulp) ^ l)" using x y low by (intro mult_mono) auto
  ultimately have "close_to (Suc (k + l)) (X * Y) (round64 (x * y))"
    using assms(5,6) by (intro close_round) (simp_all add: power_add mult_ac)
  then show ?thesis by (simp add: x y)
qed

lemma close_add:
  assumes "close_to k X f" "close_to k Y g" "k \<le> 50" "in_range 1000 (X + Y)"
  shows "close_to (Suc k) (X + Y) (f_add f g)"
proof -
  obtain x y where x: "f = Fin x" "X * (1 - ulp) ^ k \<le> x" "x \<le> X * (1 + ulp) ^ k"
    and y: "g = Fin y" "Y * (1 - ulp) ^ k \<le> y" "y \<le> Y * (1 + ulp) ^ k"
    using assms(1,2) by (auto simp: close_to_def)
  then have "close_to (Suc k) (X + Y) (round64 (x + y))"
    using assms(3,4) by (intro close_round) (simp_all add: distrib_right)
  then show ?thesis by (simp add: x y)
qed

lemma close_error:
  assumes "close_to k X f" "k \<le> 16" "0 \<le> X"
  obtains y where "f = Fin y" "\<bar>y - X\<bar> \<le> X / 2 ^ 48"
proof -
  obtain y where y: "f = Fin y" "X * (1 - ulp) ^ k \<le> y" "y \<le> X * (1 + ulp) ^ k" using assms(1) by (auto simp: close_to_def)
  have k: "of_nat k * ulp \<le> 1 / 2 ^ 49" using mult_right_mono [of "of_nat k" 16 ulp] assms(2) ulp_bounds by (simp add: ulp_def)
  have "(1 + ulp) ^ k \<le> 1 + 1 / 2 ^ 48" using ulp_powers(2) [of k] assms(2) k by simp
  then have "X * (1 + ulp) ^ k \<le> X * (1 + 1 / 2 ^ 48)" using assms(3) by (intro mult_left_mono)
  then have up: "y \<le> X + X / 2 ^ 48" using y(3) by (simp only: distrib_left mult_1_right times_divide_eq_right)
  have "1 - 1 / 2 ^ 48 \<le> (1 - ulp) ^ k" using ulp_power_low [of k] k by simp
  then have "X * (1 - 1 / 2 ^ 48) \<le> X * (1 - ulp) ^ k" using assms(3) by (intro mult_left_mono)
  then have "X - X / 2 ^ 48 \<le> y" using y(2) by (simp only: right_diff_distrib mult_1_right times_divide_eq_right)
  then have "\<bar>y - X\<bar> \<le> X / 2 ^ 48" using up by (simp only: abs_le_iff) linarith
  then show thesis using that y(1) by blast
qed

text \<open>Ranges of products and sums.\<close>

lemma pow2_add: "pow2 (a + b) = pow2 a * pow2 b"
proof -
  obtain m n where a: "a = int m - int n" by (metis int_diff_cases)
  obtain p q where b: "b = int p - int q" by (metis int_diff_cases)
  have ab: "a + b = int (m + p) - int (n + q)" by (simp add: a b)
  have "pow2 (a + b) = 2 ^ (m + p) / 2 ^ (n + q)" unfolding ab pow2_diff ..
  moreover have "pow2 a = 2 ^ m / 2 ^ n" "pow2 b = 2 ^ p / 2 ^ q" unfolding a b pow2_diff by simp_all
  ultimately show ?thesis by (simp add: power_add)
qed

lemma in_range_nonneg: "in_range k X \<Longrightarrow> 0 \<le> X"
  using pow2_pos [of "- k"] by (auto simp: in_range_def)

lemma in_range_mono: "in_range k X \<Longrightarrow> k \<le> l \<Longrightarrow> in_range l X"
  using pow2_mono [of "- l" "- k"] pow2_mono [of k l] by (auto simp: in_range_def)

lemma in_range_mul: "in_range k X \<Longrightarrow> in_range l Y \<Longrightarrow> in_range (k + l) (X * Y)"
proof -
  assume X: "in_range k X" and Y: "in_range l Y"
  have e: "pow2 (k + l) = pow2 k * pow2 l" "pow2 (- (k + l)) = pow2 (- k) * pow2 (- l)"
    using pow2_add [of k l] pow2_add [of "- k" "- l"] by simp_all
  show ?thesis
  proof (cases "X = 0 \<or> Y = 0")
    case False
    then have "pow2 (- k) * pow2 (- l) \<le> X * Y" "X * Y \<le> pow2 k * pow2 l"
      using X Y in_range_nonneg [OF X] in_range_nonneg [OF Y] pow2_pos by (auto simp: in_range_def less_imp_le intro!: mult_mono)
    then show ?thesis unfolding in_range_def e by simp
  qed (auto simp: in_range_def)
qed

lemma in_range_add: "in_range k X \<Longrightarrow> in_range k Y \<Longrightarrow> in_range (k + 1) (X + Y)"
  using in_range_nonneg [of k X] in_range_nonneg [of k Y] pow2_add1 [of k] pow2_pos [of k] pow2_mono [of "- (k + 1)" "- k"]
  by (auto simp: in_range_def)

end
