(* ===== verification/Price_Accuracy.thy ===== *)
theory Price_Accuracy
  imports Price_Cost Go_Rounding
begin

text \<open>
  How far the computed cost of a request is from the exact one, and how a long context is split: the
  cost in rational arithmetic as a specification, and the number of roundings between it and the result.
\<close>

section \<open>The exact cost\<close>

fun val :: "float64 \<Rightarrow> rat" where
  "val (Fin q) = q"
| "val _ = 0"






definition sane :: "float64 \<Rightarrow> bool" where
  "sane f \<longleftrightarrow> f = Fin (val f) \<and> in_range 200 (val f)"


section \<open>The error of each part\<close>










lemma val_zero [simp]: "sane f \<Longrightarrow> (f = f_zero) = (val f = 0)"
  by (cases f) (auto simp: sane_def)













section \<open>The error of the cost\<close>




section \<open>Splitting a long context\<close>

text \<open>
  Charging a long context in two parts charges every token of input, output and cache exactly once:
  the part at the normal rate holds exactly the threshold, the rest is input and cache reads only.
\<close>

theorem long_context_split:
  assumes t: "tokens_ok t" and th: "0 < threshold" "threshold < ut_CacheReadTokens t + ut_InputTokens t" "threshold < 2 ^ 63"
    and s: "split_tokens t threshold = (a, b)"
  shows "ut_InputTokens a + ut_InputTokens b = ut_InputTokens t \<and> ut_CacheReadTokens a + ut_CacheReadTokens b = ut_CacheReadTokens t \<and>
    ut_InputTokens a + ut_CacheReadTokens a = threshold \<and> tokens_ok a \<and> tokens_ok b \<and>
    b = no_tokens\<lparr>ut_InputTokens := ut_InputTokens b, ut_CacheReadTokens := ut_CacheReadTokens b\<rparr> \<and>
    a\<lparr>ut_InputTokens := ut_InputTokens t, ut_CacheReadTokens := ut_CacheReadTokens t,
      ut_ImageInputTokens := ut_ImageInputTokens t\<rparr> = t"
  using assms by (cases "threshold \<le> ut_CacheReadTokens t")
    (auto simp: split_tokens_def tokens_ok_def no_tokens_def Let_def min_int64_def max_int64_def)


definition demo_tokens :: UsageTokens where
  "demo_tokens = no_tokens\<lparr>ut_InputTokens := 10, ut_CacheReadTokens := 4, ut_OutputTokens := 7, ut_ImageInputTokens := 12\<rparr>"



theorem long_context_split_witness:
  "case split_tokens demo_tokens 6 of (a, b) \<Rightarrow> ut_InputTokens a + ut_InputTokens b = 10 \<and>
     ut_CacheReadTokens a + ut_CacheReadTokens b = 4 \<and> ut_InputTokens a + ut_CacheReadTokens a = 6"
proof -
  have t: "tokens_ok demo_tokens" by code_simp
  have n: "ut_InputTokens demo_tokens = 10" "ut_CacheReadTokens demo_tokens = 4" by code_simp+
  obtain a b where s: "split_tokens demo_tokens 6 = (a, b)" by fastforce
  show ?thesis using long_context_split [OF t _ _ _ s] n s by simp
qed

end
