(* ===== verification/Price_Refresh.thy ===== *)
theory Price_Refresh
  imports Price_Calc
begin

text \<open>
  Loading and refreshing the price list: what every operation of the service keeps of it, whatever files,
  downloads and clock do, and that the order in which a Go map is walked can decide a price.
\<close>

section \<open>What the operations read and write\<close>

definition priced :: "pricing_state \<Rightarrow> price_list \<times> source_list \<times> go_time option \<times> string" where
  "priced st = (ps_pricingData st, ps_pricingSources st, ps_lastUpdated st, ps_localHash st)"

named_theorems price_frame

lemma ps_now_frame [price_frame]: "ps_now st = (t, st') \<Longrightarrow> priced st' = priced st"
  by (auto simp: ps_now_def priced_def)

lemma ReadFile_frame [price_frame]: "ReadFile path st = (r, st') \<Longrightarrow> priced st' = priced st"
  by (auto simp: ReadFile_def priced_def)

lemma StatFile_frame [price_frame]: "StatFile path st = (r, st') \<Longrightarrow> priced st' = priced st"
  by (auto simp: StatFile_def priced_def)

lemma WriteFile_frame [simp]: "priced (WriteFile path content st) = priced st"
  by (simp add: WriteFile_def ps_now_def priced_def Let_def split: option.split)

lemma fetch_frame [price_frame]: "fetch_remote url st = (r, st') \<Longrightarrow> priced st' = priced st"
  by (auto simp: fetch_remote_def priced_def)

lemma stat_or_now_frame [price_frame]: "stat_or_now path st = (r, st') \<Longrightarrow> priced st' = priced st"
  by (auto simp: stat_or_now_def Let_def dest!: price_frame split: prod.splits sum.splits)

lemma hash_frame [price_frame]: "fetchRemoteHash E st = (r, st') \<Longrightarrow> priced st' = priced st"
  by (auto simp: fetchRemoteHash_def dest!: price_frame split: prod.splits sum.splits)

lemma remote_hash_frame [price_frame]: "remote_hash_or_empty E st = (r, st') \<Longrightarrow> priced st' = priced st"
  by (auto simp: remote_hash_or_empty_def dest!: price_frame split: prod.splits sum.splits if_splits)

lemma merge_frame [price_frame]: "mergeFallbackPricingDataWithSources E d s st = (r, st') \<Longrightarrow> priced st' = priced st"
  by (auto simp: mergeFallbackPricingDataWithSources_def Let_def dest!: price_frame split: prod.splits sum.splits if_splits)

lemma file_expired_frame [price_frame]: "file_expired E m st = (r, st') \<Longrightarrow> priced st' = priced st"
  by (auto simp: file_expired_def Let_def dest!: price_frame split: prod.splits)

section \<open>A consistent list\<close>

text \<open>Every listed model has a source of its own, is listed once, and the list is not empty.\<close>

definition list_ok :: "price_list \<times> source_list \<times> go_time option \<times> string \<Rightarrow> bool" where
  "list_ok l = (case l of (data, sources, _, _) \<Rightarrow> data \<noteq> [] \<and> distinct (map fst data) \<and>
     map fst sources = map fst data \<and>
     list_all (\<lambda>(name, s). si_MatchedModel s = name \<and> si_Type s \<in> {RemoteCatalog, CachedRemoteCatalog, BundledCatalog}) sources \<and>
     ''sample_spec'' \<notin> set (map fst data))"

text \<open>What is assumed of the JSON decoder: the members of an object have distinct names, as the keys of a Go map.\<close>

definition decodes_maps :: "price_env \<Rightarrow> bool" where
  "decodes_maps E \<longleftrightarrow> (\<forall>body members. pe_decode E body = Inr members \<longrightarrow> distinct (map fst members))"

lemma keep_entry_name: "keep_entry m = Some x \<Longrightarrow> fst x = fst m \<and> fst x \<noteq> ''sample_spec''"
  by (auto simp: keep_entry_def split: prod.splits option.splits if_splits)

lemma map_filter_names: "set (map fst (List.map_filter keep_entry ms)) \<subseteq> set (map fst ms)"
  by (induction ms) (auto simp: map_filter_simps dest: keep_entry_name split: option.splits)

lemma kept_entries:
  "distinct (map fst ms) \<Longrightarrow> distinct (map fst (List.map_filter keep_entry ms)) \<and>
     ''sample_spec'' \<notin> set (map fst (List.map_filter keep_entry ms))"
proof (induction ms)
  case (Cons m ms)
  then have n: "fst m \<notin> set (map fst (List.map_filter keep_entry ms))" using map_filter_names [of ms] by auto
  then show ?case using Cons by (auto simp: map_filter_simps simp del: set_map dest: keep_entry_name split: option.splits)
qed (simp add: map_filter_simps)

lemma parsed_prices:
  assumes "decodes_maps E" "parsePricingData E body = Inr data"
  shows "data \<noteq> [] \<and> distinct (map fst data) \<and> ''sample_spec'' \<notin> set (map fst data)"
  using assms kept_entries
  by (auto simp: parsePricingData_def decodes_maps_def Let_def split: sum.splits if_splits)

lemma merge_result:
  "mergeFallbackPricingDataWithSources E data sources st = ((data', sources'), st') \<Longrightarrow>
   data' = data \<and> sources' = sources \<or> (\<exists>body fallback t0. parsePricingData E body = Inr fallback \<and>
     data' = data @ filter (\<lambda>(name, _). map_of data name = None) fallback \<and>
     sources' = sources @ map (\<lambda>(name, _). (name, bundled_source name t0))
       (filter (\<lambda>(name, _). map_of data name = None) fallback))"
  unfolding mergeFallbackPricingDataWithSources_def Let_def
  by (clarsimp split: prod.splits sum.splits if_splits) blast

lemma merge_ok:
  assumes E: "decodes_maps E" and d: "data \<noteq> []" "distinct (map fst data)" "''sample_spec'' \<notin> set (map fst data)"
    and src: "si_Type source \<in> {RemoteCatalog, CachedRemoteCatalog, BundledCatalog}"
    and m: "mergeFallbackPricingDataWithSources E data (newPricingSourceMap data source) st = ((data', sources'), st')"
  shows "list_ok (data', sources', t, h)"
proof -
  have own: "map fst (newPricingSourceMap data source) = map fst data"
    "list_all (\<lambda>(name, s). si_MatchedModel s = name \<and> si_Type s \<in> {RemoteCatalog, CachedRemoteCatalog, BundledCatalog})
      (newPricingSourceMap data source)"
    using src by (auto simp: newPricingSourceMap_def list_all_iff)
  consider "data' = data" "sources' = newPricingSourceMap data source"
    | fallback t0 where "distinct (map fst fallback)" "''sample_spec'' \<notin> set (map fst fallback)"
      "data' = data @ filter (\<lambda>(name, _). map_of data name = None) fallback"
      "sources' = newPricingSourceMap data source @
         map (\<lambda>(name, _). (name, bundled_source name t0)) (filter (\<lambda>(name, _). map_of data name = None) fallback)"
    using merge_result [OF m] parsed_prices [OF E] by blast
  then show ?thesis
  proof cases
    case 1
    then show ?thesis using d own by (simp add: list_ok_def)
  next
    case 2
    have "map fst (filter P fallback) = filter (\<lambda>n. map_of data n = None) (map fst fallback)"
      if "P = (\<lambda>(name, _). map_of data name = None)" for P
      using that by (induction fallback) auto
    then show ?thesis using 2 d own
      by (auto simp: list_ok_def list_all_iff bundled_source_def comp_def split_beta map_of_eq_None_iff)
  qed
qed


section \<open>The operations\<close>

lemma load_frame:
  assumes E: "decodes_maps E" and l: "loadPricingData E path st = (r, st')"
  shows "case r of Inl _ \<Rightarrow> priced st' = priced st | Inr _ \<Rightarrow> list_ok (priced st')"
proof (cases "ReadFile path st")
  case (Pair body s1)
  show ?thesis
  proof (cases "\<exists>b data. body = Inr b \<and> parsePricingData E b = Inr data")
    case False
    then show ?thesis using l Pair by (auto simp: loadPricingData_def dest!: price_frame split: sum.splits)
  next
    case True
    then obtain b data where b: "body = Inr b" "parsePricingData E b = Inr data" by blast
    then obtain source d1 so1 s2 s3 u where m: "mergeFallbackPricingDataWithSources E data (newPricingSourceMap data source) s2 = ((d1, so1), s3)"
        "si_Type source \<in> {RemoteCatalog, CachedRemoteCatalog, BundledCatalog}"
      and st: "r = Inr ()" "st' = s3\<lparr>ps_pricingData := d1, ps_pricingSources := so1, ps_localHash := pe_sha256 E b, ps_lastUpdated := Some u\<rparr>"
      using l Pair by (fastforce simp: loadPricingData_def Let_def split: prod.splits sum.splits if_splits)
    show ?thesis using merge_ok [OF E _ _ _ m(2,1)] parsed_prices [OF E b(2)] st by (simp add: priced_def)
  qed
qed

lemma download_frame:
  assumes E: "decodes_maps E" and d: "downloadPricingData E st = (r, st')"
  shows "case r of Inl _ \<Rightarrow> priced st' = priced st | Inr _ \<Rightarrow> list_ok (priced st')"
proof (cases r)
  case (Inl err)
  then show ?thesis using d
    by (auto simp: downloadPricingData_def Let_def dest!: price_frame split: prod.splits sum.splits)
next
  case (Inr x)
  obtain source data d1 so1 s2 s3 b u h where
    m: "mergeFallbackPricingDataWithSources E data (newPricingSourceMap data source) s2 = ((d1, so1), s3)"
      "si_Type source \<in> {RemoteCatalog, CachedRemoteCatalog, BundledCatalog}" "parsePricingData E b = Inr data"
    and st: "priced st' = (d1, so1, u, h)"
    using d Inr by (fastforce simp: downloadPricingData_def priced_def Let_def split: prod.splits sum.splits)
  show ?thesis using merge_ok [OF E _ _ _ m(2,1)] parsed_prices [OF E m(3)] st Inr by simp
qed


text \<open>The outcome of a refresh: a failure changes nothing, a success keeps the list or replaces it by a consistent one.\<close>

definition refresh_ok :: "pricing_state \<Rightarrow> 'a result \<times> pricing_state \<Rightarrow> bool" where
  "refresh_ok st o1 = (case o1 of
     (Inl _, st') \<Rightarrow> priced st' = priced st
   | (Inr _, st') \<Rightarrow> priced st' = priced st \<or> list_ok (priced st'))"

lemma refresh_okI: "(case r of Inl _ \<Rightarrow> priced st' = priced st | Inr _ \<Rightarrow> list_ok (priced st')) \<Longrightarrow> refresh_ok st (r, st')"
  by (auto simp: refresh_ok_def split: sum.splits)

lemma refresh_ok_cong: "priced s = priced st \<Longrightarrow> refresh_ok s o1 \<Longrightarrow> refresh_ok st o1"
  by (auto simp: refresh_ok_def split: prod.splits sum.splits)

lemma download_ok: "decodes_maps E \<Longrightarrow> priced s = priced st \<Longrightarrow> refresh_ok st (downloadPricingData E s)"
  using refresh_okI [OF download_frame] refresh_ok_cong by (metis surj_pair)

lemma sync_ok: "decodes_maps E \<Longrightarrow> refresh_ok st (syncWithRemote E st)"
  by (auto simp: syncWithRemote_def Let_def refresh_ok_def [of _ "(Inr (), _)"] dest!: price_frame intro!: download_ok
      split: prod.splits sum.splits)

lemma update_loaded_ok:
  assumes E: "decodes_maps E" and st: "list_ok (priced st)"
  shows "list_ok (priced (update_loaded E st))"
proof -
  have d: "list_ok (priced (snd (downloadPricingData E s)))" if "priced s = priced st" for s
    using download_ok [OF E that] st by (auto simp: refresh_ok_def split: prod.splits sum.splits)
  show ?thesis using st
    by (auto simp: update_loaded_def Let_def dest!: price_frame intro!: d split: prod.splits sum.splits)
qed

text \<open>Starting the service: a success leaves a consistent list, a failure none.\<close>

definition start_ok :: "pricing_state \<Rightarrow> 'a result \<times> pricing_state \<Rightarrow> bool" where
  "start_ok st o1 = (case o1 of (Inl _, st') \<Rightarrow> priced st' = priced st | (Inr _, st') \<Rightarrow> list_ok (priced st'))"

lemma start_ok_cong: "priced s = priced st \<Longrightarrow> start_ok s o1 \<Longrightarrow> start_ok st o1"
  by (auto simp: start_ok_def split: prod.splits sum.splits)

lemma start_okI: "decodes_maps E \<Longrightarrow> start_ok st (downloadPricingData E st)" "decodes_maps E \<Longrightarrow> start_ok st (loadPricingData E path st)"
  using download_frame [of E st] load_frame [of E path st]
  by (cases "downloadPricingData E st"; cases "loadPricingData E path st"; auto simp: start_ok_def split: sum.splits)+

lemma check_ok:
  assumes E: "decodes_maps E" shows "start_ok st (checkAndUpdatePricing E st)"
proof -
  obtain found s1 where s1: "StatFile (pe_pricingFile E) st = (found, s1)" by fastforce
  then have f1: "priced s1 = priced st" by (rule price_frame)
  obtain r s2 where s2: "loadPricingData E (pe_pricingFile E) s1 = (r, s2)" by fastforce
  have l: "start_ok s1 (r, s2)" using start_okI(2) [OF E] s2 by metis
  show ?thesis
  proof (cases "found = Inl ErrNotExist \<or> (\<exists>e. r = Inl e)")
    case True
    then obtain s where "checkAndUpdatePricing E st = downloadPricingData E s" "priced s = priced st"
      using s1 s2 l f1
      by (cases r; cases "found = Inl ErrNotExist") (auto simp: checkAndUpdatePricing_def start_ok_def)
    then show ?thesis using start_ok_cong [OF _ start_okI(1) [OF E]] by metis
  next
    case False
    then obtain x where x: "r = Inr x" by (cases r) auto
    then show ?thesis using False s1 s2 l update_loaded_ok [OF E] by (simp add: checkAndUpdatePricing_def start_ok_def)
  qed
qed

lemma fallback_ok: "decodes_maps E \<Longrightarrow> start_ok st (useFallbackPricing E st)"
  by (auto simp: useFallbackPricing_def start_ok_def [of _ "(Inl _, _)"] dest!: price_frame
      intro!: start_ok_cong [OF _ start_okI(2)] split: prod.splits sum.splits)

lemma Initialize_ok: "decodes_maps E \<Longrightarrow> start_ok st (Initialize E st)"
  using check_ok [of E st] fallback_ok [of E "snd (checkAndUpdatePricing E st)"]
  by (auto simp: Initialize_def start_ok_def split: prod.splits sum.splits)


section \<open>Every run of the service\<close>

text \<open>
  A step of the running service: it is started, its scheduler compares with the remote list, an
  administrator forces an update, or files, network and clock change in any way.
\<close>

inductive price_step :: "price_env \<Rightarrow> pricing_state \<Rightarrow> pricing_state \<Rightarrow> bool" for E where
  start: "Initialize E st = (r, st') \<Longrightarrow> price_step E st st'"
| sync: "syncWithRemote E st = (r, st') \<Longrightarrow> price_step E st st'"
| force: "ForceUpdate E st = (r, st') \<Longrightarrow> price_step E st st'"
| world: "priced st' = priced st \<Longrightarrow> price_step E st st'"

lemma price_step_ok: "price_step E st st' \<Longrightarrow> decodes_maps E \<Longrightarrow> priced st' = priced st \<or> list_ok (priced st')"
proof (induction rule: price_step.induct)
  case (start st r st')
  then show ?case using Initialize_ok [of E st] by (auto simp: start_ok_def split: sum.splits)
next
  case (sync st r st')
  then show ?case using sync_ok [of E st] by (auto simp: refresh_ok_def split: sum.splits)
next
  case (force st r st')
  then show ?case using download_ok [of E st st] by (auto simp: ForceUpdate_def refresh_ok_def split: sum.splits)
qed simp

lemma price_run_ok: "(price_step E)\<^sup>*\<^sup>* st st' \<Longrightarrow> decodes_maps E \<Longrightarrow> priced st' = priced st \<or> list_ok (priced st')"
  by (induction rule: rtranclp_induct) (auto dest: price_step_ok)

lemma listed_source:
  assumes "list_ok (priced st)" "listed st name"
  obtains l where "catalogLookupLocked st name = Some l" "si_MatchedModel (lk_Source l) = name"
    "si_Type (lk_Source l) \<in> {RemoteCatalog, CachedRemoteCatalog, BundledCatalog}"
proof -
  obtain p where p: "map_of (ps_pricingData st) name = Some p" using assms(2) by (auto simp: listed_def)
  then have "name \<in> set (map fst (ps_pricingSources st))"
    using assms(1) by (auto simp: list_ok_def priced_def dest: map_of_SomeD intro: image_eqI [where x = "(name, p)"])
  then obtain so where so: "map_of (ps_pricingSources st) name = Some so"
    by (metis map_of_eq_None_iff not_None_eq set_map)
  then have "si_Type so \<in> {RemoteCatalog, CachedRemoteCatalog, BundledCatalog}"
    using assms(1) map_of_SomeD [OF so] by (auto simp: list_ok_def priced_def list_all_iff)
  then show thesis using that p so by (simp add: catalogLookupLocked_def)
qed

text \<open>
  C11. Prices are never lost, and a failed refresh changes nothing. A start that succeeds leaves a list with
  prices; from then on, whatever steps follow, with any failing files and downloads, the list is not empty,
  lists every model once and knows for each where its price comes from. A start, a scheduled refresh or a
  forced update that reports an error leaves list, sources, hash and time stamp as they were.
\<close>

theorem prices_never_lost:
  assumes E: "decodes_maps E"
  shows "(Initialize E st = (Inr (), st1) \<and> (price_step E)\<^sup>*\<^sup>* st1 st2 \<longrightarrow>
      ps_pricingData st2 \<noteq> [] \<and> distinct (map fst (ps_pricingData st2)) \<and>
      (\<forall>name. listed st2 name \<longrightarrow> (\<exists>l. catalogLookupLocked st2 name = Some l \<and>
        si_MatchedModel (lk_Source l) = name \<and> si_Type (lk_Source l) \<noteq> SourceUnavailable))) \<and>
    (\<forall>refresh \<in> {Initialize E, syncWithRemote E, ForceUpdate E}. \<forall>err st'. refresh st = (Inl err, st') \<longrightarrow> priced st' = priced st)"
proof (intro conjI impI)
  assume a: "Initialize E st = (Inr (), st1) \<and> (price_step E)\<^sup>*\<^sup>* st1 st2"
  then have "list_ok (priced st1)" using Initialize_ok [OF E, of st] by (simp add: start_ok_def)
  then have ok: "list_ok (priced st2)" using price_run_ok [OF conjunct2 [OF a] E] by auto
  then show "ps_pricingData st2 \<noteq> []" "distinct (map fst (ps_pricingData st2))" by (auto simp: list_ok_def priced_def)
  show "\<forall>name. listed st2 name \<longrightarrow> (\<exists>l. catalogLookupLocked st2 name = Some l \<and> si_MatchedModel (lk_Source l) = name \<and>
      si_Type (lk_Source l) \<noteq> SourceUnavailable)"
    using listed_source [OF ok] by (metis PricingSourceType.distinct(7,13,17) insertE singletonD)
next
  show "\<forall>refresh \<in> {Initialize E, syncWithRemote E, ForceUpdate E}. \<forall>err st'. refresh st = (Inl err, st') \<longrightarrow> priced st' = priced st"
    using Initialize_ok [OF E, of st] sync_ok [OF E, of st] download_ok [OF E, of st st]
    by (auto simp: ForceUpdate_def start_ok_def refresh_ok_def)
qed


text \<open>A service with a local file, whose decoder finds one model in every file.\<close>

definition demo_entry :: LiteLLMRawEntry where
  "demo_entry = \<lparr>re_InputCostPerToken = Some (Fin 5), re_InputCostPerTokenPriority = None, re_OutputCostPerToken = Some (Fin 25),
     re_OutputCostPerTokenPriority = None, re_CacheCreationInputTokenCost = None,
     re_CacheCreationInputTokenCostPriority = None, re_CacheCreationInputTokenCostAbove1hr = None,
     re_CacheReadInputTokenCost = None, re_CacheReadInputTokenCostPriority = None,
     re_LongContextInputTokenThreshold = None, re_LongContextInputCostMultiplier = None,
     re_LongContextOutputCostMultiplier = None, re_SupportsServiceTier = False, re_LiteLLMProvider = ''anthropic'',
     re_Mode = ''chat'', re_SupportsPromptCaching = False, re_OutputCostPerImage = None,
     re_OutputCostPerImageToken = None, re_InputCostPerImageToken = None\<rparr>"

definition demo_env :: price_env where
  "demo_env = \<lparr>pe_unicode = ascii_tables, pe_decode = (\<lambda>body. Inr [(''claude-opus-4-8'', Some demo_entry)]), pe_sha256 = (\<lambda>s. s),
     pe_validURL = Inr, pe_RemoteURL = ''remote'', pe_HashURL = ''hash'', pe_FallbackFile = '''', pe_pricingFile = ''prices'',
     pe_hashFile = ''hash'', pe_UpdateIntervalHours = 24\<rparr>"

definition demo_state :: pricing_state where
  "demo_state = \<lparr>ps_pricingData = [], ps_pricingSources = [], ps_lastUpdated = None, ps_localHash = '''',
     ps_files = (\<lambda>path. if path = ''prices'' then Some (''a'', 0) else None), ps_io_fault = (\<lambda>_. None), ps_io = 0,
     ps_torn = (\<lambda>_. None), ps_fetch = (\<lambda>n url. if n = 0 then Inr ''b'' else Inl ErrNotExist), ps_calls = 0,
     ps_clock = (\<lambda>_. 7), ps_tick = 0\<rparr>"

theorem prices_never_lost_witness:
  "\<exists>st1. Initialize demo_env demo_state = (Inr (), st1) \<and> ps_pricingData (snd (syncWithRemote demo_env st1)) \<noteq> []"
proof -
  have E: "decodes_maps demo_env" by (simp add: decodes_maps_def demo_env_def)
  have "fst (Initialize demo_env demo_state) = Inr ()" by code_simp
  then obtain st1 where st1: "Initialize demo_env demo_state = (Inr (), st1)" by (metis prod.collapse)
  have "(price_step demo_env)\<^sup>*\<^sup>* st1 (snd (syncWithRemote demo_env st1))"
    by (rule r_into_rtranclp, rule price_step.sync) (rule prod.collapse [symmetric])
  then show ?thesis using prices_never_lost [OF E, of demo_state st1] st1 by blast
qed

section \<open>The order of a map\<close>

definition opus_price :: "rat \<Rightarrow> LiteLLMModelPricing" where
  "opus_price v = no_litellm\<lparr>ll_InputCostPerToken := Fin v\<rparr>"

text \<open>
  C40. The comment in \<open>matchByModelFamily\<close> says that walking a map in random order was repaired by an ordered
  list of families. The last phase still walks the price list, a Go map, and returns the first key that
  contains the pattern: for one and the same list the price depends on the order. The two keys are keys of
  the bundled price list.
\<close>

theorem family_price_depends_on_order:
  "\<exists>d1 d2. mset d1 = mset d2 \<and> distinct (map fst d1) \<and>
     map_option ll_InputCostPerToken (list_GetModelPricing ascii_tables (demo_state\<lparr>ps_pricingData := d1\<rparr>) ''claude-3-opus-latest'') = Some (Fin 15) \<and>
     map_option ll_InputCostPerToken (list_GetModelPricing ascii_tables (demo_state\<lparr>ps_pricingData := d2\<rparr>) ''claude-3-opus-latest'') = Some (Fin 5)"
proof -
  let ?a = "(''claude-opus-4-1'', opus_price 15)" and ?b = "(''claude-opus-4-8'', opus_price 5)"
  have 1: "map_option ll_InputCostPerToken (list_GetModelPricing ascii_tables (demo_state\<lparr>ps_pricingData := [?a, ?b]\<rparr>)
      ''claude-3-opus-latest'') = Some (Fin 15)" by code_simp
  have 2: "map_option ll_InputCostPerToken (list_GetModelPricing ascii_tables (demo_state\<lparr>ps_pricingData := [?b, ?a]\<rparr>)
      ''claude-3-opus-latest'') = Some (Fin 5)" by code_simp
  show ?thesis by (rule exI [of _ "[?a, ?b]"], rule exI [of _ "[?b, ?a]"]) (simp add: 1 2)
qed

end
